(* ===== verification/JS_Strings.thy ===== *)
theory JS_Strings
  imports Prelude
begin

text \<open>
  The JavaScript string operations the sources use, on lists of code units below 256.
  Every function is total and says what the source's operation returns out of range:
  \<open>indexOf\<close> gives \<open>-1\<close>, \<open>substring\<close> clamps, \<open>split\<close> on a missing separator
  gives the whole string.
  The last section holds the fragment of regular expressions the drivers build from
  configured dataset names (literal characters, the wildcard and the plus sign).
\<close>

section \<open>Searching\<close>

definition starts_with :: "string \<Rightarrow> string \<Rightarrow> bool" where
  "starts_with s p \<longleftrightarrow> take (length p) s = p"

definition ends_with :: "string \<Rightarrow> string \<Rightarrow> bool" where
  "ends_with s p \<longleftrightarrow> length p \<le> length s \<and> drop (length s - length p) s = p"

fun find_at :: "string \<Rightarrow> string \<Rightarrow> nat option" where
  "find_at [] p = (if p = [] then Some 0 else None)"
| "find_at (c # s) p = (if starts_with (c # s) p then Some 0 else map_option Suc (find_at s p))"

definition contains :: "string \<Rightarrow> string \<Rightarrow> bool" where
  "contains s p \<longleftrightarrow> find_at s p \<noteq> None"

definition index_of :: "string \<Rightarrow> string \<Rightarrow> int" where
  "index_of s p = (case find_at s p of None \<Rightarrow> -1 | Some i \<Rightarrow> int i)"

text \<open>\<open>substring a b\<close> with both bounds, negative bounds clamped to 0 and swapped when reversed.\<close>

definition substring :: "string \<Rightarrow> int \<Rightarrow> int \<Rightarrow> string" where
  "substring s a b =
     (let n = int (length s); x = min (max a 0) n; y = min (max b 0) n;
          lo = min x y; hi = max x y
      in take (nat (hi - lo)) (drop (nat lo) s))"

definition substring_from :: "string \<Rightarrow> int \<Rightarrow> string" where
  "substring_from s a = substring s a (int (length s))"

section \<open>Splitting, joining, trimming\<close>

fun split_ch :: "char \<Rightarrow> string \<Rightarrow> string list" where
  "split_ch d [] = [[]]"
| "split_ch d (c # s) =
     (if c = d then [] # split_ch d s
      else (case split_ch d s of [] \<Rightarrow> [[c]] | w # ws \<Rightarrow> (c # w) # ws))"

fun join :: "string \<Rightarrow> string list \<Rightarrow> string" where
  "join d [] = []"
| "join d [w] = w"
| "join d (w # v # ws) = w @ d @ join d (v # ws)"

definition is_space :: "char \<Rightarrow> bool" where
  "is_space c \<longleftrightarrow> (of_char c :: nat) \<in> {9, 10, 11, 12, 13, 32, 160}"

definition trim :: "string \<Rightarrow> string" where
  "trim s = rev (dropWhile is_space (rev (dropWhile is_space s)))"

definition lower_ch :: "char \<Rightarrow> char" where
  "lower_ch c =
     (let n = (of_char c :: nat)
      in if (65 \<le> n \<and> n \<le> 90) \<or> (192 \<le> n \<and> n \<le> 222 \<and> n \<noteq> 215) then char_of (n + 32) else c)"

definition to_lower :: "string \<Rightarrow> string" where
  "to_lower = map lower_ch"

text \<open>Replacing every occurrence of one character by a string.\<close>

definition replace_ch :: "char \<Rightarrow> string \<Rightarrow> string \<Rightarrow> string" where
  "replace_ch d r s = concat (map (\<lambda>c. if c = d then r else [c]) s)"

section \<open>Character classes\<close>

definition is_lower_alpha :: "char \<Rightarrow> bool" where
  "is_lower_alpha c \<longleftrightarrow> 97 \<le> (of_char c :: nat) \<and> (of_char c :: nat) \<le> 122"

definition is_alpha :: "char \<Rightarrow> bool" where
  "is_alpha c \<longleftrightarrow> is_lower_alpha c \<or> (65 \<le> (of_char c :: nat) \<and> (of_char c :: nat) \<le> 90)"

definition is_alnum :: "char \<Rightarrow> bool" where
  "is_alnum c \<longleftrightarrow> is_alpha c \<or> is_digit c"

text \<open>Distinct elements in order of first occurrence, as iterating a \<open>Set\<close> built from a list gives.\<close>

fun uniq :: "'a list \<Rightarrow> 'a list" where
  "uniq [] = []"
| "uniq (x # xs) = x # filter (\<lambda>y. y \<noteq> x) (uniq xs)"

text \<open>Ordering of strings by code unit, the \<open><\<close> of two string operands.\<close>

fun str_less :: "string \<Rightarrow> string \<Rightarrow> bool" where
  "str_less [] [] = False"
| "str_less [] (_ # _) = True"
| "str_less (_ # _) [] = False"
| "str_less (a # s) (b # t) =
     ((of_char a :: nat) < of_char b \<or> (a = b \<and> str_less s t))"

section \<open>Lemmas\<close>

lemma starts_with_iff_prefix: "starts_with s p \<longleftrightarrow> (\<exists>r. s = p @ r)"
proof
  assume "starts_with s p"
  then have "s = p @ drop (length p) s"
    unfolding starts_with_def by (metis append_take_drop_id)
  then show "\<exists>r. s = p @ r" by blast
qed (auto simp: starts_with_def)

lemma starts_with_append [simp]: "starts_with (p @ r) p"
  by (simp add: starts_with_def)

lemma starts_with_refl [simp]: "starts_with p p"
  by (simp add: starts_with_def)

lemma starts_with_same_prefix: "starts_with (d @ a) (d @ b) \<longleftrightarrow> starts_with a b"
  by (simp add: starts_with_def)

lemma ends_with_iff_suffix: "ends_with s p \<longleftrightarrow> (\<exists>r. s = r @ p)"
proof
  assume "ends_with s p"
  then have "s = take (length s - length p) s @ p"
    unfolding ends_with_def by (metis append_take_drop_id)
  then show "\<exists>r. s = r @ p" by blast
qed (auto simp: ends_with_def)

lemma contains_iff: "contains s p \<longleftrightarrow> (\<exists>a b. s = a @ p @ b)"
proof (induction s)
  case Nil
  then show ?case by (simp add: contains_def)
next
  case (Cons c s)
  show ?case
  proof
    assume "contains (c # s) p"
    then consider "starts_with (c # s) p" | "contains s p"
      by (auto simp: contains_def split: if_splits)
    then show "\<exists>a b. c # s = a @ p @ b"
    proof cases
      case 1
      then show ?thesis by (metis append_Nil starts_with_iff_prefix)
    next
      case 2
      then show ?thesis using Cons.IH by (metis append_Cons)
    qed
  next
    assume "\<exists>a b. c # s = a @ p @ b"
    then obtain a b where ab: "c # s = a @ p @ b" by blast
    show "contains (c # s) p"
    proof (cases a)
      case Nil
      with ab have "starts_with (c # s) p" by (auto simp: starts_with_iff_prefix)
      then show ?thesis by (simp add: contains_def)
    next
      case (Cons x a')
      with ab have "s = a' @ p @ b" by simp
      then have "contains s p" using Cons.IH by blast
      then show ?thesis by (auto simp: contains_def)
    qed
  qed
qed

lemma contains_single: "contains s [c] \<longleftrightarrow> c \<in> set s"
  unfolding contains_iff by (metis append_Cons append_Nil in_set_conv_decomp)

lemma contains_append_mid [simp]: "contains (a @ p @ b) p"
  unfolding contains_iff by blast

lemma find_at_single_append:
  "c \<notin> set a \<Longrightarrow> find_at (a @ c # b) [c] = Some (length a)"
  by (induction a) (auto simp: starts_with_def)

lemma find_at_single_None: "find_at s [c] = None \<longleftrightarrow> c \<notin> set s"
  using contains_single [of s c] by (cases "find_at s [c]") (simp_all add: contains_def)

lemma substring_prefix [simp]: "substring (a @ b) 0 (int (length a)) = a"
  by (simp add: substring_def Let_def)

lemma substring_from_append: "n = int (length a) \<Longrightarrow> substring_from (a @ b) n = b"
  by (simp add: substring_def substring_from_def Let_def)

lemma split_ch_nonempty [simp]: "split_ch d s \<noteq> []"
  by (induction s) (auto split: list.splits)

lemma split_ch_no_sep: "d \<notin> set s \<Longrightarrow> split_ch d s = [s]"
  by (induction s) auto

lemma split_ch_append_sep: "d \<notin> set w \<Longrightarrow> split_ch d (w @ d # s) = w # split_ch d s"
  by (induction w) auto

lemma split_ch_fields_no_sep: "w \<in> set (split_ch d s) \<Longrightarrow> d \<notin> set w"
  by (induction s arbitrary: w) (auto split: list.splits if_splits)

lemma join_split_ch: "join [d] (split_ch d s) = s"
proof (induction s)
  case (Cons c s)
  then show ?case
    by (cases "split_ch d s"; cases "tl (split_ch d s)") auto
qed simp

lemma split_join_ch:
  "ws \<noteq> [] \<Longrightarrow> \<forall>w\<in>set ws. d \<notin> set w \<Longrightarrow> split_ch d (join [d] ws) = ws"
proof (induction "[d]" ws rule: join.induct)
  case (3 w v ws)
  then show ?case by (simp add: split_ch_append_sep)
qed (simp_all add: split_ch_no_sep)

lemma set_uniq [simp]: "set (uniq xs) = set xs"
  by (induction xs) auto

lemma distinct_uniq [simp]: "distinct (uniq xs)"
  by (induction xs) auto

lemma uniq_distinct_id: "distinct xs \<Longrightarrow> uniq xs = xs"
  by (induction xs) (auto simp: filter_id_conv)

lemma str_less_irrefl [simp]: "\<not> str_less s s"
  by (induction s) auto

lemma dropWhile_hd: "s = [] \<or> \<not> P (hd s) \<Longrightarrow> dropWhile P s = s"
  by (cases s) auto

lemma trim_id: "s = [] \<or> (\<not> is_space (hd s) \<and> \<not> is_space (last s)) \<Longrightarrow> trim s = s"
  by (auto simp: trim_def dropWhile_hd hd_rev)

lemma length_trim_le: "length (trim s) \<le> length s"
  unfolding trim_def by (metis length_dropWhile_le length_rev order_trans)

lemma replace_ch_absent: "d \<notin> set s \<Longrightarrow> replace_ch d r s = s"
  by (induction s) (auto simp: replace_ch_def)

lemma replace_ch_Cons: "replace_ch d r (c # s) = (if c = d then r else [c]) @ replace_ch d r s"
  by (simp add: replace_ch_def)

lemma digit_not_space: "is_digit c \<Longrightarrow> \<not> is_space c"
  by (auto simp: is_digit_def is_space_def)

section \<open>The regular expressions built from dataset names\<close>

text \<open>
  \<open>new RegExp("^" + datasetName + "/")\<close> and \<open>new RegExp("/" + name + "$")\<close>: the name
  is not escaped, so a dot in it is a wildcard and a plus sign repeats the item before it.
  These are the two characters a zfs dataset or a snapshot name may hold that mean
  something in a regular expression. \<open>re_parse\<close> gives None outside this fragment.
\<close>

datatype ritem = Lit char | AnyCh | Plus ritem | AtEnd

fun re_item :: "char \<Rightarrow> ritem option" where
  "re_item c =
     (if c = CHR ''.'' then Some AnyCh
      else if c \<in> set ''^$*?()[]{}|+'' \<or> c = CHR 0x5C then None
      else Some (Lit c))"

fun re_parse :: "string \<Rightarrow> ritem list option" where
  "re_parse [] = Some []"
| "re_parse (c # s) =
     (case re_item c of
        None \<Rightarrow> None
      | Some i \<Rightarrow>
          (case s of
             d # s' \<Rightarrow> (if d = CHR ''+'' then map_option (\<lambda>ps. Plus i # ps) (re_parse s')
                         else map_option (\<lambda>ps. i # ps) (re_parse s))
           | [] \<Rightarrow> Some [i]))"

definition is_eol :: "char \<Rightarrow> bool" where
  "is_eol c \<longleftrightarrow> (of_char c :: nat) \<in> {10, 13}"

fun item_ok :: "ritem \<Rightarrow> char \<Rightarrow> bool" where
  "item_ok (Lit d) c = (c = d)"
| "item_ok AnyCh c = (\<not> is_eol c)"
| "item_ok (Plus i) c = item_ok i c"
| "item_ok AtEnd c = False"

text \<open>The rest of the input after the leftmost greedy match at the start, with backtracking.\<close>

function re_match :: "ritem list \<Rightarrow> string \<Rightarrow> string option" where
  "re_match [] s = Some s"
| "re_match (AtEnd # ps) s = (if s = [] then re_match ps s else None)"
| "re_match (Plus i # ps) s =
     (case s of
        [] \<Rightarrow> None
      | c # r \<Rightarrow>
          (if item_ok i c
           then (case re_match (Plus i # ps) r of Some t \<Rightarrow> Some t | None \<Rightarrow> re_match ps r)
           else None))"
| "re_match (Lit d # ps) s =
     (case s of [] \<Rightarrow> None | c # r \<Rightarrow> if item_ok (Lit d) c then re_match ps r else None)"
| "re_match (AnyCh # ps) s =
     (case s of [] \<Rightarrow> None | c # r \<Rightarrow> if item_ok AnyCh c then re_match ps r else None)"
  by pat_completeness auto
termination
  by (relation "measures [\<lambda>(ps, s). length ps + length s]") auto

text \<open>Replacing the first match of an unanchored pattern by nothing.\<close>

fun re_strip :: "ritem list \<Rightarrow> string \<Rightarrow> string" where
  "re_strip ps s =
     (case re_match ps s of
        Some t \<Rightarrow> t
      | None \<Rightarrow> (case s of [] \<Rightarrow> [] | c # r \<Rightarrow> c # re_strip ps r))"

declare re_strip.simps [simp del]

definition replace_prefix_re :: "string \<Rightarrow> string \<Rightarrow> string option" where
  "replace_prefix_re pat s =
     map_option (\<lambda>ps. case re_match ps s of Some t \<Rightarrow> t | None \<Rightarrow> s) (re_parse pat)"

definition replace_suffix_re :: "string \<Rightarrow> string \<Rightarrow> string option" where
  "replace_suffix_re pat s = map_option (\<lambda>ps. re_strip (ps @ [AtEnd]) s) (re_parse pat)"

text \<open>On a name without special characters the pattern matches exactly the name.\<close>

definition re_plain_ch :: "char \<Rightarrow> bool" where
  "re_plain_ch c \<longleftrightarrow> c \<notin> set ''.^$*?()[]{}|+'' \<and> c \<noteq> CHR 0x5C"

lemma re_parse_plain: "list_all re_plain_ch s \<Longrightarrow> re_parse s = Some (map Lit s)"
proof (induction s rule: re_parse.induct)
  case (2 c s)
  then show ?case by (cases s) (auto simp: re_plain_ch_def)
qed simp

lemma re_match_lits: "re_match (map Lit p) s = (if starts_with s p then Some (drop (length p) s) else None)"
  by (induction p arbitrary: s) (auto simp: starts_with_def split: list.splits)

lemma replace_prefix_plain:
  "list_all re_plain_ch p \<Longrightarrow> replace_prefix_re p (p @ s) = Some s"
  by (simp add: replace_prefix_re_def re_parse_plain re_match_lits)

section \<open>Decimal texts\<close>

text \<open>On decimal texts of one length the order of the texts is the order of the numbers.\<close>

lemma parse_nat_from: "foldl (\<lambda>a c. 10 * a + digit_val c) n s = n * 10 ^ length s + parse_nat s"
proof (induction s arbitrary: n)
  case (Cons c s)
  show ?case using Cons [of "10 * n + digit_val c"] Cons [of "digit_val c"]
    by (simp add: parse_nat_def algebra_simps)
qed (simp add: parse_nat_def)

lemma parse_nat_Cons: "parse_nat (c # s) = digit_val c * 10 ^ length s + parse_nat s"
  using parse_nat_from [of "digit_val c" s] by (simp add: parse_nat_def)

lemma digit_val_less: "is_digit c \<Longrightarrow> digit_val c < 10"
  by (auto simp: is_digit_def digit_val_def)

lemma parse_nat_less: "list_all is_digit s \<Longrightarrow> parse_nat s < 10 ^ length s"
proof (induction s)
  case (Cons c s)
  then have "parse_nat s < 10 ^ length s" and "digit_val c \<le> 9" using digit_val_less [of c] by auto
  moreover from this(2) have "digit_val c * 10 ^ length s \<le> 9 * 10 ^ length s" by (rule mult_le_mono1)
  ultimately show ?case unfolding parse_nat_Cons length_Cons power_Suc by linarith
qed (simp add: parse_nat_def)

lemma digit_val_order:
  assumes "is_digit c" and "is_digit d"
  shows "(of_char c :: nat) < of_char d \<longleftrightarrow> digit_val c < digit_val d" and "digit_val c = digit_val d \<longleftrightarrow> c = d"
proof -
  show "(of_char c :: nat) < of_char d \<longleftrightarrow> digit_val c < digit_val d"
    using assms by (auto simp: is_digit_def digit_val_def)
  have "digit_val c = digit_val d \<longleftrightarrow> (of_char c :: nat) = of_char d"
    unfolding digit_val_def using assms by (intro eq_diff_iff) (simp_all add: is_digit_def)
  then show "digit_val c = digit_val d \<longleftrightarrow> c = d" by (simp only: of_char_eq_iff)
qed

lemma str_less_digits:
  assumes "length s = length t" and "list_all is_digit s" and "list_all is_digit t"
  shows "str_less s t \<longleftrightarrow> parse_nat s < parse_nat t"
  using assms
proof (induction s t rule: list_induct2)
  case (Cons c s d t)
  have below: "digit_val a * 10 ^ n + x < digit_val b * 10 ^ n + y"
    if "digit_val a < digit_val b" "x < 10 ^ n" for a b x y and n :: nat
  proof -
    have "digit_val a * 10 ^ n + x < Suc (digit_val a) * 10 ^ n" using that(2) by simp
    also have "\<dots> \<le> digit_val b * 10 ^ n" using that(1) by (intro mult_le_mono1) simp
    finally show ?thesis by simp
  qed
  have st: "parse_nat s < 10 ^ length s" "parse_nat t < 10 ^ length s"
    using Cons.prems Cons.hyps parse_nat_less [of s] parse_nat_less [of t] by auto
  note o' = digit_val_order [of c d]
  consider "digit_val c < digit_val d" | "digit_val d < digit_val c" | "c = d"
    using o' Cons.prems by force
  then show ?case
  proof cases
    case 1
    with o' Cons.prems below [OF 1 st(1), of "parse_nat t"] Cons.hyps show ?thesis
      by (simp add: parse_nat_Cons)
  next
    case 2
    with o' Cons.prems below [OF 2 st(2), of "parse_nat s"] Cons.hyps show ?thesis
      by (auto simp: parse_nat_Cons)
  next
    case 3
    with Cons show ?thesis by (simp add: parse_nat_Cons)
  qed
qed simp

end
