(* ===== verification/JS_Values.thy ===== *)
theory JS_Values
  imports JS_Strings "HOL-Library.AList"
begin

text \<open>
  JavaScript values as the drivers meet them: configuration trees, request fields and
  zfs property values. Numbers are integers or \<open>NaN\<close>: the sources compute with byte
  counts, block sizes, ids and delays only, all exact in a double below \<open>2 ^ 53\<close>.
  Numeric strings are decimal integers; a string in another notation converts to \<open>NaN\<close>
  here (hexadecimal, fractional and exponent notation do not occur in \<open>zfs -p\<close> output
  nor in the int64 fields of a request). Objects are association lists in insertion order.
\<close>

datatype jnum = NaN | IntN int

datatype js = Undef | Null | Bool bool | Num jnum | Str string
  | Arr "js list" | Obj "(string \<times> js) list"

type_synonym jsobj = "(string \<times> js) list"

section \<open>Conversions\<close>

fun truthy :: "js \<Rightarrow> bool" where
  "truthy Undef = False"
| "truthy Null = False"
| "truthy (Bool b) = b"
| "truthy (Num NaN) = False"
| "truthy (Num (IntN i)) = (i \<noteq> 0)"
| "truthy (Str s) = (s \<noteq> [])"
| "truthy (Arr _) = True"
| "truthy (Obj _) = True"

fun num_to_string :: "jnum \<Rightarrow> string" where
  "num_to_string NaN = ''NaN''"
| "num_to_string (IntN i) = show_int i"

text \<open>\<open>String(v)\<close>; an array joins its elements with commas, empty for undefined and null.\<close>

fun to_str :: "js \<Rightarrow> string" where
  "to_str Undef = ''undefined''"
| "to_str Null = ''null''"
| "to_str (Bool b) = (if b then ''true'' else ''false'')"
| "to_str (Num n) = num_to_string n"
| "to_str (Str s) = s"
| "to_str (Arr xs) = join '','' (map (\<lambda>x. if x = Undef \<or> x = Null then [] else to_str x) xs)"
| "to_str (Obj _) = ''[object Object]''"

definition all_digits :: "string \<Rightarrow> bool" where
  "all_digits s \<longleftrightarrow> s \<noteq> [] \<and> list_all is_digit s"

definition str_to_num :: "string \<Rightarrow> jnum" where
  "str_to_num s =
     (let t = trim s in
      if t = [] then IntN 0
      else if hd t = CHR ''-'' \<and> all_digits (tl t) then IntN (- int (parse_nat (tl t)))
      else if hd t = CHR ''+'' \<and> all_digits (tl t) then IntN (int (parse_nat (tl t)))
      else if all_digits t then IntN (int (parse_nat t))
      else NaN)"

fun to_num :: "js \<Rightarrow> jnum" where
  "to_num Undef = NaN"
| "to_num Null = IntN 0"
| "to_num (Bool b) = IntN (if b then 1 else 0)"
| "to_num (Num n) = n"
| "to_num (Str s) = str_to_num s"
| "to_num (Arr xs) = str_to_num (to_str (Arr xs))"
| "to_num (Obj _) = NaN"

fun is_string :: "js \<Rightarrow> bool" where
  "is_string (Str _) = True"
| "is_string _ = False"

definition to_prim :: "js \<Rightarrow> js" where
  "to_prim v = (case v of Arr _ \<Rightarrow> Str (to_str v) | Obj _ \<Rightarrow> Str (to_str v) | _ \<Rightarrow> v)"

text \<open>The equations that evaluate a numeric string.\<close>

lemmas str_num_eval = str_to_num_def trim_def is_space_def all_digits_def is_digit_def
  parse_nat_def digit_val_def Let_def

section \<open>Comparison\<close>

fun num_less :: "jnum \<Rightarrow> jnum \<Rightarrow> bool" where
  "num_less (IntN a) (IntN b) = (a < b)"
| "num_less _ _ = False"

fun num_le :: "jnum \<Rightarrow> jnum \<Rightarrow> bool" where
  "num_le (IntN a) (IntN b) = (a \<le> b)"
| "num_le _ _ = False"

fun num_eq :: "jnum \<Rightarrow> jnum \<Rightarrow> bool" where
  "num_eq (IntN a) (IntN b) = (a = b)"
| "num_eq _ _ = False"

text \<open>\<open>a < b\<close>: code-unit order when both operands are strings, numeric otherwise.\<close>

definition js_less :: "js \<Rightarrow> js \<Rightarrow> bool" where
  "js_less a b =
     (case (to_prim a, to_prim b) of
        (Str s, Str t) \<Rightarrow> str_less s t
      | (x, y) \<Rightarrow> num_less (to_num x) (to_num y))"

definition js_greater :: "js \<Rightarrow> js \<Rightarrow> bool" where
  "js_greater a b = js_less b a"

definition js_ge :: "js \<Rightarrow> js \<Rightarrow> bool" where
  "js_ge a b =
     (case (to_prim a, to_prim b) of
        (Str s, Str t) \<Rightarrow> \<not> str_less s t
      | (x, y) \<Rightarrow> num_le (to_num y) (to_num x))"

fun nullish :: "js \<Rightarrow> bool" where
  "nullish Undef = True"
| "nullish Null = True"
| "nullish _ = False"

text \<open>
  \<open>a == b\<close> on primitive operands; an object against a primitive compares its string.
  Two objects are equal only when they are the same object, which no source compares.
\<close>

definition loose_eq :: "js \<Rightarrow> js \<Rightarrow> bool" where
  "loose_eq a b =
     (if nullish a \<or> nullish b then nullish a \<and> nullish b
      else case (to_prim a, to_prim b) of
        (Str s, Str t) \<Rightarrow> s = t
      | (x, y) \<Rightarrow> num_eq (to_num x) (to_num y))"

definition or_else :: "js \<Rightarrow> js \<Rightarrow> js" where
  "or_else a b = (if truthy a then a else b)"

section \<open>Objects\<close>

definition obj_get :: "jsobj \<Rightarrow> string \<Rightarrow> js" where
  "obj_get ob k = (case map_of ob k of None \<Rightarrow> Undef | Some v \<Rightarrow> v)"

definition obj_has :: "jsobj \<Rightarrow> string \<Rightarrow> bool" where
  "obj_has ob k \<longleftrightarrow> map_of ob k \<noteq> None"

text \<open>Assigning keeps the position of an existing key and appends a new one.\<close>

definition obj_set :: "string \<Rightarrow> 'v \<Rightarrow> (string \<times> 'v) list \<Rightarrow> (string \<times> 'v) list" where
  "obj_set k v ob = AList.update k v ob"

definition obj_delete :: "string \<Rightarrow> (string \<times> 'v) list \<Rightarrow> (string \<times> 'v) list" where
  "obj_delete k ob = AList.delete k ob"

text \<open>\<open>Object.assign(a, b)\<close>: the entries of \<open>b\<close> in their order.\<close>

fun obj_assign :: "(string \<times> 'v) list \<Rightarrow> (string \<times> 'v) list \<Rightarrow> (string \<times> 'v) list" where
  "obj_assign a [] = a"
| "obj_assign a ((k, v) # b) = obj_assign (obj_set k v a) b"

definition obj_keys :: "(string \<times> 'v) list \<Rightarrow> string list" where
  "obj_keys ob = map fst ob"

text \<open>Reading a property of undefined or null is a TypeError, given as None.\<close>

fun get_prop :: "js \<Rightarrow> string \<Rightarrow> js option" where
  "get_prop Undef k = None"
| "get_prop Null k = None"
| "get_prop (Obj ob) k = Some (obj_get ob k)"
| "get_prop _ k = Some Undef"

section \<open>Finite maps with string keys\<close>

text \<open>
  The contract of a keyed table that several components keep: the property objects, the
  lock table, the registry and the reaper's staleness map.
\<close>

locale keyed_table =
  fixes look :: "'m \<Rightarrow> 'k \<Rightarrow> 'v option"
    and put :: "'k \<Rightarrow> 'v \<Rightarrow> 'm \<Rightarrow> 'm"
    and del :: "'k \<Rightarrow> 'm \<Rightarrow> 'm"
    and none :: "'m"
  assumes look_none: "look none k = None"
    and look_put: "look (put k v m) j = (if j = k then Some v else look m j)"
    and look_del: "look (del k m) j = (if j = k then None else look m j)"
begin

text \<open>Writing one value under every key of a list, and removing every key of a list.\<close>

lemma look_put_all:
  "look (foldl (\<lambda>m k. put k v m) m ks) j = (if j \<in> set ks then Some v else look m j)"
  by (induction ks arbitrary: m) (auto simp: look_put)

lemma look_del_all:
  "look (foldl (\<lambda>m k. del k m) m ks) j = (if j \<in> set ks then None else look m j)"
  by (induction ks arbitrary: m) (auto simp: look_del)

text \<open>Removing the keys of a list on which a test of the current entry holds.\<close>

lemma look_del_if:
  "look (foldl (\<lambda>m k. case look m k of Some e \<Rightarrow> if Q e then del k m else m | None \<Rightarrow> m) m ks) j
   = (case look m j of
        Some e \<Rightarrow> if j \<in> set ks \<and> Q e then None else Some e
      | None \<Rightarrow> None)"
proof (induction ks arbitrary: m)
  case Nil
  then show ?case by (auto split: option.splits)
next
  case (Cons k ks)
  show ?case
    by (cases "look m k") (auto simp: Cons.IH look_del split: option.splits)
qed

text \<open>Later entries of a list of bindings win.\<close>

lemma look_put_list:
  "look (foldl (\<lambda>m (k, v). put k v m) m kvs) j =
     (case map_of (rev kvs) j of Some v \<Rightarrow> Some v | None \<Rightarrow> look m j)"
  by (induction kvs arbitrary: m) (auto simp: look_put split: option.splits)

end

lemma map_of_obj_set: "map_of (obj_set k v ob) j = (if j = k then Some v else map_of ob j)"
  by (simp add: obj_set_def update_conv')

lemma map_of_obj_delete: "map_of (obj_delete k ob) j = (if j = k then None else map_of ob j)"
  by (simp add: obj_delete_def delete_conv')

interpretation obj: keyed_table map_of obj_set obj_delete "[]"
  by unfold_locales (simp_all add: map_of_obj_set map_of_obj_delete)

lemma obj_assign_foldl: "obj_assign a b = foldl (\<lambda>m (k, v). obj_set k v m) a b"
  by (induction a b rule: obj_assign.induct) auto

lemma map_of_obj_assign:
  "map_of (obj_assign a b) j = (case map_of (rev b) j of Some v \<Rightarrow> Some v | None \<Rightarrow> map_of a j)"
  unfolding obj_assign_foldl by (rule obj.look_put_list)

lemma obj_assign_append: "obj_assign a (b @ c) = obj_assign (obj_assign a b) c"
  by (simp add: obj_assign_foldl)

lemma keys_obj_set: "fst ` set (obj_set k v ob) = insert k (fst ` set ob)"
  by (simp add: obj_set_def dom_update)

lemma keys_obj_delete: "fst ` set (obj_delete k ob) = fst ` set ob - {k}"
  unfolding obj_delete_def by (induction ob) auto

lemma keys_obj_assign: "fst ` set (obj_assign a b) = fst ` set a \<union> fst ` set b"
  by (induction a b rule: obj_assign.induct) (auto simp: keys_obj_set)

lemma distinct_obj_set: "distinct (map fst ob) \<Longrightarrow> distinct (map fst (obj_set k v ob))"
  by (simp add: obj_set_def distinct_update)

lemma distinct_obj_assign: "distinct (map fst a) \<Longrightarrow> distinct (map fst (obj_assign a b))"
  by (induction a b rule: obj_assign.induct) (auto simp: distinct_obj_set)

lemma distinct_obj_delete: "distinct (map fst ob) \<Longrightarrow> distinct (map fst (obj_delete k ob))"
  by (simp add: obj_delete_def distinct_delete)

lemma obj_get_set [simp]: "obj_get (obj_set k v ob) j = (if j = k then v else obj_get ob j)"
  by (simp add: obj_get_def map_of_obj_set)

lemma obj_get_delete [simp]: "obj_get (obj_delete k ob) j = (if j = k then Undef else obj_get ob j)"
  by (simp add: obj_get_def map_of_obj_delete)

lemma obj_get_notin: "j \<notin> fst ` set ob \<Longrightarrow> obj_get ob j = Undef"
  by (simp add: obj_get_def map_of_eq_None_iff [THEN iffD2])

section \<open>Lemmas on numbers and comparison\<close>

lemma js_less_Str [simp]: "js_less (Str a) (Str b) = str_less a b"
  by (simp add: js_less_def to_prim_def)

lemma js_less_Num_l [simp]: "js_less (Num a) b = num_less a (to_num (to_prim b))"
  by (simp add: js_less_def to_prim_def split: js.splits)

lemma js_less_Num_r [simp]: "js_less a (Num b) = num_less (to_num (to_prim a)) b"
  by (simp add: js_less_def to_prim_def split: js.splits)

lemma to_prim_simps [simp]:
  "to_prim (Str s) = Str s" "to_prim (Num n) = Num n" "to_prim Undef = Undef"
  "to_prim Null = Null" "to_prim (Bool b) = Bool b"
  by (simp_all add: to_prim_def)

lemma loose_eq_Str [simp]: "loose_eq (Str a) (Str b) = (a = b)"
  by (simp add: loose_eq_def)

lemma loose_eq_nullish_Str [simp]: "loose_eq Undef (Str b) = False" "loose_eq Null (Str b) = False"
  by (simp_all add: loose_eq_def)

lemma str_to_num_show_nat [simp]: "str_to_num (show_nat n) = IntN (int n)"
proof -
  let ?s = "show_nat n"
  have d: "list_all is_digit ?s" and ne: "?s \<noteq> []" by (simp_all add: show_nat_digits)
  then have "is_digit (hd ?s)" "is_digit (last ?s)" by (auto simp: list_all_iff)
  then have t: "trim ?s = ?s" by (intro trim_id) (auto dest: digit_not_space)
  from \<open>is_digit (hd ?s)\<close> have "hd ?s \<noteq> CHR ''-''" "hd ?s \<noteq> CHR ''+''"
    by (auto simp: is_digit_def)
  with d ne t show ?thesis by (simp add: str_to_num_def all_digits_def)
qed

lemma show_int_nat: "0 \<le> i \<Longrightarrow> show_int i = show_nat (nat i)"
  by (simp add: show_int_def)

lemma str_to_num_show_int [simp]: "0 \<le> i \<Longrightarrow> str_to_num (show_int i) = IntN i"
  by (simp add: show_int_nat)

end
