(* ===== verification/Effects.thy ===== *)
theory Effects
  imports JS_Values
begin

text \<open>
  Effects of the drivers: a program is a function from a world to an outcome (a value or
  a thrown error) and the next world. Awaiting a promise is running its program; a
  rejected promise is a thrown error. The world holds the state of everything outside the
  repository (\<open>ext\<close>) and a ghost history (\<open>hist\<close>) of the calls made to it, which no
  program reads.
\<close>

section \<open>Errors\<close>

datatype status = OK | INVALID_ARGUMENT | NOT_FOUND | ALREADY_EXISTS | FAILED_PRECONDITION
  | ABORTED | OUT_OF_RANGE | UNKNOWN | INTERNAL | UNIMPLEMENTED | RESOURCE_EXHAUSTED | UNAVAILABLE | UNAUTHENTICATED

text \<open>
  The plain object with which \<open>ISCSI.exec\<close> rejects and resolves: the exit code (None for
  null), the output, whether the child was killed by a signal, and the code of the spawn error.
\<close>

record exec_result =
  er_code :: "int option"
  er_stdout :: string
  er_stderr :: string
  er_timeout :: bool
  er_error :: "string option"

text \<open>
  \<open>GrpcError\<close> does not extend \<open>Error\<close>; \<open>JsError\<close> is an \<open>Error\<close> with its name and
  message; \<open>StrError\<close> is a rejection with a plain string. \<open>Uncaught\<close> is an error thrown inside an event listener: no promise rejects,
  so no handler in the sources sees it. \<open>Unmodelled\<close> ends a run at an input outside the
  modelled fragment of JavaScript.
\<close>

datatype exn = GrpcError status msg | JsError string msg | StrError string
  | ExecReject exec_result | Uncaught msg | Unmodelled msg

definition type_error :: "msg \<Rightarrow> exn" where
  "type_error m = JsError ''TypeError'' m"

definition js_error :: "msg \<Rightarrow> exn" where
  "js_error m = JsError ''Error'' m"

text \<open>\<open>err.toString()\<close>\<close>

fun exn_str :: "exn \<Rightarrow> string" where
  "exn_str (JsError n m) = (if m = [] then n else n @ '': '' @ m)"
| "exn_str (StrError s) = s"
| "exn_str _ = ''[object Object]''"

definition err_has :: "exn \<Rightarrow> string \<Rightarrow> bool" where
  "err_has e p \<longleftrightarrow> contains (exn_str e) p"

fun catchable :: "exn \<Rightarrow> bool" where
  "catchable (Uncaught _) = False"
| "catchable (Unmodelled _) = False"
| "catchable _ = True"

section \<open>Fallible computations without effects\<close>

definition ebind :: "'x + 'a \<Rightarrow> ('a \<Rightarrow> 'x + 'b) \<Rightarrow> 'x + 'b" where
  "ebind r f = (case r of Inl e \<Rightarrow> Inl e | Inr x \<Rightarrow> f x)"

fun emap :: "('a \<Rightarrow> 'x + 'b) \<Rightarrow> 'a list \<Rightarrow> 'x + 'b list" where
  "emap f [] = Inr []"
| "emap f (x # xs) = ebind (f x) (\<lambda>y. ebind (emap f xs) (\<lambda>ys. Inr (y # ys)))"

fun efold :: "('s \<Rightarrow> 'a \<Rightarrow> 'x + 's) \<Rightarrow> 's \<Rightarrow> 'a list \<Rightarrow> 'x + 's" where
  "efold f s [] = Inr s"
| "efold f s (x # xs) = ebind (f s x) (\<lambda>s'. efold f s' xs)"

text \<open>\<open>some\<close>: whether a test holds of an element, with the errors of the test.\<close>

fun eany :: "('a \<Rightarrow> exn + bool) \<Rightarrow> 'a list \<Rightarrow> exn + bool" where
  "eany p [] = Inr False"
| "eany p (x # xs) = ebind (p x) (\<lambda>b. if b then Inr True else eany p xs)"

text \<open>Reading a property, and reading one whose value is used as a string.\<close>

definition getp :: "js \<Rightarrow> string \<Rightarrow> exn + js" where
  "getp v k = (case get_prop v k of None \<Rightarrow> Inl (type_error (''Cannot read properties: '' @ k)) | Some x \<Rightarrow> Inr x)"

fun getps :: "js \<Rightarrow> string list \<Rightarrow> exn + js" where
  "getps v [] = Inr v"
| "getps v (k # ks) = ebind (getp v k) (\<lambda>x. getps x ks)"

definition as_string :: "js \<Rightarrow> exn + string" where
  "as_string v = (case v of Str s \<Rightarrow> Inr s | _ \<Rightarrow> Inl (type_error ''not a string''))"

lemma ebind_simps [simp]: "ebind (Inl e) f = Inl e" "ebind (Inr x) f = f x"
  by (simp_all add: ebind_def)

lemma ebind_eq_Inr: "ebind r f = Inr y \<longleftrightarrow> (\<exists>x. r = Inr x \<and> f x = Inr y)"
  by (cases r) auto

lemma emap_list_all2: "emap f xs = Inr ys \<Longrightarrow> list_all2 (\<lambda>x y. f x = Inr y) xs ys"
  by (induction xs arbitrary: ys) (auto simp: ebind_eq_Inr)

lemma emap_id: "(\<And>x. x \<in> set xs \<Longrightarrow> f x = Inr x) \<Longrightarrow> emap f xs = Inr xs"
  by (induction xs) auto

lemma efold_inv:
  assumes "efold f s xs = Inr s'" and "I s"
    and "\<And>x s s'. x \<in> set xs \<Longrightarrow> I s \<Longrightarrow> f s x = Inr s' \<Longrightarrow> I s'"
  shows "I s'"
  using assms
proof (induction xs arbitrary: s)
  case (Cons x xs)
  then obtain u where "f s x = Inr u" "efold f u xs = Inr s'" by (auto simp: ebind_eq_Inr)
  with Cons show ?case by (metis list.set_intros)
qed simp

section \<open>Parsing integers\<close>

text \<open>\<open>parseInt\<close> of a decimal text; the hexadecimal prefix is outside the model.\<close>

definition parse_int :: "js \<Rightarrow> exn + jnum" where
  "parse_int v =
     (let s = dropWhile is_space (to_str v);
          neg = (s \<noteq> [] \<and> hd s = CHR ''-'');
          t = (if s \<noteq> [] \<and> (hd s = CHR ''-'' \<or> hd s = CHR ''+'') then tl s else s);
          d = takeWhile is_digit t; n = int (parse_nat d)
      in if starts_with t ''0x'' \<or> starts_with t ''0X'' then Inl (Unmodelled ''hexadecimal'')
         else Inr (if d = [] then NaN else IntN (if neg then - n else n)))"

lemma digits_no_sep: "c \<in> set (show_nat p) \<Longrightarrow> is_digit c"
  using show_nat_digits [of p] by (auto simp: list_all_iff)

lemma parse_int_show_nat: "parse_int (Str (show_nat p)) = Inr (IntN (int p))"
proof -
  let ?s = "show_nat p"
  obtain c t where s: "?s = c # t" by (cases ?s) auto
  then have c: "is_digit c" using digits_no_sep [of c p] by simp
  have sp: "dropWhile is_space ?s = ?s" using c s digit_not_space by simp
  have tk: "takeWhile is_digit ?s = ?s" using digits_no_sep by (simp add: takeWhile_eq_all_conv)
  have x: "CHR ''x'' \<notin> set ?s" "CHR ''X'' \<notin> set ?s"
    using digits_no_sep [of "CHR ''x''" p] digits_no_sep [of "CHR ''X''" p] by (auto simp: is_digit_def)
  have "\<not> starts_with ?s ''0x''" "\<not> starts_with ?s ''0X''"
    using x by (auto simp: starts_with_def s split: list.splits) (cases t; auto)+
  moreover have "c \<noteq> CHR ''-''" "c \<noteq> CHR ''+''" using c by (auto simp: is_digit_def)
  ultimately show ?thesis using sp tk s parse_show_nat [of p] by (simp add: parse_int_def Let_def)
qed

section \<open>Programs\<close>

type_synonym ('w, 'a) io = "'w \<Rightarrow> (exn + 'a) \<times> 'w"

definition ret :: "'a \<Rightarrow> ('w, 'a) io" where
  "ret x = (\<lambda>w. (Inr x, w))"

definition throw :: "exn \<Rightarrow> ('w, 'a) io" where
  "throw e = (\<lambda>w. (Inl e, w))"

definition bind :: "('w, 'a) io \<Rightarrow> ('a \<Rightarrow> ('w, 'b) io) \<Rightarrow> ('w, 'b) io" where
  "bind m f = (\<lambda>w. case m w of (Inl e, w') \<Rightarrow> (Inl e, w') | (Inr x, w') \<Rightarrow> f x w')"

definition andthen :: "('w, 'a) io \<Rightarrow> ('w, 'b) io \<Rightarrow> ('w, 'b) io" where
  "andthen m n = bind m (\<lambda>_. n)"

text \<open>\<open>try { m } catch (err) { h(err) }\<close>\<close>

definition catch :: "('w, 'a) io \<Rightarrow> (exn \<Rightarrow> ('w, 'a) io) \<Rightarrow> ('w, 'a) io" where
  "catch m h = (\<lambda>w. case m w of
     (Inl e, w') \<Rightarrow> (if catchable e then h e w' else (Inl e, w')) | (Inr x, w') \<Rightarrow> (Inr x, w'))"

definition lift :: "exn + 'a \<Rightarrow> ('w, 'a) io" where
  "lift r = (\<lambda>w. (r, w))"

definition throw_when :: "bool \<Rightarrow> exn \<Rightarrow> ('w, unit) io" where
  "throw_when b e = (if b then throw e else ret ())"

definition do_when :: "bool \<Rightarrow> ('w, unit) io \<Rightarrow> ('w, unit) io" where
  "do_when b m = (if b then m else ret ())"

text \<open>A \<open>for ... of\<close> loop with awaits in its body, and one with an accumulator.\<close>

fun for_each :: "'x list \<Rightarrow> ('x \<Rightarrow> ('w, unit) io) \<Rightarrow> ('w, unit) io" where
  "for_each [] f = ret ()"
| "for_each (x # xs) f = bind (f x) (\<lambda>_. for_each xs f)"

fun fold_io :: "('s \<Rightarrow> 'x \<Rightarrow> ('w, 's) io) \<Rightarrow> 's \<Rightarrow> 'x list \<Rightarrow> ('w, 's) io" where
  "fold_io f s [] = ret s"
| "fold_io f s (x # xs) = bind (f s x) (\<lambda>s'. fold_io f s' xs)"

text \<open>
  For evaluation: the programs are run on a world instead of being composed first, so that a
  continuation is only unfolded with the result it continues from.
\<close>

definition continue :: "('a \<Rightarrow> ('w, 'b) io) \<Rightarrow> (exn + 'a) \<times> 'w \<Rightarrow> (exn + 'b) \<times> 'w" where
  "continue f r = (case r of (Inl e, w) \<Rightarrow> (Inl e, w) | (Inr x, w) \<Rightarrow> f x w)"

definition recover :: "(exn \<Rightarrow> ('w, 'a) io) \<Rightarrow> (exn + 'a) \<times> 'w \<Rightarrow> (exn + 'a) \<times> 'w" where
  "recover h r = (case r of (Inl e, w) \<Rightarrow> (if catchable e then h e w else (Inl e, w)) | (Inr x, w) \<Rightarrow> (Inr x, w))"

lemma run_code [code]:
  "continue f (Inl e, w) = (Inl e, w)" "continue f (Inr x, w) = f x w"
  "recover h (Inl e, w) = (if catchable e then h e w else (Inl e, w))" "recover h (Inr x, w) = (Inr x, w)"
  "ret x w = (Inr x, w)" "throw e w = (Inl e, w)" "lift r w = (r, w)"
  "bind m f w = continue f (m w)" "andthen m n w = continue (\<lambda>_. n) (m w)" "catch m h w = recover h (m w)"
  "throw_when b e w = (if b then (Inl e, w) else (Inr (), w))" "do_when b m w = (if b then m w else (Inr (), w))"
  by (simp_all add: continue_def recover_def ret_def throw_def lift_def bind_def andthen_def catch_def throw_when_def do_when_def)

section \<open>The world and its history\<close>

text \<open>
  A child process with its arguments, a command line given to the exec client, a call of a
  method that a derived driver implements, a timer, a use of the cache, a call of the
  host (a file of the system, a name lookup, the clock), and a request to a web server.
\<close>

datatype event = EvSpawn string "string list" | EvShell string | EvDriver string string
  | EvSleep int | EvCache string | EvHost string string | EvHttp string jsobj

record 'e world =
  ext :: 'e
  hist :: "event list"

text \<open>A call to the outside: it answers from the external state and is recorded.\<close>

definition perform :: "event \<Rightarrow> ('e \<Rightarrow> (exn + 'a) \<times> 'e) \<Rightarrow> ('e world, 'a) io" where
  "perform ev f = (\<lambda>w. let (r, x) = f (ext w) in (r, w\<lparr>ext := x, hist := hist w @ [ev]\<rparr>))"

section \<open>Weakest preconditions\<close>

definition wp :: "('w, 'a) io \<Rightarrow> ('a \<Rightarrow> 'w \<Rightarrow> bool) \<Rightarrow> (exn \<Rightarrow> 'w \<Rightarrow> bool) \<Rightarrow> 'w \<Rightarrow> bool" where
  "wp m Q E w = (case m w of (Inr x, w') \<Rightarrow> Q x w' | (Inl e, w') \<Rightarrow> E e w')"

lemma wp_ret [simp]: "wp (ret x) Q E w = Q x w"
  by (simp add: wp_def ret_def)

lemma wp_throw [simp]: "wp (throw e) Q E w = E e w"
  by (simp add: wp_def throw_def)

lemma wp_bind [simp]: "wp (bind m f) Q E w = wp m (\<lambda>x. wp (f x) Q E) E w"
  by (simp add: wp_def bind_def split: prod.splits sum.splits)

lemma wp_andthen [simp]: "wp (andthen m n) Q E w = wp m (\<lambda>_. wp n Q E) E w"
  by (simp add: andthen_def)

lemma wp_catch [simp]:
  "wp (catch m h) Q E w = wp m Q (\<lambda>e w'. if catchable e then wp (h e) Q E w' else E e w') w"
  by (simp add: wp_def catch_def split: prod.splits sum.splits)

lemma wp_lift [simp]: "wp (lift r) Q E w = (case r of Inr x \<Rightarrow> Q x w | Inl e \<Rightarrow> E e w)"
  by (simp add: wp_def lift_def split: sum.splits)

lemma wp_throw_when [simp]: "wp (throw_when b e) Q E w = (if b then E e w else Q () w)"
  by (simp add: throw_when_def)

lemma wp_do_when [simp]: "wp (do_when b m) Q E w = (if b then wp m Q E w else Q () w)"
  by (simp add: do_when_def)

lemma wp_if [simp]: "wp (if b then m else n) Q E w = (if b then wp m Q E w else wp n Q E w)"
  by simp

lemma wp_for_each_Nil [simp]: "wp (for_each [] f) Q E w = Q () w"
  by simp

lemma wp_for_each_Cons:
  "wp (for_each (x # xs) f) Q E w = wp (f x) (\<lambda>_. wp (for_each xs f) Q E) E w"
  by simp

lemma wp_perform:
  "wp (perform ev f) Q E w =
     (case f (ext w) of
        (Inr x, e') \<Rightarrow> Q x (w\<lparr>ext := e', hist := hist w @ [ev]\<rparr>)
      | (Inl x, e') \<Rightarrow> E x (w\<lparr>ext := e', hist := hist w @ [ev]\<rparr>))"
  by (simp add: wp_def perform_def split: prod.splits sum.splits)

lemma wp_mono:
  assumes "wp m Q E w"
    and "\<And>x w'. Q x w' \<Longrightarrow> Q' x w'" and "\<And>e w'. E e w' \<Longrightarrow> E' e w'"
  shows "wp m Q' E' w"
  using assms by (auto simp: wp_def split: prod.splits sum.splits)

lemma wp_conj: "wp m Q E w \<Longrightarrow> wp m Q' E' w \<Longrightarrow> wp m (\<lambda>x w'. Q x w' \<and> Q' x w') (\<lambda>e w'. E e w' \<and> E' e w') w"
  by (auto simp: wp_def split: prod.splits sum.splits)

lemma wp_Inr: "wp m Q E w \<Longrightarrow> m w = (Inr x, w') \<Longrightarrow> Q x w'"
  by (simp add: wp_def)

lemma wp_Inl: "wp m Q E w \<Longrightarrow> m w = (Inl e, w') \<Longrightarrow> E e w'"
  by (simp add: wp_def)

lemma wp_for_each_inv:
  assumes "I w" and "\<And>x w. x \<in> set xs \<Longrightarrow> I w \<Longrightarrow> wp (f x) (\<lambda>_. I) E w"
  shows "wp (for_each xs f) (\<lambda>_. I) E w"
  using assms
proof (induction xs arbitrary: w)
  case (Cons x xs)
  have "wp (f x) (\<lambda>_. I) E w" using Cons.prems by simp
  moreover have "wp (for_each xs f) (\<lambda>_. I) E w'" if "I w'" for w'
    using that by (rule Cons.IH) (auto intro: Cons.prems(2))
  ultimately show ?case
    by (auto elim: wp_mono)
qed simp

text \<open>The monad laws and the computation rules used to run closed programs.\<close>

lemma bind_ret [simp]: "bind (ret x) f = f x"
  by (simp add: bind_def ret_def)

lemma bind_throw [simp]: "bind (throw e) f = throw e"
  by (simp add: bind_def throw_def)

lemma bind_assoc: "bind (bind m f) g = bind m (\<lambda>x. bind (f x) g)"
  by (rule ext) (simp add: bind_def split: prod.splits sum.splits)

lemma bind_ret_right [simp]: "bind m ret = m"
  by (rule ext) (simp add: bind_def ret_def split: prod.splits sum.splits)

lemma catch_ret [simp]: "catch (ret x) h = ret x"
  by (simp add: catch_def ret_def)

lemma catch_throw [simp]: "catchable e \<Longrightarrow> catch (throw e) h = h e"
  by (simp add: catch_def throw_def)

text \<open>A loop with an accumulator keeps an invariant of the accumulator and the world.\<close>

lemma wp_fold_io_inv:
  assumes "I s w" and "\<And>x s w. x \<in> set xs \<Longrightarrow> I s w \<Longrightarrow> wp (f s x) I E w"
  shows "wp (fold_io f s xs) I E w"
  using assms
proof (induction xs arbitrary: s w)
  case (Cons x xs)
  have "wp (f s x) I E w" using Cons.prems by simp
  moreover have "wp (fold_io f s' xs) I E w'" if "I s' w'" for s' w'
    using that by (rule Cons.IH) (auto intro: Cons.prems(2))
  ultimately show ?case by (auto elim: wp_mono)
qed simp

section \<open>What a program adds to the history\<close>

text \<open>
  \<open>adds P m\<close>: whatever the outside answers, \<open>m\<close> only appends events that satisfy \<open>P\<close>.
\<close>

definition adds :: "(event \<Rightarrow> bool) \<Rightarrow> ('e world, 'a) io \<Rightarrow> bool" where
  "adds P m \<longleftrightarrow> (\<forall>w. \<exists>es. hist (snd (m w)) = hist w @ es \<and> list_all P es)"

lemma addsD: "adds P m \<Longrightarrow> \<exists>es. hist (snd (m w)) = hist w @ es \<and> list_all P es"
  by (simp add: adds_def)

lemma adds_ret [wp_intro]: "adds P (ret x)"
  by (simp add: adds_def ret_def)

lemma adds_throw [wp_intro]: "adds P (throw e)"
  by (simp add: adds_def throw_def)

lemma adds_lift [wp_intro]: "adds P (lift r)"
  by (simp add: adds_def lift_def)

lemma adds_append:
  assumes "\<exists>es. h' = h @ es \<and> list_all P es" and "\<exists>es. h'' = h' @ es \<and> list_all P es"
  shows "\<exists>es. h'' = h @ es \<and> list_all P es"
  using assms by (metis append.assoc list_all_append)

lemma adds_bind [wp_intro]:
  assumes "adds P m" and "\<And>x. adds P (f x)"
  shows "adds P (bind m f)"
  unfolding adds_def
proof
  fix w
  note 1 = addsD [OF assms(1), of w]
  show "\<exists>es. hist (snd (bind m f w)) = hist w @ es \<and> list_all P es"
  proof (cases "fst (m w)")
    case (Inl e)
    then have "snd (bind m f w) = snd (m w)" by (simp add: bind_def case_prod_beta)
    with 1 show ?thesis by simp
  next
    case (Inr x)
    then have "snd (bind m f w) = snd (f x (snd (m w)))" by (simp add: bind_def case_prod_beta)
    with adds_append [OF 1 addsD [OF assms(2), of x "snd (m w)"]] show ?thesis by simp
  qed
qed

lemma adds_andthen [wp_intro]: "adds P m \<Longrightarrow> adds P n \<Longrightarrow> adds P (andthen m n)"
  by (simp add: andthen_def adds_bind)

lemma adds_catch [wp_intro]:
  assumes "adds P m" and "\<And>e. adds P (h e)"
  shows "adds P (catch m h)"
  unfolding adds_def
proof
  fix w
  note 1 = addsD [OF assms(1), of w]
  show "\<exists>es. hist (snd (catch m h w)) = hist w @ es \<and> list_all P es"
  proof (cases "\<exists>e. fst (m w) = Inl e \<and> catchable e")
    case True
    then obtain e where "fst (m w) = Inl e" "catchable e" by blast
    then have "snd (catch m h w) = snd (h e (snd (m w)))" by (simp add: catch_def case_prod_beta)
    with adds_append [OF 1 addsD [OF assms(2), of e "snd (m w)"]] show ?thesis by simp
  next
    case False
    then have "snd (catch m h w) = snd (m w)"
      by (auto simp: catch_def split: prod.splits sum.splits)
    with 1 show ?thesis by simp
  qed
qed

lemma adds_throw_when [wp_intro]: "adds P (throw_when b e)"
  by (simp add: throw_when_def adds_ret adds_throw)

lemma adds_do_when [wp_intro]: "(b \<Longrightarrow> adds P m) \<Longrightarrow> adds P (do_when b m)"
  by (simp add: do_when_def adds_ret)

lemma adds_if [wp_intro]: "(b \<Longrightarrow> adds P m) \<Longrightarrow> (\<not> b \<Longrightarrow> adds P n) \<Longrightarrow> adds P (if b then m else n)"
  by simp

lemma adds_case_option [wp_intro]:
  "adds P n \<Longrightarrow> (\<And>x. v = Some x \<Longrightarrow> adds P (f x)) \<Longrightarrow> adds P (case v of None \<Rightarrow> n | Some x \<Rightarrow> f x)"
  by (cases v) auto

lemma adds_perform [wp_intro]: "P ev \<Longrightarrow> adds P (perform ev f)"
  by (simp add: adds_def perform_def split: prod.splits)

lemma adds_for_each [wp_intro]: "(\<And>x. x \<in> set xs \<Longrightarrow> adds P (f x)) \<Longrightarrow> adds P (for_each xs f)"
  by (induction xs) (auto intro: wp_intro)

lemma adds_fold_io [wp_intro]:
  "(\<And>s x. x \<in> set xs \<Longrightarrow> adds P (f s x)) \<Longrightarrow> adds P (fold_io f s xs)"
  by (induction xs arbitrary: s) (auto intro: wp_intro)

lemma adds_mono: "adds P m \<Longrightarrow> (\<And>e. P e \<Longrightarrow> Q e) \<Longrightarrow> adds Q m"
  unfolding adds_def list_all_iff by meson

lemma adds_wp:
  assumes "adds P m"
  shows "wp m (\<lambda>_ w'. \<exists>es. hist w' = hist w @ es \<and> list_all P es)
              (\<lambda>_ w'. \<exists>es. hist w' = hist w @ es \<and> list_all P es) w"
  using addsD [OF assms, of w] by (auto simp: wp_def split: prod.splits sum.splits)

text \<open>A program whose outcome does not touch the history.\<close>

lemma adds_False_hist: "adds (\<lambda>_. False) m \<Longrightarrow> hist (snd (m w)) = hist w"
  using addsD [of "\<lambda>_. False" m w] by (auto simp: list_all_iff)

text \<open>The rule that steps over a program of which only the added events are known.\<close>

lemma wp_adds:
  assumes "adds P m"
    and "\<And>x w' es. hist w' = hist w @ es \<Longrightarrow> list_all P es \<Longrightarrow> Q x w'"
    and "\<And>e w' es. hist w' = hist w @ es \<Longrightarrow> list_all P es \<Longrightarrow> E e w'"
  shows "wp m Q E w"
  using adds_wp [OF assms(1), of w] assms(2,3) by (auto elim!: wp_mono)

lemma wp_perform_hist:
  assumes "\<And>x w'. hist w' = hist w @ [ev] \<Longrightarrow> Q x w'" and "\<And>e w'. hist w' = hist w @ [ev] \<Longrightarrow> E e w'"
  shows "wp (perform ev f) Q E w"
  using assms by (auto simp: wp_perform split: prod.splits sum.splits)

section \<open>Successful runs\<close>

lemma bind_Inr: "bind m f w = (Inr y, w') \<longleftrightarrow> (\<exists>x w1. m w = (Inr x, w1) \<and> f x w1 = (Inr y, w'))"
  by (auto simp: bind_def split: prod.splits sum.splits)

lemma andthen_Inr: "andthen m n w = (Inr y, w') \<longleftrightarrow> (\<exists>x w1. m w = (Inr x, w1) \<and> n w1 = (Inr y, w'))"
  by (simp add: andthen_def bind_Inr)

lemma lift_Inr: "lift r w = (Inr y, w') \<longleftrightarrow> r = Inr y \<and> w' = w"
  by (auto simp: lift_def)

lemma ret_Inr: "ret x w = (Inr y, w') \<longleftrightarrow> y = x \<and> w' = w"
  by (auto simp: ret_def)

lemma throw_Inr: "throw e w = (Inr y, w') \<longleftrightarrow> False"
  by (simp add: throw_def)

lemma throw_when_Inr: "throw_when b e w = (Inr y, w') \<longleftrightarrow> \<not> b \<and> w' = w"
  by (auto simp: throw_when_def throw_Inr ret_Inr)

lemma bind_fst_Inl: "m w = (Inl e, w') \<Longrightarrow> bind m f w = (Inl e, w')"
  by (simp add: bind_def)

lemma bind_fst_Inr: "m w = (Inr x, w') \<Longrightarrow> bind m f w = f x w'"
  by (simp add: bind_def)

lemmas run_Inr = bind_Inr andthen_Inr lift_Inr ret_Inr throw_Inr throw_when_Inr

section \<open>Programs that add known events\<close>

text \<open>\<open>emits m evs\<close>: whatever the outside answers, \<open>m\<close> appends exactly \<open>evs\<close>.\<close>

definition emits :: "('e world, 'a) io \<Rightarrow> event list \<Rightarrow> bool" where
  "emits m evs \<longleftrightarrow> (\<forall>w. hist (snd (m w)) = hist w @ evs)"

lemma emitsD: "emits m evs \<Longrightarrow> m w = (r, w') \<Longrightarrow> hist w' = hist w @ evs"
  by (metis emits_def snd_conv)

lemma bind_lift_Inr: "bind (lift (Inr x)) f = f x"
  by (simp add: bind_def lift_def)

lemma hist_lift_Inl: "bind (lift (Inl e)) f w = (Inl e, w)"
  by (simp add: bind_def lift_def)

lemma run_fst: "fst x = Inr y \<Longrightarrow> x = (Inr y, snd x)"
  by (simp add: prod_eq_iff)

lemma emits_ret [wp_intro]: "emits (ret x) []" and emits_throw [wp_intro]: "emits (throw e) []"
  and emits_perform [wp_intro]: "emits (perform ev f) [ev]"
  by (simp_all add: emits_def ret_def throw_def perform_def split: prod.splits)

lemma emits_bind_ret [wp_intro]: "emits m evs \<Longrightarrow> emits (bind m (\<lambda>x. ret (f x))) evs"
  by (auto simp: emits_def bind_def ret_def split: prod.splits sum.splits) (metis snd_conv)+

lemma emits_catch [wp_intro]:
  "emits m evs \<Longrightarrow> (\<And>e. emits (h e) []) \<Longrightarrow> emits (catch m h) evs"
  unfolding emits_def catch_def
  by (auto split: prod.splits sum.splits) (metis snd_conv append_Nil2)+

lemma emits_if [wp_intro]: "(b \<Longrightarrow> emits m evs) \<Longrightarrow> (\<not> b \<Longrightarrow> emits n evs) \<Longrightarrow> emits (if b then m else n) evs"
  by simp

end
