(* ===== verification/Request_Ids.thy ===== *)
theory Request_Ids
  imports Effects
begin

text \<open>
  Validation of the identifiers a request supplies (\<open>validateVolumeId\<close> and
  \<open>validateSnapshotId\<close> of \<open>src/driver/index.js\<close>). They are the only guard between a
  request and the dataset names and command lines built from its ids.
\<close>

definition invalid_argument :: "msg \<Rightarrow> exn" where
  "invalid_argument m = GrpcError INVALID_ARGUMENT m"

text \<open>The characters of \<open>s\<close> outside a class, each once, as \<open>invalid_chars\<close> prints them.\<close>

definition invalid_chars :: "(char \<Rightarrow> bool) \<Rightarrow> string \<Rightarrow> string" where
  "invalid_chars ok s = uniq (filter (\<lambda>c. \<not> ok c) s)"

definition volume_id_char :: "char \<Rightarrow> bool" where
  "volume_id_char c \<longleftrightarrow> is_alnum c \<or> c = CHR ''_'' \<or> c = CHR ''-''"

definition snapshot_id_char :: "char \<Rightarrow> bool" where
  "snapshot_id_char c \<longleftrightarrow> is_alnum c \<or> c \<in> set ''_-:.+@/''"

definition validateVolumeId :: "js \<Rightarrow> exn + string" where
  "validateVolumeId v =
     (case v of
        Str volume_id \<Rightarrow>
          if length volume_id < 1 then Inl (invalid_argument ''volume_id is required'')
          else if length volume_id > 128
            then Inl (invalid_argument (''volume_id '' @ quoted volume_id @ '' is too large''))
          else if invalid_chars volume_id_char volume_id \<noteq> []
            then Inl (invalid_argument (''volume_id '' @ quoted volume_id @
                   '' contains invalid characters: '' @ quoted (invalid_chars volume_id_char volume_id)))
          else if \<not> is_alnum (hd volume_id)
            then Inl (invalid_argument (''volume_id '' @ quoted volume_id @
                   '' must begin with alphanumeric character''))
          else Inr volume_id
      | _ \<Rightarrow> Inl (invalid_argument ''volume_id is required''))"

text \<open>\<open>split\<close> on a class of separators.\<close>

fun split_by :: "(char \<Rightarrow> bool) \<Rightarrow> string \<Rightarrow> string list" where
  "split_by p [] = [[]]"
| "split_by p (c # s) =
     (if p c then [] # split_by p s
      else (case split_by p s of [] \<Rightarrow> [[c]] | w # ws \<Rightarrow> (c # w) # ws))"

definition bad_segment :: "string \<Rightarrow> bool" where
  "bad_segment segment \<longleftrightarrow> length segment < 1 \<or> segment = ''.'' \<or> segment = ''..''"

definition id_separator :: "char \<Rightarrow> bool" where
  "id_separator c \<longleftrightarrow> c = CHR ''@'' \<or> c = CHR ''/''"

definition validateSnapshotId :: "js \<Rightarrow> exn + string" where
  "validateSnapshotId v =
     (case v of
        Str snapshot_id \<Rightarrow>
          if length snapshot_id < 1 then Inl (invalid_argument ''snapshot_id is required'')
          else if length snapshot_id > 255
            then Inl (invalid_argument (''snapshot_id '' @ quoted snapshot_id @ '' is too large''))
          else if invalid_chars snapshot_id_char snapshot_id \<noteq> []
            then Inl (invalid_argument (''snapshot_id '' @ quoted snapshot_id @
                   '' contains invalid characters: '' @
                   quoted (invalid_chars snapshot_id_char snapshot_id)))
          else if list_ex bad_segment (split_by id_separator snapshot_id)
            then Inl (invalid_argument (''snapshot_id '' @ quoted snapshot_id @
                   '' contains an invalid path segment''))
          else if \<not> is_alnum (hd snapshot_id)
            then Inl (invalid_argument (''snapshot_id '' @ quoted snapshot_id @
                   '' must begin with alphanumeric character''))
          else Inr snapshot_id
      | _ \<Rightarrow> Inl (invalid_argument ''snapshot_id is required''))"

section \<open>Lemmas\<close>

lemma invalid_chars_Nil: "invalid_chars ok s = [] \<longleftrightarrow> list_all ok s"
proof -
  have "invalid_chars ok s = [] \<longleftrightarrow> set (invalid_chars ok s) = {}" by simp
  also have "\<dots> \<longleftrightarrow> list_all ok s" unfolding invalid_chars_def set_uniq by (auto simp: list_all_iff)
  finally show ?thesis .
qed

lemma split_by_nonempty [simp]: "split_by p s \<noteq> []"
  by (induction s) (auto split: list.splits)

lemma split_by_word:
  "\<forall>c\<in>set w. \<not> p c \<Longrightarrow> b = [] \<or> p (hd b) \<Longrightarrow>
   split_by p (w @ b) = w # (case b of [] \<Rightarrow> [] | _ # t \<Rightarrow> split_by p t)"
  by (induction w) (cases b; auto)+

lemma split_by_append_sep: "p c \<Longrightarrow> split_by p (a @ c # t) = split_by p a @ split_by p t"
  by (induction a) (auto split: list.splits)

lemma split_by_segment:
  assumes "s = a @ w @ b" and "\<forall>c\<in>set w. \<not> p c"
    and "a = [] \<or> p (last a)" and "b = [] \<or> p (hd b)"
  shows "w \<in> set (split_by p s)"
proof (cases a rule: rev_cases)
  case Nil
  with assms split_by_word [of w p b] show ?thesis by simp
next
  case (snoc a' c)
  with assms have "split_by p s = split_by p a' @ split_by p (w @ b)"
    by (simp add: split_by_append_sep)
  moreover have "w \<in> set (split_by p (w @ b))" using assms split_by_word [of w p b] by simp
  ultimately show ?thesis by simp
qed

lemma validateVolumeId_Str:
  "validateVolumeId (Str s) = Inr t \<longleftrightarrow>
   t = s \<and> s \<noteq> [] \<and> length s \<le> 128 \<and> list_all volume_id_char s \<and> is_alnum (hd s)"
  by (auto simp: validateVolumeId_def invalid_chars_Nil)

lemma validateVolumeId_Inr: "validateVolumeId v = Inr s \<Longrightarrow> v = Str s"
  by (cases v) (auto simp: validateVolumeId_def split: if_splits)

lemma volume_id_char_not_sep:
  "volume_id_char c \<Longrightarrow> c \<noteq> CHR ''/'' \<and> c \<noteq> CHR ''@'' \<and> c \<noteq> CHR ''.'' \<and> c \<noteq> CHR 0x27
    \<and> c \<noteq> CHR '' '' \<and> c \<noteq> CHR ''%'' \<and> c \<noteq> CHR '','' \<and> c \<noteq> CHR ''+''"
  by (auto simp: volume_id_char_def is_alnum_def is_alpha_def is_lower_alpha_def is_digit_def)

lemma validateVolumeId_no_sep:
  "validateVolumeId v = Inr s \<Longrightarrow> CHR ''/'' \<notin> set s \<and> CHR ''@'' \<notin> set s \<and> s \<noteq> []"
  using validateVolumeId_Inr [of v s] validateVolumeId_Str [of s s]
  by (auto simp: list_all_iff dest: volume_id_char_not_sep)

lemma validateVolumeId_plain: "validateVolumeId v = Inr s \<Longrightarrow> list_all re_plain_ch s"
  using validateVolumeId_Inr [of v s] validateVolumeId_Str [of s s]
  by (auto simp: list_all_iff re_plain_ch_def volume_id_char_def is_alnum_def is_alpha_def
      is_lower_alpha_def is_digit_def)

lemma validateSnapshotId_Inr: "validateSnapshotId v = Inr s \<Longrightarrow> v = Str s"
  by (cases v) (auto simp: validateSnapshotId_def split: if_splits)

section \<open>Properties\<close>

text \<open>
  A volume id is accepted, unchanged, exactly when it is a string of 1 to 128 letters,
  digits, underscores and dashes that starts with a letter or digit; everything else is
  refused with INVALID_ARGUMENT.
\<close>

theorem validateVolumeId_spec:
  "(validateVolumeId v = Inr s) =
     (v = Str s \<and> 1 \<le> length s \<and> length s \<le> 128 \<and> s = filter volume_id_char s \<and> is_alnum (hd s)) \<and>
   (case validateVolumeId v of Inr s' \<Rightarrow> v = Str s' | Inl e \<Rightarrow> (\<exists>m. e = GrpcError INVALID_ARGUMENT m))"
proof (rule conjI)
  have f: "s = filter volume_id_char s \<longleftrightarrow> list_all volume_id_char s"
    by (metis filter_all_id filter_id_conv list_all_iff)
  show "(validateVolumeId v = Inr s) =
     (v = Str s \<and> 1 \<le> length s \<and> length s \<le> 128 \<and> s = filter volume_id_char s \<and> is_alnum (hd s))"
    unfolding f using validateVolumeId_Inr [of v s] validateVolumeId_Str [of s s]
    by (auto simp: Suc_le_eq)
  show "case validateVolumeId v of Inr s' \<Rightarrow> v = Str s' | Inl e \<Rightarrow> (\<exists>m. e = GrpcError INVALID_ARGUMENT m)"
    by (auto simp: validateVolumeId_def invalid_argument_def split: js.splits)
qed

text \<open>
  An accepted snapshot id has no empty segment and no \<open>.\<close> or \<open>..\<close> segment
  between its separators, at either end or in the middle, uses only the characters of a
  zfs name, and starts with a letter or digit; so it cannot climb out of its parent dataset.
\<close>

theorem validateSnapshotId_no_traversal:
  assumes "validateSnapshotId v = Inr s"
  shows "v = Str s \<and> length s \<le> 255 \<and> (\<forall>c\<in>set s. snapshot_id_char c) \<and> s \<noteq> [] \<and> is_alnum (hd s) \<and>
    (\<forall>a w b. s = a @ w @ b \<longrightarrow> (\<forall>c\<in>set w. \<not> id_separator c) \<longrightarrow>
       (a = [] \<or> id_separator (last a)) \<longrightarrow> (b = [] \<or> id_separator (hd b)) \<longrightarrow>
       w \<noteq> [] \<and> w \<noteq> ''.'' \<and> w \<noteq> ''..'')"
proof -
  from assms have v: "v = Str s" by (rule validateSnapshotId_Inr)
  with assms have s: "s \<noteq> []" "length s \<le> 255" "list_all snapshot_id_char s" "is_alnum (hd s)"
    and seg: "list_all (\<lambda>w. \<not> bad_segment w) (split_by id_separator s)"
    by (auto simp: validateSnapshotId_def invalid_chars_Nil list_all_iff list_ex_iff split: if_splits)
  have "w \<noteq> [] \<and> w \<noteq> ''.'' \<and> w \<noteq> ''..''"
    if "s = a @ w @ b" "\<forall>c\<in>set w. \<not> id_separator c"
      "a = [] \<or> id_separator (last a)" "b = [] \<or> id_separator (hd b)" for a w b
  proof -
    from split_by_segment [OF that] have "w \<in> set (split_by id_separator s)" by blast
    with seg show ?thesis by (auto simp: list_all_iff bad_segment_def)
  qed
  with v s show ?thesis by (simp add: list_all_iff)
qed

lemma validateSnapshotId_no_traversal_witness:
  "validateSnapshotId (Str ''vol-1@snap.2'') = Inr ''vol-1@snap.2'' \<and> ''snap.2'' \<noteq> ''..''
   \<and> is_alnum (hd ''vol-1@snap.2'')"
proof -
  have v: "validateSnapshotId (Str ''vol-1@snap.2'') = Inr ''vol-1@snap.2''" by code_simp
  from validateSnapshotId_no_traversal [OF v] have "is_alnum (hd ''vol-1@snap.2'')"
    and seg: "''vol-1@snap.2'' = ''vol-1@'' @ ''snap.2'' @ [] \<longrightarrow> (\<forall>c\<in>set ''snap.2''. \<not> id_separator c) \<longrightarrow>
      (''vol-1@'' = [] \<or> id_separator (last ''vol-1@'')) \<longrightarrow> ''snap.2'' \<noteq> ''..''" by blast+
  moreover from seg have "''snap.2'' \<noteq> ''..''" by (simp add: id_separator_def)
  ultimately show ?thesis using v by blast
qed

end
