(* ===== verification/Driver_Options.thy ===== *)
theory Driver_Options
  imports Request_Ids
begin

text \<open>
  The options of \<open>CsiBaseDriver\<close> (\<open>src/driver/index.js\<close>): the defaults of the
  constructor, the lookup of normalized parameters and secrets, the validation of the
  options that a StorageClass or a claim may override, and their merge into the options
  of the driver. The functions of lodash the code calls are a parameter; the laws the
  theorems rely on are its documented behaviour on JSON values.
\<close>

section \<open>The functions of lodash\<close>

record lodash =
  lo_has :: "js \<Rightarrow> string \<Rightarrow> bool"
  lo_get :: "js \<Rightarrow> string \<Rightarrow> js"
  lo_hasPath :: "js \<Rightarrow> string list \<Rightarrow> bool"
  lo_getPath :: "js \<Rightarrow> string list \<Rightarrow> js"
  lo_set :: "js \<Rightarrow> string \<Rightarrow> js \<Rightarrow> js"
  lo_isPlainObject :: "js \<Rightarrow> bool"
  lo_cloneDeep :: "js \<Rightarrow> js"

text \<open>
  The value at a path of keys through nested objects, and the assignment to a path of two
  keys. The laws speak of the keys the code uses, which are neither array indices nor
  properties that every array or string has; a path is given dotted or as an array.
\<close>

fun path_value :: "js \<Rightarrow> string list \<Rightarrow> js option" where
  "path_value v [] = Some v"
| "path_value (Obj kvs) (k # ks) = (case map_of kvs k of Some x \<Rightarrow> path_value x ks | None \<Rightarrow> None)"
| "path_value _ _ = None"

fun inner_obj :: "js \<Rightarrow> jsobj" where
  "inner_obj (Obj kvs) = kvs"
| "inner_obj _ = []"

definition put_path :: "jsobj \<Rightarrow> string \<Rightarrow> string \<Rightarrow> js \<Rightarrow> js" where
  "put_path kvs a b x = Obj (obj_set a (Obj (obj_set b x (inner_obj (obj_get kvs a)))) kvs)"

definition option_keys :: "string list" where
  "option_keys = [''zfs'', ''zvolBlocksize'', ''datasetProperties'', ''cloneDatasetProperties'',
     ''datasetPermissionsUser'', ''datasetPermissionsGroup'', ''datasetPermissionsAclsBinary'',
     ''deleteVolumeIgnoreForeignSnapshots'', ''csi'', ''access_modes'', ''_private'', ''volume'',
     ''deleteStrategy'', ''idTemplate'', ''idHash'', ''strategy'', ''metadata'', ''annotations'',
     ''value'']"

definition plain_key :: "string \<Rightarrow> bool" where
  "plain_key k \<longleftrightarrow> k \<in> set option_keys \<or> CHR ''/'' \<in> set k \<or> CHR '':'' \<in> set k"

definition or_undef :: "js option \<Rightarrow> js" where
  "or_undef v = (case v of Some x \<Rightarrow> x | None \<Rightarrow> Undef)"

definition lodash_laws :: "lodash \<Rightarrow> bool" where
  "lodash_laws L \<longleftrightarrow>
     (\<forall>v ks. ks \<noteq> [] \<and> set ks \<subseteq> set option_keys \<longrightarrow>
        (lo_has L v (join ''.'' ks) \<longleftrightarrow> path_value v ks \<noteq> None) \<and>
        lo_get L v (join ''.'' ks) = or_undef (path_value v ks)) \<and>
     (\<forall>v ks. ks \<noteq> [] \<and> list_all plain_key ks \<longrightarrow>
        (lo_hasPath L v ks \<longleftrightarrow> path_value v ks \<noteq> None) \<and>
        lo_getPath L v ks = or_undef (path_value v ks)) \<and>
     (\<forall>kvs a b x. {a, b} \<subseteq> set option_keys \<longrightarrow> (\<forall>xs. obj_get kvs a \<noteq> Arr xs) \<longrightarrow>
        lo_set L (Obj kvs) (join ''.'' [a, b]) x = put_path kvs a b x) \<and>
     (\<forall>v. lo_isPlainObject L v \<longleftrightarrow> (\<exists>kvs. v = Obj kvs)) \<and>
     (\<forall>v. lo_cloneDeep L v = v)"

text \<open>\<open>_.get(v, path, default)\<close>\<close>

definition lget :: "lodash \<Rightarrow> js \<Rightarrow> string \<Rightarrow> js \<Rightarrow> js" where
  "lget L v path d = (let x = lo_get L v path in if x = Undef then d else x)"

definition lgetPath :: "lodash \<Rightarrow> js \<Rightarrow> string list \<Rightarrow> js \<Rightarrow> js" where
  "lgetPath L v path d = (let x = lo_getPath L v path in if x = Undef then d else x)"

section \<open>The constructor\<close>

definition default_prop :: "string \<Rightarrow> jsobj \<Rightarrow> jsobj" where
  "default_prop k ob = (if obj_has ob k then ob else obj_set k (Obj []) ob)"

definition base_driver_options :: "jsobj \<Rightarrow> jsobj" where
  "base_driver_options options =
     (let options = default_prop ''node'' options;
          node = inner_obj (obj_get options ''node'');
          node = default_prop ''format'' node;
          node = default_prop ''mount'' node;
          mount = default_prop ''checkFilesystem'' (inner_obj (obj_get node ''mount''));
          node = obj_set ''mount'' (Obj mount) node
      in obj_set ''node'' (Obj node) options)"

section \<open>Parameters and secrets\<close>

definition base_key :: string where
  "base_key = ''democratic-csi.org''"

text \<open>One \<open>if\<close> of the loop: a key under the prefix also appears without it.\<close>

definition strip_key :: "string \<Rightarrow> jsobj \<Rightarrow> string \<Rightarrow> jsobj \<Rightarrow> jsobj" where
  "strip_key pre parameters key normalized =
     (if starts_with key pre
      then obj_delete key (obj_set (drop (length pre) key) (obj_get parameters key) normalized)
      else normalized)"

definition normalize_key :: "string \<Rightarrow> string \<Rightarrow> jsobj \<Rightarrow> jsobj \<Rightarrow> string \<Rightarrow> jsobj" where
  "normalize_key driver instance_id parameters normalized key =
     (let normalized =
            (if instance_id \<noteq> []
             then strip_key (base_key @ ''/'' @ instance_id @ ''/'') parameters key normalized
             else normalized);
          normalized =
            (if driver \<noteq> []
             then strip_key (base_key @ ''/'' @ driver @ ''/'') parameters key normalized
             else normalized)
      in strip_key (base_key @ ''/'') parameters key normalized)"

text \<open>The driver and the instance id, of the call or of the options, empty when absent.\<close>

definition str_or :: "string \<Rightarrow> js \<Rightarrow> string" where
  "str_or s v = (if s \<noteq> [] then s else if truthy v then to_str v else [])"

definition getNormalizedParameters :: "jsobj \<Rightarrow> jsobj \<Rightarrow> string \<Rightarrow> string \<Rightarrow> jsobj" where
  "getNormalizedParameters options parameters driver instance_id =
     foldl (normalize_key (str_or driver (obj_get options ''driver''))
              (str_or instance_id (obj_get options ''instance_id'')) parameters)
       parameters (obj_keys parameters)"

definition getNormalizedParameterValue ::
  "jsobj \<Rightarrow> jsobj \<Rightarrow> string \<Rightarrow> string \<Rightarrow> string \<Rightarrow> js" where
  "getNormalizedParameterValue options parameters key driver instance_id =
     obj_get (getNormalizedParameters options parameters driver instance_id) key"

section \<open>Validation of overlays\<close>

definition invalidNameMessage :: "js \<Rightarrow> msg" where
  "invalidNameMessage name = ''invalid zfs dataset property name '' @ quoted (to_str name) @
     '' in option overlay: only ZFS user properties (containing '' @ quoted '':'' @
     '') may be set via StorageClass parameters or PVC config''"

definition reservedNameMessage :: "js \<Rightarrow> msg" where
  "reservedNameMessage name = ''invalid zfs dataset property name '' @ quoted (to_str name) @
     '' in option overlay: '' @ quoted ''democratic-csi:*'' @
     '' properties are reserved for the driver''"

definition validateOverlayDatasetPropertyName :: "js \<Rightarrow> bool \<Rightarrow> exn + string" where
  "validateOverlayDatasetPropertyName name allowPattern =
     (case name of
        Str s \<Rightarrow>
          if s = [] then Inl (invalid_argument (invalidNameMessage name))
          else if allowPattern \<and> s = ''*'' then Inr s
          else if allowPattern \<and> ends_with s ''*'' then
            (if starts_with (butlast s) ''democratic-csi''
             then Inl (invalid_argument (reservedNameMessage name)) else Inr s)
          else if \<not> contains s '':'' then Inl (invalid_argument (invalidNameMessage name))
          else if starts_with s ''democratic-csi:''
            then Inl (invalid_argument (reservedNameMessage name))
          else Inr s
      | _ \<Rightarrow> Inl (invalid_argument (invalidNameMessage name)))"

definition validateOverlayDatasetProperty :: "string \<Rightarrow> js \<Rightarrow> exn + string" where
  "validateOverlayDatasetProperty name v =
     ebind (validateOverlayDatasetPropertyName (Str name) False)
       (\<lambda>_. case v of
          Str s \<Rightarrow> Inr s
        | Num n \<Rightarrow> Inr (to_str v)
        | Bool b \<Rightarrow> Inr (to_str v)
        | _ \<Rightarrow> Inl (invalid_argument (''invalid zfs dataset property value for '' @ quoted name @
                 '' in option overlay: value must be a string, number, or boolean'')))"

text \<open>The normalized form of a \<open>zfs.cloneDatasetProperties\<close> value.\<close>

record clone_props =
  cp_copy :: "string list"
  cp_set :: "(string \<times> string) list"

definition clone_js :: "clone_props \<Rightarrow> js" where
  "clone_js c = Obj [(''copy'', Arr (map Str (cp_copy c))),
                     (''set'', Obj (map (\<lambda>(k, v). (k, Str v)) (cp_set c)))]"

definition clone_keys_ok :: "jsobj \<Rightarrow> exn + unit" where
  "clone_keys_ok kvs =
     (case filter (\<lambda>k. k \<notin> {''copy'', ''set''}) (obj_keys kvs) of
        [] \<Rightarrow> Inr ()
      | key # _ \<Rightarrow> Inl (invalid_argument (''invalid zfs.cloneDatasetProperties key '' @ quoted key @
            '': only '' @ quoted ''copy'' @ '' and '' @ quoted ''set'' @ '' are supported'')))"

definition validate_copy :: "js \<Rightarrow> exn + string list" where
  "validate_copy v =
     (case v of
        Undef \<Rightarrow> Inr []
      | Arr xs \<Rightarrow> emap (\<lambda>x. validateOverlayDatasetPropertyName x True) xs
      | _ \<Rightarrow> Inl (invalid_argument
          ''zfs.cloneDatasetProperties.copy must be an array of ZFS user property names or prefix patterns''))"

definition validate_entries ::
  "(string \<times> string) list \<Rightarrow> jsobj \<Rightarrow> exn + (string \<times> string) list" where
  "validate_entries acc kvs =
     efold (\<lambda>acc name. ebind (validateOverlayDatasetProperty name (obj_get kvs name))
                          (\<lambda>s. Inr (obj_set name s acc))) acc (obj_keys kvs)"

definition validate_set :: "lodash \<Rightarrow> js \<Rightarrow> exn + (string \<times> string) list" where
  "validate_set L v =
     (if v = Undef then Inr []
      else if \<not> lo_isPlainObject L v then Inl (invalid_argument
          ''zfs.cloneDatasetProperties.set must be an object of ZFS user property names and values'')
      else validate_entries [] (inner_obj v))"

definition validateCloneDatasetProperties :: "lodash \<Rightarrow> js \<Rightarrow> exn + clone_props" where
  "validateCloneDatasetProperties L v =
     (if \<not> lo_isPlainObject L v then Inl (invalid_argument
        (''zfs.cloneDatasetProperties must be an object with optional '' @ quoted ''copy'' @
         '' (array of ZFS user property names or prefix patterns) and '' @ quoted ''set'' @
         '' (object of ZFS user property values)''))
      else let kvs = inner_obj v in
        ebind (clone_keys_ok kvs) (\<lambda>_.
        ebind (validate_copy (obj_get kvs ''copy'')) (\<lambda>copy.
        ebind (validate_set L (obj_get kvs ''set'')) (\<lambda>set.
        Inr \<lparr>cp_copy = copy, cp_set = set\<rparr>))))"

section \<open>Merging\<close>

text \<open>
  \<open>driverOptions.zfs\<close> and a property object below it, created when falsy. Assigning a
  property of a primitive is a TypeError in a class body.
\<close>

definition own_object :: "js \<Rightarrow> exn + jsobj" where
  "own_object v =
     (if \<not> truthy v then Inr []
      else case v of Obj kvs \<Rightarrow> Inr kvs | Arr _ \<Rightarrow> Inl (Unmodelled ''array'')
           | _ \<Rightarrow> Inl (type_error ''Cannot create property''))"

text \<open>The three cases of the switch, on the options \<open>opts\<close>.\<close>

definition merge_datasetProperties :: "lodash \<Rightarrow> js \<Rightarrow> jsobj \<Rightarrow> exn + jsobj" where
  "merge_datasetProperties L overlayProps opts =
     (if \<not> lo_isPlainObject L overlayProps then Inl (invalid_argument
        (''option overlay '' @ quoted ''zfs.datasetProperties'' @
         '' must be an object of property names and values''))
      else ebind (own_object (obj_get opts ''zfs'')) (\<lambda>zfs.
        ebind (own_object (obj_get zfs ''datasetPropertiesOverlay'')) (\<lambda>old.
        ebind (efold (\<lambda>acc name.
                 ebind (validateOverlayDatasetProperty name (obj_get (inner_obj overlayProps) name))
                   (\<lambda>s. Inr (obj_set name (Str s) acc)))
               old (obj_keys (inner_obj overlayProps))) (\<lambda>new.
        Inr (obj_set ''zfs'' (Obj (obj_set ''datasetPropertiesOverlay'' (Obj new) zfs)) opts)))))"

definition merge_clone :: "clone_props \<Rightarrow> clone_props \<Rightarrow> clone_props" where
  "merge_clone base overlay =
     \<lparr>cp_copy = uniq (cp_copy base @ cp_copy overlay),
      cp_set = obj_assign (obj_assign [] (cp_set base)) (cp_set overlay)\<rparr>"

definition merge_cloneDatasetProperties :: "lodash \<Rightarrow> js \<Rightarrow> jsobj \<Rightarrow> exn + jsobj" where
  "merge_cloneDatasetProperties L overlayClone opts =
     (if \<not> lo_isPlainObject L overlayClone then Inl (invalid_argument
        (''option overlay '' @ quoted ''zfs.cloneDatasetProperties'' @
         '' must be an object with optional '' @ quoted ''copy'' @ '' and '' @ quoted ''set''))
      else ebind (validateCloneDatasetProperties L
                 (or_else (obj_get (inner_obj (obj_get opts ''zfs'')) ''cloneDatasetProperties'')
                    (Obj []))) (\<lambda>cloneBase.
        ebind (validateCloneDatasetProperties L overlayClone) (\<lambda>cloneOverlay.
        ebind (own_object (obj_get opts ''zfs'')) (\<lambda>zfs.
        Inr (obj_set ''zfs''
              (Obj (obj_set ''cloneDatasetProperties''
                     (clone_js (merge_clone cloneBase cloneOverlay)) zfs)) opts)))))"

definition allowedOptionsOverrides :: "string list" where
  "allowedOptionsOverrides =
     [''zfs.zvolBlocksize'', ''zfs.datasetProperties'', ''zfs.cloneDatasetProperties'']"

definition merge_prop :: "lodash \<Rightarrow> js \<Rightarrow> jsobj \<Rightarrow> string \<Rightarrow> exn + jsobj" where
  "merge_prop L overlay opts p =
     (if \<not> lo_has L overlay p then Inr opts
      else if p = ''zfs.datasetProperties'' then merge_datasetProperties L (lo_get L overlay p) opts
      else if p = ''zfs.cloneDatasetProperties''
        then merge_cloneDatasetProperties L (lo_get L overlay p) opts
      else Inr (inner_obj (lo_set L (Obj opts) p (lo_get L overlay p))))"

definition merge_overlay :: "lodash \<Rightarrow> jsobj \<Rightarrow> js \<Rightarrow> exn + jsobj" where
  "merge_overlay L opts overlay = efold (merge_prop L overlay) opts allowedOptionsOverrides"

definition finish_options :: "lodash \<Rightarrow> jsobj \<Rightarrow> exn + jsobj" where
  "finish_options L opts =
     (let zfs = inner_obj (obj_get opts ''zfs'') in
      if lo_has L (Obj opts) ''zfs.cloneDatasetProperties''
         \<and> obj_get zfs ''cloneDatasetProperties'' \<noteq> Undef
      then ebind (validateCloneDatasetProperties L (obj_get zfs ''cloneDatasetProperties''))
             (\<lambda>c. Inr (obj_set ''zfs'' (Obj (obj_set ''cloneDatasetProperties'' (clone_js c) zfs)) opts))
      else Inr opts)"

definition getMergedDriverOptions :: "lodash \<Rightarrow> jsobj \<Rightarrow> js list \<Rightarrow> exn + jsobj" where
  "getMergedDriverOptions L options optionOverlays =
     ebind (efold (merge_overlay L) (inner_obj (lo_cloneDeep L (Obj options))) optionOverlays)
       (finish_options L)"

section \<open>Lemmas\<close>

definition user_property :: "string \<Rightarrow> bool" where
  "user_property name \<longleftrightarrow> contains name '':'' \<and> \<not> starts_with name ''democratic-csi:''"

lemma validateName_Inr:
  "validateOverlayDatasetPropertyName v p = Inr s \<Longrightarrow> v = Str s"
  by (auto simp: validateOverlayDatasetPropertyName_def split: js.splits if_splits)

lemma validateName_user:
  "validateOverlayDatasetPropertyName v False = Inr s \<Longrightarrow> user_property s"
  by (auto simp: validateOverlayDatasetPropertyName_def user_property_def split: js.splits if_splits)

lemma validateProperty_Inr:
  assumes "validateOverlayDatasetProperty name v = Inr s"
  shows "user_property name \<and> s = to_str v"
proof -
  from assms obtain n where n: "validateOverlayDatasetPropertyName (Str name) False = Inr n"
    by (auto simp: validateOverlayDatasetProperty_def ebind_eq_Inr)
  with validateName_Inr [OF n] have "user_property name" by (auto dest: validateName_user)
  with assms n show ?thesis
    by (auto simp: validateOverlayDatasetProperty_def split: js.splits)
qed

lemma validateProperty_again:
  "validateOverlayDatasetProperty name v = Inr s \<Longrightarrow> validateOverlayDatasetProperty name (Str s) = Inr s"
  by (auto simp: validateOverlayDatasetProperty_def ebind_eq_Inr)

subsection \<open>The laws of lodash at the paths of the code\<close>

lemma plain_object_iff: "lodash_laws L \<Longrightarrow> lo_isPlainObject L v \<longleftrightarrow> (\<exists>kvs. v = Obj kvs)"
  by (simp add: lodash_laws_def)

lemma lodash_paths:
  assumes "lodash_laws L" and "ks \<noteq> []" and "set ks \<subseteq> set option_keys"
  shows "lo_has L v (join ''.'' ks) \<longleftrightarrow> path_value v ks \<noteq> None"
    and "lo_get L v (join ''.'' ks) = or_undef (path_value v ks)"
  using assms unfolding lodash_laws_def by blast+

lemma lodash_set:
  assumes "lodash_laws L" and "{a, b} \<subseteq> set option_keys" and "\<forall>xs. obj_get kvs a \<noteq> Arr xs"
  shows "lo_set L (Obj kvs) (join ''.'' [a, b]) x = put_path kvs a b x"
  using assms unfolding lodash_laws_def by blast

lemmas lodash_set_blocksize =
  lodash_set [where a = "''zfs''" and b = "''zvolBlocksize''", unfolded option_keys_def, simplified]

subsection \<open>What a merge preserves\<close>

definition zfs_of :: "jsobj \<Rightarrow> jsobj" where
  "zfs_of opts = inner_obj (obj_get opts ''zfs'')"

definition zfs_shape :: "jsobj \<Rightarrow> bool" where
  "zfs_shape opts \<longleftrightarrow> obj_get opts ''zfs'' = Undef \<or> (\<exists>z. obj_get opts ''zfs'' = Obj z)"

definition overridable :: "string set" where
  "overridable = {''zvolBlocksize'', ''datasetPropertiesOverlay'', ''cloneDatasetProperties''}"

text \<open>Everything outside the three overridable entries is what it was.\<close>

definition same_rest :: "jsobj \<Rightarrow> jsobj \<Rightarrow> bool" where
  "same_rest options opts \<longleftrightarrow> zfs_shape opts
     \<and> (\<forall>k. k \<noteq> ''zfs'' \<longrightarrow> obj_get opts k = obj_get options k)
     \<and> (\<forall>k. k \<notin> overridable \<longrightarrow> obj_get (zfs_of opts) k = obj_get (zfs_of options) k)"

definition overlay_values :: "jsobj \<Rightarrow> jsobj" where
  "overlay_values opts = inner_obj (obj_get (zfs_of opts) ''datasetPropertiesOverlay'')"

definition overlay_entry :: "jsobj \<Rightarrow> js" where
  "overlay_entry opts = obj_get (zfs_of opts) ''datasetPropertiesOverlay''"

definition overlay_ok :: "jsobj \<Rightarrow> bool" where
  "overlay_ok opts \<longleftrightarrow> (\<forall>k\<in>fst ` set (overlay_values opts). user_property k)
     \<and> (\<forall>v\<in>snd ` set (overlay_values opts). is_string v)
     \<and> (overlay_entry opts = Undef \<or> overlay_entry opts = Obj (overlay_values opts))"

lemma own_object_inner: "own_object v = Inr z \<Longrightarrow> z = inner_obj v"
  by (cases v) (auto simp: own_object_def split: if_splits)

lemma same_rest_put:
  assumes "same_rest options opts" and "b \<in> overridable"
  shows "same_rest options (obj_set ''zfs'' (Obj (obj_set b x (zfs_of opts))) opts)"
  using assms by (auto simp: same_rest_def zfs_shape_def zfs_of_def)

lemma overlay_values_put [simp]:
  "overlay_values (obj_set ''zfs'' (Obj (obj_set b x z)) opts) =
     (if b = ''datasetPropertiesOverlay'' then inner_obj x
      else inner_obj (obj_get z ''datasetPropertiesOverlay''))"
  by (auto simp: overlay_values_def zfs_of_def)

lemma snd_obj_set: "snd ` set (obj_set k v ob) \<subseteq> insert v (snd ` set ob)"
  unfolding obj_set_def by (induction ob) auto

lemma overlay_fold_ok:
  assumes "efold (\<lambda>acc name. ebind (validateOverlayDatasetProperty name (f name))
             (\<lambda>s. Inr (obj_set name (Str s) acc))) old names = Inr new"
    and "(\<forall>k\<in>fst ` set old. user_property k) \<and> (\<forall>v\<in>snd ` set old. is_string v)"
  shows "(\<forall>k\<in>fst ` set new. user_property k) \<and> (\<forall>v\<in>snd ` set new. is_string v)"
  using assms
proof (rule efold_inv)
  fix x s s'
  assume *: "(\<forall>k\<in>fst ` set s. user_property k) \<and> (\<forall>v\<in>snd ` set s. is_string v)"
    and e: "ebind (validateOverlayDatasetProperty x (f x)) (\<lambda>sa. Inr (obj_set x (Str sa) s)) = Inr s'"
  show "(\<forall>k\<in>fst ` set s'. user_property k) \<and> (\<forall>v\<in>snd ` set s'. is_string v)"
  proof -
    from e obtain t where "validateOverlayDatasetProperty x (f x) = Inr t"
      and s': "s' = obj_set x (Str t) s" by (auto simp: ebind_eq_Inr)
    then have "user_property x" by (simp add: validateProperty_Inr)
    with * have "\<forall>k\<in>fst ` set s'. user_property k" by (simp add: s' keys_obj_set)
    moreover have "v = Str t \<or> v \<in> snd ` set s" if "v \<in> snd ` set s'" for v
      using that snd_obj_set [of x "Str t" s] by (auto simp: s')
    with * have "\<forall>v\<in>snd ` set s'. is_string v" by (metis is_string.simps(1))
    ultimately show ?thesis by blast
  qed
qed

text \<open>A merge step writes one overridable entry, or none.\<close>

definition writes_one :: "jsobj \<Rightarrow> jsobj \<Rightarrow> bool" where
  "writes_one opts opts' \<longleftrightarrow> opts' = opts \<or>
     (\<exists>b x. b \<in> overridable \<and> opts' = obj_set ''zfs'' (Obj (obj_set b x (zfs_of opts))) opts
        \<and> (b = ''datasetPropertiesOverlay'' \<longrightarrow> (overlay_ok opts \<longrightarrow> overlay_ok opts')))"

lemma writes_one_put:
  "b \<in> overridable \<Longrightarrow> b \<noteq> ''datasetPropertiesOverlay'' \<Longrightarrow> z = zfs_of opts \<Longrightarrow>
   writes_one opts (obj_set ''zfs'' (Obj (obj_set b x z)) opts)"
  by (auto simp: writes_one_def)

lemma overlay_ok_put:
  "b \<noteq> ''datasetPropertiesOverlay'' \<Longrightarrow>
   overlay_ok (obj_set ''zfs'' (Obj (obj_set b x (zfs_of opts))) opts) = overlay_ok opts"
  by (simp add: overlay_ok_def) (simp add: overlay_values_def overlay_entry_def zfs_of_def)

lemma writes_one_inv:
  assumes "writes_one opts opts'" and "same_rest options opts \<and> overlay_ok opts"
  shows "same_rest options opts' \<and> overlay_ok opts'"
proof (cases "opts' = opts")
  case False
  with assms(1) obtain b x where "b \<in> overridable"
    and o': "opts' = obj_set ''zfs'' (Obj (obj_set b x (zfs_of opts))) opts"
    and ok: "b = ''datasetPropertiesOverlay'' \<longrightarrow> (overlay_ok opts \<longrightarrow> overlay_ok opts')"
    unfolding writes_one_def by blast
  with assms(2) have "same_rest options opts'" by (simp add: same_rest_put)
  moreover from ok assms(2) overlay_ok_put [of b x opts] have "overlay_ok opts'"
    unfolding o' by blast
  ultimately show ?thesis ..
qed (use assms in simp)

lemma merge_datasetProperties_writes:
  assumes "merge_datasetProperties L v opts = Inr opts'"
  shows "writes_one opts opts'"
proof -
  from assms obtain z old new where
    "own_object (obj_get opts ''zfs'') = Inr z"
    and old: "own_object (obj_get z ''datasetPropertiesOverlay'') = Inr old"
    and new: "efold (\<lambda>acc name. ebind (validateOverlayDatasetProperty name (obj_get (inner_obj v) name))
             (\<lambda>s. Inr (obj_set name (Str s) acc))) old (obj_keys (inner_obj v)) = Inr new"
    and o': "opts' = obj_set ''zfs'' (Obj (obj_set ''datasetPropertiesOverlay'' (Obj new) z)) opts"
    by (auto simp: merge_datasetProperties_def ebind_eq_Inr split: if_splits)
  then have z: "z = zfs_of opts" by (simp add: zfs_of_def own_object_inner)
  with old have "old = overlay_values opts" by (simp add: overlay_values_def own_object_inner)
  moreover have "overlay_values opts' = new" "overlay_entry opts' = Obj new"
    unfolding o' by (simp_all add: overlay_entry_def zfs_of_def)
  ultimately have "overlay_ok opts \<longrightarrow> overlay_ok opts'"
    using overlay_fold_ok [OF new] unfolding overlay_ok_def by blast
  moreover have "''datasetPropertiesOverlay'' \<in> overridable" by (simp add: overridable_def)
  ultimately show ?thesis unfolding writes_one_def using o' z by blast
qed

lemma merge_clone_writes:
  assumes "merge_cloneDatasetProperties L v opts = Inr opts'"
  shows "writes_one opts opts'"
proof -
  from assms obtain c c' z where "own_object (obj_get opts ''zfs'') = Inr z"
    and o': "opts' = obj_set ''zfs'' (Obj (obj_set ''cloneDatasetProperties''
               (clone_js (merge_clone c c')) z)) opts"
    unfolding merge_cloneDatasetProperties_def ebind_eq_Inr
    by (auto simp: ebind_eq_Inr split: if_splits)
  then have "z = zfs_of opts" by (simp add: zfs_of_def own_object_inner)
  then show ?thesis unfolding o' by (intro writes_one_put) (simp_all add: overridable_def)
qed

lemma merge_prop_writes:
  assumes "lodash_laws L" and "zfs_shape opts" and "p \<in> set allowedOptionsOverrides"
    and "merge_prop L overlay opts p = Inr opts'"
  shows "writes_one opts opts'"
proof -
  have "lo_set L (Obj opts) ''zfs.zvolBlocksize'' x = put_path opts ''zfs'' ''zvolBlocksize'' x" for x
    using assms(1,2) by (intro lodash_set_blocksize) (auto simp: zfs_shape_def)
  then have "writes_one opts (inner_obj (lo_set L (Obj opts) ''zfs.zvolBlocksize'' x))" for x
    by (auto simp: put_path_def zfs_of_def overridable_def intro!: writes_one_put)
  moreover have "writes_one opts opts" by (simp add: writes_one_def)
  ultimately show ?thesis
    using assms(3,4) merge_datasetProperties_writes merge_clone_writes
    by (auto simp: merge_prop_def allowedOptionsOverrides_def split: if_splits)
qed

lemma merge_overlays_inv:
  assumes "lodash_laws L" and "efold (merge_overlay L) opts overlays = Inr opts'"
    and "same_rest options opts \<and> overlay_ok opts"
  shows "same_rest options opts' \<and> overlay_ok opts'"
  using assms(2,3)
proof (rule efold_inv)
  fix overlay s s'
  assume i: "same_rest options s \<and> overlay_ok s" and m: "merge_overlay L s overlay = Inr s'"
  show "same_rest options s' \<and> overlay_ok s'"
    using m [unfolded merge_overlay_def] i
  proof (rule efold_inv)
    fix p u u'
    assume "p \<in> set allowedOptionsOverrides" "same_rest options u \<and> overlay_ok u"
      "merge_prop L overlay u p = Inr u'"
    then have "writes_one u u'"
      by (intro merge_prop_writes [OF assms(1)]) (simp_all add: same_rest_def)
    then show "same_rest options u' \<and> overlay_ok u'"
      by (rule writes_one_inv) fact
  qed
qed

lemma finish_options_writes: "finish_options L opts = Inr opts' \<Longrightarrow> writes_one opts opts'"
  by (auto simp: finish_options_def Let_def ebind_eq_Inr zfs_of_def overridable_def
      split: if_splits intro!: writes_one_put) (simp_all add: writes_one_def)

subsection \<open>A concrete lodash\<close>

definition lodash_std :: lodash where
  "lodash_std =
     \<lparr>lo_has = (\<lambda>v p. path_value v (split_ch (CHR ''.'') p) \<noteq> None),
      lo_get = (\<lambda>v p. or_undef (path_value v (split_ch (CHR ''.'') p))),
      lo_hasPath = (\<lambda>v ks. path_value v ks \<noteq> None),
      lo_getPath = (\<lambda>v ks. or_undef (path_value v ks)),
      lo_set = (\<lambda>v p x. case split_ch (CHR ''.'') p of
          [a, b] \<Rightarrow> put_path (inner_obj v) a b x | _ \<Rightarrow> v),
      lo_isPlainObject = (\<lambda>v. case v of Obj _ \<Rightarrow> True | _ \<Rightarrow> False),
      lo_cloneDeep = (\<lambda>v. v)\<rparr>"

lemma split_option_path:
  "ks \<noteq> [] \<Longrightarrow> set ks \<subseteq> set option_keys \<Longrightarrow> split_ch (CHR ''.'') (join ''.'' ks) = ks"
  by (rule split_join_ch) (auto simp: option_keys_def)

lemma lodash_std_laws: "lodash_laws lodash_std"
  unfolding lodash_laws_def
  using split_option_path [of "[a, b]" for a b]
  by (intro conjI allI impI) (simp_all add: lodash_std_def split_option_path split: js.splits)

section \<open>The merged options\<close>

lemma merged_rest:
  assumes "lodash_laws L" and "getMergedDriverOptions L options overlays = Inr opts"
    and "zfs_shape options" and "overlay_entry options = Undef"
  shows "same_rest options opts \<and> overlay_ok opts"
proof -
  from assms(1,2) obtain merged where m: "efold (merge_overlay L) options overlays = Inr merged"
    and f: "finish_options L merged = Inr opts"
    by (auto simp: getMergedDriverOptions_def ebind_eq_Inr lodash_laws_def)
  have "same_rest options options \<and> overlay_ok options"
    using assms(3,4) by (simp add: same_rest_def overlay_ok_def overlay_values_def overlay_entry_def)
  from merge_overlays_inv [OF assms(1) m this]
  have "same_rest options merged \<and> overlay_ok merged" .
  with finish_options_writes [OF f] show ?thesis by (rule writes_one_inv)
qed

lemma validate_entries_result:
  assumes "validate_entries [] kvs = Inr r"
  shows "distinct (map fst r) \<and> (\<forall>(k, v)\<in>set r. validateOverlayDatasetProperty k (Str v) = Inr v)"
  using assms unfolding validate_entries_def
proof (rule efold_inv)
  fix x s s'
  assume s: "distinct (map fst s) \<and> (\<forall>(k, v)\<in>set s. validateOverlayDatasetProperty k (Str v) = Inr v)"
    and "ebind (validateOverlayDatasetProperty x (obj_get kvs x)) (\<lambda>sa. Inr (obj_set x sa s)) = Inr s'"
  then obtain t where t: "validateOverlayDatasetProperty x (obj_get kvs x) = Inr t"
    and s': "s' = obj_set x t s" by (auto simp: ebind_eq_Inr)
  have "set s' \<subseteq> insert (x, t) (set s)" unfolding s' obj_set_def by (induction s) auto
  with s validateProperty_again [OF t] show "distinct (map fst s') \<and>
      (\<forall>(k, v)\<in>set s'. validateOverlayDatasetProperty k (Str v) = Inr v)"
    by (auto simp: s' distinct_obj_set)
qed simp

lemma validate_set_user:
  assumes "validateCloneDatasetProperties L v = Inr c"
  shows "\<forall>k\<in>fst ` set (cp_set c). user_property k"
proof -
  from assms obtain w where w: "validate_set L w = Inr (cp_set c)"
    by (auto simp: validateCloneDatasetProperties_def Let_def ebind_eq_Inr split: if_splits)
  show ?thesis
  proof (cases "cp_set c = []")
    case False
    with w have "validate_entries [] (inner_obj w) = Inr (cp_set c)"
      by (auto simp: validate_set_def split: if_splits)
    then have r: "distinct (map fst (cp_set c)) \<and>
        (\<forall>(k, v)\<in>set (cp_set c). validateOverlayDatasetProperty k (Str v) = Inr v)"
      by (rule validate_entries_result)
    have "user_property k" if k: "k \<in> fst ` set (cp_set c)" for k
    proof -
      from k obtain v where "(k, v) \<in> set (cp_set c)" by auto
      with r have "validateOverlayDatasetProperty k (Str v) = Inr v" by auto
      then show ?thesis by (blast dest: validateProperty_Inr)
    qed
    then show ?thesis by blast
  qed simp
qed

text \<open>The clone properties of merged options are normalized, and set user properties only.\<close>

lemma merged_clone_set:
  assumes L: "lodash_laws L" and m: "getMergedDriverOptions L options overlays = Inr opts"
    and "zfs_shape opts"
  shows "obj_get (zfs_of opts) ''cloneDatasetProperties'' = Undef
    \<or> (\<exists>c. obj_get (zfs_of opts) ''cloneDatasetProperties'' = clone_js c
         \<and> (\<forall>k\<in>fst ` set (cp_set c). user_property k))"
proof -
  from L m obtain merged where f: "finish_options L merged = Inr opts"
    by (auto simp: getMergedDriverOptions_def ebind_eq_Inr)
  have "''zfs.cloneDatasetProperties'' = join ''.'' [''zfs'', ''cloneDatasetProperties'']" by simp
  then have has: "lo_has L (Obj merged) ''zfs.cloneDatasetProperties''
      \<longleftrightarrow> path_value (Obj merged) [''zfs'', ''cloneDatasetProperties''] \<noteq> None"
    using lodash_paths(1) [OF L, of "[''zfs'', ''cloneDatasetProperties'']"] by (simp add: option_keys_def)
  show ?thesis
  proof (cases "lo_has L (Obj merged) ''zfs.cloneDatasetProperties''
      \<and> obj_get (zfs_of merged) ''cloneDatasetProperties'' \<noteq> Undef")
    case True
    with f obtain c
      where v: "validateCloneDatasetProperties L (obj_get (zfs_of merged) ''cloneDatasetProperties'') = Inr c"
      and o': "opts = obj_set ''zfs'' (Obj (obj_set ''cloneDatasetProperties'' (clone_js c) (zfs_of merged))) merged"
      by (auto simp: finish_options_def Let_def zfs_of_def ebind_eq_Inr)
    have "obj_get (zfs_of opts) ''cloneDatasetProperties'' = clone_js c" by (simp add: o' zfs_of_def)
    with validate_set_user [OF v] show ?thesis by blast
  next
    case False
    with f have "opts = merged" by (simp add: finish_options_def Let_def zfs_of_def split: if_splits)
    with False has assms(3) show ?thesis
      by (auto simp: zfs_shape_def zfs_of_def obj_get_def split: option.splits)
  qed
qed

section \<open>Properties\<close>

text \<open>
  C5: option overlays reach nothing but three entries of \<open>zfs\<close>: in the merged options
  every other option, and every other entry of \<open>zfs\<close>, is the driver's own, and the
  dataset properties that overlays set are user properties outside the namespace of the
  driver, with string values.
\<close>

theorem overlays_confined:
  assumes "lodash_laws L" and "getMergedDriverOptions L options overlays = Inr opts"
    and "zfs_shape options" and "overlay_entry options = Undef"
  shows "(\<forall>k. k \<noteq> ''zfs'' \<longrightarrow> obj_get opts k = obj_get options k)
    \<and> (\<forall>k. k \<notin> overridable \<longrightarrow> obj_get (zfs_of opts) k = obj_get (zfs_of options) k)
    \<and> (\<forall>(name, v)\<in>set (overlay_values opts). user_property name \<and> is_string v)"
proof -
  from merged_rest [OF assms] have r: "same_rest options opts" and k: "overlay_ok opts" by simp_all
  from k have "\<forall>(name, v)\<in>set (overlay_values opts). user_property name \<and> is_string v"
    unfolding overlay_ok_def by force
  with r show ?thesis unfolding same_rest_def by blast
qed

definition sample_options :: jsobj where
  "sample_options = [(''driver'', Str ''zfs-generic-nfs''),
     (''zfs'', Obj [(''datasetParentName'', Str ''tank/v''), (''zvolBlocksize'', Str ''8k'')])]"

definition sample_overlay :: js where
  "sample_overlay = Obj [(''zfs'', Obj [(''datasetParentName'', Str ''other''),
     (''datasetProperties'', Obj [(''team:name'', Num (IntN 7))]), (''zvolBlocksize'', Str ''16k'')])]"

definition sample_merged :: jsobj where
  "sample_merged = [(''driver'', Str ''zfs-generic-nfs''),
     (''zfs'', Obj [(''datasetParentName'', Str ''tank/v''), (''zvolBlocksize'', Str ''16k''),
        (''datasetPropertiesOverlay'', Obj [(''team:name'', Str ''7'')])])]"

lemma sample_merge: "getMergedDriverOptions lodash_std sample_options [sample_overlay] = Inr sample_merged"
  by code_simp

lemma overlays_confined_witness:
  "obj_get sample_merged ''driver'' = Str ''zfs-generic-nfs''
   \<and> obj_get (zfs_of sample_merged) ''datasetParentName'' = Str ''tank/v''
   \<and> user_property ''team:name''"
proof -
  have "zfs_shape sample_options" "overlay_entry sample_options = Undef"
    by (simp_all add: zfs_shape_def sample_options_def overlay_entry_def zfs_of_def obj_get_def)
  from overlays_confined [OF lodash_std_laws sample_merge this]
  have c: "obj_get sample_merged ''driver'' = obj_get sample_options ''driver''"
    "obj_get (zfs_of sample_merged) ''datasetParentName'' = obj_get (zfs_of sample_options) ''datasetParentName''"
    "\<forall>(name, v)\<in>set (overlay_values sample_merged). user_property name \<and> is_string v"
    by (simp_all add: overridable_def)
  moreover have "overlay_values sample_merged = [(''team:name'', Str ''7'')]"
    by (simp add: sample_merged_def overlay_values_def zfs_of_def obj_get_def)
  ultimately show ?thesis by (simp add: sample_options_def zfs_of_def obj_get_def)
qed

lemma validate_entries_obj:
  assumes "distinct (map fst kvs)" and "\<forall>(k, v)\<in>set kvs. validateOverlayDatasetProperty k (Str v) = Inr v"
    and "distinct (map fst acc)" and "fst ` set acc \<inter> fst ` set kvs = {}"
    and "\<forall>(k, v)\<in>set kvs. f k = Str v"
  shows "efold (\<lambda>acc name. ebind (validateOverlayDatasetProperty name (f name))
           (\<lambda>s. Inr (obj_set name s acc))) acc (map fst kvs) = Inr (acc @ kvs)"
  using assms
proof (induction kvs arbitrary: acc)
  case (Cons kv kvs)
  obtain k v where kv: "kv = (k, v)" by force
  have "k \<notin> fst ` set acc" using Cons.prems(4) kv by auto
  then have "obj_set k v acc = acc @ [(k, v)]"
    unfolding obj_set_def by (induction acc) auto
  with Cons kv show ?case by auto
qed simp

lemma map_obj_get_Str:
  "distinct (map fst kvs) \<Longrightarrow> (k, v) \<in> set kvs \<Longrightarrow> obj_get (map (\<lambda>(k, v). (k, Str v)) kvs) k = Str v"
  by (induction kvs) (force simp: obj_get_def)+

lemma emap_name_again:
  "emap (\<lambda>x. validateOverlayDatasetPropertyName x True) xs = Inr c \<Longrightarrow>
   emap (\<lambda>x. validateOverlayDatasetPropertyName x True) (map Str c) = Inr c"
proof (induction xs arbitrary: c)
  case (Cons x xs)
  then obtain s c' where x: "validateOverlayDatasetPropertyName x True = Inr s"
    and "emap (\<lambda>x. validateOverlayDatasetPropertyName x True) xs = Inr c'" "c = s # c'"
    by (auto simp: ebind_eq_Inr)
  with Cons.IH [of c'] validateName_Inr [OF x] x show ?case by simp
qed simp

lemma validate_copy_again:
  assumes "validate_copy v = Inr c"
  shows "validate_copy (Arr (map Str c)) = Inr c"
proof (cases v)
  case (Arr xs)
  with assms have "emap (\<lambda>x. validateOverlayDatasetPropertyName x True) xs = Inr c"
    by (simp add: validate_copy_def)
  then show ?thesis by (simp only: validate_copy_def js.case emap_name_again)
qed (use assms in \<open>simp_all add: validate_copy_def\<close>)

text \<open>
  The normalized form of clone properties is a fixed point: validating it again, as
  every merge does, succeeds and changes nothing.
\<close>

theorem clone_properties_fixed_point:
  assumes "lodash_laws L" and "validateCloneDatasetProperties L v = Inr c"
  shows "validateCloneDatasetProperties L (clone_js c) = Inr c"
proof -
  let ?set = "map (\<lambda>(k, v). (k, Str v)) (cp_set c)"
  from assms(2) obtain w w' where copy: "validate_copy w = Inr (cp_copy c)"
    and set': "validate_set L w' = Inr (cp_set c)"
    by (auto simp: validateCloneDatasetProperties_def Let_def ebind_eq_Inr split: if_splits)
  have "distinct (map fst (cp_set c)) \<and>
      (\<forall>(k, v)\<in>set (cp_set c). validateOverlayDatasetProperty k (Str v) = Inr v)"
    using set' by (auto simp: validate_set_def split: if_splits dest: validate_entries_result)
  then have "validate_entries [] ?set = Inr (cp_set c)"
    using validate_entries_obj [of "cp_set c" "[]" "obj_get ?set"] map_obj_get_Str [of "cp_set c"]
    by (simp add: validate_entries_def obj_keys_def comp_def case_prod_beta')
  with validate_copy_again [OF copy] plain_object_iff [OF assms(1)] show ?thesis
    by (simp add: validateCloneDatasetProperties_def clone_js_def clone_keys_ok_def obj_keys_def
        obj_get_def validate_set_def)
qed

lemma clone_properties_fixed_point_witness:
  "validateCloneDatasetProperties lodash_std
     (clone_js \<lparr>cp_copy = [''a:*'', ''*''], cp_set = [(''x:y'', ''3'')]\<rparr>)
   = Inr \<lparr>cp_copy = [''a:*'', ''*''], cp_set = [(''x:y'', ''3'')]\<rparr>"
proof (rule clone_properties_fixed_point [OF lodash_std_laws])
  show "validateCloneDatasetProperties lodash_std
      (Obj [(''set'', Obj [(''x:y'', Num (IntN 3))]), (''copy'', Arr [Str ''a:*'', Str ''*''])])
    = Inr \<lparr>cp_copy = [''a:*'', ''*''], cp_set = [(''x:y'', ''3'')]\<rparr>"
    by code_simp
qed

text \<open>
  The order of preference of \<open>getNormalizedParameterValue\<close> is the order of the
  parameters: of a value for the instance and one for every driver, the one that comes
  last in the map wins, whichever it is.
\<close>

theorem normalized_value_is_the_last:
  assumes "CHR ''/'' \<notin> set key" and "instance_id \<noteq> []"
    and "i = base_key @ ''/'' @ instance_id @ ''/'' @ key" and "g = base_key @ ''/'' @ key"
  shows "getNormalizedParameterValue [] [(i, a), (g, b)] key [] instance_id = b
    \<and> getNormalizedParameterValue [] [(g, b), (i, a)] key [] instance_id = a"
proof -
  have k: "key \<noteq> i" "key \<noteq> g" "i \<noteq> key" "g \<noteq> key" and ig: "i \<noteq> g" "g \<noteq> i"
    and n: "key \<noteq> instance_id @ ''/'' @ key"
    using assms by (auto simp: base_key_def dest: arg_cong [where f = length])
  have g: "\<not> starts_with g (base_key @ ''/'' @ instance_id @ ''/'')"
    using assms(1) by (auto simp: assms(4) starts_with_iff_prefix)
  have s: "starts_with i (base_key @ ''/'' @ instance_id @ ''/'')" "starts_with i (base_key @ ''/'')"
    "starts_with g (base_key @ ''/'')"
    "drop (length (base_key @ ''/'' @ instance_id @ ''/'')) i = key"
    "drop (length (base_key @ ''/'')) i = instance_id @ ''/'' @ key"
    "drop (length (base_key @ ''/'')) g = key"
    unfolding assms(3,4) starts_with_def by simp_all
  show ?thesis
    unfolding getNormalizedParameterValue_def getNormalizedParameters_def
    using assms(2) k ig n g
    by (simp add: normalize_key_def strip_key_def s [simplified] Let_def str_or_def obj_keys_def)
      (simp add: obj_get_def)
qed

lemma normalized_value_is_the_last_witness:
  "getNormalizedParameterValue [] [(''democratic-csi.org/one/k'', Str ''a''),
     (''democratic-csi.org/k'', Str ''b'')] ''k'' [] ''one'' = Str ''b''"
  using normalized_value_is_the_last [of "''k''" "''one''" _ _ "Str ''a''" "Str ''b''"]
  by (simp add: base_key_def)

end
