(* ===== verification/Zetabyte_Helpers.thy ===== *)
theory Zetabyte_Helpers
  imports Effects
begin

text \<open>
  The pure part of \<open>src/utils/zfs.js\<close>: shell quoting, the error strings, the parsers of
  the tab-separated output of \<open>zfs list\<close> and \<open>zfs get\<close>, the accessors of dataset and
  snapshot names, and the rounding of a capacity to the block size of a zvol.
\<close>

section \<open>Shell quoting\<close>

definition quote_ch :: char where
  "quote_ch = CHR 0x27"

definition shellEscapeArg :: "string \<Rightarrow> string" where
  "shellEscapeArg arg =
     quote_ch # replace_ch quote_ch [quote_ch, CHR 0x5C, quote_ch, quote_ch] arg @ [quote_ch]"

text \<open>\<open>ZfsSshProcessManager.buildCommand\<close>: the name goes in front of the arguments.\<close>

definition buildCommand :: "string \<Rightarrow> string list \<Rightarrow> string" where
  "buildCommand name args = join '' '' (map shellEscapeArg (name # args))"

section \<open>Errors\<close>

text \<open>
  \<open>error\<close> is falsy, the exit code of the child, or an \<open>Error\<close> given as an object with
  its message.
\<close>

definition error_obj :: "string \<Rightarrow> js" where
  "error_obj m = Obj [(''name'', Str ''Error''), (''message'', Str m)]"

definition field :: "js \<Rightarrow> string \<Rightarrow> js" where
  "field v k = (case get_prop v k of Some x \<Rightarrow> x | None \<Rightarrow> Undef)"

definition zfsErrorStr :: "js \<Rightarrow> string \<Rightarrow> js" where
  "zfsErrorStr error stderr =
     (if \<not> truthy error then Null
      else if truthy (field error ''killed'') then Str ''Process killed due to timeout.''
      else or_else (field error ''message'') (Str stderr))"

definition zfsError :: "js \<Rightarrow> string \<Rightarrow> exn" where
  "zfsError error stderr = js_error (to_str (zfsErrorStr error stderr))"

section \<open>Parsers\<close>

definition parseTabSeperatedTable :: "string \<Rightarrow> string list list" where
  "parseTabSeperatedTable data =
     (if data = [] then []
      else map (split_ch (CHR 9)) (filter (\<lambda>l. l \<noteq> []) (split_ch (CHR 10) (trim data))))"

text \<open>The element of an array at an index, undefined past the end.\<close>

definition at :: "string list \<Rightarrow> nat \<Rightarrow> js" where
  "at xs i = (if i < length xs then Str (xs ! i) else Undef)"

definition property_entry :: "string list \<Rightarrow> js" where
  "property_entry cols =
     Obj [(''value'', at cols 2), (''received'', at cols 3), (''source'', at cols 4)]"

definition parse_property_line ::
  "(string \<times> (string \<times> js) list) list \<Rightarrow> string \<Rightarrow> (string \<times> (string \<times> js) list) list" where
  "parse_property_line properties line =
     (let cols = split_ch (CHR 9) line; name = to_str (at cols 0);
          old = (case map_of properties name of Some ps \<Rightarrow> ps | None \<Rightarrow> [])
      in obj_set name (obj_set (to_str (at cols 1)) (property_entry cols) old) properties)"

text \<open>Dataset name to property name to entry, in the order of the output.\<close>

definition parsePropertyList :: "string \<Rightarrow> (string \<times> (string \<times> js) list) list" where
  "parsePropertyList data =
     (if data = [] then []
      else foldl parse_property_line [] (split_ch (CHR 10) (trim data)))"

definition list_row :: "string list \<Rightarrow> string list \<Rightarrow> jsobj" where
  "list_row properties row =
     foldl (\<lambda>entry (i, p). obj_set p (at row i) entry) [] (enumerate 0 properties)"

definition listTableToPropertyList :: "string list \<Rightarrow> string list list \<Rightarrow> jsobj list" where
  "listTableToPropertyList properties data = map (list_row properties) data"

section \<open>Names\<close>

definition extractSnapshotName :: "string \<Rightarrow> string" where
  "extractSnapshotName datasetName = substring_from datasetName (index_of datasetName ''@'' + 1)"

definition extractDatasetName :: "string \<Rightarrow> string" where
  "extractDatasetName datasetName =
     (if contains datasetName ''@'' then substring datasetName 0 (index_of datasetName ''@'')
      else datasetName)"

definition isZfsSnapshot :: "string \<Rightarrow> bool" where
  "isZfsSnapshot snapshotName = contains snapshotName ''@''"

definition extractPool :: "string \<Rightarrow> string" where
  "extractPool datasetName = hd (split_ch (CHR ''/'') datasetName)"

definition extractParentDatasetName :: "string \<Rightarrow> string" where
  "extractParentDatasetName datasetName =
     join ''/'' (butlast (split_ch (CHR ''/'') datasetName))"

definition extractLeafName :: "string \<Rightarrow> string" where
  "extractLeafName datasetName = last (split_ch (CHR ''/'') datasetName)"

definition isPropertyValueSet :: "js \<Rightarrow> bool" where
  "isPropertyValueSet v =
     (\<not> (v = Undef \<or> v = Null \<or> loose_eq v (Str []) \<or> loose_eq v (Str ''-'')))"

section \<open>The size of a zvol\<close>

text \<open>The \<open>switch\<close> on the lowercased block size; any other value stays a string.\<close>

definition block_size_table :: "(string \<times> int) list" where
  "block_size_table =
     [(''512'', 512), (''1024'', 1024), (''1k'', 1024), (''2048'', 2048), (''2k'', 2048),
      (''4096'', 4096), (''4k'', 4096), (''8192'', 8192), (''8k'', 8192), (''16384'', 16384),
      (''16k'', 16384), (''32768'', 32768), (''32k'', 32768), (''65536'', 65536), (''64k'', 65536),
      (''131072'', 131072), (''128k'', 131072)]"

definition block_size_value :: "js \<Rightarrow> jnum" where
  "block_size_value block_size =
     (let b = to_lower (to_str block_size)
      in case map_of block_size_table b of Some n \<Rightarrow> IntN n | None \<Rightarrow> str_to_num b)"

text \<open>
  \<open>Math.round(x / b)\<close> is the floor of \<open>x / b + 1/2\<close>, here in integers. It is what the
  double arithmetic computes when \<open>b\<close> is a power of two and \<open>x\<close> is below \<open>2 ^ 53\<close>.
\<close>

definition round_div :: "int \<Rightarrow> int \<Rightarrow> int" where
  "round_div x b = (2 * x + b) div (2 * b)"

definition generateZvolSize :: "js \<Rightarrow> js \<Rightarrow> jnum" where
  "generateZvolSize capacity_bytes block_size =
     (case (to_num capacity_bytes, block_size_value block_size) of
        (IntN c, IntN b) \<Rightarrow>
          if b = 0 then NaN
          else (let result = b * round_div c b in IntN (if result < c then result + b else result))
      | _ \<Rightarrow> NaN)"

section \<open>Lemmas\<close>

lemma extractDatasetName_at: "CHR ''@'' \<notin> set d \<Longrightarrow> extractDatasetName (d @ ''@'' @ s) = d"
  using contains_append_mid [of d "''@''" s]
  by (simp add: extractDatasetName_def index_of_def find_at_single_append)

lemma extractSnapshotName_at: "CHR ''@'' \<notin> set d \<Longrightarrow> extractSnapshotName (d @ ''@'' @ s) = s"
  using substring_from_append [of "int (length d) + 1" "d @ ''@''" s]
  by (simp add: extractSnapshotName_def index_of_def find_at_single_append)

lemma extractParent_child:
  "CHR ''/'' \<notin> set c \<Longrightarrow> extractParentDatasetName (p @ ''/'' @ c) = p"
proof -
  assume c: "CHR ''/'' \<notin> set c"
  have "split_ch (CHR ''/'') (p @ CHR ''/'' # c) = split_ch (CHR ''/'') p @ [c]"
    using c by (induction p) (auto simp: split_ch_no_sep split: list.splits)
  then show ?thesis by (simp add: extractParentDatasetName_def join_split_ch)
qed

lemma extractLeaf_child:
  "CHR ''/'' \<notin> set c \<Longrightarrow> extractLeafName (p @ ''/'' @ c) = c"
proof -
  assume c: "CHR ''/'' \<notin> set c"
  have "split_ch (CHR ''/'') (p @ CHR ''/'' # c) = split_ch (CHR ''/'') p @ [c]"
    using c by (induction p) (auto simp: split_ch_no_sep split: list.splits)
  then show ?thesis by (simp add: extractLeafName_def)
qed

lemma round_div_bounds:
  assumes "b > 0"
  shows "2 * x - b < 2 * (b * round_div x b) \<and> 2 * (b * round_div x b) \<le> 2 * x + b"
proof -
  let ?y = "2 * x + b"
  have "?y = 2 * b * (?y div (2 * b)) + ?y mod (2 * b)" by simp
  moreover have "0 \<le> ?y mod (2 * b)" "?y mod (2 * b) < 2 * b" using assms by simp_all
  ultimately show ?thesis unfolding round_div_def mult.assoc by linarith
qed

lemma field_error_obj [simp]:
  "field (error_obj m) ''killed'' = Undef" "field (error_obj m) ''message'' = Str m"
  by (simp_all add: field_def error_obj_def obj_get_def)

lemma zfsError_twice [simp]: "zfsError (error_obj m) m = js_error m"
  by (simp add: zfsError_def zfsErrorStr_def or_else_def) (simp add: error_obj_def)

section \<open>Reading words back from a command line\<close>

text \<open>
  The reference for the quoting: how a POSIX shell splits a line into words when the line
  uses blanks, single quotes and backslashes. \<open>None\<close> stands for an unterminated quote.
  The last argument is the word being read, if one has begun.
\<close>

fun sh_words :: "string \<Rightarrow> bool \<Rightarrow> string option \<Rightarrow> string list option" where
  "sh_words [] q w = (if q then None else Some (case w of None \<Rightarrow> [] | Some v \<Rightarrow> [v]))"
| "sh_words (c # s) True w =
     (if c = quote_ch then sh_words s False w
      else sh_words s True (Some ((case w of None \<Rightarrow> [] | Some v \<Rightarrow> v) @ [c])))"
| "sh_words (c # s) False w =
     (if c = quote_ch then sh_words s True (Some (case w of None \<Rightarrow> [] | Some v \<Rightarrow> v))
      else if c = CHR '' '' then
        (case w of None \<Rightarrow> sh_words s False None
         | Some v \<Rightarrow> map_option ((#) v) (sh_words s False None))
      else if c = CHR 0x5C then
        (case s of [] \<Rightarrow> None
         | d # s' \<Rightarrow> sh_words s' False (Some ((case w of None \<Rightarrow> [] | Some v \<Rightarrow> v) @ [d])))
      else sh_words s False (Some ((case w of None \<Rightarrow> [] | Some v \<Rightarrow> v) @ [c])))"

lemma sh_words_quoted:
  "sh_words (replace_ch quote_ch [quote_ch, CHR 0x5C, quote_ch, quote_ch] a @ quote_ch # rest) True (Some v)
   = sh_words rest False (Some (v @ a))"
proof (induction a arbitrary: v)
  case Nil
  then show ?case by (simp add: replace_ch_def)
next
  case (Cons c a)
  show ?case
  proof (cases "c = quote_ch")
    case True
    have b: "CHR 0x5C \<noteq> quote_ch" "CHR 0x5C \<noteq> CHR '' ''" "quote_ch \<noteq> CHR '' ''"
      by (simp_all add: quote_ch_def)
    with True Cons [of "v @ [c]"] show ?thesis by (simp add: replace_ch_Cons)
  next
    case False
    with Cons [of "v @ [c]"] show ?thesis by (simp add: replace_ch_Cons)
  qed
qed

lemma sh_words_escaped: "sh_words (shellEscapeArg a @ rest) False None = sh_words rest False (Some a)"
  using sh_words_quoted [of a rest "[]"] by (simp add: shellEscapeArg_def)

lemma sh_words_args:
  "args \<noteq> [] \<Longrightarrow> sh_words (join '' '' (map shellEscapeArg args)) False None = Some args"
proof (induction args rule: induct_list012)
  case (2 a)
  then show ?case using sh_words_escaped [of a "[]"] by simp
next
  case (3 a b args)
  have "CHR '' '' \<noteq> quote_ch" by (simp add: quote_ch_def)
  with 3 show ?case by (simp add: sh_words_escaped)
qed simp

lemma zvol_size_bounds:
  assumes "map_of block_size_table (to_lower (to_str bs)) = Some b" and "to_num cap = IntN c"
  shows "\<exists>n. generateZvolSize cap bs = IntN n \<and> b dvd n \<and> c \<le> n \<and> n < c + b"
proof -
  have "b > 0" using assms(1) by (auto simp: block_size_table_def split: if_splits)
  with round_div_bounds [OF this, of c] assms show ?thesis
    by (auto simp: generateZvolSize_def block_size_value_def Let_def)
qed

section \<open>Properties\<close>

text \<open>
  C8: the command line built for a remote shell is read back by the shell as exactly the
  program name and the arguments it was built from, whatever characters they hold.
\<close>

theorem buildCommand_roundtrip: "sh_words (buildCommand name args) False None = Some (name # args)"
  by (simp only: buildCommand_def sh_words_args list.distinct not_False_eq_True)

text \<open>
  For every block size the table knows, the zvol size computed from a capacity is a
  multiple of the block size, at least the capacity, and less than one block above it.
\<close>

theorem generateZvolSize_bounds:
  assumes "map_of block_size_table (to_lower (to_str bs)) = Some b" and "to_num cap = IntN c"
  shows "\<exists>n. generateZvolSize cap bs = IntN n \<and> b dvd n \<and> c \<le> n \<and> n < c + b"
  using assms by (rule zvol_size_bounds)

lemma generateZvolSize_bounds_witness:
  "generateZvolSize (Str ''1073741825'') (Str ''16K'') = IntN 1073758208 \<and>
   (\<exists>n. generateZvolSize (Str ''1073741825'') (Str ''16K'') = IntN n \<and> 16384 dvd n
      \<and> 1073741825 \<le> n \<and> n < 1073741825 + 16384)"
proof -
  have 1: "map_of block_size_table (to_lower (to_str (Str ''16K''))) = Some 16384" by code_simp
  have 2: "to_num (Str ''1073741825'') = IntN 1073741825" by (simp add: str_num_eval)
  have "generateZvolSize (Str ''1073741825'') (Str ''16K'') = IntN 1073758208"
    using 1 2 by (simp add: generateZvolSize_def block_size_value_def round_div_def Let_def)
  with generateZvolSize_bounds [OF 1 2] show ?thesis by blast
qed

section \<open>The output of zfs get\<close>

text \<open>
  What \<open>zfs get -Hp -o name,property,value,received,source\<close> prints: one line per entry,
  the columns separated by tabs. \<open>good_rows\<close>: five columns each, free of tabs and line
  breaks, and no blank at the two ends of the text, which \<open>trim\<close> would remove.
\<close>

definition zfs_get_output :: "string list list \<Rightarrow> string" where
  "zfs_get_output rows = join [CHR 10] (map (join [CHR 9]) rows) @ [CHR 10]"

definition good_rows :: "string list list \<Rightarrow> bool" where
  "good_rows rows \<longleftrightarrow> rows \<noteq> [] \<and>
     (\<forall>r\<in>set rows. length r = 5 \<and> (\<forall>c\<in>set r. CHR 9 \<notin> set c \<and> CHR 10 \<notin> set c)) \<and>
     hd (hd rows) \<noteq> [] \<and> \<not> is_space (hd (hd (hd rows))) \<and>
     last (last rows) \<noteq> [] \<and> \<not> is_space (last (last (last rows)))"

definition property_at :: "(string \<times> (string \<times> js) list) list \<Rightarrow> string \<Rightarrow> string \<Rightarrow> js option" where
  "property_at properties d p = Option.bind (map_of properties d) (\<lambda>ps. map_of ps p)"

lemma join_ends:
  "ws \<noteq> [] \<Longrightarrow> hd ws \<noteq> [] \<Longrightarrow> join d ws \<noteq> [] \<and> hd (join d ws) = hd (hd ws)"
  "ws \<noteq> [] \<Longrightarrow> last ws \<noteq> [] \<Longrightarrow> join d ws \<noteq> [] \<and> last (join d ws) = last (last ws)"
  by (induction d ws rule: join.induct) auto

lemma property_at_line:
  assumes "split_ch (CHR 9) line = r" and "length r = 5"
  shows "property_at (parse_property_line P line) d p =
     (if d = r ! 0 \<and> p = r ! 1 then Some (property_entry r) else property_at P d p)"
  using assms
  by (auto simp: parse_property_line_def property_at_def at_def map_of_obj_set Let_def
      split: option.splits)

lemma property_at_lines:
  "\<forall>r\<in>set rows. length r = 5 \<and> (\<forall>c\<in>set r. CHR 9 \<notin> set c) \<Longrightarrow>
   property_at (foldl parse_property_line P (map (join [CHR 9]) rows)) d p =
     (case map_of (rev (map (\<lambda>r. ((r ! 0, r ! 1), property_entry r)) rows)) (d, p) of
        Some e \<Rightarrow> Some e | None \<Rightarrow> property_at P d p)"
proof (induction rows arbitrary: P)
  case (Cons r rows)
  then have "r \<noteq> []" by auto
  with Cons.prems have "split_ch (CHR 9) (join [CHR 9] r) = r" by (simp add: split_join_ch)
  with Cons show ?case
    by (auto simp: property_at_line map_add_def split: option.splits)
qed simp

lemma trim_line_end: "trim (s @ [CHR 10]) = trim s"
proof (cases "\<forall>x\<in>set s. is_space x")
  case True
  then have "dropWhile is_space s = []" by (rule dropWhile_all)
  moreover have "dropWhile is_space (s @ [CHR 10]) = []"
    using True by (intro dropWhile_all) (auto simp: is_space_def)
  ultimately show ?thesis by (simp only: trim_def)
next
  case False
  then have "dropWhile is_space (s @ [CHR 10]) = dropWhile is_space s @ [CHR 10]"
    by (auto simp: dropWhile_append)
  then show ?thesis by (simp add: trim_def is_space_def)
qed

lemma split_output:
  assumes "good_rows rows"
  shows "split_ch (CHR 10) (trim (zfs_get_output rows)) = map (join [CHR 9]) rows"
proof -
  let ?ls = "map (join [CHR 9]) rows"
  from assms have ne: "rows \<noteq> []" and r5: "\<forall>r\<in>set rows. length r = 5" by (auto simp: good_rows_def)
  then have "hd rows \<noteq> []" "last rows \<noteq> []" by (metis hd_in_set last_in_set list.size(3) zero_neq_numeral)+
  with assms have h: "hd (hd ?ls) = hd (hd (hd rows))" "hd ?ls \<noteq> []"
    and l: "last (last ?ls) = last (last (last rows))" "last ?ls \<noteq> []"
    using join_ends(1) [of "hd rows" "[CHR 9]"] join_ends(2) [of "last rows" "[CHR 9]"]
    by (auto simp: good_rows_def hd_map last_map)
  with assms ne have "trim (join [CHR 10] ?ls) = join [CHR 10] ?ls"
    using join_ends(1) [of ?ls "[CHR 10]"] join_ends(2) [of ?ls "[CHR 10]"]
    by (intro trim_id) (auto simp: good_rows_def)
  moreover have "CHR 10 \<notin> set (join [CHR 9] r)" if "r \<in> set rows" for r
  proof -
    have "set (join [CHR 9] w) \<subseteq> insert (CHR 9) (\<Union>c\<in>set w. set c)" for w
      by (induction "[CHR 9]" w rule: join.induct) auto
    with assms that show ?thesis by (fastforce simp: good_rows_def)
  qed
  ultimately show ?thesis
    using ne by (simp add: zfs_get_output_def trim_line_end split_join_ch)
qed

text \<open>
  Parsing the output of \<open>zfs get\<close> gives back, for every dataset and property, the
  entry that the output lists last for them, and nothing for a pair it does not list.
\<close>

theorem parsePropertyList_roundtrip:
  assumes "good_rows rows"
  shows "property_at (parsePropertyList (zfs_get_output rows)) d p =
    map_of (rev (map (\<lambda>r. ((r ! 0, r ! 1), property_entry r)) rows)) (d, p)"
proof -
  have "zfs_get_output rows \<noteq> []" by (simp add: zfs_get_output_def)
  moreover have "\<forall>r\<in>set rows. length r = 5 \<and> (\<forall>c\<in>set r. CHR 9 \<notin> set c)"
    using assms by (auto simp: good_rows_def)
  ultimately show ?thesis
    by (simp add: parsePropertyList_def split_output [OF assms] property_at_lines)
       (simp add: property_at_def split: option.splits)
qed

lemma parsePropertyList_roundtrip_witness:
  "property_at (parsePropertyList (zfs_get_output
     [[''p/a'', ''volsize'', ''1024'', ''-'', ''local''], [''p/a'', ''refquota'', ''0'', ''-'', ''default'']]))
     ''p/a'' ''volsize'' = Some (property_entry [''p/a'', ''volsize'', ''1024'', ''-'', ''local''])"
  by (subst parsePropertyList_roundtrip) (simp_all add: good_rows_def is_space_def)

end
