(* ===== verification/Zetabyte.thy ===== *)
theory Zetabyte
  imports Zetabyte_Helpers
begin

text \<open>
  The commands of \<open>Zetabyte\<close> (\<open>src/utils/zfs.js\<close>): the constructor, the argument vector
  of every \<open>zpool\<close> and \<open>zfs\<close> sub-command, and \<open>exec\<close>, which wraps it in \<open>chroot\<close> and
  \<open>sudo\<close>, spawns one child and settles the promise of the command. The child process is
  a parameter: \<open>zb_spawn\<close> answers a command and its arguments with what the child did.
\<close>

section \<open>The executor\<close>

text \<open>
  What a spawned child reports: its exit code (None when a signal killed it), its output, and
  whether the timer of \<open>exec\<close> had fired; or that it could not be started, an
  \<open>error\<close> event nobody listens to.
\<close>

datatype spawn_out = Closed "int option" string string bool | SpawnFailed msg

record 'e zetabyte =
  zb_options :: jsobj
  zb_spawn :: "string \<Rightarrow> string list \<Rightarrow> jsobj \<Rightarrow> 'e \<Rightarrow> spawn_out \<times> 'e"

definition default_to :: "string \<Rightarrow> js \<Rightarrow> jsobj \<Rightarrow> jsobj" where
  "default_to k d ob = (if truthy (obj_get ob k) then ob else obj_set k d ob)"

fun obj_of :: "js \<Rightarrow> jsobj" where
  "obj_of (Obj kvs) = kvs"
| "obj_of _ = []"

text \<open>The constructor; the logger and the default executor are not part of the model.\<close>

definition zetabyte_options :: "jsobj \<Rightarrow> jsobj" where
  "zetabyte_options options =
     (let paths = obj_of (obj_get options ''paths'');
          paths = default_to ''zpool'' (Str ''/sbin/zpool'') paths;
          paths = default_to ''zfs'' (Str ''/sbin/zfs'') paths;
          paths = default_to ''sudo'' (Str ''/usr/bin/sudo'') paths;
          paths = default_to ''chroot'' (Str ''/usr/sbin/chroot'') paths;
          options = obj_set ''paths'' (Obj paths) options;
          options = default_to ''timeout'' (Num (IntN (10 * 60 * 1000))) options
      in if obj_has options ''log_commands'' then options
         else obj_set ''log_commands'' (Bool False) options)"

definition new_zetabyte ::
  "jsobj \<Rightarrow> (string \<Rightarrow> string list \<Rightarrow> jsobj \<Rightarrow> 'e \<Rightarrow> spawn_out \<times> 'e) \<Rightarrow> 'e zetabyte" where
  "new_zetabyte options spawn = \<lparr>zb_options = zetabyte_options options, zb_spawn = spawn\<rparr>"

definition DEFAULT_ZPOOL_LIST_PROPERTIES :: js where
  "DEFAULT_ZPOOL_LIST_PROPERTIES =
     Arr (map Str [''name'', ''size'', ''allocated'', ''free'', ''cap'', ''health'', ''altroot''])"

definition DEFAULT_ZFS_LIST_PROPERTIES :: js where
  "DEFAULT_ZFS_LIST_PROPERTIES =
     Arr (map Str [''name'', ''used'', ''avail'', ''refer'', ''type'', ''mountpoint''])"

definition zb_opt :: "'e zetabyte \<Rightarrow> string \<Rightarrow> js" where
  "zb_opt Z k = obj_get (zb_options Z) k"

definition zb_path :: "'e zetabyte \<Rightarrow> string \<Rightarrow> string" where
  "zb_path Z k = to_str (field (zb_opt Z ''paths'') k)"

section \<open>exec\<close>

text \<open>The command and the arguments after the \<open>chroot\<close> and the \<open>sudo\<close> prefixes.\<close>

definition exec_command :: "'e zetabyte \<Rightarrow> string \<Rightarrow> string list \<Rightarrow> jsobj \<Rightarrow> string \<times> string list" where
  "exec_command Z command args options =
     (let (command, args) =
            (if truthy (zb_opt Z ''chroot'')
             then (zb_path Z ''chroot'', to_str (zb_opt Z ''chroot'') # command # args)
             else (command, args));
          use_sudo = (if obj_has options ''sudo'' then obj_get options ''sudo'' else zb_opt Z ''sudo'')
      in if truthy use_sudo then (zb_path Z ''sudo'', command # args) else (command, args))"

text \<open>
  \<open>exec\<close> up to the first call of its callback, with the error, the output and the error
  output it passes. (After an error it calls the callback a second time, without the error,
  when the promise is settled already.) A killed child has the code null, which counts as no
  error; on a nonzero code after a timeout, \<open>error.killed = true\<close> assigns a property to a
  number, a TypeError inside the listener.
\<close>

definition zb_exec ::
  "'e zetabyte \<Rightarrow> string \<Rightarrow> string list \<Rightarrow> jsobj \<Rightarrow> ('e world, js \<times> string \<times> string) io" where
  "zb_exec Z command args options =
     (let (c, a) = exec_command Z command args options
      in bind (perform (EvSpawn c a) (\<lambda>e. case zb_spawn Z c a options e of (r, e') \<Rightarrow> (Inr r, e')))
           (\<lambda>r. case r of
              SpawnFailed m \<Rightarrow> throw (Uncaught m)
            | Closed code stdout stderr killed \<Rightarrow>
                (case code of
                   None \<Rightarrow> ret (Null, stdout, stderr)
                 | Some n \<Rightarrow>
                     if n = 0 then ret (Null, stdout, stderr)
                     else if killed \<and> truthy (obj_get options ''timeout'')
                     then throw (Uncaught ''TypeError'')
                     else ret (error_obj (to_str (zfsErrorStr (Num (IntN n)) stderr)), stdout, stderr))))"

section \<open>Arguments\<close>

definition flag :: "js \<Rightarrow> string \<Rightarrow> string list" where
  "flag v f = (if truthy v then [f] else [])"

definition flag_value :: "js \<Rightarrow> string \<Rightarrow> string list" where
  "flag_value v f = (if truthy v then [f, to_str v] else [])"

text \<open>\<open>Object.entries\<close> of a value that is not null or undefined.\<close>

fun entries :: "js \<Rightarrow> (string \<times> js) list" where
  "entries (Obj kvs) = kvs"
| "entries (Arr xs) = map (\<lambda>(i, x). (show_nat i, x)) (enumerate 0 xs)"
| "entries (Str s) = map (\<lambda>(i, c). (show_nat i, Str [c])) (enumerate 0 s)"
| "entries _ = []"

definition property_args :: "string \<Rightarrow> js \<Rightarrow> string list" where
  "property_args f v =
     (if truthy v then concat (map (\<lambda>(k, x). [f, k @ ''='' @ to_str x]) (entries v)) else [])"

text \<open>An array contributes each of its elements, any other value itself.\<close>

fun each_item :: "js \<Rightarrow> string list" where
  "each_item (Arr xs) = map to_str xs"
| "each_item v = [to_str v]"

definition optional_items :: "js \<Rightarrow> string list" where
  "optional_items v = (if truthy v then each_item v else [])"

definition timeout_opts :: "'e zetabyte \<Rightarrow> jsobj" where
  "timeout_opts Z = [(''timeout'', zb_opt Z ''timeout'')]"

definition is_idempotent :: "'e zetabyte \<Rightarrow> jsobj \<Rightarrow> bool" where
  "is_idempotent Z options =
     truthy (if obj_has options ''idempotent'' then obj_get options ''idempotent''
             else if obj_has (zb_options Z) ''idempotent'' then zb_opt Z ''idempotent''
             else Bool False)"

definition set_default :: "string \<Rightarrow> js \<Rightarrow> jsobj \<Rightarrow> jsobj" where
  "set_default k v options = (if obj_has options k then options else obj_set k v options)"

text \<open>
  The tail every command shares: run the program, reject on an error that is not tolerated,
  resolve with the output otherwise. \<open>zfs\<close> commands reject with an \<open>Error\<close>, \<open>zpool\<close>
  commands with the plain error output.
\<close>

definition zfs_run :: "'e zetabyte \<Rightarrow> string list \<Rightarrow> (string \<Rightarrow> bool) \<Rightarrow> ('e world, string) io" where
  "zfs_run Z args tolerated =
     bind (zb_exec Z (zb_path Z ''zfs'') args (timeout_opts Z))
       (\<lambda>(error, stdout, stderr).
          if truthy error \<and> \<not> tolerated stderr then throw (zfsError error stderr) else ret stdout)"

definition zpool_run :: "'e zetabyte \<Rightarrow> string list \<Rightarrow> ('e world, string) io" where
  "zpool_run Z args =
     bind (zb_exec Z (zb_path Z ''zpool'') args (timeout_opts Z))
       (\<lambda>(error, stdout, stderr). if truthy error then throw (StrError stderr) else ret stdout)"

definition invalid_arguments :: exn where
  "invalid_arguments = js_error ''Invalid arguments''"

section \<open>zfs commands\<close>

text \<open>The number of arguments of a call is the first argument where the code checks it.\<close>

definition zfs_create :: "'e zetabyte \<Rightarrow> nat \<Rightarrow> string \<Rightarrow> jsobj \<Rightarrow> ('e world, string) io" where
  "zfs_create Z nargs dataset options =
     (if \<not> nargs \<ge> 1 then throw (type_error ''not a constructor'')
      else zfs_run Z
        ([''create''] @ flag (obj_get options ''parents'') ''-p''
          @ flag (obj_get options ''unmounted'') ''-u''
          @ flag_value (obj_get options ''blocksize'') ''-b''
          @ property_args ''-o'' (obj_get options ''properties'')
          @ flag_value (obj_get options ''size'') ''-V'' @ [dataset])
        (\<lambda>stderr. is_idempotent Z options \<and> contains stderr ''dataset already exists''))"

definition destroy_tolerates :: "string \<Rightarrow> bool" where
  "destroy_tolerates stderr =
     (contains stderr ''dataset does not exist'' \<or>
      contains stderr ''could not find any snapshots to destroy'')"

definition destroy_args :: "string \<Rightarrow> jsobj \<Rightarrow> string list" where
  "destroy_args dataset options =
     (let options = set_default ''parseable'' (Bool True) options
      in [''destroy''] @ flag (obj_get options ''recurse'') ''-r''
          @ flag (obj_get options ''dependents'') ''-R'' @ flag (obj_get options ''force'') ''-f''
          @ flag (obj_get options ''noop'') ''-n'' @ flag (obj_get options ''parseable'') ''-p''
          @ flag (obj_get options ''verbose'') ''-v'' @ flag (obj_get options ''defer'') ''-d''
          @ [dataset])"

definition zfs_destroy :: "'e zetabyte \<Rightarrow> nat \<Rightarrow> string \<Rightarrow> jsobj \<Rightarrow> ('e world, string) io" where
  "zfs_destroy Z nargs dataset options =
     (if \<not> nargs \<ge> 1 then throw invalid_arguments
      else zfs_run Z (destroy_args dataset options)
        (\<lambda>stderr. is_idempotent Z options \<and> destroy_tolerates stderr))"

definition zfs_snapshot :: "'e zetabyte \<Rightarrow> nat \<Rightarrow> js \<Rightarrow> jsobj \<Rightarrow> ('e world, string) io" where
  "zfs_snapshot Z nargs dataset options =
     (if \<not> nargs \<ge> 1 then throw invalid_arguments
      else zfs_run Z
        ([''snapshot''] @ flag (obj_get options ''recurse'') ''-r''
          @ property_args ''-o'' (obj_get options ''properties'') @ each_item dataset)
        (\<lambda>stderr. is_idempotent Z options \<and> contains stderr ''dataset already exists''))"

definition zfs_rollback :: "'e zetabyte \<Rightarrow> nat \<Rightarrow> string \<Rightarrow> jsobj \<Rightarrow> ('e world, string) io" where
  "zfs_rollback Z nargs dataset options =
     (if \<not> nargs \<ge> 1 then throw invalid_arguments
      else zfs_run Z
        ([''rollback''] @ flag (obj_get options ''recent'') ''-r''
          @ flag (obj_get options ''dependents'') ''-R'' @ flag (obj_get options ''force'') ''-f''
          @ [dataset])
        (\<lambda>_. False))"

definition zfs_clone ::
  "'e zetabyte \<Rightarrow> nat \<Rightarrow> string \<Rightarrow> string \<Rightarrow> jsobj \<Rightarrow> ('e world, string) io" where
  "zfs_clone Z nargs snapshot dataset options =
     (if \<not> nargs \<ge> 2 then throw invalid_arguments
      else zfs_run Z
        ([''clone''] @ flag (obj_get options ''parents'') ''-p''
          @ property_args ''-o'' (obj_get options ''properties'') @ [snapshot, dataset])
        (\<lambda>stderr. is_idempotent Z options \<and> contains stderr ''dataset already exists''))"

text \<open>The pipeline handed to \<open>/bin/sh -c\<close>; \<open>sudo\<close> goes in front of each of its two commands.\<close>

definition send_receive_command ::
  "'e zetabyte \<Rightarrow> string \<Rightarrow> string list \<Rightarrow> string \<Rightarrow> string list \<Rightarrow> string" where
  "send_receive_command Z source send_options target receive_options =
     (let sudo = (if truthy (zb_opt Z ''sudo'') then [zb_path Z ''sudo''] else [])
      in join '' '' (sudo @ [''zfs'', ''send''] @ map shellEscapeArg send_options
           @ [shellEscapeArg source] @ [''|''] @ sudo @ [''zfs'', ''receive'']
           @ map shellEscapeArg receive_options @ [shellEscapeArg target]))"

definition zfs_send_receive ::
  "'e zetabyte \<Rightarrow> nat \<Rightarrow> string \<Rightarrow> string list \<Rightarrow> string \<Rightarrow> string list \<Rightarrow> ('e world, string) io" where
  "zfs_send_receive Z nargs source send_options target receive_options =
     (if nargs < 4 then throw invalid_arguments
      else bind (zb_exec Z ''/bin/sh''
             [''-c'', send_receive_command Z source send_options target receive_options]
             (timeout_opts Z @ [(''sudo'', Bool False)]))
           (\<lambda>(error, stdout, stderr).
              if truthy error then throw (zfsError error stderr) else ret stdout))"

definition zfs_promote :: "'e zetabyte \<Rightarrow> nat \<Rightarrow> string \<Rightarrow> ('e world, string) io" where
  "zfs_promote Z nargs dataset =
     (if nargs \<noteq> 1 then throw invalid_arguments
      else zfs_run Z [''promote'', dataset] (\<lambda>_. False))"

definition zfs_rename ::
  "'e zetabyte \<Rightarrow> nat \<Rightarrow> string \<Rightarrow> string \<Rightarrow> jsobj \<Rightarrow> ('e world, string) io" where
  "zfs_rename Z nargs source target options =
     (if \<not> nargs \<ge> 2 then throw invalid_arguments
      else zfs_run Z
        ([''rename''] @ flag (obj_get options ''parents'') ''-p''
          @ flag (obj_get options ''unmounted'') ''-u'' @ flag (obj_get options ''force'') ''-f''
          @ flag (obj_get options ''recurse'') ''-r'' @ [source, target])
        (\<lambda>_. False))"

text \<open>
  The value of \<open>list\<close>: with \<open>parse\<close> the rows of the table and one object per row, the
  text otherwise. Parsing needs the properties as an array: a property list given as a string
  has no \<open>forEach\<close>, a TypeError inside the listener as soon as there is a row.
\<close>

datatype list_result = Table (list_properties: js) (list_data: "string list list") (indexed: "jsobj list")
  | Raw (list_properties: js) string

definition list_table :: "js \<Rightarrow> string \<Rightarrow> ('w, list_result) io" where
  "list_table properties stdout =
     (let data = parseTabSeperatedTable stdout
      in case properties of
           Arr ps \<Rightarrow> ret (Table properties data (listTableToPropertyList (map to_str ps) data))
         | _ \<Rightarrow> if data = [] then ret (Table properties data []) else throw (Uncaught ''TypeError''))"

definition listed_properties :: "js \<Rightarrow> js \<Rightarrow> js" where
  "listed_properties fallback properties =
     (if \<not> truthy properties \<or> properties = Arr [] then fallback else properties)"

text \<open>\<open>parsable\<close> is the name the code gives the default, and \<open>parseable\<close> the one it reads.\<close>

definition list_args :: "string \<Rightarrow> js \<Rightarrow> jsobj \<Rightarrow> string list" where
  "list_args dataset properties options =
     ([''list''] @ flag (obj_get options ''recurse'') ''-r''
       @ flag_value (obj_get options ''depth'') ''-d''
       @ flag (or_else (obj_get options ''parseable'') (obj_get options ''parse'')) ''-Hp''
       @ flag_value (obj_get options ''types'') ''-t''
       @ [''-o'', to_str properties] @ [dataset])"

definition parse_defaults :: "jsobj \<Rightarrow> jsobj" where
  "parse_defaults options =
     (let options = set_default ''parse'' (Bool True) options
      in if obj_has options ''parseable'' then options else obj_set ''parsable'' (Bool True) options)"

definition zfs_list ::
  "'e zetabyte \<Rightarrow> nat \<Rightarrow> string \<Rightarrow> js \<Rightarrow> jsobj \<Rightarrow> ('e world, list_result) io" where
  "zfs_list Z nargs dataset properties options =
     (if \<not> nargs \<ge> 1 then throw invalid_arguments
      else let properties = listed_properties DEFAULT_ZFS_LIST_PROPERTIES properties;
               options = parse_defaults options
           in bind (zfs_run Z (list_args dataset properties options) (\<lambda>_. False))
                (\<lambda>stdout. if truthy (obj_get options ''parse'') then list_table properties stdout
                          else ret (Raw properties stdout)))"

definition set_args :: "string \<Rightarrow> jsobj \<Rightarrow> string list" where
  "set_args dataset properties =
     [''set''] @ map (\<lambda>(k, v). k @ ''='' @ to_str v) properties @ [dataset]"

definition zfs_set :: "'e zetabyte \<Rightarrow> nat \<Rightarrow> string \<Rightarrow> jsobj \<Rightarrow> ('e world, string option) io" where
  "zfs_set Z nargs dataset properties =
     (if nargs \<noteq> 2 then throw invalid_arguments
      else if properties = [] then ret None
      else bind (zfs_run Z (set_args dataset properties) (\<lambda>_. False)) (\<lambda>stdout. ret (Some stdout)))"

text \<open>
  The value of \<open>get\<close>. The depth is not passed on: the code drops the array that
  \<open>concat\<close> returns.
\<close>

datatype get_result = Properties "(string \<times> (string \<times> js) list) list" | RawGet string

definition get_args :: "string \<Rightarrow> js \<Rightarrow> jsobj \<Rightarrow> string list" where
  "get_args dataset properties options =
     ([''get''] @ flag (obj_get options ''recurse'') ''-r''
       @ flag (or_else (obj_get options ''parseable'') (obj_get options ''parse'')) ''-Hp''
       @ (if truthy (obj_get options ''parse'')
          then [''-o'', ''name,property,value,received,source''] else [])
       @ (if truthy (obj_get options ''fields'') \<and> \<not> truthy (obj_get options ''parse'')
          then [''-o'', to_str (obj_get options ''fields'')] else [])
       @ flag_value (obj_get options ''types'') ''-t''
       @ flag_value (obj_get options ''sources'') ''-s''
       @ [to_str properties] @ [dataset])"

definition zfs_get ::
  "'e zetabyte \<Rightarrow> nat \<Rightarrow> string \<Rightarrow> js \<Rightarrow> jsobj \<Rightarrow> ('e world, get_result) io" where
  "zfs_get Z nargs dataset properties options =
     (if \<not> nargs \<ge> 2 then throw invalid_arguments
      else let properties = listed_properties (Str ''all'') properties;
               options = parse_defaults options
           in bind (zfs_run Z (get_args dataset properties options) (\<lambda>_. False))
                (\<lambda>stdout. ret (if truthy (obj_get options ''parse'')
                                then Properties (parsePropertyList stdout) else RawGet stdout)))"

text \<open>\<open>inherit\<close> reads the options of the constructor.\<close>

definition zfs_inherit :: "'e zetabyte \<Rightarrow> nat \<Rightarrow> string \<Rightarrow> string \<Rightarrow> ('e world, string) io" where
  "zfs_inherit Z nargs dataset property =
     (if nargs \<noteq> 2 then throw invalid_arguments
      else zfs_run Z ([''inherit''] @ flag (zb_opt Z ''recurse'') ''-r''
             @ flag (zb_opt Z ''received'') ''-S'' @ [property, dataset]) (\<lambda>_. False))"

definition zfs_remap :: "'e zetabyte \<Rightarrow> nat \<Rightarrow> string \<Rightarrow> ('e world, string) io" where
  "zfs_remap Z nargs dataset =
     (if nargs \<noteq> 1 then throw invalid_arguments
      else zfs_run Z [''remap'', dataset] (\<lambda>_. False))"

text \<open>
  With \<open>all\<close> the code assigns the result of \<open>push\<close>, a length, to the arguments: the
  next use of them as an array is a TypeError, before any child is spawned.
\<close>

definition zfs_upgrade :: "'e zetabyte \<Rightarrow> jsobj \<Rightarrow> js \<Rightarrow> ('e world, string) io" where
  "zfs_upgrade Z options dataset =
     (if truthy (obj_get options ''all'') then throw (type_error ''args'')
      else zfs_run Z
        ([''upgrade''] @ flag (obj_get options ''versions'') ''-v''
          @ flag (obj_get options ''recurse'') ''-r''
          @ flag_value (obj_get options ''version'') ''-V''
          @ (if truthy dataset then [to_str dataset] else []))
        (\<lambda>_. False))"

section \<open>Lemmas\<close>

lemma adds_zb_exec [wp_intro]:
  assumes "P (EvSpawn (fst (exec_command Z c a opts)) (snd (exec_command Z c a opts)))"
  shows "adds P (zb_exec Z c a opts)"
  unfolding zb_exec_def using assms
  by (auto simp: Let_def case_prod_beta intro!: wp_intro split: spawn_out.splits option.splits)

text \<open>What one run of a \<open>zfs\<close> command does, for every answer of the child.\<close>

definition zfs_outcome :: "'e zetabyte \<Rightarrow> (string \<Rightarrow> bool) \<Rightarrow> spawn_out \<Rightarrow> exn + string" where
  "zfs_outcome Z tolerated r =
     (case r of
        SpawnFailed m \<Rightarrow> Inl (Uncaught m)
      | Closed code stdout stderr killed \<Rightarrow>
          (if code = None \<or> code = Some 0 then Inr stdout
           else if killed \<and> truthy (zb_opt Z ''timeout'') then Inl (Uncaught ''TypeError'')
           else if tolerated stderr then Inr stdout
           else Inl (js_error stderr)))"

definition zfs_command :: "'e zetabyte \<Rightarrow> string list \<Rightarrow> string \<times> string list" where
  "zfs_command Z args = exec_command Z (zb_path Z ''zfs'') args (timeout_opts Z)"

definition zfs_event :: "'e zetabyte \<Rightarrow> string list \<Rightarrow> event" where
  "zfs_event Z args = EvSpawn (fst (zfs_command Z args)) (snd (zfs_command Z args))"

lemma zfsErrorStr_code: "n \<noteq> 0 \<Longrightarrow> zfsErrorStr (Num (IntN n)) s = Str s"
  by (simp add: zfsErrorStr_def field_def or_else_def)

lemma truthy_error_obj [simp]: "truthy (error_obj m)"
  by (simp add: error_obj_def)

lemma zfs_run_outcome:
  "zfs_run Z args tol w =
     (let (c, a) = zfs_command Z args; (r, e') = zb_spawn Z c a (timeout_opts Z) (ext w)
      in (zfs_outcome Z tol r, w\<lparr>ext := e', hist := hist w @ [EvSpawn c a]\<rparr>))"
  by (auto simp: zfs_run_def zb_exec_def zfs_command_def zfs_outcome_def bind_def perform_def
      ret_def throw_def Let_def case_prod_beta zfsErrorStr_code timeout_opts_def obj_get_def
      split: spawn_out.splits option.splits)

lemma adds_zfs_run [wp_intro]: "P (zfs_event Z args) \<Longrightarrow> adds P (zfs_run Z args tol)"
  by (auto simp: adds_def zfs_run_outcome zfs_event_def Let_def case_prod_beta)

lemma exec_command_inj:
  "exec_command Z c a opts = exec_command Z c b opts \<longleftrightarrow> a = b"
  by (auto simp: exec_command_def Let_def)

lemma zfs_event_inj [simp]: "zfs_event Z a = zfs_event Z b \<longleftrightarrow> a = b"
  by (auto simp: zfs_event_def zfs_command_def exec_command_def Let_def split: if_splits)

section \<open>Words of the pipeline\<close>

text \<open>A token the reference shell reads as one word.\<close>

definition reads_as :: "string \<Rightarrow> string \<Rightarrow> bool" where
  "reads_as t v \<longleftrightarrow> (\<forall>rest. sh_words (t @ rest) False None = sh_words rest False (Some v))"

definition plain_word :: "string \<Rightarrow> bool" where
  "plain_word v \<longleftrightarrow> v \<noteq> [] \<and> set v \<inter> {quote_ch, CHR '' '', CHR 0x5C} = {}"

lemma sh_words_plain:
  "set v \<inter> {quote_ch, CHR '' '', CHR 0x5C} = {} \<Longrightarrow>
   sh_words (v @ rest) False (Some u) = sh_words rest False (Some (u @ v))"
  by (induction v arbitrary: u) auto

lemma reads_as_plain [intro]: "plain_word v \<Longrightarrow> reads_as v v"
  by (cases v) (auto simp: reads_as_def plain_word_def sh_words_plain)

lemma reads_as_escaped [intro]: "reads_as (shellEscapeArg a) a"
  by (simp add: reads_as_def sh_words_escaped)

lemma sh_words_tokens:
  "list_all2 reads_as ts vs \<Longrightarrow> ts \<noteq> [] \<Longrightarrow> sh_words (join '' '' ts) False None = Some vs"
proof (induction ts arbitrary: vs rule: induct_list012)
  case (2 t)
  then show ?case by (auto simp: list_all2_Cons1 reads_as_def dest: spec [of _ "[]"])
next
  case (3 t u ts)
  then obtain v vs' where "vs = v # vs'" "reads_as t v" "list_all2 reads_as (u # ts) vs'"
    by (auto simp: list_all2_Cons1)
  moreover from this have "sh_words (t @ x) False None = sh_words x False (Some v)" for x
    by (simp add: reads_as_def)
  moreover have "CHR '' '' \<noteq> quote_ch" by (simp add: quote_ch_def)
  ultimately show ?case using "3.IH"(2) [of vs'] by simp
qed simp

lemma join_append: "xs \<noteq> [] \<Longrightarrow> ys \<noteq> [] \<Longrightarrow> join d (xs @ ys) = join d xs @ d @ join d ys"
  by (induction xs rule: induct_list012) (auto simp: neq_Nil_conv)

lemma list_all2_escaped: "list_all2 reads_as (map shellEscapeArg xs) xs"
  by (induction xs) auto

section \<open>Properties\<close>

text \<open>
  The pipeline of \<open>send_receive\<close> is two command lines around one unquoted bar, and the
  shell reads back from them the send and the receive command with exactly the given
  options, source and target, each under sudo when the configuration asks for it.
\<close>

theorem send_receive_pipeline:
  assumes "plain_word (zb_path Z ''sudo'')"
  shows "\<exists>l r. send_receive_command Z source send_options target receive_options = l @ '' | '' @ r
     \<and> sh_words l False None =
         Some ((if truthy (zb_opt Z ''sudo'') then [zb_path Z ''sudo''] else [])
               @ [''zfs'', ''send''] @ send_options @ [source])
     \<and> sh_words r False None =
         Some ((if truthy (zb_opt Z ''sudo'') then [zb_path Z ''sudo''] else [])
               @ [''zfs'', ''receive''] @ receive_options @ [target])"
proof -
  let ?s = "if truthy (zb_opt Z ''sudo'') then [zb_path Z ''sudo''] else []"
  let ?l = "?s @ [''zfs'', ''send''] @ map shellEscapeArg send_options @ [shellEscapeArg source]"
  let ?r = "?s @ [''zfs'', ''receive''] @ map shellEscapeArg receive_options @ [shellEscapeArg target]"
  have s: "list_all2 reads_as ?s ?s" using assms by auto
  have w: "reads_as ''zfs'' ''zfs''" "reads_as ''send'' ''send''" "reads_as ''receive'' ''receive''"
    by (auto simp: plain_word_def quote_ch_def)
  have "send_receive_command Z source send_options target receive_options
      = join '' '' (?l @ [''|''] @ ?r)"
    by (simp add: send_receive_command_def Let_def)
  also have "\<dots> = join '' '' ?l @ '' | '' @ join '' '' ?r"
    by (subst join_append, simp, simp, subst join_append, simp_all)
  finally have "send_receive_command Z source send_options target receive_options
      = join '' '' ?l @ '' | '' @ join '' '' ?r" .
  moreover have "sh_words (join '' '' ?l) False None = Some (?s @ [''zfs'', ''send''] @ send_options @ [source])"
    using s w by (intro sh_words_tokens list_all2_appendI list_all2_escaped) (auto simp: list_all2_escaped)
  moreover have "sh_words (join '' '' ?r) False None = Some (?s @ [''zfs'', ''receive''] @ receive_options @ [target])"
    using s w by (intro sh_words_tokens list_all2_appendI list_all2_escaped) (auto simp: list_all2_escaped)
  ultimately show ?thesis by blast
qed

definition sample_zb :: "spawn_out \<Rightarrow> nat zetabyte" where
  "sample_zb r =
     new_zetabyte [(''sudo'', Bool True), (''idempotent'', Bool True)] (\<lambda>c a opts n. (r, n + 1))"

lemma sample_sudo: "zb_path (sample_zb r) ''sudo'' = ''/usr/bin/sudo''"
  by (simp add: zb_path_def zb_opt_def sample_zb_def new_zetabyte_def zetabyte_options_def
      default_to_def obj_get_def obj_has_def field_def obj_set_def)

lemma send_receive_pipeline_witness:
  "\<exists>l r. send_receive_command (sample_zb (SpawnFailed [])) ''a@b c'' [''-p''] ''t'' [''-F''] = l @ '' | '' @ r
     \<and> sh_words l False None = Some [''/usr/bin/sudo'', ''zfs'', ''send'', ''-p'', ''a@b c'']
     \<and> sh_words r False None = Some [''/usr/bin/sudo'', ''zfs'', ''receive'', ''-F'', ''t'']"
proof -
  have "truthy (zb_opt (sample_zb (SpawnFailed [])) ''sudo'')"
    by (simp add: zb_opt_def sample_zb_def new_zetabyte_def zetabyte_options_def
        default_to_def obj_get_def obj_has_def field_def obj_set_def)
  then show ?thesis
    using send_receive_pipeline [of "sample_zb (SpawnFailed [])" "''a@b c''" "[''-p'']" "''t''" "[''-F'']"]
    by (simp add: sample_sudo plain_word_def quote_ch_def)
qed

text \<open>
  A \<open>zfs destroy\<close> spawns exactly one child, rejects with the error output of a child
  that exits with a nonzero code (unless the call is idempotent and the output says that the
  dataset or the snapshots are gone already), and resolves for a child that the timeout
  killed, whose exit code is null.
\<close>

theorem destroy_outcome:
  assumes "zb_spawn Z (fst (zfs_command Z (destroy_args d options)))
      (snd (zfs_command Z (destroy_args d options))) (timeout_opts Z) (ext w)
    = (Closed code stdout stderr killed, e')"
    and "killed \<longleftrightarrow> code = None"
  shows "\<exists>w'. zfs_destroy Z 2 d options w =
       ((if code = None \<or> code = Some 0 \<or> is_idempotent Z options \<and> destroy_tolerates stderr
         then Inr stdout else Inl (js_error stderr)), w')
     \<and> ext w' = e' \<and> hist w' = hist w @ [zfs_event Z (destroy_args d options)]"
  using assms
  by (simp add: zfs_destroy_def zfs_run_outcome zfs_event_def zfs_outcome_def Let_def case_prod_beta)

lemma destroy_outcome_witness:
  "\<exists>w'. zfs_destroy (sample_zb (Closed None ''partial'' [] True)) 2 ''tank/v'' []
      \<lparr>ext = 0, hist = []\<rparr> = (Inr ''partial'', w') \<and> ext w' = 1"
  using destroy_outcome [of "sample_zb (Closed None ''partial'' [] True)" "''tank/v''" "[]"
      "\<lparr>ext = 0, hist = []\<rparr>" None "''partial''" "[]" True 1]
  by (simp add: sample_zb_def new_zetabyte_def) blast

end
