(* ===== verification/General.thy ===== *)
theory General
  imports Effects
begin

text \<open>
  \<open>src/utils/general.js\<close>: string helpers, the lock keys of a request, the largest of a
  list of numbers, the expansion of environment variables and the retry loop. Hashes
  (\<open>md5\<close>, \<open>crc*\<close>), the axios wrapper, \<open>stringify\<close> and the DNS lookup are calls of
  packages or of the network and are not modelled.
\<close>

section \<open>Trimming one character at both ends\<close>

text \<open>The two while loops of \<open>trimchar\<close> over the indices \<open>start\<close> and \<open>end\<close>.\<close>

function scan_up :: "string \<Rightarrow> char \<Rightarrow> nat \<Rightarrow> nat \<Rightarrow> nat" where
  "scan_up str ch start stop =
     (if start < stop \<and> str ! start = ch then scan_up str ch (Suc start) stop else start)"
  by pat_completeness auto
termination
  by (relation "measure (\<lambda>(str, ch, start, stop). stop - start)") auto

function scan_down :: "string \<Rightarrow> char \<Rightarrow> nat \<Rightarrow> nat \<Rightarrow> nat" where
  "scan_down str ch start stop =
     (if start < stop \<and> str ! (stop - 1) = ch then scan_down str ch start (stop - 1) else stop)"
  by pat_completeness auto
termination
  by (relation "measure (\<lambda>(str, ch, start, stop). stop)") auto

declare scan_up.simps [simp del] scan_down.simps [simp del]

definition trimchar :: "string \<Rightarrow> char \<Rightarrow> string" where
  "trimchar str ch =
     (let start = scan_up str ch 0 (length str);
          stop = scan_down str ch start (length str)
      in if start > 0 \<or> stop < length str then substring str (int start) (int stop) else str)"

section \<open>Lock keys of a request\<close>

text \<open>The request fields the lock keys are made of.\<close>

record lock_request =
  lr_name :: string
  lr_volume_id :: string
  lr_source_volume_id :: string
  lr_snapshot_id :: string

definition lockKeysFromRequest :: "lock_request \<Rightarrow> string \<Rightarrow> string list" where
  "lockKeysFromRequest request serviceMethodName =
     (if serviceMethodName = ''CreateVolume'' then [''create_volume_name_'' @ lr_name request]
      else if serviceMethodName \<in> {''DeleteVolume'', ''ControllerExpandVolume''}
        then [''volume_id_'' @ lr_volume_id request]
      else if serviceMethodName = ''CreateSnapshot''
        then [''create_snapshot_name_'' @ lr_name request,
              ''volume_id_'' @ lr_source_volume_id request]
      else if serviceMethodName = ''DeleteSnapshot''
        then [''snapshot_id_'' @ lr_snapshot_id request]
      else if serviceMethodName \<in>
          {''NodeStageVolume'', ''NodeUnstageVolume'', ''NodePublishVolume'',
           ''NodeUnpublishVolume'', ''NodeExpandVolume''}
        then [''volume_id_'' @ lr_volume_id request]
      else [])"

section \<open>The largest number\<close>

text \<open>One turn of the loop; \<open>number\<close> is undefined until the first numeric argument.\<close>

definition largest_step :: "js \<Rightarrow> js \<Rightarrow> js" where
  "largest_step number arg =
     (case to_num arg of
        NaN \<Rightarrow> number
      | IntN v \<Rightarrow>
          (case to_num number of
             NaN \<Rightarrow> Num (IntN v)
           | IntN n \<Rightarrow> (if v > n then Num (IntN v) else number)))"

definition getLargestNumber :: "js list \<Rightarrow> js" where
  "getLargestNumber args = foldl largest_step Undef args"

section \<open>Windows drive letters, parts of a string, default filesystems\<close>

definition hasWindowsDriveLetter :: "string \<Rightarrow> bool" where
  "hasWindowsDriveLetter path =
     (case path of a # b # _ \<Rightarrow> is_alpha a \<and> b = CHR '':'' | _ \<Rightarrow> False)"

definition stripWindowsDriveLetter :: "string \<Rightarrow> string" where
  "stripWindowsDriveLetter path =
     (case path of a # b # r \<Rightarrow> (if is_alpha a \<and> b = CHR '':'' then r else path) | _ \<Rightarrow> path)"

definition before_string :: "string \<Rightarrow> string \<Rightarrow> string" where
  "before_string target search =
     (if \<not> contains target search then [] else substring target 0 (index_of target search))"

definition after_string :: "string \<Rightarrow> string \<Rightarrow> string" where
  "after_string target search =
     (if \<not> contains target search then []
      else substring_from target (index_of target search + int (length search)))"

definition default_supported_block_filesystems :: "string list" where
  "default_supported_block_filesystems =
     [''btrfs'', ''exfat'', ''ext3'', ''ext4'', ''ext4dev'', ''ntfs'', ''vfat'', ''xfs'']"

definition default_supported_file_filesystems :: "string list" where
  "default_supported_file_filesystems = [''nfs'', ''cifs'']"

section \<open>Expanding environment variables\<close>

definition is_word_start :: "char \<Rightarrow> bool" where
  "is_word_start c \<longleftrightarrow> is_alpha c \<or> c = CHR ''_''"

definition is_word :: "char \<Rightarrow> bool" where
  "is_word c \<longleftrightarrow> is_alnum c \<or> c = CHR ''_''"

text \<open>
  The name and the rest of the input when a match of the pattern starts right after a
  dollar sign: an optional opening brace, a name, an optional closing brace.
\<close>

definition env_ref :: "string \<Rightarrow> (string \<times> string) option" where
  "env_ref s =
     (let t = (case s of c # r \<Rightarrow> if c = CHR ''{'' then r else s | [] \<Rightarrow> s);
          name = takeWhile is_word t; r = dropWhile is_word t
      in if t \<noteq> [] \<and> is_word_start (hd t)
         then Some (name, case r of c # r' \<Rightarrow> if c = CHR ''}'' then r' else r | [] \<Rightarrow> r)
         else None)"

lemma env_ref_shorter:
  assumes "env_ref s = Some (name, r)"
  shows "length r \<le> length s"
proof -
  define t where "t = (case s of c # r \<Rightarrow> if c = CHR ''{'' then r else s | [] \<Rightarrow> s)"
  have "r = (case dropWhile is_word t of c # r' \<Rightarrow> if c = CHR ''}'' then r' else dropWhile is_word t
      | [] \<Rightarrow> dropWhile is_word t)"
    using assms by (auto simp: env_ref_def Let_def t_def [symmetric] split: if_splits)
  then have "length r \<le> length (dropWhile is_word t)" by (auto split: list.splits if_splits)
  also have "\<dots> \<le> length t" by (rule length_dropWhile_le)
  also have "\<dots> \<le> length s" by (auto simp: t_def split: list.splits)
  finally show ?thesis .
qed

function expand_refs :: "(string \<Rightarrow> string option) \<Rightarrow> string \<Rightarrow> string" where
  "expand_refs env [] = []"
| "expand_refs env (c # s) =
     (if c = CHR ''$''
      then (case env_ref s of
              Some (name, r) \<Rightarrow>
                (case env name of Some v \<Rightarrow> v | None \<Rightarrow> []) @ expand_refs env r
            | None \<Rightarrow> c # expand_refs env s)
      else c # expand_refs env s)"
  by pat_completeness auto
termination
  by (relation "measure (\<lambda>(env, s). length s)") (auto dest: env_ref_shorter)

definition expandenv :: "(string \<Rightarrow> string option) \<Rightarrow> js \<Rightarrow> exn + string" where
  "expandenv env v =
     (case v of Str s \<Rightarrow> Inr (expand_refs env s)
      | _ \<Rightarrow> Inl (js_error ''Please pass a string into expandenv''))"

section \<open>The retry loop\<close>

text \<open>
  Options: the retry condition (None when absent), the least time one execution and its
  pause take, exponential back-off and the longest pause (0 when absent).
\<close>

record retry_options =
  ro_retryCondition :: "(exn \<Rightarrow> bool) option"
  ro_minExecutionTime :: int
  ro_exponential :: bool
  ro_maxwait :: int

definition no_retry_options :: retry_options where
  "no_retry_options = \<lparr>ro_retryCondition = None, ro_minExecutionTime = 0,
     ro_exponential = False, ro_maxwait = 0\<rparr>"

definition retry_sleep_time :: "retry_options \<Rightarrow> int \<Rightarrow> int \<Rightarrow> int" where
  "retry_sleep_time opts retriesDelay current_try =
     (let t = (if ro_exponential opts then retriesDelay * current_try else retriesDelay)
      in if ro_maxwait opts \<noteq> 0 \<and> t > ro_maxwait opts then ro_maxwait opts else t)"

text \<open>The pauses between two executions: the rest of \<open>minExecutionTime\<close>, then the delay.\<close>

definition retry_pause ::
  "(int \<Rightarrow> ('w, unit) io) \<Rightarrow> ('w, int) io \<Rightarrow> retry_options \<Rightarrow> int \<Rightarrow> int \<Rightarrow> int \<Rightarrow> ('w, unit) io" where
  "retry_pause sleep now opts retriesDelay current_try executeStartTime =
     andthen
       (do_when (ro_minExecutionTime opts > 0)
         (bind now (\<lambda>t.
           let rest = ro_minExecutionTime opts - (t - executeStartTime)
           in do_when (rest > 0) (sleep rest))))
       (let sleep_time = retry_sleep_time opts retriesDelay current_try
        in do_when (sleep_time > 0) (sleep sleep_time))"

function retry_loop ::
  "(int \<Rightarrow> ('w, unit) io) \<Rightarrow> ('w, int) io \<Rightarrow> int \<Rightarrow> int \<Rightarrow> ('w, 'a) io \<Rightarrow> retry_options
   \<Rightarrow> int \<Rightarrow> ('w, 'a) io" where
  "retry_loop sleep now retries retriesDelay code opts tried w =
     (case now w of
        (Inl e, w1) \<Rightarrow> (Inl e, w1)
      | (Inr t0, w1) \<Rightarrow>
        (case code w1 of
           (Inr x, w2) \<Rightarrow> (Inr x, w2)
         | (Inl err, w2) \<Rightarrow>
             (if \<not> catchable err then (Inl err, w2)
              else if tried + 1 \<ge> retries then (Inl err, w2)
              else if (case ro_retryCondition opts of Some c \<Rightarrow> \<not> c err | None \<Rightarrow> False)
                then (Inl err, w2)
              else (case retry_pause sleep now opts retriesDelay (tried + 1) t0 w2 of
                      (Inl e, w3) \<Rightarrow> (Inl e, w3)
                    | (Inr _, w3) \<Rightarrow>
                        retry_loop sleep now retries retriesDelay code opts (tried + 1) w3))))"
  by pat_completeness auto
termination
  by (relation "measure (\<lambda>(sleep, now, retries, d, code, opts, tried, w). nat (retries - tried))")
     auto

declare retry_loop.simps [simp del]

text \<open>For evaluation: what follows one execution.\<close>

definition retry_next ::
  "(int \<Rightarrow> ('w, unit) io) \<Rightarrow> ('w, int) io \<Rightarrow> int \<Rightarrow> int \<Rightarrow> ('w, 'a) io \<Rightarrow> retry_options
   \<Rightarrow> int \<Rightarrow> int \<Rightarrow> (exn + 'a) \<times> 'w \<Rightarrow> (exn + 'a) \<times> 'w" where
  "retry_next sleep now retries retriesDelay code opts tried t0 r =
     (case r of
        (Inr x, w2) \<Rightarrow> (Inr x, w2)
      | (Inl err, w2) \<Rightarrow>
          (if \<not> catchable err then (Inl err, w2)
           else if tried + 1 \<ge> retries then (Inl err, w2)
           else if (case ro_retryCondition opts of Some c \<Rightarrow> \<not> c err | None \<Rightarrow> False)
             then (Inl err, w2)
           else bind (retry_pause sleep now opts retriesDelay (tried + 1) t0)
                  (\<lambda>_. retry_loop sleep now retries retriesDelay code opts (tried + 1)) w2))"

lemma retry_code [code]:
  "retry_next sleep now retries retriesDelay code opts tried t0 (Inr x, w) = (Inr x, w)"
  "retry_next sleep now retries retriesDelay code opts tried t0 (Inl err, w) =
     (if \<not> catchable err \<or> tried + 1 \<ge> retries \<or> (case ro_retryCondition opts of Some c \<Rightarrow> \<not> c err | None \<Rightarrow> False)
      then (Inl err, w)
      else bind (retry_pause sleep now opts retriesDelay (tried + 1) t0)
             (\<lambda>_. retry_loop sleep now retries retriesDelay code opts (tried + 1)) w)"
  "retry_loop sleep now retries retriesDelay code opts tried w =
     bind now (\<lambda>t0 w. retry_next sleep now retries retriesDelay code opts tried t0 (code w)) w"
  by (simp add: retry_next_def, simp add: retry_next_def, subst retry_loop.simps,
      simp add: retry_next_def bind_def split: prod.splits sum.splits)

definition retry ::
  "(int \<Rightarrow> ('w, unit) io) \<Rightarrow> ('w, int) io \<Rightarrow> int \<Rightarrow> int \<Rightarrow> ('w, 'a) io \<Rightarrow> retry_options \<Rightarrow> ('w, 'a) io" where
  "retry sleep now retries retriesDelay code opts =
     retry_loop sleep now retries retriesDelay code opts 0"

section \<open>Lemmas\<close>

lemma scan_up_spec:
  "start \<le> length str \<Longrightarrow>
   scan_up str ch start (length str) = start + length (takeWhile (\<lambda>c. c = ch) (drop start str))"
proof (induction str ch start "length str" rule: scan_up.induct)
  case (1 str ch start)
  show ?case
  proof (cases "start < length str")
    case True
    then have d: "drop start str = str ! start # drop (Suc start) str"
      by (simp add: Cons_nth_drop_Suc)
    with True 1 show ?thesis by (subst scan_up.simps) simp
  next
    case False
    with "1.prems" show ?thesis by (subst scan_up.simps) simp
  qed
qed

lemma scan_down_le: "start \<le> stop \<Longrightarrow> start \<le> scan_down str ch start stop \<and> scan_down str ch start stop \<le> stop"
proof (induction str ch start stop rule: scan_down.induct)
  case (1 str ch start stop)
  show ?case
  proof (cases "start < stop \<and> str ! (stop - 1) = ch")
    case True
    with 1 have "start \<le> scan_down str ch start (stop - 1) \<and> scan_down str ch start (stop - 1) \<le> stop - 1"
      by auto
    with True show ?thesis by (subst (1 2) scan_down.simps) auto
  next
    case False
    with "1.prems" show ?thesis by (subst (1 2) scan_down.simps) auto
  qed
qed

lemma scan_down_spec:
  "start \<le> stop \<Longrightarrow> stop \<le> length str \<Longrightarrow>
   take (scan_down str ch start stop - start) (drop start str)
   = rev (dropWhile (\<lambda>c. c = ch) (rev (take (stop - start) (drop start str))))"
proof (induction str ch start stop rule: scan_down.induct)
  case (1 str ch start stop)
  let ?seg = "\<lambda>n. take (n - start) (drop start str)"
  show ?case
  proof (cases "start < stop")
    case True
    then have l: "stop - start = Suc (stop - 1 - start)" by simp
    have s: "?seg stop = ?seg (stop - 1) @ [str ! (stop - 1)]"
      unfolding l using True "1.prems" by (subst take_Suc_conv_app_nth) auto
    show ?thesis
    proof (cases "str ! (stop - 1) = ch")
      case c: True
      with True 1 have "?seg (scan_down str ch start (stop - 1))
          = rev (dropWhile (\<lambda>c. c = ch) (rev (?seg (stop - 1))))" by simp
      with True c show ?thesis by (subst scan_down.simps) (simp add: s)
    next
      case False
      then show ?thesis by (subst scan_down.simps) (simp add: s)
    qed
  next
    case False
    with "1.prems" show ?thesis by (subst scan_down.simps) simp
  qed
qed

text \<open>The numeric arguments, in order.\<close>

definition numeric_args :: "js list \<Rightarrow> int list" where
  "numeric_args args = concat (map (\<lambda>a. case to_num a of IntN v \<Rightarrow> [v] | NaN \<Rightarrow> []) args)"

lemma numeric_args_Cons:
  "numeric_args (a # args) = (case to_num a of IntN v \<Rightarrow> v # numeric_args args | NaN \<Rightarrow> numeric_args args)"
  by (simp add: numeric_args_def split: jnum.splits)

lemma to_num_largest_step:
  "to_num (largest_step n a) =
     (case to_num a of NaN \<Rightarrow> to_num n
      | IntN v \<Rightarrow> (case to_num n of NaN \<Rightarrow> IntN v | IntN i \<Rightarrow> IntN (max i v)))"
  by (auto simp: largest_step_def split: jnum.splits)

lemma largest_step_foldl:
  "to_num (foldl largest_step n args) =
     (case to_num n of
        NaN \<Rightarrow> (case numeric_args args of [] \<Rightarrow> NaN | v # vs \<Rightarrow> IntN (foldl max v vs))
      | IntN i \<Rightarrow> IntN (foldl max i (numeric_args args)))"
proof (induction args arbitrary: n)
  case Nil
  then show ?case by (simp add: numeric_args_def split: jnum.splits)
next
  case (Cons a args)
  show ?case
    by (simp add: Cons.IH [of "largest_step n a"] to_num_largest_step numeric_args_Cons
        split: jnum.splits)
qed

lemma foldl_max_Max: "foldl max (i :: int) vs = Max (set (i # vs))"
proof (induction vs arbitrary: i)
  case (Cons v vs)
  have "foldl max i (v # vs) = Max (insert (max i v) (set vs))" by (simp add: Cons.IH)
  also have "\<dots> = Max (insert i (insert v (set vs)))"
    by (cases "vs = []") (simp_all add: max.assoc)
  finally show ?case by simp
qed simp

section \<open>What the retry loop adds to the history\<close>

lemma adds_retry_pause:
  "(\<And>ms. adds P (sleep ms)) \<Longrightarrow> adds P now \<Longrightarrow> adds P (retry_pause sleep now opts d n t)"
  by (auto simp: retry_pause_def Let_def intro!: wp_intro)

text \<open>A run of the loop is one attempt, alone or followed by a pause that fails or by the rest.\<close>

lemma retry_loop_cases:
  fixes code :: "('e world, 'a) io"
  assumes now: "adds P now" and sleep: "\<And>ms. adds P (sleep ms)"
  obtains (last) w1 where "\<exists>es. hist w1 = hist w @ es \<and> list_all P es"
      "retry_loop sleep now n d code opts k w = (fst (code w1), snd (code w1))"
  | (never) e w1 where "\<exists>es. hist w1 = hist w @ es \<and> list_all P es"
      "retry_loop sleep now n d code opts k w = (Inl e, w1)"
  | (pause) e w1 w3 where "\<exists>es. hist w1 = hist w @ es \<and> list_all P es"
      "\<exists>es. hist w3 = hist (snd (code w1)) @ es \<and> list_all P es"
      "retry_loop sleep now n d code opts k w = (Inl e, w3)" "k + 1 < n"
  | (again) w1 w3 where "\<exists>es. hist w1 = hist w @ es \<and> list_all P es"
      "\<exists>es. hist w3 = hist (snd (code w1)) @ es \<and> list_all P es"
      "retry_loop sleep now n d code opts k w = retry_loop sleep now n d code opts (k + 1) w3" "k + 1 < n"
proof (cases "now w")
  case (Pair r w1)
  with addsD [OF now, of w] have 1: "\<exists>es. hist w1 = hist w @ es \<and> list_all P es" by simp
  show ?thesis
  proof (cases r)
    case (Inl e)
    with Pair 1 show ?thesis by (intro never [of w1 e]) (simp_all add: retry_loop.simps)
  next
    case now: (Inr t0)
    obtain r2 w2 where c: "code w1 = (r2, w2)" by force
    show ?thesis
    proof (cases "\<exists>err. r2 = Inl err \<and> catchable err \<and> k + 1 < n \<and>
        \<not> (case ro_retryCondition opts of Some c \<Rightarrow> \<not> c err | None \<Rightarrow> False)")
      case False
      with Pair now c 1 show ?thesis
        by (intro last [of w1]) (auto simp: retry_loop.simps [of _ _ _ _ _ _ _ w] split: sum.splits)
    next
      case True
      then obtain err where err: "r2 = Inl err" "catchable err" "k + 1 < n"
        "\<not> (case ro_retryCondition opts of Some c \<Rightarrow> \<not> c err | None \<Rightarrow> False)" by blast
      obtain r3 w3 where pz: "retry_pause sleep now opts d (k + 1) t0 w2 = (r3, w3)" by force
      have "adds P (retry_pause sleep now opts d (k + 1) t0)"
        by (intro adds_retry_pause sleep assms(1))
      from addsD [OF this, of w2] pz c
      have 3: "\<exists>es. hist w3 = hist (snd (code w1)) @ es \<and> list_all P es" by simp
      have step: "retry_loop sleep now n d code opts k w = (case r3 of Inl e \<Rightarrow> (Inl e, w3)
          | Inr _ \<Rightarrow> retry_loop sleep now n d code opts (k + 1) w3)"
        using Pair now c err pz by (subst retry_loop.simps) (auto split: sum.splits)
      show ?thesis
        by (cases r3) (use step 1 3 err pause again in auto)
    qed
  qed
qed

lemma adds_retry [wp_intro]:
  fixes code :: "('e world, 'a) io"
  assumes "adds P code" and now: "adds P now" and sleep: "\<And>ms. adds P (sleep ms)"
  shows "adds P (retry sleep now n d code opts)"
proof -
  have "\<exists>es. hist (snd (retry_loop sleep now n d code opts k w)) = hist w @ es \<and> list_all P es" for k w
  proof (induction "nat (n - k)" arbitrary: k w rule: less_induct)
    case less
    have code: "\<exists>es. hist (snd (code w1)) = hist w @ es \<and> list_all P es"
      if "\<exists>es. hist w1 = hist w @ es \<and> list_all P es" for w1
      using adds_append [OF that addsD [OF assms(1)]] .
    show ?case
      using now sleep
    proof (cases rule: retry_loop_cases [where P = P and sleep = sleep and now = now
        and w = w and n = n and d = d and code = code and opts = opts and k = k])
      case (last w1)
      then show ?thesis using code by simp
    next
      case (never e w1)
      then show ?thesis by simp
    next
      case (pause e w1 w3)
      then show ?thesis using adds_append [OF code] by simp
    next
      case (again w1 w3)
      then have "nat (n - (k + 1)) < nat (n - k)" by simp
      from less [OF this, of w3] again adds_append [OF adds_append [OF code]] show ?thesis by simp
    qed
  qed
  then show ?thesis by (simp add: adds_def retry_def)
qed

section \<open>Properties\<close>

text \<open>
  \<open>trimchar\<close> removes exactly the leading and the trailing occurrences of the character.
\<close>

theorem trimchar_spec:
  "trimchar str ch = rev (dropWhile (\<lambda>c. c = ch) (rev (dropWhile (\<lambda>c. c = ch) str)))"
proof -
  define a where "a = scan_up str ch 0 (length str)"
  define b where "b = scan_down str ch a (length str)"
  have a: "a = length (takeWhile (\<lambda>c. c = ch) str)" unfolding a_def by (simp add: scan_up_spec)
  then have le: "a \<le> length str" by (simp add: length_takeWhile_le)
  with scan_down_le [OF le] have ab: "a \<le> b" "b \<le> length str" by (simp_all add: b_def)
  have "take (b - a) (drop a str) = rev (dropWhile (\<lambda>c. c = ch) (rev (drop a str)))"
    unfolding b_def using scan_down_spec [OF le order.refl, where ch = ch] by simp
  also have "drop a str = dropWhile (\<lambda>c. c = ch) str" by (simp add: a dropWhile_eq_drop)
  finally have "take (b - a) (dropWhile (\<lambda>c. c = ch) str)
      = rev (dropWhile (\<lambda>c. c = ch) (rev (dropWhile (\<lambda>c. c = ch) str)))" .
  moreover have "trimchar str ch = take (b - a) (drop a str)"
    using ab by (auto simp: trimchar_def Let_def a_def [symmetric] b_def [symmetric] substring_def nat_diff_distrib)
  ultimately show ?thesis by (simp add: a dropWhile_eq_drop)
qed

text \<open>
  \<open>getLargestNumber\<close> is the maximum of its numeric arguments, and not a number when it
  has none; arguments that are not numbers are skipped.
\<close>

theorem getLargestNumber_max:
  "to_num (getLargestNumber args) =
     (if numeric_args args = [] then NaN else IntN (Max (set (numeric_args args))))"
  unfolding getLargestNumber_def
  by (cases "numeric_args args") (simp_all add: largest_step_foldl foldl_max_Max del: foldl.simps)

text \<open>
  The retry loop attempts the operation at most as often as it is told (and once when it
  is told less), whatever the attempts, the condition and the pauses do.
\<close>

theorem retry_attempts:
  fixes code :: "('e world, 'a) io"
  assumes one: "\<And>w. \<exists>ev es. hist (snd (code w)) = hist w @ ev # es \<and> A ev \<and> list_all (\<lambda>e. \<not> A e) es"
    and now: "adds (\<lambda>e. \<not> A e) now" and sleep: "\<And>ms. adds (\<lambda>e. \<not> A e) (sleep ms)"
  shows "\<exists>es. hist (snd (retry sleep now n d code opts w)) = hist w @ es
    \<and> int (length (filter A es)) \<le> max 1 n"
proof -
  have code: "\<exists>es. hist (snd (code w1)) = hist w @ es \<and> length (filter A es) = 1"
    if "\<exists>es. hist w1 = hist w @ es \<and> list_all (\<lambda>e. \<not> A e) es" for w w1
  proof -
    from that obtain es where es: "hist w1 = hist w @ es" "list_all (\<lambda>e. \<not> A e) es" by blast
    from one [of w1] obtain ev es' where "hist (snd (code w1)) = hist w1 @ ev # es'" "A ev"
      "list_all (\<lambda>e. \<not> A e) es'" by blast
    with es show ?thesis
      by (intro exI [of _ "es @ ev # es'"]) (auto simp: list_all_iff filter_empty_conv)
  qed
  have rest: "\<exists>es. hist w3 = hist w @ es \<and> length (filter A es) = 1"
    if "\<exists>es. hist w1 = hist w @ es \<and> list_all (\<lambda>e. \<not> A e) es"
      "\<exists>es. hist w3 = hist (snd (code w1)) @ es \<and> list_all (\<lambda>e. \<not> A e) es" for w w1 w3
    using code [OF that(1)] that(2) by (auto simp: list_all_iff filter_empty_conv)
  have "\<exists>es. hist (snd (retry_loop sleep now n d code opts k w)) = hist w @ es
      \<and> int (length (filter A es)) \<le> max 1 (n - k)" for k w
  proof (induction "nat (n - k)" arbitrary: k w rule: less_induct)
    case less
    show ?case
      using now sleep
    proof (cases rule: retry_loop_cases [where P = "\<lambda>e. \<not> A e" and sleep = sleep and now = now
        and w = w and n = n and d = d and code = code and opts = opts and k = k])
      case (last w1)
      then show ?thesis using code [OF last(1)] by auto
    next
      case (never e w1)
      then show ?thesis by (auto simp: list_all_iff filter_empty_conv)
    next
      case (pause e w1 w3)
      then show ?thesis using rest [OF pause(1,2)] by auto
    next
      case (again w1 w3)
      then have "nat (n - (k + 1)) < nat (n - k)" by simp
      from less [OF this, of w3] rest [OF again(1,2)] again(3,4) show ?thesis by auto
    qed
  qed
  from this [of 0 w] show ?thesis by (simp add: retry_def)
qed

definition failing_call :: "(nat world, unit) io" where
  "failing_call = perform (EvDriver ''call'' []) (\<lambda>n. (Inl (js_error ''no''), n + 1))"

lemma retry_attempts_witness:
  "\<exists>es. hist (snd (retry (\<lambda>ms. perform (EvSleep ms) (\<lambda>n. (Inr (), n))) (ret 0) 12 5000 failing_call
        no_retry_options \<lparr>ext = 0, hist = []\<rparr>)) = es
    \<and> int (length (filter (\<lambda>e. e = EvDriver ''call'' []) es)) \<le> 12"
proof -
  have "\<exists>ev es. hist (snd (failing_call w)) = hist w @ ev # es \<and> ev = EvDriver ''call'' []
      \<and> list_all (\<lambda>e. \<not> e = EvDriver ''call'' []) es" for w
    by (simp add: failing_call_def perform_def)
  from retry_attempts [where A = "\<lambda>e. e = EvDriver ''call'' []", OF this, of "ret 0"
      "\<lambda>ms. perform (EvSleep ms) (\<lambda>n. (Inr (), n))" 12 5000 no_retry_options "\<lparr>ext = 0, hist = []\<rparr>"]
  show ?thesis by (simp add: adds_ret adds_perform)
qed

end
