(* ===== verification/Json.thy ===== *)
theory Json
  imports Effects
begin

text \<open>
  \<open>JSON.stringify\<close> and \<open>JSON.parse\<close> of the standard library, on the values the drivers
  store in zfs properties, parameters and cache entries. A number with a fraction or an
  exponent and an escape beyond one byte are outside the model of numbers and strings:
  parsing them gives \<open>Unmodelled\<close>, any other malformed text a SyntaxError.
\<close>

section \<open>Printing\<close>

definition hex_digit :: "nat \<Rightarrow> char" where
  "hex_digit n = (if n < 10 then char_of (48 + n) else char_of (87 + n))"

definition json_escape :: "char \<Rightarrow> string" where
  "json_escape c =
     (let n = (of_char c :: nat) in
      if n = 34 then [CHR 0x5C, CHR 34]
      else if n = 92 then [CHR 0x5C, CHR 0x5C]
      else if n = 8 then [CHR 0x5C, CHR ''b'']
      else if n = 12 then [CHR 0x5C, CHR ''f'']
      else if n = 10 then [CHR 0x5C, CHR ''n'']
      else if n = 13 then [CHR 0x5C, CHR ''r'']
      else if n = 9 then [CHR 0x5C, CHR ''t'']
      else if n < 32 then [CHR 0x5C, CHR ''u'', CHR ''0'', CHR ''0'', hex_digit (n div 16), hex_digit (n mod 16)]
      else [c])"

definition json_quote :: "string \<Rightarrow> string" where
  "json_quote s = CHR 34 # concat (map json_escape s) @ [CHR 34]"

text \<open>Inside an array \<open>undefined\<close> prints as null, in an object its key is left out.\<close>

fun json_print :: "js \<Rightarrow> string"
  and json_elems :: "js list \<Rightarrow> string"
  and json_members :: "(string \<times> js) list \<Rightarrow> string list" where
  "json_print Undef = ''null''"
| "json_print Null = ''null''"
| "json_print (Bool b) = (if b then ''true'' else ''false'')"
| "json_print (Num n) = (case n of NaN \<Rightarrow> ''null'' | IntN i \<Rightarrow> show_int i)"
| "json_print (Str s) = json_quote s"
| "json_print (Arr xs) = CHR ''['' # json_elems xs @ '']''"
| "json_print (Obj kvs) = CHR ''{'' # join '','' (json_members kvs) @ ''}''"
| "json_elems [] = []"
| "json_elems [x] = json_print x"
| "json_elems (x # y # xs) = json_print x @ CHR '','' # json_elems (y # xs)"
| "json_members [] = []"
| "json_members ((k, v) # kvs) =
     (if v = Undef then json_members kvs
      else (json_quote k @ CHR '':'' # json_print v) # json_members kvs)"

text \<open>\<open>JSON.stringify(v)\<close>, None for undefined.\<close>

definition json_stringify :: "js \<Rightarrow> string option" where
  "json_stringify v = (if v = Undef then None else Some (json_print v))"

section \<open>Parsing\<close>

definition syntax_error :: exn where
  "syntax_error = JsError ''SyntaxError'' ''JSON''"

definition json_ws :: "char \<Rightarrow> bool" where
  "json_ws c \<longleftrightarrow> (of_char c :: nat) \<in> {32, 9, 10, 13}"

definition skip_ws :: "string \<Rightarrow> string" where
  "skip_ws = dropWhile json_ws"

definition hex_value :: "char \<Rightarrow> nat option" where
  "hex_value c =
     (let n = (of_char c :: nat) in
      if 48 \<le> n \<and> n \<le> 57 then Some (n - 48)
      else if 97 \<le> n \<and> n \<le> 102 then Some (n - 87)
      else if 65 \<le> n \<and> n \<le> 70 then Some (n - 55)
      else None)"

definition simple_escape :: "char \<Rightarrow> char option" where
  "simple_escape c =
     (if c = CHR 34 \<or> c = CHR 0x5C \<or> c = CHR ''/'' then Some c
      else if c = CHR ''b'' then Some (CHR 8)
      else if c = CHR ''f'' then Some (CHR 12)
      else if c = CHR ''n'' then Some (CHR 10)
      else if c = CHR ''r'' then Some (CHR 13)
      else if c = CHR ''t'' then Some (CHR 9)
      else None)"

definition unicode_escape :: "string \<Rightarrow> exn + char" where
  "unicode_escape h =
     (case map hex_value h of
        [Some a, Some b, Some c, Some d] \<Rightarrow>
          (if a = 0 \<and> b = 0 then Inr (char_of (16 * c + d)) else Inl (Unmodelled ''code unit''))
      | _ \<Rightarrow> Inl syntax_error)"

text \<open>A string after its opening quote, with the rest of the input after the closing one.\<close>

fun json_body :: "string \<Rightarrow> exn + string \<times> string" where
  "json_body [] = Inl syntax_error"
| "json_body (c # s) =
     (if c = CHR 34 then Inr ([], s)
      else if c = CHR 0x5C then
        (case s of
           [] \<Rightarrow> Inl syntax_error
         | d # t \<Rightarrow>
             (if d = CHR ''u''
              then ebind (unicode_escape (take 4 t)) (\<lambda>u.
                   ebind (json_body (drop 4 t)) (\<lambda>(w, r). Inr (u # w, r)))
              else case simple_escape d of
                None \<Rightarrow> Inl syntax_error
              | Some u \<Rightarrow> ebind (json_body t) (\<lambda>(w, r). Inr (u # w, r))))
      else if (of_char c :: nat) < 32 then Inl syntax_error
      else ebind (json_body s) (\<lambda>(w, r). Inr (c # w, r)))"

definition json_digits :: "string \<Rightarrow> exn + nat \<times> string" where
  "json_digits s =
     (let d = takeWhile is_digit s; r = dropWhile is_digit s in
      if d = [] \<or> (hd d = CHR ''0'' \<and> length d > 1) then Inl syntax_error
      else if r \<noteq> [] \<and> hd r \<in> set ''.eE'' then Inl (Unmodelled ''number'')
      else Inr (parse_nat d, r))"

definition json_number :: "string \<Rightarrow> exn + js \<times> string" where
  "json_number s =
     (case s of
        [] \<Rightarrow> Inl syntax_error
      | c # t \<Rightarrow>
          (if c = CHR ''-'' then ebind (json_digits t) (\<lambda>(n, r). Inr (Num (IntN (- int n)), r))
           else ebind (json_digits s) (\<lambda>(n, r). Inr (Num (IntN (int n)), r))))"

definition json_literal :: "string \<Rightarrow> js \<Rightarrow> string \<Rightarrow> exn + js \<times> string" where
  "json_literal w v s = (if starts_with s w then Inr (v, drop (length w) s) else Inl syntax_error)"

text \<open>The first argument bounds the depth of the recursion; the length of the text is enough.\<close>

fun json_value :: "nat \<Rightarrow> string \<Rightarrow> exn + js \<times> string"
  and json_array :: "nat \<Rightarrow> string \<Rightarrow> exn + js list \<times> string"
  and json_object :: "nat \<Rightarrow> jsobj \<Rightarrow> string \<Rightarrow> exn + jsobj \<times> string" where
  "json_value 0 s = Inl (Unmodelled ''depth'')"
| "json_value (Suc n) s =
     (case skip_ws s of
        [] \<Rightarrow> Inl syntax_error
      | c # t \<Rightarrow>
          (if c = CHR 34 then ebind (json_body t) (\<lambda>(w, r). Inr (Str w, r))
           else if c = CHR ''['' then
             (if starts_with (skip_ws t) '']'' then Inr (Arr [], tl (skip_ws t))
              else ebind (json_array n t) (\<lambda>(xs, r). Inr (Arr xs, r)))
           else if c = CHR ''{'' then
             (if starts_with (skip_ws t) ''}'' then Inr (Obj [], tl (skip_ws t))
              else ebind (json_object n [] t) (\<lambda>(kvs, r). Inr (Obj kvs, r)))
           else if c = CHR ''t'' then json_literal ''true'' (Bool True) (c # t)
           else if c = CHR ''f'' then json_literal ''false'' (Bool False) (c # t)
           else if c = CHR ''n'' then json_literal ''null'' Null (c # t)
           else json_number (c # t)))"
| "json_array 0 s = Inl (Unmodelled ''depth'')"
| "json_array (Suc n) s =
     ebind (json_value n s) (\<lambda>(x, r).
       case skip_ws r of
         [] \<Rightarrow> Inl syntax_error
       | c # t \<Rightarrow>
           (if c = CHR '','' then ebind (json_array n t) (\<lambda>(xs, r). Inr (x # xs, r))
            else if c = CHR '']'' then Inr ([x], t)
            else Inl syntax_error))"
| "json_object 0 acc s = Inl (Unmodelled ''depth'')"
| "json_object (Suc n) acc s =
     (case skip_ws s of
        [] \<Rightarrow> Inl syntax_error
      | c # t \<Rightarrow>
          (if c \<noteq> CHR 34 then Inl syntax_error
           else ebind (json_body t) (\<lambda>(k, r).
             case skip_ws r of
               [] \<Rightarrow> Inl syntax_error
             | c # t \<Rightarrow>
                 (if c \<noteq> CHR '':'' then Inl syntax_error
                  else ebind (json_value n t) (\<lambda>(v, r).
                    case skip_ws r of
                      [] \<Rightarrow> Inl syntax_error
                    | c # t \<Rightarrow>
                        (if c = CHR '','' then json_object n (obj_set k v acc) t
                         else if c = CHR ''}'' then Inr (obj_set k v acc, t)
                         else Inl syntax_error))))))"

definition json_parse_str :: "string \<Rightarrow> exn + js" where
  "json_parse_str s =
     ebind (json_value (Suc (length s)) s) (\<lambda>(v, r).
       if skip_ws r = [] then Inr v else Inl syntax_error)"

text \<open>\<open>JSON.parse\<close> converts its argument to a string first.\<close>

definition json_parse :: "js \<Rightarrow> exn + js" where
  "json_parse v = json_parse_str (to_str v)"

section \<open>Reading back what was printed\<close>

text \<open>The values JSON represents exactly: no undefined, no NaN, distinct keys.\<close>

fun json_ok :: "js \<Rightarrow> bool" and json_oks :: "js list \<Rightarrow> bool" and json_okm :: "jsobj \<Rightarrow> bool" where
  "json_ok Undef = False"
| "json_ok (Num n) = (n \<noteq> NaN)"
| "json_ok (Arr xs) = json_oks xs"
| "json_ok (Obj kvs) = (distinct (map fst kvs) \<and> json_okm kvs)"
| "json_ok _ = True"
| "json_oks [] = True"
| "json_oks (x # xs) = (json_ok x \<and> json_oks xs)"
| "json_okm [] = True"
| "json_okm ((k, v) # kvs) = (json_ok v \<and> json_okm kvs)"

lemma hex_value_digit: "n < 16 \<Longrightarrow> hex_value (hex_digit n) = Some n"
  by (auto simp: hex_value_def hex_digit_def Let_def of_char_of)

lemma hex_digit_0: "hex_value (CHR ''0'') = Some 0"
  by (simp add: hex_value_def Let_def)

lemma char_of_hex: "(of_char c :: nat) < 32 \<Longrightarrow>
  char_of (16 * ((of_char c :: nat) div 16) + (of_char c :: nat) mod 16) = c"
  by simp

lemma char_code:
  "(of_char c :: nat) = 34 \<Longrightarrow> c = CHR 34" "(of_char c :: nat) = 92 \<Longrightarrow> c = CHR 0x5C"
  "(of_char c :: nat) = 8 \<Longrightarrow> c = CHR 8" "(of_char c :: nat) = 12 \<Longrightarrow> c = CHR 12"
  "(of_char c :: nat) = 10 \<Longrightarrow> c = CHR 10" "(of_char c :: nat) = 13 \<Longrightarrow> c = CHR 13"
  "(of_char c :: nat) = 9 \<Longrightarrow> c = CHR 9"
  using of_char_eq_iff [where 'a = nat, of c "CHR 34"] of_char_eq_iff [where 'a = nat, of c "CHR 0x5C"]
    of_char_eq_iff [where 'a = nat, of c "CHR 8"] of_char_eq_iff [where 'a = nat, of c "CHR 12"]
    of_char_eq_iff [where 'a = nat, of c "CHR 10"] of_char_eq_iff [where 'a = nat, of c "CHR 13"]
    of_char_eq_iff [where 'a = nat, of c "CHR 9"]
  by simp_all

lemma escape_cases:
  obtains (plain) "json_escape c = [c]" "c \<noteq> CHR 34" "c \<noteq> CHR 0x5C" "\<not> (of_char c :: nat) < 32"
  | (short) d where "json_escape c = [CHR 0x5C, d]" "d \<noteq> CHR ''u''" "simple_escape d = Some c"
  | (hex) "json_escape c = [CHR 0x5C, CHR ''u'', CHR ''0'', CHR ''0'',
        hex_digit ((of_char c :: nat) div 16), hex_digit ((of_char c :: nat) mod 16)]"
      "(of_char c :: nat) < 32"
proof -
  consider "(of_char c :: nat) \<in> {34, 92, 8, 12, 10, 13, 9}"
    | "(of_char c :: nat) < 32" "(of_char c :: nat) \<notin> {34, 92, 8, 12, 10, 13, 9}"
    | "\<not> (of_char c :: nat) < 32" "(of_char c :: nat) \<notin> {34, 92, 8, 12, 10, 13, 9}" by blast
  then show ?thesis
  proof cases
    case 1
    then show ?thesis
      using short [of "CHR 34"] short [of "CHR 0x5C"] short [of "CHR ''b''"] short [of "CHR ''f''"]
        short [of "CHR ''n''"] short [of "CHR ''r''"] short [of "CHR ''t''"]
      by (auto simp: json_escape_def simple_escape_def dest!: char_code)
  next
    case 2
    then show ?thesis by (intro hex) (simp_all add: json_escape_def Let_def)
  next
    case 3
    moreover from 3 have "c \<noteq> CHR 34" "c \<noteq> CHR 0x5C" by auto
    ultimately show ?thesis by (intro plain) (simp_all add: json_escape_def Let_def)
  qed
qed

lemma json_body_quote: "json_body (concat (map json_escape s) @ CHR 34 # r) = Inr (s, r)"
proof (induction s)
  case (Cons c s)
  show ?case
  proof (cases c rule: escape_cases)
    case plain
    with Cons show ?thesis by simp
  next
    case (short d)
    with Cons show ?thesis by simp
  next
    case hex
    let ?a = "(of_char c :: nat) div 16" and ?b = "(of_char c :: nat) mod 16"
    have "unicode_escape [CHR ''0'', CHR ''0'', hex_digit ?a, hex_digit ?b] = Inr c"
      using hex(2) char_of_hex [OF hex(2)]
      by (simp add: unicode_escape_def hex_value_digit hex_digit_0)
    with Cons hex show ?thesis by simp
  qed
qed simp

lemma hd_show_nat_nonzero: "n > 0 \<Longrightarrow> hd (show_nat n) \<noteq> CHR ''0''"
proof (induction n rule: show_nat.induct)
  case (1 n)
  show ?case
  proof (cases "n < 10")
    case True
    have "digit_char n \<noteq> CHR ''0''"
    proof
      assume "digit_char n = CHR ''0''"
      moreover have "digit_val (CHR ''0'') = 0" by (simp add: digit_val_def)
      ultimately show False using True 1 digit_val_char [of n] by simp
    qed
    with True show ?thesis by (simp add: show_nat.simps [of n])
  next
    case False
    with 1 have "hd (show_nat (n div 10)) \<noteq> CHR ''0''" by simp
    with False show ?thesis by (subst show_nat.simps) simp
  qed
qed

text \<open>What may follow a value inside an array or an object, or at the end.\<close>

definition after_value :: "string \<Rightarrow> bool" where
  "after_value r \<longleftrightarrow> r = [] \<or> hd r \<in> {CHR '','', CHR '']'', CHR ''}''}"

lemma json_digits_show:
  assumes "after_value r"
  shows "json_digits (show_nat n @ r) = Inr (n, r)"
proof -
  have d: "\<forall>c\<in>set (show_nat n). is_digit c" using show_nat_digits [of n] by (simp add: list_all_iff)
  have r: "r = [] \<or> \<not> is_digit (hd r) \<and> hd r \<notin> set ''.eE''"
    using assms by (auto simp: after_value_def is_digit_def)
  then have "takeWhile is_digit (show_nat n @ r) = show_nat n" "dropWhile is_digit (show_nat n @ r) = r"
    using d by (cases r; simp)+
  moreover have "\<not> (hd (show_nat n) = CHR ''0'' \<and> length (show_nat n) > 1)"
    using hd_show_nat_nonzero [of n] by (cases "n = 0") (auto simp: show_nat.simps [of 0])
  moreover from r have "\<not> (r \<noteq> [] \<and> hd r \<in> set ''.eE'')" by blast
  ultimately show ?thesis unfolding json_digits_def Let_def by simp
qed

lemma json_number_show: "after_value r \<Longrightarrow> json_number (show_int i @ r) = Inr (Num (IntN i), r)"
proof -
  assume r: "after_value r"
  obtain c t where ct: "show_nat (nat i) = c # t" by (cases "show_nat (nat i)") auto
  then have "is_digit c" using hd_show_nat_digit [of "nat i"] by simp
  then have "c \<noteq> CHR ''-''" by (auto simp: is_digit_def)
  with ct json_digits_show [OF r, of "nat i"] json_digits_show [OF r, of "nat (- i)"] show ?thesis
    by (simp add: show_int_def json_number_def)
qed

lemma skip_ws_id [simp]: "\<not> json_ws c \<Longrightarrow> skip_ws (c # t) = c # t"
  by (simp add: skip_ws_def)

lemma show_int_head:
  obtains c t where "show_int i = c # t" "is_digit c \<or> c = CHR ''-''"
proof (cases "i < 0")
  case True
  then show ?thesis using that by (simp add: show_int_def)
next
  case False
  then show ?thesis using that hd_show_nat_digit [of "nat i"]
    by (cases "show_nat (nat i)") (auto simp: show_int_def)
qed

lemma number_head:
  "is_digit c \<or> c = CHR ''-'' \<Longrightarrow> \<not> json_ws c \<and> c \<notin> {CHR 34, CHR ''['', CHR ''{'', CHR ''t'', CHR ''f'', CHR ''n'', CHR '']'', CHR ''}'', CHR '',''}"
  by (auto simp: is_digit_def json_ws_def)

lemma skip_ws_after: "after_value r \<Longrightarrow> skip_ws r = r"
  by (cases r) (auto simp: after_value_def json_ws_def skip_ws_def)

lemma json_print_head:
  assumes "json_ok v"
  obtains c t where "json_print v = c # t" "\<not> json_ws c" "c \<noteq> CHR '']''"
proof (cases v)
  case (Num n)
  with assms obtain i where "n = IntN i" by (cases n) auto
  moreover obtain c t where "show_int i = c # t" "is_digit c \<or> c = CHR ''-''" by (rule show_int_head)
  ultimately show ?thesis using Num that [of c t] number_head [of c] by simp
next
  case (Bool b)
  then show ?thesis using that by (cases b) (auto simp: json_ws_def)
qed (use assms that in \<open>auto simp: json_quote_def json_ws_def\<close>)

lemma json_print_nonempty: "json_ok v \<Longrightarrow> json_print v \<noteq> []"
  by (erule json_print_head) simp

lemma json_value_number: "after_value r \<Longrightarrow> json_value (Suc n) (show_int i @ r) = Inr (Num (IntN i), r)"
proof -
  assume r: "after_value r"
  obtain c t where ct: "show_int i = c # t" "is_digit c \<or> c = CHR ''-''" by (rule show_int_head)
  from number_head [OF ct(2)] have "\<not> json_ws c"
    "c \<noteq> CHR 34" "c \<noteq> CHR ''[''" "c \<noteq> CHR ''{''" "c \<noteq> CHR ''t''" "c \<noteq> CHR ''f''" "c \<noteq> CHR ''n''"
    by auto
  with json_number_show [OF r, of i] ct(1) show ?thesis by simp
qed

lemma after_close [simp]: "after_value (CHR '']'' # r)" "after_value (CHR ''}'' # r)"
    "after_value (CHR '','' # r)" "after_value []"
  by (simp_all add: after_value_def)

lemma not_ws [simp]: "\<not> json_ws (CHR '']'')" "\<not> json_ws (CHR '','')" "\<not> json_ws (CHR ''}'')"
    "\<not> json_ws (CHR '':'')" "\<not> json_ws (CHR 34)" "\<not> json_ws (CHR ''['')" "\<not> json_ws (CHR ''{'')"
    "\<not> json_ws (CHR ''t'')" "\<not> json_ws (CHR ''f'')" "\<not> json_ws (CHR ''n'')"
  by (simp_all add: json_ws_def)

lemma json_elems_Cons: "xs \<noteq> [] \<Longrightarrow> json_elems (x # xs) = json_print x @ CHR '','' # json_elems xs"
  by (cases xs) auto

lemma json_members_ok: "json_okm kvs \<Longrightarrow>
  json_members kvs = map (\<lambda>(k, v). json_quote k @ CHR '':'' # json_print v) kvs"
  by (induction kvs) (auto split: prod.splits)

lemma obj_set_new: "k \<notin> fst ` set acc \<Longrightarrow> obj_set k v acc = acc @ [(k, v)]"
  unfolding obj_set_def by (induction acc) auto

lemma json_object_step:
  assumes "json_value n (json_print v @ r) = Inr (v, r)" and "r \<noteq> []" and "after_value r"
  shows "json_object (Suc n) acc (json_quote k @ CHR '':'' # json_print v @ r) =
    (if hd r = CHR '','' then json_object n (obj_set k v acc) (tl r)
     else if hd r = CHR ''}'' then Inr (obj_set k v acc, tl r) else Inl syntax_error)"
  using assms by (cases r) (auto simp: json_quote_def json_body_quote skip_ws_after)

lemma json_array_step:
  assumes "json_value n (json_print v @ r) = Inr (v, r)" and "r \<noteq> []" and "after_value r"
  shows "json_array (Suc n) (json_print v @ r) =
    (if hd r = CHR '','' then ebind (json_array n (tl r)) (\<lambda>(xs, r). Inr (v # xs, r))
     else if hd r = CHR '']'' then Inr ([v], tl r) else Inl syntax_error)"
  using assms by (cases r) (auto simp: skip_ws_after)

lemma json_roundtrip_aux:
  "json_ok v \<Longrightarrow> length (json_print v) \<le> n \<Longrightarrow> after_value r \<Longrightarrow>
     json_value n (json_print v @ r) = Inr (v, r)"
  "xs \<noteq> [] \<Longrightarrow> json_oks xs \<Longrightarrow> length (json_elems xs) < n \<Longrightarrow>
     json_array n (json_elems xs @ CHR '']'' # r) = Inr (xs, r)"
  "kvs \<noteq> [] \<Longrightarrow> json_okm kvs \<Longrightarrow> distinct (map fst kvs) \<Longrightarrow> fst ` set acc \<inter> fst ` set kvs = {} \<Longrightarrow>
     length (join '','' (json_members kvs)) < n \<Longrightarrow>
     json_object n acc (join '','' (json_members kvs) @ CHR ''}'' # r) = Inr (acc @ kvs, r)"
proof (induction v and xs and kvs arbitrary: n r and n r and n r acc
    rule: json_print_json_elems_json_members.induct)
  case (3 b)
  then show ?case by (cases n; cases b) (auto simp: json_literal_def starts_with_def)
next
  case (2)
  then show ?case by (cases n) (auto simp: json_literal_def starts_with_def)
next
  case (4 m)
  then obtain i k where "m = IntN i" "n = Suc k"
    by (cases m; cases n) (auto simp: show_int_def split: if_splits)
  with 4 show ?case by (simp add: json_value_number del: json_value.simps)
next
  case (5 s)
  then obtain k where "n = Suc k" by (cases n) (auto simp: json_quote_def)
  then show ?case by (simp add: json_quote_def json_body_quote)
next
  case (6 xs)
  then obtain k where k: "n = Suc k" by (cases n) auto
  show ?case
  proof (cases "xs = []")
    case True
    with k show ?thesis by (simp add: starts_with_def)
  next
    case False
    then obtain y ys where "xs = y # ys" by (cases xs) auto
    with 6 obtain c t where "json_elems xs = c # t" "\<not> json_ws c" "c \<noteq> CHR '']''"
      by (cases ys) (auto elim!: json_print_head [of y])
    moreover have "json_array k (json_elems xs @ CHR '']'' # r) = Inr (xs, r)"
      using 6 k False by simp
    ultimately show ?thesis using k by (simp add: starts_with_def)
  qed
next
  case (7 kvs)
  then obtain k where k: "n = Suc k" by (cases n) auto
  show ?case
  proof (cases "kvs = []")
    case True
    with k show ?thesis by (simp add: starts_with_def)
  next
    case False
    with 7 have "json_members kvs \<noteq> []" "hd (hd (json_members kvs)) = CHR 34" "hd (json_members kvs) \<noteq> []"
      by (cases kvs; auto simp: json_members_ok json_quote_def)+
    then obtain t where "join '','' (json_members kvs) = CHR 34 # t"
      by (cases "json_members kvs"; cases "hd (json_members kvs)"; cases "tl (json_members kvs)") auto
    moreover have "json_object k [] (join '','' (json_members kvs) @ CHR ''}'' # r) = Inr (kvs, r)"
      using 7 k False by simp
    ultimately show ?thesis using k by (simp add: starts_with_def)
  qed
next
  case (9 x)
  then obtain k where "n = Suc k" by (cases n) auto
  with 9 show ?case
    by (simp add: json_array_step del: json_array.simps json_value.simps)
next
  case (10 x y xs)
  then obtain k where k: "n = Suc k" by (cases n) auto
  have "json_value k (json_print x @ CHR '','' # json_elems (y # xs) @ CHR '']'' # r)
      = Inr (x, CHR '','' # json_elems (y # xs) @ CHR '']'' # r)"
    using 10 k by simp
  moreover have "json_array k (json_elems (y # xs) @ CHR '']'' # r) = Inr (y # xs, r)"
    using 10 k by simp
  ultimately show ?case
    using k by (simp add: json_array_step del: json_array.simps json_value.simps json_elems.simps
        add: json_elems_Cons)
next
  case (12 k v kvs)
  then obtain m where m: "n = Suc m" by (cases n) auto
  have v: "v \<noteq> Undef" using 12 by auto
  show ?case
  proof (cases "kvs = []")
    case True
    with 12 m v have "json_value m (json_print v @ CHR ''}'' # r) = Inr (v, CHR ''}'' # r)" by simp
    with True m v 12 show ?thesis
      by (simp add: json_object_step obj_set_new del: json_object.simps json_value.simps)
  next
    case False
    let ?r = "CHR '','' # join '','' (json_members kvs) @ CHR ''}'' # r"
    have ne: "json_members kvs \<noteq> []" using False 12 by (simp add: json_members_ok)
    have len: "length (join '','' (json_members ((k, v) # kvs))) =
        length (json_quote k) + 2 + length (json_print v) + length (join '','' (json_members kvs))"
      using v ne by (cases "json_members kvs") auto
    have "json_value m (json_print v @ ?r) = Inr (v, ?r)"
      using 12 m v len by simp
    moreover have "json_object m (acc @ [(k, v)]) (join '','' (json_members kvs) @ CHR ''}'' # r)
        = Inr ((acc @ [(k, v)]) @ kvs, r)"
      using 12 m v len False by (intro "12.IH"(3)) auto
    moreover have "join '','' (json_members ((k, v) # kvs)) @ CHR ''}'' # r
        = json_quote k @ CHR '':'' # json_print v @ ?r"
      using v ne by (cases "json_members kvs") auto
    ultimately show ?thesis
      using m 12 by (simp add: json_object_step obj_set_new del: json_object.simps json_value.simps json_members.simps)
  qed
qed auto

text \<open>Parsing the text that \<open>JSON.stringify\<close> prints for a value gives the value back.\<close>

lemma json_roundtrip: "json_ok v \<Longrightarrow> json_parse (Str (json_print v)) = Inr v"
  using json_roundtrip_aux(1) [of v "Suc (length (json_print v))" "[]"]
  by (simp add: json_parse_def json_parse_str_def skip_ws_def del: json_value.simps)

end
