(* ===== verification/Controller_Base.thy ===== *)
theory Controller_Base
  imports Driver_Options Zetabyte General Json
begin

text \<open>
  The ground of \<open>ControllerZfsBaseDriver\<close> (\<open>src/driver/controller-zfs/index.js\<close>): its
  constants, what it takes from derived drivers, packages and the host as a record of
  parameters, the names of its datasets, the capabilities it accepts, the volume it
  reports for a dataset, and the probes of the storage host.
\<close>

section \<open>Constants\<close>

definition MANAGED_PROPERTY_NAME :: string where
  "MANAGED_PROPERTY_NAME = ''democratic-csi:managed_resource''"

definition SUCCESS_PROPERTY_NAME :: string where
  "SUCCESS_PROPERTY_NAME = ''democratic-csi:provision_success''"

definition VOLUME_SOURCE_CLONE_SNAPSHOT_PREFIX :: string where
  "VOLUME_SOURCE_CLONE_SNAPSHOT_PREFIX = ''volume-source-for-volume-''"

definition VOLUME_SOURCE_DETACHED_SNAPSHOT_PREFIX :: string where
  "VOLUME_SOURCE_DETACHED_SNAPSHOT_PREFIX = ''volume-source-for-snapshot-''"

definition VOLUME_CSI_NAME_PROPERTY_NAME :: string where
  "VOLUME_CSI_NAME_PROPERTY_NAME = ''democratic-csi:csi_volume_name''"

definition SHARE_VOLUME_CONTEXT_PROPERTY_NAME :: string where
  "SHARE_VOLUME_CONTEXT_PROPERTY_NAME = ''democratic-csi:csi_share_volume_context''"

definition VOLUME_CONTENT_SOURCE_TYPE_PROPERTY_NAME :: string where
  "VOLUME_CONTENT_SOURCE_TYPE_PROPERTY_NAME = ''democratic-csi:csi_volume_content_source_type''"

definition VOLUME_CONTENT_SOURCE_ID_PROPERTY_NAME :: string where
  "VOLUME_CONTENT_SOURCE_ID_PROPERTY_NAME = ''democratic-csi:csi_volume_content_source_id''"

definition SNAPSHOT_CSI_NAME_PROPERTY_NAME :: string where
  "SNAPSHOT_CSI_NAME_PROPERTY_NAME = ''democratic-csi:csi_snapshot_name''"

definition SNAPSHOT_CSI_SOURCE_VOLUME_ID_PROPERTY_NAME :: string where
  "SNAPSHOT_CSI_SOURCE_VOLUME_ID_PROPERTY_NAME = ''democratic-csi:csi_snapshot_source_volume_id''"

definition VOLUME_CONTEXT_PROVISIONER_DRIVER_PROPERTY_NAME :: string where
  "VOLUME_CONTEXT_PROVISIONER_DRIVER_PROPERTY_NAME = ''democratic-csi:volume_context_provisioner_driver''"

definition VOLUME_CONTEXT_PROVISIONER_INSTANCE_ID_PROPERTY_NAME :: string where
  "VOLUME_CONTEXT_PROVISIONER_INSTANCE_ID_PROPERTY_NAME =
     ''democratic-csi:volume_context_provisioner_instance_id''"

definition MAX_ZVOL_NAME_LENGTH_CACHE_KEY :: string where
  "MAX_ZVOL_NAME_LENGTH_CACHE_KEY = ''controller-zfs:max_zvol_name_length''"

lemmas property_names = MANAGED_PROPERTY_NAME_def SUCCESS_PROPERTY_NAME_def
  VOLUME_CSI_NAME_PROPERTY_NAME_def SHARE_VOLUME_CONTEXT_PROPERTY_NAME_def
  VOLUME_CONTENT_SOURCE_TYPE_PROPERTY_NAME_def VOLUME_CONTENT_SOURCE_ID_PROPERTY_NAME_def
  SNAPSHOT_CSI_NAME_PROPERTY_NAME_def SNAPSHOT_CSI_SOURCE_VOLUME_ID_PROPERTY_NAME_def
  VOLUME_CONTEXT_PROVISIONER_DRIVER_PROPERTY_NAME_def
  VOLUME_CONTEXT_PROVISIONER_INSTANCE_ID_PROPERTY_NAME_def

section \<open>The driver\<close>

text \<open>
  The options and the zfs client of the driver, and its parameters: the resource type, the
  share methods and the topology of the derived driver, the exec client of the storage
  host, the mounts of the controller host, the Kubernetes API, and the packages (lodash,
  semver on the CSI version, handlebars, js-yaml, lru-cache, uuid, the hash functions).
\<close>

record 'e driver =
  dr_options :: jsobj
  dr_zb :: "'e zetabyte"
  dr_csiMode :: "string list"
  dr_resource :: string
  dr_lodash :: lodash
  dr_satisfies :: "string \<Rightarrow> bool"
  dr_template :: "js \<Rightarrow> js \<Rightarrow> exn + string"
  dr_yaml :: "js \<Rightarrow> exn + js"
  dr_hash :: "string \<Rightarrow> string \<Rightarrow> string"
  dr_exec :: "string \<Rightarrow> 'e \<Rightarrow> (exn + jsobj) \<times> 'e"
  dr_pvc :: "string \<Rightarrow> string \<Rightarrow> 'e \<Rightarrow> (exn + js) \<times> 'e"
  dr_mounts :: "string \<Rightarrow> 'e \<Rightarrow> (exn + js) \<times> 'e"
  dr_createShare :: "jsobj \<Rightarrow> string \<Rightarrow> 'e \<Rightarrow> (exn + jsobj) \<times> 'e"
  dr_deleteShare :: "jsobj \<Rightarrow> string \<Rightarrow> 'e \<Rightarrow> (exn + unit) \<times> 'e"
  dr_expandVolume :: "jsobj \<Rightarrow> string \<Rightarrow> 'e \<Rightarrow> (exn + unit) \<times> 'e"
  dr_topology :: "('e \<Rightarrow> (exn + js) \<times> 'e) option"
  dr_cache_get :: "string \<Rightarrow> 'e \<Rightarrow> js \<times> 'e"
  dr_cache_set :: "string \<Rightarrow> js \<Rightarrow> 'e \<Rightarrow> 'e"
  dr_uuid :: "'e \<Rightarrow> string \<times> 'e"
  dr_sleep :: "int \<Rightarrow> 'e \<Rightarrow> 'e"

definition grpc :: "status \<Rightarrow> msg \<Rightarrow> exn" where
  "grpc s m = GrpcError s m"

definition opts_get :: "'e driver \<Rightarrow> jsobj \<Rightarrow> string \<Rightarrow> js \<Rightarrow> js" where
  "opts_get D opts path d = lget (dr_lodash D) (Obj opts) path d"

text \<open>Calls to the outside. Calls of the exec client, of the derived driver and of the cache are events.\<close>

definition exec_client :: "'e driver \<Rightarrow> string \<Rightarrow> ('e world, jsobj) io" where
  "exec_client D command = perform (EvShell command) (dr_exec D command)"

definition createShare :: "'e driver \<Rightarrow> jsobj \<Rightarrow> string \<Rightarrow> ('e world, jsobj) io" where
  "createShare D req datasetName =
     perform (EvDriver ''createShare'' datasetName) (dr_createShare D req datasetName)"

definition deleteShare :: "'e driver \<Rightarrow> jsobj \<Rightarrow> string \<Rightarrow> ('e world, unit) io" where
  "deleteShare D req datasetName =
     perform (EvDriver ''deleteShare'' datasetName) (dr_deleteShare D req datasetName)"

definition expandVolume :: "'e driver \<Rightarrow> jsobj \<Rightarrow> string \<Rightarrow> ('e world, unit) io" where
  "expandVolume D req datasetName =
     perform (EvDriver ''expandVolume'' datasetName) (dr_expandVolume D req datasetName)"

definition getAccessibleTopology :: "'e driver \<Rightarrow> ('e world, js) io" where
  "getAccessibleTopology D =
     (case dr_topology D of
        None \<Rightarrow> ret Undef
      | Some f \<Rightarrow> perform (EvDriver ''getAccessibleTopology'' []) f)"

definition cache_get :: "'e driver \<Rightarrow> string \<Rightarrow> ('e world, js) io" where
  "cache_get D key =
     perform (EvCache (''get '' @ key)) (\<lambda>e. case dr_cache_get D key e of (v, e') \<Rightarrow> (Inr v, e'))"

definition cache_set :: "'e driver \<Rightarrow> string \<Rightarrow> js \<Rightarrow> ('e world, unit) io" where
  "cache_set D key v = perform (EvCache (''set '' @ key)) (\<lambda>e. (Inr (), dr_cache_set D key v e))"

definition uuidv4 :: "'e driver \<Rightarrow> ('e world, string) io" where
  "uuidv4 D = perform (EvDriver ''uuid'' []) (\<lambda>e. case dr_uuid D e of (u, e') \<Rightarrow> (Inr u, e'))"

section \<open>The constructor\<close>

definition default_list :: "string \<Rightarrow> string list \<Rightarrow> jsobj \<Rightarrow> jsobj" where
  "default_list k xs caps = (if obj_has caps k then caps else obj_set k (Arr (map Str xs)) caps)"

definition controller_rpcs :: "(string \<Rightarrow> bool) \<Rightarrow> string list" where
  "controller_rpcs satisfies =
     [''CREATE_DELETE_VOLUME'', ''LIST_VOLUMES'', ''GET_CAPACITY'', ''CREATE_DELETE_SNAPSHOT'',
      ''LIST_SNAPSHOTS'', ''CLONE_VOLUME'', ''EXPAND_VOLUME'']
     @ (if satisfies ''>=1.3.0'' then [''GET_VOLUME''] else [])
     @ (if satisfies ''>=1.5.0'' then [''SINGLE_NODE_MULTI_WRITER''] else [])"

definition node_rpcs :: "(string \<Rightarrow> bool) \<Rightarrow> string \<Rightarrow> string list" where
  "node_rpcs satisfies resource =
     [''STAGE_UNSTAGE_VOLUME'', ''GET_VOLUME_STATS'']
     @ (if resource = ''volume'' then [''EXPAND_VOLUME''] else [])
     @ (if satisfies ''>=1.5.0'' then [''SINGLE_NODE_MULTI_WRITER''] else [])"

text \<open>The service options after the constructor, for the two resource types.\<close>

definition controller_service_options :: "(string \<Rightarrow> bool) \<Rightarrow> string \<Rightarrow> jsobj \<Rightarrow> jsobj" where
  "controller_service_options satisfies resource options =
     (let service = inner_obj (obj_get options ''service'');
          identity = inner_obj (obj_get service ''identity'');
          controller = inner_obj (obj_get service ''controller'');
          node = inner_obj (obj_get service ''node'');
          icaps = inner_obj (obj_get identity ''capabilities'');
          ccaps = inner_obj (obj_get controller ''capabilities'');
          ncaps = inner_obj (obj_get node ''capabilities'');
          icaps = default_list ''service'' [''CONTROLLER_SERVICE''] icaps;
          icaps = default_list ''volume_expansion'' [''ONLINE''] icaps;
          ccaps = default_list ''rpc'' (controller_rpcs satisfies) ccaps;
          ncaps = default_list ''rpc'' (node_rpcs satisfies resource) ncaps;
          service = obj_set ''identity'' (Obj (obj_set ''capabilities'' (Obj icaps) identity)) service;
          service = obj_set ''controller'' (Obj (obj_set ''capabilities'' (Obj ccaps) controller)) service;
          service = obj_set ''node'' (Obj (obj_set ''capabilities'' (Obj ncaps) node)) service
      in obj_set ''service'' (Obj service) options)"

definition rpc_enabled :: "'e driver \<Rightarrow> string \<Rightarrow> bool" where
  "rpc_enabled D c =
     (case obj_get (inner_obj (obj_get (inner_obj (obj_get (inner_obj (obj_get (dr_options D)
             ''service'')) ''controller'')) ''capabilities'')) ''rpc'' of
        Arr xs \<Rightarrow> Str c \<in> set xs
      | _ \<Rightarrow> False)"

section \<open>Names of datasets\<close>

definition strip_slash :: "string \<Rightarrow> string" where
  "strip_slash s = (if ends_with s ''/'' then butlast s else s)"

definition zfs_option :: "'e driver \<Rightarrow> string \<Rightarrow> exn + js" where
  "zfs_option D k = getp (obj_get (dr_options D) ''zfs'') k"

definition getDatasetParentName :: "'e driver \<Rightarrow> exn + string" where
  "getDatasetParentName D =
     ebind (zfs_option D ''datasetParentName'') (\<lambda>v. ebind (as_string v) (\<lambda>s. Inr (strip_slash s)))"

definition getVolumeParentDatasetName :: "'e driver \<Rightarrow> exn + string" where
  "getVolumeParentDatasetName D = ebind (getDatasetParentName D) (\<lambda>s. Inr (strip_slash s))"

definition getDetachedSnapshotParentDatasetName :: "'e driver \<Rightarrow> exn + string" where
  "getDetachedSnapshotParentDatasetName D =
     ebind (zfs_option D ''detachedSnapshotsDatasetParentName'')
       (\<lambda>v. ebind (as_string v) (\<lambda>s. Inr (strip_slash s)))"

definition removeSnapshotsFromDatatset :: "'e driver \<Rightarrow> string \<Rightarrow> jsobj \<Rightarrow> ('e world, unit) io" where
  "removeSnapshotsFromDatatset D datasetName options =
     bind (zfs_destroy (dr_zb D) 2 (datasetName @ ''@%'') options) (\<lambda>_. ret ())"

section \<open>Capabilities\<close>

definition getFSTypes :: "'e driver \<Rightarrow> string list" where
  "getFSTypes D =
     (if dr_resource D = ''filesystem'' then default_supported_file_filesystems
      else if dr_resource D = ''volume'' then default_supported_block_filesystems
      else [])"

definition default_access_modes :: "string \<Rightarrow> string list" where
  "default_access_modes resource =
     [''UNKNOWN'', ''SINGLE_NODE_WRITER'', ''SINGLE_NODE_SINGLE_WRITER'',
      ''SINGLE_NODE_MULTI_WRITER'', ''SINGLE_NODE_READER_ONLY'', ''MULTI_NODE_READER_ONLY'',
      ''MULTI_NODE_SINGLE_WRITER'']
     @ (if resource = ''filesystem'' then [''MULTI_NODE_MULTI_WRITER''] else [])"

definition getAccessModes :: "'e driver \<Rightarrow> js \<Rightarrow> exn + js" where
  "getAccessModes D capability =
     (let configured = opts_get D (dr_options D) ''csi.access_modes'' Null
      in if configured \<noteq> Null then Inr configured
         else ebind (getp capability ''access_type'') (\<lambda>t.
           let modes = default_access_modes (dr_resource D)
           in Inr (Arr (map Str
                (if loose_eq t (Str ''block'') \<and> ''MULTI_NODE_MULTI_WRITER'' \<notin> set modes
                 then modes @ [''MULTI_NODE_MULTI_WRITER''] else modes)))))"

text \<open>\<open>includes\<close> of an array, or of a string.\<close>

fun js_includes :: "js \<Rightarrow> js \<Rightarrow> exn + bool" where
  "js_includes (Arr xs) v = Inr (v \<in> set xs)"
| "js_includes (Str s) v = Inr (contains s (to_str v))"
| "js_includes _ _ = Inl (type_error ''includes'')"

definition check_fs_type :: "'e driver \<Rightarrow> js \<Rightarrow> exn + msg option" where
  "check_fs_type D capability =
     ebind (getp capability ''mount'') (\<lambda>m. ebind (getp m ''fs_type'') (\<lambda>t.
       Inr (if truthy t \<and> t \<notin> set (map Str (getFSTypes D))
            then Some (''invalid fs_type '' @ to_str t) else None)))"

definition check_access_mode :: "'e driver \<Rightarrow> js \<Rightarrow> exn + msg option" where
  "check_access_mode D capability =
     ebind (getAccessModes D capability) (\<lambda>modes.
     ebind (getp capability ''access_mode'') (\<lambda>am. ebind (getp am ''mode'') (\<lambda>mode.
     ebind (js_includes modes mode) (\<lambda>b.
       Inr (if b then None else Some (''invalid access_mode, '' @ to_str mode))))))"

text \<open>One capability: the message of the first failed check, None when it is accepted.\<close>

definition check_capability :: "'e driver \<Rightarrow> js \<Rightarrow> exn + msg option" where
  "check_capability D capability =
     ebind (getp capability ''access_type'') (\<lambda>t.
       if dr_resource D = ''filesystem'' then
         (if \<not> loose_eq t (Str ''mount'') then Inr (Some (''invalid access_type '' @ to_str t))
          else ebind (check_fs_type D capability) (\<lambda>r.
            case r of Some m \<Rightarrow> Inr (Some m) | None \<Rightarrow> check_access_mode D capability))
       else if dr_resource D = ''volume'' then
         ebind (if loose_eq t (Str ''mount'') then check_fs_type D capability else Inr None) (\<lambda>r.
            case r of Some m \<Rightarrow> Inr (Some m) | None \<Rightarrow> check_access_mode D capability)
       else Inr (Some []))"

fun every_capability :: "'e driver \<Rightarrow> js list \<Rightarrow> exn + bool \<times> js" where
  "every_capability D [] = Inr (True, Null)"
| "every_capability D (c # cs) =
     ebind (check_capability D c) (\<lambda>r.
       case r of None \<Rightarrow> every_capability D cs | Some m \<Rightarrow> Inr (False, Str m))"

definition assertCapabilities :: "'e driver \<Rightarrow> js \<Rightarrow> exn + bool \<times> js" where
  "assertCapabilities D capabilities =
     (case capabilities of Arr cs \<Rightarrow> every_capability D cs | _ \<Rightarrow> Inl (type_error ''every''))"

section \<open>Volumes\<close>

definition getVolumeStatus :: "'e driver \<Rightarrow> js" where
  "getVolumeStatus D =
     (if \<not> dr_satisfies D ''>=1.2.0'' then Undef
      else Obj ((if rpc_enabled D ''LIST_VOLUMES_PUBLISHED_NODES''
                 then [(''published_node_ids'', Arr [])] else [])
             @ (if dr_satisfies D ''>=1.3.0'' \<and> rpc_enabled D ''VOLUME_CONDITION''
                then [(''volume_condition'', Obj [(''abnormal'', Bool False), (''message'', Str ''OK'')])]
                else [])))"

text \<open>Assigning a property of a parsed value: a TypeError unless it is an object.\<close>

definition assign_prop :: "bool \<Rightarrow> string \<Rightarrow> js \<Rightarrow> js \<Rightarrow> exn + js" where
  "assign_prop b k x v =
     (if \<not> b then Inr v
      else case v of Obj kvs \<Rightarrow> Inr (Obj (obj_set k x kvs)) | Arr _ \<Rightarrow> Inl (Unmodelled ''array'')
           | _ \<Rightarrow> Inl (type_error ''Cannot create property''))"

definition content_source_of_row :: "js \<Rightarrow> js \<Rightarrow> js" where
  "content_source_of_row t i =
     (if \<not> isPropertyValueSet t then Undef
      else if t = Str ''snapshot'' then Obj [(''snapshot'', Obj [(''snapshot_id'', i)])]
      else if t = Str ''volume'' then Obj [(''volume'', Obj [(''volume_id'', i)])]
      else Obj [])"

text \<open>\<open>new RegExp("^" + prefix)\<close> replaced by nothing.\<close>

definition strip_prefix :: "string \<Rightarrow> string \<Rightarrow> exn + string" where
  "strip_prefix pre s =
     (case replace_prefix_re pre s of None \<Rightarrow> Inl (Unmodelled ''regular expression'') | Some t \<Rightarrow> Inr t)"

definition volume_context_of_row :: "js \<Rightarrow> exn + js" where
  "volume_context_of_row row =
     (let p = field row VOLUME_CONTEXT_PROVISIONER_DRIVER_PROPERTY_NAME;
          i = field row VOLUME_CONTEXT_PROVISIONER_INSTANCE_ID_PROPERTY_NAME
      in ebind (json_parse (field row SHARE_VOLUME_CONTEXT_PROPERTY_NAME)) (\<lambda>ctx.
         ebind (assign_prop (isPropertyValueSet p) ''provisioner_driver'' p ctx) (\<lambda>ctx.
         assign_prop (isPropertyValueSet i) ''provisioner_driver_instance_id'' i ctx)))"

text \<open>The entry of a row of \<open>zfs list\<close>, or undefined for a row that is not a finished volume.\<close>

definition populateCsiVolumeFromData :: "'e driver \<Rightarrow> js \<Rightarrow> ('e world, js) io" where
  "populateCsiVolumeFromData D row =
     bind (lift (getVolumeParentDatasetName D)) (\<lambda>datasetName.
     bind (lift (getp row MANAGED_PROPERTY_NAME)) (\<lambda>managed.
       if \<not> loose_eq managed (Str ''true'') then ret Undef
       else if \<not> isPropertyValueSet (field row SHARE_VOLUME_CONTEXT_PROPERTY_NAME) then ret Undef
       else bind (lift (volume_context_of_row row)) (\<lambda>volume_context.
         bind (getAccessibleTopology D) (\<lambda>topology.
         bind (lift (as_string (field row ''name''))) (\<lambda>name.
         bind (lift (strip_prefix (datasetName @ ''/'') name)) (\<lambda>volume_id.
         ret (Obj [(''volume_id'', Str volume_id),
            (''capacity_bytes'', field row (if dr_resource D = ''filesystem'' then ''refquota'' else ''volsize'')),
            (''content_source'', content_source_of_row
               (field row VOLUME_CONTENT_SOURCE_TYPE_PROPERTY_NAME)
               (field row VOLUME_CONTENT_SOURCE_ID_PROPERTY_NAME)),
            (''volume_context'', volume_context),
            (''accessible_topology'', topology)])))))))"

section \<open>Probes of the storage host\<close>

definition shell_stdout :: "'e driver \<Rightarrow> string \<Rightarrow> msg \<Rightarrow> ('e world, string) io" where
  "shell_stdout D command m =
     bind (exec_client D command) (\<lambda>response.
       if obj_get response ''code'' \<noteq> Num (IntN 0) then throw (js_error m)
       else lift (as_string (obj_get response ''stdout'')))"

definition uname_failed :: msg where
  "uname_failed = ''failed to run uname to determine max zvol name length''"

definition getWhoAmI :: "'e driver \<Rightarrow> ('e world, string) io" where
  "getWhoAmI D = bind (shell_stdout D ''whoami'' uname_failed) (\<lambda>s. ret (trim s))"

definition getSudoPath :: "'e driver \<Rightarrow> string" where
  "getSudoPath D =
     to_str (or_else (field (zb_opt (dr_zb D) ''paths'') ''sudo'') (Str ''/usr/bin/sudo''))"

definition freebsd_name_length :: "string \<Rightarrow> int" where
  "freebsd_name_length kernel_release =
     (if js_ge (Str (hd (split_ch (CHR ''.'') kernel_release))) (Num (IntN 13)) then 255 else 63)"

definition getMaxZvolNameLength :: "'e driver \<Rightarrow> ('e world, js) io" where
  "getMaxZvolNameLength D =
     bind (cache_get D MAX_ZVOL_NAME_LENGTH_CACHE_KEY) (\<lambda>cached.
       if truthy cached then ret cached
       else bind (shell_stdout D ''uname -s'' uname_failed) (\<lambda>out.
         let kernel = trim out in
         bind (if trim (to_lower kernel) = ''linux'' then ret 255
               else if trim (to_lower kernel) = ''freebsd'' then
                 bind (shell_stdout D ''uname -r'' uname_failed) (\<lambda>r. ret (freebsd_name_length r))
               else throw (js_error (''unknown kernel: '' @ kernel))) (\<lambda>max.
         andthen (cache_set D MAX_ZVOL_NAME_LENGTH_CACHE_KEY (Num (IntN max)))
           (ret (Num (IntN max))))))"

text \<open>Run a command on the host, with sudo unless the user is root; a nonzero code is an error.\<close>

definition run_as_root :: "'e driver \<Rightarrow> string \<Rightarrow> msg \<Rightarrow> ('e world, unit) io" where
  "run_as_root D command m =
     bind (getWhoAmI D) (\<lambda>user.
     bind (exec_client D (if user \<noteq> ''root'' then getSudoPath D @ '' '' @ command else command)) (\<lambda>response.
       if \<not> loose_eq (obj_get response ''code'') (Num (IntN 0))
       then throw (grpc UNKNOWN (m @ json_print (Obj response))) else ret ()))"

definition setFilesystemMode :: "'e driver \<Rightarrow> js \<Rightarrow> js \<Rightarrow> ('e world, unit) io" where
  "setFilesystemMode D path mode =
     run_as_root D (buildCommand ''chmod'' [to_str mode, to_str path])
       ''error setting permissions on dataset: ''"

definition owner_text :: "js \<Rightarrow> string" where
  "owner_text v = (if v = Bool False \<or> v = Undef \<or> v = Null then [] else to_str v)"

definition setFilesystemOwnership :: "'e driver \<Rightarrow> js \<Rightarrow> js \<Rightarrow> js \<Rightarrow> ('e world, unit) io" where
  "setFilesystemOwnership D path user grp =
     (if owner_text user = [] \<and> owner_text grp = [] then ret ()
      else run_as_root D (buildCommand ''chown'' [owner_text user @ '':'' @ owner_text grp, to_str path])
             ''error setting ownership on dataset: '')"

text \<open>
  \<open>Probe\<close>. The timer is switched off in the code, so every call runs the shell check; the
  answer is that of the base driver.
\<close>

definition Probe :: "'e driver \<Rightarrow> ('e world, js) io" where
  "Probe D =
     (let ready = Obj [(''ready'', Obj [(''value'', Bool True)])] in
      if ''controller'' \<in> set (dr_csiMode D) then
        bind (lift (getVolumeParentDatasetName D)) (\<lambda>v.
        bind (lift (getDetachedSnapshotParentDatasetName D)) (\<lambda>s.
          let datasetParentName = v @ ''/''; snapshotParentDatasetName = s @ ''/'' in
          if starts_with datasetParentName snapshotParentDatasetName
             \<or> starts_with snapshotParentDatasetName datasetParentName
          then throw (grpc FAILED_PRECONDITION
                 ''datasetParentName and detachedSnapshotsDatasetParentName must not overlap'')
          else bind (exec_client D ''echo $0'') (\<lambda>response.
            bind (lift (as_string (obj_get response ''stdout''))) (\<lambda>out.
              if contains (hd (split_ch (CHR 10) out)) ''csh''
              then throw (grpc FAILED_PRECONDITION
                ''csh is an unsupported shell, please update the default shell of your exec user'')
              else ret ready))))
      else ret ready)"

section \<open>The id of a volume\<close>

definition hash_strategies :: "string list" where
  "hash_strategies = [''md5'', ''crc8'', ''crc16'', ''crc32'']"

definition check_generated_id :: "string \<Rightarrow> exn + string" where
  "check_generated_id volume_id =
     (if length volume_id > 128
      then Inl (invalid_argument (''generated volume_id '' @ quoted volume_id @ '' is too large''))
      else if length volume_id < 1
      then Inl (invalid_argument (''generated volume_id '' @ quoted volume_id @ '' is too small''))
      else if invalid_chars volume_id_char volume_id \<noteq> []
      then Inl (invalid_argument (''generated volume_id '' @ quoted volume_id @
             '' contains invalid characters: '' @ quoted (invalid_chars volume_id_char volume_id)))
      else if \<not> is_alnum (hd volume_id)
      then Inl (invalid_argument (''generated volume_id '' @ quoted volume_id @
             '' must begin with alphanumeric character''))
      else Inr volume_id)"

definition getVolumeIdFromCall :: "'e driver \<Rightarrow> jsobj \<Rightarrow> exn + string" where
  "getVolumeIdFromCall D req =
     (let name = obj_get req ''name'';
          idTemplate = opts_get D (dr_options D) ''_private.csi.volume.idTemplate'' (Str []);
          hash_strategy = opts_get D (dr_options D) ''_private.csi.volume.idHash.strategy'' (Str [])
      in if \<not> truthy name then Inl (invalid_argument ''volume name is required'')
      else ebind
        (if truthy idTemplate then
           ebind (dr_template D idTemplate
                    (Obj [(''name'', name), (''parameters'', obj_get req ''parameters'')])) (\<lambda>s.
             if s = [] then Inl (invalid_argument ''generated volume_id is empty, idTemplate may be invalid'')
             else Inr s)
         else Inr (to_str name)) (\<lambda>volume_id.
        ebind
          (if truthy hash_strategy then
             ebind (as_string hash_strategy) (\<lambda>h.
               if to_lower h \<in> set hash_strategies then Inr (dr_hash D (to_lower h) volume_id)
               else Inl (invalid_argument (''unkown hash strategy: '' @ h)))
           else Inr volume_id)
        check_generated_id))"

section \<open>A sample driver\<close>

text \<open>
  A driver to run the handlers on: the children of its zfs client answer by their arguments
  and the number of children before them, its other parameters are as simple as they can be.
\<close>

definition sample_driver :: "string \<Rightarrow> (string list \<Rightarrow> nat \<Rightarrow> spawn_out) \<Rightarrow> nat driver" where
  "sample_driver resource reply =
     \<lparr>dr_options = [(''driver'', Str ''zfs-generic''),
        (''zfs'', Obj [(''datasetParentName'', Str ''tank/v''),
           (''detachedSnapshotsDatasetParentName'', Str ''tank/s'')])],
      dr_zb = new_zetabyte [(''idempotent'', Bool True)] (\<lambda>c args opts n. (reply args n, n + 1)),
      dr_csiMode = [''controller''], dr_resource = resource, dr_lodash = lodash_std,
      dr_satisfies = (\<lambda>_. True), dr_template = (\<lambda>v ctx. Inr (to_str v)),
      dr_yaml = (\<lambda>_. Inr (Obj [])), dr_hash = (\<lambda>_ s. s),
      dr_exec = (\<lambda>c n. (Inr [(''code'', Num (IntN 0)), (''stdout'', Str ''Linux'')], n)),
      dr_pvc = (\<lambda>_ _ n. (Inr (Obj []), n)),
      dr_mounts = (\<lambda>_ n. (Inr (Obj [(''filesystems'', Arr [])]), n)),
      dr_createShare = (\<lambda>_ _ n. (Inr [(''server'', Str ''nas'')], n)),
      dr_deleteShare = (\<lambda>_ _ n. (Inr (), n)), dr_expandVolume = (\<lambda>_ _ n. (Inr (), n)),
      dr_topology = None, dr_cache_get = (\<lambda>_ n. (Undef, n)), dr_cache_set = (\<lambda>_ _ n. n),
      dr_uuid = (\<lambda>n. (''id'', n)), dr_sleep = (\<lambda>_ n. n)\<rparr>"

definition world0 :: "nat world" where
  "world0 = \<lparr>ext = 0, hist = []\<rparr>"

text \<open>One line of the output of \<open>zfs get\<close>.\<close>

definition get_line :: "string \<Rightarrow> string \<Rightarrow> string \<Rightarrow> string \<Rightarrow> string" where
  "get_line dataset property value source = join [CHR 9] [dataset, property, value, ''-'', source] @ [CHR 10]"

section \<open>Properties\<close>

text \<open>
  C12: a volume id that \<open>CreateVolume\<close> generates, from the name, a template or a hash, is one
  that every later call accepts: \<open>validateVolumeId\<close> returns it unchanged.
\<close>

theorem generated_id_valid:
  assumes "getVolumeIdFromCall D req = Inr v"
  shows "validateVolumeId (Str v) = Inr v"
proof -
  from assms obtain u where "check_generated_id u = Inr v"
    by (auto simp: getVolumeIdFromCall_def Let_def ebind_eq_Inr split: if_splits)
  then show ?thesis
    by (auto simp: check_generated_id_def validateVolumeId_def split: if_splits)
qed

lemma generated_id_valid_witness: "validateVolumeId (Str ''pvc-1'') = Inr ''pvc-1''"
proof -
  have "getVolumeIdFromCall (sample_driver ''volume'' (\<lambda>_ _. SpawnFailed [])) [(''name'', Str ''pvc-1'')]
      = Inr ''pvc-1''"
    by code_simp
  from generated_id_valid [OF this] show ?thesis .
qed

end
