(* ===== verification/Clone_Properties.thy ===== *)
theory Clone_Properties
  imports Controller_Base
begin

text \<open>
  The functions below the class in \<open>src/driver/controller-zfs/index.js\<close>: which user
  properties a new volume takes over from its content source, and whether a dataset has
  snapshots that block its deletion; and how the handlers read zfs results.
\<close>

section \<open>Reading the results of zfs\<close>

fun get_js :: "get_result \<Rightarrow> js" where
  "get_js (Properties ps) = Obj (map (\<lambda>(d, kvs). (d, Obj kvs)) ps)"
| "get_js (RawGet s) = Str s"

definition zget :: "'e driver \<Rightarrow> string \<Rightarrow> string list \<Rightarrow> jsobj \<Rightarrow> ('e world, js) io" where
  "zget D datasetName properties options =
     bind (zfs_get (dr_zb D) 3 datasetName (Arr (map Str properties)) options) (\<lambda>r. ret (get_js r))"

fun rows_of :: "list_result \<Rightarrow> exn + jsobj list" where
  "rows_of (Table _ _ rows) = Inr rows"
| "rows_of (Raw _ _) = Inl (type_error ''indexed'')"

definition zlist_rows ::
  "'e driver \<Rightarrow> string \<Rightarrow> string list \<Rightarrow> jsobj \<Rightarrow> ('e world, jsobj list) io" where
  "zlist_rows D datasetName properties options =
     bind (zfs_list (dr_zb D) 3 datasetName (Arr (map Str properties)) options) (\<lambda>r. lift (rows_of r))"

text \<open>\<open>properties[name].value\<close>\<close>

definition prop_value :: "js \<Rightarrow> string \<Rightarrow> exn + js" where
  "prop_value properties name = ebind (getp properties name) (\<lambda>e. getp e ''value'')"

definition zset :: "'e driver \<Rightarrow> string \<Rightarrow> jsobj \<Rightarrow> ('e world, unit) io" where
  "zset D datasetName properties =
     bind (zfs_set (dr_zb D) 2 datasetName properties) (\<lambda>_. ret ())"

definition zdestroy :: "'e driver \<Rightarrow> string \<Rightarrow> jsobj \<Rightarrow> ('e world, unit) io" where
  "zdestroy D datasetName options =
     bind (zfs_destroy (dr_zb D) 2 datasetName options) (\<lambda>_. ret ())"

section \<open>Properties of a clone\<close>

definition pattern_matches :: "string \<Rightarrow> js \<Rightarrow> bool" where
  "pattern_matches name pattern =
     (case pattern of
        Str p \<Rightarrow> p = ''*'' \<or> (if ends_with p ''*'' then starts_with name (butlast p) else p = name)
      | _ \<Rightarrow> False)"

definition set_on_source :: "string \<Rightarrow> js \<Rightarrow> bool" where
  "set_on_source snapshotDatasetName source \<longleftrightarrow>
     source = Str ''local'' \<or> source = Str ''received''
     \<or> source = Str (''inherited from '' @ snapshotDatasetName)"

text \<open>The value to copy for one entry of the snapshot's properties, if it is copied.\<close>

definition copied_value :: "js list \<Rightarrow> string \<Rightarrow> string \<Rightarrow> js \<Rightarrow> string option" where
  "copied_value patterns snapshotDatasetName name entry =
     (if \<not> contains name '':'' \<or> starts_with name ''democratic-csi:'' then None
      else if \<not> truthy entry then None
      else case field entry ''value'' of
        Str v \<Rightarrow>
          if v = ''-'' \<or> \<not> set_on_source snapshotDatasetName (field entry ''source'')
             \<or> \<not> list_ex (pattern_matches name) patterns
          then None else Some v
      | _ \<Rightarrow> None)"

definition selectCopiedDatasetProperties :: "js \<Rightarrow> js \<Rightarrow> string \<Rightarrow> jsobj" where
  "selectCopiedDatasetProperties snapshotProperties patterns fullSnapshotName =
     (case patterns of
        Arr ps \<Rightarrow>
          (if ps = [] then []
           else let snapshotDatasetName =
                      substring fullSnapshotName 0 (index_of fullSnapshotName ''@'')
                in foldl (\<lambda>copied (name, entry).
                     case copied_value ps snapshotDatasetName name entry of
                       None \<Rightarrow> copied | Some v \<Rightarrow> obj_set name (Str v) copied)
                   [] (entries (or_else snapshotProperties (Obj []))))
      | _ \<Rightarrow> [])"

text \<open>Each value is a handlebars template, rendered in order into the object.\<close>

definition render_into :: "'e driver \<Rightarrow> js \<Rightarrow> jsobj \<Rightarrow> (string \<times> js) list \<Rightarrow> exn + jsobj" where
  "render_into D ctx acc kvs =
     efold (\<lambda>acc (k, v). ebind (dr_template D v ctx) (\<lambda>s. Inr (obj_set k (Str s) acc))) acc kvs"

definition copy_list :: "js \<Rightarrow> js list" where
  "copy_list cloneDatasetProperties =
     (case field cloneDatasetProperties ''copy'' of Arr ps \<Rightarrow> ps | _ \<Rightarrow> [])"

definition buildCloneDatasetProperties ::
  "'e driver \<Rightarrow> string \<Rightarrow> js \<Rightarrow> js \<Rightarrow> ('e world, jsobj) io" where
  "buildCloneDatasetProperties D fullSnapshotName cloneDatasetProperties templateContext =
     bind (if truthy cloneDatasetProperties \<and> copy_list cloneDatasetProperties \<noteq> [] then
             bind (zget D fullSnapshotName [''all''] []) (\<lambda>snapshotProperties.
             ret (obj_assign [] (selectCopiedDatasetProperties
               (lo_getPath (dr_lodash D) snapshotProperties [fullSnapshotName])
               (field cloneDatasetProperties ''copy'') fullSnapshotName)))
           else ret []) (\<lambda>copied.
     if truthy cloneDatasetProperties
        \<and> lo_isPlainObject (dr_lodash D) (field cloneDatasetProperties ''set'')
     then lift (render_into D templateContext copied (entries (field cloneDatasetProperties ''set'')))
     else ret copied)"

section \<open>Snapshots that block a deletion\<close>

fun some_row :: "(jsobj \<Rightarrow> exn + bool) \<Rightarrow> jsobj list \<Rightarrow> exn + bool" where
  "some_row f [] = Inr False"
| "some_row f (r # rs) = ebind (f r) (\<lambda>b. if b then Inr True else some_row f rs)"

definition managed_row :: "jsobj \<Rightarrow> exn + bool" where
  "managed_row row =
     ebind (as_string (obj_get row MANAGED_PROPERTY_NAME)) (\<lambda>s. Inr (to_lower s = ''true''))"

definition managed_entry :: "'e driver \<Rightarrow> string \<Rightarrow> string \<times> js \<Rightarrow> bool" where
  "managed_entry D datasetName e =
     (case e of (name, ps) \<Rightarrow>
        starts_with name (datasetName @ ''@'')
        \<and> to_lower (to_str (lgetPath (dr_lodash D) ps [MANAGED_PROPERTY_NAME, ''value''] (Str [])))
            = ''true'')"

definition datasetHasManagedSnapshots :: "'e driver \<Rightarrow> string \<Rightarrow> bool \<Rightarrow> ('e world, bool) io" where
  "datasetHasManagedSnapshots D datasetName ignoreForeignSnapshots =
     (if ignoreForeignSnapshots then
        bind (zget D datasetName [MANAGED_PROPERTY_NAME]
               [(''types'', Arr [Str ''snapshot'']), (''recurse'', Bool True),
                (''sources'', Arr [Str ''local'', Str ''received''])]) (\<lambda>properties.
        ret (list_ex (managed_entry D datasetName) (entries properties)))
      else
        bind (zlist_rows D datasetName [''name'', MANAGED_PROPERTY_NAME]
               [(''types'', Arr [Str ''snapshot''])]) (\<lambda>rows.
        lift (some_row managed_row rows)))"

section \<open>What the steps add to the history\<close>

text \<open>
  Events that leave the storage as it is: everything but a child process, and the child
  processes that run \<open>zfs get\<close> or \<open>zfs list\<close>.
\<close>

definition zev :: "'e driver \<Rightarrow> string list \<Rightarrow> event" where
  "zev D args = zfs_event (dr_zb D) args"

definition is_spawn :: "event \<Rightarrow> bool" where
  "is_spawn ev \<longleftrightarrow> (\<exists>c a. ev = EvSpawn c a)"

definition quiet :: "'e driver \<Rightarrow> event \<Rightarrow> bool" where
  "quiet D ev \<longleftrightarrow> \<not> is_spawn ev \<or> (\<exists>r. ev = zev D (''get'' # r) \<or> ev = zev D (''list'' # r))"

lemma zev_inj [simp]: "zev D a = zev D b \<longleftrightarrow> a = b"
  by (simp add: zev_def)

lemma is_spawn_simps [simp]:
  "is_spawn (zev D a)" "\<not> is_spawn (EvShell s)" "\<not> is_spawn (EvDriver m b)" "\<not> is_spawn (EvSleep i)"
  "\<not> is_spawn (EvCache s)"
  by (simp_all add: is_spawn_def zev_def zfs_event_def)

lemma zev_neq [simp]:
  "zev D a \<noteq> EvShell s" "zev D a \<noteq> EvDriver m b" "zev D a \<noteq> EvSleep i" "zev D a \<noteq> EvCache s"
  "EvShell s \<noteq> zev D a" "EvDriver m b \<noteq> zev D a" "EvSleep i \<noteq> zev D a" "EvCache s \<noteq> zev D a"
  by (simp_all add: zev_def zfs_event_def)

lemma quiet_simps [simp]:
  "quiet D (EvShell s)" "quiet D (EvDriver m a)" "quiet D (EvSleep i)" "quiet D (EvCache s)"
  "quiet D (zev D (c # r)) \<longleftrightarrow> c = ''get'' \<or> c = ''list''"
  by (auto simp: quiet_def)

lemma adds_zfs_get: "(\<And>r. P (zfs_event Z (''get'' # r))) \<Longrightarrow> adds P (zfs_get Z n d p opts)"
  by (auto simp: zfs_get_def Let_def get_args_def intro!: wp_intro)

lemma adds_list_table [wp_intro]: "adds P (list_table p s)"
  by (auto simp: list_table_def Let_def intro!: wp_intro split: js.splits)

lemma adds_zfs_list: "(\<And>r. P (zfs_event Z (''list'' # r))) \<Longrightarrow> adds P (zfs_list Z n d p opts)"
  by (auto simp: zfs_list_def Let_def list_args_def intro!: wp_intro)

lemma adds_zget [wp_intro]: "(\<And>r. P (zev D (''get'' # r))) \<Longrightarrow> adds P (zget D d p opts)"
  by (auto simp: zget_def zev_def intro!: wp_intro adds_zfs_get)

lemma adds_zlist_rows [wp_intro]: "(\<And>r. P (zev D (''list'' # r))) \<Longrightarrow> adds P (zlist_rows D d p opts)"
  by (auto simp: zlist_rows_def zev_def intro!: wp_intro adds_zfs_list)

lemma adds_zset [wp_intro]: "P (zev D (set_args d p)) \<Longrightarrow> adds P (zset D d p)"
  by (auto simp: zset_def zfs_set_def zev_def intro!: wp_intro)

lemma adds_zdestroy [wp_intro]: "P (zev D (destroy_args d opts)) \<Longrightarrow> adds P (zdestroy D d opts)"
  by (auto simp: zdestroy_def zfs_destroy_def zev_def intro!: wp_intro)

lemma adds_exec_client [wp_intro]: "P (EvShell c) \<Longrightarrow> adds P (exec_client D c)"
  by (auto simp: exec_client_def intro!: wp_intro)

lemma adds_getAccessibleTopology [wp_intro]:
  "P (EvDriver ''getAccessibleTopology'' []) \<Longrightarrow> adds P (getAccessibleTopology D)"
  by (auto simp: getAccessibleTopology_def intro!: wp_intro split: option.splits)

lemma adds_cache_get [wp_intro]: "(\<And>k. P (EvCache k)) \<Longrightarrow> adds P (cache_get D k)"
  by (auto simp: cache_get_def intro!: wp_intro)

lemma adds_cache_set [wp_intro]: "(\<And>k. P (EvCache k)) \<Longrightarrow> adds P (cache_set D k v)"
  by (auto simp: cache_set_def intro!: wp_intro)

lemma adds_uuidv4 [wp_intro]: "P (EvDriver ''uuid'' []) \<Longrightarrow> adds P (uuidv4 D)"
  by (auto simp: uuidv4_def intro!: wp_intro)

lemma adds_shell_stdout [wp_intro]: "P (EvShell c) \<Longrightarrow> adds P (shell_stdout D c m)"
  by (auto simp: shell_stdout_def intro!: wp_intro)

lemma adds_getWhoAmI [wp_intro]: "(\<And>c. P (EvShell c)) \<Longrightarrow> adds P (getWhoAmI D)"
  by (auto simp: getWhoAmI_def intro!: wp_intro)

lemma adds_run_as_root [wp_intro]: "(\<And>c. P (EvShell c)) \<Longrightarrow> adds P (run_as_root D c m)"
  by (auto simp: run_as_root_def intro!: wp_intro)

lemma adds_getMaxZvolNameLength [wp_intro]:
  "(\<And>c. P (EvShell c)) \<Longrightarrow> (\<And>k. P (EvCache k)) \<Longrightarrow> adds P (getMaxZvolNameLength D)"
  by (auto simp: getMaxZvolNameLength_def Let_def intro!: wp_intro)

lemma adds_populate [wp_intro]:
  "P (EvDriver ''getAccessibleTopology'' []) \<Longrightarrow> adds P (populateCsiVolumeFromData D row)"
  by (auto simp: populateCsiVolumeFromData_def intro!: wp_intro)

lemma adds_buildClone [wp_intro]:
  "(\<And>r. P (zev D (''get'' # r))) \<Longrightarrow> adds P (buildCloneDatasetProperties D s c t)"
  by (auto simp: buildCloneDatasetProperties_def intro!: wp_intro)

lemma adds_datasetHasManagedSnapshots [wp_intro]:
  "(\<And>r. P (zev D (''get'' # r))) \<Longrightarrow> (\<And>r. P (zev D (''list'' # r))) \<Longrightarrow>
   adds P (datasetHasManagedSnapshots D d b)"
  by (auto simp: datasetHasManagedSnapshots_def intro!: wp_intro)

end
