(* ===== verification/Controller_Create.thy ===== *)
theory Controller_Create
  imports Clone_Properties
begin

text \<open>
  \<open>CreateVolume\<close> of \<open>src/driver/controller-zfs/index.js\<close>, one definition per step of
  the handler in the order of the code: the option overlays, the checks of the request
  and of an existing dataset, the properties of the volume, its creation empty or from a
  content source, the setup of the new dataset, and its share.
\<close>

section \<open>Option overlays\<close>

text \<open>\<open>yaml.load\<close>; only a YAMLException becomes an INVALID_ARGUMENT.\<close>

definition load_yaml :: "'e driver \<Rightarrow> js \<Rightarrow> msg \<Rightarrow> exn + js" where
  "load_yaml D v m =
     (case dr_yaml D v of
        Inr x \<Rightarrow> Inr x
      | Inl (JsError n msg) \<Rightarrow>
          Inl (if n = ''YAMLException'' then invalid_argument m else JsError n msg)
      | Inl e \<Rightarrow> Inl e)"

definition request_params :: "jsobj \<Rightarrow> jsobj" where
  "request_params req = inner_obj (obj_get req ''parameters'')"

definition pvc_annotation :: "string list" where
  "pvc_annotation = [''metadata'', ''annotations'', ''democratic-csi.org/config'']"

definition pvc_overlay :: "'e driver \<Rightarrow> jsobj \<Rightarrow> jsobj \<Rightarrow> ('e world, js) io" where
  "pvc_overlay D req normalizedParameters =
     (let pname = obj_get (request_params req) ''csi.storage.k8s.io/pvc/name'';
          pns = obj_get (request_params req) ''csi.storage.k8s.io/pvc/namespace''
      in if loose_eq (obj_get normalizedParameters ''load-config-from-pvc'') (Str ''true'')
            \<and> truthy pname \<and> truthy pns
         then bind (perform (EvDriver ''getPersistentVolumeClaim'' (to_str pname))
                      (dr_pvc D (to_str pname) (to_str pns))) (\<lambda>pvc.
              if lo_hasPath (dr_lodash D) pvc pvc_annotation
              then lift (load_yaml D (lo_getPath (dr_lodash D) pvc pvc_annotation)
                     (''pvc '' @ quoted ''democratic-csi.org/config'' @
                      '' annotation not a valid YAML/JSON document.''))
              else ret (Obj []))
         else ret (Obj []))"

definition create_options :: "'e driver \<Rightarrow> jsobj \<Rightarrow> ('e world, jsobj) io" where
  "create_options D req =
     (let normalizedParameters = getNormalizedParameters (dr_options D) (request_params req)
            (str_or [] (obj_get (dr_options D) ''driver''))
            (str_or [] (obj_get (dr_options D) ''instance_id''));
          config = obj_get normalizedParameters ''config''
      in bind (if truthy config
               then lift (load_yaml D config (''parameter '' @ quoted ''config'' @
                      '' not a valid YAML/JSON document.''))
               else ret (Obj [])) (\<lambda>parametersOptions.
         bind (pvc_overlay D req normalizedParameters) (\<lambda>pvcOptions.
         lift (getMergedDriverOptions (dr_lodash D) (dr_options D) [parametersOptions, pvcOptions]))))"

definition zopt :: "jsobj \<Rightarrow> string \<Rightarrow> js" where
  "zopt driverOptions k = field (obj_get driverOptions ''zfs'') k"

section \<open>Checks of the request\<close>

definition missing_parent :: exn where
  "missing_parent = grpc FAILED_PRECONDITION ''invalid configuration: missing datasetParentName''"

definition check_request_capabilities :: "'e driver \<Rightarrow> js \<Rightarrow> exn + unit" where
  "check_request_capabilities D capabilities =
     (case capabilities of
        Arr (c # cs) \<Rightarrow>
          ebind (assertCapabilities D capabilities) (\<lambda>(valid, m).
            if valid then Inr () else Inl (invalid_argument (to_str m)))
      | _ \<Rightarrow> Inl (invalid_argument ''missing volume_capabilities''))"

definition request_range :: "jsobj \<Rightarrow> js" where
  "request_range req =
     (let r = obj_get req ''capacity_range'' in
      if \<not> truthy r \<or> entries r = [] then Obj [(''required_bytes'', Num (IntN 1073741824))] else r)"

definition range_inverted :: "js \<Rightarrow> bool" where
  "range_inverted r \<longleftrightarrow>
     js_greater (field r ''required_bytes'') (Num (IntN 0))
     \<and> js_greater (field r ''limit_bytes'') (Num (IntN 0))
     \<and> js_greater (field r ''required_bytes'') (field r ''limit_bytes'')"

definition above_limit :: "js \<Rightarrow> js \<Rightarrow> bool" where
  "above_limit capacity_bytes r \<longleftrightarrow>
     truthy (field r ''limit_bytes'') \<and> js_greater (field r ''limit_bytes'') (Num (IntN 0))
     \<and> js_greater capacity_bytes (field r ''limit_bytes'')"

definition below_required :: "js \<Rightarrow> js \<Rightarrow> bool" where
  "below_required sz r \<longleftrightarrow>
     truthy (field r ''required_bytes'') \<and> js_greater (field r ''required_bytes'') (Num (IntN 0))
     \<and> js_less sz (field r ''required_bytes'')"

text \<open>The capacity to provision, from the range of the request and the block size.\<close>

definition create_capacity :: "string \<Rightarrow> js \<Rightarrow> js \<Rightarrow> exn + js" where
  "create_capacity resource r zvolBlocksize =
     (if range_inverted r
      then Inl (grpc OUT_OF_RANGE ''required_bytes is greather than limit_bytes'')
      else let capacity_bytes = or_else (field r ''required_bytes'') (field r ''limit_bytes'') in
        if \<not> truthy capacity_bytes
        then Inl (invalid_argument
               ''volume capacity is required (either required_bytes or limit_bytes)'')
        else let capacity_bytes =
               (if resource = ''volume'' then Num (generateZvolSize capacity_bytes zvolBlocksize)
                else capacity_bytes)
             in if above_limit capacity_bytes r
                then Inl (grpc OUT_OF_RANGE ''required volume capacity is greater than limit'')
                else Inr capacity_bytes)"

definition not_there :: "exn \<Rightarrow> bool" where
  "not_there err = err_has err ''dataset does not exist''"

definition existing_size :: "string \<Rightarrow> js \<Rightarrow> exn + js" where
  "existing_size resource properties =
     (if resource = ''volume'' then prop_value properties ''volsize''
      else if resource = ''filesystem'' then prop_value properties ''refquota''
      else Inl (js_error (''unknown zfs resource type: '' @ resource)))"

text \<open>A dataset of this name with a size outside the requested range is an error.\<close>

definition check_existing :: "'e driver \<Rightarrow> jsobj \<Rightarrow> string \<Rightarrow> js \<Rightarrow> ('e world, unit) io" where
  "check_existing D driverOptions datasetName r =
     catch
       (bind (zget D datasetName [''volsize'', ''refquota''] []) (\<lambda>properties.
        bind (lift (existing_size (dr_resource D) (field properties datasetName))) (\<lambda>sz.
        throw_when
          ((dr_resource D = ''volume''
            \<or> dr_resource D = ''filesystem'' \<and> truthy (zopt driverOptions ''datasetEnableQuotas''))
           \<and> (below_required sz r \<or> above_limit sz r))
          (grpc ALREADY_EXISTS
            (''volume has already been created with a different size, existing size: '' @ to_str sz
             @ '', required_bytes: '' @ to_str (field r ''required_bytes'')
             @ '', limit_bytes: '' @ to_str (field r ''limit_bytes''))))))
       (\<lambda>err. if not_there err then ret () else throw err)"

definition check_zvol_name :: "'e driver \<Rightarrow> string \<Rightarrow> ('e world, unit) io" where
  "check_zvol_name D datasetName =
     do_when (dr_resource D = ''volume'')
       (bind (getMaxZvolNameLength D) (\<lambda>max.
        let extentDiskName = ''zvol/'' @ datasetName in
        throw_when (js_greater (Num (IntN (int (length extentDiskName)))) max)
          (grpc FAILED_PRECONDITION
            (''extent disk name cannot exceed '' @ to_str max @ '' characters:  '' @ extentDiskName))))"

section \<open>Properties of the volume\<close>

definition template_context :: "jsobj \<Rightarrow> js" where
  "template_context req = Obj [(''parameters'', obj_get req ''parameters'')]"

definition volume_properties :: "'e driver \<Rightarrow> jsobj \<Rightarrow> jsobj \<Rightarrow> exn + jsobj" where
  "volume_properties D driverOptions req =
     ebind (if truthy (zopt driverOptions ''datasetProperties'')
            then render_into D (template_context req) [] (entries (zopt driverOptions ''datasetProperties''))
            else Inr []) (\<lambda>p.
     let p = obj_set VOLUME_CSI_NAME_PROPERTY_NAME (obj_get req ''name'') p;
         p = obj_set MANAGED_PROPERTY_NAME (Str ''true'') p;
         p = obj_set VOLUME_CONTEXT_PROVISIONER_DRIVER_PROPERTY_NAME (obj_get driverOptions ''driver'') p;
         p = (if truthy (obj_get driverOptions ''instance_id'')
              then obj_set VOLUME_CONTEXT_PROVISIONER_INSTANCE_ID_PROPERTY_NAME
                     (obj_get driverOptions ''instance_id'') p
              else p)
     in Inr (if dr_resource D = ''volume'' \<and> \<not> truthy (zopt driverOptions ''zvolEnableReservation'')
             then obj_set ''refreservation'' (Num (IntN 0)) p else p))"

definition overlay_properties :: "'e driver \<Rightarrow> jsobj \<Rightarrow> jsobj \<Rightarrow> exn + jsobj" where
  "overlay_properties D driverOptions req =
     (if truthy (zopt driverOptions ''datasetPropertiesOverlay'')
      then render_into D (template_context req) []
             (entries (zopt driverOptions ''datasetPropertiesOverlay''))
      else Inr [])"

section \<open>Creation\<close>

text \<open>A parameter counts as detached when it parses as the JSON literal true.\<close>

definition detached_param :: "'e driver \<Rightarrow> jsobj \<Rightarrow> string \<Rightarrow> bool" where
  "detached_param D req key =
     (case json_parse (getNormalizedParameterValue (dr_options D) (request_params req) key [] []) of
        Inr (Bool b) \<Rightarrow> b
      | _ \<Rightarrow> False)"

definition rethrow_as :: "string \<Rightarrow> exn \<Rightarrow> exn \<Rightarrow> ('w, 'a) io" where
  "rethrow_as m e err = throw (if err_has err m then e else err)"

definition deferred :: jsobj where
  "deferred = [(''recurse'', Bool True), (''force'', Bool True), (''defer'', Bool True)]"

definition clone_undesired :: "jsobj \<Rightarrow> jsobj" where
  "clone_undesired p =
     obj_delete ''casesensitivity'' (obj_delete ''acltype''
       (obj_delete ''aclinherit'' (obj_delete ''aclmode'' p)))"

definition already_received :: "exn \<Rightarrow> bool" where
  "already_received err \<longleftrightarrow> err_has err ''destination'' \<and> err_has err ''exists''"

definition zclone :: "'e driver \<Rightarrow> string \<Rightarrow> string \<Rightarrow> jsobj \<Rightarrow> ('e world, unit) io" where
  "zclone D fullSnapshotName datasetName p =
     catch
       (bind (zfs_clone (dr_zb D) 3 fullSnapshotName datasetName
                [(''properties'', Obj (clone_undesired p))]) (\<lambda>_. ret ()))
       (rethrow_as ''dataset does not exist'' (grpc NOT_FOUND ''dataset does not exists''))"

text \<open>The properties a clone gets: system, then copied and fixed, then overlay properties.\<close>

definition clone_volume_properties ::
  "'e driver \<Rightarrow> jsobj \<Rightarrow> jsobj \<Rightarrow> string \<Rightarrow> jsobj \<Rightarrow> jsobj \<Rightarrow> ('e world, jsobj) io" where
  "clone_volume_properties D driverOptions req fullSnapshotName volumeProperties overlayProperties =
     bind (buildCloneDatasetProperties D fullSnapshotName
             (zopt driverOptions ''cloneDatasetProperties'') (template_context req)) (\<lambda>c.
     ret (obj_assign (obj_assign (obj_assign [] volumeProperties) c) overlayProperties))"

definition create_from_snapshot ::
  "'e driver \<Rightarrow> jsobj \<Rightarrow> jsobj \<Rightarrow> string \<Rightarrow> string \<Rightarrow> jsobj \<Rightarrow> jsobj \<Rightarrow> js \<Rightarrow> ('e world, unit) io" where
  "create_from_snapshot D driverOptions req datasetName volume_id volumeProperties overlayProperties source =
     (let detachedClone = detached_param D req ''detachedVolumesFromSnapshots'' in
      bind (lift (getVolumeParentDatasetName D)) (\<lambda>datasetParentName.
      bind (lift (getDetachedSnapshotParentDatasetName D)) (\<lambda>snapshotParentDatasetName.
      bind (lift (ebind (getp source ''snapshot'') (\<lambda>s. getp s ''snapshot_id''))) (\<lambda>sid.
      let volumeProperties = obj_set VOLUME_CONTENT_SOURCE_ID_PROPERTY_NAME sid volumeProperties in
      bind (lift (validateSnapshotId sid)) (\<lambda>snapshot_id.
      let zfsSnapshot = isZfsSnapshot snapshot_id;
          fullSnapshotName =
            (if zfsSnapshot then datasetParentName @ ''/'' @ snapshot_id
             else snapshotParentDatasetName @ ''/'' @ snapshot_id @ ''@''
                    @ VOLUME_SOURCE_CLONE_SNAPSHOT_PREFIX @ volume_id);
          no_source = grpc NOT_FOUND
            (''snapshot source_snapshot_id '' @ snapshot_id @ '' does not exist'')
      in
      andthen (do_when (\<not> zfsSnapshot)
        (catch (bind (zfs_snapshot (dr_zb D) 1 (Str fullSnapshotName) []) (\<lambda>_. ret ()))
               (rethrow_as ''dataset does not exist'' no_source)))
      (bind (clone_volume_properties D driverOptions req fullSnapshotName volumeProperties
               overlayProperties) (\<lambda>cloneVolumeProperties.
      andthen
        (if detachedClone then
           andthen
             (catch
               (andthen (zfs_send_receive (dr_zb D) 4 fullSnapshotName [] datasetName [])
                        (zset D datasetName cloneVolumeProperties))
               (\<lambda>err. if already_received err then ret () else throw err))
             (removeSnapshotsFromDatatset D datasetName [(''force'', Bool True)])
         else zclone D fullSnapshotName datasetName cloneVolumeProperties)
        (do_when (\<not> zfsSnapshot)
          (catch (zdestroy D fullSnapshotName deferred)
                 (rethrow_as ''dataset does not exist'' no_source))))))))))"

text \<open>The copy of a source volume from its snapshot: sent and received, or cloned.\<close>

definition copy_volume :: "'e driver \<Rightarrow> bool \<Rightarrow> string \<Rightarrow> string \<Rightarrow> jsobj \<Rightarrow> ('e world, unit) io" where
  "copy_volume D detachedClone fullSnapshotName datasetName cloneVolumeProperties =
     (if detachedClone then
        andthen
          (catch
            (bind (zfs_send_receive (dr_zb D) 4 fullSnapshotName [] datasetName []) (\<lambda>_. ret ()))
            (\<lambda>err. if already_received err then ret () else throw err))
       (andthen (zset D datasetName cloneVolumeProperties)
       (andthen (removeSnapshotsFromDatatset D datasetName [(''force'', Bool True)])
                (zdestroy D fullSnapshotName deferred)))
      else zclone D fullSnapshotName datasetName cloneVolumeProperties)"

definition create_from_volume ::
  "'e driver \<Rightarrow> jsobj \<Rightarrow> jsobj \<Rightarrow> string \<Rightarrow> string \<Rightarrow> jsobj \<Rightarrow> jsobj \<Rightarrow> js \<Rightarrow> ('e world, unit) io" where
  "create_from_volume D driverOptions req datasetName volume_id volumeProperties overlayProperties source =
     (let detachedClone = detached_param D req ''detachedVolumesFromVolumes'' in
      bind (lift (getVolumeParentDatasetName D)) (\<lambda>datasetParentName.
      bind (lift (ebind (getp source ''volume'') (\<lambda>s. getp s ''volume_id''))) (\<lambda>vid.
      let volumeProperties = obj_set VOLUME_CONTENT_SOURCE_ID_PROPERTY_NAME vid volumeProperties in
      bind (lift (validateVolumeId vid)) (\<lambda>source_id.
      let fullSnapshotName = datasetParentName @ ''/'' @ source_id @ ''@''
            @ VOLUME_SOURCE_CLONE_SNAPSHOT_PREFIX @ volume_id
      in
      andthen
        (catch (bind (zfs_snapshot (dr_zb D) 1 (Str fullSnapshotName) []) (\<lambda>_. ret ()))
               (rethrow_as ''dataset does not exist'' (grpc NOT_FOUND ''dataset does not exists'')))
      (bind (clone_volume_properties D driverOptions req fullSnapshotName volumeProperties
               overlayProperties) (copy_volume D detachedClone fullSnapshotName datasetName))))))"

definition create_empty ::
  "'e driver \<Rightarrow> string \<Rightarrow> js \<Rightarrow> js \<Rightarrow> jsobj \<Rightarrow> jsobj \<Rightarrow> ('e world, unit) io" where
  "create_empty D datasetName zvolBlocksize capacity_bytes volumeProperties overlayProperties =
     (let p = obj_assign volumeProperties overlayProperties;
          p = (if dr_resource D = ''volume'' then obj_set ''volblocksize'' zvolBlocksize p else p)
      in bind (zfs_create (dr_zb D) 2 datasetName
             [(''parents'', Bool True), (''properties'', Obj p),
              (''size'', if dr_resource D = ''volume'' then capacity_bytes else Bool False)])
           (\<lambda>_. ret ()))"

definition create_dataset ::
  "'e driver \<Rightarrow> jsobj \<Rightarrow> jsobj \<Rightarrow> string \<Rightarrow> string \<Rightarrow> js \<Rightarrow> js \<Rightarrow> jsobj \<Rightarrow> jsobj \<Rightarrow> ('e world, unit) io" where
  "create_dataset D driverOptions req datasetName volume_id zvolBlocksize capacity_bytes
      volumeProperties overlayProperties =
     (let source = obj_get req ''volume_content_source'' in
      if truthy source then
        (let t = field source ''type'';
             volumeProperties = obj_set VOLUME_CONTENT_SOURCE_TYPE_PROPERTY_NAME t volumeProperties
         in if t = Str ''snapshot'' then
              create_from_snapshot D driverOptions req datasetName volume_id volumeProperties
                overlayProperties source
            else if t = Str ''volume'' then
              create_from_volume D driverOptions req datasetName volume_id volumeProperties
                overlayProperties source
            else throw (invalid_argument (''invalid volume_content_source type: '' @ to_str t)))
      else create_empty D datasetName zvolBlocksize capacity_bytes volumeProperties overlayProperties)"

section \<open>Setup of the new dataset\<close>

definition quota_properties :: "jsobj \<Rightarrow> js \<Rightarrow> jsobj" where
  "quota_properties driverOptions capacity_bytes =
     (let p = (if truthy (zopt driverOptions ''datasetEnableQuotas'')
               then [(''refquota'', capacity_bytes)] else [])
      in if truthy (zopt driverOptions ''datasetEnableReservation'')
         then obj_set ''refreservation'' capacity_bytes p else p)"

fun js_iter :: "js \<Rightarrow> exn + js list" where
  "js_iter (Arr xs) = Inr xs"
| "js_iter (Str s) = Inr (map (\<lambda>c. Str [c]) s)"
| "js_iter _ = Inl (type_error ''not iterable'')"

text \<open>The mount point of the dataset; a legacy one is looked up in the mounts of the host.\<close>

definition resolve_mountpoint :: "'e driver \<Rightarrow> string \<Rightarrow> js \<Rightarrow> ('e world, js) io" where
  "resolve_mountpoint D datasetName mountpoint =
     (if loose_eq mountpoint (Str ''legacy'') then
        bind (perform (EvDriver ''getDeviceMounts'' datasetName) (dr_mounts D datasetName)) (\<lambda>mounts.
        bind (lift (ebind (getp mounts ''filesystems'') js_iter)) (\<lambda>fs.
        ret (case fs of f # _ \<Rightarrow> (if truthy f then field f ''target'' else mountpoint)
             | [] \<Rightarrow> mountpoint)))
      else ret mountpoint)"

definition set_acls :: "'e driver \<Rightarrow> jsobj \<Rightarrow> js \<Rightarrow> ('e world, unit) io" where
  "set_acls D driverOptions mountpoint =
     do_when (truthy (zopt driverOptions ''datasetPermissionsAcls''))
       (let aclBinary = opts_get D driverOptions ''zfs.datasetPermissionsAclsBinary'' (Str ''setfacl'') in
        bind (lift (js_iter (zopt driverOptions ''datasetPermissionsAcls''))) (\<lambda>acls.
        for_each acls (\<lambda>acl.
          run_as_root D (buildCommand (to_str aclBinary) [to_str acl, to_str mountpoint])
            ''error setting acl on dataset: '')))"

definition fs_setup_properties :: "string list" where
  "fs_setup_properties = [''mountpoint'', ''refquota'', ''compression'', VOLUME_CSI_NAME_PROPERTY_NAME,
     VOLUME_CONTENT_SOURCE_TYPE_PROPERTY_NAME, VOLUME_CONTENT_SOURCE_ID_PROPERTY_NAME]"

definition setup_filesystem :: "'e driver \<Rightarrow> jsobj \<Rightarrow> string \<Rightarrow> js \<Rightarrow> ('e world, unit) io" where
  "setup_filesystem D driverOptions datasetName capacity_bytes =
     andthen (zset D datasetName (quota_properties driverOptions capacity_bytes))
     (bind (zget D datasetName fs_setup_properties []) (\<lambda>properties.
      bind (lift (prop_value (field properties datasetName) ''mountpoint'')) (\<lambda>m.
      bind (resolve_mountpoint D datasetName m) (\<lambda>mountpoint.
      andthen (do_when (truthy (zopt driverOptions ''datasetPermissionsMode''))
        (setFilesystemMode D mountpoint (zopt driverOptions ''datasetPermissionsMode'')))
     (andthen (do_when
         (to_str (opts_get D driverOptions ''zfs.datasetPermissionsUser'' (Str [])) \<noteq> []
          \<or> to_str (opts_get D driverOptions ''zfs.datasetPermissionsGroup'' (Str [])) \<noteq> [])
        (setFilesystemOwnership D mountpoint (zopt driverOptions ''datasetPermissionsUser'')
           (zopt driverOptions ''datasetPermissionsGroup'')))
      (set_acls D driverOptions mountpoint))))))"

text \<open>\<open>zvolCompression > 0\<close> compares a string with a number: no name of an algorithm passes.\<close>

definition zvol_properties :: "jsobj \<Rightarrow> js \<Rightarrow> jsobj" where
  "zvol_properties driverOptions capacity_bytes =
     (let dedup = zopt driverOptions ''zvolDedup''; compression = zopt driverOptions ''zvolCompression''
      in [(''volsize'', capacity_bytes)]
         @ (if is_string dedup \<and> to_str dedup \<noteq> [] then [(''dedup'', dedup)] else [])
         @ (if is_string compression \<and> js_greater compression (Num (IntN 0))
            then [(''compression'', compression)] else []))"

definition setup_dataset :: "'e driver \<Rightarrow> jsobj \<Rightarrow> string \<Rightarrow> js \<Rightarrow> ('e world, unit) io" where
  "setup_dataset D driverOptions datasetName capacity_bytes =
     (if dr_resource D = ''filesystem'' then setup_filesystem D driverOptions datasetName capacity_bytes
      else if dr_resource D = ''volume''
      then zset D datasetName (zvol_properties driverOptions capacity_bytes)
      else ret ())"

section \<open>Share and response\<close>

definition volume_response ::
  "'e driver \<Rightarrow> jsobj \<Rightarrow> jsobj \<Rightarrow> string \<Rightarrow> js \<Rightarrow> jsobj \<Rightarrow> js \<Rightarrow> js" where
  "volume_response D driverOptions req volume_id capacity_bytes volume_context topology =
     (let ctx = obj_set ''provisioner_driver'' (obj_get driverOptions ''driver'') volume_context;
          ctx = (if truthy (obj_get driverOptions ''instance_id'')
                 then obj_set ''provisioner_driver_instance_id'' (obj_get driverOptions ''instance_id'') ctx
                 else ctx)
      in Obj [(''volume'', Obj
           [(''volume_id'', Str volume_id),
            (''capacity_bytes'',
               if truthy (zopt driverOptions ''datasetEnableQuotas'') \<or> dr_resource D = ''volume''
               then capacity_bytes else Num (IntN 0)),
            (''content_source'', obj_get req ''volume_content_source''),
            (''volume_context'', Obj ctx), (''accessible_topology'', topology)])])"

definition share_volume ::
  "'e driver \<Rightarrow> jsobj \<Rightarrow> jsobj \<Rightarrow> string \<Rightarrow> string \<Rightarrow> js \<Rightarrow> ('e world, js) io" where
  "share_volume D driverOptions req datasetName volume_id capacity_bytes =
     bind (createShare D req datasetName) (\<lambda>volume_context.
     andthen (zset D datasetName
               [(SHARE_VOLUME_CONTEXT_PROPERTY_NAME, Str (json_print (Obj volume_context)))])
     (andthen (zset D datasetName [(SUCCESS_PROPERTY_NAME, Str ''true'')])
     (bind (getAccessibleTopology D) (\<lambda>topology.
      ret (volume_response D driverOptions req volume_id capacity_bytes volume_context topology)))))"

section \<open>CreateVolume\<close>

text \<open>Everything before the dataset is created: the names, the capacity and the properties.\<close>

record create_plan =
  pl_dataset :: string
  pl_volume_id :: string
  pl_req :: jsobj
  pl_blocksize :: js
  pl_capacity :: js
  pl_properties :: jsobj
  pl_overlay :: jsobj

definition create_checks :: "'e driver \<Rightarrow> jsobj \<Rightarrow> jsobj \<Rightarrow> ('e world, create_plan) io" where
  "create_checks D driverOptions req =
     bind (lift (getVolumeParentDatasetName D)) (\<lambda>datasetParentName.
     andthen (lift (getDetachedSnapshotParentDatasetName D))
     (let zvolBlocksize = or_else (zopt driverOptions ''zvolBlocksize'') (Str ''16K'') in
      bind (lift (getVolumeIdFromCall D req)) (\<lambda>volume_id.
      andthen (throw_when (datasetParentName = []) missing_parent)
     (andthen (lift (check_request_capabilities D (obj_get req ''volume_capabilities'')))
     (let r = request_range req; req = obj_set ''capacity_range'' r req;
          datasetName = datasetParentName @ ''/'' @ volume_id in
      bind (lift (create_capacity (dr_resource D) r zvolBlocksize)) (\<lambda>capacity_bytes.
      andthen (check_existing D driverOptions datasetName r)
     (andthen (check_zvol_name D datasetName)
     (bind (lift (volume_properties D driverOptions req)) (\<lambda>volumeProperties.
      bind (lift (overlay_properties D driverOptions req)) (\<lambda>overlayProperties.
      ret \<lparr>pl_dataset = datasetName, pl_volume_id = volume_id, pl_req = req,
           pl_blocksize = zvolBlocksize, pl_capacity = capacity_bytes,
           pl_properties = volumeProperties, pl_overlay = overlayProperties\<rparr>))))))))))"

definition create_execute :: "'e driver \<Rightarrow> jsobj \<Rightarrow> create_plan \<Rightarrow> ('e world, js) io" where
  "create_execute D driverOptions pl =
     andthen (create_dataset D driverOptions (pl_req pl) (pl_dataset pl) (pl_volume_id pl)
                (pl_blocksize pl) (pl_capacity pl) (pl_properties pl) (pl_overlay pl))
     (andthen (setup_dataset D driverOptions (pl_dataset pl) (pl_capacity pl))
      (share_volume D driverOptions (pl_req pl) (pl_dataset pl) (pl_volume_id pl) (pl_capacity pl)))"

definition CreateVolume :: "'e driver \<Rightarrow> jsobj \<Rightarrow> ('e world, js) io" where
  "CreateVolume D req =
     bind (create_options D req) (\<lambda>driverOptions.
     bind (create_checks D driverOptions req) (\<lambda>pl.
     create_execute D driverOptions pl))"

section \<open>What the steps add to the history\<close>

lemma adds_pvc_overlay [wp_intro]: "(\<And>m a. P (EvDriver m a)) \<Longrightarrow> adds P (pvc_overlay D req n)"
  by (auto simp: pvc_overlay_def Let_def intro!: wp_intro)

lemma adds_create_options [wp_intro]: "(\<And>m a. P (EvDriver m a)) \<Longrightarrow> adds P (create_options D req)"
  by (auto simp: create_options_def Let_def intro!: wp_intro)

lemma adds_check_existing [wp_intro]: "(\<And>r. P (zev D (''get'' # r))) \<Longrightarrow> adds P (check_existing D o' d r)"
  by (auto simp: check_existing_def intro!: wp_intro)

lemma adds_check_zvol_name [wp_intro]:
  "(\<And>c. P (EvShell c)) \<Longrightarrow> (\<And>k. P (EvCache k)) \<Longrightarrow> adds P (check_zvol_name D d)"
  by (auto simp: check_zvol_name_def Let_def intro!: wp_intro)

lemma adds_create_checks [wp_intro]:
  "(\<And>r. P (zev D (''get'' # r))) \<Longrightarrow> (\<And>c. P (EvShell c)) \<Longrightarrow> (\<And>k. P (EvCache k)) \<Longrightarrow>
   adds P (create_checks D o' req)"
  by (auto simp: create_checks_def Let_def intro!: wp_intro)

text \<open>The event of the pipeline of \<open>send_receive\<close>.\<close>

definition send_event :: "'e driver \<Rightarrow> string \<Rightarrow> event" where
  "send_event D command =
     (case exec_command (dr_zb D) ''/bin/sh'' [''-c'', command]
             (timeout_opts (dr_zb D) @ [(''sudo'', Bool False)]) of (c, a) \<Rightarrow> EvSpawn c a)"

lemma adds_zfs_send_receive [wp_intro]:
  "(\<And>c. P (send_event D c)) \<Longrightarrow> adds P (zfs_send_receive (dr_zb D) n s so t ro)"
  by (auto simp: zfs_send_receive_def send_event_def case_prod_beta intro!: wp_intro)

lemma send_event_neq: "3 \<le> length args \<Longrightarrow> send_event D c \<noteq> zev D args"
  by (auto simp: send_event_def zev_def zfs_event_def zfs_command_def exec_command_def Let_def
      obj_has_def obj_get_def timeout_opts_def dest: arg_cong [where f = length])

lemma adds_zfs_create [wp_intro]:
  "(\<And>r. P (zfs_event Z (''create'' # r))) \<Longrightarrow> adds P (zfs_create Z n d opts)"
  by (auto simp: zfs_create_def intro!: wp_intro)

lemma adds_zfs_snapshot [wp_intro]:
  "(\<And>r. P (zfs_event Z (''snapshot'' # r))) \<Longrightarrow> adds P (zfs_snapshot Z n d opts)"
  by (auto simp: zfs_snapshot_def intro!: wp_intro)

lemma adds_zclone [wp_intro]: "(\<And>r. P (zev D (''clone'' # r))) \<Longrightarrow> adds P (zclone D s d p)"
  by (auto simp: zclone_def rethrow_as_def zfs_clone_def zev_def intro!: wp_intro)

lemma adds_rethrow_as [wp_intro]: "adds P (rethrow_as m e err)"
  by (auto simp: rethrow_as_def intro!: wp_intro)

lemma adds_removeSnapshots [wp_intro]:
  "P (zev D (destroy_args (d @ ''@%'') opts)) \<Longrightarrow> adds P (removeSnapshotsFromDatatset D d opts)"
  by (auto simp: removeSnapshotsFromDatatset_def zfs_destroy_def zev_def intro!: wp_intro)

lemma adds_resolve_mountpoint [wp_intro]:
  "(\<And>m a. P (EvDriver m a)) \<Longrightarrow> adds P (resolve_mountpoint D d m)"
  by (auto simp: resolve_mountpoint_def intro!: wp_intro)

lemma adds_set_acls [wp_intro]: "(\<And>c. P (EvShell c)) \<Longrightarrow> adds P (set_acls D o' m)"
  by (auto simp: set_acls_def Let_def intro!: wp_intro)

lemma adds_setup_dataset [wp_intro]:
  assumes "\<And>r. P (zev D (''get'' # r))" "\<And>c. P (EvShell c)" "\<And>m a. P (EvDriver m a)"
    and "\<And>p. p = quota_properties o' c \<or> p = zvol_properties o' c \<Longrightarrow> P (zev D (set_args d p))"
  shows "adds P (setup_dataset D o' d c)"
  using assms
  by (auto simp: setup_dataset_def setup_filesystem_def setFilesystemMode_def setFilesystemOwnership_def
      intro!: wp_intro)

section \<open>The mark of a finished volume\<close>

definition success_ev :: "'e driver \<Rightarrow> string \<Rightarrow> event" where
  "success_ev D d = zev D (set_args d [(SUCCESS_PROPERTY_NAME, Str ''true'')])"

definition no_success :: "'e driver \<Rightarrow> event \<Rightarrow> bool" where
  "no_success D ev \<longleftrightarrow> (\<forall>d. ev \<noteq> success_ev D d)"

lemma no_success_simps [simp]:
  "no_success D (EvShell s)" "no_success D (EvDriver m a)" "no_success D (EvCache s)" "no_success D (EvSleep i)"
  "c \<noteq> ''set'' \<Longrightarrow> no_success D (zev D (c # r))" "no_success D (send_event D s)"
  "no_success D (zev D (destroy_args d opts))"
  by (auto simp: no_success_def success_ev_def set_args_def send_event_neq destroy_args_def Let_def)

lemma no_success_zfs_event [simp]: "c \<noteq> ''set'' \<Longrightarrow> no_success D (zfs_event (dr_zb D) (c # r))"
  using no_success_simps(5) [of c D r] by (simp add: zev_def)

lemma no_success_set: "length p \<noteq> 1 \<Longrightarrow> no_success D (zev D (set_args d p))"
  by (auto simp: no_success_def success_ev_def set_args_def dest: arg_cong [where f = length])

lemma no_success_setup:
  "p = quota_properties o' c \<or> p = zvol_properties o' c \<Longrightarrow> no_success D (zev D (set_args d p))"
  by (auto simp: no_success_def success_ev_def set_args_def quota_properties_def zvol_properties_def
      Let_def property_names obj_set_def split: if_splits)

text \<open>The system properties every new volume carries.\<close>

definition has_names :: "jsobj \<Rightarrow> bool" where
  "has_names p \<longleftrightarrow> {VOLUME_CSI_NAME_PROPERTY_NAME, MANAGED_PROPERTY_NAME} \<subseteq> fst ` set p"

lemma has_names_set [simp, intro]: "has_names p \<Longrightarrow> has_names (obj_set k v p)"
  by (auto simp: has_names_def keys_obj_set)

lemma has_names_assign: "has_names a \<or> has_names b \<Longrightarrow> has_names (obj_assign a b)"
  by (auto simp: has_names_def keys_obj_assign)

lemma has_names_length: "has_names p \<Longrightarrow> length p \<noteq> 1"
proof
  assume "has_names p" and "length p = 1"
  then obtain kv where "p = [kv]" by (cases p) auto
  with \<open>has_names p\<close> have "VOLUME_CSI_NAME_PROPERTY_NAME = MANAGED_PROPERTY_NAME"
    by (auto simp: has_names_def)
  then show False by (simp add: property_names)
qed

lemma volume_properties_names: "volume_properties D o' req = Inr p \<Longrightarrow> has_names p"
  by (auto simp: volume_properties_def ebind_eq_Inr Let_def has_names_def keys_obj_set)

lemma create_checks_names: "create_checks D o' req w = (Inr pl, w') \<Longrightarrow> has_names (pl_properties pl)"
  by (auto simp: create_checks_def Let_def run_Inr dest: volume_properties_names)

lemma bind_clone_volume:
  "bind (clone_volume_properties D o' req s p ov) f =
   bind (buildCloneDatasetProperties D s (zopt o' ''cloneDatasetProperties'') (template_context req))
     (\<lambda>c. f (obj_assign (obj_assign (obj_assign [] p) c) ov))"
  by (simp add: clone_volume_properties_def bind_assoc)

lemma adds_create_from_snapshot:
  assumes "has_names p"
  shows "adds (no_success D) (create_from_snapshot D o' req d vid p ov s)"
  unfolding create_from_snapshot_def Let_def bind_clone_volume
  using assms
  by (auto intro!: wp_intro no_success_set has_names_length has_names_assign)

lemma adds_create_from_volume:
  assumes "has_names p"
  shows "adds (no_success D) (create_from_volume D o' req d vid p ov s)"
  unfolding create_from_volume_def copy_volume_def Let_def bind_clone_volume
  using assms
  by (auto intro!: wp_intro no_success_set has_names_length has_names_assign)

lemma adds_create_dataset:
  assumes "has_names p"
  shows "adds (no_success D) (create_dataset D o' req d vid bs c p ov)"
  unfolding create_dataset_def Let_def create_empty_def
  using assms by (auto intro!: wp_intro adds_create_from_snapshot adds_create_from_volume)

lemma wp_zset_hist:
  assumes "p \<noteq> []" and "\<And>x w'. hist w' = hist w @ [zev D (set_args d p)] \<Longrightarrow> Q x w'"
    and "\<And>e w'. hist w' = hist w @ [zev D (set_args d p)] \<Longrightarrow> E e w'"
  shows "wp (zset D d p) Q E w"
  using assms
  by (auto simp: zset_def zfs_set_def wp_def bind_def ret_def zfs_run_outcome zev_def zfs_event_def Let_def
      split: prod.splits sum.splits)

definition share_ev :: "'e driver \<Rightarrow> string \<Rightarrow> jsobj \<Rightarrow> event" where
  "share_ev D d ctx =
     zev D (set_args d [(SHARE_VOLUME_CONTEXT_PROPERTY_NAME, Str (json_print (Obj ctx)))])"

lemma no_success_share [simp]: "no_success D (share_ev D d ctx)"
  by (auto simp: share_ev_def no_success_def success_ev_def set_args_def property_names)

text \<open>The last phase: the share, its context, the mark, in this order; only then a response.\<close>

definition marked :: "'e driver \<Rightarrow> string \<Rightarrow> event list \<Rightarrow> bool" where
  "marked D d es \<longleftrightarrow> (\<exists>es0 ctx es1. list_all (no_success D) es0 \<and> list_all (no_success D) es1 \<and>
     es = es0 @ [EvDriver ''createShare'' d, share_ev D d ctx, success_ev D d] @ es1)"

lemma markedI:
  "list_all (no_success D) es0 \<Longrightarrow> list_all (no_success D) es1 \<Longrightarrow>
   marked D d (es0 @ [EvDriver ''createShare'' d, share_ev D d ctx, success_ev D d] @ es1)"
  unfolding marked_def by blast

lemma wp_share_volume:
  assumes w: "hist w = h @ es0" and es0: "list_all (no_success D) es0"
  shows "wp (share_volume D o' req d vid c)
    (\<lambda>_ w'. \<exists>es. hist w' = h @ es \<and> marked D d es)
    (\<lambda>_ w'. \<exists>es. hist w' = h @ es \<and> (marked D d es \<or> list_all (no_success D) es)) w"
  unfolding share_volume_def createShare_def wp_bind wp_andthen
proof (intro wp_perform_hist wp_zset_hist wp_adds [OF adds_getAccessibleTopology [of "no_success D"]])
  fix ctx wa assume wa: "hist wa = hist w @ [EvDriver ''createShare'' d]"
  fix wb assume wb: "hist wb = hist wa @ [zev D (set_args d
      [(SHARE_VOLUME_CONTEXT_PROPERTY_NAME, Str (json_print (Obj ctx)))])]"
  show "\<exists>es. hist wb = h @ es \<and> (marked D d es \<or> list_all (no_success D) es)"
    unfolding wb wa w share_ev_def [symmetric]
    by (rule exI [of _ "es0 @ [EvDriver ''createShare'' d, share_ev D d ctx]"])
      (simp add: es0 list_all_append)
  fix wc assume wc: "hist wc = hist wb @ [zev D (set_args d [(SUCCESS_PROPERTY_NAME, Str ''true'')])]"
  have c: "hist wc = h @ es0 @ [EvDriver ''createShare'' d, share_ev D d ctx, success_ev D d]"
    unfolding wc wb wa w share_ev_def success_ev_def by simp
  show "\<exists>es. hist wc = h @ es \<and> (marked D d es \<or> list_all (no_success D) es)"
    using c markedI [of D es0 "[]" d ctx] es0 by auto
  fix wd es assume wd: "hist wd = hist wc @ es" "list_all (no_success D) es"
  have "\<exists>es. hist wd = h @ es \<and> marked D d es"
    using wd markedI [of D es0 es d ctx] es0 by (simp add: c)
  then show "\<exists>es. hist wd = h @ es \<and> (marked D d es \<or> list_all (no_success D) es)" by blast
  fix x
  show "wp (ret (volume_response D o' req vid c ctx x)) (\<lambda>_ w'. \<exists>es. hist w' = h @ es \<and> marked D d es)
        (\<lambda>_ w'. \<exists>es. hist w' = h @ es \<and> (marked D d es \<or> list_all (no_success D) es)) wd"
    using \<open>\<exists>es. hist wd = h @ es \<and> marked D d es\<close> by simp
next
  fix wa assume "hist wa = hist w @ [EvDriver ''createShare'' d]"
  then show "\<exists>es. hist wa = h @ es \<and> (marked D d es \<or> list_all (no_success D) es)"
    using es0 by (simp add: w)
qed simp_all

section \<open>Properties\<close>

lemma wp_create_execute:
  fixes D :: "'e driver"
  assumes w: "hist w = h @ es0" and es0: "list_all (no_success D) es0" and n: "has_names (pl_properties pl)"
  shows "wp (create_execute D o' pl)
    (\<lambda>_ w'. \<exists>es. hist w' = h @ es \<and> marked D (pl_dataset pl) es)
    (\<lambda>_ w'. \<exists>es. hist w' = h @ es \<and> (marked D (pl_dataset pl) es \<or> list_all (no_success D) es)) w"
  unfolding create_execute_def wp_andthen
proof (rule wp_adds [OF adds_create_dataset [OF n]])
  fix wa :: "'e world" and es assume wa: "hist wa = hist w @ es" "list_all (no_success D) es"
  then have "\<exists>es. hist wa = h @ es \<and> list_all (no_success D) es"
    using w es0 by (intro exI [of _ "es0 @ es"]) simp
  then show "\<exists>es. hist wa = h @ es \<and> (marked D (pl_dataset pl) es \<or> list_all (no_success D) es)" by blast
  have "adds (no_success D) (setup_dataset D o' (pl_dataset pl) (pl_capacity pl))"
    by (intro adds_setup_dataset no_success_setup) auto
  then show "wp (setup_dataset D o' (pl_dataset pl) (pl_capacity pl))
    (\<lambda>_. wp (share_volume D o' (pl_req pl) (pl_dataset pl) (pl_volume_id pl) (pl_capacity pl))
      (\<lambda>_ w'. \<exists>es. hist w' = h @ es \<and> marked D (pl_dataset pl) es)
      (\<lambda>_ w'. \<exists>es. hist w' = h @ es \<and> (marked D (pl_dataset pl) es \<or> list_all (no_success D) es)))
    (\<lambda>_ w'. \<exists>es. hist w' = h @ es \<and> (marked D (pl_dataset pl) es \<or> list_all (no_success D) es)) wa"
  proof (rule wp_adds)
    fix wb :: "'e world" and es' assume "hist wb = hist wa @ es'" "list_all (no_success D) es'"
    with wa have b: "hist wb = h @ (es0 @ es @ es')" "list_all (no_success D) (es0 @ es @ es')"
      using w es0 by simp_all
    then show "\<exists>es. hist wb = h @ es \<and> (marked D (pl_dataset pl) es \<or> list_all (no_success D) es)" by blast
    from b show "wp (share_volume D o' (pl_req pl) (pl_dataset pl) (pl_volume_id pl) (pl_capacity pl))
      (\<lambda>_ w'. \<exists>es. hist w' = h @ es \<and> marked D (pl_dataset pl) es)
      (\<lambda>_ w'. \<exists>es. hist w' = h @ es \<and> (marked D (pl_dataset pl) es \<or> list_all (no_success D) es)) wb"
      by (rule wp_share_volume)
  qed
qed


definition fresh_volume :: "string list \<Rightarrow> nat \<Rightarrow> spawn_out" where
  "fresh_volume args n =
     (if at args 0 \<noteq> Str ''get'' then Closed (Some 0) [] [] False
      else if n = 0 then Closed (Some 1) [] ''dataset does not exist'' False
      else Closed (Some 0) (get_line ''tank/v/pvc-1'' ''mountpoint'' ''/mnt'' ''local'') [] False)"

definition sample_create :: "js \<Rightarrow> jsobj" where
  "sample_create bounds =
     [(''name'', Str ''pvc-1''), (''capacity_range'', bounds),
      (''volume_capabilities'', Arr [Obj [(''access_type'', Str ''mount''), (''mount'', Obj []),
         (''access_mode'', Obj [(''mode'', Str ''SINGLE_NODE_WRITER'')])]])]"

definition sample_creation :: "(exn + js) \<times> nat world" where
  "sample_creation = CreateVolume (sample_driver ''filesystem'' fresh_volume)
     (sample_create (Obj [(''required_bytes'', Str ''8'')])) world0"



text \<open>The range of this request is taken for inverted: its bounds are compared as texts.\<close>

definition text_range :: js where
  "text_range = Obj [(''required_bytes'', Str ''9''), (''limit_bytes'', Str ''10'')]"


end
