(* ===== verification/Histories.thy ===== *)
theory Histories
  imports Controller_Create
begin

text \<open>
  The events that the zfs calls of the controller add to the history, call by call, for the
  properties that tell the whole history of a successful run.
\<close>

lemma emits_zfs_run [wp_intro]: "emits (zfs_run Z args tolerated) [zfs_event Z args]"
  by (simp add: emits_def zfs_run_outcome Let_def zfs_event_def case_prod_beta)

lemma emits_rethrow [wp_intro]: "emits (rethrow_as m e err) []"
  by (simp add: rethrow_as_def emits_throw)

lemma emits_zdestroy [wp_intro]: "emits (zdestroy D d opts) [zev D (destroy_args d opts)]"
  by (simp add: zdestroy_def zfs_destroy_def zev_def) (intro wp_intro)

lemma emits_removeSnapshots [wp_intro]:
  "emits (removeSnapshotsFromDatatset D d opts) [zev D (destroy_args (d @ ''@%'') opts)]"
  by (simp add: removeSnapshotsFromDatatset_def zfs_destroy_def zev_def) (intro wp_intro)

lemma emits_zset [wp_intro]: "p \<noteq> [] \<Longrightarrow> emits (zset D d p) [zev D (set_args d p)]"
  by (simp add: zset_def zfs_set_def zev_def bind_assoc) (intro wp_intro)

lemma emits_snapshot [wp_intro]:
  "emits (bind (zfs_snapshot (dr_zb D) 1 (Str s) []) (\<lambda>_. ret ())) [zev D [''snapshot'', s]]"
proof -
  have "[''snapshot''] @ flag (obj_get [] ''recurse'') ''-r'' @ property_args ''-o'' (obj_get [] ''properties'')
      @ each_item (Str s) = [''snapshot'', s]" by (simp add: flag_def property_args_def obj_get_def)
  then show ?thesis by (simp add: zfs_snapshot_def zev_def emits_bind_ret emits_zfs_run)
qed

lemma emits_send_receive [wp_intro]:
  "emits (bind (zfs_send_receive (dr_zb D) 4 s so t ro) (\<lambda>_. ret ()))
     [send_event D (send_receive_command (dr_zb D) s so t ro)]"
  by (auto simp: emits_def zfs_send_receive_def zb_exec_def send_event_def bind_def perform_def
      ret_def throw_def Let_def case_prod_beta split: spawn_out.splits option.splits sum.splits)

lemma emits_zclone [wp_intro]:
  "emits (zclone D s d p)
     [zev D ([''clone''] @ property_args ''-o'' (Obj (clone_undesired p)) @ [s, d])]"
proof -
  have o': "obj_get [(''properties'', x)] ''parents'' = Undef" "obj_get [(''properties'', x)] ''properties'' = x"
    for x by (simp_all add: obj_get_def)
  show ?thesis
    by (simp add: zclone_def zfs_clone_def zev_def o' flag_def) (intro wp_intro)
qed

lemma copy_volume_hist:
  assumes run: "copy_volume D detachedClone s d p w = (Inr (), w')" and p: "p \<noteq> []"
  shows "hist w' = hist w @ (if detachedClone
        then [send_event D (send_receive_command (dr_zb D) s [] d []), zev D (set_args d p),
              zev D (destroy_args (d @ ''@%'') [(''force'', Bool True)]), zev D (destroy_args s deferred)]
        else [zev D ([''clone''] @ property_args ''-o'' (Obj (clone_undesired p)) @ [s, d])])"
proof (cases detachedClone)
  case True
  let ?send = "catch (bind (zfs_send_receive (dr_zb D) 4 s [] d []) (\<lambda>_. ret ()))
      (\<lambda>err. if already_received err then ret () else throw err)"
  from run True obtain u1 u2 u3 where r: "?send w = (Inr (), u1)"
    "zset D d p u1 = (Inr (), u2)"
    "removeSnapshotsFromDatatset D d [(''force'', Bool True)] u2 = (Inr (), u3)"
    "zdestroy D s deferred u3 = (Inr (), w')"
    by (auto simp: copy_volume_def andthen_Inr)
  have "emits ?send [send_event D (send_receive_command (dr_zb D) s [] d [])]"
    by (intro wp_intro)
  from emitsD [OF this r(1)] emitsD [OF emits_zset [OF p] r(2)] emitsD [OF emits_removeSnapshots r(3)]
    emitsD [OF emits_zdestroy r(4)] True
  show ?thesis by simp
next
  case False
  with run emitsD [OF emits_zclone] show ?thesis by (simp add: copy_volume_def)
qed

end
