(* ===== verification/Controller_Volumes.thy ===== *)
theory Controller_Volumes
  imports Histories
begin

text \<open>
  The volume calls of \<open>src/driver/controller-zfs/index.js\<close> after creation:
  \<open>DeleteVolume\<close>, \<open>ControllerExpandVolume\<close>, \<open>GetCapacity\<close>,
  \<open>ControllerGetVolume\<close>, \<open>ListVolumes\<close> with its pages in the cache, and
  \<open>ValidateVolumeCapabilities\<close>.
\<close>

section \<open>What the calls share\<close>

definition own_options :: "'e driver \<Rightarrow> exn + jsobj" where
  "own_options D = getMergedDriverOptions (dr_lodash D) (dr_options D) []"

text \<open>The dataset of the volume the request names.\<close>

definition volume_dataset :: "'e driver \<Rightarrow> jsobj \<Rightarrow> exn + string" where
  "volume_dataset D req =
     ebind (getVolumeParentDatasetName D) (\<lambda>datasetParentName.
       if datasetParentName = [] then Inl missing_parent
       else if \<not> truthy (obj_get req ''volume_id'') then Inl (invalid_argument ''volume_id is required'')
       else ebind (validateVolumeId (obj_get req ''volume_id'')) (\<lambda>name.
         Inr (datasetParentName @ ''/'' @ name)))"

section \<open>DeleteVolume\<close>

definition delete_properties :: "string list" where
  "delete_properties = [''mountpoint'', ''origin'', ''refquota'', ''compression'', VOLUME_CSI_NAME_PROPERTY_NAME]"

text \<open>The properties of the dataset, undefined when it is gone.\<close>

definition dataset_properties :: "'e driver \<Rightarrow> string \<Rightarrow> ('e world, js) io" where
  "dataset_properties D datasetName =
     catch (bind (zget D datasetName delete_properties []) (\<lambda>p. ret (field p datasetName)))
       (\<lambda>err. if not_there err then ret Undef else throw err)"

text \<open>The source snapshot to remove with the clone, when the driver made it for the clone.\<close>

definition origin_snapshot :: "js \<Rightarrow> exn + string option" where
  "origin_snapshot properties =
     (if \<not> truthy properties \<or> \<not> truthy (field properties ''origin'') then Inr None
      else let origin = field (field properties ''origin'') ''value'' in
        if loose_eq origin (Str ''-'') then Inr None
        else ebind (as_string origin) (\<lambda>s.
          Inr (if starts_with (extractSnapshotName s) VOLUME_SOURCE_CLONE_SNAPSHOT_PREFIX
               then Some s else None)))"

definition remove_origin :: "'e driver \<Rightarrow> js \<Rightarrow> ('e world, unit) io" where
  "remove_origin D properties =
     bind (lift (origin_snapshot properties)) (\<lambda>origin.
       case origin of
         None \<Rightarrow> ret ()
       | Some s \<Rightarrow> catch (zdestroy D s deferred)
           (rethrow_as ''snapshot has dependent clones''
              (grpc FAILED_PRECONDITION ''snapshot has dependent clones'')))"

definition check_managed_snapshots :: "'e driver \<Rightarrow> jsobj \<Rightarrow> string \<Rightarrow> ('e world, unit) io" where
  "check_managed_snapshots D driverOptions datasetName =
     bind (catch (datasetHasManagedSnapshots D datasetName
                    (opts_get D driverOptions ''zfs.deleteVolumeIgnoreForeignSnapshots'' (Bool False) = Bool True))
             (\<lambda>err. if not_there err then ret False
                    else throw (grpc UNKNOWN (''failed to test for snapshots: '' @ exn_str err))))
       (\<lambda>b. throw_when b (grpc FAILED_PRECONDITION ''filesystem has dependent snapshots''))"

definition busy :: "exn \<Rightarrow> bool" where
  "busy err \<longleftrightarrow> err_has err ''dataset is busy'' \<or> err_has err ''target is busy''"

definition driver_sleep :: "'e driver \<Rightarrow> int \<Rightarrow> ('e world, unit) io" where
  "driver_sleep D ms = perform (EvSleep ms) (\<lambda>e. (Inr (), dr_sleep D ms e))"

text \<open>
  The destroy is tried at most 12 times, 5 seconds apart, while the dataset is busy. The
  retry options have no least execution time, so the clock the loop reads is not used.
\<close>

definition destroy_with_retry :: "'e driver \<Rightarrow> string \<Rightarrow> ('e world, unit) io" where
  "destroy_with_retry D datasetName =
     retry (driver_sleep D) (ret 0) 12 5000
       (zdestroy D datasetName [(''recurse'', Bool True), (''force'', Bool True)])
       (no_retry_options\<lparr>ro_retryCondition := Some busy\<rparr>)"

definition delete_dataset :: "'e driver \<Rightarrow> string \<Rightarrow> ('e world, unit) io" where
  "delete_dataset D datasetName =
     catch (destroy_with_retry D datasetName)
       (rethrow_as ''filesystem has dependent clones''
          (grpc FAILED_PRECONDITION ''filesystem has dependent clones''))"

definition delete_strategy :: "'e driver \<Rightarrow> jsobj \<Rightarrow> js" where
  "delete_strategy D driverOptions =
     opts_get D driverOptions ''_private.csi.volume.deleteStrategy'' (Str [])"

definition DeleteVolume :: "'e driver \<Rightarrow> jsobj \<Rightarrow> ('e world, unit) io" where
  "DeleteVolume D req =
     bind (lift (own_options D)) (\<lambda>driverOptions.
     bind (lift (volume_dataset D req)) (\<lambda>datasetName.
     bind (dataset_properties D datasetName) (\<lambda>properties.
       if loose_eq (delete_strategy D driverOptions) (Str ''retain'') then ret ()
       else andthen (deleteShare D req datasetName)
           (andthen (remove_origin D properties)
           (andthen (check_managed_snapshots D driverOptions datasetName)
                    (delete_dataset D datasetName))))))"

section \<open>ControllerExpandVolume\<close>

definition expand_capacity :: "'e driver \<Rightarrow> string \<Rightarrow> js \<Rightarrow> ('e world, js) io" where
  "expand_capacity D datasetName r =
     (let capacity_bytes = or_else (field r ''required_bytes'') (field r ''limit_bytes'') in
      if \<not> truthy capacity_bytes
      then throw (invalid_argument
             ''volume capacity is required (either required_bytes or limit_bytes)'')
      else bind
        (if dr_resource D = ''volume'' then
           bind (zget D datasetName [''volblocksize''] []) (\<lambda>properties.
           bind (lift (prop_value (field properties datasetName) ''volblocksize'')) (\<lambda>bs.
           ret (Num (generateZvolSize capacity_bytes bs))))
         else ret capacity_bytes) (\<lambda>capacity_bytes.
      andthen (throw_when (range_inverted r) (invalid_argument ''required_bytes is greather than limit_bytes''))
     (andthen (throw_when (above_limit capacity_bytes r)
                (grpc OUT_OF_RANGE ''required volume capacity is greater than limit''))
      (ret capacity_bytes))))"

definition expand_properties :: "'e driver \<Rightarrow> jsobj \<Rightarrow> js \<Rightarrow> jsobj" where
  "expand_properties D driverOptions capacity_bytes =
     (if dr_resource D = ''filesystem'' then quota_properties driverOptions capacity_bytes
      else if dr_resource D = ''volume'' then [(''volsize'', capacity_bytes)]
      else [])"

definition ControllerExpandVolume :: "'e driver \<Rightarrow> jsobj \<Rightarrow> ('e world, js) io" where
  "ControllerExpandVolume D req =
     bind (lift (own_options D)) (\<lambda>driverOptions.
     bind (lift (volume_dataset D req)) (\<lambda>datasetName.
     bind (lift (getp (obj_get req ''capacity_range'') ''required_bytes'')) (\<lambda>_.
     bind (expand_capacity D datasetName (obj_get req ''capacity_range'')) (\<lambda>capacity_bytes.
     andthen (zset D datasetName (expand_properties D driverOptions capacity_bytes))
    (andthen (expandVolume D req datasetName)
     (ret (Obj [(''capacity_bytes'',
              if truthy (zopt driverOptions ''datasetEnableQuotas'') \<or> dr_resource D = ''volume''
              then capacity_bytes else Num (IntN 0)),
            (''node_expansion_required'', Bool (dr_resource D = ''volume''))])))))))"

section \<open>GetCapacity\<close>

definition GetCapacity :: "'e driver \<Rightarrow> jsobj \<Rightarrow> ('e world, js) io" where
  "GetCapacity D req =
     bind (lift (own_options D)) (\<lambda>driverOptions.
     bind (lift (getVolumeParentDatasetName D)) (\<lambda>datasetName.
     andthen (throw_when (datasetName = []) missing_parent)
    (bind (if truthy (obj_get req ''volume_capabilities'')
           then lift (assertCapabilities D (obj_get req ''volume_capabilities''))
           else ret (True, Null)) (\<lambda>(valid, _).
       if \<not> valid then ret (Obj [(''available_capacity'', Num (IntN 0))])
       else bind (zfs_create (dr_zb D) 2 datasetName [(''parents'', Bool True)]) (\<lambda>_.
         bind (zget D datasetName [''avail''] []) (\<lambda>properties.
         bind (lift (prop_value (field properties datasetName) ''available'')) (\<lambda>v.
         ret (Obj [(''available_capacity'', v)]))))))))"

section \<open>ControllerGetVolume\<close>

definition volume_list_properties :: "string list" where
  "volume_list_properties = [''name'', ''mountpoint'', ''refquota'', ''avail'', ''used'',
     VOLUME_CSI_NAME_PROPERTY_NAME, VOLUME_CONTENT_SOURCE_TYPE_PROPERTY_NAME,
     VOLUME_CONTENT_SOURCE_ID_PROPERTY_NAME, ''volsize'', MANAGED_PROPERTY_NAME,
     SHARE_VOLUME_CONTEXT_PROPERTY_NAME, SUCCESS_PROPERTY_NAME,
     VOLUME_CONTEXT_PROVISIONER_INSTANCE_ID_PROPERTY_NAME,
     VOLUME_CONTEXT_PROVISIONER_DRIVER_PROPERTY_NAME]"

definition resource_types :: "'e driver \<Rightarrow> js" where
  "resource_types D =
     Arr (if dr_resource D = ''filesystem'' then [Str ''filesystem'']
          else if dr_resource D = ''volume'' then [Str ''volume''] else [])"

definition first_row :: "jsobj list \<Rightarrow> js" where
  "first_row rows = (case rows of [] \<Rightarrow> Undef | r # _ \<Rightarrow> Obj r)"

definition ControllerGetVolume :: "'e driver \<Rightarrow> jsobj \<Rightarrow> ('e world, js) io" where
  "ControllerGetVolume D req =
     bind (lift (own_options D)) (\<lambda>driverOptions.
     bind (lift (volume_dataset D req)) (\<lambda>datasetName.
     bind (catch (zlist_rows D datasetName volume_list_properties
                    [(''types'', resource_types D), (''recurse'', Bool False)])
                 (rethrow_as ''dataset does not exist'' (grpc NOT_FOUND ''volume_id is missing''))) (\<lambda>rows.
     bind (populateCsiVolumeFromData D (first_row rows)) (\<lambda>volume.
     let status = getVolumeStatus D
     in ret (Obj ((''volume'', volume) # (if truthy status then [(''status'', status)] else [])))))))"

section \<open>Pages\<close>

fun num_plus :: "jnum \<Rightarrow> jnum \<Rightarrow> jnum" where
  "num_plus (IntN a) (IntN b) = IntN (a + b)"
| "num_plus _ _ = NaN"

text \<open>\<open>slice\<close>: a negative position counts from the end, NaN is 0, a missing end is the length.\<close>

definition slice_pos :: "nat \<Rightarrow> jnum \<Rightarrow> nat" where
  "slice_pos n i =
     (case i of NaN \<Rightarrow> 0
      | IntN k \<Rightarrow> nat (if k < 0 then max (int n + k) 0 else min k (int n)))"

definition js_slice :: "'a list \<Rightarrow> jnum \<Rightarrow> jnum option \<Rightarrow> 'a list" where
  "js_slice xs a b =
     (let n = length xs; i = slice_pos n a;
          j = (case b of None \<Rightarrow> n | Some e \<Rightarrow> slice_pos n e)
      in take (j - i) (drop i xs))"

definition list_result_js :: "js list \<Rightarrow> js \<Rightarrow> js" where
  "list_result_js es next_token = Obj [(''entries'', Arr es), (''next_token'', next_token)]"

definition page_token :: "string \<Rightarrow> jnum \<Rightarrow> js" where
  "page_token uuid pos = Str (uuid @ '':'' @ num_to_string pos)"

text \<open>A page of a cached result; \<open>kind\<close> is the name of the call in the cache key.\<close>

definition cached_page :: "'e driver \<Rightarrow> string \<Rightarrow> js \<Rightarrow> string \<Rightarrow> ('e world, js) io" where
  "cached_page D kind max_entries starting_token =
     (let parts = split_ch (CHR '':'') starting_token; uuid = hd parts;
          paged = js_greater max_entries (Num (IntN 0))
      in bind (lift (parse_int (at parts 1))) (\<lambda>start_position.
         let end_position = num_plus start_position (to_num max_entries) in
         bind (cache_get D (kind @ '':result:'' @ uuid)) (\<lambda>cached.
           if \<not> truthy cached
           then throw (grpc ABORTED (''invalid starting_token: '' @ starting_token))
           else case cached of
             Arr es \<Rightarrow>
               ret (list_result_js
                 (js_slice es start_position (if paged then Some end_position else None))
                 (if paged \<and> num_less (IntN (int (length es))) end_position
                  then page_token uuid end_position else Null))
           | _ \<Rightarrow> throw (Unmodelled ''cached value''))))"

text \<open>The first page: the whole result goes into the cache when it does not fit.\<close>

definition first_page :: "'e driver \<Rightarrow> string \<Rightarrow> js \<Rightarrow> js list \<Rightarrow> ('e world, js) io" where
  "first_page D kind max_entries es =
     (if truthy max_entries \<and> js_greater (Num (IntN (int (length es)))) max_entries then
        bind (uuidv4 D) (\<lambda>uuid.
        andthen (cache_set D (kind @ '':result:'' @ uuid) (Arr es))
        (ret (list_result_js (js_slice es (IntN 0) (Some (to_num max_entries)))
               (page_token uuid (to_num max_entries)))))
      else ret (list_result_js es Undef))"

section \<open>ListVolumes\<close>

definition volume_entry :: "'e driver \<Rightarrow> js list \<Rightarrow> jsobj \<Rightarrow> ('e world, js list) io" where
  "volume_entry D es row =
     (if \<not> loose_eq (obj_get row MANAGED_PROPERTY_NAME) (Str ''true'') then ret es
      else bind (populateCsiVolumeFromData D (Obj row)) (\<lambda>volume.
        ret (if truthy volume
             then es @ [Obj [(''volume'', volume), (''status'', getVolumeStatus D)]] else es)))"

definition ListVolumes :: "'e driver \<Rightarrow> jsobj \<Rightarrow> ('e world, js) io" where
  "ListVolumes D req =
     bind (lift (own_options D)) (\<lambda>driverOptions.
     bind (lift (getVolumeParentDatasetName D)) (\<lambda>datasetName.
     let max_entries = obj_get req ''max_entries''; starting_token = obj_get req ''starting_token'' in
     if truthy starting_token then cached_page D ''ListVolumes'' max_entries (to_str starting_token)
     else if datasetName = [] then throw missing_parent
     else bind (catch
         (bind (zlist_rows D datasetName volume_list_properties
                  [(''types'', resource_types D), (''recurse'', Bool True)]) (\<lambda>rows. ret (Some rows)))
         (\<lambda>err. if not_there err then ret None else throw err)) (\<lambda>listed.
       case listed of
         None \<Rightarrow> ret (list_result_js [] Null)
       | Some rows \<Rightarrow> bind (fold_io (volume_entry D) [] rows) (first_page D ''ListVolumes'' max_entries))))"

section \<open>ValidateVolumeCapabilities\<close>

definition no_capabilities :: "js \<Rightarrow> bool" where
  "no_capabilities v \<longleftrightarrow> \<not> truthy v \<or> v = Arr []"

definition ValidateVolumeCapabilities :: "'e driver \<Rightarrow> jsobj \<Rightarrow> ('e world, js) io" where
  "ValidateVolumeCapabilities D req =
     bind (lift (own_options D)) (\<lambda>driverOptions.
     let volume_id = obj_get req ''volume_id''; capabilities = obj_get req ''volume_capabilities'' in
     andthen (throw_when (\<not> truthy volume_id) (invalid_argument ''missing volume_id''))
    (bind (lift (validateVolumeId volume_id)) (\<lambda>name.
     andthen (throw_when (no_capabilities capabilities) (invalid_argument ''missing capabilities''))
    (bind (lift (getVolumeParentDatasetName D)) (\<lambda>datasetParentName.
     andthen (throw_when (datasetParentName = []) missing_parent)
    (andthen (catch (bind (zget D (datasetParentName @ ''/'' @ name) [] []) (\<lambda>_. ret ()))
               (rethrow_as ''dataset does not exist''
                  (grpc NOT_FOUND (''invalid volume_id: '' @ name))))
    (bind (lift (assertCapabilities D capabilities)) (\<lambda>(valid, m).
       ret (if \<not> valid then Obj [(''message'', m)]
            else Obj [(''confirmed'', Obj [(''volume_context'', obj_get req ''volume_context''),
                   (''volume_capabilities'', capabilities),
                   (''parameters'', obj_get req ''parameters'')])])))))))))"

end
