(* ===== verification/Volume_Lifecycle.thy ===== *)
theory Volume_Lifecycle
  imports Controller_Volumes
begin

text \<open>
  What \<open>DeleteVolume\<close>, \<open>ControllerExpandVolume\<close> and the paged listings do to the storage and
  to their results, over whole runs.
\<close>

section \<open>Deletion\<close>

definition reads :: "'e driver \<Rightarrow> event \<Rightarrow> bool" where
  "reads D ev \<longleftrightarrow> quiet D ev \<and> (\<forall>d. ev \<noteq> EvDriver ''deleteShare'' d)"

definition removes :: "'e driver \<Rightarrow> string \<Rightarrow> event \<Rightarrow> bool" where
  "removes D d ev \<longleftrightarrow> reads D ev
     \<or> ev = zev D (destroy_args d [(''recurse'', Bool True), (''force'', Bool True)])
     \<or> (\<exists>s. ev = zev D (destroy_args s deferred)
           \<and> starts_with (extractSnapshotName s) VOLUME_SOURCE_CLONE_SNAPSHOT_PREFIX)"

lemma reads_simps [simp]:
  "reads D (EvShell s)" "reads D (EvSleep i)" "reads D (EvCache s)"
  "reads D (zev D (c # r)) \<longleftrightarrow> c = ''get'' \<or> c = ''list''"
  by (auto simp: reads_def)

lemma removes_simps [simp]:
  "removes D d (EvSleep i)" "removes D d (zev D (''get'' # r))" "removes D d (zev D (''list'' # r))"
  by (simp_all add: removes_def)

lemma adds_dataset_properties: "adds (reads D) (dataset_properties D d)"
  by (auto simp: dataset_properties_def intro!: wp_intro)

lemma origin_snapshot_prefix:
  "origin_snapshot p = Inr (Some s) \<Longrightarrow> starts_with (extractSnapshotName s) VOLUME_SOURCE_CLONE_SNAPSHOT_PREFIX"
  by (auto simp: origin_snapshot_def Let_def ebind_eq_Inr split: if_splits)

lemma adds_remove_origin: "adds (removes D d) (remove_origin D p)"
proof (cases "origin_snapshot p")
  case (Inl e)
  then show ?thesis by (simp add: remove_origin_def lift_def bind_def adds_def)
next
  case o': (Inr s)
  show ?thesis
  proof (cases s)
    case None
    with o' show ?thesis by (simp add: remove_origin_def bind_lift_Inr adds_ret)
  next
    case (Some x)
    with o' have "removes D d (zev D (destroy_args x deferred))"
      using origin_snapshot_prefix [of p x] by (auto simp: removes_def)
    with o' Some show ?thesis by (auto simp: remove_origin_def bind_lift_Inr intro!: wp_intro)
  qed
qed

lemma adds_check_managed: "adds (removes D d) (check_managed_snapshots D o' d')"
  by (auto simp: check_managed_snapshots_def intro!: wp_intro)

lemma adds_driver_sleep [wp_intro]: "P (EvSleep ms) \<Longrightarrow> adds P (driver_sleep D ms)"
  by (auto simp: driver_sleep_def intro!: wp_intro)

lemma adds_delete_dataset: "adds (removes D d) (delete_dataset D d)"
  by (auto simp: delete_dataset_def destroy_with_retry_def removes_def intro!: wp_intro)

text \<open>The dataset of a volume is a child of the parent of the volumes, whatever id is asked for.\<close>

definition own_volume :: "'e driver \<Rightarrow> jsobj \<Rightarrow> string \<Rightarrow> bool" where
  "own_volume D req d \<longleftrightarrow> (\<exists>parent v. getVolumeParentDatasetName D = Inr parent \<and> parent \<noteq> []
     \<and> obj_get req ''volume_id'' = Str v \<and> d = parent @ ''/'' @ v \<and> v \<noteq> [] \<and> list_all volume_id_char v)"

lemma volume_dataset_own: "volume_dataset D req = Inr d \<Longrightarrow> own_volume D req d"
  by (auto simp: volume_dataset_def own_volume_def validateVolumeId_def ebind_eq_Inr invalid_chars_Nil
      split: if_splits js.splits)

definition delete_steps :: "'e driver \<Rightarrow> jsobj \<Rightarrow> string \<Rightarrow> js \<Rightarrow> ('e world, unit) io" where
  "delete_steps D o' d p = andthen (remove_origin D p) (andthen (check_managed_snapshots D o' d) (delete_dataset D d))"

lemma adds_delete_steps: "adds (removes D d) (delete_steps D o' d p)"
  unfolding delete_steps_def
  by (intro adds_andthen adds_remove_origin adds_check_managed adds_delete_dataset)

text \<open>
  C3: the scope of a deletion: in every run of \<open>DeleteVolume\<close>, whatever the storage answers,
  only queries run before the share of the volume is deleted, and with the strategy \<open>retain\<close>
  nothing else runs at all; after it, the only commands that change anything destroy the
  dataset of the named volume, a child of the parent of the volumes, or a snapshot that the
  driver took to make a volume.
\<close>

theorem delete_scope:
  "\<exists>es. hist (snd (DeleteVolume D req w)) = hist w @ es \<and>
     (list_all (reads D) es \<or>
      (\<exists>o' d a b. own_options D = Inr o' \<and> \<not> loose_eq (delete_strategy D o') (Str ''retain'')
         \<and> own_volume D req d \<and> es = a @ EvDriver ''deleteShare'' d # b
         \<and> list_all (reads D) a \<and> list_all (removes D d) b))"
proof (cases "own_options D")
  case (Inl e)
  then show ?thesis by (simp add: DeleteVolume_def hist_lift_Inl)
next
  case o': (Inr o')
  show ?thesis
  proof (cases "volume_dataset D req")
    case (Inl e)
    then show ?thesis by (simp add: DeleteVolume_def hist_lift_Inl bind_lift_Inr o')
  next
    case d: (Inr d)
    obtain r1 w1 where p: "dataset_properties D d w = (r1, w1)" by force
    from addsD [OF adds_dataset_properties, of D d w] p obtain a
      where a: "hist w1 = hist w @ a" "list_all (reads D) a" by auto
    show ?thesis
    proof (cases "isl r1 \<or> loose_eq (delete_strategy D o') (Str ''retain'')")
      case True
      then have "hist (snd (DeleteVolume D req w)) = hist w1"
        using p by (cases r1) (auto simp: DeleteVolume_def bind_lift_Inr o' d bind_fst_Inl bind_fst_Inr ret_def)
      with a show ?thesis by auto
    next
      case False
      then obtain pr where r1: "r1 = Inr pr" by (cases r1) auto
      have D: "snd (DeleteVolume D req w) = snd (andthen (deleteShare D req d) (delete_steps D o' d pr) w1)"
        using False p by (simp add: DeleteVolume_def bind_lift_Inr o' d bind_fst_Inr r1 delete_steps_def)
      obtain r2 w2 where s: "deleteShare D req d w1 = (r2, w2)" by force
      then have h2: "hist w2 = hist w1 @ [EvDriver ''deleteShare'' d]"
        by (auto simp: deleteShare_def perform_def split: prod.splits)
      have "\<exists>b. hist (snd (DeleteVolume D req w)) = hist w2 @ b \<and> list_all (removes D d) b"
        using addsD [OF adds_delete_steps, of D o' d pr w2] s
        by (cases r2) (auto simp: D andthen_def bind_fst_Inl bind_fst_Inr)
      then obtain b where "hist (snd (DeleteVolume D req w)) = hist w @ a @ EvDriver ''deleteShare'' d # b"
        "list_all (removes D d) b" by (auto simp: h2 a(1))
      with a(2) o' volume_dataset_own [OF d] False show ?thesis
        by (intro exI [of _ "a @ EvDriver ''deleteShare'' d # b"]) blast
    qed
  qed
qed

section \<open>Snapshots that block a deletion\<close>

definition marked_managed :: "jsobj \<Rightarrow> bool" where
  "marked_managed r \<longleftrightarrow> (\<exists>v. obj_get r MANAGED_PROPERTY_NAME = Str v \<and> to_lower v = ''true'')"

lemma some_managed_row:
  assumes "\<And>r. r \<in> set rows \<Longrightarrow> is_string (obj_get r MANAGED_PROPERTY_NAME)"
  shows "some_row managed_row rows = Inr (\<exists>r\<in>set rows. marked_managed r)"
  using assms
proof (induction rows)
  case (Cons r rows)
  then have "is_string (obj_get r MANAGED_PROPERTY_NAME)" by simp
  then obtain v where "obj_get r MANAGED_PROPERTY_NAME = Str v" by (cases "obj_get r MANAGED_PROPERTY_NAME") auto
  with Cons show ?case by (simp add: managed_row_def as_string_def marked_managed_def)
qed simp

text \<open>
  A managed snapshot of the volume blocks its deletion, and nothing else does: when the
  share and the source snapshot are gone already, \<open>DeleteVolume\<close> fails with
  FAILED_PRECONDITION if the listing of the snapshots has a managed one, and destroys the
  dataset otherwise.
\<close>

theorem managed_snapshots_block:
  assumes o': "own_options D = Inr o'" "\<not> loose_eq (delete_strategy D o') (Str ''retain'')"
      "opts_get D o' ''zfs.deleteVolumeIgnoreForeignSnapshots'' (Bool False) \<noteq> Bool True"
    and d: "volume_dataset D req = Inr d" and p: "dataset_properties D d w = (Inr p, w1)"
    and share: "deleteShare D req d w1 = (Inr (), w2)" and origin: "remove_origin D p w2 = (Inr (), w3)"
    and rows: "zlist_rows D d [''name'', MANAGED_PROPERTY_NAME] [(''types'', Arr [Str ''snapshot''])] w3 = (Inr rows, w4)"
      "\<And>r. r \<in> set rows \<Longrightarrow> is_string (obj_get r MANAGED_PROPERTY_NAME)"
  shows "DeleteVolume D req w =
    (if \<exists>r\<in>set rows. marked_managed r
     then (Inl (grpc FAILED_PRECONDITION ''filesystem has dependent snapshots''), w4)
     else delete_dataset D d w4)"
proof -
  have "datasetHasManagedSnapshots D d False w3 = (Inr (\<exists>r\<in>set rows. marked_managed r), w4)"
    by (simp add: datasetHasManagedSnapshots_def bind_def rows(1) some_managed_row [OF rows(2)] lift_def)
  then have "check_managed_snapshots D o' d w3 =
     (if \<exists>r\<in>set rows. marked_managed r
      then (Inl (grpc FAILED_PRECONDITION ''filesystem has dependent snapshots''), w4) else (Inr (), w4))"
    using o'(3) by (simp add: check_managed_snapshots_def catch_def bind_def throw_when_def throw_def ret_def)
  then show ?thesis
    unfolding DeleteVolume_def o'(1) d bind_lift_Inr
    using o'(2) by (simp add: andthen_def bind_def p share origin)
qed

definition busy_volume :: "nat driver" where
  "busy_volume = sample_driver ''filesystem'' (\<lambda>args n. Closed (Some 0)
     (if at args 0 = Str ''list''
      then join [CHR 9] [''tank/v/a@s1'', ''false''] @ [CHR 10] @ join [CHR 9] [''tank/v/a@s2'', ''TRUE''] @ [CHR 10]
      else get_line ''tank/v/a'' ''origin'' ''tank/v/b@volume-source-for-volume-a'' ''-'') [] False)"

definition delete_a :: jsobj where
  "delete_a = [(''volume_id'', Str ''a'')]"

lemma managed_snapshots_block_witness:
  "fst (DeleteVolume busy_volume delete_a world0)
   = Inl (grpc FAILED_PRECONDITION ''filesystem has dependent snapshots'')"
proof -
  let ?D = "busy_volume" and ?d = "''tank/v/a''"
  let ?p = "Obj [(''origin'', Obj [(''value'', Str ''tank/v/b@volume-source-for-volume-a''),
      (''received'', Str ''-''), (''source'', Str ''-'')])]"
  let ?rows = "[[(''name'', Str ''tank/v/a@s1''), (MANAGED_PROPERTY_NAME, Str ''false'')],
      [(''name'', Str ''tank/v/a@s2''), (MANAGED_PROPERTY_NAME, Str ''TRUE'')]]"
  let ?w1 = "snd (dataset_properties ?D ?d world0)"
  let ?w2 = "snd (deleteShare ?D delete_a ?d ?w1)"
  let ?w3 = "snd (remove_origin ?D ?p ?w2)"
  have o': "own_options ?D = Inr (dr_options ?D)"
    "\<not> loose_eq (delete_strategy ?D (dr_options ?D)) (Str ''retain'')"
    "opts_get ?D (dr_options ?D) ''zfs.deleteVolumeIgnoreForeignSnapshots'' (Bool False) \<noteq> Bool True"
    "volume_dataset ?D delete_a = Inr ?d"
    by code_simp+
  have 1: "fst (dataset_properties ?D ?d world0) = Inr ?p" by code_simp
  have 2: "fst (deleteShare ?D delete_a ?d ?w1) = Inr ()" by code_simp
  have 3: "fst (remove_origin ?D ?p ?w2) = Inr ()" by code_simp
  have 4: "fst (zlist_rows ?D ?d [''name'', MANAGED_PROPERTY_NAME] [(''types'', Arr [Str ''snapshot''])] ?w3)
      = Inr ?rows" by code_simp
  have "to_lower ''TRUE'' = ''true''" by code_simp
  then have "\<exists>r\<in>set ?rows. marked_managed r"
    by (simp add: marked_managed_def obj_get_def property_names)
  moreover have "is_string (obj_get r MANAGED_PROPERTY_NAME)" if "r \<in> set ?rows" for r
    using that by (auto simp: obj_get_def property_names)
  note managed_snapshots_block [OF o'(1-4) run_fst [OF 1] run_fst [OF 2] run_fst [OF 3] run_fst [OF 4] this]
  ultimately show ?thesis by (simp only: if_True fst_conv)
qed

section \<open>Expansion\<close>

lemma adds_expand_capacity: "adds (quiet D) (expand_capacity D d r)"
  by (auto simp: expand_capacity_def Let_def intro!: wp_intro)

lemma expand_capacity_volume:
  assumes "expand_capacity D d r w = (Inr c, w')" and "dr_resource D = ''volume''"
  shows "\<exists>bs. c = Num (generateZvolSize (or_else (field r ''required_bytes'') (field r ''limit_bytes'')) bs)"
  using assms by (auto simp: expand_capacity_def Let_def run_Inr split: if_splits)

text \<open>
  Expanding a zvol sets its size once, to the required size rounded up to its block size,
  and only then lets the derived driver resize the share; that size is in the response.
\<close>

theorem expand_volume_run:
  fixes D :: "'e driver"
  assumes run: "ControllerExpandVolume D req w = (Inr r, w')" and res: "dr_resource D = ''volume''"
    and d: "volume_dataset D req = Inr d"
    and q: "field (obj_get req ''capacity_range'') ''required_bytes'' = Str (show_nat q)"
  shows "\<exists>gets bs n. list_all (quiet D) gets \<and> n = generateZvolSize (Str (show_nat q)) bs
    \<and> hist w' = hist w @ gets @ [zev D (set_args d [(''volsize'', Num n)]), EvDriver ''expandVolume'' d]
    \<and> field r ''capacity_bytes'' = Num n
    \<and> (\<forall>b. map_of block_size_table (to_lower (to_str bs)) = Some b \<longrightarrow>
          (\<exists>k. n = IntN k \<and> b dvd k \<and> int q \<le> k \<and> k < int q + b))"
proof -
  let ?range = "obj_get req ''capacity_range''"
  from run obtain o' c w1 w2 where
    1: "expand_capacity D d ?range w = (Inr c, w1)"
    and 2: "zset D d (expand_properties D o' c) w1 = (Inr (), w2)"
    and 3: "expandVolume D req d w2 = (Inr (), w')"
    and r: "r = Obj [(''capacity_bytes'',
              if truthy (zopt o' ''datasetEnableQuotas'') \<or> dr_resource D = ''volume''
              then c else Num (IntN 0)), (''node_expansion_required'', Bool (dr_resource D = ''volume''))]"
    unfolding ControllerExpandVolume_def by (auto simp: run_Inr d)
  from addsD [OF adds_expand_capacity, of D d ?range w] 1 obtain gets
    where gets: "hist w1 = hist w @ gets" "list_all (quiet D) gets" by auto
  from expand_capacity_volume [OF 1 res] obtain bs where
    c: "c = Num (generateZvolSize (Str (show_nat q)) bs)" by (auto simp: q or_else_def)
  have "expand_properties D o' c = [(''volsize'', c)]" by (simp add: expand_properties_def res)
  with 2 have "hist w2 = hist w1 @ [zev D (set_args d [(''volsize'', c)])]"
    using emitsD [OF emits_zset [of "[(''volsize'', c)]"]] by simp
  moreover have "hist w' = hist w2 @ [EvDriver ''expandVolume'' d]"
    using 3 emitsD [OF emits_perform] by (simp add: expandVolume_def)
  moreover have "to_num (Str (show_nat q)) = IntN (int q)" by simp
  ultimately show ?thesis
    using gets c r res zvol_size_bounds [of bs _ "Str (show_nat q)" "int q"]
    by (intro exI [of _ gets] exI [of _ bs] exI [of _ "generateZvolSize (Str (show_nat q)) bs"])
      (auto simp: field_def obj_get_def)
qed

definition small_zvol :: "nat driver" where
  "small_zvol = sample_driver ''volume'' (\<lambda>args n. Closed (Some 0)
     (if at args 0 = Str ''get'' then get_line ''tank/v/a'' ''volblocksize'' ''512'' ''-'' else []) [] False)"

definition expand_a :: jsobj where
  "expand_a = [(''volume_id'', Str ''a''), (''capacity_range'', Obj [(''required_bytes'', Str ''9'')])]"

lemma expand_volume_run_witness:
  "\<exists>gets n. list_all (quiet small_zvol) gets
    \<and> hist (snd (ControllerExpandVolume small_zvol expand_a world0))
      = gets @ [zev small_zvol (set_args ''tank/v/a'' [(''volsize'', Num n)]), EvDriver ''expandVolume'' ''tank/v/a'']"
proof -
  let ?r = "ControllerExpandVolume small_zvol expand_a world0"
  have "\<not> isl (fst ?r)" by code_simp
  then obtain r where "fst ?r = Inr r" by (cases "fst ?r") auto
  note run = run_fst [OF this]
  have 1: "dr_resource small_zvol = ''volume''" "volume_dataset small_zvol expand_a = Inr ''tank/v/a''"
    and 2: "field (obj_get expand_a ''capacity_range'') ''required_bytes'' = Str (show_nat 9)"
    by code_simp+
  from expand_volume_run [OF run 1 2] show ?thesis by (auto simp: world0_def)
qed

section \<open>Pages\<close>

lemma split_ch_two: "CHR '':'' \<notin> set u \<Longrightarrow> split_ch (CHR '':'') (u @ CHR '':'' # v) = u # split_ch (CHR '':'') v"
  by (induction u) (auto split: list.splits)

text \<open>
  A page of a listing holds the entries from the position of its token, at most as many
  as asked for; but its next token is missing exactly when the page does not reach past the
  end of the listing, so the entries after the second page are never reported, and a page
  that ends past the end names a token.
\<close>

theorem cached_page_token:
  assumes u: "CHR '':'' \<notin> set uuid" and m: "0 < m"
    and c: "dr_cache_get D (kind @ '':result:'' @ uuid) (ext w) = (Arr es, e')"
  shows "\<exists>w'. cached_page D kind (Num (IntN (int m))) (uuid @ '':'' @ show_nat p) w =
    (Inr (list_result_js (take m (drop p es))
       (if p + m \<le> length es then Null else page_token uuid (IntN (int (p + m))))), w')"
proof -
  have "CHR '':'' \<notin> set (show_nat p)"
    using digits_no_sep [of "CHR '':''" p] by (auto simp: is_digit_def)
  then have "split_ch (CHR '':'') (uuid @ '':'' @ show_nat p) = [uuid, show_nat p]"
    using split_ch_two [OF u, of "show_nat p"] by (simp add: split_ch_no_sep)
  moreover have "at [uuid, show_nat p] 1 = Str (show_nat p)" by (simp add: at_def)
  moreover from c obtain w' where cg: "cache_get D (kind @ '':result:'' @ uuid) w = (Inr (Arr es), w')"
    by (auto simp: cache_get_def perform_def)
  ultimately have "cached_page D kind (Num (IntN (int m))) (uuid @ '':'' @ show_nat p) w =
    (Inr (list_result_js
       (js_slice es (IntN (int p)) (Some (IntN (int p + int m))))
       (if num_less (IntN (int (length es))) (IntN (int p + int m))
        then page_token uuid (IntN (int p + int m)) else Null)), w')"
    unfolding cached_page_def Let_def using m
    by (simp only: list.sel parse_int_show_nat bind_lift_Inr num_plus.simps to_num.simps)
      (simp add: bind_def cg ret_def js_greater_def)
  moreover have "js_slice es (IntN (int p)) (Some (IntN (int p + int m))) = take m (drop p es)"
    by (auto simp: js_slice_def slice_pos_def Let_def min_def nat_add_distrib)
  ultimately show ?thesis by auto
qed

text \<open>Three entries, pages of one: the second page says that there is no third.\<close>

lemma cached_page_token_witness:
  "\<exists>w'. cached_page (sample_driver ''volume'' fresh_volume
        \<lparr>dr_cache_get := (\<lambda>k n. (Arr [Str ''a'', Str ''b'', Str ''c''], n))\<rparr>)
      ''ListVolumes'' (Num (IntN 1)) ''id:1'' world0
    = (Inr (list_result_js [Str ''b''] Null), w')"
proof -
  have "show_nat 1 = ''1''" by code_simp
  then show ?thesis
    using cached_page_token [of "''id''" 1 "sample_driver ''volume'' fresh_volume
        \<lparr>dr_cache_get := (\<lambda>k n. (Arr [Str ''a'', Str ''b'', Str ''c''], n))\<rparr>" "''ListVolumes''" world0
        "[Str ''a'', Str ''b'', Str ''c'']" 0 1]
    by (simp add: world0_def)
qed

end
