(* ===== verification/Controller_Snapshots.thy ===== *)
theory Controller_Snapshots
  imports Controller_Volumes
begin

text \<open>
  The snapshot calls of \<open>src/driver/controller-zfs/index.js\<close>: \<open>ListSnapshots\<close> over the
  snapshots of the volumes and the detached snapshots, \<open>CreateSnapshot\<close> and
  \<open>DeleteSnapshot\<close>. A detached snapshot is a dataset below its own parent, made by send
  and receive; its id has a slash where the id of a snapshot has an at sign.
\<close>

section \<open>ListSnapshots\<close>

definition snapshot_list_properties :: "string list" where
  "snapshot_list_properties = [''name'', ''creation'', ''mountpoint'', ''refquota'', ''avail'',
     ''used'', ''volsize'', ''referenced'', ''logicalreferenced'', VOLUME_CSI_NAME_PROPERTY_NAME,
     SNAPSHOT_CSI_NAME_PROPERTY_NAME, MANAGED_PROPERTY_NAME]"

text \<open>
  The dataset to list in one turn of the loop: the snapshots of the volumes (\<open>True\<close>) or the
  detached snapshots (\<open>False\<close>); None when the turn is skipped.
\<close>

definition operative_filesystem :: "bool \<Rightarrow> string \<Rightarrow> string \<Rightarrow> string \<Rightarrow> string option" where
  "operative_filesystem snapshots parent snapshot_id source_volume_id =
     (if \<not> snapshots \<and> parent = [] then None
      else if snapshot_id \<noteq> [] then
        (if isZfsSnapshot snapshot_id = snapshots then Some (parent @ ''/'' @ snapshot_id) else None)
      else if source_volume_id \<noteq> [] then Some (parent @ ''/'' @ source_volume_id)
      else Some parent)"

definition strip_suffix :: "string \<Rightarrow> string \<Rightarrow> exn + string" where
  "strip_suffix pat s =
     (case replace_suffix_re pat s of None \<Rightarrow> Inl (Unmodelled ''regular expression'') | Some t \<Rightarrow> Inr t)"

definition row_source_volume :: "string \<Rightarrow> jsobj \<Rightarrow> exn + string" where
  "row_source_volume parent row =
     ebind (as_string (obj_get row ''name'')) (\<lambda>name.
     ebind (strip_prefix (parent @ ''/'') name) (\<lambda>s.
       if contains s ''@'' then Inr (substring s 0 (index_of s ''@''))
       else strip_suffix (''/'' @ to_str (obj_get row SNAPSHOT_CSI_NAME_PROPERTY_NAME)) s))"

definition snapshot_size :: "'e driver \<Rightarrow> js \<Rightarrow> js \<Rightarrow> js \<Rightarrow> js" where
  "snapshot_size D referenced logicalreferenced volsize =
     (if dr_resource D = ''filesystem'' then getLargestNumber [referenced, logicalreferenced] else volsize)"

definition snapshot_response :: "js \<Rightarrow> string \<Rightarrow> string \<Rightarrow> js \<Rightarrow> js" where
  "snapshot_response size_bytes snapshot_id source_volume_id creation =
     Obj [(''snapshot'', Obj [(''size_bytes'', size_bytes), (''snapshot_id'', Str snapshot_id),
       (''source_volume_id'', Str source_volume_id),
       (''creation_time'', Obj [(''seconds'', creation), (''nanos'', Num (IntN 0))]),
       (''ready_to_use'', Bool True)])]"

text \<open>The entry of one row; None for a row that is not a snapshot of the CO.\<close>

definition snapshot_row :: "'e driver \<Rightarrow> string \<Rightarrow> jsobj \<Rightarrow> exn + js option" where
  "snapshot_row D parent row =
     (if \<not> loose_eq (obj_get row MANAGED_PROPERTY_NAME) (Str ''true'') then Inr None
      else if \<not> isPropertyValueSet (obj_get row SNAPSHOT_CSI_NAME_PROPERTY_NAME) then Inr None
      else ebind (row_source_volume parent row) (\<lambda>source_volume_id.
        if source_volume_id = parent \<or> source_volume_id = [] then Inr None
        else ebind (as_string (obj_get row ''name'')) (\<lambda>name.
          ebind (strip_prefix (parent @ ''/'') name) (\<lambda>snapshot_id.
          Inr (Some (snapshot_response
            (snapshot_size D (obj_get row ''referenced'') (obj_get row ''logicalreferenced'')
               (obj_get row ''volsize''))
            snapshot_id source_volume_id (obj_get row ''creation'')))))))"

definition snapshot_rows :: "'e driver \<Rightarrow> string \<Rightarrow> js list \<Rightarrow> jsobj list \<Rightarrow> exn + js list" where
  "snapshot_rows D parent es rows =
     efold (\<lambda>es row. ebind (snapshot_row D parent row) (\<lambda>r.
              Inr (case r of None \<Rightarrow> es | Some e \<Rightarrow> es @ [e]))) es rows"

definition list_turn ::
  "'e driver \<Rightarrow> string \<Rightarrow> string \<Rightarrow> js list \<Rightarrow> bool \<times> string \<times> js \<Rightarrow> ('e world, js list) io" where
  "list_turn D snapshot_id source_volume_id es turn =
     (case turn of (snapshots, parent, types) \<Rightarrow>
       (case operative_filesystem snapshots parent snapshot_id source_volume_id of
          None \<Rightarrow> ret es
        | Some fs \<Rightarrow>
            bind (catch
              (bind (zlist_rows D fs snapshot_list_properties
                       [(''types'', Arr [types]), (''recurse'', Bool True)]) (\<lambda>rows. ret (Some rows)))
              (\<lambda>err. if not_there err then ret None
                     else throw (grpc FAILED_PRECONDITION (exn_str err)))) (\<lambda>listed.
              case listed of None \<Rightarrow> ret es | Some rows \<Rightarrow> lift (snapshot_rows D parent es rows))))"

text \<open>An optional filter: empty when absent, validated when present.\<close>

definition optional_id :: "(js \<Rightarrow> exn + string) \<Rightarrow> js \<Rightarrow> exn + string" where
  "optional_id validate v = (if truthy v then validate v else Inr [])"

definition ListSnapshots :: "'e driver \<Rightarrow> jsobj \<Rightarrow> ('e world, js) io" where
  "ListSnapshots D req =
     bind (lift (own_options D)) (\<lambda>driverOptions.
     bind (lift (getVolumeParentDatasetName D)) (\<lambda>volumeParent.
     bind (lift (getDetachedSnapshotParentDatasetName D)) (\<lambda>snapshotParent.
     let max_entries = obj_get req ''max_entries''; starting_token = obj_get req ''starting_token'' in
     if truthy starting_token then cached_page D ''ListSnapshots'' max_entries (to_str starting_token)
     else if volumeParent = [] then throw missing_parent
     else bind (lift (optional_id validateSnapshotId (obj_get req ''snapshot_id''))) (\<lambda>snapshot_id.
       bind (lift (optional_id validateVolumeId (obj_get req ''source_volume_id''))) (\<lambda>source_volume_id.
       bind (fold_io (list_turn D snapshot_id source_volume_id) []
              [(True, volumeParent, Str ''snapshot''),
               (False, snapshotParent,
                  Str (if dr_resource D = ''filesystem'' then ''filesystem'' else ''volume''))])
         (first_page D ''ListSnapshots'' max_entries))))))"

section \<open>CreateSnapshot\<close>

definition snapshot_name_char :: "char \<Rightarrow> bool" where
  "snapshot_name_char c \<longleftrightarrow> is_alnum c \<or> c \<in> set ''_-:.+''"

definition check_snapshot_name :: "js \<Rightarrow> exn + string" where
  "check_snapshot_name v =
     ebind (as_string v) (\<lambda>name.
       if invalid_chars snapshot_name_char name \<noteq> []
       then Inl (invalid_argument (''snapshot name contains invalid characters: ''
              @ invalid_chars snapshot_name_char name))
       else Inr name)"

definition snapshot_properties :: "'e driver \<Rightarrow> jsobj \<Rightarrow> jsobj \<Rightarrow> js \<Rightarrow> string \<Rightarrow> exn + jsobj" where
  "snapshot_properties D driverOptions req name source_volume_id =
     ebind (if truthy (zopt driverOptions ''snapshotProperties'')
            then render_into D (template_context req) [] (entries (zopt driverOptions ''snapshotProperties''))
            else Inr []) (\<lambda>p.
     Inr (obj_set MANAGED_PROPERTY_NAME (Str ''true'')
           (obj_set SNAPSHOT_CSI_SOURCE_VOLUME_ID_PROPERTY_NAME (Str source_volume_id)
             (obj_set SNAPSHOT_CSI_NAME_PROPERTY_NAME name p))))"

definition name_taken :: "string \<Rightarrow> string \<Rightarrow> exn" where
  "name_taken name source_volume_id =
     grpc ALREADY_EXISTS (''snapshot name: '' @ name @ '' is incompatible with source_volume_id: ''
       @ source_volume_id @ '' due to being used with another source_volume_id'')"

text \<open>The last two segments of a detached snapshot, the two parts of the leaf of a snapshot.\<close>

definition detached_parts :: "string \<Rightarrow> string list" where
  "detached_parts dataset =
     (let parts = split_ch (CHR ''/'') dataset in drop (length parts - 2) parts)"

definition attached_parts :: "string \<Rightarrow> string list" where
  "attached_parts snapshot = split_ch (CHR ''@'') (extractLeafName snapshot)"

definition used_elsewhere :: "string \<Rightarrow> string \<Rightarrow> string list \<Rightarrow> bool" where
  "used_elsewhere name source_volume_id parts \<longleftrightarrow>
     at parts 1 = Str name \<and> at parts 0 \<noteq> Str source_volume_id"

definition check_names :: "(string \<Rightarrow> string list) \<Rightarrow> string \<Rightarrow> string \<Rightarrow> jsobj list \<Rightarrow> exn + unit" where
  "check_names parts name source_volume_id rows =
     efold (\<lambda>_ row. ebind (as_string (obj_get row ''name'')) (\<lambda>n.
              if used_elsewhere name source_volume_id (parts n)
              then Inl (name_taken name source_volume_id) else Inr ())) () rows"

definition check_name_free :: "'e driver \<Rightarrow> js \<Rightarrow> string \<Rightarrow> string \<Rightarrow> ('e world, unit) io" where
  "check_name_free D types name source_volume_id =
     andthen
       (catch
         (bind (lift (getDetachedSnapshotParentDatasetName D)) (\<lambda>parent.
          bind (zlist_rows D parent [] [(''recurse'', Bool True), (''types'', types)]) (\<lambda>rows.
          lift (check_names detached_parts name source_volume_id rows))))
         (\<lambda>err. if not_there err then ret () else throw err))
       (bind (lift (getVolumeParentDatasetName D)) (\<lambda>parent.
        bind (zlist_rows D parent [] [(''recurse'', Bool True), (''types'', types)]) (\<lambda>rows.
        lift (check_names attached_parts name source_volume_id rows))))"

definition source_missing :: "string \<Rightarrow> exn" where
  "source_missing source_volume_id =
     grpc FAILED_PRECONDITION (''snapshot source_volume_id '' @ source_volume_id @ '' does not exist'')"

definition take_detached_snapshot ::
  "'e driver \<Rightarrow> string \<Rightarrow> string \<Rightarrow> string \<Rightarrow> string \<Rightarrow> jsobj \<Rightarrow> ('e world, unit) io" where
  "take_detached_snapshot D volumeDatasetName datasetName name source_volume_id snapshotProperties =
     (let tmpSnapshotName = volumeDatasetName @ ''@'' @ VOLUME_SOURCE_DETACHED_SNAPSHOT_PREFIX @ name;
          snapshotDatasetName = datasetName @ ''/'' @ name
      in bind (zfs_create (dr_zb D) 2 datasetName [(''parents'', Bool True)]) (\<lambda>_.
         andthen (catch (bind (zfs_snapshot (dr_zb D) 1 (Str tmpSnapshotName) []) (\<lambda>_. ret ()))
                    (rethrow_as ''dataset does not exist'' (source_missing source_volume_id)))
        (andthen (catch
             (andthen (zfs_send_receive (dr_zb D) 4 tmpSnapshotName [] snapshotDatasetName [])
                      (zset D snapshotDatasetName snapshotProperties))
             (\<lambda>err. if already_received err then ret () else throw err))
        (andthen (zdestroy D (snapshotDatasetName @ ''@'' @ extractSnapshotName tmpSnapshotName) deferred)
                 (zdestroy D tmpSnapshotName deferred)))))"

definition take_snapshot :: "'e driver \<Rightarrow> string \<Rightarrow> string \<Rightarrow> jsobj \<Rightarrow> ('e world, unit) io" where
  "take_snapshot D fullSnapshotName source_volume_id snapshotProperties =
     catch (bind (zfs_snapshot (dr_zb D) 2 (Str fullSnapshotName)
                    [(''properties'', Obj snapshotProperties)]) (\<lambda>_. ret ()))
       (rethrow_as ''dataset does not exist'' (source_missing source_volume_id))"

definition snapshot_get_properties :: "string list" where
  "snapshot_get_properties = [''name'', ''creation'', ''mountpoint'', ''refquota'', ''avail'',
     ''used'', ''volsize'', ''referenced'', ''refreservation'', ''logicalused'', ''logicalreferenced'',
     VOLUME_CSI_NAME_PROPERTY_NAME, SNAPSHOT_CSI_NAME_PROPERTY_NAME,
     SNAPSHOT_CSI_SOURCE_VOLUME_ID_PROPERTY_NAME, MANAGED_PROPERTY_NAME]"

definition created_size :: "'e driver \<Rightarrow> js \<Rightarrow> exn + js" where
  "created_size D properties =
     (if dr_resource D = ''filesystem'' then
        ebind (prop_value properties ''referenced'') (\<lambda>r.
        ebind (prop_value properties ''logicalreferenced'') (\<lambda>l. Inr (getLargestNumber [r, l])))
      else prop_value properties ''volsize'')"

definition finish_snapshot ::
  "'e driver \<Rightarrow> string \<Rightarrow> string \<Rightarrow> js \<Rightarrow> string \<Rightarrow> ('e world, js) io" where
  "finish_snapshot D fullSnapshotName source_volume_id types datasetParentName =
     bind (zget D fullSnapshotName snapshot_get_properties [(''types'', types)]) (\<lambda>p.
     let properties = field p fullSnapshotName in
     bind (lift (created_size D properties)) (\<lambda>size_bytes.
     andthen (zset D fullSnapshotName [(SUCCESS_PROPERTY_NAME, Str ''true'')])
    (bind (lift (ebind (prop_value properties ''name'') (\<lambda>n. ebind (as_string n)
                   (strip_prefix (datasetParentName @ ''/''))))) (\<lambda>snapshot_id.
     bind (lift (prop_value properties ''creation'')) (\<lambda>creation.
     ret (snapshot_response size_bytes snapshot_id source_volume_id creation))))))"

definition snapshot_types :: "'e driver \<Rightarrow> bool \<Rightarrow> js" where
  "snapshot_types D detached =
     Arr [Str (if \<not> detached then ''snapshot''
               else if dr_resource D = ''filesystem'' then ''filesystem'' else ''volume'')]"

text \<open>The parent of the snapshot: of the detached snapshots, or of the volumes.\<close>

definition snapshot_parent :: "'e driver \<Rightarrow> bool \<Rightarrow> exn + string" where
  "snapshot_parent D detached =
     (if detached then getDetachedSnapshotParentDatasetName D else getVolumeParentDatasetName D)"

text \<open>What the checks of the request settle before the storage is asked for anything.\<close>

record snapshot_plan =
  sp_detached :: bool
  sp_types :: js
  sp_volumeParent :: string
  sp_parent :: string
  sp_source :: string
  sp_name :: string
  sp_properties :: jsobj

definition snapshot_request :: "'e driver \<Rightarrow> jsobj \<Rightarrow> exn + snapshot_plan" where
  "snapshot_request D req =
     ebind (own_options D) (\<lambda>driverOptions.
     let detached = detached_param D req ''detachedSnapshots'' in
     ebind (getVolumeParentDatasetName D) (\<lambda>volumeParent.
     ebind (snapshot_parent D detached) (\<lambda>datasetParentName.
     if datasetParentName = [] then Inl missing_parent
     else if \<not> truthy (obj_get req ''source_volume_id'')
     then Inl (invalid_argument ''snapshot source_volume_id is required'')
     else ebind (validateVolumeId (obj_get req ''source_volume_id'')) (\<lambda>source_volume_id.
     if \<not> truthy (obj_get req ''name'') then Inl (invalid_argument ''snapshot name is required'')
     else ebind (snapshot_properties D driverOptions req (obj_get req ''name'') source_volume_id)
       (\<lambda>snapshotProperties.
     ebind (check_snapshot_name (obj_get req ''name'')) (\<lambda>name.
     Inr \<lparr>sp_detached = detached, sp_types = snapshot_types D detached, sp_volumeParent = volumeParent,
          sp_parent = datasetParentName, sp_source = source_volume_id, sp_name = name,
          sp_properties = snapshotProperties\<rparr>))))))"

definition take_planned_snapshot :: "'e driver \<Rightarrow> snapshot_plan \<Rightarrow> ('e world, js) io" where
  "take_planned_snapshot D pl =
     (let datasetName = sp_parent pl @ ''/'' @ sp_source pl;
          fullSnapshotName =
            (if sp_detached pl then datasetName @ ''/'' @ sp_name pl else datasetName @ ''@'' @ sp_name pl)
      in andthen
        (if sp_detached pl
         then take_detached_snapshot D (sp_volumeParent pl @ ''/'' @ sp_source pl) datasetName (sp_name pl)
                (sp_source pl) (sp_properties pl)
         else take_snapshot D fullSnapshotName (sp_source pl) (sp_properties pl))
        (finish_snapshot D fullSnapshotName (sp_source pl) (sp_types pl) (sp_parent pl)))"

definition CreateSnapshot :: "'e driver \<Rightarrow> jsobj \<Rightarrow> ('e world, js) io" where
  "CreateSnapshot D req =
     bind (lift (snapshot_request D req)) (\<lambda>pl.
     andthen (check_name_free D (sp_types pl) (sp_name pl) (sp_source pl))
       (take_planned_snapshot D pl))"

section \<open>DeleteSnapshot\<close>

definition cleanup_container :: "'e driver \<Rightarrow> string \<Rightarrow> ('e world, unit) io" where
  "cleanup_container D containerDataset =
     catch
       (andthen (removeSnapshotsFromDatatset D containerDataset [])
                (bind (zfs_destroy (dr_zb D) 1 containerDataset []) (\<lambda>_. ret ())))
       (\<lambda>err. if err_has err ''filesystem has children'' then ret () else throw err)"

definition DeleteSnapshot :: "'e driver \<Rightarrow> jsobj \<Rightarrow> ('e world, unit) io" where
  "DeleteSnapshot D req =
     bind (lift (own_options D)) (\<lambda>driverOptions.
     andthen (throw_when (\<not> truthy (obj_get req ''snapshot_id''))
               (invalid_argument ''snapshot_id is required''))
    (bind (lift (validateSnapshotId (obj_get req ''snapshot_id''))) (\<lambda>snapshot_id.
     let detached = \<not> isZfsSnapshot snapshot_id in
     bind (lift (snapshot_parent D detached)) (\<lambda>datasetParentName.
     andthen (throw_when (datasetParentName = []) missing_parent)
    (let fullSnapshotName = datasetParentName @ ''/'' @ snapshot_id in
     andthen
       (catch (zdestroy D fullSnapshotName
                [(''recurse'', Bool True), (''force'', Bool True), (''defer'', Bool (isZfsSnapshot snapshot_id))])
          (rethrow_as ''snapshot has dependent clones''
             (grpc FAILED_PRECONDITION ''snapshot has dependent clones'')))
       (do_when detached
         (cleanup_container D (extractParentDatasetName fullSnapshotName))))))))"

end
