(* ===== verification/Snapshot_Lifecycle.thy ===== *)
theory Snapshot_Lifecycle
  imports Controller_Snapshots
begin

text \<open>
  What \<open>CreateSnapshot\<close> and \<open>DeleteSnapshot\<close> do to the storage over whole runs, and which
  snapshot names are taken.
\<close>

section \<open>The mark of a finished snapshot\<close>

lemma snapshot_properties_length:
  assumes "snapshot_properties D o' req name vid = Inr p"
  shows "length p \<noteq> 1"
proof
  assume 1: "length p = 1"
  from assms have "{MANAGED_PROPERTY_NAME, SNAPSHOT_CSI_NAME_PROPERTY_NAME} \<subseteq> fst ` set p"
    by (auto simp: snapshot_properties_def ebind_eq_Inr keys_obj_set)
  moreover from 1 obtain kv where "p = [kv]" by (cases p) auto
  ultimately have "MANAGED_PROPERTY_NAME = SNAPSHOT_CSI_NAME_PROPERTY_NAME" by auto
  then show False by (simp add: property_names)
qed

lemma adds_check_name_free [wp_intro]:
  "(\<And>r. P (zev D (''list'' # r))) \<Longrightarrow> adds P (check_name_free D t n v)"
  by (auto simp: check_name_free_def intro!: wp_intro)

lemma adds_take:
  assumes "length p \<noteq> 1"
  shows "adds (no_success D) (take_detached_snapshot D vd d n v p)" and "adds (no_success D) (take_snapshot D f v p)"
  using assms
  by (auto simp: take_detached_snapshot_def take_snapshot_def Let_def intro!: wp_intro no_success_set)

text \<open>Either no mark and no answer, or the mark is the last thing that happens.\<close>

definition marked_last :: "'e driver \<Rightarrow> event list \<Rightarrow> bool" where
  "marked_last D es \<longleftrightarrow> (\<exists>es0 d. es = es0 @ [success_ev D d] \<and> list_all (no_success D) es0)"

definition mark_ok :: "'e driver \<Rightarrow> event list \<Rightarrow> (exn + 'a) \<times> 'e world \<Rightarrow> bool" where
  "mark_ok D h x \<longleftrightarrow> (\<exists>es. hist (snd x) = h @ es \<and>
     (list_all (no_success D) es \<and> isl (fst x) \<or> marked_last D es))"

lemma mark_ok_wp:
  "mark_ok D h (m w) \<longleftrightarrow> wp m (\<lambda>_ w'. \<exists>es. hist w' = h @ es \<and> marked_last D es)
     (\<lambda>_ w'. \<exists>es. hist w' = h @ es \<and> (list_all (no_success D) es \<or> marked_last D es)) w"
  unfolding mark_ok_def wp_def by (cases "m w"; cases "fst (m w)") auto

lemma wp_finish_snapshot:
  fixes D :: "'e driver"
  assumes w: "hist w = h @ es0" "list_all (no_success D) es0"
  shows "wp (finish_snapshot D f v t p)
     (\<lambda>_ w'. \<exists>es. hist w' = h @ es \<and> marked_last D es)
     (\<lambda>_ w'. \<exists>es. hist w' = h @ es \<and> (list_all (no_success D) es \<or> marked_last D es)) w"
  unfolding finish_snapshot_def Let_def wp_bind wp_andthen wp_lift
proof (rule wp_adds [OF adds_zget [of "no_success D"]])
  fix x and wa :: "'e world" and es
  assume a: "hist wa = hist w @ es" "list_all (no_success D) es"
  then have h: "hist wa = h @ es0 @ es" "list_all (no_success D) (es0 @ es)" using w by simp_all
  have s: "marked_last D ((es0 @ es) @ [success_ev D f])" unfolding marked_last_def using h by blast
  show "case created_size D (field x f) of
      Inl e \<Rightarrow> \<exists>es. hist wa = h @ es \<and> (list_all (no_success D) es \<or> marked_last D es)
    | Inr size_bytes \<Rightarrow> wp (zset D f [(SUCCESS_PROPERTY_NAME, Str ''true'')])
        (\<lambda>_ w. case ebind (prop_value (field x f) ''name'') (\<lambda>n. ebind (as_string n) (strip_prefix (p @ ''/''))) of
            Inl e \<Rightarrow> \<exists>es. hist w = h @ es \<and> (list_all (no_success D) es \<or> marked_last D es)
          | Inr i \<Rightarrow> (case prop_value (field x f) ''creation'' of
              Inl e \<Rightarrow> \<exists>es. hist w = h @ es \<and> (list_all (no_success D) es \<or> marked_last D es)
            | Inr c \<Rightarrow> wp (ret (snapshot_response size_bytes i v c))
                (\<lambda>_ w'. \<exists>es. hist w' = h @ es \<and> marked_last D es)
                (\<lambda>_ w'. \<exists>es. hist w' = h @ es \<and> (list_all (no_success D) es \<or> marked_last D es)) w))
        (\<lambda>e w. \<exists>es. hist w = h @ es \<and> (list_all (no_success D) es \<or> marked_last D es)) wa"
  proof (cases "created_size D (field x f)")
    case (Inl e)
    with h show ?thesis by auto
  next
    case (Inr sz)
    have "\<exists>es. hist wb = h @ es \<and> marked_last D es" if "hist wb = hist wa @ [zev D (set_args f [(SUCCESS_PROPERTY_NAME, Str ''true'')])]" for wb
      using that s h by (auto simp: success_ev_def)
    with Inr show ?thesis
      by (auto intro!: wp_zset_hist split: sum.splits)
  qed
qed (use w in auto)

lemma snapshot_request_properties:
  "snapshot_request D req = Inr pl \<Longrightarrow> length (sp_properties pl) \<noteq> 1"
  by (auto simp: snapshot_request_def Let_def ebind_eq_Inr dest: snapshot_properties_length split: if_splits)

lemma wp_take_planned:
  fixes D :: "'e driver"
  assumes w: "hist w = h @ es0" "list_all (no_success D) es0" and p: "length (sp_properties pl) \<noteq> 1"
  shows "wp (take_planned_snapshot D pl)
     (\<lambda>_ w'. \<exists>es. hist w' = h @ es \<and> marked_last D es)
     (\<lambda>_ w'. \<exists>es. hist w' = h @ es \<and> (list_all (no_success D) es \<or> marked_last D es)) w"
  unfolding take_planned_snapshot_def Let_def wp_andthen
proof (rule wp_adds [where P = "no_success D"])
  fix wb :: "'e world" and es assume "hist wb = hist w @ es" "list_all (no_success D) es"
  with w have b: "hist wb = h @ (es0 @ es)" "list_all (no_success D) (es0 @ es)" by simp_all
  then show "\<exists>es. hist wb = h @ es \<and> (list_all (no_success D) es \<or> marked_last D es)" by blast
  show "wp (finish_snapshot D f v t q) (\<lambda>_ w'. \<exists>es. hist w' = h @ es \<and> marked_last D es)
     (\<lambda>_ w'. \<exists>es. hist w' = h @ es \<and> (list_all (no_success D) es \<or> marked_last D es)) wb" for f v t q
    by (rule wp_finish_snapshot [OF b])
qed (cases "sp_detached pl"; simp add: adds_take [OF p])


section \<open>Taken names\<close>

definition names_are :: "jsobj list \<Rightarrow> string list \<Rightarrow> bool" where
  "names_are rows ns \<longleftrightarrow> map (\<lambda>r. obj_get r ''name'') rows = map Str ns"

lemma check_names_spec:
  assumes "names_are rows ns"
  shows "check_names parts name vid rows =
    (if \<exists>n\<in>set ns. used_elsewhere name vid (parts n) then Inl (name_taken name vid) else Inr ())"
  using assms unfolding names_are_def check_names_def
proof (induction rows arbitrary: ns)
  case (Cons r rows)
  then obtain n ns' where ns: "ns = n # ns'" "obj_get r ''name'' = Str n"
    "map (\<lambda>r. obj_get r ''name'') rows = map Str ns'" by (cases ns) auto
  with Cons.IH [OF ns(3)] show ?case by (simp add: as_string_def)
qed simp

lemma attached_parts_name:
  assumes "CHR ''/'' \<notin> set v" "CHR ''/'' \<notin> set s" "CHR ''@'' \<notin> set v" "CHR ''@'' \<notin> set s"
  shows "attached_parts (p @ ''/'' @ v @ ''@'' @ s) = [v, s]"
proof -
  have "extractLeafName (p @ ''/'' @ (v @ ''@'' @ s)) = v @ ''@'' @ s"
    using assms by (intro extractLeaf_child) simp
  moreover have "split_ch (CHR ''@'') (v @ CHR ''@'' # s) = [v, s]"
    using assms(3,4) by (induction v) (auto simp: split_ch_no_sep split: list.splits)
  ultimately show ?thesis by (simp add: attached_parts_def)
qed

text \<open>
  A snapshot name belongs to one volume: among the snapshots \<open>volume@name\<close> below the
  parent of the volumes, a request is refused with ALREADY_EXISTS exactly when another
  volume than the requested one has a snapshot of the requested name.
\<close>

theorem snapshot_name_taken:
  assumes "\<And>v s. (v, s) \<in> set vs \<Longrightarrow> {CHR ''/'', CHR ''@''} \<inter> (set v \<union> set s) = {}"
    and "names_are rows (map (\<lambda>(v, s). parent @ ''/'' @ v @ ''@'' @ s) vs)"
  shows "check_names attached_parts name vid rows =
    (if \<exists>v. (v, name) \<in> set vs \<and> v \<noteq> vid then Inl (name_taken name vid) else Inr ())"
proof -
  have "used_elsewhere name vid (attached_parts (parent @ ''/'' @ v @ ''@'' @ s)) \<longleftrightarrow> s = name \<and> v \<noteq> vid"
    if "(v, s) \<in> set vs" for v s
    using assms(1) [OF that] by (auto simp: attached_parts_name [simplified] used_elsewhere_def at_def)
  then have "(\<exists>n\<in>set (map (\<lambda>(v, s). parent @ ''/'' @ v @ ''@'' @ s) vs). used_elsewhere name vid (attached_parts n))
      \<longleftrightarrow> (\<exists>v. (v, name) \<in> set vs \<and> v \<noteq> vid)"
    by auto (metis case_prod_conv)+
  then show ?thesis by (simp only: check_names_spec [OF assms(2)])
qed

theorem snapshot_name_taken_witness:
  "check_names attached_parts ''s1'' ''v2'' [[(''name'', Str ''tank/v1@s1'')], [(''name'', Str ''tank/v2@s0'')]]
   = Inl (name_taken ''s1'' ''v2'')"
proof -
  have "check_names attached_parts ''s1'' ''v2'' [[(''name'', Str ''tank/v1@s1'')], [(''name'', Str ''tank/v2@s0'')]] =
    (if \<exists>v. (v, ''s1'') \<in> set [(''v1'', ''s1''), (''v2'', ''s0'')] \<and> v \<noteq> ''v2''
     then Inl (name_taken ''s1'' ''v2'') else Inr ())"
    by (rule snapshot_name_taken [where parent = "''tank''" and vs = "[(''v1'', ''s1''), (''v2'', ''s0'')]"]) (auto simp: names_are_def obj_get_def)
  then show ?thesis by simp
qed

section \<open>Deletion\<close>

text \<open>\<open>emits_some m evs\<close>: \<open>m\<close> appends a prefix of \<open>evs\<close>, all of it when it succeeds.\<close>

definition emits_some :: "('e world, 'a) io \<Rightarrow> event list \<Rightarrow> bool" where
  "emits_some m evs \<longleftrightarrow> (\<forall>w. \<exists>n. hist (snd (m w)) = hist w @ take n evs)"

lemma emits_someD: "emits_some m evs \<Longrightarrow> \<exists>n. hist (snd (m w)) = hist w @ take n evs"
  by (simp add: emits_some_def)

lemma emits_some_andthen:
  assumes "emits m a" and "emits n b"
  shows "emits_some (andthen m n) (a @ b)"
  unfolding emits_some_def
proof
  fix w
  obtain r w1 where m: "m w = (r, w1)" by force
  with assms(1) have h: "hist w1 = hist w @ a" by (rule emitsD)
  show "\<exists>k. hist (snd (andthen m n w)) = hist w @ take k (a @ b)"
  proof (cases r)
    case (Inl e)
    with m h have "hist (snd (andthen m n w)) = hist w @ take (length a) (a @ b)"
      by (simp add: andthen_def bind_fst_Inl)
    then show ?thesis by blast
  next
    case (Inr x)
    with m have "andthen m n w = n w1" by (simp add: andthen_def bind_fst_Inr)
    with h assms(2) have "hist (snd (andthen m n w)) = hist w @ take (length (a @ b)) (a @ b)"
      by (simp add: emits_def)
    then show ?thesis by blast
  qed
qed

lemma emits_some_catch:
  assumes "emits_some m evs" and "\<And>e. emits (h e) []"
  shows "emits_some (catch m h) evs"
  using assms unfolding emits_some_def emits_def catch_def
  by (auto split: prod.splits sum.splits) (metis append_Nil2 snd_conv)+

lemma emits_destroy_plain [wp_intro]:
  "emits (bind (zfs_destroy (dr_zb D) 1 d []) (\<lambda>_. ret ())) [zev D (destroy_args d [])]"
  by (simp add: zfs_destroy_def zev_def) (intro wp_intro)

lemma emits_some_cleanup:
  "emits_some (cleanup_container D c) [zev D (destroy_args (c @ ''@%'') []), zev D (destroy_args c [])]"
proof -
  have "emits_some (andthen (removeSnapshotsFromDatatset D c [])
      (bind (zfs_destroy (dr_zb D) 1 c []) (\<lambda>_. ret ())))
    ([zev D (destroy_args (c @ ''@%'') [])] @ [zev D (destroy_args c [])])"
    by (rule emits_some_andthen) (rule wp_intro)+
  then show ?thesis unfolding cleanup_container_def
    by (intro emits_some_catch) (simp_all add: emits_ret emits_throw)
qed

definition destroy_snapshot_args :: "string \<Rightarrow> string \<Rightarrow> string list" where
  "destroy_snapshot_args dataset snapshot_id =
     destroy_args dataset [(''recurse'', Bool True), (''force'', Bool True),
       (''defer'', Bool (isZfsSnapshot snapshot_id))]"

definition container_events :: "'e driver \<Rightarrow> string \<Rightarrow> event list" where
  "container_events D c = [zev D (destroy_args (c @ ''@%'') []), zev D (destroy_args c [])]"

text \<open>Everything a deletion may do, by its request.\<close>

definition delete_snapshot_events :: "'e driver \<Rightarrow> jsobj \<Rightarrow> event list" where
  "delete_snapshot_events D req =
     (case validateSnapshotId (obj_get req ''snapshot_id'') of Inl e \<Rightarrow> [] | Inr i \<Rightarrow>
      case snapshot_parent D (\<not> isZfsSnapshot i) of Inl e \<Rightarrow> [] | Inr parent \<Rightarrow>
        zev D (destroy_snapshot_args (parent @ ''/'' @ i) i)
        # (if isZfsSnapshot i then []
           else container_events D (extractParentDatasetName (parent @ ''/'' @ i))))"

lemma emits_some_lift:
  assumes "\<And>x. r = Inr x \<Longrightarrow> emits_some (f x) evs"
  shows "emits_some (bind (lift r) f) evs"
proof (cases r)
  case (Inl e)
  then show ?thesis unfolding emits_some_def by (metis hist_lift_Inl append_Nil2 snd_conv take0)
qed (simp add: assms bind_lift_Inr)

lemma emits_some_throw_when:
  assumes "\<not> b \<Longrightarrow> emits_some m evs"
  shows "emits_some (andthen (throw_when b e) m) evs"
proof (cases b)
  case True
  then have "andthen (throw_when b e) m w = (Inl e, w)" for w
    by (simp add: throw_when_def andthen_def throw_def bind_def)
  then show ?thesis unfolding emits_some_def by (metis append_Nil2 snd_conv take0)
qed (simp add: assms throw_when_def andthen_def)

lemma emits_some_delete_rest:
  "emits_some (andthen
       (catch (zdestroy D d [(''recurse'', Bool True), (''force'', Bool True), (''defer'', Bool (isZfsSnapshot i))])
          (rethrow_as m e))
       (do_when (\<not> isZfsSnapshot i) (cleanup_container D c)))
     (zev D (destroy_snapshot_args d i) # (if isZfsSnapshot i then [] else container_events D c))"
  (is "emits_some (andthen ?a ?b) _")
proof -
  have a: "emits ?a [zev D (destroy_snapshot_args d i)]"
    unfolding destroy_snapshot_args_def by (intro wp_intro)
  show ?thesis
  proof (cases "isZfsSnapshot i")
    case True
    have "emits_some (andthen ?a (ret ())) ([zev D (destroy_snapshot_args d i)] @ [])"
      by (intro emits_some_andthen a emits_ret)
    with True show ?thesis by (simp add: do_when_def)
  next
    case False
    have "\<exists>k. hist (snd (andthen ?a (cleanup_container D c) w))
        = hist w @ take k (zev D (destroy_snapshot_args d i) # container_events D c)" for w
    proof -
      obtain r w1 where r: "?a w = (r, w1)" by force
      with a have h: "hist w1 = hist w @ [zev D (destroy_snapshot_args d i)]" by (rule emitsD)
      show ?thesis
      proof (cases r)
        case (Inl e)
        with r h show ?thesis by (auto simp: andthen_def bind_fst_Inl intro!: exI [of _ 1])
      next
        case (Inr x)
        from emits_someD [OF emits_some_cleanup, of D c w1] obtain n where
          "hist (snd (cleanup_container D c w1)) = hist w1 @ take n (container_events D c)"
          unfolding container_events_def by blast
        with Inr r h show ?thesis by (auto simp: andthen_def bind_fst_Inr intro!: exI [of _ "Suc n"])
      qed
    qed
    with False show ?thesis by (simp add: emits_some_def do_when_def)
  qed
qed

text \<open>
  C6: in every run, whatever the storage answers, \<open>DeleteSnapshot\<close> does at most this, in this
  order: destroy what the id names below its parent, for an id without an at sign with all
  that is below it and not deferred; then, only for such an id, destroy the snapshots of the
  dataset that contains it and, if nothing is left in it, that dataset.
\<close>

theorem delete_snapshot_scope:
  "\<exists>n. hist (snd (DeleteSnapshot D req w)) = hist w @ take n (delete_snapshot_events D req)"
proof (rule emits_someD)
  show "emits_some (DeleteSnapshot D req) (delete_snapshot_events D req)"
    unfolding DeleteSnapshot_def Let_def
    by (intro emits_some_lift emits_some_throw_when)
      (simp only: delete_snapshot_events_def sum.case emits_some_delete_rest)
qed

lemma wp_emits:
  assumes "emits m evs" and "\<And>x w'. hist w' = hist w @ evs \<Longrightarrow> Q x w'"
    and "\<And>e w'. hist w' = hist w @ evs \<Longrightarrow> E e w'"
  shows "wp m Q E w"
  using assms by (auto simp: wp_def emits_def split: prod.splits sum.splits) (metis snd_conv)+

lemma cleanup_first:
  "\<exists>rest. hist (snd (cleanup_container D c w)) = hist w @ zev D (destroy_args (c @ ''@%'') []) # rest"
proof -
  let ?ok = "\<lambda>w'. \<exists>rest. hist w' = hist w @ zev D (destroy_args (c @ ''@%'') []) # rest"
  have "wp (cleanup_container D c) (\<lambda>_. ?ok) (\<lambda>_. ?ok) w"
    unfolding cleanup_container_def wp_catch wp_andthen
    by (rule wp_emits [OF emits_removeSnapshots], rule wp_emits [OF emits_destroy_plain]) auto
  then show ?thesis by (auto simp: wp_def split: prod.splits sum.splits)
qed

text \<open>
  An id without a slash and without an at sign names no snapshot but, below the parent of
  the detached snapshots, the dataset that holds the detached snapshots of the volume of
  that name: \<open>DeleteSnapshot\<close> accepts it, destroys that dataset with everything in it, and
  goes on to destroy the snapshots of the parent of all detached snapshots.
\<close>

theorem delete_slashless_snapshot:
  assumes run: "DeleteSnapshot D req w = (Inr (), w')"
    and i: "obj_get req ''snapshot_id'' = Str i" "CHR ''/'' \<notin> set i" "CHR ''@'' \<notin> set i"
    and parent: "getDetachedSnapshotParentDatasetName D = Inr parent"
  shows "\<exists>rest. hist w' = hist w @ zev D (destroy_args (parent @ ''/'' @ i)
      [(''recurse'', Bool True), (''force'', Bool True), (''defer'', Bool False)])
    # zev D (destroy_args (parent @ ''@%'') []) # rest"
proof -
  have z: "\<not> isZfsSnapshot i" using i(3) by (simp add: isZfsSnapshot_def contains_single)
  from run obtain d w1 where
    1: "catch (zdestroy D d [(''recurse'', Bool True), (''force'', Bool True), (''defer'', Bool False)])
          (rethrow_as ''snapshot has dependent clones''
             (grpc FAILED_PRECONDITION ''snapshot has dependent clones'')) w = (Inr (), w1)"
    and 2: "cleanup_container D (extractParentDatasetName d) w1 = (Inr (), w')"
    and d: "d = parent @ ''/'' @ i"
    unfolding DeleteSnapshot_def i(1) Let_def using z parent
    by (auto simp: run_Inr do_when_def snapshot_parent_def dest!: validateSnapshotId_Inr)
  have "emits (catch (zdestroy D d [(''recurse'', Bool True), (''force'', Bool True), (''defer'', Bool False)])
          (rethrow_as ''snapshot has dependent clones''
             (grpc FAILED_PRECONDITION ''snapshot has dependent clones'')))
      [zev D (destroy_args d [(''recurse'', Bool True), (''force'', Bool True), (''defer'', Bool False)])]"
    by (intro wp_intro)
  from emitsD [OF this 1] cleanup_first [of D "extractParentDatasetName d" w1] 2 d extractParent_child [OF i(2)]
  show ?thesis by simp
qed

definition snaps_driver :: "nat driver" where
  "snaps_driver = sample_driver ''filesystem'' (\<lambda>args n. Closed (Some 0) [] [] False)"

lemma delete_slashless_snapshot_witness:
  "\<exists>rest. hist (snd (DeleteSnapshot snaps_driver [(''snapshot_id'', Str ''a'')] world0))
    = zev snaps_driver (destroy_args ''tank/s/a''
        [(''recurse'', Bool True), (''force'', Bool True), (''defer'', Bool False)])
      # zev snaps_driver (destroy_args ''tank/s@%'' []) # rest"
proof -
  let ?r = "DeleteSnapshot snaps_driver [(''snapshot_id'', Str ''a'')] world0"
  have 1: "fst ?r = Inr ()" by code_simp
  have 2: "obj_get [(''snapshot_id'', Str ''a'')] ''snapshot_id'' = Str ''a''"
    "getDetachedSnapshotParentDatasetName snaps_driver = Inr ''tank/s''" by code_simp+
  from delete_slashless_snapshot [OF run_fst [OF 1] 2(1) _ _ 2(2)] show ?thesis by (simp add: world0_def)
qed

end
