(* ===== verification/Volume_Creation.thy ===== *)
theory Volume_Creation
  imports Histories
begin

text \<open>
  What \<open>CreateVolume\<close> makes of a request: the capacity it provisions, the properties a clone
  gets, the snapshots it leaves behind, and the volume that later calls report.
\<close>

section \<open>The capacity\<close>

definition range_refused :: exn where
  "range_refused = grpc OUT_OF_RANGE ''required_bytes is greather than limit_bytes''"

lemma create_capacity_volume:
  assumes "create_capacity ''volume'' r bs = Inr c"
  shows "c = Num (generateZvolSize (or_else (field r ''required_bytes'') (field r ''limit_bytes'')) bs)
    \<and> \<not> above_limit c r"
  using assms by (auto simp: create_capacity_def Let_def split: if_splits)

text \<open>
  C11: a zvol is provisioned with a multiple of its block size that is at least the required
  size, less than one block above it, and not above the limit of the request.
\<close>

theorem create_capacity_bounds:
  assumes b: "map_of block_size_table (to_lower (to_str bs)) = Some b"
    and c: "create_capacity ''volume'' r bs = Inr c"
    and q: "field r ''required_bytes'' = Str (show_nat q)"
  shows "\<exists>n. c = Num (IntN n) \<and> b dvd n \<and> int q \<le> n \<and> n < int q + b
    \<and> (\<forall>l. field r ''limit_bytes'' = Str (show_nat l) \<and> 0 < l \<longrightarrow> n \<le> int l)"
proof -
  have "or_else (field r ''required_bytes'') (field r ''limit_bytes'') = Str (show_nat q)"
    by (simp add: q or_else_def)
  moreover have "to_num (Str (show_nat q)) = IntN (int q)" by simp
  from zvol_size_bounds [OF b this] obtain n where n: "generateZvolSize (Str (show_nat q)) bs = IntN n"
    "b dvd n" "int q \<le> n" "n < int q + b" by blast
  ultimately have cn: "c = Num (IntN n)" and "\<not> above_limit c r"
    using create_capacity_volume [OF c] by auto
  then have "\<not> above_limit (Num (IntN n)) r" by simp
  then have "n \<le> int l" if "field r ''limit_bytes'' = Str (show_nat l)" "0 < l" for l
    using that by (simp add: above_limit_def js_greater_def)
  with n cn show ?thesis by blast
qed

lemma create_capacity_bounds_witness:
  "\<exists>n. create_capacity ''volume'' (Obj [(''required_bytes'', Str ''1000''), (''limit_bytes'', Str ''2000'')]) (Str ''1K'')
       = Inr (Num (IntN n)) \<and> 1024 dvd n \<and> 1000 \<le> n \<and> n \<le> 2000"
proof -
  let ?r = "Obj [(''required_bytes'', Str ''1000''), (''limit_bytes'', Str ''2000'')]"
  have b: "map_of block_size_table (to_lower (to_str (Str ''1K''))) = Some 1024" by code_simp
  have n: "show_nat 1000 = ''1000''" "show_nat 2000 = ''2000''"
    by code_simp+
  have 1: "generateZvolSize (Str ''1000'') (Str ''1K'') = IntN 1024"
    using b by (simp add: generateZvolSize_def block_size_value_def round_div_def Let_def str_num_eval)
  have c: "create_capacity ''volume'' ?r (Str ''1K'') = Inr (Num (IntN 1024))"
    by (simp add: create_capacity_def range_inverted_def above_limit_def js_greater_def field_def
        obj_get_def or_else_def 1 str_num_eval)
  from create_capacity_bounds [OF b c, of 1000] c show ?thesis
    by (auto simp: field_def obj_get_def n dest: spec [of _ 2000])
qed

text \<open>
  The bounds of the requested range arrive as decimal texts and are compared as texts:
  the range is refused exactly when the text of the limit is before the text of the
  requirement. That is the order of the numbers for bounds of as many digits; a limit with
  more digits than the requirement is refused, too, when its text is smaller.
\<close>

theorem range_compared_as_text:
  assumes q: "field r ''required_bytes'' = Str (show_nat q)" "0 < q"
    and l: "field r ''limit_bytes'' = Str (show_nat l)" "0 < l"
  shows "create_capacity ''filesystem'' r bs =
      (if str_less (show_nat l) (show_nat q) then Inl range_refused else Inr (Str (show_nat q)))
    \<and> (length (show_nat l) = length (show_nat q) \<longrightarrow>
      (create_capacity ''filesystem'' r bs = Inl range_refused \<longleftrightarrow> l < q))"
proof -
  have 1: "create_capacity ''filesystem'' r bs =
      (if str_less (show_nat l) (show_nat q) then Inl range_refused else Inr (Str (show_nat q)))"
    using q l by (simp add: create_capacity_def range_inverted_def above_limit_def js_greater_def
        or_else_def range_refused_def)
  show ?thesis
    unfolding 1 using str_less_digits [of "show_nat l" "show_nat q"] show_nat_digits by simp
qed

lemma range_compared_as_text_witness:
  "create_capacity ''filesystem''
     (Obj [(''required_bytes'', Str ''9''), (''limit_bytes'', Str ''10'')]) (Str ''16K'') = Inl range_refused"
proof -
  have n: "show_nat 9 = ''9''" "show_nat 10 = ''10''" by code_simp+
  show ?thesis
    using range_compared_as_text [of "Obj [(''required_bytes'', Str ''9''), (''limit_bytes'', Str ''10'')]" 9 10]
    by (simp add: field_def obj_get_def n)
qed

section \<open>The properties of a clone\<close>

lemma map_of_copied:
  assumes "distinct (map fst props)"
  shows "map_of (foldl (\<lambda>copied (name, entry). case f name entry of
             None \<Rightarrow> copied | Some v \<Rightarrow> obj_set name (Str v) copied) acc props) k
    = (case Option.bind (map_of props k) (f k) of Some v \<Rightarrow> Some (Str v) | None \<Rightarrow> map_of acc k)"
  using assms
proof (induction props arbitrary: acc)
  case (Cons p props)
  obtain name entry where p: "p = (name, entry)" by force
  with Cons.prems have "map_of props name = None" by (simp add: map_of_eq_None_iff)
  with Cons p show ?case by (auto simp: map_of_obj_set split: option.splits)
qed simp

lemma copied_value_Some:
  "copied_value patterns src k e = Some v \<longleftrightarrow>
     user_property k \<and> truthy e \<and> field e ''value'' = Str v \<and> v \<noteq> ''-''
     \<and> set_on_source src (field e ''source'') \<and> list_ex (pattern_matches k) patterns"
  by (auto simp: copied_value_def user_property_def split: js.splits)

text \<open>
  A clone takes over from the snapshot exactly the user properties outside the namespace
  of the driver that one of the patterns matches, that have a value, and that are set on the
  source dataset itself or received with it (not those it inherits), each with its value.
\<close>

theorem copied_properties_spec:
  assumes "distinct (map fst props)" and "CHR ''@'' \<notin> set src"
  shows "map_of (selectCopiedDatasetProperties (Obj props) (Arr patterns) (src @ ''@'' @ snap)) k = Some v
    \<longleftrightarrow> (\<exists>e s. map_of props k = Some e \<and> v = Str s \<and> field e ''value'' = Str s \<and> s \<noteq> ''-'' \<and> truthy e
          \<and> user_property k
          \<and> field e ''source'' \<in> {Str ''local'', Str ''received'', Str (''inherited from '' @ src)}
          \<and> (\<exists>p\<in>set patterns. pattern_matches k p))"
proof (cases "patterns = []")
  case False
  let ?full = "src @ ''@'' @ snap"
  have "index_of ?full ''@'' = int (length src)"
    using assms(2) by (simp add: index_of_def find_at_single_append)
  then have src: "substring ?full 0 (index_of ?full ''@'') = src" by (simp add: substring_def)
  have "selectCopiedDatasetProperties (Obj props) (Arr patterns) ?full =
      foldl (\<lambda>copied (name, entry). case copied_value patterns src name entry of
         None \<Rightarrow> copied | Some v \<Rightarrow> obj_set name (Str v) copied) [] props"
    using False src by (simp add: selectCopiedDatasetProperties_def or_else_def)
  then have "map_of (selectCopiedDatasetProperties (Obj props) (Arr patterns) ?full) k =
      map_option Str (Option.bind (map_of props k) (copied_value patterns src k))"
    by (simp add: map_of_copied [OF assms(1)] split: option.splits)
  then show ?thesis
    by (cases "map_of props k")
      (auto simp: copied_value_Some set_on_source_def list_ex_iff)
qed (simp add: selectCopiedDatasetProperties_def)

lemma copied_properties_spec_witness:
  "map_of (selectCopiedDatasetProperties
     (Obj [(''team:a'', Obj [(''value'', Str ''1''), (''source'', Str ''local'')]),
           (''team:b'', Obj [(''value'', Str ''2''), (''source'', Str ''inherited from tank'')])])
     (Arr [Str ''team:*'']) ''tank/v@s'') ''team:a'' = Some (Str ''1'')"
  using copied_properties_spec [of "[(''team:a'', Obj [(''value'', Str ''1''), (''source'', Str ''local'')]),
           (''team:b'', Obj [(''value'', Str ''2''), (''source'', Str ''inherited from tank'')])]"
      "''tank/v''" "[Str ''team:*'']" "''s''" "''team:a''" "Str ''1''"]
  by (simp add: field_def obj_get_def user_property_def pattern_matches_def contains_def ends_with_def
      starts_with_def)

lemma copied_fold_keys:
  "fst ` set (foldl (\<lambda>copied (name, entry). case copied_value xs src name entry of
       None \<Rightarrow> copied | Some v \<Rightarrow> obj_set name (Str v) copied) acc props)
   \<subseteq> fst ` set acc \<union> Collect user_property"
proof (induction props arbitrary: acc)
  case (Cons p props)
  obtain name entry where p: "p = (name, entry)" by force
  show ?case
  proof (cases "copied_value xs src name entry")
    case None
    with Cons.IH [of acc] show ?thesis by (simp add: p)
  next
    case (Some v)
    then have "user_property name" by (simp add: copied_value_Some)
    with Some Cons.IH [of "obj_set name (Str v) acc"] show ?thesis
      by (simp add: p keys_obj_set insert_absorb)
  qed
qed simp

lemma copied_keys: "fst ` set (selectCopiedDatasetProperties v ps s) \<subseteq> Collect user_property"
proof (cases ps)
  case (Arr xs)
  then show ?thesis
    using copied_fold_keys [of xs "substring s 0 (index_of s ''@'')" "[]" "entries (or_else v (Obj []))"]
    by (simp add: selectCopiedDatasetProperties_def)
qed (simp_all add: selectCopiedDatasetProperties_def)

lemma render_into_keys:
  "render_into D ctx acc kvs = Inr r \<Longrightarrow> fst ` set r = fst ` set acc \<union> fst ` set kvs"
  unfolding render_into_def
proof (induction kvs arbitrary: acc)
  case (Cons kv kvs)
  obtain k v where kv: "kv = (k, v)" by force
  with Cons.prems obtain t where
    "efold (\<lambda>acc (k, v). ebind (dr_template D v ctx) (\<lambda>s. Inr (obj_set k (Str s) acc)))
       (obj_set k (Str t) acc) kvs = Inr r" by (auto simp: ebind_eq_Inr)
  from Cons.IH [OF this] kv show ?case by (simp add: keys_obj_set)
qed simp

lemma clone_js_keys [simp]:
  "fst ` set (entries (field (clone_js c) ''set'')) = fst ` set (cp_set c)" "field Undef k = Undef"
  by (simp_all add: clone_js_def field_def obj_get_def image_image case_prod_beta)

lemma buildClone_keys:
  assumes "buildCloneDatasetProperties D s c ctx w = (Inr b, w1)"
  shows "fst ` set b \<subseteq> Collect user_property \<union> fst ` set (entries (field c ''set''))"
proof -
  from assms obtain copied w2 where
    1: "(if truthy c \<and> copy_list c \<noteq> [] then
          bind (zget D s [''all''] []) (\<lambda>snapshotProperties.
            ret (obj_assign [] (selectCopiedDatasetProperties
              (lo_getPath (dr_lodash D) snapshotProperties [s]) (field c ''copy'') s)))
        else ret []) w = (Inr copied, w2)"
    and 2: "(if truthy c \<and> lo_isPlainObject (dr_lodash D) (field c ''set'')
        then lift (render_into D ctx copied (entries (field c ''set''))) else ret copied) w2 = (Inr b, w1)"
    unfolding buildCloneDatasetProperties_def bind_Inr by blast
  from 1 have "copied = [] \<or> (\<exists>v. copied = obj_assign [] (selectCopiedDatasetProperties v (field c ''copy'') s))"
    by (auto simp: run_Inr split: if_splits)
  then have c: "fst ` set copied \<subseteq> Collect user_property"
  proof
    assume "\<exists>v. copied = obj_assign [] (selectCopiedDatasetProperties v (field c ''copy'') s)"
    then obtain v where "copied = obj_assign [] (selectCopiedDatasetProperties v (field c ''copy'') s)" ..
    then have "fst ` set copied = fst ` set (selectCopiedDatasetProperties v (field c ''copy'') s)"
      by (simp only: keys_obj_assign) simp
    with copied_keys [of v] show ?thesis by (simp only:)
  qed simp
  from 2 have "copied = b \<or> render_into D ctx copied (entries (field c ''set'')) = Inr b"
    by (simp add: run_Inr split: if_splits)
  then have "fst ` set b \<subseteq> fst ` set copied \<union> fst ` set (entries (field c ''set''))"
    by (elim disjE) (simp_all add: render_into_keys)
  with c show ?thesis by blast
qed

lemma zopt_zfs_of: "zfs_shape o' \<Longrightarrow> zopt o' k = obj_get (zfs_of o') k"
  by (auto simp: zfs_shape_def zopt_def zfs_of_def field_def obj_get_def)

lemma obj_get_assign_notin: "k \<notin> fst ` set b \<Longrightarrow> obj_get (obj_assign a b) k = obj_get a k"
  by (simp add: obj_get_def map_of_obj_assign map_of_eq_None_iff [THEN iffD2])

lemma obj_get_assign_Nil: "distinct (map fst a) \<Longrightarrow> obj_get (obj_assign [] a) k = obj_get a k"
  using map_of_inject_set [of "rev a" a]
  by (simp add: obj_get_def map_of_obj_assign rev_map [symmetric] split: option.splits)


definition clone_overlay :: js where
  "clone_overlay = Obj [(''zfs'', Obj [(''datasetProperties'', Obj [(''team:name'', Num (IntN 7))]),
     (''cloneDatasetProperties'', Obj [(''copy'', Arr [Str ''*''])])])]"

definition clone_merged :: jsobj where
  "clone_merged = (case getMergedDriverOptions lodash_std sample_options [clone_overlay] of Inr o' \<Rightarrow> o' | _ \<Rightarrow> [])"

definition clone_driver :: "nat driver" where
  "clone_driver = sample_driver ''filesystem'' (\<lambda>args n. Closed (Some 0)
     (get_line ''tank/v/a@s'' MANAGED_PROPERTY_NAME ''false'' ''inherited from tank/v/a''
      @ get_line ''tank/v/a@s'' ''team:owner'' ''me'' ''inherited from tank/v/a'') [] False)"

definition cloned_properties :: "(exn + jsobj) \<times> nat world" where
  "cloned_properties = clone_volume_properties clone_driver clone_merged [] ''tank/v/a@s''
     [(MANAGED_PROPERTY_NAME, Str ''true'')] [(''team:name'', Str ''7'')] world0"


section \<open>What later calls report\<close>

definition reported :: "js \<Rightarrow> string \<Rightarrow> js" where
  "reported response k = field (field response ''volume'') k"

text \<open>The row of \<open>zfs list\<close> for a dataset with the properties that \<open>CreateVolume\<close> set.\<close>

definition row_of_volume :: "jsobj \<Rightarrow> jsobj \<Rightarrow> string \<Rightarrow> jsobj \<Rightarrow> bool" where
  "row_of_volume row driverOptions dataset ctx \<longleftrightarrow>
     obj_get row ''name'' = Str dataset \<and> obj_get row MANAGED_PROPERTY_NAME = Str ''true''
     \<and> obj_get row SHARE_VOLUME_CONTEXT_PROPERTY_NAME = Str (json_print (Obj ctx))
     \<and> obj_get row VOLUME_CONTEXT_PROVISIONER_DRIVER_PROPERTY_NAME = obj_get driverOptions ''driver''
     \<and> obj_get row VOLUME_CONTEXT_PROVISIONER_INSTANCE_ID_PROPERTY_NAME =
         or_else (obj_get driverOptions ''instance_id'') (Str ''-'')"

lemma isPropertyValueSet_Str: "isPropertyValueSet (Str s) \<longleftrightarrow> s \<noteq> [] \<and> s \<noteq> ''-''"
  by (simp add: isPropertyValueSet_def)


definition stored_row :: jsobj where
  "stored_row = [(''name'', Str ''tank/v/pvc-1''), (MANAGED_PROPERTY_NAME, Str ''true''),
     (SHARE_VOLUME_CONTEXT_PROPERTY_NAME, Str (json_print (Obj [(''server'', Str ''nas'')]))),
     (VOLUME_CONTEXT_PROVISIONER_DRIVER_PROPERTY_NAME, Str ''zfs-generic''),
     (VOLUME_CONTEXT_PROVISIONER_INSTANCE_ID_PROPERTY_NAME, Str ''-''), (''refquota'', Str ''8'')]"


section \<open>What a clone leaves behind\<close>

text \<open>
  A volume created from another volume is made through one snapshot of the source. A
  detached copy is sent and received whole, gets its properties, and then loses its copy of
  the snapshot before the snapshot itself is destroyed; a clone keeps its snapshot. Nothing
  else is run but queries.
\<close>

theorem volume_copy_steps:
  fixes D :: "'e driver"
  assumes run: "create_from_volume D o' req d vid vp op source w = (Inr (), w')"
    and parent: "getVolumeParentDatasetName D = Inr parent"
    and sid: "validateVolumeId (field (field source ''volume'') ''volume_id'') = Inr sid"
  shows "\<exists>gets p. list_all (quiet D) gets \<and>
    (let s = parent @ ''/'' @ sid @ ''@'' @ VOLUME_SOURCE_CLONE_SNAPSHOT_PREFIX @ vid
     in hist w' = hist w @ [zev D [''snapshot'', s]] @ gets @
       (if detached_param D req ''detachedVolumesFromVolumes''
        then [send_event D (send_receive_command (dr_zb D) s [] d []), zev D (set_args d p),
              zev D (destroy_args (d @ ''@%'') [(''force'', Bool True)]), zev D (destroy_args s deferred)]
        else [zev D ([''clone''] @ property_args ''-o'' (Obj (clone_undesired p)) @ [s, d])]))"
proof -
  define s where "s = parent @ ''/'' @ sid @ ''@'' @ VOLUME_SOURCE_CLONE_SNAPSHOT_PREFIX @ vid"
  define vp' where "vp' = obj_set VOLUME_CONTENT_SOURCE_ID_PROPERTY_NAME (field (field source ''volume'') ''volume_id'') vp"
  define snap where "snap = (catch (bind (zfs_snapshot (dr_zb D) 1 (Str s) []) (\<lambda>_. ret ()))
        (rethrow_as ''dataset does not exist'' (grpc NOT_FOUND ''dataset does not exists'')) :: ('e world, unit) io)"
  have id: "ebind (getp source ''volume'') (\<lambda>s. getp s ''volume_id'') = Inr (field (field source ''volume'') ''volume_id'')"
    using run by (auto simp: create_from_volume_def run_Inr parent ebind_eq_Inr getp_def field_def split: option.splits)
  have "create_from_volume D o' req d vid vp op source =
      andthen snap (bind (clone_volume_properties D o' req s vp' op)
        (copy_volume D (detached_param D req ''detachedVolumesFromVolumes'') s d))"
    by (simp only: create_from_volume_def Let_def parent id sid bind_lift_Inr snap_def s_def vp'_def append.assoc)
  with run obtain w1 p w2 where 1: "snap w = (Inr (), w1)"
    and 2: "clone_volume_properties D o' req s vp' op w1 = (Inr p, w2)"
    and 3: "copy_volume D (detached_param D req ''detachedVolumesFromVolumes'') s d p w2 = (Inr (), w')"
    by (auto simp: andthen_Inr bind_Inr)
  have "emits snap [zev D [''snapshot'', s]]" unfolding snap_def by (intro wp_intro)
  from emitsD [OF this 1] have h1: "hist w1 = hist w @ [zev D [''snapshot'', s]]" .
  have "adds (quiet D) (clone_volume_properties D o' req s vp' op)"
    by (auto simp: clone_volume_properties_def intro!: wp_intro)
  from addsD [OF this, of w1] 2 obtain gets where h2: "hist w2 = hist w1 @ gets" "list_all (quiet D) gets"
    by auto
  from 2 obtain c where "p = obj_assign (obj_assign (obj_assign [] vp') c) op"
    by (auto simp: clone_volume_properties_def run_Inr)
  then have "VOLUME_CONTENT_SOURCE_ID_PROPERTY_NAME \<in> fst ` set p"
    by (simp only: keys_obj_assign vp'_def keys_obj_set) simp
  then have p: "p \<noteq> []" by auto
  show ?thesis
    unfolding Let_def s_def [symmetric] copy_volume_hist [OF 3 p] h2(1) h1
    by (intro exI [of _ gets] exI [of _ p] conjI h2(2)) simp
qed

definition copy_driver :: "nat driver" where
  "copy_driver = sample_driver ''filesystem'' (\<lambda>args n. Closed (Some 0) [] [] False)"

definition copy_request :: jsobj where
  "copy_request = [(''parameters'', Obj [(''detachedVolumesFromVolumes'', Str ''true'')])]"

definition copy_source :: js where
  "copy_source = Obj [(''type'', Str ''volume''), (''volume'', Obj [(''volume_id'', Str ''a'')])]"

definition sample_copy :: "(exn + unit) \<times> nat world" where
  "sample_copy = create_from_volume copy_driver (dr_options copy_driver) copy_request ''tank/v/b'' ''b'' [] []
     copy_source world0"

lemma volume_copy_steps_witness:
  "\<exists>gets p. list_all (quiet copy_driver) gets \<and>
     hist (snd sample_copy) = [zev copy_driver [''snapshot'', ''tank/v/a@volume-source-for-volume-b'']] @ gets @
       [send_event copy_driver (send_receive_command (dr_zb copy_driver)
          ''tank/v/a@volume-source-for-volume-b'' [] ''tank/v/b'' []),
        zev copy_driver (set_args ''tank/v/b'' p),
        zev copy_driver (destroy_args ''tank/v/b@%'' [(''force'', Bool True)]),
        zev copy_driver (destroy_args ''tank/v/a@volume-source-for-volume-b'' deferred)]"
proof -
  have "fst sample_copy = Inr ()" by code_simp
  then have run: "create_from_volume copy_driver (dr_options copy_driver) copy_request ''tank/v/b'' ''b'' [] []
     copy_source world0 = (Inr (), snd sample_copy)"
    by (simp add: sample_copy_def prod_eq_iff)
  have 1: "getVolumeParentDatasetName copy_driver = Inr ''tank/v''" by code_simp
  have 2: "validateVolumeId (field (field copy_source ''volume'') ''volume_id'') = Inr ''a''" by code_simp
  have 3: "detached_param copy_driver copy_request ''detachedVolumesFromVolumes''" by code_simp
  from volume_copy_steps [OF run 1 2] show ?thesis
    by (simp add: 3 Let_def VOLUME_SOURCE_CLONE_SNAPSHOT_PREFIX_def world0_def)
qed

end
