(* ===== verification/Zpool.thy ===== *)
theory Zpool
  imports Zetabyte
begin

text \<open>
  The \<open>zpool\<close> sub-commands of \<open>Zetabyte\<close> (\<open>src/utils/zfs.js\<close>). Several of them read
  \<open>options\<close> where their own parameter list has none: that name is the parameter of the
  constructor, so they read the options of the instance. \<open>add\<close>, \<open>attach\<close>,
  \<open>checkpoint\<close>, \<open>clear\<close>, \<open>get\<close>, \<open>iostat\<close>, \<open>labelclear\<close> and \<open>split\<close>
  have empty bodies.
\<close>

section \<open>create\<close>

text \<open>The arguments of a list of devices; None is the TypeError of a missing property.\<close>

definition name_of_dev :: "js \<Rightarrow> string option" where
  "name_of_dev dev = map_option to_str (get_prop dev ''name'')"

fun dev_names :: "js \<Rightarrow> string list option" where
  "dev_names (Arr ds) = those (map name_of_dev ds)"
| "dev_names _ = None"

definition vdev_args :: "js \<Rightarrow> string list option" where
  "vdev_args vdev =
     (case (get_prop vdev ''type'', get_prop vdev ''devices'') of
        (Some t, Some ds) \<Rightarrow>
          map_option ((@) (flag t (to_str t)))
            (if truthy ds then dev_names ds
             else map_option (\<lambda>n. [n]) (name_of_dev vdev))
      | _ \<Rightarrow> None)"

fun vdevs_args :: "js \<Rightarrow> string list option" where
  "vdevs_args (Arr vs) = map_option concat (those (map vdev_args vs))"
| "vdevs_args _ = None"

definition class_args :: "js \<Rightarrow> string \<Rightarrow> string list option" where
  "class_args ds name = (if truthy ds then map_option ((#) name) (dev_names ds) else Some [])"

definition zpool_create_args :: "string \<Rightarrow> jsobj \<Rightarrow> string list option" where
  "zpool_create_args pool options =
     (case (vdevs_args (obj_get options ''vdevs''), class_args (obj_get options ''spares'') ''spare'',
            class_args (obj_get options ''logs'') ''log'', class_args (obj_get options ''cache'') ''cache'') of
        (Some vdevs, Some spares, Some logs, Some cache) \<Rightarrow>
          Some ([''create''] @ flag (obj_get options ''force'') ''-f''
            @ flag (obj_get options ''noop'') ''-n''
            @ flag (obj_get options ''disableFeatures'') ''-d''
            @ property_args ''-o'' (obj_get options ''properties'')
            @ property_args ''-O'' (obj_get options ''fsProperties'')
            @ flag_value (obj_get options ''mountpoint'') ''-m''
            @ flag_value (obj_get options ''root'') ''-R''
            @ flag_value (obj_get options ''tempname'') ''-t''
            @ [pool] @ vdevs @ spares @ logs @ cache)
      | _ \<Rightarrow> None)"

definition zpool_create :: "'e zetabyte \<Rightarrow> nat \<Rightarrow> string \<Rightarrow> jsobj \<Rightarrow> ('e world, string) io" where
  "zpool_create Z nargs pool options =
     (if nargs \<noteq> 2 then throw (js_error ''Invalid arguments, 2 arguments required'')
      else case zpool_create_args pool options of
        None \<Rightarrow> throw (type_error ''vdevs'')
      | Some args \<Rightarrow> zpool_run Z args)"

section \<open>The other commands\<close>

definition zpool_destroy :: "'e zetabyte \<Rightarrow> nat \<Rightarrow> string \<Rightarrow> ('e world, string) io" where
  "zpool_destroy Z nargs pool =
     (if nargs \<noteq> 1 then throw invalid_arguments
      else zpool_run Z ([''destroy''] @ flag (zb_opt Z ''force'') ''-f'' @ [pool]))"

definition zpool_detach :: "'e zetabyte \<Rightarrow> nat \<Rightarrow> string \<Rightarrow> string \<Rightarrow> ('e world, string) io" where
  "zpool_detach Z nargs pool device =
     (if nargs \<noteq> 2 then throw invalid_arguments
      else zpool_run Z [''detach'', pool, device])"

text \<open>\<open>export\<close> has one parameter and insists on two arguments.\<close>

definition zpool_export :: "'e zetabyte \<Rightarrow> nat \<Rightarrow> js \<Rightarrow> ('e world, string) io" where
  "zpool_export Z nargs pool =
     (if nargs \<noteq> 2 then throw invalid_arguments
      else zpool_run Z ([''export''] @ flag (zb_opt Z ''force'') ''-f'' @ each_item pool))"

definition zpool_history :: "'e zetabyte \<Rightarrow> js \<Rightarrow> ('e world, string) io" where
  "zpool_history Z pool =
     zpool_run Z ([''history''] @ flag (zb_opt Z ''internal'') ''-i''
       @ flag (zb_opt Z ''longFormat'') ''-l'' @ each_item pool)"

definition zpool_import :: "'e zetabyte \<Rightarrow> jsobj \<Rightarrow> ('e world, string) io" where
  "zpool_import Z options =
     zpool_run Z ([''import''] @ flag_value (obj_get options ''dir'') ''-d''
       @ flag_value (obj_get options ''cachefile'') ''-c''
       @ flag (obj_get options ''destroyed'') ''-D'')"

definition zpool_list_args :: "js \<Rightarrow> js \<Rightarrow> jsobj \<Rightarrow> string list" where
  "zpool_list_args pool properties options =
     ([''list'']
       @ flag (or_else (obj_get options ''parseable'') (obj_get options ''parse'')) ''-Hp''
       @ flag (obj_get options ''verbose'') ''-v'' @ [''-o'', to_str properties]
       @ flag_value (obj_get options ''timestamp'') ''-T'' @ optional_items pool
       @ flag (obj_get options ''interval'') (to_str (obj_get options ''interval''))
       @ flag (obj_get options ''count'') (to_str (obj_get options ''count'')))"

definition zpool_list ::
  "'e zetabyte \<Rightarrow> nat \<Rightarrow> js \<Rightarrow> js \<Rightarrow> jsobj \<Rightarrow> ('e world, list_result) io" where
  "zpool_list Z nargs pool properties options =
     (if \<not> nargs \<ge> 1 then throw invalid_arguments
      else let properties = listed_properties DEFAULT_ZPOOL_LIST_PROPERTIES properties;
               options = parse_defaults options
           in bind (zpool_run Z (zpool_list_args pool properties options))
                (\<lambda>stdout. if truthy (obj_get options ''parse'') then list_table properties stdout
                          else ret (Raw properties stdout)))"

definition zpool_offline :: "'e zetabyte \<Rightarrow> string \<Rightarrow> string \<Rightarrow> jsobj \<Rightarrow> ('e world, string) io" where
  "zpool_offline Z pool device options =
     zpool_run Z ([''offline''] @ flag (obj_get options ''temporary'') ''-t'' @ [pool, device])"

definition zpool_online :: "'e zetabyte \<Rightarrow> string \<Rightarrow> string \<Rightarrow> jsobj \<Rightarrow> ('e world, string) io" where
  "zpool_online Z pool device options =
     zpool_run Z ([''online''] @ flag (obj_get options ''expand'') ''-e'' @ [pool, device])"

definition zpool_reguid :: "'e zetabyte \<Rightarrow> string \<Rightarrow> ('e world, string) io" where
  "zpool_reguid Z pool = zpool_run Z [''reguid'', pool]"

definition zpool_remove :: "'e zetabyte \<Rightarrow> string \<Rightarrow> js \<Rightarrow> jsobj \<Rightarrow> ('e world, string) io" where
  "zpool_remove Z pool device options =
     zpool_run Z ([''remove''] @ flag (obj_get options ''noop'') ''-n''
       @ flag (obj_get options ''parsable'') ''-p'' @ flag (obj_get options ''stop'') ''-s''
       @ [pool] @ flag device (to_str device))"

definition zpool_reopen :: "'e zetabyte \<Rightarrow> string \<Rightarrow> ('e world, string) io" where
  "zpool_reopen Z pool = zpool_run Z [''reopen'', pool]"

definition zpool_replace :: "'e zetabyte \<Rightarrow> string \<Rightarrow> string \<Rightarrow> js \<Rightarrow> ('e world, string) io" where
  "zpool_replace Z pool device new_device =
     zpool_run Z ([''replace''] @ flag (zb_opt Z ''force'') ''-f'' @ [pool, device]
       @ flag new_device (to_str new_device))"

definition zpool_scrub :: "'e zetabyte \<Rightarrow> js \<Rightarrow> ('e world, string) io" where
  "zpool_scrub Z pool =
     zpool_run Z ([''scrub''] @ flag (zb_opt Z ''stop'') ''-s'' @ flag (zb_opt Z ''pause'') ''-p''
       @ each_item pool)"

definition zpool_set :: "'e zetabyte \<Rightarrow> string \<Rightarrow> string \<Rightarrow> js \<Rightarrow> ('e world, string) io" where
  "zpool_set Z pool property value =
     zpool_run Z [''set'', property @ ''='' @ to_str value, pool]"

section \<open>status\<close>

text \<open>
  The state line of the output. The test for the empty system compares a trimmed string with
  one that ends in a newline, so it never succeeds; such output has no state line either.
\<close>

fun state_line :: "string list \<Rightarrow> string option" where
  "state_line [] = None"
| "state_line (l # ls) =
     (if substring (trim l) 0 5 = ''state'' then Some (substring_from (trim l) 7) else state_line ls)"

definition parse_status :: "bool \<Rightarrow> string \<Rightarrow> string" where
  "parse_status error stdout =
     (let stdout = trim stdout
      in if error \<or> stdout = ''no pools available'' @ [CHR 10] then ''UNKNOWN''
         else case state_line (split_ch (CHR 10) stdout) of Some s \<Rightarrow> s | None \<Rightarrow> ''UNKNOWN'')"

definition zpool_status_args :: "js \<Rightarrow> jsobj \<Rightarrow> string list" where
  "zpool_status_args pool options =
     ([''status''] @ flag (obj_get options ''verbose'') ''-v''
       @ flag (obj_get options ''exhibiting'') ''-x''
       @ flag_value (obj_get options ''timestamp'') ''-T'' @ optional_items pool
       @ flag (obj_get options ''interval'') (to_str (obj_get options ''interval''))
       @ flag (obj_get options ''count'') (to_str (obj_get options ''count'')))"

definition zpool_status :: "'e zetabyte \<Rightarrow> js \<Rightarrow> jsobj \<Rightarrow> ('e world, string) io" where
  "zpool_status Z pool options =
     (let options = set_default ''parse'' (Bool True) options
      in bind (zb_exec Z (zb_path Z ''zpool'') (zpool_status_args pool options) (timeout_opts Z))
           (\<lambda>(error, stdout, stderr).
              if truthy (obj_get options ''parse'') then ret (parse_status (truthy error) stdout)
              else if truthy error then throw (StrError stderr) else ret stdout))"

definition zpool_upgrade :: "'e zetabyte \<Rightarrow> js \<Rightarrow> ('e world, string) io" where
  "zpool_upgrade Z pool =
     zpool_run Z ([''upgrade''] @ flag_value (zb_opt Z ''version'') ''-V''
       @ flag (zb_opt Z ''all'') ''-a'' @ optional_items pool)"

end
