(* ===== verification/Operation_Lock.thy ===== *)
theory Operation_Lock
  imports General
begin

text \<open>
  \<open>src/utils/operation_lock.js\<close> and its client, the request proxy of
  \<open>bin/democratic-csi\<close>. The lock table is a \<open>Map\<close> from keys to entries (token, time
  of acquisition, label); time is the value \<open>this.now()\<close> returns. The step relation at
  the end is the proxy: requests begin, are refused, end, and the clock moves forward.
\<close>

record lock_entry =
  token :: nat
  acquiredAt :: int
  operation :: string

record op_lock =
  maxHoldMs :: int
  held :: "(string \<times> lock_entry) list"
  nextToken :: nat

definition DEFAULT_MAX_HOLD_MS :: int where
  "DEFAULT_MAX_HOLD_MS = 30 * 60 * 1000"

text \<open>\<open>value\<close> when it is a non-negative integer, then the environment variable, then the default.\<close>

definition resolveMaxHoldMs :: "js \<Rightarrow> string option \<Rightarrow> int" where
  "resolveMaxHoldMs v fromEnv =
     (case v of
        Num (IntN i) \<Rightarrow> if i \<ge> 0 then i else
          (case fromEnv of
             Some s \<Rightarrow> if all_digits s then int (parse_nat s) else DEFAULT_MAX_HOLD_MS
           | None \<Rightarrow> DEFAULT_MAX_HOLD_MS)
      | _ \<Rightarrow>
          (case fromEnv of
             Some s \<Rightarrow> if all_digits s then int (parse_nat s) else DEFAULT_MAX_HOLD_MS
           | None \<Rightarrow> DEFAULT_MAX_HOLD_MS))"

definition new_op_lock :: "js \<Rightarrow> string option \<Rightarrow> op_lock" where
  "new_op_lock v fromEnv = \<lparr>maxHoldMs = resolveMaxHoldMs v fromEnv, held = [], nextToken = 1\<rparr>"

definition isStale :: "op_lock \<Rightarrow> lock_entry \<Rightarrow> int \<Rightarrow> bool" where
  "isStale l entry now \<longleftrightarrow> maxHoldMs l > 0 \<and> now - acquiredAt entry \<ge> maxHoldMs l"

text \<open>The three loops of \<open>acquire\<close>: the check, the eviction of stale entries, the insertion.\<close>

definition blocked :: "op_lock \<Rightarrow> int \<Rightarrow> string list \<Rightarrow> bool" where
  "blocked l now keys \<longleftrightarrow>
     list_ex (\<lambda>k. case map_of (held l) k of Some e \<Rightarrow> \<not> isStale l e now | None \<Rightarrow> False) keys"

definition evict :: "string list \<Rightarrow> (string \<times> lock_entry) list \<Rightarrow> (string \<times> lock_entry) list" where
  "evict keys h =
     foldl (\<lambda>m k. case map_of m k of Some e \<Rightarrow> if True then obj_delete k m else m | None \<Rightarrow> m) h keys"

definition acquire :: "string list \<Rightarrow> string \<Rightarrow> int \<Rightarrow> op_lock \<Rightarrow> nat option \<times> op_lock" where
  "acquire keys op now l =
     (if blocked l now keys then (None, l)
      else let h = evict keys (held l); t = nextToken l in
        (Some t,
         l\<lparr>held := foldl (\<lambda>m k. obj_set k \<lparr>token = t, acquiredAt = now, operation = op\<rparr> m) h keys,
           nextToken := t + 1\<rparr>))"

definition release :: "string list \<Rightarrow> nat \<Rightarrow> op_lock \<Rightarrow> op_lock" where
  "release keys t l =
     l\<lparr>held := foldl (\<lambda>m k. case map_of m k of
                Some e \<Rightarrow> if token e = t then obj_delete k m else m | None \<Rightarrow> m) (held l) keys\<rparr>"

definition has_key :: "op_lock \<Rightarrow> string \<Rightarrow> bool" where
  "has_key l k \<longleftrightarrow> map_of (held l) k \<noteq> None"

section \<open>The contract of a keyed lock\<close>

text \<open>
  What the proxy relies on: who holds a key and since when, whether a holding has expired,
  and how taking and dropping change the holders. \<open>next_tok\<close> bounds the tokens handed out.
\<close>

locale keyed_lock =
  fixes holder :: "'s \<Rightarrow> 'k \<Rightarrow> (nat \<times> int) option"
    and expired :: "'s \<Rightarrow> int \<Rightarrow> int \<Rightarrow> bool"
    and next_tok :: "'s \<Rightarrow> nat"
    and take_keys :: "'k list \<Rightarrow> int \<Rightarrow> 's \<Rightarrow> nat option \<times> 's"
    and drop_keys :: "'k list \<Rightarrow> nat \<Rightarrow> 's \<Rightarrow> 's"
  assumes take_some: "take_keys ks now s = (Some t, s') \<Longrightarrow>
      holder s' k = (if k \<in> set ks then Some (t, now) else holder s k)"
    and take_some_free: "take_keys ks now s = (Some t, s') \<Longrightarrow> k \<in> set ks \<Longrightarrow>
      holder s k = Some (u, a) \<Longrightarrow> expired s a now"
    and take_some_tok: "take_keys ks now s = (Some t, s') \<Longrightarrow> t = next_tok s \<and> next_tok s' = Suc t"
    and take_none: "take_keys ks now s = (None, s') \<Longrightarrow> s' = s"
    and take_expired: "take_keys ks now s = (r, s') \<Longrightarrow> expired s' = expired s"
    and drop_holder: "holder (drop_keys ks t s) k =
      (case holder s k of Some (u, a) \<Rightarrow> if k \<in> set ks \<and> u = t then None else Some (u, a) | None \<Rightarrow> None)"
    and drop_tok: "next_tok (drop_keys ks t s) = next_tok s"
    and drop_expired: "expired (drop_keys ks t s) = expired s"
    and expired_later: "expired s a n \<Longrightarrow> n \<le> n' \<Longrightarrow> expired s a n'"
begin

text \<open>
  \<open>agrees s R now\<close>: the table and the running requests \<open>R\<close> (token, keys, start) describe
  the same holdings. Every holding belongs to a running request, tokens are unique, and a
  request that has not expired holds all its keys.
\<close>

definition agrees :: "'s \<Rightarrow> (nat \<times> 'k list \<times> int) set \<Rightarrow> int \<Rightarrow> bool" where
  "agrees s R now \<longleftrightarrow>
     (\<forall>k u a. holder s k = Some (u, a) \<longrightarrow> (\<exists>ks. (u, ks, a) \<in> R \<and> k \<in> set ks)) \<and>
     (\<forall>u ks a. (u, ks, a) \<in> R \<longrightarrow> u < next_tok s) \<and>
     (\<forall>u ks a ks' a'. (u, ks, a) \<in> R \<longrightarrow> (u, ks', a') \<in> R \<longrightarrow> ks = ks' \<and> a = a') \<and>
     (\<forall>u ks a. (u, ks, a) \<in> R \<longrightarrow> \<not> expired s a now \<longrightarrow> (\<forall>k\<in>set ks. holder s k = Some (u, a)))"

lemma agrees_held: "agrees s R now \<Longrightarrow> holder s k = Some (u, a) \<Longrightarrow> \<exists>ks. (u, ks, a) \<in> R \<and> k \<in> set ks"
  by (simp add: agrees_def)

lemma agrees_bound: "agrees s R now \<Longrightarrow> (u, ks, a) \<in> R \<Longrightarrow> u < next_tok s"
  unfolding agrees_def by blast

lemma agrees_unique:
  "agrees s R now \<Longrightarrow> (u, ks, a) \<in> R \<Longrightarrow> (u, ks', a') \<in> R \<Longrightarrow> ks = ks' \<and> a = a'"
  unfolding agrees_def by blast

lemma agrees_live:
  "agrees s R now \<Longrightarrow> (u, ks, a) \<in> R \<Longrightarrow> \<not> expired s a now \<Longrightarrow> k \<in> set ks \<Longrightarrow> holder s k = Some (u, a)"
  unfolding agrees_def by blast

lemma agreesI:
  assumes "\<And>k u a. holder s k = Some (u, a) \<Longrightarrow> \<exists>ks. (u, ks, a) \<in> R \<and> k \<in> set ks"
    and "\<And>u ks a. (u, ks, a) \<in> R \<Longrightarrow> u < next_tok s"
    and "\<And>u ks a ks' a'. (u, ks, a) \<in> R \<Longrightarrow> (u, ks', a') \<in> R \<Longrightarrow> ks = ks' \<and> a = a'"
    and "\<And>u ks a k. (u, ks, a) \<in> R \<Longrightarrow> \<not> expired s a now \<Longrightarrow> k \<in> set ks \<Longrightarrow> holder s k = Some (u, a)"
  shows "agrees s R now"
  unfolding agrees_def using assms by blast

lemma agrees_take:
  assumes inv: "agrees s R now" and t: "take_keys ks now s = (Some t, s')"
  shows "agrees s' (insert (t, ks, now) R) now"
proof (rule agreesI)
  note new = take_some [OF t]
  have fresh: "u < t" if "(u, ks', a) \<in> R" for u ks' a
    using agrees_bound [OF inv that] take_some_tok [OF t] by simp
  fix k u a ks' ks2 a2
  show "\<exists>ks'. (u, ks', a) \<in> insert (t, ks, now) R \<and> k \<in> set ks'" if "holder s' k = Some (u, a)"
    using that agrees_held [OF inv, of k u a] by (cases "k \<in> set ks") (auto simp: new)
  assume r: "(u, ks', a) \<in> insert (t, ks, now) R"
  then show "u < next_tok s'" using take_some_tok [OF t] fresh [of u ks' a] by auto
  show "ks' = ks2 \<and> a = a2" if r2: "(u, ks2, a2) \<in> insert (t, ks, now) R"
    using r r2 fresh [of u ks' a] fresh [of u ks2 a2] agrees_unique [OF inv, of u ks' a ks2 a2] by auto
  assume live: "\<not> expired s' a now" and k: "k \<in> set ks'"
  show "holder s' k = Some (u, a)"
  proof (cases "(u, ks', a) \<in> R")
    case True
    from live take_expired [OF t] have l: "\<not> expired s a now" by simp
    from agrees_live [OF inv True l k] have h: "holder s k = Some (u, a)" .
    with take_some_free [OF t _ h] l have "k \<notin> set ks" by blast
    with h show ?thesis by (simp add: new)
  qed (use r k in \<open>auto simp: new\<close>)
qed

lemma agrees_drop:
  assumes inv: "agrees s R now" and r: "(t, ks, a) \<in> R"
  shows "agrees (drop_keys ks t s) (R - {(t, ks, a)}) now"
proof (rule agreesI)
  fix k u b ks' ks2 b2
  show "\<exists>ks'. (u, ks', b) \<in> R - {(t, ks, a)} \<and> k \<in> set ks'"
    if "holder (drop_keys ks t s) k = Some (u, b)"
  proof -
    from that have hs: "holder s k = Some (u, b)" and n: "\<not> (k \<in> set ks \<and> u = t)"
      by (auto simp: drop_holder split: option.splits if_splits)
    from agrees_held [OF inv hs] n show ?thesis by blast
  qed
  assume "(u, ks', b) \<in> R - {(t, ks, a)}"
  then have u: "(u, ks', b) \<in> R" and ne: "u \<noteq> t"
    using agrees_unique [OF inv _ r] by blast+
  show "u < next_tok (drop_keys ks t s)" using agrees_bound [OF inv u] by (simp add: drop_tok)
  show "ks' = ks2 \<and> b = b2" if "(u, ks2, b2) \<in> R - {(t, ks, a)}"
    using agrees_unique [OF inv u] that by blast
  assume "\<not> expired (drop_keys ks t s) b now" and "k \<in> set ks'"
  then show "holder (drop_keys ks t s) k = Some (u, b)"
    using agrees_live [OF inv u] ne by (simp add: drop_holder drop_expired)
qed

lemma agrees_tick: "agrees s R now \<Longrightarrow> now \<le> now' \<Longrightarrow> agrees s R now'"
  by (rule agreesI) (blast dest: agrees_held agrees_bound agrees_unique agrees_live expired_later)+

text \<open>Two running requests that have not expired share no key.\<close>

lemma live_disjoint:
  assumes "agrees s R now" and "(t, ks, a) \<in> R" and "(u, js, b) \<in> R" and "t \<noteq> u"
    and "\<not> expired s a now" and "\<not> expired s b now"
  shows "set ks \<inter> set js = {}"
proof (rule ccontr)
  assume "set ks \<inter> set js \<noteq> {}"
  then obtain k where k: "k \<in> set ks" "k \<in> set js" by blast
  then have "holder s k = Some (t, a)" "holder s k = Some (u, b)"
    using assms by (blast intro: agrees_live)+
  with \<open>t \<noteq> u\<close> show False by simp
qed

end

section \<open>The operation lock meets the contract\<close>

definition lock_holder :: "op_lock \<Rightarrow> string \<Rightarrow> (nat \<times> int) option" where
  "lock_holder l k = map_option (\<lambda>e. (token e, acquiredAt e)) (map_of (held l) k)"

definition lock_expired :: "op_lock \<Rightarrow> int \<Rightarrow> int \<Rightarrow> bool" where
  "lock_expired l a now \<longleftrightarrow> maxHoldMs l > 0 \<and> now - a \<ge> maxHoldMs l"

lemma evict_lookup: "map_of (evict keys h) k = (if k \<in> set keys then None else map_of h k)"
  unfolding evict_def by (simp only: obj.look_del_if) (auto split: option.splits)

lemma blocked_iff:
  "blocked l now keys \<longleftrightarrow> (\<exists>k\<in>set keys. \<exists>e. map_of (held l) k = Some e \<and> \<not> isStale l e now)"
  by (auto simp: blocked_def list_ex_iff split: option.splits)

lemma acquire_lookup:
  "acquire keys op now l = (Some t, l') \<Longrightarrow>
   map_of (held l') k =
     (if k \<in> set keys then Some \<lparr>token = t, acquiredAt = now, operation = op\<rparr> else map_of (held l) k)"
  by (auto simp: acquire_def Let_def obj.look_put_all evict_lookup split: if_splits)

lemma acquire_SomeD:
  "acquire keys op now l = (Some t, l') \<Longrightarrow>
   \<not> blocked l now keys \<and> t = nextToken l \<and> nextToken l' = Suc t \<and> maxHoldMs l' = maxHoldMs l"
  by (auto simp: acquire_def Let_def split: if_splits)

lemma acquire_NoneD: "acquire keys op now l = (None, l') \<Longrightarrow> blocked l now keys \<and> l' = l"
  by (auto simp: acquire_def Let_def split: if_splits)

lemma release_lookup:
  "map_of (held (release keys t l)) k =
     (case map_of (held l) k of
        Some e \<Rightarrow> if k \<in> set keys \<and> token e = t then None else Some e | None \<Rightarrow> None)"
  by (simp add: release_def obj.look_del_if)

lemma release_frame [simp]:
  "nextToken (release keys t l) = nextToken l" "maxHoldMs (release keys t l) = maxHoldMs l"
  by (simp_all add: release_def)

interpretation oplock: keyed_lock lock_holder lock_expired nextToken
    "\<lambda>keys now l. acquire keys op now l" release for op
proof unfold_locales
  fix ks now s t s' k
  assume t: "acquire ks op now s = (Some t, s')"
  then show "lock_holder s' k = (if k \<in> set ks then Some (t, now) else lock_holder s k)"
    by (simp add: lock_holder_def acquire_lookup)
  fix u a assume "k \<in> set ks" "lock_holder s k = Some (u, a)"
  with acquire_SomeD [OF t] show "lock_expired s a now"
    by (auto simp: blocked_iff lock_holder_def lock_expired_def isStale_def)
next
  fix ks now s r s' assume "acquire ks op now s = (r, s')"
  then show "lock_expired s' = lock_expired s"
    by (cases r) (auto simp: lock_expired_def fun_eq_iff dest: acquire_SomeD acquire_NoneD)
next
  fix ks t s k
  show "lock_holder (release ks t s) k =
      (case lock_holder s k of
         Some (u, a) \<Rightarrow> if k \<in> set ks \<and> u = t then None else Some (u, a) | None \<Rightarrow> None)"
    by (auto simp: lock_holder_def release_lookup split: option.splits)
qed (auto simp: lock_expired_def fun_eq_iff dest: acquire_SomeD acquire_NoneD)

section \<open>The request proxy\<close>

text \<open>
  The part of \<open>requestHandlerProxy\<close> before and after the driver's handler: no lock for a
  request without keys, ABORTED when a key is held, and the release in the finally block.
\<close>

definition request_begin ::
  "lock_request \<Rightarrow> string \<Rightarrow> int \<Rightarrow> op_lock \<Rightarrow> (exn + nat option) \<times> op_lock" where
  "request_begin request method now l =
     (let lockKeys = lockKeysFromRequest request method in
      if lockKeys = [] then (Inr None, l)
      else case acquire lockKeys method now l of
        (None, l') \<Rightarrow>
          (Inl (GrpcError ABORTED ''operation locked due to in progress operation(s)''), l')
      | (Some t, l') \<Rightarrow> (Inr (Some t), l'))"

definition request_end :: "lock_request \<Rightarrow> string \<Rightarrow> nat option \<Rightarrow> op_lock \<Rightarrow> op_lock" where
  "request_end request method tok l =
     (case tok of None \<Rightarrow> l | Some t \<Rightarrow> release (lockKeysFromRequest request method) t l)"

record proxy =
  plock :: op_lock
  clock :: int
  running :: "(nat \<times> string list \<times> int) set"

definition proxy_init :: "js \<Rightarrow> string option \<Rightarrow> int \<Rightarrow> proxy" where
  "proxy_init v fromEnv now = \<lparr>plock = new_op_lock v fromEnv, clock = now, running = {}\<rparr>"

inductive proxy_step :: "proxy \<Rightarrow> proxy \<Rightarrow> bool" where
  tick: "0 \<le> d \<Longrightarrow> proxy_step s (s\<lparr>clock := clock s + d\<rparr>)"
| begin_locked: "request_begin r m (clock s) (plock s) = (Inr (Some t), l') \<Longrightarrow>
     proxy_step s (s\<lparr>plock := l',
       running := insert (t, lockKeysFromRequest r m, clock s) (running s)\<rparr>)"
| begin_unlocked: "request_begin r m (clock s) (plock s) = (Inr None, l') \<Longrightarrow>
     proxy_step s (s\<lparr>plock := l'\<rparr>)"
| refused: "request_begin r m (clock s) (plock s) = (Inl e, l') \<Longrightarrow> proxy_step s (s\<lparr>plock := l'\<rparr>)"
| ended: "(t, lockKeysFromRequest r m, a) \<in> running s \<Longrightarrow>
     proxy_step s (s\<lparr>plock := request_end r m (Some t) (plock s),
       running := running s - {(t, lockKeysFromRequest r m, a)}\<rparr>)"

inductive proxy_reach :: "proxy \<Rightarrow> bool" where
  init: "proxy_reach (proxy_init v fromEnv now)"
| step: "proxy_reach s \<Longrightarrow> proxy_step s s' \<Longrightarrow> proxy_reach s'"

lemma request_begin_Some:
  "request_begin r m now l = (Inr (Some t), l') \<Longrightarrow>
   acquire (lockKeysFromRequest r m) m now l = (Some t, l')"
  by (auto simp: request_begin_def Let_def split: if_splits prod.splits option.splits)

lemma request_begin_same:
  "request_begin r m now l = (x, l') \<Longrightarrow> (\<forall>t. x \<noteq> Inr (Some t)) \<Longrightarrow> l' = l"
  by (auto simp: request_begin_def Let_def dest: acquire_NoneD split: if_splits prod.splits option.splits)

definition proxy_inv :: "proxy \<Rightarrow> bool" where
  "proxy_inv s \<longleftrightarrow> oplock.agrees (plock s) (running s) (clock s)"

lemma proxy_inv_init: "proxy_inv (proxy_init v fromEnv now)"
  by (simp add: proxy_inv_def proxy_init_def oplock.agrees_def new_op_lock_def lock_holder_def)

lemma proxy_inv_step: "proxy_step s s' \<Longrightarrow> proxy_inv s \<Longrightarrow> proxy_inv s'"
proof (induction rule: proxy_step.induct)
  case (tick d s)
  then show ?case by (simp add: proxy_inv_def oplock.agrees_tick)
next
  case (begin_locked r m s t l')
  then show ?case
    by (simp add: proxy_inv_def oplock.agrees_take [OF _ request_begin_Some])
next
  case (ended t r m a s)
  then show ?case by (simp add: proxy_inv_def request_end_def oplock.agrees_drop)
qed (auto simp: proxy_inv_def dest: request_begin_same)

lemma proxy_reach_inv: "proxy_reach s \<Longrightarrow> proxy_inv s"
  by (induction rule: proxy_reach.induct) (auto intro: proxy_inv_init proxy_inv_step)

section \<open>Properties\<close>

text \<open>
  C1: in every reachable state of the request proxy, two distinct running requests that
  hold lock tokens and are younger than the maximal hold time share no lock key, however
  requests begin, are refused, end and overlap.
\<close>

theorem proxy_mutual_exclusion:
  assumes "proxy_reach s" and "(t, ks, a) \<in> running s" and "(u, js, b) \<in> running s" and "t \<noteq> u"
    and "\<not> lock_expired (plock s) a (clock s)" and "\<not> lock_expired (plock s) b (clock s)"
  shows "set ks \<inter> set js = {}"
  using proxy_reach_inv [OF assms(1)] assms(2-) unfolding proxy_inv_def
  by (rule oplock.live_disjoint)

text \<open>A run of the proxy: two requests on different volumes begin at time 0.\<close>

definition ex_request :: "string \<Rightarrow> lock_request" where
  "ex_request v = \<lparr>lr_name = [], lr_volume_id = v, lr_source_volume_id = [], lr_snapshot_id = []\<rparr>"

definition ex_lock1 :: op_lock where
  "ex_lock1 = snd (request_begin (ex_request ''a'') ''DeleteVolume'' 0 (new_op_lock Undef None))"

definition ex_lock2 :: op_lock where
  "ex_lock2 = snd (request_begin (ex_request ''b'') ''NodeStageVolume'' 0 ex_lock1)"

definition ex_proxy2 :: proxy where
  "ex_proxy2 = \<lparr>plock = ex_lock2, clock = 0,
     running = {(2, [''volume_id_b''], 0), (1, [''volume_id_a''], 0)}\<rparr>"

lemmas ex_lock_eval = ex_lock1_def ex_lock2_def ex_request_def request_begin_def
  lockKeysFromRequest_def acquire_def blocked_def evict_def new_op_lock_def resolveMaxHoldMs_def
  DEFAULT_MAX_HOLD_MS_def isStale_def obj_set_def Let_def

lemma ex_proxy2_reach: "proxy_reach ex_proxy2"
proof -
  have 1: "proxy_step (proxy_init Undef None 0)
      \<lparr>plock = ex_lock1, clock = 0, running = {(1, [''volume_id_a''], 0)}\<rparr>"
    using proxy_step.begin_locked [of "ex_request ''a''" "''DeleteVolume''" "proxy_init Undef None 0" 1 ex_lock1]
    by (simp add: proxy_init_def ex_lock_eval)
  have 2: "proxy_step \<lparr>plock = ex_lock1, clock = 0, running = {(1, [''volume_id_a''], 0)}\<rparr> ex_proxy2"
    using proxy_step.begin_locked [of "ex_request ''b''" "''NodeStageVolume''"
        "\<lparr>plock = ex_lock1, clock = 0, running = {(1, [''volume_id_a''], 0)}\<rparr>" 2 ex_lock2]
    by (simp add: ex_proxy2_def ex_lock_eval)
  from proxy_reach.init 1 2 show ?thesis by (blast intro: proxy_reach.step)
qed

lemma proxy_mutual_exclusion_witness:
  "proxy_reach ex_proxy2 \<and> set [''volume_id_a''] \<inter> set [''volume_id_b''] = {}"
proof -
  have "set [''volume_id_a''] \<inter> set [''volume_id_b''] = {}"
    by (rule proxy_mutual_exclusion [OF ex_proxy2_reach, of 1 _ 0 2 _ 0])
       (simp_all add: ex_proxy2_def lock_expired_def ex_lock_eval)
  with ex_proxy2_reach show ?thesis by simp
qed

text \<open>
  \<open>acquire\<close> takes all keys or none. It refuses, and changes nothing, exactly when
  some key is held by an entry that is not stale; otherwise every key is held under a token
  never handed out before, and no other key changes.
\<close>

theorem acquire_all_or_none:
  "case acquire keys op now l of
     (None, l') \<Rightarrow> l' = l \<and> (\<exists>k\<in>set keys. \<exists>e. map_of (held l) k = Some e \<and> \<not> isStale l e now)
   | (Some t, l') \<Rightarrow>
       (\<forall>k\<in>set keys. \<forall>e. map_of (held l) k = Some e \<longrightarrow> isStale l e now) \<and>
       t = nextToken l \<and> nextToken l' = Suc t \<and>
       (\<forall>k. map_of (held l') k =
          (if k \<in> set keys then Some \<lparr>token = t, acquiredAt = now, operation = op\<rparr>
           else map_of (held l) k))"
proof (cases "acquire keys op now l")
  case (Pair r l')
  show ?thesis
  proof (cases r)
    case None
    with Pair acquire_NoneD [of keys op now l l'] show ?thesis by (auto simp: blocked_iff)
  next
    case (Some t)
    with Pair have a: "acquire keys op now l = (Some t, l')" by simp
    from acquire_SomeD [OF a] show ?thesis
      by (auto simp: a acquire_lookup [OF a] blocked_iff)
  qed
qed

lemma acquire_all_or_none_witness:
  "acquire [''x''] ''op'' 5 ex_lock1 = (Some 2, snd (acquire [''x''] ''op'' 5 ex_lock1)) \<and>
   has_key (snd (acquire [''x''] ''op'' 5 ex_lock1)) ''x''"
  using acquire_all_or_none [where keys = "[''x'']" and op = "''op''" and now = 5 and l = ex_lock1]
  by (simp add: ex_lock_eval has_key_def)

text \<open>
  \<open>release\<close> undoes exactly the acquisition whose token it is given. Afterwards the
  keys of that acquisition are free and every other key is held as before it; a release with
  any other token, such as one of a handler whose lock was evicted as stale, leaves
  the new holder in place.
\<close>

theorem release_own_only:
  assumes "acquire keys op now l = (Some t, l')"
  shows "lock_holder (release keys t l') k = (if k \<in> set keys then None else lock_holder l k) \<and>
    (k \<in> set keys \<longrightarrow> t' \<noteq> t \<longrightarrow> lock_holder (release keys' t' l') k = Some (t, now))"
  by (auto simp: lock_holder_def release_lookup acquire_lookup [OF assms] split: option.splits)

text \<open>The stale holder of \<open>volume_id_a\<close> is evicted half an hour later and then ends.\<close>

lemma release_own_only_witness:
  "acquire [''volume_id_a''] ''op'' 1800000 ex_lock1
     = (Some 2, snd (acquire [''volume_id_a''] ''op'' 1800000 ex_lock1)) \<and>
   lock_holder (release [''volume_id_a''] 1 (snd (acquire [''volume_id_a''] ''op'' 1800000 ex_lock1)))
     ''volume_id_a'' = Some (2, 1800000)"
proof -
  have a: "acquire [''volume_id_a''] ''op'' 1800000 ex_lock1
     = (Some 2, snd (acquire [''volume_id_a''] ''op'' 1800000 ex_lock1))"
    by (simp add: ex_lock_eval)
  with release_own_only [OF a, where k = "''volume_id_a''" and t' = 1 and keys' = "[''volume_id_a'']"]
  show ?thesis by simp
qed

text \<open>
  No lock is held forever when eviction is on: once every holder of the requested
  keys is at least \<open>maxHoldMs\<close> old, the next request for them gets the lock.
  With \<open>maxHoldMs\<close> 0 a held key refuses every later request, at any time.
\<close>

theorem acquire_after_max_hold:
  assumes "\<And>k u a. k \<in> set keys \<Longrightarrow> lock_holder l k = Some (u, a) \<Longrightarrow> a + maxHoldMs l \<le> now"
  shows "(maxHoldMs l > 0 \<longrightarrow> (\<exists>l'. acquire keys op now l = (Some (nextToken l), l'))) \<and>
    (maxHoldMs l = 0 \<longrightarrow> k \<in> set keys \<longrightarrow> has_key l k \<longrightarrow> acquire keys op later l = (None, l))"
proof (intro conjI impI)
  assume m: "maxHoldMs l > 0"
  have "isStale l e now" if "k \<in> set keys" "map_of (held l) k = Some e" for k e
    using assms [of k "token e" "acquiredAt e"] that m by (simp add: lock_holder_def isStale_def)
  then have "\<not> blocked l now keys" by (auto simp: blocked_iff)
  then show "\<exists>l'. acquire keys op now l = (Some (nextToken l), l')" by (simp add: acquire_def Let_def)
qed (auto simp: acquire_def blocked_iff isStale_def has_key_def)

lemma acquire_after_max_hold_witness:
  "\<exists>l'. acquire [''volume_id_a''] ''op'' 1800000 ex_lock1 = (Some (nextToken ex_lock1), l')"
proof -
  have "a + maxHoldMs ex_lock1 \<le> 1800000"
    if "k \<in> set [''volume_id_a'']" "lock_holder ex_lock1 k = Some (u, a)" for k u a
    using that by (simp add: ex_lock_eval lock_holder_def split: if_splits)
  moreover have "maxHoldMs ex_lock1 > 0" by (simp add: ex_lock_eval)
  ultimately show ?thesis
    using acquire_after_max_hold [where keys = "[''volume_id_a'']" and l = ex_lock1 and now = 1800000]
    by blast
qed

end
