(* ===== verification/Host.thy ===== *)
theory Host
  imports Zetabyte General Json
begin

text \<open>
  What the node utilities (\<open>src/utils/iscsi.js\<close>, \<open>mount.js\<close>, \<open>filesystem.js\<close>) share: the
  host as a parameter (child processes, the environment, name lookups, files and the clock),
  how a child that closes settles the promise of its command, and the parts of the Node.js
  and JavaScript libraries they use (\<open>net.isIP\<close>, \<open>replace\<close>, \<open>lastIndexOf\<close>).
\<close>

section \<open>The host\<close>

text \<open>
  \<open>ho_stat\<close> is \<open>fs.statSync\<close>: None when the path exists, the error code otherwise. \<open>ho_read\<close>
  is the text of a file, None when it cannot be read.
\<close>

record 'e host =
  ho_spawn :: "string \<Rightarrow> string list \<Rightarrow> jsobj \<Rightarrow> 'e \<Rightarrow> spawn_out \<times> 'e"
  ho_env :: "string \<Rightarrow> string option"
  ho_lookup :: "string \<Rightarrow> 'e \<Rightarrow> (exn + js) \<times> 'e"
  ho_stat :: "string \<Rightarrow> 'e \<Rightarrow> string option \<times> 'e"
  ho_read :: "string \<Rightarrow> 'e \<Rightarrow> string option \<times> 'e"
  ho_write :: "string \<Rightarrow> string \<Rightarrow> 'e \<Rightarrow> 'e"
  ho_now :: "'e \<Rightarrow> int \<times> 'e"
  ho_sleep :: "int \<Rightarrow> 'e \<Rightarrow> 'e"

definition host_spawn :: "'e host \<Rightarrow> string \<Rightarrow> string list \<Rightarrow> jsobj \<Rightarrow> ('e world, spawn_out) io" where
  "host_spawn H c a opts = perform (EvSpawn c a) (\<lambda>e. case ho_spawn H c a opts e of (r, e') \<Rightarrow> (Inr r, e'))"

definition host_sleep :: "'e host \<Rightarrow> int \<Rightarrow> ('e world, unit) io" where
  "host_sleep H ms = perform (EvSleep ms) (\<lambda>e. (Inr (), ho_sleep H ms e))"

definition host_now :: "'e host \<Rightarrow> ('e world, int) io" where
  "host_now H = perform (EvHost ''now'' []) (\<lambda>e. case ho_now H e of (t, e') \<Rightarrow> (Inr t, e'))"

definition host_read :: "'e host \<Rightarrow> string \<Rightarrow> ('e world, string option) io" where
  "host_read H p = perform (EvHost ''readFile'' p) (\<lambda>e. case ho_read H p e of (r, e') \<Rightarrow> (Inr r, e'))"

definition host_write :: "'e host \<Rightarrow> string \<Rightarrow> string \<Rightarrow> ('e world, unit) io" where
  "host_write H p s = perform (EvHost ''writeFile'' p) (\<lambda>e. (Inr (), ho_write H p s e))"

definition host_stat :: "'e host \<Rightarrow> string \<Rightarrow> ('e world, string option) io" where
  "host_stat H p = perform (EvHost ''stat'' p) (\<lambda>e. case ho_stat H p e of (r, e') \<Rightarrow> (Inr r, e'))"

definition hostname_lookup :: "'e host \<Rightarrow> string \<Rightarrow> ('e world, js) io" where
  "hostname_lookup H name = perform (EvHost ''lookup'' name) (ho_lookup H name)"

text \<open>\<open>process.env.NAME || default\<close>\<close>

definition env_or :: "'e host \<Rightarrow> string \<Rightarrow> string \<Rightarrow> string" where
  "env_or H name d = (case ho_env H name of Some v \<Rightarrow> if v = [] then d else v | None \<Rightarrow> d)"

text \<open>\<open>process.env.NAME || ms\<close> as the timeout of a child: a text when the variable is set.\<close>

definition default_timeout :: "'e host \<Rightarrow> string \<Rightarrow> int \<Rightarrow> js" where
  "default_timeout H name ms =
     (case ho_env H name of Some v \<Rightarrow> if v = [] then Num (IntN ms) else Str v | None \<Rightarrow> Num (IntN ms))"

section \<open>The outcome of a command\<close>

definition closed_result :: "int option \<Rightarrow> string \<Rightarrow> string \<Rightarrow> bool \<Rightarrow> exec_result" where
  "closed_result code out err t =
     \<lparr>er_code = code, er_stdout = out, er_stderr = err, er_timeout = t, er_error = None\<rparr>"

text \<open>
  The listener of \<open>close\<close>: a child killed by a signal rejects with the timeout mark, a nonzero
  code rejects, and the code zero resolves.
\<close>

definition settle_closed :: "int option \<Rightarrow> string \<Rightarrow> string \<Rightarrow> ('w, exec_result) io" where
  "settle_closed code out err =
     (case code of
        None \<Rightarrow> throw (ExecReject (closed_result None out err True))
      | Some n \<Rightarrow>
          if n \<noteq> 0 then throw (ExecReject (closed_result code out err False))
          else ret (closed_result code out err False))"

text \<open>For evaluation: a program is only unfolded when it is run.\<close>

lemmas host_run [code] =
  host_spawn_def [THEN fun_cong] host_sleep_def [THEN fun_cong] host_now_def [THEN fun_cong]
  host_read_def [THEN fun_cong] host_write_def [THEN fun_cong] host_stat_def [THEN fun_cong]
  hostname_lookup_def [THEN fun_cong] settle_closed_def [THEN fun_cong]

text \<open>\<open>err.code\<close>, \<open>err.stderr\<close> and \<open>err.timeout\<close> of a caught error.\<close>

fun err_code :: "exn \<Rightarrow> int option" where
  "err_code (ExecReject r) = er_code r"
| "err_code _ = None"

fun err_stderr :: "exn \<Rightarrow> string option" where
  "err_stderr (ExecReject r) = Some (er_stderr r)"
| "err_stderr _ = None"

fun err_timeout :: "exn \<Rightarrow> bool" where
  "err_timeout (ExecReject r) = er_timeout r"
| "err_timeout _ = False"

text \<open>\<open>xs[i]\<close> that is used as a string at once: a TypeError when there is no such element.\<close>

definition item :: "string list \<Rightarrow> nat \<Rightarrow> exn + string" where
  "item xs i = (if i < length xs then Inr (xs ! i) else Inl (type_error ''undefined element''))"

lemma item_simps [simp]: "item (x # xs) 0 = Inr x" "item (x # xs) (Suc i) = item xs i" "item [] i = Inl (type_error ''undefined element'')"
  by (simp_all add: item_def)

section \<open>Strings\<close>

text \<open>\<open>s.replace(p, r)\<close> with a string pattern: the first occurrence only.\<close>

definition replace_first :: "string \<Rightarrow> string \<Rightarrow> string \<Rightarrow> string" where
  "replace_first p r s =
     (case find_at s p of None \<Rightarrow> s | Some i \<Rightarrow> take i s @ r @ drop (i + length p) s)"

definition last_index_of :: "string \<Rightarrow> char \<Rightarrow> int" where
  "last_index_of s c =
     (case find_at (rev s) [c] of None \<Rightarrow> -1 | Some i \<Rightarrow> int (length s) - 1 - int i)"

lemma last_index_of_append:
  "c \<notin> set b \<Longrightarrow> last_index_of (a @ c # b) c = int (length a)"
  using find_at_single_append [of c "rev b" "rev a"] by (simp add: last_index_of_def)

lemma last_index_of_absent: "c \<notin> set s \<Longrightarrow> last_index_of s c = -1"
  using find_at_single_None [of "rev s" c] by (simp add: last_index_of_def)

section \<open>Addresses\<close>

text \<open>\<open>net.isIP\<close>: 4, 6 or 0. An IPv4 part is a number up to 255 without a leading zero.\<close>

definition ipv4_part :: "string \<Rightarrow> bool" where
  "ipv4_part s \<longleftrightarrow> all_digits s \<and> length s \<le> 3 \<and> parse_nat s \<le> 255 \<and> (hd s = CHR ''0'' \<longrightarrow> length s = 1)"

definition is_ipv4 :: "string \<Rightarrow> bool" where
  "is_ipv4 s \<longleftrightarrow> length (split_ch (CHR ''.'') s) = 4 \<and> list_all ipv4_part (split_ch (CHR ''.'') s)"

definition hex_group :: "string \<Rightarrow> bool" where
  "hex_group s \<longleftrightarrow> 1 \<le> length s \<and> length s \<le> 4 \<and>
     list_all (\<lambda>c. is_digit c \<or> lower_ch c \<in> set ''abcdef'') s"

text \<open>
  The number of 16-bit groups of a part between colons, an IPv4 address at its end counting
  for two; None when it is malformed.
\<close>

fun ipv6_groups :: "bool \<Rightarrow> string list \<Rightarrow> nat option" where
  "ipv6_groups v4 [] = Some 0"
| "ipv6_groups v4 [g] = (if hex_group g then Some 1 else if v4 \<and> is_ipv4 g then Some 2 else None)"
| "ipv6_groups v4 (g # gs) = (if hex_group g then map_option Suc (ipv6_groups v4 gs) else None)"

definition ipv6_part :: "bool \<Rightarrow> string \<Rightarrow> nat option" where
  "ipv6_part v4 s = (if s = [] then Some 0 else ipv6_groups v4 (split_ch (CHR '':'') s))"

definition ipv6_address :: "string \<Rightarrow> bool" where
  "ipv6_address s =
     (case find_at s ''::'' of
        None \<Rightarrow> s \<noteq> [] \<and> ipv6_part True s = Some 8
      | Some i \<Rightarrow>
          (case (ipv6_part False (take i s), ipv6_part True (drop (i + 2) s)) of
             (Some n, Some m) \<Rightarrow> n + m \<le> 7 | _ \<Rightarrow> False))"

definition zone_char :: "char \<Rightarrow> bool" where
  "zone_char c \<longleftrightarrow> is_alnum c \<or> c \<in> set ''-.:''"

definition is_ipv6 :: "string \<Rightarrow> bool" where
  "is_ipv6 s =
     (case find_at s ''%'' of
        None \<Rightarrow> ipv6_address s
      | Some i \<Rightarrow> ipv6_address (take i s) \<and> i + 1 < length s \<and> list_all zone_char (drop (i + 1) s))"

definition isIP :: "string \<Rightarrow> int" where
  "isIP s = (if is_ipv4 s then 4 else if is_ipv6 s then 6 else 0)"

section \<open>What the host calls add to the history\<close>

lemma emits_host [wp_intro]:
  "emits (host_spawn H c a opts) [EvSpawn c a]" "emits (host_sleep H ms) [EvSleep ms]"
  "emits (host_now H) [EvHost ''now'' []]" "emits (host_read H p) [EvHost ''readFile'' p]"
  "emits (host_write H p s) [EvHost ''writeFile'' p]" "emits (host_stat H p) [EvHost ''stat'' p]"
  "emits (hostname_lookup H n) [EvHost ''lookup'' n]"
  unfolding host_spawn_def host_sleep_def host_now_def host_read_def host_write_def host_stat_def
    hostname_lookup_def by (rule emits_perform)+

lemma emits_adds: "emits m evs \<Longrightarrow> list_all P evs \<Longrightarrow> adds P m"
  by (auto simp: emits_def adds_def)

lemma adds_host [wp_intro]:
  "P (EvSpawn c a) \<Longrightarrow> adds P (host_spawn H c a opts)" "P (EvSleep ms) \<Longrightarrow> adds P (host_sleep H ms)"
  "P (EvHost ''now'' []) \<Longrightarrow> adds P (host_now H)" "P (EvHost ''readFile'' f) \<Longrightarrow> adds P (host_read H f)"
  "P (EvHost ''writeFile'' f) \<Longrightarrow> adds P (host_write H f s)" "P (EvHost ''stat'' f) \<Longrightarrow> adds P (host_stat H f)"
  "P (EvHost ''lookup'' n) \<Longrightarrow> adds P (hostname_lookup H n)"
  by (auto intro: emits_adds emits_host)

lemma emits_settle [wp_intro]: "emits (settle_closed code out err) []"
  by (auto simp: settle_closed_def intro: wp_intro split: option.splits)

lemma adds_settle [wp_intro]: "adds P (settle_closed code out err)"
  by (rule emits_adds [OF emits_settle]) simp

end
