(* ===== verification/Iscsiadm.thy ===== *)
theory Iscsiadm
  imports Host
begin

text \<open>
  \<open>src/utils/iscsi.js\<close>: the commands of \<open>iscsiadm\<close>, their retries after a timeout, and the
  parsers of what they print. The mutex that serializes the commands of the process does not
  show here: a run of one call is a sequence of commands.
\<close>

section \<open>The instance\<close>

record 'e iscsi =
  is_options :: jsobj
  is_host :: "'e host"

text \<open>The constructor; the executor is the host's.\<close>

definition iscsi_options :: "jsobj \<Rightarrow> jsobj" where
  "iscsi_options options =
     (let paths = obj_of (obj_get options ''paths'');
          paths = default_to ''iscsiadm'' (Str ''iscsiadm'') paths;
          paths = default_to ''sudo'' (Str ''/usr/bin/sudo'') paths
      in obj_set ''paths'' (Obj paths) options)"

definition new_iscsi :: "jsobj \<Rightarrow> 'e host \<Rightarrow> 'e iscsi" where
  "new_iscsi options H = \<lparr>is_options = iscsi_options options, is_host = H\<rparr>"

definition is_path :: "'e iscsi \<Rightarrow> string \<Rightarrow> string" where
  "is_path I k = to_str (field (obj_get (is_options I) ''paths'') k)"

definition getIscsiValue :: "js \<Rightarrow> js" where
  "getIscsiValue v = (if loose_eq v (Str ''<empty>'') then Null else v)"

section \<open>exec\<close>

definition iscsi_command :: "'e iscsi \<Rightarrow> string \<Rightarrow> string list \<Rightarrow> string \<times> string list" where
  "iscsi_command I command args =
     (if truthy (obj_get (is_options I) ''sudo'') then (is_path I ''sudo'', command # args)
      else (command, args))"

text \<open>The position of the first argument that is the name; the value after it is hidden.\<close>

fun arg_index :: "string \<Rightarrow> string list \<Rightarrow> nat option" where
  "arg_index n [] = None"
| "arg_index n (a # as) = (if trim a = n then Some 0 else map_option Suc (arg_index n as))"

definition redact :: "string \<Rightarrow> string list \<Rightarrow> string list \<Rightarrow> string list" where
  "redact n args cleansed =
     (case arg_index n args of
        None \<Rightarrow> cleansed
      | Some i \<Rightarrow>
          if i + 1 < length cleansed \<and> trim (cleansed ! (i + 1)) = ''--value''
          then (if i + 2 < length cleansed then cleansed[i + 2 := ''redacted''] else cleansed @ [''redacted''])
          else cleansed)"

definition cleansed_args :: "string list \<Rightarrow> string list" where
  "cleansed_args args =
     redact ''node.session.auth.password_in'' args (redact ''node.session.auth.password'' args args)"

definition cleansed_log :: "string \<Rightarrow> string list \<Rightarrow> string" where
  "cleansed_log command args = command @ '' '' @ join '' '' (cleansed_args args)"

text \<open>\<open>parseInt(s, 10) || 0\<close>: a hexadecimal prefix reads as the digit 0.\<close>

definition parse_decimal :: "string \<Rightarrow> int" where
  "parse_decimal v =
     (let s = dropWhile is_space v;
          t = (if s \<noteq> [] \<and> (hd s = CHR ''-'' \<or> hd s = CHR ''+'') then tl s else s);
          n = int (parse_nat (takeWhile is_digit t))
      in if s \<noteq> [] \<and> hd s = CHR ''-'' then - n else n)"

definition max_attempts :: "'e iscsi \<Rightarrow> nat" where
  "max_attempts I = 1 + nat (parse_decimal (env_or (is_host I) ''ISCSIADM_TIMEOUT_RETRIES'' ''1''))"

text \<open>
  One child. Besides \<open>close\<close> it listens to \<open>error\<close>: a child that cannot be started rejects,
  and not as a timeout. The escalation to SIGKILL is part of what the host does with the
  timeout of the options.
\<close>

definition spawn_once :: "'e iscsi \<Rightarrow> string \<Rightarrow> string list \<Rightarrow> ('e world, exec_result) io" where
  "spawn_once I c a =
     bind (host_spawn (is_host I) c a
             [(''timeout'', default_timeout (is_host I) ''ISCSI_DEFAULT_TIMEOUT'' 30000)]) (\<lambda>r.
       case r of
         SpawnFailed m \<Rightarrow>
           throw (ExecReject \<lparr>er_code = None, er_stdout = [], er_stderr = m, er_timeout = False, er_error = Some m\<rparr>)
       | Closed code out err killed \<Rightarrow> settle_closed code out err)"

text \<open>The attempts from one on, given how many are left.\<close>

fun exec_attempts :: "'e iscsi \<Rightarrow> string \<Rightarrow> string list \<Rightarrow> nat \<Rightarrow> ('e world, exec_result) io" where
  "exec_attempts I c a 0 = throw (js_error ''unreachable: iscsi exec retry loop exhausted'')"
| "exec_attempts I c a (Suc n) =
     catch (spawn_once I c a)
       (\<lambda>err. if \<not> err_timeout err \<or> n = 0 then throw err
              else andthen (host_sleep (is_host I) 250) (exec_attempts I c a n))"

definition iscsi_exec :: "'e iscsi \<Rightarrow> string \<Rightarrow> string list \<Rightarrow> ('e world, exec_result) io" where
  "iscsi_exec I command args =
     (case iscsi_command I command args of (c, a) \<Rightarrow> exec_attempts I c a (max_attempts I))"

definition iscsiadm :: "'e iscsi \<Rightarrow> string list \<Rightarrow> ('e world, exec_result) io" where
  "iscsiadm I args = iscsi_exec I (is_path I ''iscsiadm'') args"

text \<open>The commands for which the code 21 (no objects found) is an answer: its output is read.\<close>

definition iscsiadm_or_none :: "'e iscsi \<Rightarrow> string list \<Rightarrow> ('e world, string) io" where
  "iscsiadm_or_none I args =
     catch (bind (iscsiadm I args) (\<lambda>r. ret (er_stdout r)))
       (\<lambda>err. case err of
          ExecReject r \<Rightarrow> if er_code r = Some 21 then ret (er_stdout r) else throw err
        | _ \<Rightarrow> throw err)"

section \<open>Interfaces\<close>

definition output_lines :: "string \<Rightarrow> string list" where
  "output_lines out = split_ch (CHR 10) (trim out)"

record iface =
  iface_name :: js
  transport_name :: js
  hwaddress :: js
  ipaddress :: js
  net_ifacename :: js
  initiatorname :: js

definition parse_interface :: "string \<Rightarrow> exn + iface" where
  "parse_interface entry =
     (let parts = split_ch (CHR '' '') entry
      in ebind (item parts 1) (\<lambda>f.
           let v = split_ch (CHR '','') f in
           Inr \<lparr>iface_name = at parts 0, transport_name = at v 0, hwaddress = getIscsiValue (at v 1),
                ipaddress = getIscsiValue (at v 2), net_ifacename = getIscsiValue (at v 3),
                initiatorname = getIscsiValue (at v 4)\<rparr>))"

definition listInterfaces :: "'e iscsi \<Rightarrow> ('e world, iface list) io" where
  "listInterfaces I =
     bind (iscsiadm I [''-m'', ''iface'', ''-o'', ''show'']) (\<lambda>r.
       if er_stdout r = [] then ret [] else lift (emap parse_interface (output_lines (er_stdout r))))"

definition interface_entry :: "jsobj \<Rightarrow> string \<Rightarrow> exn + jsobj" where
  "interface_entry i entry =
     (if starts_with entry ''#'' then Inr i
      else (let parts = split_ch (CHR ''='') entry
            in ebind (item parts 0) (\<lambda>k. ebind (item parts 1) (\<lambda>v.
                 Inr (obj_set (trim k) (getIscsiValue (Str (trim v))) i)))))"

definition showInterface :: "'e iscsi \<Rightarrow> string \<Rightarrow> ('e world, jsobj) io" where
  "showInterface I name =
     bind (iscsiadm I [''-m'', ''iface'', ''-o'', ''show'', ''-I'', name]) (\<lambda>r.
       lift (efold interface_entry [] (output_lines (er_stdout r))))"

section \<open>The node database\<close>

definition node_args :: "string \<Rightarrow> string \<Rightarrow> string list" where
  "node_args tgtIQN portal = [''-m'', ''node'', ''-T'', tgtIQN, ''-p'', portal]"

definition update_args :: "string \<Rightarrow> string \<Rightarrow> string \<Rightarrow> string \<Rightarrow> string list" where
  "update_args tgtIQN portal attribute v =
     node_args tgtIQN portal @ [''-o'', ''update'', ''--name'', attribute, ''--value'', v]"

definition database_failure :: string where
  "database_failure = ''Could not execute operation on all records: encountered iSCSI database failure''"

text \<open>
  The retries of one update, given how many attempts are left of five. An error without an
  error output is a TypeError at \<open>err.stderr.includes\<close>, except on the last attempt. Under
  sudo, \<open>exec\<close> puts the command in front of the very array of the caller, so the next
  attempt has it twice.
\<close>

definition unshifted :: "'e iscsi \<Rightarrow> string list \<Rightarrow> string list" where
  "unshifted I args =
     (if truthy (obj_get (is_options I) ''sudo'') then is_path I ''iscsiadm'' # args else args)"

fun update_attempts :: "'e iscsi \<Rightarrow> string list \<Rightarrow> nat \<Rightarrow> ('e world, unit) io" where
  "update_attempts I args 0 = ret ()"
| "update_attempts I args (Suc n) =
     catch (bind (iscsiadm I args) (\<lambda>_. ret ()))
       (\<lambda>err. if n = 0 then throw err
              else case err_stderr err of
                None \<Rightarrow> throw (type_error ''stderr'')
              | Some e \<Rightarrow> if contains e database_failure
                  then andthen (host_sleep (is_host I) 1000) (update_attempts I (unshifted I args) n)
                  else throw err)"

definition createNodeDBEntry :: "'e iscsi \<Rightarrow> string \<Rightarrow> string \<Rightarrow> jsobj \<Rightarrow> ('e world, unit) io" where
  "createNodeDBEntry I tgtIQN portal attributes =
     andthen (bind (iscsiadm I (node_args tgtIQN portal @ [''-o'', ''new''])) (\<lambda>_. ret ()))
       (for_each attributes (\<lambda>(k, v). update_attempts I (update_args tgtIQN portal k (to_str v)) 5))"

definition deleteNodeDBEntry :: "'e iscsi \<Rightarrow> string \<Rightarrow> string \<Rightarrow> ('e world, unit) io" where
  "deleteNodeDBEntry I tgtIQN portal =
     bind (iscsiadm I (node_args tgtIQN portal @ [''-o'', ''delete''])) (\<lambda>_. ret ())"

definition nodeDBEntryExists :: "'e iscsi \<Rightarrow> string \<Rightarrow> string \<Rightarrow> ('e world, bool) io" where
  "nodeDBEntryExists I tgtIQN portal =
     catch (bind (iscsiadm I (node_args tgtIQN portal)) (\<lambda>r. ret (trim (er_stdout r) \<noteq> [])))
       (\<lambda>err. if err_code err = Some 21 then ret False
              else if (case err_stderr err of Some e \<Rightarrow> contains (to_lower e) ''no records found'' | None \<Rightarrow> False)
              then ret False else throw err)"

record node_record =
  nr_portal :: string
  nr_iqn :: string

definition node_records :: "string list \<Rightarrow> node_record list" where
  "node_records rows =
     concat (map (\<lambda>entry. case split_ch (CHR '' '') entry of
         p # q # _ \<Rightarrow> [\<lparr>nr_portal = p, nr_iqn = q\<rparr>] | _ \<Rightarrow> []) rows)"

definition listNodeDBEntries :: "'e iscsi \<Rightarrow> ('e world, node_record list) io" where
  "listNodeDBEntries I =
     bind (iscsiadm_or_none I [''-m'', ''node'']) (\<lambda>out.
       ret (if out = [] then [] else node_records (output_lines out)))"

section \<open>Sessions\<close>

record iscsi_session =
  se_protocol :: string
  se_id :: jnum
  se_portal :: string
  se_tag :: js
  se_iqn :: string

definition parse_session :: "string \<Rightarrow> exn + iscsi_session" where
  "parse_session entry =
     (let parts = split_ch (CHR '' '') entry
      in ebind (item parts 1) (\<lambda>i. ebind (item parts 2) (\<lambda>p. ebind (item parts 3) (\<lambda>q.
           Inr \<lparr>se_protocol = hd (split_ch (CHR '':'') entry),
                se_id = str_to_num (replace_first '']'' [] (replace_first ''['' [] i)),
                se_portal = hd (split_ch (CHR '','') p), se_tag = at (split_ch (CHR '','') p) 1,
                se_iqn = trim q\<rparr>))))"

definition getSessions :: "'e iscsi \<Rightarrow> ('e world, iscsi_session list) io" where
  "getSessions I =
     bind (iscsiadm_or_none I [''-m'', ''session'']) (\<lambda>out.
       if out = [] then ret []
       else lift (emap parse_session (filter (\<lambda>e. e \<noteq> []) (output_lines out))))"

definition discoverTargets :: "'e iscsi \<Rightarrow> string \<Rightarrow> ('e world, jsobj list) io" where
  "discoverTargets I portal =
     bind (iscsiadm I [''-m'', ''discovery'', ''-t'', ''sendtargets'', ''-p'', portal]) (\<lambda>r.
       if er_stdout r = [] then ret []
       else lift (emap (\<lambda>entry.
         ebind (item (split_ch (CHR '' '') entry) 0) (\<lambda>p.
         ebind (item (split_ch (CHR '' '') entry) 1) (\<lambda>q.
         Inr [(''portal'', at (split_ch (CHR '','') entry) 0),
              (''target_portal_group_tag'', at (split_ch (CHR '','') p) 1),
              (''iqn'', at (split_ch (CHR '':'') q) 0), (''target'', at (split_ch (CHR '':'') q) 1)])))
         (output_lines (er_stdout r))))"

section \<open>Login and logout\<close>

definition login :: "'e iscsi \<Rightarrow> string \<Rightarrow> string \<Rightarrow> ('e world, bool) io" where
  "login I tgtIQN portal =
     catch (bind (iscsiadm I (node_args tgtIQN portal @ [''-l''])) (\<lambda>_. ret True))
       (\<lambda>err. if err_code err = Some 15 then ret True else throw err)"

definition logout :: "'e iscsi \<Rightarrow> string \<Rightarrow> string list \<Rightarrow> ('e world, bool) io" where
  "logout I tgtIQN portals =
     andthen
       (for_each portals (\<lambda>p.
          catch (bind (iscsiadm I [''-m'', ''node'', ''-T'', tgtIQN, ''-p'', p, ''-u'']) (\<lambda>_. ret ()))
            (\<lambda>err. if err_code err = Some 21 then ret () else throw err)))
       (ret True)"

text \<open>The guard compares the session itself, so every positive number is refused.\<close>

definition session_sid :: "js \<Rightarrow> js" where
  "session_sid session = (case session of Obj ob \<Rightarrow> obj_get ob ''id'' | Arr xs \<Rightarrow> Undef | v \<Rightarrow> v)"

definition rescanSession :: "'e iscsi \<Rightarrow> js \<Rightarrow> ('e world, bool) io" where
  "rescanSession I session =
     andthen (throw_when (session = Null) (type_error ''id''))
    (andthen (throw_when (session \<noteq> Num (IntN 0) \<and> js_greater session (Num (IntN 0)))
               (js_error ''cannot scan empty session id''))
       (bind (iscsiadm I [''-m'', ''session'', ''-r'', to_str (session_sid session), ''--rescan'']) (\<lambda>_. ret True)))"

text \<open>For evaluation: a program is only unfolded when it is run.\<close>

lemmas iscsiadm_run [code] =
  spawn_once_def [THEN fun_cong] exec_attempts.simps [THEN fun_cong] iscsi_exec_def [THEN fun_cong]
  iscsiadm_def [THEN fun_cong] iscsiadm_or_none_def [THEN fun_cong] listInterfaces_def [THEN fun_cong]
  showInterface_def [THEN fun_cong] update_attempts.simps [THEN fun_cong] createNodeDBEntry_def [THEN fun_cong]
  deleteNodeDBEntry_def [THEN fun_cong] nodeDBEntryExists_def [THEN fun_cong]
  listNodeDBEntries_def [THEN fun_cong] getSessions_def [THEN fun_cong] discoverTargets_def [THEN fun_cong]
  login_def [THEN fun_cong] logout_def [THEN fun_cong] rescanSession_def [THEN fun_cong]

end
