(* ===== verification/Iscsi_Details.thy ===== *)
theory Iscsi_Details
  imports Iscsiadm
begin

text \<open>
  \<open>getSessionsDetails\<close> of \<open>src/utils/iscsi.js\<close>, which parses the report of
  \<open>iscsiadm -m session -P 3\<close> into one object per session, and the lookups by portal
  (\<open>parsePortal\<close>, \<open>getSession\<close>, \<open>devicePathByPortalIQNLUN\<close>).
\<close>

section \<open>Groups of lines\<close>

text \<open>
  The lines of each session, with the line of its target in front: undefined before the
  first target. The last line closes the last group.
\<close>

fun session_groups :: "js \<Rightarrow> js list \<Rightarrow> js list list \<Rightarrow> string list \<Rightarrow> js list list" where
  "session_groups target cur groups [] = groups"
| "session_groups target cur groups (e # es) =
     (let (target, cur, groups) =
        (if starts_with e ''Target:'' then (Str e, cur, groups)
         else if starts_with (trim e) ''Current Portal:''
         then (target, [target, Str e], if cur \<noteq> [] then groups @ [cur] else groups)
         else (target, cur @ [Str e], groups))
      in if es = [] then groups @ [cur] else session_groups target cur groups es)"

section \<open>The lines of a session\<close>

text \<open>\<open>.replace(/ /g, "_").replace(/\W/g, "")\<close>\<close>

definition underscored :: "string \<Rightarrow> string" where
  "underscored s = filter is_word (replace_ch (CHR '' '') ''_'' s)"

definition section_name :: "string \<Rightarrow> string" where
  "section_name line = underscored (to_lower (trim line))"

definition line_key :: "string \<Rightarrow> string" where
  "line_key line = underscored (trim (hd (split_ch (CHR '':'') line)))"

definition after_colon :: "string \<Rightarrow> string" where
  "after_colon s = trim (join '':'' (tl (split_ch (CHR '':'') s)))"

text \<open>\<open>s.split("\t").slice(1).join("\t").split(":").slice(1).join(":").trim()\<close>\<close>

definition state_after_tab :: "string \<Rightarrow> string" where
  "state_after_tab s = after_colon (join [CHR 9] (tl (split_ch (CHR 9) s)))"

text \<open>A camel-case key with a lower first letter and an underscore before each other capital.\<close>

definition is_upper :: "char \<Rightarrow> bool" where
  "is_upper c \<longleftrightarrow> 65 \<le> (of_char c :: nat) \<and> (of_char c :: nat) \<le> 90"

definition snake_key :: "string \<Rightarrow> string" where
  "snake_key key =
     (let k = (case key of [] \<Rightarrow> [] | c # cs \<Rightarrow> lower_ch c # cs)
      in concat (map (\<lambda>c. if is_upper c then [CHR ''_'', lower_ch c] else [c]) k))"

text \<open>
  The devices: two lines each, read while a line starts with \<open>scsi\<close>; an empty second line
  adds none. The result is undefined when there is no such line.
\<close>

definition device_of_lines :: "string \<Rightarrow> string \<Rightarrow> exn + js" where
  "device_of_lines l1 l2 =
     (let p = split_ch (CHR '' '') l1
      in ebind (item (split_ch (CHR '' '') l2) 3) (\<lambda>disk.
           Inr (Obj [(''channel'', at p 2), (''id'', at p 4), (''lun'', at p 6),
             (''attached_scsi_disk'', Str (hd (split_ch (CHR 9) disk))),
             (''state'', Str (state_after_tab (trim l2)))])))"

definition is_scsi_line :: "js \<Rightarrow> bool" where
  "is_scsi_line l \<longleftrightarrow> (case l of Str s \<Rightarrow> s \<noteq> [] \<and> starts_with (trim s) ''scsi'' | _ \<Rightarrow> False)"

fun read_devices :: "js list option \<Rightarrow> js list \<Rightarrow> exn + js list option \<times> js list" where
  "read_devices devs [] = Inr (devs, [])"
| "read_devices devs [l] = (if is_scsi_line l then Inr (Some (case devs of None \<Rightarrow> [] | Some ds \<Rightarrow> ds), []) else Inr (devs, [l]))"
| "read_devices devs (l1 # l2 # ls) =
     (if is_scsi_line l1
      then (let ds = (case devs of None \<Rightarrow> [] | Some ds \<Rightarrow> ds)
            in if truthy l2
               then ebind (device_of_lines (to_str l1) (to_str l2)) (\<lambda>d. read_devices (Some (ds @ [d])) ls)
               else read_devices (Some ds) ls)
      else Inr (devs, l1 # l2 # ls))"

lemma read_devices_shorter: "read_devices devs ls = Inr (d, rest) \<Longrightarrow> length rest \<le> length ls"
proof (induction devs ls arbitrary: d rest rule: read_devices.induct)
  case (3 devs l1 l2 ls)
  then show ?case
    by (auto simp: Let_def ebind_eq_Inr split: if_splits) (metis le_SucI)+
qed (auto split: if_splits)

definition host_entry :: "string \<Rightarrow> js list option \<Rightarrow> js" where
  "host_entry v devs =
     Obj ([(''number'', Str (hd (split_ch (CHR 9) v))), (''state'', Str (state_after_tab v))]
          @ (case devs of None \<Rightarrow> [] | Some ds \<Rightarrow> [(''devices'', Arr ds)]))"

text \<open>\<open>session[section] = session[section] || {}\<close>, then a write into it: strict code, so a
  write into a string is a TypeError.\<close>

definition section_set :: "string \<Rightarrow> string \<Rightarrow> js \<Rightarrow> jsobj \<Rightarrow> exn + jsobj" where
  "section_set sec k v session =
     (case or_else (obj_get session sec) (Obj []) of
        Obj ob \<Rightarrow> Inr (obj_set sec (Obj (obj_set k v ob)) session)
      | _ \<Rightarrow> Inl (type_error ''Cannot create property''))"

definition is_separator :: "string \<Rightarrow> bool" where
  "is_separator line \<longleftrightarrow> uniq line = ''*''"

text \<open>
  The loop over the lines with the current section (empty for none). A line of asterisks
  announces a section: its name is on the next line, and the line after it is skipped.
\<close>

function (sequential) parse_lines :: "string \<Rightarrow> jsobj \<Rightarrow> js list \<Rightarrow> exn + jsobj" where
  "parse_lines sec session [] = Inr session"
| "parse_lines sec session (l # ls) =
     (case as_string l of Inl e \<Rightarrow> Inl e | Inr raw \<Rightarrow>
      let line = trim raw; key = line_key line; val = after_colon line in
      if is_separator line then
        (case ls of
           [] \<Rightarrow> Inl (type_error ''trim'')
         | h # rest \<Rightarrow> (case as_string h of Inl e \<Rightarrow> Inl e | Inr name \<Rightarrow>
             parse_lines (section_name name) session (drop 1 rest)))
      else if sec = [] then
        parse_lines sec
          (obj_set (trim (to_lower key))
             (Str (trim (if to_lower key = ''target'' then hd (split_ch (CHR '' '') val) else val))) session) ls
      else if sec = ''attached_scsi_devices'' \<and> to_lower key = ''host_number'' then
        (case read_devices None ls of Inl e \<Rightarrow> Inl e | Inr (devs, rest) \<Rightarrow>
           (case section_set sec ''host'' (host_entry val devs) session of Inl e \<Rightarrow> Inl e | Inr session \<Rightarrow>
              parse_lines sec session rest))
      else
        (case section_set sec (to_lower (if sec = ''negotiated_iscsi_params'' then snake_key key else key))
                (Str val) session of
           Inl e \<Rightarrow> Inl e | Inr session \<Rightarrow> parse_lines sec session ls))"
  by pat_completeness auto
termination
  by (relation "measure (\<lambda>(sec, session, ls). length ls)") (auto dest: read_devices_shorter)

declare parse_lines.simps [simp del]

definition parse_session_details :: "string \<Rightarrow> exn + jsobj list" where
  "parse_session_details out =
     emap (parse_lines [] []) (session_groups Undef [] [] (drop 2 (output_lines out)))"

definition getSessionsDetails :: "'e iscsi \<Rightarrow> ('e world, jsobj list) io" where
  "getSessionsDetails I =
     bind (iscsiadm_or_none I [''-m'', ''session'', ''-P'', ''3'']) (\<lambda>out.
       if out = [] then ret [] else lift (parse_session_details out))"

section \<open>Portals\<close>

record portal =
  po_host :: string
  po_port :: jnum

definition parsePortal :: "string \<Rightarrow> exn + portal" where
  "parsePortal text =
     (let s = trim text;
          b = index_of s '']''; c = last_index_of s (CHR '':'');
          (host, port) =
            (if starts_with s ''['' then (substring s 0 (b + 1), substring_from s (b + 2))
             else if c \<noteq> -1 then (substring s 0 c, substring_from s (c + 1))
             else (s, []))
      in ebind (parse_int (if port = [] then Num (IntN 3260) else Str port)) (\<lambda>p.
           Inr \<lparr>po_host = host, po_port = p\<rparr>))"

definition portal_text :: "string \<Rightarrow> jnum \<Rightarrow> string" where
  "portal_text host port = host @ '':'' @ num_to_string port"

definition without_brackets :: "string \<Rightarrow> string" where
  "without_brackets s = replace_ch (CHR '']'') [] (replace_ch (CHR ''['') [] s)"

definition no_host :: string where
  "no_host = ''--------------------------------------''"

text \<open>The address of a host that is a name; what never matches when there is none.\<close>

definition lookup_portal_host :: "'e iscsi \<Rightarrow> string \<Rightarrow> ('e world, string) io" where
  "lookup_portal_host I host =
     (if host = [] \<or> isIP (without_brackets host) \<noteq> 0 then ret no_host
      else catch
        (bind (hostname_lookup (is_host I) host) (\<lambda>ip. ret (if truthy ip then to_str ip else no_host)))
        (\<lambda>_. ret no_host))"

definition session_matches :: "string \<Rightarrow> string \<Rightarrow> portal \<Rightarrow> string \<Rightarrow> iscsi_session \<Rightarrow> bool" where
  "session_matches tgtIQN portal p ip s \<longleftrightarrow> se_iqn s = tgtIQN \<and>
     se_portal s \<in> {portal, portal_text (po_host p) (po_port p), portal_text ip (po_port p),
       portal_text (''['' @ po_host p @ '']'') (po_port p), portal_text (''['' @ ip @ '']'') (po_port p)}"

text \<open>None for the value \<open>false\<close>.\<close>

definition getSession :: "'e iscsi \<Rightarrow> string \<Rightarrow> string \<Rightarrow> ('e world, iscsi_session option) io" where
  "getSession I tgtIQN portal =
     bind (getSessions I) (\<lambda>sessions.
     bind (lift (parsePortal portal)) (\<lambda>p.
     bind (lookup_portal_host I (po_host p)) (\<lambda>ip.
     ret (find (session_matches tgtIQN portal p ip) sessions))))"

definition devicePathByPortalIQNLUN ::
  "'e iscsi \<Rightarrow> string \<Rightarrow> string \<Rightarrow> js \<Rightarrow> bool \<Rightarrow> ('e world, string) io" where
  "devicePathByPortalIQNLUN I portal iqn lun lookup =
     bind (lift (parsePortal portal)) (\<lambda>p.
     let host = without_brackets (po_host p) in
     bind (if lookup \<and> isIP host = 0
           then bind (hostname_lookup (is_host I) host) (\<lambda>ip. ret (if truthy ip then to_str ip else host))
           else ret host) (\<lambda>host.
     ret (''/dev/disk/by-path/ip-'' @ host @ '':'' @ num_to_string (po_port p) @ ''-iscsi-'' @ iqn
          @ ''-lun-'' @ to_str lun)))"

text \<open>For evaluation: a program is only unfolded when it is run.\<close>

lemmas iscsi_details_run [code] =
  getSessionsDetails_def [THEN fun_cong] lookup_portal_host_def [THEN fun_cong] getSession_def [THEN fun_cong]
  devicePathByPortalIQNLUN_def [THEN fun_cong]

end
