(* ===== verification/Filesystem.thy ===== *)
theory Filesystem
  imports Host
begin

text \<open>
  \<open>src/utils/filesystem.js\<close>: the block devices of the node and the commands on filesystems.
  Every method runs commands through \<open>exec\<close>, which has no listener for \<open>error\<close>: a command
  that cannot be started is an uncaught error. \<open>isSymbolicLink\<close> (\<open>fs.lstatSync\<close>) and
  \<open>isDeviceMapperSlaveDevice\<close> (no result) are not modelled.
\<close>

section \<open>The instance and exec\<close>

record 'e filesystem =
  fs_options :: jsobj
  fs_host :: "'e host"

definition filesystem_options :: "jsobj \<Rightarrow> jsobj" where
  "filesystem_options options =
     obj_set ''paths'' (Obj (default_to ''sudo'' (Str ''/usr/bin/sudo'') (obj_of (obj_get options ''paths'')))) options"

definition new_filesystem :: "jsobj \<Rightarrow> 'e host \<Rightarrow> 'e filesystem" where
  "new_filesystem options H = \<lparr>fs_options = filesystem_options options, fs_host = H\<rparr>"

text \<open>The command and its arguments after the \<open>sudo\<close> prefix, for instances with options \<open>o'\<close>.\<close>

definition sudo_command :: "jsobj \<Rightarrow> string \<Rightarrow> string list \<Rightarrow> string \<times> string list" where
  "sudo_command o' command args =
     (if truthy (obj_get o' ''sudo'') then (to_str (field (obj_get o' ''paths'') ''sudo''), command # args)
      else (command, args))"

text \<open>\<open>exec\<close>; the options hold what the command reads from its standard input.\<close>

definition fs_exec_stdin :: "'e filesystem \<Rightarrow> string \<Rightarrow> string list \<Rightarrow> jsobj \<Rightarrow> ('e world, exec_result) io" where
  "fs_exec_stdin F command args options =
     (let (c, a) = sudo_command (fs_options F) command args
      in bind (host_spawn (fs_host F) c a options) (\<lambda>r. case r of
           SpawnFailed m \<Rightarrow> throw (Uncaught m)
         | Closed code out err killed \<Rightarrow> settle_closed code out err))"

definition fs_exec :: "'e filesystem \<Rightarrow> string \<Rightarrow> string list \<Rightarrow> ('e world, exec_result) io" where
  "fs_exec F command args = fs_exec_stdin F command args []"

definition fs_run :: "'e filesystem \<Rightarrow> string \<Rightarrow> string list \<Rightarrow> ('e world, unit) io" where
  "fs_run F command args = bind (fs_exec F command args) (\<lambda>_. ret ())"

definition fs_stdout :: "'e filesystem \<Rightarrow> string \<Rightarrow> string list \<Rightarrow> ('e world, string) io" where
  "fs_stdout F command args = bind (fs_exec F command args) (\<lambda>r. ret (er_stdout r))"

definition covertUnixSeparatorToWindowsSeparator :: "string \<Rightarrow> string" where
  "covertUnixSeparatorToWindowsSeparator p = replace_ch (CHR ''/'') [CHR 0x5C] p"

definition realpath :: "'e filesystem \<Rightarrow> string \<Rightarrow> ('e world, string) io" where
  "realpath F path = bind (fs_stdout F ''realpath'' [path]) (\<lambda>out. ret (trim out))"

section \<open>Block devices\<close>

text \<open>What \<open>for ... of\<close> iterates over.\<close>

fun iterate :: "js \<Rightarrow> exn + js list" where
  "iterate (Arr xs) = Inr xs"
| "iterate (Str s) = Inl (Unmodelled ''iteration over a string'')"
| "iterate _ = Inl (type_error ''not iterable'')"

definition getAllBlockDevices :: "'e filesystem \<Rightarrow> ('e world, js) io" where
  "getAllBlockDevices F =
     bind (fs_stdout F ''lsblk'' [''-a'', ''-b'', ''-l'', ''-J'', ''-O'']) (\<lambda>out.
     bind (lift (json_parse (Str out))) (\<lambda>parsed. lift (getp parsed ''blockdevices'')))"

text \<open>\<open>.length != 1\<close> of the list, then its only element.\<close>

fun only_device :: "string \<Rightarrow> js \<Rightarrow> exn + js" where
  "only_device device (Arr [d]) = Inr d"
| "only_device device (Str s) = Inl (Unmodelled ''blockdevices is a string'')"
| "only_device device v =
     (if nullish v then Inl (type_error ''length'')
      else Inl (js_error (''cannot properly find device: '' @ device)))"

definition getBlockDevice :: "'e filesystem \<Rightarrow> string \<Rightarrow> ('e world, js) io" where
  "getBlockDevice F device =
     bind (realpath F device) (\<lambda>device.
     bind (fs_stdout F ''lsblk'' [''-a'', ''-b'', ''-J'', ''-O'', device]) (\<lambda>out.
     bind (lift (json_parse (Str out))) (\<lambda>parsed.
     lift (ebind (getp parsed ''blockdevices'') (only_device device)))))"

text \<open>The first device with the path; the search stops there.\<close>

fun find_device :: "'e filesystem \<Rightarrow> string \<Rightarrow> js list \<Rightarrow> ('e world, bool) io" where
  "find_device F path [] = ret False"
| "find_device F path (i # devices) =
     bind (lift (getp i ''path'')) (\<lambda>p.
     bind (realpath F (to_str p)) (\<lambda>q. if q = path then ret True else find_device F path devices))"

definition isBlockDevice :: "'e filesystem \<Rightarrow> string \<Rightarrow> ('e world, bool) io" where
  "isBlockDevice F device =
     (if \<not> starts_with device ''/'' \<or> starts_with device ''//'' then ret False
      else bind (realpath F device) (\<lambda>path.
           bind (getAllBlockDevices F) (\<lambda>devices.
           bind (lift (iterate devices)) (find_device F path))))"

definition isDeviceMapperDevice :: "'e filesystem \<Rightarrow> string \<Rightarrow> ('e world, bool) io" where
  "isDeviceMapperDevice F device =
     bind (isBlockDevice F device) (\<lambda>isBlock.
     if \<not> isBlock then ret False
     else bind (realpath F device) (\<lambda>device. ret (contains device ''dm-'')))"

section \<open>Device mapper\<close>

text \<open>The script whose lines are \<open>dm-N:slave slave ...\<close>.\<close>

definition dm_script :: string where
  "dm_script = ''for file in $(ls -la /dev/mapper/* | grep '' @ [CHR 0x22, CHR 0x5C] @ ''->'' @ [CHR 0x22]
     @ '' | grep -oP '' @ [CHR 0x22, CHR 0x5C] @ ''-> .+'' @ [CHR 0x22] @ '' | grep -oP '' @ [CHR 0x22]
     @ '' .+'' @ [CHR 0x22] @ ''); do echo $(F=$(echo $file | grep -oP '' @ [CHR 0x22] @ ''[a-z0-9-]+''
     @ [CHR 0x22] @ '');echo $F'' @ [CHR 0x22] @ '':'' @ [CHR 0x22] @ ''$(ls '' @ [CHR 0x22]
     @ ''/sys/block/${F}/slaves/'' @ [CHR 0x22] @ '');); done;''"

definition dm_lines :: "'e filesystem \<Rightarrow> ('e world, string list) io" where
  "dm_lines F = bind (fs_stdout F ''sh'' [''-c'', dm_script]) (\<lambda>out.
     ret (filter (\<lambda>dm. dm \<noteq> []) (split_ch (CHR 10) (trim out))))"

definition dm_device :: "string \<Rightarrow> string" where
  "dm_device dm = ''/dev/'' @ trim (hd (split_ch (CHR '':'') dm))"

definition dm_slaves :: "string \<Rightarrow> exn + string list" where
  "dm_slaves dm =
     ebind (item (split_ch (CHR '':'') dm) 1) (\<lambda>s.
       Inr (map (\<lambda>v. ''/dev/'' @ trim v) (split_ch (CHR '' '') s)))"

definition getAllDeviceMapperDevices :: "'e filesystem \<Rightarrow> ('e world, string list) io" where
  "getAllDeviceMapperDevices F = bind (dm_lines F) (\<lambda>dms. ret (map dm_device dms))"

definition getAllDeviceMapperSlaveDevices :: "'e filesystem \<Rightarrow> ('e world, string list) io" where
  "getAllDeviceMapperSlaveDevices F =
     bind (dm_lines F) (\<lambda>dms. bind (lift (emap dm_slaves dms)) (\<lambda>xs. ret (concat xs)))"

definition getDeviceMapperDeviceSlaves :: "'e filesystem \<Rightarrow> string \<Rightarrow> ('e world, string list) io" where
  "getDeviceMapperDeviceSlaves F device =
     bind (realpath F device) (\<lambda>device.
     bind (getBlockDevice F device) (\<lambda>info.
     bind (lift (getp info ''kname'')) (\<lambda>kname.
     bind (fs_stdout F ''ls'' [''/sys/block/'' @ to_str kname @ ''/slaves/'']) (\<lambda>out.
     ret (map (\<lambda>entry. ''/dev/'' @ trim entry)
            (filter (\<lambda>entry. trim entry \<noteq> []) (split_ch (CHR 10) out)))))))"

text \<open>The first line that matches; None for undefined.\<close>

fun dm_from_slaves :: "string list \<Rightarrow> bool \<Rightarrow> string list \<Rightarrow> exn + string option" where
  "dm_from_slaves slaves matchAll [] = Inr None"
| "dm_from_slaves slaves matchAll (dm # dms) =
     ebind (dm_slaves dm) (\<lambda>real.
       let common = filter (\<lambda>v. v \<in> set real) slaves in
       if \<not> matchAll \<and> common \<noteq> [] then Inr (Some (dm_device dm))
       else if length common = length real \<and> length real = length slaves then Inr (Some (dm_device dm))
       else dm_from_slaves slaves matchAll dms)"

definition getDeviceMapperDeviceFromSlaves ::
  "'e filesystem \<Rightarrow> string list \<Rightarrow> bool \<Rightarrow> ('e world, string option) io" where
  "getDeviceMapperDeviceFromSlaves F slaves matchAll =
     bind (dm_lines F) (\<lambda>dms. lift (dm_from_slaves slaves matchAll dms))"

section \<open>Files and directories\<close>

definition symlink :: "'e filesystem \<Rightarrow> string \<Rightarrow> string \<Rightarrow> string list \<Rightarrow> ('e world, unit) io" where
  "symlink F target link options = fs_run F ''ln'' ([''-s''] @ options @ [target, link])"

definition rm :: "'e filesystem \<Rightarrow> string list \<Rightarrow> ('e world, unit) io" where
  "rm F options = fs_run F ''rm'' options"

definition touch :: "'e filesystem \<Rightarrow> string \<Rightarrow> string list \<Rightarrow> ('e world, unit) io" where
  "touch F path options = fs_run F ''touch'' (options @ [path])"

definition dirname :: "'e filesystem \<Rightarrow> string \<Rightarrow> ('e world, string) io" where
  "dirname F path = bind (fs_stdout F ''dirname'' [path]) (\<lambda>out. ret (trim out))"

definition mkdir :: "'e filesystem \<Rightarrow> string \<Rightarrow> string list \<Rightarrow> ('e world, bool) io" where
  "mkdir F path options = bind (fs_run F ''mkdir'' (options @ [path])) (\<lambda>_. ret True)"

definition rmdir :: "'e filesystem \<Rightarrow> string \<Rightarrow> string list \<Rightarrow> ('e world, bool) io" where
  "rmdir F path options = bind (fs_run F ''rmdir'' (options @ [path])) (\<lambda>_. ret True)"

text \<open>An error of \<open>fs.statSync\<close>: its code is the name of the error here.\<close>

fun fs_code :: "exn \<Rightarrow> string option" where
  "fs_code (JsError c m) = Some c"
| "fs_code _ = None"

definition statSync :: "'e filesystem \<Rightarrow> string \<Rightarrow> ('e world, unit) io" where
  "statSync F path =
     bind (host_stat (fs_host F) path) (\<lambda>r. case r of None \<Rightarrow> ret () | Some c \<Rightarrow> throw (JsError c path))"

definition stat_retry :: retry_options where
  "stat_retry = no_retry_options\<lparr>ro_retryCondition := Some (\<lambda>err. fs_code err = Some ''UNKNOWN'')\<rparr>"

definition pathExists :: "'e filesystem \<Rightarrow> string \<Rightarrow> ('e world, bool) io" where
  "pathExists F path =
     catch (bind (retry (host_sleep (fs_host F)) (host_now (fs_host F)) 10 200 (statSync F path) stat_retry)
              (\<lambda>_. ret True))
       (\<lambda>err. if fs_code err = Some ''ENOENT'' then ret False else throw err)"

text \<open>For evaluation: a program is only unfolded when it is run.\<close>

lemmas filesystem_run [code] =
  fs_exec_stdin_def [THEN fun_cong] fs_exec_def [THEN fun_cong] fs_run_def [THEN fun_cong]
  fs_stdout_def [THEN fun_cong] realpath_def [THEN fun_cong] getAllBlockDevices_def [THEN fun_cong]
  getBlockDevice_def [THEN fun_cong] find_device.simps [THEN fun_cong] isBlockDevice_def [THEN fun_cong]
  isDeviceMapperDevice_def [THEN fun_cong] dm_lines_def [THEN fun_cong]
  getAllDeviceMapperDevices_def [THEN fun_cong] getAllDeviceMapperSlaveDevices_def [THEN fun_cong]
  getDeviceMapperDeviceSlaves_def [THEN fun_cong] getDeviceMapperDeviceFromSlaves_def [THEN fun_cong]
  symlink_def [THEN fun_cong] rm_def [THEN fun_cong] touch_def [THEN fun_cong] dirname_def [THEN fun_cong]
  mkdir_def [THEN fun_cong] rmdir_def [THEN fun_cong] statSync_def [THEN fun_cong]
  pathExists_def [THEN fun_cong]

end
