(* ===== verification/Partitions.thy ===== *)
theory Partitions
  imports Filesystem
begin

text \<open>
  The rest of \<open>src/utils/filesystem.js\<close>: partitions, the chain of parents of a block device
  (a loop that ends only if the chain does: its value is None when it runs forever),
  detecting, making, checking and growing filesystems.
\<close>

section \<open>Partitions\<close>

definition children_of :: "js \<Rightarrow> exn + js list" where
  "children_of info =
     ebind (getp info ''children'') (\<lambda>c. if truthy c then iterate c else Inr [])"

definition is_part :: "js \<Rightarrow> exn + bool" where
  "is_part c = ebind (getp c ''type'') (\<lambda>t. Inr (loose_eq t (Str ''part'')))"

text \<open>The best of the partitions so far, by an order that takes a later one only when greater.\<close>

definition best_partition :: "(js \<Rightarrow> js \<Rightarrow> exn + bool) \<Rightarrow> js list \<Rightarrow> exn + js option" where
  "best_partition better cs =
     efold (\<lambda>best c. ebind (is_part c) (\<lambda>p.
       if \<not> p then Inr best
       else (case best of None \<Rightarrow> Inr (Some c)
         | Some b \<Rightarrow> ebind (better c b) (\<lambda>g. Inr (if g then Some c else best))))) None cs"

definition larger :: "js \<Rightarrow> js \<Rightarrow> exn + bool" where
  "larger c b = Inr (js_greater (field c ''size'') (field b ''size''))"

text \<open>The minor numbers are compared as texts.\<close>

definition minor_number :: "js \<Rightarrow> exn + js" where
  "minor_number c = ebind (as_string (field c ''maj:min'')) (\<lambda>s. Inr (at (split_ch (CHR '':'') s) 1))"

definition later :: "js \<Rightarrow> js \<Rightarrow> exn + bool" where
  "later c b = ebind (minor_number b) (\<lambda>m. ebind (minor_number c) (\<lambda>n. Inr (js_greater n m)))"

text \<open>\<open>`${child.path}`\<close>; a device without children gives undefined, one without partitions a TypeError.\<close>

definition chosen_partition :: "(js \<Rightarrow> js \<Rightarrow> exn + bool) \<Rightarrow> js \<Rightarrow> exn + js" where
  "chosen_partition better info =
     ebind (getp info ''children'') (\<lambda>c.
       if \<not> truthy c then Inr Undef
       else ebind (iterate c) (\<lambda>cs. ebind (best_partition better cs) (\<lambda>best.
         case best of None \<Rightarrow> Inl (type_error ''path'') | Some b \<Rightarrow> Inr (Str (to_str (field b ''path''))))))"

definition getBlockDeviceLargestPartition :: "'e filesystem \<Rightarrow> string \<Rightarrow> ('e world, js) io" where
  "getBlockDeviceLargestPartition F device =
     bind (getBlockDevice F device) (\<lambda>info. lift (chosen_partition larger info))"

definition getBlockDeviceLastPartition :: "'e filesystem \<Rightarrow> string \<Rightarrow> ('e world, js) io" where
  "getBlockDeviceLastPartition F device =
     bind (getBlockDevice F device) (\<lambda>info. lift (chosen_partition later info))"

definition getBlockDevicePartitionCount :: "'e filesystem \<Rightarrow> string \<Rightarrow> ('e world, nat) io" where
  "getBlockDevicePartitionCount F device =
     bind (getBlockDevice F device) (\<lambda>info.
     bind (lift (children_of info)) (\<lambda>cs.
     bind (lift (emap is_part cs)) (\<lambda>ps. ret (length (filter id ps)))))"

definition getBlockDeviceHasParitionTable :: "'e filesystem \<Rightarrow> string \<Rightarrow> ('e world, bool) io" where
  "getBlockDeviceHasParitionTable F device =
     bind (getBlockDevice F device) (\<lambda>info.
     bind (lift (getp info ''pttype'')) (\<lambda>t. ret (truthy t)))"

text \<open>
  \<open>exec\<close> puts the command in front of the array it is given under sudo, and the two calls share that
  array, so the second one runs \<open>sfdisk sfdisk device\<close>.
\<close>

definition reused_args :: "'e filesystem \<Rightarrow> string \<Rightarrow> string list \<Rightarrow> string list" where
  "reused_args F command args = (if truthy (obj_get (fs_options F) ''sudo'') then command # args else args)"

definition sfdisk_twice :: "'e filesystem \<Rightarrow> string \<Rightarrow> string \<Rightarrow> string \<Rightarrow> ('e world, unit) io" where
  "sfdisk_twice F device input1 input2 =
     bind (fs_exec_stdin F ''sfdisk'' [device] [(''stdin'', Str input1)]) (\<lambda>_.
     bind (fs_exec_stdin F ''sfdisk'' (reused_args F ''sfdisk'' [device]) [(''stdin'', Str input2)]) (\<lambda>_. ret ()))"

definition partitionDevice :: "'e filesystem \<Rightarrow> string \<Rightarrow> string \<Rightarrow> string \<Rightarrow> ('e world, unit) io" where
  "partitionDevice F device label type =
     sfdisk_twice F device (''label: '' @ label @ [CHR 10]) (''type='' @ type @ [CHR 10])"

definition msr_guid :: string where "msr_guid = ''E3C9E316-0B5C-4DB8-817D-F92DF00215AE''"
definition ntfs_guid :: string where "ntfs_guid = ''EBD0A0A2-B9E5-4433-87C0-68B6B72699C7''"

definition partitionDeviceWindows :: "'e filesystem \<Rightarrow> string \<Rightarrow> ('e world, unit) io" where
  "partitionDeviceWindows F device =
     bind (getBlockDevice F device) (\<lambda>info.
     bind (lift (getp info ''type'')) (\<lambda>t.
     andthen (throw_when (\<not> loose_eq t (Str ''disk''))
                (js_error (''cannot partition device of type: '' @ to_str t)))
    (sfdisk_twice F device (''label: gpt'' @ [CHR 10])
       (''size=16M,type='' @ msr_guid @ [CHR 10] @ ''type='' @ ntfs_guid @ [CHR 10]))))"

text \<open>Under sudo the second run of \<open>sfdisk\<close> gets its own name as the first argument.\<close>

lemma partition_under_sudo:
  assumes "truthy (obj_get (fs_options F) ''sudo'')" and "partitionDevice F device label type w = (Inr (), w')"
  shows "let sudo = to_str (field (obj_get (fs_options F) ''paths'') ''sudo'')
    in hist w' = hist w @ [EvSpawn sudo [''sfdisk'', device], EvSpawn sudo [''sfdisk'', ''sfdisk'', device]]"
  using assms
  by (auto simp: partitionDevice_def sfdisk_twice_def reused_args_def fs_exec_stdin_def sudo_command_def bind_def ret_def
        host_spawn_def perform_def settle_closed_def throw_def Let_def split: prod.splits sum.splits spawn_out.splits option.splits if_splits)

section \<open>The chain of parents\<close>

text \<open>\<open>do { ... } while (result.pkname)\<close>\<close>

partial_function (option) parent_walk ::
  "'e filesystem \<Rightarrow> string \<Rightarrow> 'e world \<Rightarrow> ((exn + js) \<times> 'e world) option" where
  "parent_walk F device w =
     (case getBlockDevice F device w of
        (Inl e, w') \<Rightarrow> Some (Inl e, w')
      | (Inr info, w') \<Rightarrow>
          (case getp info ''pkname'' of
             Inl e \<Rightarrow> Some (Inl e, w')
           | Inr p \<Rightarrow> if truthy p then parent_walk F (''/dev/'' @ to_str p) w' else Some (Inr info, w')))"

text \<open>For evaluation: one step of the walk.\<close>

definition walk_on :: "bool \<Rightarrow> 'e filesystem \<Rightarrow> js \<Rightarrow> js \<Rightarrow> 'e world \<Rightarrow> ((exn + js) \<times> 'e world) option" where
  "walk_on b F info p w = (if b then parent_walk F (''/dev/'' @ to_str p) w else Some (Inr info, w))"

lemma parent_walk_code [code]:
  "walk_on True F info p w = parent_walk F (''/dev/'' @ to_str p) w"
  "walk_on False F info p w = Some (Inr info, w)"
  "parent_walk F device w =
     (case getBlockDevice F device w of
        (Inl e, w') \<Rightarrow> Some (Inl e, w')
      | (Inr info, w') \<Rightarrow>
          (case getp info ''pkname'' of Inl e \<Rightarrow> Some (Inl e, w') | Inr p \<Rightarrow> walk_on (truthy p) F info p w'))"
  by (simp add: walk_on_def, simp add: walk_on_def, subst parent_walk.simps,
      auto simp: walk_on_def split: prod.splits sum.splits)

definition getBlockDeviceParent ::
  "'e filesystem \<Rightarrow> string \<Rightarrow> 'e world \<Rightarrow> ((exn + js) \<times> 'e world) option" where
  "getBlockDeviceParent F device w = parent_walk F device w"

definition root_transport ::
  "string \<Rightarrow> 'e filesystem \<Rightarrow> string \<Rightarrow> 'e world \<Rightarrow> ((exn + bool) \<times> 'e world) option" where
  "root_transport tran F device w =
     map_option (\<lambda>(r, w'). (map_sum id (\<lambda>info. loose_eq (field info ''tran'') (Str tran)) r, w'))
       (parent_walk F device w)"

definition deviceIsIscsi :: "'e filesystem \<Rightarrow> string \<Rightarrow> 'e world \<Rightarrow> ((exn + bool) \<times> 'e world) option" where
  "deviceIsIscsi = root_transport ''iscsi''"

definition deviceIsNVMEoF :: "'e filesystem \<Rightarrow> string \<Rightarrow> 'e world \<Rightarrow> ((exn + bool) \<times> 'e world) option" where
  "deviceIsNVMEoF = root_transport ''nvme''"

section \<open>Filesystems\<close>

definition info_entry :: "jsobj \<Rightarrow> string \<Rightarrow> jsobj" where
  "info_entry ps entry =
     (let parts = split_ch (CHR ''='') entry in obj_set (to_lower (hd parts)) (at parts 1) ps)"

definition getDeviceFilesystemInfo :: "'e filesystem \<Rightarrow> string \<Rightarrow> ('e world, jsobj) io" where
  "getDeviceFilesystemInfo F device =
     bind (fs_stdout F ''blkid'' [''-p'', ''-o'', ''export'', device]) (\<lambda>out.
     ret (foldl info_entry [] (split_ch (CHR 10) (trim out))))"

definition deviceIsFormatted :: "'e filesystem \<Rightarrow> string \<Rightarrow> ('e world, bool) io" where
  "deviceIsFormatted F device =
     (let strategy = env_or (fs_host F) ''FILESYSTEM_TYPE_DETECTION_STRATEGY'' ''lsblk'' in
      if strategy = ''lsblk''
      then bind (getBlockDevice F device) (\<lambda>info. bind (lift (getp info ''fstype'')) (\<lambda>t. ret (truthy t)))
      else if strategy = ''blkid''
      then catch (bind (getDeviceFilesystemInfo F device) (\<lambda>info. ret (truthy (obj_get info ''type''))))
             (\<lambda>err. if err_code err = Some 2 then ret False else throw err)
      else throw (js_error (''unknown filesystem detection strategy: '' @ strategy)))"

definition formatDevice :: "'e filesystem \<Rightarrow> string \<Rightarrow> string \<Rightarrow> string list \<Rightarrow> ('e world, exec_result) io" where
  "formatDevice F device fstype options =
     fs_exec F (''mkfs.'' @ fstype) (options @ (if fstype = ''vfat'' then [''-I''] else []) @ [device])"

definition rescanDevice :: "'e filesystem \<Rightarrow> string \<Rightarrow> ('e world, unit) io" where
  "rescanDevice F device =
     bind (isBlockDevice F device) (\<lambda>b.
     andthen (throw_when (\<not> b)
                (js_error (''cannot rescan device '' @ device @ '' because it is not a block device'')))
    (bind (isDeviceMapperDevice F device) (\<lambda>dm.
     bind (realpath F device) (\<lambda>path.
     if dm then fs_run F ''multipath'' [''-r'', device]
     else let sys_file = ''/sys/block/'' @ last (split_ch (CHR ''/'') path) @ ''/device/rescan''
       in bind (pathExists F sys_file) (\<lambda>e. do_when e (host_write (fs_host F) sys_file ''1''))))))"

text \<open>The errors of \<open>growpart\<close> are all swallowed, not only the one that says there is no room.\<close>

definition expandPartition :: "'e filesystem \<Rightarrow> string \<Rightarrow> 'e world \<Rightarrow> ((exn + unit) \<times> 'e world) option" where
  "expandPartition F device w =
     (case bind (getBlockDevice F device) (\<lambda>_. getDeviceFilesystemInfo F device) w of
        (Inl e, w1) \<Rightarrow> Some (Inl e, w1)
      | (Inr info, w1) \<Rightarrow>
          (case getBlockDeviceParent F device w1 of
             None \<Rightarrow> None
           | Some (Inl e, w2) \<Rightarrow> Some (Inl e, w2)
           | Some (Inr parent, w2) \<Rightarrow>
               Some (catch (fs_run F ''growpart''
                        [to_str (field parent ''path''), to_str (obj_get info ''part_entry_number'')])
                      (\<lambda>_. ret ()) w2)))"

text \<open>An unknown type leaves the command undefined: \<open>spawn\<close> throws a TypeError, or sudo gets the text.\<close>

definition unknown_command :: "'e filesystem \<Rightarrow> string list \<Rightarrow> ('e world, exec_result) io" where
  "unknown_command F args =
     (if truthy (obj_get (fs_options F) ''sudo'') then fs_exec F ''undefined'' args
      else throw (type_error ''spawn''))"

definition resize_ext :: "string \<Rightarrow> bool" where
  "resize_ext t \<longleftrightarrow> t \<in> {''ext4'', ''ext3'', ''ext4dev''}"

text \<open>None is the undefined result for exfat, which is not resized.\<close>

definition expandFilesystem ::
  "'e filesystem \<Rightarrow> string \<Rightarrow> string \<Rightarrow> string list \<Rightarrow> ('e world, exec_result option) io" where
  "expandFilesystem F device fstype options =
     (let t = to_lower fstype; some = (\<lambda>m. bind m (\<lambda>r. ret (Some r))) in
      if t = ''btrfs'' then some (fs_exec F ''btrfs'' [''filesystem'', ''resize'', ''max'', device])
      else if t = ''exfat'' then ret None
      else if resize_ext t then some (fs_exec F ''resize2fs'' (options @ [device]))
      else if t = ''ntfs'' then
        andthen (fs_run F ''ntfsresize'' [''-c'', device])
       (andthen (fs_run F ''ntfsresize'' [''-n'', device])
       (bind (fs_exec F ''ntfsresize'' ([''-P'', ''-f''] @ options @ [device])) (\<lambda>r.
        andthen (fs_run F ''ntfsfix'' [''-d'', device]) (ret (Some r)))))
      else if t = ''xfs'' then some (fs_exec F ''xfs_growfs'' (options @ [device]))
      else if t = ''vfat'' then some (fs_exec F ''fatresize'' (options @ [''-s'', ''max'', device]))
      else some (unknown_command F []))"

text \<open>For ntfs the source calls \<open>args.puuh\<close>, which is not a function.\<close>

definition checkFilesystem ::
  "'e filesystem \<Rightarrow> string \<Rightarrow> string \<Rightarrow> string list \<Rightarrow> string list \<Rightarrow> ('e world, exec_result) io" where
  "checkFilesystem F device fstype options fsoptions =
     (let t = to_lower fstype in
      if t = ''btrfs'' then fs_exec F ''btrfs'' (options @ [''check'', device])
      else if resize_ext t then fs_exec F ''fsck'' (options @ [device, ''--''] @ fsoptions @ [''-f'', ''-p''])
      else if t = ''ntfs'' then throw (type_error ''args.puuh is not a function'')
      else if t = ''xfs'' then fs_exec F ''xfs_repair'' ([''-o'', ''force_geometry''] @ options @ [device])
      else fs_exec F ''fsck'' (options @ [device, ''--''] @ fsoptions))"

section \<open>Inodes\<close>

text \<open>\<open>.replace(/\s\s+/g, " ")\<close>\<close>

function squeeze :: "string \<Rightarrow> string" where
  "squeeze [] = []"
| "squeeze (c # s) =
     (if is_space c \<and> s \<noteq> [] \<and> is_space (hd s) then CHR '' '' # squeeze (dropWhile is_space s)
      else c # squeeze s)"
  by pat_completeness auto
termination
  by (relation "measure length") (auto simp: le_imp_less_Suc length_dropWhile_le)

definition getInodeInfo :: "'e filesystem \<Rightarrow> string \<Rightarrow> ('e world, jsobj) io" where
  "getInodeInfo F path =
     bind (fs_stdout F ''df'' [''-i'', path]) (\<lambda>out.
     bind (lift (item (split_ch (CHR 10) out) 1)) (\<lambda>line.
     let parts = split_ch (CHR '' '') (squeeze line) in
     bind (lift (parse_int (at parts 1))) (\<lambda>total.
     bind (lift (parse_int (at parts 2))) (\<lambda>used.
     bind (lift (parse_int (at parts 3))) (\<lambda>free.
     ret [(''device'', at parts 0), (''mount_path'', at parts 5), (''inodes_total'', Num total),
          (''inodes_used'', Num used), (''inodes_free'', Num free)])))))"

text \<open>For evaluation: a program is only unfolded when it is run.\<close>

lemmas partitions_run [code] =
  getBlockDeviceLargestPartition_def [THEN fun_cong] getBlockDeviceLastPartition_def [THEN fun_cong]
  getBlockDevicePartitionCount_def [THEN fun_cong] getBlockDeviceHasParitionTable_def [THEN fun_cong]
  sfdisk_twice_def [THEN fun_cong] partitionDevice_def [THEN fun_cong]
  partitionDeviceWindows_def [THEN fun_cong] getDeviceFilesystemInfo_def [THEN fun_cong]
  deviceIsFormatted_def [THEN fun_cong] formatDevice_def [THEN fun_cong] rescanDevice_def [THEN fun_cong]
  unknown_command_def [THEN fun_cong] expandFilesystem_def [THEN fun_cong] checkFilesystem_def [THEN fun_cong]
  getInodeInfo_def [THEN fun_cong]

section \<open>The walk to the root device\<close>

definition is_root :: "js \<Rightarrow> bool" where
  "is_root info \<longleftrightarrow> (\<exists>p. getp info ''pkname'' = Inr p \<and> \<not> truthy p)"

lemma parent_walk_settles:
  fixes rank :: "string \<Rightarrow> nat"
  assumes "\<And>d w info w' p. getBlockDevice F d w = (Inr info, w') \<Longrightarrow> getp info ''pkname'' = Inr p \<Longrightarrow>
      truthy p \<Longrightarrow> rank (''/dev/'' @ to_str p) < rank d"
  shows "\<exists>r w'. parent_walk F device w = Some (r, w') \<and> (\<forall>info. r = Inr info \<longrightarrow> is_root info)"
proof (induction "rank device" arbitrary: device w rule: less_induct)
  case less
  obtain r1 w1 where g: "getBlockDevice F device w = (r1, w1)" by force
  show ?case
  proof (cases r1)
    case (Inl e)
    with g show ?thesis by (subst parent_walk.simps) simp
  next
    case info: (Inr info)
    show ?thesis
    proof (cases "getp info ''pkname''")
      case (Inl e)
      with g info show ?thesis by (subst parent_walk.simps) simp
    next
      case (Inr p)
      show ?thesis
      proof (cases "truthy p")
        case True
        from less [OF assms [OF g [unfolded info] Inr True], of w1] g info Inr True show ?thesis
          by (subst parent_walk.simps) simp
      next
        case False
        with g info Inr show ?thesis by (subst parent_walk.simps) (simp add: is_root_def)
      qed
    qed
  qed
qed

text \<open>
  The loop behind \<open>deviceIsIscsi\<close>, \<open>deviceIsNVMEoF\<close> and \<open>getBlockDeviceParent\<close> ends when
  the parents that the block devices name lead upwards in some order: it returns, and what
  it returns is a device without a parent, or the error of a query.
\<close>

theorem parent_walk_returns:
  fixes rank :: "string \<Rightarrow> nat"
  assumes "\<And>d w info w' p. getBlockDevice F d w = (Inr info, w') \<Longrightarrow> getp info ''pkname'' = Inr p \<Longrightarrow>
      truthy p \<Longrightarrow> rank (''/dev/'' @ to_str p) < rank d"
  shows "\<exists>r w'. getBlockDeviceParent F device w = Some (r, w') \<and> (\<forall>info. r = Inr info \<longrightarrow> is_root info)"
  unfolding getBlockDeviceParent_def using assms by (rule parent_walk_settles)

text \<open>A host whose only block device names the device \<open>parent\<close> as its parent, null when empty.\<close>

definition chain_host :: "string \<Rightarrow> nat host" where
  "chain_host parent =
     \<lparr>ho_spawn = (\<lambda>c a opts n.
        (if c = ''realpath'' then Closed (Some 0) (concat a) [] False
         else Closed (Some 0) (json_print (Obj [(''blockdevices'', Arr [Obj [(''pkname'',
                if parent = [] \<or> last a = ''/dev/'' @ parent then Null else Str parent),
                (''tran'', Str ''iscsi'')]])])) [] False, n)),
      ho_env = (\<lambda>_. None), ho_lookup = (\<lambda>s n. (Inr (Str s), n)), ho_stat = (\<lambda>p n. (None, n)),
      ho_read = (\<lambda>p n. (None, n)), ho_write = (\<lambda>p s n. n), ho_now = (\<lambda>n. (0, n)), ho_sleep = (\<lambda>t n. n)\<rparr>"

lemma chain_device:
  assumes "getBlockDevice (new_filesystem [] (chain_host ''sda'')) d w = (Inr info, w')"
  shows "info = Obj [(''pkname'', if trim d = ''/dev/sda'' then Null else Str ''sda''), (''tran'', Str ''iscsi'')]"
proof -
  let ?H = "chain_host ''sda''"
  let ?v = "\<lambda>t. Obj [(''blockdevices'', Arr [Obj [(''pkname'',
      if t = ''/dev/sda'' then Null else Str ''sda''), (''tran'', Str ''iscsi'')]])]"
  have run: "fs_stdout (new_filesystem [] ?H) c a w = (Inr (if c = ''realpath'' then concat a else json_print (?v (last a))),
      w\<lparr>hist := hist w @ [EvSpawn c a]\<rparr>)" for c a and w :: "nat world"
    by (simp add: fs_stdout_def fs_exec_def fs_exec_stdin_def sudo_command_def new_filesystem_def filesystem_options_def
        host_spawn_def perform_def chain_host_def bind_def settle_closed_def closed_result_def ret_def obj_get_def
        obj_set_def)
  have "json_ok (?v t)" for t by simp
  note parsed = json_roundtrip [OF this]
  have "getBlockDevice (new_filesystem [] ?H) d w =
      (Inr (Obj [(''pkname'', if trim d = ''/dev/sda'' then Null else Str ''sda''), (''tran'', Str ''iscsi'')]),
       snd (getBlockDevice (new_filesystem [] ?H) d w))"
    by (simp add: getBlockDevice_def realpath_def bind_def run ret_def lift_def parsed getp_def obj_get_def
        del: json_print.simps)
  with assms show ?thesis by simp
qed

lemma chain_descends:
  assumes "getBlockDevice (new_filesystem [] (chain_host ''sda'')) d w = (Inr info, w')"
    and "getp info ''pkname'' = Inr p" "truthy p"
  shows "(if ''/dev/'' @ to_str p = ''/dev/sda'' then 0 else 1) < (if d = ''/dev/sda'' then 0 else 1 :: nat)"
proof -
  have "trim ''/dev/sda'' = ''/dev/sda''" by (simp add: trim_def is_space_def)
  with chain_device [OF assms(1)] assms(2,3) show ?thesis
    by (auto simp: getp_def obj_get_def split: if_splits)
qed

lemma parent_walk_returns_witness:
  "\<exists>r w'. getBlockDeviceParent (new_filesystem [] (chain_host ''sda'')) ''/dev/dm-0'' \<lparr>ext = 0, hist = []\<rparr> = Some (r, w')
    \<and> (\<forall>info. r = Inr info \<longrightarrow> is_root info)"
  by (rule parent_walk_returns [where rank = "\<lambda>d. if d = ''/dev/sda'' then 0 else 1"]) (rule chain_descends)

end
