(* ===== verification/Mount_Points.thy ===== *)
theory Mount_Points
  imports Partitions
begin

text \<open>
  \<open>src/utils/mount.js\<close>: the queries of \<open>findmnt\<close> and the commands \<open>mount\<close> and \<open>umount\<close>.
  The filesystem of the options is the model of \<open>src/utils/filesystem.js\<close>.
\<close>

section \<open>The instance and exec\<close>

record 'e mounter =
  mo_options :: jsobj
  mo_filesystem :: "'e filesystem"
  mo_host :: "'e host"

definition mount_options :: "jsobj \<Rightarrow> jsobj" where
  "mount_options options =
     (let paths = obj_of (obj_get options ''paths'');
          paths = default_to ''mount'' (Str ''mount'') paths;
          paths = default_to ''umount'' (Str ''umount'') paths;
          paths = default_to ''findmnt'' (Str ''findmnt'') paths;
          paths = default_to ''sudo'' (Str ''/usr/bin/sudo'') paths;
          paths = default_to ''chroot'' (Str ''/usr/sbin/chroot'') paths
      in obj_set ''paths'' (Obj paths) options)"

definition new_mount :: "jsobj \<Rightarrow> 'e filesystem \<Rightarrow> 'e host \<Rightarrow> 'e mounter" where
  "new_mount options F H = \<lparr>mo_options = mount_options options, mo_filesystem = F, mo_host = H\<rparr>"

definition mo_path :: "'e mounter \<Rightarrow> string \<Rightarrow> string" where
  "mo_path M k = to_str (field (obj_get (mo_options M) ''paths'') k)"

text \<open>The default timeout of the module: a decimal text in the environment, or 30 seconds.\<close>

definition mount_timeout :: "'e host \<Rightarrow> int" where
  "mount_timeout H =
     (case ho_env H ''MOUNT_DEFAULT_TIMEOUT'' of
        Some v \<Rightarrow> if all_digits v \<and> parse_nat v \<noteq> 0 then int (parse_nat v) else 30000
      | None \<Rightarrow> 30000)"

definition mount_exec :: "'e mounter \<Rightarrow> string \<Rightarrow> string list \<Rightarrow> ('e world, exec_result) io" where
  "mount_exec M command args =
     (let (c, a) = sudo_command (mo_options M) command args
      in bind (host_spawn (mo_host M) c a [(''timeout'', Num (IntN (mount_timeout (mo_host M))))])
           (\<lambda>r. case r of
              SpawnFailed m \<Rightarrow> throw (Uncaught m)
            | Closed code out err killed \<Rightarrow> settle_closed code out err))"

section \<open>findmnt\<close>

definition FINDMNT_OUTPUT :: string where
  "FINDMNT_OUTPUT = ''source,target,fstype,label,options''"

definition findmnt_options :: "string list \<Rightarrow> string list" where
  "findmnt_options extra =
     [''--output'', if extra = [] then FINDMNT_OUTPUT else FINDMNT_OUTPUT @ '','' @ join '','' extra,
      ''-b'', ''-J'', ''--nofsroot'']"

definition findmnt :: "'e mounter \<Rightarrow> string list \<Rightarrow> ('e world, exec_result) io" where
  "findmnt M args = mount_exec M (mo_path M ''findmnt'') args"

text \<open>\<open>findmnt\<close> with the code 1 as the answer that there is no such mount.\<close>

definition findmnt_or :: "'a \<Rightarrow> 'e mounter \<Rightarrow> string list \<Rightarrow> (exec_result \<Rightarrow> 'a) \<Rightarrow> ('e world, 'a) io" where
  "findmnt_or none M args f =
     catch (bind (findmnt M args) (\<lambda>r. ret (f r)))
       (\<lambda>err. if err_code err = Some 1 then ret none else throw err)"

definition resolve_device :: "'e mounter \<Rightarrow> string \<Rightarrow> ('e world, string) io" where
  "resolve_device M device =
     (if starts_with device ''/'' then realpath (mo_filesystem M) device else ret device)"

definition deviceIsMounted :: "'e mounter \<Rightarrow> string \<Rightarrow> ('e world, bool) io" where
  "deviceIsMounted M device =
     bind (resolve_device M device) (\<lambda>device.
     findmnt_or False M ([''--source'', device] @ findmnt_options []) (\<lambda>_. True))"

definition getDeviceMounts :: "'e mounter \<Rightarrow> string \<Rightarrow> ('e world, js) io" where
  "getDeviceMounts M device =
     bind (resolve_device M device) (\<lambda>device.
     bind (findmnt_or None M ([''--source'', device] @ findmnt_options []) (\<lambda>r. Some (er_stdout r))) (\<lambda>out.
     case out of None \<Rightarrow> ret (Obj [(''filesystems'', Arr [])]) | Some s \<Rightarrow> lift (json_parse (Str s))))"

text \<open>For the code 32 with an error output the source calls \<open>contains\<close>, which strings lack.\<close>

definition pathIsMounted :: "'e mounter \<Rightarrow> string \<Rightarrow> ('e world, bool) io" where
  "pathIsMounted M path =
     catch (bind (findmnt M ([''--mountpoint'', path] @ findmnt_options [])) (\<lambda>_. ret True))
       (\<lambda>err. if err_code err = Some 1 then ret False
              else if err_code err = Some 32 \<and> (case err_stderr err of Some e \<Rightarrow> e \<noteq> [] | None \<Rightarrow> False)
              then throw (type_error ''err.stderr.contains is not a function'')
              else throw err)"

definition deviceIsMountedAtPath :: "'e mounter \<Rightarrow> string \<Rightarrow> string \<Rightarrow> ('e world, bool) io" where
  "deviceIsMountedAtPath M device path =
     bind (if starts_with device ''/'' \<and> \<not> starts_with device ''//''
           then realpath (mo_filesystem M) device else ret device) (\<lambda>device.
     findmnt_or False M ([''--source'', device, ''--mountpoint'', path] @ findmnt_options []) (\<lambda>_. True))"

text \<open>\<open>parsed.filesystems[0]\<close>\<close>

definition first_filesystem :: "js \<Rightarrow> exn + js" where
  "first_filesystem parsed =
     ebind (getp parsed ''filesystems'') (\<lambda>v. case v of
       Arr (x # _) \<Rightarrow> Inr x | Str (c # _) \<Rightarrow> Inr (Str [c])
     | _ \<Rightarrow> if nullish v then Inl (type_error ''filesystems[0]'') else Inr Undef)"

definition getMountDetails :: "'e mounter \<Rightarrow> string \<Rightarrow> string list \<Rightarrow> string list \<Rightarrow> ('e world, js) io" where
  "getMountDetails M path extraOutputProperties extraArgs =
     bind (findmnt M ([''--mountpoint'', path] @ findmnt_options extraOutputProperties @ extraArgs)) (\<lambda>r.
     lift (ebind (json_parse (Str (er_stdout r))) first_filesystem))"

section \<open>Mount options\<close>

text \<open>A list stays; a missing or empty text gives none.\<close>

definition parseMountOptions :: "js \<Rightarrow> exn + js list" where
  "parseMountOptions options =
     (if \<not> truthy options then Inr []
      else case options of
        Arr xs \<Rightarrow> Inr xs
      | Str s \<Rightarrow> Inr (map Str (split_ch (CHR '','') s))
      | _ \<Rightarrow> Inl (type_error ''options.split is not a function''))"

text \<open>\<open>i.split("=", 2)\<close>: the first two pieces only.\<close>

definition option_parts :: "js \<Rightarrow> exn + string list" where
  "option_parts i = ebind (as_string i) (\<lambda>s. Inr (take 2 (split_ch (CHR ''='') s)))"

fun find_option :: "string \<Rightarrow> js list \<Rightarrow> exn + js" where
  "find_option option [] = Inr Undef"
| "find_option option (i # is) =
     ebind (option_parts i) (\<lambda>parts.
       if at parts 0 = Str option then Inr (if length parts < 2 then Null else at parts 1)
       else find_option option is)"

definition getMountOptionValue :: "js \<Rightarrow> string \<Rightarrow> exn + js" where
  "getMountOptionValue options option = ebind (parseMountOptions options) (find_option option)"

fun has_option :: "string \<Rightarrow> js list \<Rightarrow> exn + bool" where
  "has_option option [] = Inr False"
| "has_option option (i # is) =
     ebind (option_parts i) (\<lambda>parts.
       if at parts 0 = Str option then Inr True else has_option option is)"

definition getMountOptionPresent :: "js \<Rightarrow> string \<Rightarrow> exn + bool" where
  "getMountOptionPresent options option = ebind (parseMountOptions options) (has_option option)"

definition getMountOptions :: "'e mounter \<Rightarrow> string \<Rightarrow> ('e world, js list) io" where
  "getMountOptions M path =
     bind (getMountDetails M path [] [''-m'']) (\<lambda>details.
     lift (ebind (getp details ''options'') parseMountOptions))"

section \<open>Mount points\<close>

definition getMountPointDevice :: "'e mounter \<Rightarrow> string \<Rightarrow> ('e world, string) io" where
  "getMountPointDevice M path =
     bind (getMountDetails M path [] []) (\<lambda>result.
     bind (lift (getp result ''fstype'')) (\<lambda>t.
     if loose_eq t (Str ''devtmpfs'')
     then ret (trim (replace_first '']'' [] (replace_first ''['' [] (''/'' @ to_str (field result ''source'')))))
     else lift (ebind (as_string (field result ''source'')) (\<lambda>s. Inr (trim s)))))"

definition isBindMountedBlockDevice :: "'e mounter \<Rightarrow> string \<Rightarrow> ('e world, bool) io" where
  "isBindMountedBlockDevice M path =
     bind (pathIsMounted M path) (\<lambda>m.
     if \<not> m then ret False
     else bind (getMountDetails M path [] []) (\<lambda>info.
          bind (isBlockDevice (mo_filesystem M) path) (\<lambda>b.
          bind (lift (getp info ''fstype'')) (\<lambda>t. ret (loose_eq t (Str ''devtmpfs'') \<and> b)))))"

definition getMountPointFsType :: "'e mounter \<Rightarrow> string \<Rightarrow> ('e world, js) io" where
  "getMountPointFsType M path =
     bind (getMountDetails M path [] []) (\<lambda>result. lift (getp result ''fstype''))"

section \<open>Mounting\<close>

definition mount :: "'e mounter \<Rightarrow> string \<Rightarrow> string \<Rightarrow> string list \<Rightarrow> ('e world, exec_result) io" where
  "mount M source target options = mount_exec M (mo_path M ''mount'') (options @ [source, target])"

definition bindMount :: "'e mounter \<Rightarrow> string \<Rightarrow> string \<Rightarrow> string list \<Rightarrow> ('e world, exec_result) io" where
  "bindMount M source target options =
     mount_exec M (mo_path M ''mount'') ([''--bind''] @ options @ [source, target])"

definition umount :: "'e mounter \<Rightarrow> string \<Rightarrow> string list \<Rightarrow> ('e world, bool) io" where
  "umount M target options =
     catch (bind (mount_exec M (mo_path M ''umount'') (options @ [target])) (\<lambda>_. ret True))
       (\<lambda>err. if err_code err = Some 32 then ret True else throw err)"

text \<open>For evaluation: a program is only unfolded when it is run.\<close>

lemmas mount_points_run [code] =
  mount_exec_def [THEN fun_cong] findmnt_def [THEN fun_cong] findmnt_or_def [THEN fun_cong]
  resolve_device_def [THEN fun_cong] deviceIsMounted_def [THEN fun_cong] getDeviceMounts_def [THEN fun_cong]
  pathIsMounted_def [THEN fun_cong] deviceIsMountedAtPath_def [THEN fun_cong]
  getMountDetails_def [THEN fun_cong] getMountOptions_def [THEN fun_cong]
  getMountPointDevice_def [THEN fun_cong] isBindMountedBlockDevice_def [THEN fun_cong]
  getMountPointFsType_def [THEN fun_cong] mount_def [THEN fun_cong] bindMount_def [THEN fun_cong]
  umount_def [THEN fun_cong]

section \<open>What the commands add to the history\<close>

lemma adds_fs_exec [wp_intro]:
  "(\<And>c a. sudo_command (fs_options F) command args = (c, a) \<Longrightarrow> P (EvSpawn c a)) \<Longrightarrow> adds P (fs_exec F command args)"
  unfolding fs_exec_def fs_exec_stdin_def
  by (auto intro!: wp_intro split: prod.splits spawn_out.splits)

lemma adds_mount_exec [wp_intro]:
  "(\<And>c a. sudo_command (mo_options M) command args = (c, a) \<Longrightarrow> P (EvSpawn c a)) \<Longrightarrow> adds P (mount_exec M command args)"
  unfolding mount_exec_def
  by (auto intro!: wp_intro split: prod.splits spawn_out.splits)

lemma adds_realpath [wp_intro]:
  "(\<And>c a. sudo_command (fs_options F) ''realpath'' [d] = (c, a) \<Longrightarrow> P (EvSpawn c a)) \<Longrightarrow> adds P (realpath F d)"
  unfolding realpath_def fs_stdout_def by (auto intro!: wp_intro)

lemma adds_deviceIsMounted [wp_intro]:
  assumes "\<And>c a d. (c, a) = sudo_command (fs_options (mo_filesystem M)) ''realpath'' [d] \<Longrightarrow> P (EvSpawn c a)"
    and "\<And>c a d. (c, a) = sudo_command (mo_options M) (mo_path M ''findmnt'') ([''--source'', d] @ findmnt_options [])
      \<Longrightarrow> P (EvSpawn c a)"
  shows "adds P (deviceIsMounted M d)"
  unfolding deviceIsMounted_def resolve_device_def findmnt_or_def findmnt_def
  by (intro adds_bind adds_if adds_realpath adds_ret adds_catch adds_mount_exec adds_throw)
    (auto intro: assms simp: eq_commute)

end
