(* ===== verification/Session_Reaper.thy ===== *)
theory Session_Reaper
  imports Iscsi_Details Mount_Points
begin

text \<open>
  \<open>src/utils/iscsi-session-reaper.js\<close>: which sessions are stale, one reconcile pass over all
  sessions with the table of when each was first seen stale, and the wrapper with its timers.
  What the wrapper logs is not modelled.
\<close>

section \<open>Which sessions are reapable\<close>

definition STALE_DEVICE_STATES :: "string list" where
  "STALE_DEVICE_STATES = [''offline'', ''transport-offline'']"

text \<open>A property of a session object that may be missing on the way.\<close>

definition sessionDevices :: "jsobj \<Rightarrow> js" where
  "sessionDevices session =
     or_else (field (field (obj_get session ''attached_scsi_devices'') ''host'') ''devices'') (Arr [])"

definition device_list :: "jsobj \<Rightarrow> js list" where
  "device_list session = (case sessionDevices session of Arr ds \<Rightarrow> ds | _ \<Rightarrow> [])"

record device_summary =
  ds_dev :: js
  ds_state :: js
  ds_mounted :: js

record evaluation =
  ev_reapable :: bool
  ev_reason :: string
  ev_devices :: "device_summary list"

text \<open>The state of a device: from the map, else from the session; lowered, empty when missing.\<close>

definition device_state :: "jsobj \<Rightarrow> js \<Rightarrow> string \<Rightarrow> string" where
  "device_state deviceStates device dev =
     (let s = obj_get deviceStates dev;
          s = (if nullish s then field device ''state'' else s)
      in to_lower (trim (to_str (or_else s (Str [])))))"

definition device_mounted :: "jsobj \<Rightarrow> string \<Rightarrow> js" where
  "device_mounted mounts dev =
     (if obj_get mounts dev = Undef then Bool True else obj_get mounts dev)"

text \<open>One device: its summary and whether it leaves the session stale.\<close>

definition evaluate_device :: "jsobj \<Rightarrow> jsobj \<Rightarrow> js \<Rightarrow> device_summary \<times> bool" where
  "evaluate_device deviceStates mounts device =
     (let d = field device ''attached_scsi_disk'' in
      if \<not> truthy d then (\<lparr>ds_dev = Null, ds_state = Null, ds_mounted = Null\<rparr>, False)
      else let dev = to_str d; state = device_state deviceStates device dev;
               mounted = device_mounted mounts dev
           in (\<lparr>ds_dev = d, ds_state = Str state, ds_mounted = mounted\<rparr>,
               \<not> truthy mounted \<and> state \<in> set STALE_DEVICE_STATES))"

definition isSessionReapable :: "jsobj \<Rightarrow> jsobj \<Rightarrow> jsobj \<Rightarrow> evaluation" where
  "isSessionReapable session deviceStates mounts =
     (let devices = device_list session; es = map (evaluate_device deviceStates mounts) devices in
      if devices = [] then
        \<lparr>ev_reapable = False, ev_reason = ''session has no attached scsi devices (cannot confirm stale)'',
         ev_devices = []\<rparr>
      else if list_all snd es then
        \<lparr>ev_reapable = True, ev_reason = ''all attached devices offline/transport-offline and unmounted'',
         ev_devices = map fst es\<rparr>
      else
        \<lparr>ev_reapable = False, ev_reason = ''session has running and/or mounted device(s)'',
         ev_devices = map fst es\<rparr>)"

section \<open>The state of the devices\<close>

definition readDeviceStateFromSysfs :: "'e host \<Rightarrow> string \<Rightarrow> ('e world, string option) io" where
  "readDeviceStateFromSysfs H dev =
     bind (host_read H (''/sys/block/'' @ dev @ ''/device/state'')) (\<lambda>raw.
     ret (map_option (\<lambda>s. to_lower (trim s)) raw))"

text \<open>The instances the reaper works with, and the clock of the host.\<close>

record 'e reaper_deps =
  rd_iscsi :: "'e iscsi"
  rd_mount :: "'e mounter"
  rd_host :: "'e host"

definition collect_device ::
  "'e reaper_deps \<Rightarrow> jsobj \<times> jsobj \<Rightarrow> js \<Rightarrow> ('e world, jsobj \<times> jsobj) io" where
  "collect_device R info device =
     (case info of (deviceStates, mounts) \<Rightarrow>
      let d = field device ''attached_scsi_disk''; dev = to_str d in
      if \<not> truthy d then ret (deviceStates, mounts)
      else bind (readDeviceStateFromSysfs (rd_host R) dev) (\<lambda>state.
           bind (catch (bind (deviceIsMounted (rd_mount R) (''/dev/'' @ dev)) (\<lambda>m. ret (Bool m)))
                   (\<lambda>_. ret (Bool True))) (\<lambda>mounted.
           ret (case state of None \<Rightarrow> deviceStates | Some s \<Rightarrow> obj_set dev (Str s) deviceStates,
                obj_set dev mounted mounts))))"

definition collectSessionDeviceInfo ::
  "'e reaper_deps \<Rightarrow> jsobj \<Rightarrow> ('e world, jsobj \<times> jsobj) io" where
  "collectSessionDeviceInfo R session = fold_io (collect_device R) ([], []) (device_list session)"

section \<open>Reaping one session\<close>

text \<open>True only when the logout succeeded; the record is deleted in either case.\<close>

definition reapSession :: "'e reaper_deps \<Rightarrow> string \<Rightarrow> string \<Rightarrow> ('e world, bool) io" where
  "reapSession R iqn portal =
     bind (catch (bind (logout (rd_iscsi R) iqn [portal]) (\<lambda>_. ret True)) (\<lambda>_. ret False)) (\<lambda>ok.
     andthen (catch (deleteNodeDBEntry (rd_iscsi R) iqn portal) (\<lambda>_. ret ())) (ret ok))"

section \<open>A reconcile pass\<close>

text \<open>The table of the sessions seen stale: the key and the second it was first seen so.\<close>

type_synonym stale_table = "(string \<times> int) list"

record pass_summary =
  ps_candidates :: "(string \<times> string) list"
  ps_reaped :: "(string \<times> string) list"
  ps_failed :: "(string \<times> string) list"
  ps_skipped :: "(string \<times> string) list"

definition no_summary :: pass_summary where
  "no_summary = \<lparr>ps_candidates = [], ps_reaped = [], ps_failed = [], ps_skipped = []\<rparr>"

record pass_state =
  pa_stale :: stale_table
  pa_current :: "string list"
  pa_summary :: pass_summary

definition stale_key :: "string \<Rightarrow> string \<Rightarrow> string" where
  "stale_key iqn portal = iqn @ ''|'' @ portal"

definition session_portal :: "jsobj \<Rightarrow> js" where
  "session_portal session = or_else (obj_get session ''persistent_portal'') (obj_get session ''current_portal'')"

text \<open>A session whose evaluation failed: None.\<close>

definition evaluate_session :: "'e reaper_deps \<Rightarrow> jsobj \<Rightarrow> ('e world, evaluation option) io" where
  "evaluate_session R session =
     catch (bind (collectSessionDeviceInfo R session) (\<lambda>(deviceStates, mounts).
              ret (Some (isSessionReapable session deviceStates mounts))))
       (\<lambda>_. ret None)"

text \<open>
  A candidate: its timer starts when it has none, and it is reaped when the time is up. The
  least time is a number that may be NaN, and nothing is less than that.
\<close>

definition reconcile_candidate ::
  "'e reaper_deps \<Rightarrow> jnum \<Rightarrow> int \<Rightarrow> string \<Rightarrow> string \<Rightarrow> pass_state \<Rightarrow> ('e world, pass_state) io" where
  "reconcile_candidate R minStaleSeconds now iqn portal p =
     (let key = stale_key iqn portal;
          firstSeen = (case map_of (pa_stale p) key of None \<Rightarrow> now | Some t \<Rightarrow> t);
          stale = (case map_of (pa_stale p) key of None \<Rightarrow> obj_set key now (pa_stale p) | Some t \<Rightarrow> pa_stale p);
          sm = pa_summary p;
          p = p\<lparr>pa_stale := stale,
                pa_current := (if key \<in> set (pa_current p) then pa_current p else pa_current p @ [key]),
                pa_summary := sm\<lparr>ps_candidates := ps_candidates sm @ [(iqn, portal)]\<rparr>\<rparr>;
          sm = pa_summary p
      in if num_less (IntN (now - firstSeen)) minStaleSeconds then ret p
         else bind (reapSession R iqn portal) (\<lambda>reaped.
           ret (if reaped
                then p\<lparr>pa_stale := obj_delete key (pa_stale p),
                       pa_current := filter (\<lambda>k. k \<noteq> key) (pa_current p),
                       pa_summary := sm\<lparr>ps_reaped := ps_reaped sm @ [(iqn, portal)]\<rparr>\<rparr>
                else p\<lparr>pa_summary := sm\<lparr>ps_failed := ps_failed sm @ [(iqn, portal)]\<rparr>\<rparr>)))"

definition reconcile_session ::
  "'e reaper_deps \<Rightarrow> jnum \<Rightarrow> int \<Rightarrow> pass_state \<Rightarrow> jsobj \<Rightarrow> ('e world, pass_state) io" where
  "reconcile_session R minStaleSeconds now p session =
     (let iqn = obj_get session ''target''; portal = session_portal session in
      if \<not> truthy iqn \<or> \<not> truthy portal then ret p
      else let key = stale_key (to_str iqn) (to_str portal) in
        bind (evaluate_session R session) (\<lambda>e.
        case e of
          None \<Rightarrow> ret p
        | Some e \<Rightarrow>
            if \<not> ev_reapable e then
              ret (p\<lparr>pa_stale := obj_delete key (pa_stale p),
                     pa_summary := (pa_summary p)\<lparr>ps_skipped :=
                       ps_skipped (pa_summary p) @ [(to_str iqn, to_str portal)]\<rparr>\<rparr>)
            else reconcile_candidate R minStaleSeconds now (to_str iqn) (to_str portal) p))"

text \<open>At the end only the candidates of the pass keep their timer.\<close>

definition drop_untracked :: "pass_state \<Rightarrow> stale_table" where
  "drop_untracked p = foldl (\<lambda>m k. if k \<in> set (pa_current p) then m else obj_delete k m)
     (pa_stale p) (obj_keys (pa_stale p))"

definition reconcile ::
  "'e reaper_deps \<Rightarrow> bool \<Rightarrow> jnum \<Rightarrow> int \<Rightarrow> stale_table \<Rightarrow> ('e world, pass_summary \<times> stale_table) io" where
  "reconcile R enabled minStaleSeconds now staleSince =
     (if \<not> enabled then ret (no_summary, staleSince)
      else bind (catch (bind (getSessionsDetails (rd_iscsi R)) (\<lambda>s. ret (Some s))) (\<lambda>_. ret None)) (\<lambda>sessions.
        case sessions of
          None \<Rightarrow> ret (no_summary, staleSince)
        | Some sessions \<Rightarrow>
            if sessions = [] then ret (no_summary, [])
            else bind (fold_io (reconcile_session R minStaleSeconds now)
                         \<lparr>pa_stale = staleSince, pa_current = [], pa_summary = no_summary\<rparr> sessions)
                   (\<lambda>p. ret (pa_summary p, drop_untracked p))))"

end
