(* ===== verification/Iscsi_Commands.thy ===== *)
theory Iscsi_Commands
  imports Iscsi_Details
begin

text \<open>
  What the commands of \<open>iscsiadm\<close> add to the history, the bound on their attempts, what of
  their arguments is logged, and the sessions read back from the listing that reports them.
\<close>

section \<open>Events\<close>

definition iscsi_ev :: "'e iscsi \<Rightarrow> string list \<Rightarrow> event" where
  "iscsi_ev I args = (case iscsi_command I (is_path I ''iscsiadm'') args of (c, a) \<Rightarrow> EvSpawn c a)"

lemma emits_bind_nil:
  assumes "emits m evs" and "\<And>r. emits (f r) []"
  shows "emits (bind m f) evs"
  using assms unfolding emits_def bind_def
  by (auto split: prod.splits sum.splits) (metis append_Nil2 snd_conv)+

lemma emits_spawn_once [wp_intro]: "emits (spawn_once I c a) [EvSpawn c a]"
  unfolding spawn_once_def
  by (rule emits_bind_nil) (auto intro: wp_intro split: spawn_out.splits)

lemma adds_exec_attempts: "P (EvSpawn c a) \<Longrightarrow> P (EvSleep 250) \<Longrightarrow> adds P (exec_attempts I c a n)"
proof (induction n)
  case (Suc n)
  have "adds P (spawn_once I c a)" by (rule emits_adds [OF emits_spawn_once]) (simp add: Suc.prems)
  with Suc show ?case by (auto intro!: wp_intro)
qed (simp add: adds_throw)

lemma adds_iscsiadm [wp_intro]:
  "P (iscsi_ev I args) \<Longrightarrow> P (EvSleep 250) \<Longrightarrow> adds P (iscsiadm I args)"
  by (auto simp: iscsiadm_def iscsi_exec_def iscsi_ev_def split: prod.splits intro: adds_exec_attempts)

lemma adds_case_exn [wp_intro]:
  "(\<And>r. adds P (f r)) \<Longrightarrow> adds P g \<Longrightarrow> adds P (case e of ExecReject r \<Rightarrow> f r | _ \<Rightarrow> g)"
  by (cases e) auto

lemma adds_iscsiadm_or_none [wp_intro]:
  "P (iscsi_ev I args) \<Longrightarrow> P (EvSleep 250) \<Longrightarrow> adds P (iscsiadm_or_none I args)"
  unfolding iscsiadm_or_none_def by (auto intro!: wp_intro)

definition logout_args :: "string \<Rightarrow> string \<Rightarrow> string list" where
  "logout_args iqn portal = [''-m'', ''node'', ''-T'', iqn, ''-p'', portal, ''-u'']"

definition delete_args :: "string \<Rightarrow> string \<Rightarrow> string list" where
  "delete_args iqn portal = node_args iqn portal @ [''-o'', ''delete'']"

lemma adds_node_commands [wp_intro]:
  "P (iscsi_ev I (delete_args q p)) \<Longrightarrow> P (EvSleep 250) \<Longrightarrow> adds P (deleteNodeDBEntry I q p)"
  "P (iscsi_ev I (node_args q p)) \<Longrightarrow> P (EvSleep 250) \<Longrightarrow> adds P (nodeDBEntryExists I q p)"
  "P (iscsi_ev I [''-m'', ''node'']) \<Longrightarrow> P (EvSleep 250) \<Longrightarrow> adds P (listNodeDBEntries I)"
  "P (iscsi_ev I [''-m'', ''session'']) \<Longrightarrow> P (EvSleep 250) \<Longrightarrow> adds P (getSessions I)"
  "P (iscsi_ev I [''-m'', ''session'', ''-P'', ''3'']) \<Longrightarrow> P (EvSleep 250) \<Longrightarrow> adds P (getSessionsDetails I)"
  unfolding deleteNodeDBEntry_def nodeDBEntryExists_def listNodeDBEntries_def getSessions_def
    getSessionsDetails_def delete_args_def
  by (auto intro!: wp_intro)

lemma adds_logout [wp_intro]:
  "P (iscsi_ev I (logout_args q p)) \<Longrightarrow> P (EvSleep 250) \<Longrightarrow> adds P (logout I q [p])"
  unfolding logout_def logout_args_def by (auto intro!: wp_intro)

section \<open>Attempts\<close>

text \<open>\<open>n\<close> children for one command, with a pause before each but the first.\<close>

definition attempts :: "event \<Rightarrow> nat \<Rightarrow> event list" where
  "attempts ev n = ev # concat (replicate (n - 1) [EvSleep 250, ev])"

lemma exec_attempts_hist:
  assumes "exec_attempts I c a (Suc n) w = (r, w')"
  shows "\<exists>k. 1 \<le> k \<and> k \<le> Suc n \<and> hist w' = hist w @ attempts (EvSpawn c a) k
    \<and> (\<forall>e. r = Inl e \<and> err_timeout e \<longrightarrow> k = Suc n)"
  using assms
proof (induction n arbitrary: w r w')
  case 0
  obtain r1 w1 where s: "spawn_once I c a w = (r1, w1)" by force
  with 0 have "hist w' = hist w @ [EvSpawn c a]"
    using emitsD [OF emits_spawn_once s] by (auto simp: catch_def throw_def split: sum.splits if_splits)
  then show ?case by (intro exI [of _ 1]) (simp add: attempts_def)
next
  case (Suc n)
  obtain r1 w1 where s: "spawn_once I c a w = (r1, w1)" by force
  note h = emitsD [OF emits_spawn_once s]
  show ?case
  proof (cases "\<exists>e. r1 = Inl e \<and> catchable e \<and> err_timeout e")
    case True
    then obtain e where e: "r1 = Inl e" "catchable e" "err_timeout e" by blast
    obtain w2 where sl: "host_sleep (is_host I) 250 w1 = (Inr (), w2)" "hist w2 = hist w1 @ [EvSleep 250]"
      by (simp add: host_sleep_def perform_def)
    have "exec_attempts I c a (Suc n) w2 = (r, w')"
      using Suc.prems s e sl(1) unfolding exec_attempts.simps(2) [of I c a "Suc n"]
      by (simp add: catch_def andthen_def bind_def)
    from Suc.IH [OF this] obtain k where k: "1 \<le> k" "k \<le> Suc n"
      "hist w' = hist w2 @ attempts (EvSpawn c a) k" "\<forall>e. r = Inl e \<and> err_timeout e \<longrightarrow> k = Suc n" by blast
    have "attempts (EvSpawn c a) (Suc k) = EvSpawn c a # EvSleep 250 # attempts (EvSpawn c a) k"
      using k(1) by (cases k) (simp_all add: attempts_def)
    with k h sl(2) show ?thesis by (intro exI [of _ "Suc k"]) simp
  next
    case False
    with Suc.prems s have "w' = w1 \<and> (\<forall>e. r = Inl e \<longrightarrow> r1 = Inl e \<and> \<not> (catchable e \<and> err_timeout e))"
      by (auto simp: catch_def throw_def split: sum.splits if_splits)
    moreover have "catchable e" if "err_timeout e" for e using that by (cases e) auto
    ultimately show ?thesis using h by (intro exI [of _ 1]) (auto simp: attempts_def)
  qed
qed

lemma iscsiadm_attempts:
  assumes "iscsiadm I args w = (r, w')"
  shows "\<exists>k. 1 \<le> k \<and> k \<le> max_attempts I \<and> hist w' = hist w @ attempts (iscsi_ev I args) k
    \<and> (\<forall>e. r = Inl e \<and> err_timeout e \<longrightarrow> k = max_attempts I)"
proof -
  obtain c a where ca: "iscsi_command I (is_path I ''iscsiadm'') args = (c, a)" by force
  obtain n where n: "max_attempts I = Suc n" by (simp add: max_attempts_def)
  with assms ca have "exec_attempts I c a (Suc n) w = (r, w')" by (simp add: iscsiadm_def iscsi_exec_def)
  from exec_attempts_hist [OF this] show ?thesis by (simp add: n iscsi_ev_def ca)
qed

text \<open>
  A command of \<open>iscsiadm\<close> is attempted at least once and at most one time more than
  ISCSIADM_TIMEOUT_RETRIES says, with a pause before each further attempt; a timeout is
  reported only when all the attempts are used up.
\<close>

theorem iscsi_attempts:
  assumes "iscsiadm I args w = (r, w')"
  shows "\<exists>k. 1 \<le> k \<and> k \<le> max_attempts I \<and> hist w' = hist w @ attempts (iscsi_ev I args) k
    \<and> (\<forall>e. r = Inl e \<and> err_timeout e \<longrightarrow> k = max_attempts I)"
  by (rule iscsiadm_attempts [OF assms])

text \<open>A host on which every command is killed by its timeout.\<close>

definition hanging_host :: "nat host" where
  "hanging_host = \<lparr>ho_spawn = (\<lambda>c a opts n. (Closed None [] [] True, n + 1)), ho_env = (\<lambda>_. None),
     ho_lookup = (\<lambda>s n. (Inr (Str s), n)), ho_stat = (\<lambda>p n. (None, n)), ho_read = (\<lambda>p n. (None, n)),
     ho_write = (\<lambda>p s n. n), ho_now = (\<lambda>n. (0, n)), ho_sleep = (\<lambda>t n. n)\<rparr>"

definition hanging :: "nat iscsi" where
  "hanging = new_iscsi [] hanging_host"

lemma iscsi_attempts_witness:
  "hist (snd (iscsiadm hanging [''-m'', ''node''] \<lparr>ext = 0, hist = []\<rparr>))
   = [EvSpawn ''iscsiadm'' [''-m'', ''node''], EvSleep 250, EvSpawn ''iscsiadm'' [''-m'', ''node'']]"
proof -
  let ?w = "\<lparr>ext = 0, hist = []\<rparr> :: nat world"
  let ?r = "iscsiadm hanging [''-m'', ''node''] ?w"
  have m: "max_attempts hanging = 2" by code_simp
  have e: "iscsi_ev hanging [''-m'', ''node''] = EvSpawn ''iscsiadm'' [''-m'', ''node'']" by code_simp
  have 1: "fst ?r = Inl (ExecReject (closed_result None [] [] True))" by code_simp
  have "?r = (fst ?r, snd ?r)" by simp
  from iscsi_attempts [OF this] obtain k where "hist (snd ?r) = attempts (EvSpawn ''iscsiadm'' [''-m'', ''node'']) k"
    "k = 2" unfolding m e by (auto simp: 1 closed_result_def)
  then show ?thesis by (simp add: attempts_def)
qed

text \<open>\<open>tries m ev\<close>: whatever the host answers, \<open>m\<close> runs the attempts of one command and nothing else.\<close>

definition tries :: "('e world, 'a) io \<Rightarrow> event \<Rightarrow> bool" where
  "tries m ev \<longleftrightarrow> (\<forall>w. \<exists>k\<ge>1. hist (snd (m w)) = hist w @ attempts ev k)"

lemma tries_iscsiadm [wp_intro]: "tries (iscsiadm I args) (iscsi_ev I args)"
  unfolding tries_def using iscsiadm_attempts by (metis prod.collapse)

lemma tries_bind [wp_intro]: "tries m ev \<Longrightarrow> (\<And>x. emits (f x) []) \<Longrightarrow> tries (bind m f) ev"
  unfolding tries_def emits_def bind_def by (auto split: prod.splits sum.splits) (metis append_Nil2 snd_conv)+

lemma tries_catch [wp_intro]: "tries m ev \<Longrightarrow> (\<And>e. emits (h e) []) \<Longrightarrow> tries (catch m h) ev"
  unfolding tries_def emits_def catch_def by (auto split: prod.splits sum.splits) (metis append_Nil2 snd_conv)+

lemma emits_lift [wp_intro]: "emits (lift r) []"
  by (simp add: emits_def lift_def)

lemma tries_commands [wp_intro]:
  "tries (nodeDBEntryExists I q p) (iscsi_ev I (node_args q p))"
  "tries (deleteNodeDBEntry I q p) (iscsi_ev I (delete_args q p))"
  "tries (getSessions I) (iscsi_ev I [''-m'', ''session''])"
  unfolding nodeDBEntryExists_def deleteNodeDBEntry_def getSessions_def iscsiadm_or_none_def delete_args_def
  by (auto intro!: wp_intro split: exn.splits)

section \<open>Passwords in the log\<close>

definition password_names :: "string list" where
  "password_names = [''node.session.auth.password'', ''node.session.auth.password_in'']"

lemma arg_index_append:
  "\<forall>a\<in>set pre. trim a \<noteq> n \<Longrightarrow> arg_index n (pre @ xs) = map_option (\<lambda>i. length pre + i) (arg_index n xs)"
  by (cases "arg_index n xs"; induction pre) simp_all

lemma redact_value:
  assumes "\<forall>a\<in>set pre. trim a \<noteq> n" and "trim n = n" and "length pre' = length pre"
  shows "redact n (pre @ [n, ''--value'', v]) (pre' @ [n', ''--value'', v']) = pre' @ [n', ''--value'', ''redacted'']"
proof -
  have "trim ''--value'' = ''--value''" by (simp add: trim_def is_space_def)
  moreover have "(pre' @ [n', ''--value'', v']) ! Suc (length pre) = ''--value''"
    by (simp add: assms(3) [symmetric] nth_append)
  moreover have "(pre' @ [n', ''--value'', v'])[Suc (Suc (length pre)) := ''redacted''] = pre' @ [n', ''--value'', ''redacted'']"
    by (simp add: assms(3) [symmetric] list_update_append)
  ultimately show ?thesis
    using assms by (simp add: redact_def arg_index_append)
qed

lemma redact_absent: "\<forall>a\<in>set args. trim a \<noteq> n \<Longrightarrow> redact n args cleansed = cleansed"
  using arg_index_append [of args n "[]"] by (simp add: redact_def)

lemma redact_other:
  assumes "\<forall>a\<in>set pre. trim a \<noteq> m" and "trim n \<noteq> m" and "m \<noteq> ''--value''" and "length cleansed = length pre + 3"
  shows "redact m (pre @ [n, ''--value'', v]) cleansed = cleansed"
proof -
  have "trim ''--value'' = ''--value''" by (simp add: trim_def is_space_def)
  with assms show ?thesis by (simp add: redact_def arg_index_append)
qed

text \<open>What is logged of the update of a password attribute does not depend on the password.\<close>

lemma cleansed_password:
  assumes n: "n \<in> set password_names" and pre: "\<forall>a\<in>set pre. trim a \<notin> set password_names"
  shows "cleansed_args (pre @ [n, ''--value'', v]) = pre @ [n, ''--value'', ''redacted'']"
proof -
  have t: "trim ''node.session.auth.password'' = ''node.session.auth.password''"
    "trim ''node.session.auth.password_in'' = ''node.session.auth.password_in''"
    by (simp_all add: trim_def is_space_def)
  have "\<forall>a\<in>set pre. trim a \<noteq> ''node.session.auth.password''"
    "\<forall>a\<in>set pre. trim a \<noteq> ''node.session.auth.password_in''"
    using pre by (auto simp: password_names_def)
  note red = redact_value [OF this(1) t(1), of pre] redact_value [OF this(2) t(2), of pre]
    redact_other [OF this(1), of "''node.session.auth.password_in''"]
    redact_other [OF this(2), of "''node.session.auth.password''"]
  from n show ?thesis unfolding password_names_def cleansed_args_def using t red by auto
qed

text \<open>
  The passwords of a target do not reach the log: what \<open>exec\<close> logs of the command that
  writes an attribute of the node database is the same for any two values of a password.
\<close>

theorem password_not_logged:
  assumes "n \<in> set password_names"
    and "trim q \<notin> set password_names" and "trim p \<notin> set password_names"
    and "trim (is_path I ''iscsiadm'') \<notin> set password_names"
    and "iscsi_command I (is_path I ''iscsiadm'') (update_args q p n v) = (c, a)"
    and "iscsi_command I (is_path I ''iscsiadm'') (update_args q p n v') = (c', a')"
  shows "cleansed_log c a = cleansed_log c' a'"
proof -
  have t: "trim x = x" if "x \<in> {''-m'', ''node'', ''-T'', ''-p'', ''-o'', ''update'', ''--name''}" for x
    using that by (auto simp: trim_def is_space_def)
  let ?pre = "node_args q p @ [''-o'', ''update'', ''--name'']"
  have pre: "\<forall>x\<in>set ?pre. trim x \<notin> set password_names"
    using assms(2,3) by (simp add: node_args_def t) (simp add: password_names_def)
  with assms(4) have pre': "\<forall>x\<in>set (is_path I ''iscsiadm'' # ?pre). trim x \<notin> set password_names" by simp
  have u: "update_args q p n y = ?pre @ [n, ''--value'', y]" for y by (simp add: update_args_def)
  note clean = cleansed_password [OF assms(1) pre] cleansed_password [OF assms(1) pre']
  from assms(5,6) clean show ?thesis
    unfolding u by (auto simp: iscsi_command_def cleansed_log_def split: if_splits)
qed

lemma password_not_logged_witness:
  "cleansed_log ''iscsiadm'' (update_args ''iqn.a'' ''10.0.0.1:3260'' ''node.session.auth.password'' ''secret'')
   = cleansed_log ''iscsiadm'' (update_args ''iqn.a'' ''10.0.0.1:3260'' ''node.session.auth.password'' ''other'')"
proof (rule password_not_logged)
  show "iscsi_command hanging (is_path hanging ''iscsiadm'')
      (update_args ''iqn.a'' ''10.0.0.1:3260'' ''node.session.auth.password'' ''secret'')
    = (''iscsiadm'', update_args ''iqn.a'' ''10.0.0.1:3260'' ''node.session.auth.password'' ''secret'')"
    "iscsi_command hanging (is_path hanging ''iscsiadm'')
      (update_args ''iqn.a'' ''10.0.0.1:3260'' ''node.session.auth.password'' ''other'')
    = (''iscsiadm'', update_args ''iqn.a'' ''10.0.0.1:3260'' ''node.session.auth.password'' ''other'')"
    by code_simp+
  show "trim (is_path hanging ''iscsiadm'') \<notin> set password_names" by code_simp
qed (simp_all add: password_names_def trim_def is_space_def)

section \<open>The listing of sessions\<close>

text \<open>A line of \<open>iscsiadm -m session\<close> and the sessions it can report.\<close>

definition field_char :: "char \<Rightarrow> bool" where
  "field_char c \<longleftrightarrow> \<not> is_space c \<and> c \<noteq> CHR '',''"

definition reportable :: "iscsi_session \<Rightarrow> bool" where
  "reportable s \<longleftrightarrow> (\<exists>k t. se_id s = IntN (int k) \<and> se_tag s = Str t \<and> list_all field_char t)
     \<and> list_all field_char (se_portal s) \<and> (\<forall>c\<in>set (se_iqn s). \<not> is_space c)
     \<and> se_protocol s \<noteq> [] \<and> list_all (\<lambda>c. field_char c \<and> c \<noteq> CHR '':'') (se_protocol s)"

definition session_line :: "iscsi_session \<Rightarrow> string" where
  "session_line s =
     join '' '' [se_protocol s @ '':'', ''['' @ num_to_string (se_id s) @ '']'',
       se_portal s @ '','' @ to_str (se_tag s), se_iqn s, ''(non-flash)'']"

definition session_listing :: "iscsi_session list \<Rightarrow> string" where
  "session_listing ss = join [CHR 10] (map session_line ss) @ [CHR 10]"

lemma trim_no_space: "\<forall>c\<in>set s. \<not> is_space c \<Longrightarrow> trim s = s"
  by (rule trim_id) (cases s; auto)

lemma trim_text:
  assumes "s \<noteq> []" and "\<not> is_space (hd s)" and "\<not> is_space (last s)" and "is_space c"
  shows "trim (s @ [c]) = s"
proof -
  have "dropWhile is_space (s @ [c]) = s @ [c]" using assms by (cases s) auto
  moreover have "dropWhile is_space (rev s) = rev s" using assms by (simp add: dropWhile_hd hd_rev)
  ultimately show ?thesis using assms by (simp add: trim_def)
qed

lemma emap_map_id: "(\<And>x. x \<in> set xs \<Longrightarrow> f (g x) = Inr x) \<Longrightarrow> emap f (map g xs) = Inr xs"
  by (induction xs) auto

lemma replace_first_head: "replace_first [c] [] (c # s) = s"
  by (simp add: replace_first_def starts_with_def)

lemma replace_first_last: "c \<notin> set s \<Longrightarrow> replace_first [c] [] (s @ [c]) = s"
  using find_at_single_append [of c s "[]"] by (simp add: replace_first_def)

lemma num_text_plain: "c \<in> set (show_nat k) \<Longrightarrow> is_digit c"
  by (rule digits_no_sep)

lemma session_fields:
  assumes "reportable s"
  shows "split_ch (CHR '' '') (session_line s) = [se_protocol s @ '':'', ''['' @ num_to_string (se_id s) @ '']'',
    se_portal s @ '','' @ to_str (se_tag s), se_iqn s, ''(non-flash)'']"
proof -
  have sp: "is_space (CHR '' '')" by (simp add: is_space_def)
  obtain k t where s: "se_id s = IntN (int k)" "se_tag s = Str t" "list_all field_char t"
    using assms by (auto simp: reportable_def)
  have k: "CHR '' '' \<notin> set (show_nat k)" using num_text_plain [of "CHR '' ''" k] by (auto simp: is_digit_def)
  have f: "CHR '' '' \<notin> set x" if "list_all field_char x" for x
    using that sp by (auto simp: list_all_iff field_char_def)
  have "CHR '' '' \<notin> set (se_protocol s)" "CHR '' '' \<notin> set (se_portal s)" "CHR '' '' \<notin> set (se_iqn s)"
    "CHR '' '' \<notin> set t"
    using assms s f sp by (auto simp: reportable_def list_all_iff field_char_def)
  with k s show ?thesis
    unfolding session_line_def by (intro split_join_ch) (simp_all add: show_int_nat)
qed

lemma parse_session_line:
  assumes "reportable s"
  shows "parse_session (session_line s) = Inr s"
proof -
  obtain k t where s: "se_id s = IntN (int k)" "se_tag s = Str t" "list_all field_char t"
    using assms by (auto simp: reportable_def)
  have "CHR '']'' \<notin> set (show_nat k)" using num_text_plain [of "CHR '']''" k] by (auto simp: is_digit_def)
  then have i: "str_to_num (replace_first '']'' [] (replace_first ''['' [] (''['' @ num_to_string (se_id s) @ '']''))) = se_id s"
    using replace_first_head [of "CHR ''[''" "show_nat k @ '']''"] replace_first_last [of "CHR '']''" "show_nat k"]
    by (simp add: s show_int_nat)
  have "CHR '','' \<notin> set (se_portal s)" "CHR '','' \<notin> set t"
    using assms s by (auto simp: reportable_def list_all_iff field_char_def)
  then have p: "split_ch (CHR '','') (se_portal s @ '','' @ to_str (se_tag s)) = [se_portal s, t]"
    by (simp add: s split_ch_append_sep split_ch_no_sep)
  have "CHR '':'' \<notin> set (se_protocol s)" using assms by (auto simp: reportable_def list_all_iff)
  then have q: "hd (split_ch (CHR '':'') (session_line s)) = se_protocol s"
    by (simp add: session_line_def split_ch_append_sep)
  have "trim (se_iqn s) = se_iqn s" using assms by (intro trim_no_space) (simp add: reportable_def)
  with i p q show ?thesis
    by (simp add: parse_session_def session_fields [OF assms] Let_def item_def s(2) at_def)
qed

lemma session_line_shape:
  assumes "reportable s"
  shows "session_line s \<noteq> []" and "\<not> is_space (hd (session_line s))" and "last (session_line s) = CHR '')''"
    and "CHR 10 \<notin> set (session_line s)"
proof -
  obtain k t where s: "se_id s = IntN (int k)" "se_tag s = Str t" "list_all field_char t"
    using assms by (auto simp: reportable_def)
  obtain c p where p: "se_protocol s = c # p" "\<not> is_space c"
    using assms by (cases "se_protocol s") (auto simp: reportable_def field_char_def)
  show "session_line s \<noteq> []" "\<not> is_space (hd (session_line s))" "last (session_line s) = CHR '')''"
    by (simp_all add: session_line_def p)
  have sp: "is_space (CHR 10)" by (simp add: is_space_def)
  have k: "CHR 10 \<notin> set (show_nat k)" using num_text_plain [of "CHR 10" k] by (auto simp: is_digit_def)
  show "CHR 10 \<notin> set (session_line s)"
    using assms s k sp by (auto simp: session_line_def show_int_nat reportable_def list_all_iff field_char_def)
qed

text \<open>
  C16: the sessions that a listing of \<open>iscsiadm -m session\<close> reports are read back as they are:
  \<open>getSessions\<close> gives each with its protocol, number, portal, portal group and target, in order.
\<close>

theorem getSessions_roundtrip:
  assumes "ss \<noteq> []" and "\<And>s. s \<in> set ss \<Longrightarrow> reportable s"
    and "iscsiadm I [''-m'', ''session''] w = (Inr r, w')" and "er_stdout r = session_listing ss"
  shows "getSessions I w = (Inr ss, w')"
proof -
  let ?ls = "map session_line ss" and ?text = "join [CHR 10] (map session_line ss)"
  have lines: "\<And>l. l \<in> set ?ls \<Longrightarrow> l \<noteq> [] \<and> \<not> is_space (hd l) \<and> last l = CHR '')'' \<and> CHR 10 \<notin> set l"
    using assms(2) session_line_shape by auto
  have ends: "ls \<noteq> [] \<Longrightarrow> (\<And>l. l \<in> set ls \<Longrightarrow> l \<noteq> []) \<Longrightarrow>
      join [CHR 10] ls \<noteq> [] \<and> hd (join [CHR 10] ls) = hd (hd ls) \<and> last (join [CHR 10] ls) = last (last ls)" for ls
    by (induction "[CHR 10]" ls rule: join.induct) auto
  have "?ls \<noteq> []" using assms(1) by simp
  with ends [OF this] lines have e: "?text \<noteq> []" "\<not> is_space (hd ?text)" "last ?text = CHR '')''"
    by (metis hd_in_set last_in_set)+
  then have "trim (session_listing ss) = ?text"
    unfolding session_listing_def by (intro trim_text) (simp_all add: is_space_def)
  moreover have "split_ch (CHR 10) ?text = ?ls" using \<open>?ls \<noteq> []\<close> lines by (intro split_join_ch) auto
  moreover have "filter (\<lambda>e. e \<noteq> []) ?ls = ?ls" using lines by (simp add: filter_id_conv)
  moreover have "emap parse_session ?ls = Inr ss"
    by (rule emap_map_id) (rule parse_session_line [OF assms(2)])
  moreover have "session_listing ss \<noteq> []" by (simp add: session_listing_def)
  moreover have "iscsiadm_or_none I [''-m'', ''session''] w = (Inr (er_stdout r), w')"
    by (simp add: iscsiadm_or_none_def catch_def bind_def assms(3) ret_def)
  ultimately show ?thesis
    by (simp add: getSessions_def bind_def assms(4) output_lines_def lift_def)
qed

definition one_session :: iscsi_session where
  "one_session = \<lparr>se_protocol = ''tcp'', se_id = IntN 3, se_portal = ''[2001:db8::1]:3260'',
     se_tag = Str ''1'', se_iqn = ''iqn.2005-10.org.freenas.ctl:a''\<rparr>"

definition listing_host :: "nat host" where
  "listing_host = hanging_host\<lparr>ho_spawn := (\<lambda>c a opts n. (Closed (Some 0) (session_listing [one_session]) [] False, n + 1))\<rparr>"

lemma getSessions_roundtrip_witness:
  "fst (getSessions (new_iscsi [] listing_host) \<lparr>ext = 0, hist = []\<rparr>) = Inr [one_session]"
proof -
  let ?I = "new_iscsi [] listing_host" and ?w = "\<lparr>ext = 0, hist = []\<rparr> :: nat world"
  let ?r = "closed_result (Some 0) (session_listing [one_session]) [] False"
  have k: "(3::int) = int 3" by simp
  have 1: "reportable s" if "s \<in> set [one_session]" for s
    using that by (auto simp: one_session_def reportable_def field_char_def is_space_def intro: exI [of _ 3])
  have 2: "fst (iscsiadm ?I [''-m'', ''session''] ?w) = Inr ?r" by code_simp
  have 3: "er_stdout ?r = session_listing [one_session]" by (simp add: closed_result_def)
  from getSessions_roundtrip [OF _ 1 run_fst [OF 2] 3] show ?thesis by simp
qed

end
