(* ===== verification/Reaper_Passes.thy ===== *)
theory Reaper_Passes
  imports Session_Reaper Iscsi_Commands
begin

text \<open>
  What a reconcile pass may do to the sessions, how its table refines the specification of
  a staleness timer, and what that means over many passes.
\<close>

section \<open>Reapable sessions\<close>

definition stale_device :: "jsobj \<Rightarrow> jsobj \<Rightarrow> js \<Rightarrow> bool" where
  "stale_device deviceStates mounts device \<longleftrightarrow>
     truthy (field device ''attached_scsi_disk'')
     \<and> obj_get mounts (to_str (field device ''attached_scsi_disk'')) \<noteq> Undef
     \<and> \<not> truthy (obj_get mounts (to_str (field device ''attached_scsi_disk'')))
     \<and> device_state deviceStates device (to_str (field device ''attached_scsi_disk''))
         \<in> {''offline'', ''transport-offline''}"

lemma evaluate_device_stale: "snd (evaluate_device st mo d) \<longleftrightarrow> stale_device st mo d"
  by (auto simp: evaluate_device_def stale_device_def device_mounted_def Let_def STALE_DEVICE_STATES_def)

text \<open>
  a session is reapable exactly when it has devices and every one of them is named,
  known not to be mounted, and offline or transport-offline: in the state read from the
  system, or in the state of the report when that could not be read.
\<close>

theorem reapable_iff:
  "ev_reapable (isSessionReapable session st mo) \<longleftrightarrow>
     device_list session \<noteq> [] \<and> list_all (stale_device st mo) (device_list session)"
  by (simp add: isSessionReapable_def Let_def list_all_iff evaluate_device_stale)

section \<open>Commands of a pass\<close>

text \<open>The commands that end a session: its logout and the deletion of its record.\<close>

definition ends_session :: "'e reaper_deps \<Rightarrow> string \<Rightarrow> string \<Rightarrow> event \<Rightarrow> bool" where
  "ends_session R iqn portal ev \<longleftrightarrow>
     ev = iscsi_ev (rd_iscsi R) (logout_args iqn portal) \<or> ev = iscsi_ev (rd_iscsi R) (delete_args iqn portal)"

text \<open>The queries: the report of the sessions, the devices and the mounts.\<close>

definition queries :: "'e reaper_deps \<Rightarrow> event \<Rightarrow> bool" where
  "queries R ev \<longleftrightarrow>
     ev = iscsi_ev (rd_iscsi R) [''-m'', ''session'', ''-P'', ''3''] \<or> ev = EvSleep 250
     \<or> (\<exists>p. ev = EvHost ''readFile'' p)
     \<or> (\<exists>c a d. ev = EvSpawn c a \<and>
          ((c, a) = sudo_command (fs_options (mo_filesystem (rd_mount R))) ''realpath'' [d]
           \<or> (c, a) = sudo_command (mo_options (rd_mount R)) (mo_path (rd_mount R) ''findmnt'')
                ([''--source'', d] @ findmnt_options [])))"

text \<open>What a pass at \<open>now\<close> may run with the table \<open>tbl\<close> it starts from.\<close>

definition allowed :: "'e reaper_deps \<Rightarrow> jnum \<Rightarrow> int \<Rightarrow> stale_table \<Rightarrow> event \<Rightarrow> bool" where
  "allowed R minStale now tbl ev \<longleftrightarrow> queries R ev \<or>
     (\<exists>iqn portal t. ends_session R iqn portal ev
        \<and> (map_of tbl (stale_key iqn portal) = Some t \<or> t = now)
        \<and> \<not> num_less (IntN (now - t)) minStale)"

lemma adds_evaluate_session:
  assumes q: "\<And>ev. queries R ev \<Longrightarrow> P ev"
  shows "adds P (evaluate_session R session)"
proof -
  have "adds P (collect_device R info d)" for info d
    unfolding collect_device_def readDeviceStateFromSysfs_def Let_def
    by (auto intro!: wp_intro q split: prod.splits simp: queries_def)
  then show ?thesis
    unfolding evaluate_session_def collectSessionDeviceInfo_def
    by (auto intro!: wp_intro split: prod.splits)
qed

lemma adds_reapSession:
  "(\<And>ev. ends_session R q p ev \<Longrightarrow> P ev) \<Longrightarrow> P (EvSleep 250) \<Longrightarrow> adds P (reapSession R q p)"
  unfolding reapSession_def by (auto intro!: wp_intro simp: ends_session_def)

text \<open>The table in the middle of a pass: timers from before, or started in this pass.\<close>

definition timers_ok :: "int \<Rightarrow> stale_table \<Rightarrow> pass_state \<Rightarrow> bool" where
  "timers_ok now tbl p \<longleftrightarrow> (\<forall>k. map_of (pa_stale p) k = None \<or> map_of (pa_stale p) k = map_of tbl k \<or> map_of (pa_stale p) k = Some now)"

lemma timers_okD: "timers_ok now tbl p \<Longrightarrow> map_of (pa_stale p) k = Some t \<Longrightarrow> map_of tbl k = Some t \<or> t = now"
  unfolding timers_ok_def by (metis option.distinct(1) option.inject)

lemma timers_ok_set: "timers_ok now tbl p \<Longrightarrow> pa_stale p' = obj_set k now (pa_stale p) \<Longrightarrow> timers_ok now tbl p'"
  and timers_ok_delete: "timers_ok now tbl p \<Longrightarrow> pa_stale p' = obj_delete k (pa_stale p) \<Longrightarrow> timers_ok now tbl p'"
  and timers_ok_same: "timers_ok now tbl p \<Longrightarrow> pa_stale p' = pa_stale p \<Longrightarrow> timers_ok now tbl p'"
  unfolding timers_ok_def by (simp_all add: map_of_obj_set map_of_obj_delete)

lemma wp_hist:
  assumes "adds P m" and "hist w = h @ es0" and "list_all P es0"
    and "\<And>x w' es. hist w' = h @ es \<Longrightarrow> list_all P es \<Longrightarrow> Q x w'"
    and "\<And>e w' es. hist w' = h @ es \<Longrightarrow> list_all P es \<Longrightarrow> E e w'"
  shows "wp m Q E w"
  by (rule wp_adds [OF assms(1)]) (use assms in \<open>force+\<close>)

lemma wp_reconcile_candidate:
  fixes R :: "'e reaper_deps"
  assumes p: "timers_ok now tbl p" and w: "hist w = h @ es0" "list_all (allowed R m now tbl) es0"
  shows "wp (reconcile_candidate R m now q po p)
     (\<lambda>p' w'. timers_ok now tbl p' \<and> (\<exists>es. hist w' = h @ es \<and> list_all (allowed R m now tbl) es))
     (\<lambda>_ w'. \<exists>es. hist w' = h @ es \<and> list_all (allowed R m now tbl) es) w"
proof -
  define key where "key = stale_key q po"
  define first where "first = (case map_of (pa_stale p) key of None \<Rightarrow> now | Some t \<Rightarrow> t)"
  have first: "map_of tbl key = Some first \<or> first = now"
    using p by (auto simp: first_def timers_ok_def split: option.splits dest!: spec [of _ key])
  show ?thesis
  proof (cases "num_less (IntN (now - first)) m")
    case True
    with p w show ?thesis
      by (auto simp: reconcile_candidate_def Let_def key_def [symmetric] first_def [symmetric] timers_ok_def
          map_of_obj_set split: option.splits)
  next
    case False
    have reap: "adds (allowed R m now tbl) (reapSession R q po)"
    proof (rule adds_reapSession)
      show "allowed R m now tbl ev" if "ends_session R q po ev" for ev
        unfolding allowed_def using that first False key_def by blast
      show "allowed R m now tbl (EvSleep 250)" by (simp add: allowed_def queries_def)
    qed
    define p1 where "p1 = p\<lparr>pa_stale := (case map_of (pa_stale p) key of None \<Rightarrow> obj_set key now (pa_stale p)
        | Some t \<Rightarrow> pa_stale p)\<rparr>"
    have p1: "timers_ok now tbl p1"
      by (cases "map_of (pa_stale p) key") (auto simp: p1_def intro: timers_ok_set [OF p] timers_ok_same [OF p])
    have ok: "timers_ok now tbl p'" if "pa_stale p' = pa_stale p1 \<or> pa_stale p' = obj_delete key (pa_stale p1)" for p'
      using that timers_ok_same [OF p1] timers_ok_delete [OF p1] by blast
    show ?thesis
      unfolding reconcile_candidate_def Let_def key_def [symmetric] first_def [symmetric]
      using False by (auto intro!: wp_hist [OF reap w] ok simp: p1_def)
  qed
qed

lemma wp_reconcile_session:
  fixes R :: "'e reaper_deps"
  assumes p: "timers_ok now tbl p" and w: "hist w = h @ es0" "list_all (allowed R m now tbl) es0"
  shows "wp (reconcile_session R m now p session)
     (\<lambda>p' w'. timers_ok now tbl p' \<and> (\<exists>es. hist w' = h @ es \<and> list_all (allowed R m now tbl) es))
     (\<lambda>_ w'. \<exists>es. hist w' = h @ es \<and> list_all (allowed R m now tbl) es) w"
proof -
  have ev: "adds (allowed R m now tbl) (evaluate_session R session)"
    by (rule adds_evaluate_session) (simp add: allowed_def)
  have del: "timers_ok now tbl p'" if "pa_stale p' = obj_delete k (pa_stale p)" for p' k
    using p that by (rule timers_ok_delete)
  show ?thesis
    unfolding reconcile_session_def Let_def
    using p w by (auto intro!: wp_hist [OF ev w] wp_reconcile_candidate [OF p] del split: option.splits)
qed

text \<open>
  C13: in a reconcile pass, whatever the host answers, the only commands besides queries are
  the logout of a session and the deletion of its record, and only for a session that the
  table of the pass before has as stale for at least the least time (or, when the least time
  is not positive, one that this pass itself finds stale).
\<close>

theorem reconcile_scope:
  fixes R :: "'e reaper_deps"
  shows "\<exists>es. hist (snd (reconcile R enabled m now tbl w)) = hist w @ es \<and> list_all (allowed R m now tbl) es"
proof -
  let ?ok = "\<lambda>w'. \<exists>es. hist w' = hist w @ es \<and> list_all (allowed R m now tbl) es"
  have g: "adds (allowed R m now tbl) (getSessionsDetails (rd_iscsi R))"
    by (intro wp_intro) (simp_all add: allowed_def queries_def)
  have s: "adds (allowed R m now tbl) (catch (bind (getSessionsDetails (rd_iscsi R)) (\<lambda>s. ret (Some s))) (\<lambda>_. ret None))"
    by (intro wp_intro g)
  have f: "wp (fold_io (reconcile_session R m now)
         \<lparr>pa_stale = tbl, pa_current = [], pa_summary = no_summary\<rparr> sessions)
      (\<lambda>p w'. timers_ok now tbl p \<and> ?ok w') (\<lambda>_. ?ok) w1" if "?ok w1" for sessions w1
  proof (rule wp_fold_io_inv)
    show "timers_ok now tbl \<lparr>pa_stale = tbl, pa_current = [], pa_summary = no_summary\<rparr> \<and> ?ok w1"
      using that by (simp add: timers_ok_def)
  qed (auto intro!: wp_reconcile_session)
  have "wp (reconcile R enabled m now tbl) (\<lambda>_. ?ok) (\<lambda>_. ?ok) w"
  proof (cases enabled)
    case True
    show ?thesis
      unfolding reconcile_def wp_bind
      using True by (simp only: not_True_eq_False if_False wp_bind)
        (rule wp_hist [OF s, of w "hist w" "[]"], auto intro!: wp_mono [OF f] split: option.splits)
  qed (simp add: reconcile_def)
  then show ?thesis by (auto simp: wp_def split: prod.splits sum.splits)
qed

section \<open>The table refines a staleness timer\<close>

definition session_key :: "jsobj \<Rightarrow> string option" where
  "session_key session =
     (let iqn = obj_get session ''target''; portal = session_portal session in
      if truthy iqn \<and> truthy portal then Some (stale_key (to_str iqn) (to_str portal)) else None)"

definition keys_of :: "(string \<times> string) list \<Rightarrow> string set" where
  "keys_of xs = (\<lambda>(iqn, portal). stale_key iqn portal) ` set xs"

lemma keys_of_append [simp]: "keys_of (xs @ [(q, po)]) = insert (stale_key q po) (keys_of xs)"
  and keys_of_Nil [simp]: "keys_of [] = {}"
  by (simp_all add: keys_of_def)

text \<open>The second since which a session is stale: as the timer has it, or now.\<close>

definition since :: "(string \<Rightarrow> int option) \<Rightarrow> int \<Rightarrow> string \<Rightarrow> int" where
  "since T now k = (case T k of None \<Rightarrow> now | Some t \<Rightarrow> t)"

abbreviation cands :: "pass_state \<Rightarrow> string set" where
  "cands p \<equiv> keys_of (ps_candidates (pa_summary p))"

abbreviation reaped_keys :: "pass_state \<Rightarrow> string set" where
  "reaped_keys p \<equiv> keys_of (ps_reaped (pa_summary p))"

lemma bind_run_Inr: "bind m f w = (Inr y, w') \<Longrightarrow> \<exists>x w1. m w = (Inr x, w1) \<and> f x w1 = (Inr y, w')"
  by (simp add: bind_Inr)

lemma reconcile_candidate_cases:
  assumes "reconcile_candidate R m now q po p w = (Inr p', w')"
  obtains (kept) "cands p' = insert (stale_key q po) (cands p)" "reaped_keys p' = reaped_keys p"
      "map_of (pa_stale p') = (map_of (pa_stale p))(stale_key q po \<mapsto> since (map_of (pa_stale p)) now (stale_key q po))"
      "set (pa_current p') = insert (stale_key q po) (set (pa_current p))"
  | (reaped) "cands p' = insert (stale_key q po) (cands p)"
      "reaped_keys p' = insert (stale_key q po) (reaped_keys p)"
      "\<not> num_less (IntN (now - since (map_of (pa_stale p)) now (stale_key q po))) m"
      "map_of (pa_stale p') = (map_of (pa_stale p))(stale_key q po := None)"
      "set (pa_current p') = set (pa_current p) - {stale_key q po}"
proof -
  let ?k = "stale_key q po"
  define st where "st = (case map_of (pa_stale p) ?k of None \<Rightarrow> obj_set ?k now (pa_stale p) | Some t \<Rightarrow> pa_stale p)"
  have st: "map_of st = (map_of (pa_stale p))(?k \<mapsto> since (map_of (pa_stale p)) now ?k)"
    by (auto simp: st_def since_def map_of_obj_set split: option.splits)
  have del: "map_of (obj_delete ?k st) = (map_of (pa_stale p))(?k := None)"
    using st by (auto simp: map_of_obj_delete)
  note run = assms [unfolded reconcile_candidate_def Let_def since_def [symmetric] st_def [symmetric]]
  show thesis
  proof (cases "num_less (IntN (now - since (map_of (pa_stale p)) now ?k)) m")
    case True
    with run have "p' = p\<lparr>pa_stale := st,
          pa_current := (if ?k \<in> set (pa_current p) then pa_current p else pa_current p @ [?k]),
          pa_summary := (pa_summary p)\<lparr>ps_candidates := ps_candidates (pa_summary p) @ [(q, po)]\<rparr>\<rparr>"
      by (simp add: ret_Inr)
    with st show thesis by (intro kept) auto
  next
    case False
    with run obtain r w1 where "reapSession R q po w = (Inr r, w1)"
      and p': "p' = (let p1 = p\<lparr>pa_stale := st,
          pa_current := (if ?k \<in> set (pa_current p) then pa_current p else pa_current p @ [?k]),
          pa_summary := (pa_summary p)\<lparr>ps_candidates := ps_candidates (pa_summary p) @ [(q, po)]\<rparr>\<rparr>;
          sm = pa_summary p1
        in if r then p1\<lparr>pa_stale := obj_delete ?k (pa_stale p1), pa_current := filter (\<lambda>k. k \<noteq> ?k) (pa_current p1),
             pa_summary := sm\<lparr>ps_reaped := ps_reaped sm @ [(q, po)]\<rparr>\<rparr>
           else p1\<lparr>pa_summary := sm\<lparr>ps_failed := ps_failed sm @ [(q, po)]\<rparr>\<rparr>)"
      by (auto simp: bind_Inr ret_Inr Let_def)
    show thesis
    proof (cases r)
      case True
      with p' del False show thesis by (intro reaped) (auto simp: Let_def)
    next
      case False
      with p' st show thesis by (intro kept) (auto simp: Let_def)
    qed
  qed
qed

lemma reconcile_session_cases:
  assumes "reconcile_session R m now p s w = (Inr p', w')"
  obtains (none) "session_key s = None" "p' = p"
  | (unknown) k where "session_key s = Some k" "p' = p"
  | (skip) k where "session_key s = Some k" "map_of (pa_stale p') = (map_of (pa_stale p))(k := None)"
      "pa_current p' = pa_current p" "cands p' = cands p" "reaped_keys p' = reaped_keys p"
  | (candidate) q po w1 where "session_key s = Some (stale_key q po)"
      "reconcile_candidate R m now q po p w1 = (Inr p', w')"
proof -
  let ?q = "obj_get s ''target''" and ?po = "session_portal s"
  show thesis
  proof (cases "truthy ?q \<and> truthy ?po")
    case False
    with assms show thesis by (intro none) (auto simp: reconcile_session_def session_key_def Let_def ret_Inr)
  next
    case True
    then have k: "session_key s = Some (stale_key (to_str ?q) (to_str ?po))" by (simp add: session_key_def)
    from assms True obtain e w1 where "evaluate_session R s w = (Inr e, w1)"
      and r: "(case e of None \<Rightarrow> ret p | Some e \<Rightarrow>
            if \<not> ev_reapable e then
              ret (p\<lparr>pa_stale := obj_delete (stale_key (to_str ?q) (to_str ?po)) (pa_stale p),
                     pa_summary := (pa_summary p)\<lparr>ps_skipped := ps_skipped (pa_summary p) @ [(to_str ?q, to_str ?po)]\<rparr>\<rparr>)
            else reconcile_candidate R m now (to_str ?q) (to_str ?po) p) w1 = (Inr p', w')"
      by (auto simp: reconcile_session_def Let_def bind_Inr)
    show thesis
    proof (cases e)
      case None
      with r show thesis by (intro unknown [OF k]) (simp add: ret_Inr)
    next
      case (Some e')
      show thesis
      proof (cases "ev_reapable e'")
        case True
        with r Some show thesis by (intro candidate [OF k]) simp
      next
        case False
        with r Some show thesis by (intro skip [OF k]) (auto simp: ret_Inr map_of_obj_delete)
      qed
    qed
  qed
qed

text \<open>
  The state of a pass that has dealt with the sessions of the keys \<open>seen\<close>, for the timers \<open>T\<close>
  from before the pass: the current candidates run on, the rest is as it was.
\<close>

definition tracks :: "int \<Rightarrow> (string \<Rightarrow> int option) \<Rightarrow> string set \<Rightarrow> pass_state \<Rightarrow> bool" where
  "tracks now T seen p \<longleftrightarrow>
     (\<forall>k\<in>seen. if k \<in> set (pa_current p)
        then k \<in> cands p \<and> k \<notin> reaped_keys p \<and> map_of (pa_stale p) k = Some (since T now k)
        else k \<notin> cands p \<or> k \<in> reaped_keys p)
     \<and> (\<forall>k. k \<notin> seen \<longrightarrow> map_of (pa_stale p) k = T k \<and> k \<notin> set (pa_current p)
            \<and> k \<notin> cands p \<and> k \<notin> reaped_keys p)"

lemma tracks_candidate:
  assumes "tracks now T seen p" and k: "stale_key q po \<notin> seen"
    and run: "reconcile_candidate R m now q po p w = (Inr p', w')"
  shows "tracks now T (insert (stale_key q po) seen) p'"
proof -
  have "since (map_of (pa_stale p)) now (stale_key q po) = since T now (stale_key q po)"
    using assms(1) k by (simp add: tracks_def since_def)
  with run assms(1) k show ?thesis
    by (cases rule: reconcile_candidate_cases) (auto simp: tracks_def)
qed

lemma tracks_session:
  assumes "tracks now T seen p" and "reconcile_session R m now p s w = (Inr p', w')"
    and "\<And>k. session_key s = Some k \<Longrightarrow> k \<notin> seen"
  shows "tracks now T (seen \<union> set_option (session_key s)) p'"
  using assms(2)
proof (cases rule: reconcile_session_cases)
  case none
  with assms(1) show ?thesis by simp
next
  case (unknown k)
  with assms(1,3) show ?thesis by (auto simp: tracks_def)
next
  case (skip k)
  with assms(1,3) show ?thesis by (auto simp: tracks_def)
next
  case (candidate q po w1)
  with tracks_candidate [OF assms(1)] assms(3) show ?thesis by auto
qed

definition session_keys :: "jsobj list \<Rightarrow> string list" where
  "session_keys sessions = List.map_filter session_key sessions"

lemma tracks_fold:
  assumes "fold_io (reconcile_session R m now) p sessions w = (Inr p', w')" and "tracks now T seen p"
    and "distinct (session_keys sessions)" and "seen \<inter> set (session_keys sessions) = {}"
  shows "tracks now T (seen \<union> set (session_keys sessions)) p'"
  using assms
proof (induction sessions arbitrary: p w seen)
  case (Cons s sessions)
  then obtain p1 w1 where 1: "reconcile_session R m now p s w = (Inr p1, w1)"
    and 2: "fold_io (reconcile_session R m now) p1 sessions w1 = (Inr p', w')"
    by (auto simp: bind_Inr)
  have "tracks now T (seen \<union> set_option (session_key s)) p1"
    using Cons.prems by (intro tracks_session [OF _ 1]) (auto simp: session_keys_def map_filter_simps)
  from Cons.IH [OF 2 this] Cons.prems(3,4) show ?case
    by (cases "session_key s") (auto simp: session_keys_def map_filter_simps Un_assoc)
qed (simp_all add: session_keys_def map_filter_simps ret_Inr)

lemma drop_untracked_lookup:
  "map_of (drop_untracked p) k = (if k \<in> set (pa_current p) then map_of (pa_stale p) k else None)"
proof -
  have fold: "map_of (foldl (\<lambda>m k. if k \<in> C then m else obj_delete k m) m ks) j =
      (if j \<in> set ks \<and> j \<notin> C then None else map_of m j)" for C and m :: stale_table and ks j
    by (induction ks arbitrary: m) (auto simp: map_of_obj_delete)
  have "map_of (pa_stale p) k = None" if "k \<notin> set (obj_keys (pa_stale p))"
    using that by (simp add: obj_keys_def map_of_eq_None_iff)
  then show ?thesis by (auto simp: drop_untracked_def fold)
qed

text \<open>
  The specification of the timers: after a pass, each session found stale in it and not
  reaped has the second since which it is stale, and no other session has a timer.
\<close>

definition stale_spec :: "int \<Rightarrow> string set \<Rightarrow> string set \<Rightarrow> (string \<Rightarrow> int option) \<Rightarrow> string \<Rightarrow> int option" where
  "stale_spec now candidates gone T k =
     (if k \<in> candidates \<and> k \<notin> gone then Some (since T now k) else None)"

lemma reconcile_fold:
  assumes "reconcile R True m now tbl w = (Inr (sm, tbl'), w')"
    and "getSessionsDetails (rd_iscsi R) w = (Inr sessions, w1)" and "sessions \<noteq> []"
  shows "\<exists>p. fold_io (reconcile_session R m now)
      \<lparr>pa_stale = tbl, pa_current = [], pa_summary = no_summary\<rparr> sessions w1 = (Inr p, w')
    \<and> sm = pa_summary p \<and> tbl' = drop_untracked p"
  using assms by (auto simp: reconcile_def catch_def bind_def ret_def split: prod.splits sum.splits)

text \<open>
  C14: a pass over sessions with distinct keys refines the specification of the timers: the
  table after it, read as a map, is \<open>stale_spec\<close> of the map before it, for the candidates and
  the reaped sessions that the pass reports.
\<close>

theorem reconcile_refines_timers:
  assumes run: "reconcile R True m now tbl w = (Inr (sm, tbl'), w')"
    and sessions: "getSessionsDetails (rd_iscsi R) w = (Inr sessions, w1)" "sessions \<noteq> []"
      "distinct (session_keys sessions)"
  shows "map_of tbl' = stale_spec now (keys_of (ps_candidates sm)) (keys_of (ps_reaped sm)) (map_of tbl)"
proof -
  obtain p where p: "fold_io (reconcile_session R m now)
      \<lparr>pa_stale = tbl, pa_current = [], pa_summary = no_summary\<rparr> sessions w1 = (Inr p, w')"
    "sm = pa_summary p" "tbl' = drop_untracked p"
    using reconcile_fold [OF run sessions(1,2)] by blast
  have "tracks now (map_of tbl) {} \<lparr>pa_stale = tbl, pa_current = [], pa_summary = no_summary\<rparr>"
    by (simp add: tracks_def no_summary_def)
  from tracks_fold [OF p(1) this sessions(3)] have t: "tracks now (map_of tbl) (set (session_keys sessions)) p" by simp
  show ?thesis
  proof
    fix k
    from t show "map_of tbl' k = stale_spec now (keys_of (ps_candidates sm)) (keys_of (ps_reaped sm)) (map_of tbl) k"
      unfolding p drop_untracked_lookup stale_spec_def tracks_def
      by (cases "k \<in> set (session_keys sessions)") (auto split: if_splits)
  qed
qed

section \<open>Many passes\<close>

text \<open>The passes of one process, with what the table is after them; between two passes the
  world may change in any way.\<close>

inductive reaper_runs :: "'e reaper_deps \<Rightarrow> jnum \<Rightarrow> (int \<times> pass_summary) list \<Rightarrow> stale_table \<Rightarrow> bool"
  for R m where
  start: "reaper_runs R m [] []"
| pass: "reaper_runs R m h tbl \<Longrightarrow> reconcile R True m now tbl w = (Inr (sm, tbl'), w')
    \<Longrightarrow> reaper_runs R m (h @ [(now, sm)]) tbl'"

definition current_ok :: "int \<Rightarrow> stale_table \<Rightarrow> pass_state \<Rightarrow> bool" where
  "current_ok now tbl p \<longleftrightarrow> timers_ok now tbl p \<and> set (pa_current p) \<subseteq> cands p"

lemma current_ok_session:
  assumes "current_ok now tbl p" and "reconcile_session R m now p s w = (Inr p', w')"
  shows "current_ok now tbl p'"
  using assms(2)
proof (cases rule: reconcile_session_cases)
  case (candidate q po w1)
  have s: "since (map_of (pa_stale p)) now k = now \<or> map_of tbl k = Some (since (map_of (pa_stale p)) now k)" for k
    using assms(1) by (auto simp: since_def current_ok_def timers_ok_def split: option.splits dest!: spec [of _ k])
  from candidate(2) show ?thesis
    using assms(1) s [of "stale_key q po"]
    by (cases rule: reconcile_candidate_cases) (auto simp: current_ok_def timers_ok_def)
qed (use assms(1) in \<open>auto simp: current_ok_def timers_ok_def\<close>)

lemma current_ok_fold:
  "fold_io (reconcile_session R m now) p sessions w = (Inr p', w') \<Longrightarrow> current_ok now tbl p \<Longrightarrow> current_ok now tbl p'"
proof (induction sessions arbitrary: p w)
  case (Cons s sessions)
  then show ?case by (auto simp: bind_Inr dest: current_ok_session)
qed (simp add: ret_Inr)

lemma reconcile_timers:
  assumes run: "reconcile R True m now tbl w = (Inr (sm, tbl'), w')" and k: "map_of tbl' k = Some t"
  shows "sm = no_summary \<and> tbl' = tbl \<or> k \<in> keys_of (ps_candidates sm) \<and> (map_of tbl k = Some t \<or> t = now)"
proof -
  obtain r w1 where g: "getSessionsDetails (rd_iscsi R) w = (r, w1)" by force
  show ?thesis
  proof (cases r)
    case (Inl e)
    with run g show ?thesis by (auto simp: reconcile_def catch_def bind_def ret_def split: if_splits)
  next
    case (Inr sessions)
    show ?thesis
    proof (cases "sessions = []")
      case True
      with run g Inr k show ?thesis by (auto simp: reconcile_def catch_def bind_def ret_def)
    next
      case False
      with g Inr obtain p where p: "fold_io (reconcile_session R m now)
          \<lparr>pa_stale = tbl, pa_current = [], pa_summary = no_summary\<rparr> sessions w1 = (Inr p, w')"
        "sm = pa_summary p" "tbl' = drop_untracked p"
        using reconcile_fold [OF run] by blast
      have "current_ok now tbl \<lparr>pa_stale = tbl, pa_current = [], pa_summary = no_summary\<rparr>"
        by (simp add: current_ok_def timers_ok_def)
      from current_ok_fold [OF p(1) this] have c: "timers_ok now tbl p" "set (pa_current p) \<subseteq> cands p"
        by (simp_all add: current_ok_def)
      from k p(3) have "k \<in> set (pa_current p)" "map_of (pa_stale p) k = Some t"
        by (simp_all add: drop_untracked_lookup split: if_splits)
      with c timers_okD [OF c(1)] p(2) show ?thesis by blast
    qed
  qed
qed

text \<open>
  a timer measures uninterrupted staleness: it started in a pass that found the session
  stale, and every pass since then has found it stale again or could not list the sessions.
\<close>

theorem timer_uninterrupted:
  assumes "reaper_runs R m h tbl" and "map_of tbl k = Some t"
  shows "\<exists>i<length h. fst (h ! i) = t \<and> k \<in> keys_of (ps_candidates (snd (h ! i)))
    \<and> (\<forall>j. i \<le> j \<and> j < length h \<longrightarrow> k \<in> keys_of (ps_candidates (snd (h ! j))) \<or> snd (h ! j) = no_summary)"
  using assms
proof (induction arbitrary: t rule: reaper_runs.induct)
  case (pass h tbl now w sm tbl' w')
  have grow: "\<exists>i<length (h @ [(now, sm)]). fst ((h @ [(now, sm)]) ! i) = t
      \<and> k \<in> keys_of (ps_candidates (snd ((h @ [(now, sm)]) ! i)))
      \<and> (\<forall>j. i \<le> j \<and> j < length (h @ [(now, sm)]) \<longrightarrow>
            k \<in> keys_of (ps_candidates (snd ((h @ [(now, sm)]) ! j))) \<or> snd ((h @ [(now, sm)]) ! j) = no_summary)"
    if "map_of tbl k = Some t" and sm: "k \<in> keys_of (ps_candidates sm) \<or> sm = no_summary"
  proof -
    from pass.IH [OF that(1)] obtain i where "i < length h" "fst (h ! i) = t"
      "k \<in> keys_of (ps_candidates (snd (h ! i)))"
      "\<forall>j. i \<le> j \<and> j < length h \<longrightarrow> k \<in> keys_of (ps_candidates (snd (h ! j))) \<or> snd (h ! j) = no_summary"
      by blast
    with sm show ?thesis by (intro exI [of _ i]) (auto simp: nth_append less_Suc_eq)
  qed
  from reconcile_timers [OF pass.hyps(2) pass.prems]
  consider "map_of tbl k = Some t" "k \<in> keys_of (ps_candidates sm) \<or> sm = no_summary"
    | "k \<in> keys_of (ps_candidates sm)" "t = now"
    using pass.prems by auto
  then show ?case
  proof cases
    case 1
    then show ?thesis by (rule grow)
  next
    case 2
    then show ?thesis by (intro exI [of _ "length h"]) (auto simp: less_Suc_eq)
  qed
qed simp

section \<open>A node with one stale session\<close>

text \<open>A report of one session whose only device is offline and not mounted.\<close>

definition report :: string where
  "report = join [CHR 10] [''iSCSI Transport Class version 2.0'', ''version 6'',
     ''Target: iqn.a (non-flash)'', CHR 9 # ''Current Portal: 10.0.0.1:3260,1'',
     CHR 9 # ''Persistent Portal: 10.0.0.1:3260,1'', CHR 9 # ''****'', CHR 9 # ''Attached SCSI devices:'',
     CHR 9 # ''****'', CHR 9 # ''Host Number: 3'' @ [CHR 9] @ ''State: running'',
     CHR 9 # ''scsi3 Channel 00 Id 0 Lun: 0'',
     CHR 9 # ''Attached scsi disk sdb'' @ [CHR 9, CHR 9] @ ''State: running'']"

definition offline_host :: "nat host" where
  "offline_host = hanging_host
     \<lparr>ho_spawn := (\<lambda>c a opts n.
        (if c = ''findmnt'' then Closed (Some 1) [] [] False
         else if c = ''realpath'' then Closed (Some 0) (concat a) [] False
         else if ''session'' \<in> set a then Closed (Some 0) report [] False
         else Closed (Some 0) [] [] False, n + 1)),
      ho_read := (\<lambda>p n. (Some (''offline'' @ [CHR 10]), n))\<rparr>"

definition sample_reaper :: "nat reaper_deps" where
  "sample_reaper = \<lparr>rd_iscsi = new_iscsi [] offline_host,
     rd_mount = new_mount [] (new_filesystem [] offline_host) offline_host, rd_host = offline_host\<rparr>"

definition at_rest :: "nat world" where "at_rest = \<lparr>ext = 0, hist = []\<rparr>"
definition sample_key :: string where
  "sample_key = ''iqn.a|10.0.0.1:3260,1''"

definition first_summary :: pass_summary where
  "first_summary = no_summary\<lparr>ps_candidates := [(''iqn.a'', ''10.0.0.1:3260,1'')]\<rparr>"

lemma sample_pass:
  "fst (reconcile sample_reaper True (IntN 120) 5 [] at_rest) = Inr (first_summary, [(sample_key, 5)])"
  by code_simp

lemma reconcile_refines_timers_witness:
  "map_of [(sample_key, 5)] = stale_spec 5 {sample_key} {} (map_of ([] :: stale_table))"
proof -
  let ?g = "getSessionsDetails (rd_iscsi sample_reaper) at_rest"
  have 1: "(case fst ?g of Inl e \<Rightarrow> False | Inr ss \<Rightarrow> ss \<noteq> [] \<and> distinct (session_keys ss))" by code_simp
  then obtain ss where ss: "fst ?g = Inr ss" "ss \<noteq> []" "distinct (session_keys ss)"
    by (cases "fst ?g") auto
  from reconcile_refines_timers [OF run_fst [OF sample_pass] run_fst [OF ss(1)] ss(2,3)]
  show ?thesis by (simp add: first_summary_def no_summary_def keys_of_def stale_key_def sample_key_def)
qed

lemma timer_uninterrupted_witness:
  "\<exists>i<length [(5, first_summary)]. fst ([(5, first_summary)] ! i) = (5::int)
    \<and> sample_key \<in> keys_of (ps_candidates (snd ([(5, first_summary)] ! i)))"
proof -
  have "reaper_runs sample_reaper (IntN 120) ([] @ [(5, first_summary)]) [(sample_key, 5)]"
    by (rule reaper_runs.pass [OF reaper_runs.start run_fst [OF sample_pass]])
  from timer_uninterrupted [OF this, of sample_key 5] show ?thesis by auto
qed

end
