(* ===== verification/Reaper_Timers.thy ===== *)
theory Reaper_Timers
  imports Session_Reaper
begin

text \<open>
  The class \<open>ISCSISessionReaper\<close> of \<open>src/utils/iscsi-session-reaper.js\<close>: its options, and
  \<open>start\<close>, \<open>stop\<close> and \<open>runOnce\<close> as a state machine over the timers of the runtime. A pass is
  in flight from the moment \<open>runOnce\<close> sets its flag to the \<open>finally\<close> that clears it.
\<close>

section \<open>Options\<close>

record reaper =
  re_enabled :: bool
  re_intervalSeconds :: jnum
  re_minStaleSeconds :: jnum
  re_startupDelaySeconds :: jnum

definition number_or :: "js \<Rightarrow> int \<Rightarrow> jnum" where
  "number_or v d = (if v = Undef then IntN d else to_num v)"

definition new_reaper :: "jsobj \<Rightarrow> exn + reaper" where
  "new_reaper options =
     (if \<not> truthy (obj_get options ''logger'') then Inl (js_error ''ISCSISessionReaper requires a logger'')
      else if \<not> truthy (obj_get options ''iscsi'') then Inl (js_error ''ISCSISessionReaper requires an iscsi instance'')
      else if \<not> truthy (obj_get options ''mount'') then Inl (js_error ''ISCSISessionReaper requires a mount instance'')
      else Inr
        \<lparr>re_enabled = truthy (obj_get options ''enabled''),
         re_intervalSeconds =
           (let n = to_num (obj_get options ''intervalSeconds'') in if truthy (Num n) then n else IntN 300),
         re_minStaleSeconds = number_or (obj_get options ''minStaleSeconds'') 120,
         re_startupDelaySeconds = number_or (obj_get options ''startupDelaySeconds'') 60\<rparr>)"

section \<open>The timers\<close>

text \<open>
  \<open>rs_intervals\<close> and \<open>rs_startups\<close> are the timers of the runtime that are active;
  \<open>rs_timer\<close> and \<open>rs_startupTimer\<close> are the two handles the object keeps. \<open>rs_passes\<close> are the
  passes in flight, with True for the one that the startup timer began.
\<close>

record reaper_state =
  rs_started :: bool
  rs_running :: bool
  rs_timer :: "nat option"
  rs_startupTimer :: "nat option"
  rs_intervals :: "nat list"
  rs_startups :: "nat list"
  rs_passes :: "bool list"
  rs_next :: nat

definition reaper_init :: reaper_state where
  "reaper_init = \<lparr>rs_started = False, rs_running = False, rs_timer = None, rs_startupTimer = None,
     rs_intervals = [], rs_startups = [], rs_passes = [], rs_next = 0\<rparr>"

definition reaper_start :: "reaper \<Rightarrow> reaper_state \<Rightarrow> reaper_state" where
  "reaper_start r s =
     (if \<not> re_enabled r \<or> rs_started s then s
      else s\<lparr>rs_started := True, rs_startupTimer := Some (rs_next s),
             rs_startups := rs_startups s @ [rs_next s], rs_next := rs_next s + 1\<rparr>)"

definition clear_timer :: "nat option \<Rightarrow> nat list \<Rightarrow> nat list" where
  "clear_timer h ts = (case h of None \<Rightarrow> ts | Some i \<Rightarrow> filter (\<lambda>j. j \<noteq> i) ts)"

definition reaper_stop :: "reaper_state \<Rightarrow> reaper_state" where
  "reaper_stop s =
     s\<lparr>rs_intervals := clear_timer (rs_timer s) (rs_intervals s), rs_timer := None,
       rs_startups := clear_timer (rs_startupTimer s) (rs_startups s), rs_startupTimer := None,
       rs_started := False\<rparr>"

text \<open>\<open>runOnce\<close> up to its first await: nothing when a pass is running.\<close>

definition begin_pass :: "bool \<Rightarrow> reaper_state \<Rightarrow> reaper_state" where
  "begin_pass b s = s\<lparr>rs_running := True, rs_passes := rs_passes s @ [b]\<rparr>"

definition scheduleInterval :: "reaper_state \<Rightarrow> reaper_state" where
  "scheduleInterval s =
     s\<lparr>rs_timer := Some (rs_next s), rs_intervals := rs_intervals s @ [rs_next s], rs_next := rs_next s + 1\<rparr>"

definition startup_fires :: "nat \<Rightarrow> reaper_state \<Rightarrow> reaper_state" where
  "startup_fires i s =
     (let s = s\<lparr>rs_startups := filter (\<lambda>j. j \<noteq> i) (rs_startups s)\<rparr>
      in if rs_running s then scheduleInterval s else begin_pass True s)"

definition interval_fires :: "reaper_state \<Rightarrow> reaper_state" where
  "interval_fires s = (if rs_running s then s else begin_pass False s)"

definition pass_ends :: "bool \<Rightarrow> reaper_state \<Rightarrow> reaper_state" where
  "pass_ends b s =
     (let s = s\<lparr>rs_running := False, rs_passes := remove1 b (rs_passes s)\<rparr>
      in if b then scheduleInterval s else s)"

inductive reaper_step :: "reaper \<Rightarrow> reaper_state \<Rightarrow> reaper_state \<Rightarrow> bool" for r where
  start: "reaper_step r s (reaper_start r s)"
| stop: "reaper_step r s (reaper_stop s)"
| startup: "i \<in> set (rs_startups s) \<Longrightarrow> reaper_step r s (startup_fires i s)"
| interval: "i \<in> set (rs_intervals s) \<Longrightarrow> reaper_step r s (interval_fires s)"
| ends: "b \<in> set (rs_passes s) \<Longrightarrow> reaper_step r s (pass_ends b s)"

inductive reaper_reachable :: "reaper \<Rightarrow> reaper_state \<Rightarrow> bool" for r where
  init: "reaper_reachable r reaper_init"
| step: "reaper_reachable r s \<Longrightarrow> reaper_step r s s' \<Longrightarrow> reaper_reachable r s'"

lemmas reaper_defs = reaper_start_def reaper_stop_def begin_pass_def scheduleInterval_def
  startup_fires_def interval_fires_def pass_ends_def Let_def

section \<open>Properties\<close>

text \<open>A disabled reaper has no timer and no pass; passes are in flight only while the flag is set.\<close>

definition reaper_inv :: "reaper \<Rightarrow> reaper_state \<Rightarrow> bool" where
  "reaper_inv r s \<longleftrightarrow> (rs_passes s = [] \<and> \<not> rs_running s \<or> (\<exists>b. rs_passes s = [b]) \<and> rs_running s)
     \<and> (\<not> re_enabled r \<longrightarrow> \<not> rs_started s \<and> rs_startups s = [] \<and> rs_intervals s = [] \<and> \<not> rs_running s)"

lemma reaper_inv_step: "reaper_step r s s' \<Longrightarrow> reaper_inv r s \<Longrightarrow> reaper_inv r s'"
  by (induction rule: reaper_step.induct)
    (auto simp: reaper_inv_def reaper_defs clear_timer_def split: option.splits)

lemma reaper_inv_reachable: "reaper_reachable r s \<Longrightarrow> reaper_inv r s"
proof (induction rule: reaper_reachable.induct)
  case init
  show ?case by (simp add: reaper_init_def reaper_inv_def)
next
  case (step s s')
  then show ?case by (blast intro: reaper_inv_step)
qed

text \<open>
  C17: however the timers fire and however the reaper is started and stopped, two reconcile
  passes never overlap, and a reaper that is not enabled never has a timer nor runs a pass.
\<close>

theorem reaper_no_overlap:
  assumes "reaper_reachable r s"
  shows "length (rs_passes s) \<le> 1 \<and> (rs_running s \<longleftrightarrow> rs_passes s \<noteq> [])
    \<and> (rs_passes s = [] \<or> re_enabled r) \<and> (rs_intervals s = [] \<or> re_enabled r)"
  using reaper_inv_reachable [OF assms] unfolding reaper_inv_def by auto

definition usual_reaper :: reaper where
  "usual_reaper = \<lparr>re_enabled = True, re_intervalSeconds = IntN 300, re_minStaleSeconds = IntN 120,
     re_startupDelaySeconds = IntN 60\<rparr>"

lemma reaper_no_overlap_witness:
  "length (rs_passes (startup_fires 0 (reaper_start usual_reaper reaper_init))) = 1"
proof -
  let ?s1 = "reaper_start usual_reaper reaper_init"
  have "reaper_reachable usual_reaper ?s1"
    by (rule reaper_reachable.step [OF reaper_reachable.init reaper_step.start])
  moreover have "reaper_step usual_reaper ?s1 (startup_fires 0 ?s1)"
    by (rule reaper_step.startup) (simp add: reaper_defs usual_reaper_def reaper_init_def)
  ultimately have "reaper_reachable usual_reaper (startup_fires 0 ?s1)" by (rule reaper_reachable.step)
  from reaper_no_overlap [OF this] show ?thesis
    by (simp add: reaper_defs usual_reaper_def reaper_init_def)
qed

text \<open>
  A stop during the startup pass does not stop the reaper: when the pass ends, the interval is
  scheduled all the same, and it fires although the reaper is stopped.
\<close>

lemma stop_leaves_interval:
  "\<exists>s. reaper_reachable usual_reaper s \<and> \<not> rs_started s \<and> rs_passes s = [] \<and> rs_intervals s \<noteq> []"
proof -
  let ?s1 = "reaper_start usual_reaper reaper_init"
  let ?s2 = "startup_fires 0 ?s1"
  let ?s3 = "reaper_stop ?s2"
  let ?s4 = "pass_ends True ?s3"
  have "reaper_reachable usual_reaper ?s1"
    by (rule reaper_reachable.step [OF reaper_reachable.init reaper_step.start])
  then have "reaper_reachable usual_reaper ?s2"
    by (rule reaper_reachable.step, intro reaper_step.startup)
      (simp add: reaper_defs usual_reaper_def reaper_init_def)
  then have "reaper_reachable usual_reaper ?s3" by (rule reaper_reachable.step) (rule reaper_step.stop)
  then have "reaper_reachable usual_reaper ?s4"
    by (rule reaper_reachable.step, intro reaper_step.ends)
      (simp add: reaper_defs usual_reaper_def reaper_init_def clear_timer_def)
  then show ?thesis
    by (intro exI [of _ ?s4]) (simp add: reaper_defs usual_reaper_def reaper_init_def clear_timer_def)
qed

end
