(* ===== verification/Node_Db_Sweeper.thy ===== *)
theory Node_Db_Sweeper
  imports Iscsi_Commands
begin

text \<open>
  \<open>src/utils/iscsi-node-db-sweeper.js\<close>: the one-shot sweep over the records of the node
  database without a session. The timer that starts it and what it logs are not modelled.
\<close>

section \<open>The sweep\<close>

record 'e sweeper =
  sw_iscsi :: "'e iscsi"
  sw_startupDelaySeconds :: js
  sw_targetBasename :: js

definition new_sweeper :: "jsobj \<Rightarrow> 'e iscsi \<Rightarrow> 'e sweeper" where
  "new_sweeper options I =
     \<lparr>sw_iscsi = I,
      sw_startupDelaySeconds = or_else (obj_get options ''startupDelaySeconds'') (Num (IntN 60)),
      sw_targetBasename = or_else (obj_get options ''targetBasename'') Null\<rparr>"

definition selectOrphanedRecords :: "node_record list \<Rightarrow> iscsi_session list \<Rightarrow> js \<Rightarrow> node_record list" where
  "selectOrphanedRecords records sessions targetBasename =
     filter (\<lambda>r.
       if nr_iqn r = [] then False
       else if truthy targetBasename \<and> \<not> starts_with (nr_iqn r) (to_str targetBasename) then False
       else nr_iqn r \<notin> set (map se_iqn sessions)) records"

text \<open>One record: still there, still without a session, then deleted; an error is only logged.\<close>

definition sweep_record :: "'e sweeper \<Rightarrow> node_record \<Rightarrow> ('e world, unit) io" where
  "sweep_record S r =
     catch
       (bind (nodeDBEntryExists (sw_iscsi S) (nr_iqn r) (nr_portal r)) (\<lambda>exists.
        if \<not> exists then ret ()
        else bind (getSessions (sw_iscsi S)) (\<lambda>currentSessions.
          if list_ex (\<lambda>s. se_iqn s = nr_iqn r) currentSessions then ret ()
          else deleteNodeDBEntry (sw_iscsi S) (nr_iqn r) (nr_portal r))))
       (\<lambda>_. ret ())"

definition sweep :: "'e sweeper \<Rightarrow> ('e world, unit) io" where
  "sweep S =
     bind (listNodeDBEntries (sw_iscsi S)) (\<lambda>records.
     if records = [] then ret ()
     else bind (getSessions (sw_iscsi S)) (\<lambda>sessions.
          for_each (selectOrphanedRecords records sessions (sw_targetBasename S)) (sweep_record S)))"

section \<open>Errors that can be caught\<close>

text \<open>A program whose errors a handler of the sources sees.\<close>

definition catches :: "('w, 'a) io \<Rightarrow> bool" where
  "catches m \<longleftrightarrow> (\<forall>w e. fst (m w) = Inl e \<longrightarrow> catchable e)"

lemma catches_basic [wp_intro]:
  "catches (ret x)" "catchable e \<Longrightarrow> catches (throw e)" "catches (host_spawn H c a o')"
  "catches (host_sleep H ms)"
  by (auto simp: catches_def ret_def throw_def host_spawn_def host_sleep_def perform_def
      split: prod.splits)

lemma catches_bind [wp_intro]: "catches m \<Longrightarrow> (\<And>x. catches (f x)) \<Longrightarrow> catches (bind m f)"
  unfolding catches_def bind_def by (auto split: prod.splits sum.splits) (metis fst_conv)+

lemma catches_lift [wp_intro]: "(\<And>e. r = Inl e \<Longrightarrow> catchable e) \<Longrightarrow> catches (lift r)"
  by (auto simp: catches_def lift_def)

lemma catches_catch [wp_intro]: "(\<And>e. catchable e \<Longrightarrow> catches (h e)) \<Longrightarrow> catches m \<Longrightarrow> catches (catch m h)"
  unfolding catches_def catch_def by (auto split: prod.splits sum.splits if_splits) (metis fst_conv)+

lemma catches_andthen [wp_intro]: "catches m \<Longrightarrow> catches n \<Longrightarrow> catches (andthen m n)"
  by (simp add: andthen_def catches_bind)

lemma catches_if [wp_intro]: "(b \<Longrightarrow> catches m) \<Longrightarrow> (\<not> b \<Longrightarrow> catches n) \<Longrightarrow> catches (if b then m else n)"
  by simp

lemma catches_iscsiadm [wp_intro]: "catches (iscsiadm I args)"
proof -
  have s: "catches (spawn_once I c a)" for c a
    unfolding spawn_once_def settle_closed_def
    by (intro wp_intro) (auto intro!: wp_intro split: spawn_out.splits option.splits)
  have "catches (exec_attempts I c a n)" for c a n
    by (induction n) (auto intro!: wp_intro s simp: js_error_def)
  then show ?thesis by (simp add: iscsiadm_def iscsi_exec_def split: prod.splits)
qed

lemma catches_commands [wp_intro]:
  "catches (nodeDBEntryExists I q p)" "catches (deleteNodeDBEntry I q p)"
  by (auto simp: nodeDBEntryExists_def deleteNodeDBEntry_def intro!: wp_intro)

lemma parse_session_catchable: "parse_session e = Inl x \<Longrightarrow> catchable x"
  by (auto simp: parse_session_def Let_def ebind_def item_def type_error_def split: sum.splits if_splits)

lemma emap_Inl: "emap f xs = Inl e \<Longrightarrow> \<exists>x\<in>set xs. f x = Inl e"
  by (induction xs) (auto simp: ebind_def split: sum.splits)

lemma catches_getSessions [wp_intro]: "catches (getSessions I)"
  unfolding getSessions_def iscsiadm_or_none_def
  by (auto intro!: wp_intro dest!: emap_Inl parse_session_catchable split: exn.splits)

section \<open>What a sweep does\<close>

text \<open>
  What is run for one record between the worlds \<open>w\<close> and \<open>w'\<close>: a check of the record, then maybe a
  listing of the sessions, then maybe the deletion: only when the record was found and the
  listing right before has no session of the target.
\<close>

definition record_visit :: "'e iscsi \<Rightarrow> node_record \<Rightarrow> 'e world \<Rightarrow> 'e world \<Rightarrow> bool" where
  "record_visit I r w w' \<longleftrightarrow> (\<exists>a b c i j k.
     a = attempts (iscsi_ev I (node_args (nr_iqn r) (nr_portal r))) (Suc i)
     \<and> b = attempts (iscsi_ev I [''-m'', ''session'']) (Suc j)
     \<and> c = attempts (iscsi_ev I (delete_args (nr_iqn r) (nr_portal r))) (Suc k)
     \<and> (hist w' = hist w @ a \<or> hist w' = hist w @ a @ b
        \<or> hist w' = hist w @ a @ b @ c
          \<and> (\<exists>w1 w2 ss. nodeDBEntryExists I (nr_iqn r) (nr_portal r) w = (Inr True, w1) \<and> getSessions I w1 = (Inr ss, w2) \<and> hist w2 = hist w @ a @ b
               \<and> nr_iqn r \<notin> set (map se_iqn ss))))"

fun record_visits :: "'e iscsi \<Rightarrow> node_record list \<Rightarrow> 'e world \<Rightarrow> 'e world \<Rightarrow> bool" where
  "record_visits I [] w w' \<longleftrightarrow> w' = w"
| "record_visits I (r # rs) w w' \<longleftrightarrow> (\<exists>w1. record_visit I r w w1 \<and> record_visits I rs w1 w')"

lemma triesD:
  assumes "tries m ev" and "m w = (r, w')"
  shows "\<exists>i. hist w' = hist w @ attempts ev (Suc i)"
  using assms unfolding tries_def by (metis Suc_le_D One_nat_def snd_conv)

lemma sweep_record_run:
  "\<exists>w'. sweep_record S r w = (Inr (), w') \<and> record_visit (sw_iscsi S) r w w'"
proof -
  let ?I = "sw_iscsi S"
  obtain r1 w1 where 1: "nodeDBEntryExists ?I (nr_iqn r) (nr_portal r) w = (r1, w1)" by force
  from triesD [OF tries_commands(1) 1] obtain i where
    h1: "hist w1 = hist w @ attempts (iscsi_ev ?I (node_args (nr_iqn r) (nr_portal r))) (Suc i)" by blast
  obtain r2 w2 where 2: "getSessions ?I w1 = (r2, w2)" by force
  from triesD [OF tries_commands(3) 2] obtain j where
    h2: "hist w2 = hist w1 @ attempts (iscsi_ev ?I [''-m'', ''session'']) (Suc j)" by blast
  obtain r3 w3 where 3: "deleteNodeDBEntry ?I (nr_iqn r) (nr_portal r) w2 = (r3, w3)" by force
  from triesD [OF tries_commands(2) 3] obtain k where
    h3: "hist w3 = hist w2 @ attempts (iscsi_ev ?I (delete_args (nr_iqn r) (nr_portal r))) (Suc k)" by blast
  have c: "r1 = Inl e \<Longrightarrow> catchable e" "r2 = Inl e \<Longrightarrow> catchable e" "r3 = Inl e \<Longrightarrow> catchable e" for e
    using catches_commands catches_getSessions 1 2 3 unfolding catches_def by (metis fst_conv)+
  have "sweep_record S r w \<in> {(Inr (), w1), (Inr (), w2)} \<or>
      sweep_record S r w = (Inr (), w3) \<and> r1 = Inr True \<and> (\<exists>ss. r2 = Inr ss \<and> nr_iqn r \<notin> set (map se_iqn ss))"
    using c by (auto simp: sweep_record_def catch_def bind_def 1 2 3 ret_def list_ex_iff split: sum.splits)
  then show ?thesis
  proof
    assume "sweep_record S r w \<in> {(Inr (), w1), (Inr (), w2)}"
    then show ?thesis using h1 h2 unfolding record_visit_def by auto blast+
  next
    assume "sweep_record S r w = (Inr (), w3) \<and> r1 = Inr True \<and> (\<exists>ss. r2 = Inr ss \<and> nr_iqn r \<notin> set (map se_iqn ss))"
    with 1 2 h1 h2 h3 show ?thesis unfolding record_visit_def by (metis append.assoc)
  qed
qed

lemma for_each_visits:
  "\<exists>w'. for_each rs (sweep_record S) w = (Inr (), w') \<and> record_visits (sw_iscsi S) rs w w'"
proof (induction rs arbitrary: w)
  case (Cons r rs)
  from sweep_record_run [of S r w] obtain w1 where
    1: "sweep_record S r w = (Inr (), w1)" "record_visit (sw_iscsi S) r w w1" by blast
  from Cons [of w1] obtain w' where "for_each rs (sweep_record S) w1 = (Inr (), w')"
    "record_visits (sw_iscsi S) rs w1 w'" by blast
  with 1 show ?case by (intro exI [of _ w']) (auto simp: bind_def)
qed (simp add: ret_def)

text \<open>
  C15: a sweep deals with every orphaned record of its snapshot, in order and whatever happens
  to the others, and always ends without an error: for each it checks the record again, then
  at most lists the sessions again, and only right after a listing without a session of the
  target at most deletes this record.
\<close>

theorem sweep_run:
  assumes "listNodeDBEntries (sw_iscsi S) w = (Inr records, w1)" and "records \<noteq> []"
    and "getSessions (sw_iscsi S) w1 = (Inr sessions, w2)"
  shows "\<exists>w'. sweep S w = (Inr (), w')
    \<and> record_visits (sw_iscsi S) (selectOrphanedRecords records sessions (sw_targetBasename S)) w2 w'"
  using for_each_visits [of _ S w2] assms by (simp add: sweep_def bind_def)

text \<open>Two records, one of them with a session; then the database loses its other record.\<close>

definition sweep_host :: "nat host" where
  "sweep_host = hanging_host\<lparr>ho_spawn := (\<lambda>c a opts n.
     (if a = [''-m'', ''node''] then Closed (Some 0) (''10.0.0.1:3260,1 iqn.a'' @ [CHR 10] @ ''10.0.0.1:3260,1 iqn.b'') [] False
      else if a = [''-m'', ''session''] then Closed (Some 0) ''tcp: [1] 10.0.0.1:3260,1 iqn.a (non-flash)'' [] False
      else Closed (Some 0) ''record'' [] False, n + 1))\<rparr>"

definition sample_sweeper :: "nat sweeper" where
  "sample_sweeper = new_sweeper [(''targetBasename'', Str ''iqn'')] (new_iscsi [] sweep_host)"

lemma sweep_run_witness:
  "\<exists>w2 w'. sweep sample_sweeper \<lparr>ext = 0, hist = []\<rparr> = (Inr (), w')
    \<and> record_visit (sw_iscsi sample_sweeper) \<lparr>nr_portal = ''10.0.0.1:3260,1'', nr_iqn = ''iqn.b''\<rparr> w2 w'"
proof -
  let ?w = "\<lparr>ext = 0, hist = []\<rparr> :: nat world"
  let ?rs = "[\<lparr>nr_portal = ''10.0.0.1:3260,1'', nr_iqn = ''iqn.a''\<rparr>, \<lparr>nr_portal = ''10.0.0.1:3260,1'', nr_iqn = ''iqn.b''\<rparr>]"
  let ?ss = "[\<lparr>se_protocol = ''tcp'', se_id = IntN 1, se_portal = ''10.0.0.1:3260'', se_tag = Str ''1'', se_iqn = ''iqn.a''\<rparr>]"
  have 1: "fst (listNodeDBEntries (sw_iscsi sample_sweeper) ?w) = Inr ?rs" by code_simp
  have 2: "fst (getSessions (sw_iscsi sample_sweeper) (snd (listNodeDBEntries (sw_iscsi sample_sweeper) ?w))) = Inr ?ss"
    by code_simp
  have 3: "selectOrphanedRecords ?rs ?ss (sw_targetBasename sample_sweeper)
    = [\<lparr>nr_portal = ''10.0.0.1:3260,1'', nr_iqn = ''iqn.b''\<rparr>]" by code_simp
  from sweep_run [OF run_fst [OF 1] _ run_fst [OF 2]] show ?thesis unfolding 3 by auto
qed

end
