(* ===== verification/Nvmeof.thy ===== *)
theory Nvmeof
  imports Filesystem
begin

text \<open>
  \<open>src/utils/nvmeof.js\<close>: the commands of \<open>nvme\<close>, the transports, and the search for
  subsystems, controllers, paths and namespaces in what \<open>nvme\<close> lists. The package \<open>uri-js\<close> is
  the parameter \<open>nv_uri\<close>.
\<close>

section \<open>The instance and exec\<close>

record 'e nvmeof =
  nv_options :: jsobj
  nv_host :: "'e host"
  nv_uri :: "string \<Rightarrow> js"

definition nvmeof_options :: "jsobj \<Rightarrow> jsobj" where
  "nvmeof_options options =
     (let paths = obj_of (obj_get options ''paths'');
          paths = default_to ''nvme'' (Str ''nvme'') paths;
          paths = default_to ''sudo'' (Str ''/usr/bin/sudo'') paths
      in obj_set ''paths'' (Obj paths) options)"

definition new_nvmeof :: "jsobj \<Rightarrow> 'e host \<Rightarrow> (string \<Rightarrow> js) \<Rightarrow> 'e nvmeof" where
  "new_nvmeof options H uri = \<lparr>nv_options = nvmeof_options options, nv_host = H, nv_uri = uri\<rparr>"

text \<open>\<open>try { result.parsed = JSON.parse(result.stdout); } catch (err) {}\<close>\<close>

definition parsed_output :: "string \<Rightarrow> exn + js" where
  "parsed_output out =
     (case json_parse (Str out) of
        Inr v \<Rightarrow> Inr v
      | Inl e \<Rightarrow> if catchable e then Inr Undef else Inl e)"

definition nv_exec :: "'e nvmeof \<Rightarrow> string \<Rightarrow> string list \<Rightarrow> ('e world, exec_result \<times> js) io" where
  "nv_exec N command args =
     (let (c, a) = sudo_command (nv_options N) command args
      in bind (host_spawn (nv_host N) c a
                 [(''timeout'', default_timeout (nv_host N) ''NVMEOF_DEFAULT_TIMEOUT'' 30000)])
           (\<lambda>r. case r of
              SpawnFailed m \<Rightarrow> throw (Uncaught m)
            | Closed code out err killed \<Rightarrow>
                bind (lift (parsed_output out)) (\<lambda>parsed.
                bind (settle_closed code out err) (\<lambda>r. ret (r, parsed)))))"

definition nvme :: "'e nvmeof \<Rightarrow> string list \<Rightarrow> ('e world, js) io" where
  "nvme N args =
     bind (nv_exec N (to_str (field (obj_get (nv_options N) ''paths'') ''nvme'')) args) (\<lambda>(r, parsed). ret parsed)"

definition nvme_run :: "'e nvmeof \<Rightarrow> string list \<Rightarrow> ('e world, unit) io" where
  "nvme_run N args = bind (nvme N args) (\<lambda>_. ret ())"

definition nvme_list :: "'e nvmeof \<Rightarrow> string list \<Rightarrow> ('e world, js) io" where
  "nvme_list N args = nvme N ([''list'', ''-o'', ''json''] @ args)"

definition listSubsys :: "'e nvmeof \<Rightarrow> string list \<Rightarrow> ('e world, js) io" where
  "listSubsys N args = nvme N ([''list-subsys'', ''-o'', ''json''] @ args)"

section \<open>Transports\<close>

text \<open>\<open>querystring.parse\<close>; escapes of characters that are not ASCII are outside the model.\<close>

fun qs_unescape :: "string \<Rightarrow> exn + string" where
  "qs_unescape [] = Inr []"
| "qs_unescape (c # s) =
     (if c = CHR ''%'' then
        (case s of
           a # b # r \<Rightarrow>
             (case (hex_value a, hex_value b) of
                (Some x, Some y) \<Rightarrow>
                  if x < 8 then ebind (qs_unescape r) (\<lambda>t. Inr (char_of (16 * x + y) # t))
                  else Inl (Unmodelled ''escape'')
              | _ \<Rightarrow> Inl (Unmodelled ''escape''))
         | _ \<Rightarrow> Inl (Unmodelled ''escape''))
      else ebind (qs_unescape s) (\<lambda>t. Inr ((if c = CHR ''+'' then CHR '' '' else c) # t)))"

definition qs_add :: "string \<Rightarrow> js \<Rightarrow> jsobj \<Rightarrow> jsobj" where
  "qs_add k v ob =
     (if obj_has ob k
      then obj_set k (case obj_get ob k of Arr xs \<Rightarrow> Arr (xs @ [v]) | x \<Rightarrow> Arr [x, v]) ob
      else obj_set k v ob)"

definition qs_piece :: "jsobj \<Rightarrow> string \<Rightarrow> exn + jsobj" where
  "qs_piece ob piece =
     (if piece = [] then Inr ob
      else let k = takeWhile (\<lambda>c. c \<noteq> CHR ''='') piece
        in ebind (qs_unescape k) (\<lambda>k'.
           ebind (qs_unescape (drop (Suc (length k)) piece)) (\<lambda>v.
           Inr (qs_add k' (Str v) ob))))"

definition qs_parse :: "js \<Rightarrow> exn + jsobj" where
  "qs_parse q = (case q of Str s \<Rightarrow> efold qs_piece [] (split_ch (CHR ''&'') s) | _ \<Rightarrow> Inr [])"

text \<open>\<open>dns.lookup\<close> answers null for a missing name.\<close>

definition lookup_address :: "'e nvmeof \<Rightarrow> js \<Rightarrow> ('e world, js) io" where
  "lookup_address N address =
     (case address of Str s \<Rightarrow> if s = [] then ret Null else hostname_lookup (nv_host N) s | _ \<Rightarrow> ret Null)"

definition transport_address :: "'e nvmeof \<Rightarrow> string \<Rightarrow> js \<Rightarrow> ('e world, js) io" where
  "transport_address N type address =
     (if type = ''fc'' then
        bind (lift (as_string address)) (\<lambda>s. ret (Str (trimchar (trimchar s (CHR ''['')) (CHR '']''))))
      else if type = ''tcp'' then bind (lookup_address N address) (\<lambda>l. ret (or_else l address))
      else ret address)"

fun typeof_object :: "js \<Rightarrow> bool" where
  "typeof_object Null = True"
| "typeof_object (Arr _) = True"
| "typeof_object (Obj _) = True"
| "typeof_object _ = False"

definition parseTransport :: "'e nvmeof \<Rightarrow> js \<Rightarrow> ('e world, js) io" where
  "parseTransport N transport =
     (if typeof_object transport then ret transport
      else bind (lift (as_string transport)) (\<lambda>s.
        let parsed = nv_uri N (trim s) in
        bind (lift (qs_parse (field parsed ''query''))) (\<lambda>args.
        let scheme = field parsed ''scheme''; type = to_str scheme in
        if scheme \<notin> {Str ''fc'', Str ''rdma'', Str ''tcp''}
        then throw (js_error (''unknown nvme transport type: '' @ type))
        else bind (transport_address N type (field parsed ''host'')) (\<lambda>address.
          ret (Obj [(''type'', scheme), (''address'', address),
                    (''service'', if type = ''fc'' then Undef
                                  else or_else (field parsed ''port'') (Num (IntN 4420))),
                    (''args'', Obj args)])))))"

text \<open>\<open>controllerAddress.replace(/ ([a-z_]*=)/g, ",$1")\<close>\<close>

fun comma_fields :: "string \<Rightarrow> string" where
  "comma_fields [] = []"
| "comma_fields (c # s) =
     (if c = CHR '' '' \<and> (case dropWhile (\<lambda>d. is_lower_alpha d \<or> d = CHR ''_'') s of [] \<Rightarrow> False | d # _ \<Rightarrow> d = CHR ''='')
      then CHR '','' # comma_fields s else c # comma_fields s)"

definition address_part :: "js \<times> js \<Rightarrow> string \<Rightarrow> exn + js \<times> js" where
  "address_part = (\<lambda>(address, service) part.
     let fields = split_ch (CHR ''='') part; k = trim (hd fields) in
     if k = ''traddr'' then ebind (item fields 1) (\<lambda>v. Inr (Str (trim v), service))
     else if k = ''trsvcid'' then ebind (item fields 1) (\<lambda>v. Inr (address, Str (trim v)))
     else Inr (address, service))"

definition parseTransportFromPath :: "js \<Rightarrow> exn + js" where
  "parseTransportFromPath path =
     ebind (getp path ''Transport'') (\<lambda>t.
     ebind (if t \<in> {Str ''fc'', Str ''rdma'', Str ''tcp''}
            then ebind (as_string (field path ''Address'')) (\<lambda>a.
                 efold address_part (Undef, Undef) (split_ch (CHR '','') (comma_fields a)))
            else Inr (if t = Str ''pcie'' then (field path ''Address'', Undef) else (Undef, Undef)))
       (\<lambda>(address, service). Inr (Obj [(''type'', t), (''address'', address), (''service'', service)])))"

text \<open>The arguments of \<open>discover\<close> and \<open>connect\<close> for a transport.\<close>

definition transport_option :: "js \<Rightarrow> string \<Rightarrow> string \<Rightarrow> exn + string list" where
  "transport_option transport k option =
     ebind (getp transport k) (\<lambda>v. Inr (if truthy v then [option, to_str v] else []))"

definition transport_args :: "js \<Rightarrow> exn + string list" where
  "transport_args transport =
     ebind (transport_option transport ''type'' ''--transport'') (\<lambda>a.
     ebind (transport_option transport ''address'' ''--traddr'') (\<lambda>b.
     ebind (transport_option transport ''service'' ''--trsvcid'') (\<lambda>c. Inr (a @ b @ c))))"

definition extra_args :: "js \<Rightarrow> string list" where
  "extra_args transport =
     concat (map (\<lambda>(k, v). [if starts_with k ''-'' then k else ''--'' @ k, to_str v])
       (obj_of (field transport ''args'')))"

definition discover :: "'e nvmeof \<Rightarrow> js \<Rightarrow> string list \<Rightarrow> ('e world, js) io" where
  "discover N transport args =
     bind (parseTransport N transport) (\<lambda>t.
     bind (lift (transport_args t)) (\<lambda>ta.
     nvme N ([''discover'', ''-o'', ''json''] @ ta @ args)))"

definition already_connected :: "exn \<Rightarrow> bool" where
  "already_connected err =
     (case err_stderr err of
        None \<Rightarrow> False
      | Some s \<Rightarrow> contains s ''already connected'' \<or> contains s ''already connnected'' \<or>
          contains s ''Operation already in progress'')"

definition connectByNQNTransport :: "'e nvmeof \<Rightarrow> string \<Rightarrow> js \<Rightarrow> ('e world, unit) io" where
  "connectByNQNTransport N nqn transport =
     bind (parseTransport N transport) (\<lambda>t.
     bind (lift (transport_args t)) (\<lambda>ta.
     catch (nvme_run N ([''connect'', ''--nqn'', nqn] @ ta @ extra_args t))
       (\<lambda>err. if already_connected err then ret () else throw err)))"

definition disconnectByNQN :: "'e nvmeof \<Rightarrow> string \<Rightarrow> ('e world, unit) io" where
  "disconnectByNQN N nqn = nvme_run N [''disconnect'', ''--nqn'', nqn]"

definition disconnectByDevice :: "'e nvmeof \<Rightarrow> string \<Rightarrow> ('e world, unit) io" where
  "disconnectByDevice N device = nvme_run N [''disconnect'', ''--device'', device]"

definition rescanNamespace :: "'e nvmeof \<Rightarrow> string \<Rightarrow> ('e world, unit) io" where
  "rescanNamespace N device = nvme_run N [''ns-rescan'', device]"

section \<open>Subsystems\<close>

text \<open>Searches with a condition that may throw.\<close>

fun efind :: "('a \<Rightarrow> exn + bool) \<Rightarrow> 'a list \<Rightarrow> exn + 'a option" where
  "efind p [] = Inr None"
| "efind p (x # xs) = ebind (p x) (\<lambda>b. if b then Inr (Some x) else efind p xs)"

text \<open>The lists of devices of \<open>nvme-cli\<close> 2.x and 1.x.\<close>

fun normalize_devices :: "js list \<Rightarrow> exn + js list" where
  "normalize_devices [] = Inr []"
| "normalize_devices (device # ds) =
     ebind (getp device ''Subsystems'') (\<lambda>ss.
     ebind (normalize_devices ds) (\<lambda>rest.
     Inr ((case ss of Arr xs \<Rightarrow> xs | _ \<Rightarrow> if truthy (field device ''Subsystem'') then [device] else []) @ rest)))"

definition getNormalizedSubsystems :: "js \<Rightarrow> exn + js list" where
  "getNormalizedSubsystems result =
     ebind (getp result ''Devices'') (\<lambda>ds. ebind (iterate ds) normalize_devices)"

definition getSubsystems :: "'e nvmeof \<Rightarrow> ('e world, js list) io" where
  "getSubsystems N = bind (nvme_list N [''-v'']) (\<lambda>result. lift (getNormalizedSubsystems result))"

definition getSubsystemByNQN :: "'e nvmeof \<Rightarrow> string \<Rightarrow> ('e world, js option) io" where
  "getSubsystemByNQN N nqn =
     bind (getSubsystems N) (\<lambda>ss.
     lift (efind (\<lambda>s. ebind (getp s ''SubsystemNQN'') (\<lambda>v. Inr (loose_eq v (Str nqn)))) ss))"

text \<open>Whether the list under a key, when there is one, has an element with the property.\<close>

definition any_under :: "string \<Rightarrow> (js \<Rightarrow> exn + bool) \<Rightarrow> js \<Rightarrow> exn + bool" where
  "any_under k p v =
     ebind (getp v k) (\<lambda>xs. if truthy xs then ebind (iterate xs) (eany p) else Inr False)"

definition named :: "string \<Rightarrow> string \<Rightarrow> js \<Rightarrow> exn + bool" where
  "named k name v = ebind (getp v k) (\<lambda>x. Inr (loose_eq x (Str name)))"

definition has_namespace :: "string \<Rightarrow> js \<Rightarrow> exn + bool" where
  "has_namespace name = any_under ''Namespaces'' (named ''NameSpace'' name)"

definition controller_has_namespace :: "string \<Rightarrow> js \<Rightarrow> exn + bool" where
  "controller_has_namespace name = any_under ''Controllers'' (has_namespace name)"

definition without_dev :: "string \<Rightarrow> string" where
  "without_dev = replace_first ''/dev/'' []"

definition deviceIsNamespaceDevice :: "'e nvmeof \<Rightarrow> string \<Rightarrow> ('e world, bool) io" where
  "deviceIsNamespaceDevice N device =
     bind (getSubsystems N) (\<lambda>ss.
     lift (eany (\<lambda>s. ebind (has_namespace (without_dev device) s) (\<lambda>b.
        if b then Inr True else controller_has_namespace (without_dev device) s)) ss))"

definition deviceIsControllerDevice :: "'e nvmeof \<Rightarrow> string \<Rightarrow> ('e world, bool) io" where
  "deviceIsControllerDevice N device =
     bind (getSubsystems N) (\<lambda>ss.
     lift (eany (any_under ''Controllers'' (named ''Controller'' (without_dev device))) ss))"

definition nvme_pathExists :: "'e nvmeof \<Rightarrow> string \<Rightarrow> ('e world, bool) io" where
  "nvme_pathExists N path =
     catch (bind (nv_exec N ''stat'' [path]) (\<lambda>_. ret True)) (\<lambda>_. ret False)"

definition nativeMultipathEnabled :: "'e nvmeof \<Rightarrow> ('e world, bool) io" where
  "nativeMultipathEnabled N =
     catch (bind (nv_exec N ''cat'' [''/sys/module/nvme_core/parameters/multipath'']) (\<lambda>(r, _).
            ret (trim (er_stdout r) = ''Y'')))
       (\<lambda>err. case err of
          ExecReject r \<Rightarrow>
            if er_code r = Some 1 \<and> contains (er_stderr r) ''No such file or directory'' then ret False
            else throw err
        | _ \<Rightarrow> throw err)"

text \<open>The subsystem of a namespace device: by its own namespaces with native multipath, else by its controllers'.\<close>

definition subsystem_of_device :: "bool \<Rightarrow> (js \<Rightarrow> bool) \<Rightarrow> string \<Rightarrow> js list \<Rightarrow> exn + js option" where
  "subsystem_of_device native ok name ss =
     efind (\<lambda>s. ebind ((if native then has_namespace else controller_has_namespace) name s) (\<lambda>b.
        Inr (b \<and> (native \<longrightarrow> ok s)))) ss"

definition getControllersByNamespaceDeviceName :: "'e nvmeof \<Rightarrow> string \<Rightarrow> ('e world, js) io" where
  "getControllersByNamespaceDeviceName N name =
     bind (nativeMultipathEnabled N) (\<lambda>native.
     bind (getSubsystems N) (\<lambda>ss.
     bind (lift (subsystem_of_device native (\<lambda>s. truthy (field s ''Controllers'')) (without_dev name) ss)) (\<lambda>s.
     ret (case s of Some s \<Rightarrow> field s ''Controllers'' | None \<Rightarrow> Arr []))))"

definition nqnByNamespaceDeviceName :: "'e nvmeof \<Rightarrow> string \<Rightarrow> ('e world, js) io" where
  "nqnByNamespaceDeviceName N name =
     bind (nativeMultipathEnabled N) (\<lambda>native.
     bind (getSubsystems N) (\<lambda>ss.
     bind (lift (subsystem_of_device native (\<lambda>_. True) (without_dev name) ss)) (\<lambda>s.
     ret (case s of Some s \<Rightarrow> field s ''SubsystemNQN'' | None \<Rightarrow> Undef))))"

section \<open>Controllers and paths\<close>

text \<open>The first controller on the type, address and service of a transport.\<close>

definition controller_matches :: "js \<Rightarrow> js \<Rightarrow> exn + bool" where
  "controller_matches transport controller =
     ebind (getp controller ''Transport'') (\<lambda>t.
     ebind (getp transport ''type'') (\<lambda>ty.
     if \<not> loose_eq t ty then Inr False
     else ebind (parseTransportFromPath controller) (\<lambda>c.
       if \<not> loose_eq (field c ''address'') (field transport ''address'') then Inr False
       else Inr (\<not> (truthy (field transport ''service'')
                    \<and> \<not> loose_eq (field c ''service'') (field transport ''service''))))))"

definition getControllerByTransportNQN :: "'e nvmeof \<Rightarrow> js \<Rightarrow> string \<Rightarrow> ('e world, js option) io" where
  "getControllerByTransportNQN N transport nqn =
     bind (parseTransport N transport) (\<lambda>t.
     bind (getSubsystemByNQN N nqn) (\<lambda>s.
     case s of
       None \<Rightarrow> ret None
     | Some s \<Rightarrow> lift (ebind (iterate (field s ''Controllers'')) (efind (controller_matches t)))))"

text \<open>The keys by which a path differs from a transport.\<close>

fun transport_keys :: "js \<Rightarrow> exn + string list" where
  "transport_keys (Obj kvs) = Inr (obj_keys kvs)"
| "transport_keys (Arr xs) = Inr []"
| "transport_keys _ = Inl (type_error ''Object.keys'')"

definition path_differs :: "js \<Rightarrow> js \<Rightarrow> exn + bool" where
  "path_differs transport path =
     ebind (parseTransportFromPath path) (\<lambda>p.
     ebind (transport_keys transport) (\<lambda>ks.
     Inr (list_ex (\<lambda>k. k \<in> {''type'', ''address'', ''service''}
            \<and> \<not> loose_eq (field transport k) (field p k)) ks)))"

text \<open>The inner loop: a path that differs leaves the whole loop (\<open>break path_label\<close>).\<close>

fun first_path :: "js \<Rightarrow> js list \<Rightarrow> exn + js option" where
  "first_path transport [] = Inr None"
| "first_path transport (p # ps) =
     ebind (path_differs transport p) (\<lambda>d. if d then Inr None else Inr (Some p))"

fun subsys_path :: "string \<Rightarrow> js \<Rightarrow> js list \<Rightarrow> exn + js option" where
  "subsys_path nqn transport [] = Inr None"
| "subsys_path nqn transport (s # ss) =
     ebind (named ''NQN'' nqn s) (\<lambda>b.
     if \<not> b then subsys_path nqn transport ss
     else ebind (iterate (field s ''Paths'')) (\<lambda>ps.
       ebind (first_path transport ps) (\<lambda>r.
       case r of Some p \<Rightarrow> Inr (Some p) | None \<Rightarrow> subsys_path nqn transport ss)))"

fun host_path :: "string \<Rightarrow> js \<Rightarrow> js list \<Rightarrow> exn + js option" where
  "host_path nqn transport [] = Inr None"
| "host_path nqn transport (h # hs) =
     ebind (getp h ''Subsystems'') (\<lambda>ss.
     ebind (iterate ss) (\<lambda>ss.
     ebind (subsys_path nqn transport ss) (\<lambda>r.
     case r of Some p \<Rightarrow> Inr (Some p) | None \<Rightarrow> host_path nqn transport hs)))"

definition getSubsystemPathByNQNTransport :: "'e nvmeof \<Rightarrow> string \<Rightarrow> js \<Rightarrow> ('e world, js option) io" where
  "getSubsystemPathByNQNTransport N nqn transport =
     bind (parseTransport N transport) (\<lambda>t.
     bind (listSubsys N [''-v'']) (\<lambda>hosts.
     lift (ebind (iterate hosts) (host_path nqn t))))"

definition getSubsystemStateByNQNTransport :: "'e nvmeof \<Rightarrow> string \<Rightarrow> js \<Rightarrow> ('e world, js) io" where
  "getSubsystemStateByNQNTransport N nqn transport =
     bind (parseTransport N transport) (\<lambda>t.
     bind (getSubsystemPathByNQNTransport N nqn t) (\<lambda>p.
     ret (case p of Some p \<Rightarrow> field p ''State'' | None \<Rightarrow> Undef)))"

definition controllerDevicePathByTransportNQN :: "'e nvmeof \<Rightarrow> js \<Rightarrow> string \<Rightarrow> ('e world, string option) io" where
  "controllerDevicePathByTransportNQN N transport nqn =
     bind (parseTransport N transport) (\<lambda>t.
     bind (getSubsystemPathByNQNTransport N nqn t) (\<lambda>p.
     ret (map_option (\<lambda>p. ''/dev/'' @ to_str (field p ''Name'')) p)))"

definition namespace_device :: "js \<Rightarrow> js \<Rightarrow> exn + string option" where
  "namespace_device namespace holder =
     ebind (iterate (field holder ''Namespaces'')) (\<lambda>ns.
     ebind (efind (\<lambda>n. ebind (getp n ''NSID'') (\<lambda>v. Inr (loose_eq v namespace))) ns) (\<lambda>r.
     Inr (map_option (\<lambda>n. ''/dev/'' @ to_str (field n ''NameSpace'')) r)))"

definition namespaceDevicePathByTransportNQNNamespace ::
  "'e nvmeof \<Rightarrow> js \<Rightarrow> string \<Rightarrow> js \<Rightarrow> ('e world, string option) io" where
  "namespaceDevicePathByTransportNQNNamespace N transport nqn namespace =
     bind (parseTransport N transport) (\<lambda>t.
     bind (nativeMultipathEnabled N) (\<lambda>native.
     bind (if native then getSubsystemByNQN N nqn else getControllerByTransportNQN N t nqn) (\<lambda>holder.
     case holder of None \<Rightarrow> ret None | Some h \<Rightarrow> lift (namespace_device namespace h))))"

text \<open>For evaluation: a program is only unfolded when it is run.\<close>

lemmas nvmeof_run [code] =
  nv_exec_def [THEN fun_cong] nvme_def [THEN fun_cong] nvme_run_def [THEN fun_cong]
  nvme_list_def [THEN fun_cong] listSubsys_def [THEN fun_cong] lookup_address_def [THEN fun_cong]
  transport_address_def [THEN fun_cong] parseTransport_def [THEN fun_cong] discover_def [THEN fun_cong]
  connectByNQNTransport_def [THEN fun_cong] disconnectByNQN_def [THEN fun_cong]
  disconnectByDevice_def [THEN fun_cong] rescanNamespace_def [THEN fun_cong] getSubsystems_def [THEN fun_cong]
  getSubsystemByNQN_def [THEN fun_cong] deviceIsNamespaceDevice_def [THEN fun_cong]
  deviceIsControllerDevice_def [THEN fun_cong] nvme_pathExists_def [THEN fun_cong]
  nativeMultipathEnabled_def [THEN fun_cong] getControllersByNamespaceDeviceName_def [THEN fun_cong]
  nqnByNamespaceDeviceName_def [THEN fun_cong] getControllerByTransportNQN_def [THEN fun_cong]
  getSubsystemPathByNQNTransport_def [THEN fun_cong] getSubsystemStateByNQNTransport_def [THEN fun_cong]
  controllerDevicePathByTransportNQN_def [THEN fun_cong]
  namespaceDevicePathByTransportNQNNamespace_def [THEN fun_cong]

definition devicePathByModelNumberSerialNumber :: "string \<Rightarrow> string \<Rightarrow> string" where
  "devicePathByModelNumberSerialNumber modelNumber serialNumber =
     ''/dev/disk/by-id/nvme-'' @ replace_ch (CHR '' '') ''_'' modelNumber @ ''_'' @ replace_ch (CHR '' '') ''_'' serialNumber"

section \<open>Paths\<close>

text \<open>What \<open>nvme list-subsys\<close> lists: the first path of a subsystem of the NQN.\<close>

definition first_listed :: "string \<Rightarrow> js list \<Rightarrow> js \<Rightarrow> bool" where
  "first_listed nqn hosts p \<longleftrightarrow>
     (\<exists>h\<in>set hosts. \<exists>ss s ps. field h ''Subsystems'' = Arr ss \<and> s \<in> set ss
        \<and> loose_eq (field s ''NQN'') (Str nqn) \<and> field s ''Paths'' = Arr (p # ps))"

lemma getp_field: "getp v k = Inr x \<Longrightarrow> field v k = x"
  by (auto simp: getp_def field_def split: option.splits)

lemma iterate_Inr: "iterate v = Inr xs \<longleftrightarrow> v = Arr xs"
  by (cases v) auto

lemma first_path_hd:
  "first_path t ps = Inr (Some p) \<Longrightarrow> \<exists>qs. ps = p # qs \<and> path_differs t p = Inr False"
  by (cases ps) (auto simp: ebind_eq_Inr split: if_splits)

lemma subsys_path_first:
  "subsys_path nqn t ss = Inr (Some p) \<Longrightarrow>
     \<exists>s\<in>set ss. \<exists>ps. loose_eq (field s ''NQN'') (Str nqn) \<and> field s ''Paths'' = Arr (p # ps) \<and> path_differs t p = Inr False"
proof (induction ss)
  case (Cons s ss)
  then show ?case
    by (fastforce simp: ebind_eq_Inr named_def iterate_Inr dest!: getp_field first_path_hd split: if_splits option.splits)
qed simp

lemma host_path_first:
  "host_path nqn t hs = Inr (Some p) \<Longrightarrow> first_listed nqn hs p \<and> path_differs t p = Inr False"
proof (induction hs)
  case (Cons h hs)
  then obtain ss r where h: "field h ''Subsystems'' = Arr ss" "subsys_path nqn t ss = Inr r"
    "case r of Some q \<Rightarrow> q = p | None \<Rightarrow> host_path nqn t hs = Inr (Some p)"
    by (auto simp: ebind_eq_Inr iterate_Inr dest!: getp_field split: option.splits)
  show ?case
  proof (cases r)
    case None
    with h Cons.IH show ?thesis by (auto simp: first_listed_def)
  next
    case (Some q)
    with h subsys_path_first [of nqn t ss p] show ?thesis unfolding first_listed_def by auto
  qed
qed simp

text \<open>
  Only the first path that is listed of a subsystem is ever found for a transport:
  the search leaves the paths of a subsystem at the first one that differs.
\<close>

theorem nvme_first_path_only:
  assumes "getSubsystemPathByNQNTransport N nqn transport w = (Inr (Some p), w')"
  shows "\<exists>t hosts w1 w2. parseTransport N transport w = (Inr t, w1) \<and> listSubsys N [''-v''] w1 = (Inr (Arr hosts), w2)
    \<and> first_listed nqn hosts p \<and> path_differs t p = Inr False"
proof -
  from assms obtain t w1 l hosts where "parseTransport N transport w = (Inr t, w1)"
    "listSubsys N [''-v''] w1 = (Inr l, w')" "iterate l = Inr hosts" "host_path nqn t hosts = Inr (Some p)"
    by (auto simp: getSubsystemPathByNQNTransport_def run_Inr ebind_eq_Inr)
  with host_path_first show ?thesis by (auto simp: iterate_Inr)
qed

section \<open>Addresses\<close>

lemma comma_fields_plain: "CHR '' '' \<notin> set a \<Longrightarrow> comma_fields (a @ b) = a @ comma_fields b"
  by (induction a) auto

lemma comma_fields_plain': "CHR '' '' \<notin> set a \<Longrightarrow> comma_fields a = a"
  using comma_fields_plain [of a "[]"] by simp

lemma comma_fields_sep:
  "CHR '' '' \<notin> set s \<Longrightarrow> comma_fields (CHR '' '' # ''trsvcid='' @ s) = CHR '','' # ''trsvcid='' @ s"
  "CHR '' '' \<notin> set s \<Longrightarrow> comma_fields (CHR '','' # ''trsvcid='' @ s) = CHR '','' # ''trsvcid='' @ s"
  using comma_fields_plain' [of s] by (auto simp: is_lower_alpha_def)

definition plain_field :: "string \<Rightarrow> bool" where
  "plain_field a \<longleftrightarrow> list_all (\<lambda>c. \<not> is_space c \<and> c \<noteq> CHR '','' \<and> c \<noteq> CHR ''='') a"

lemma plain_fieldD:
  assumes "plain_field a"
  shows "CHR '' '' \<notin> set a" "CHR '','' \<notin> set a" "CHR ''='' \<notin> set a" "trim a = a"
proof -
  have "is_space (CHR '' '')" by (simp add: is_space_def)
  then show "CHR '' '' \<notin> set a" "CHR '','' \<notin> set a" "CHR ''='' \<notin> set a"
    using assms by (auto simp: plain_field_def list_all_iff)
  have *: "dropWhile is_space b = b" if "list_all (\<lambda>c. \<not> is_space c) b" for b
    using that by (cases b) auto
  have n: "list_all (\<lambda>c. \<not> is_space c) a" using assms by (simp add: plain_field_def list_all_iff)
  show "trim a = a" using * [OF n] * [of "rev a"] n by (simp add: trim_def list_all_iff)
qed

lemma address_part_field:
  assumes "plain_field v"
  shows "address_part (x, y) (''traddr='' @ v) = Inr (Str v, y)" "address_part (x, y) (''trsvcid='' @ v) = Inr (x, Str v)"
proof -
  have s: "split_ch (CHR ''='') v = [v]" using plain_fieldD(3) [OF assms] by (rule split_ch_no_sep)
  show "address_part (x, y) (''traddr='' @ v) = Inr (Str v, y)" "address_part (x, y) (''trsvcid='' @ v) = Inr (x, Str v)"
    using plain_fieldD(4) [OF assms] by (simp_all add: address_part_def s trim_def is_space_def)
qed

text \<open>
  The address of a path reads the same in the format of older versions of \<open>nvme-cli\<close>
  (fields after spaces) and of newer ones (fields after commas), and gives back the address
  and the service.
\<close>

theorem path_address_formats:
  assumes "t \<in> {''fc'', ''rdma'', ''tcp''}" and "sep = CHR '' '' \<or> sep = CHR '',''" and "plain_field a" and "plain_field s"
  shows "parseTransportFromPath
      (Obj [(''Transport'', Str t), (''Address'', Str (''traddr='' @ a @ sep # ''trsvcid='' @ s))])
    = Inr (Obj [(''type'', Str t), (''address'', Str a), (''service'', Str s)])"
proof -
  note a = plain_fieldD [OF assms(3)] and s = plain_fieldD [OF assms(4)]
  have u: "comma_fields (sep # ''trsvcid='' @ s) = CHR '','' # ''trsvcid='' @ s"
    using assms(2) comma_fields_sep [OF s(1)] by (elim disjE) (simp_all only:)
  have "CHR '' '' \<notin> set (''traddr='' @ a)" using a(1) by simp
  from comma_fields_plain [OF this, of "sep # ''trsvcid='' @ s"]
  have c: "comma_fields (''traddr='' @ a @ sep # ''trsvcid='' @ s) = (''traddr='' @ a) @ CHR '','' # ''trsvcid='' @ s"
    by (simp only: u append_assoc)
  have "split_ch (CHR '','') ((''traddr='' @ a) @ CHR '','' # ''trsvcid='' @ s) = [''traddr='' @ a, ''trsvcid='' @ s]"
    using a(2) s(2) by (subst split_ch_append_sep) (auto simp: split_ch_no_sep simp del: append.simps)
  with c address_part_field [OF assms(3), of Undef Undef] address_part_field [OF assms(4), of "Str a" Undef] assms(1)
  show ?thesis
    by (auto simp: parseTransportFromPath_def getp_def field_def obj_get_def as_string_def simp del: append.simps append_Cons)
qed

lemma path_address_formats_witness:
  "parseTransportFromPath (Obj [(''Transport'', Str ''tcp''), (''Address'', Str ''traddr=10.0.0.1 trsvcid=4420'')])
   = Inr (Obj [(''type'', Str ''tcp''), (''address'', Str ''10.0.0.1''), (''service'', Str ''4420'')])"
proof -
  have "plain_field ''10.0.0.1''" "plain_field ''4420''" by code_simp+
  from path_address_formats [of "''tcp''" "CHR '' ''", OF _ _ this] show ?thesis by simp
qed

section \<open>A subsystem with two paths\<close>

definition sample_path :: "string \<Rightarrow> string \<Rightarrow> js" where
  "sample_path name a = Obj [(''Name'', Str name), (''Transport'', Str ''tcp''),
     (''Address'', Str (''traddr='' @ a @ '',trsvcid=4420'')), (''State'', Str ''live'')]"

definition subsys_listing :: js where
  "subsys_listing = Arr [Obj [(''Subsystems'', Arr [Obj [(''NQN'', Str ''nqn.a''),
     (''Paths'', Arr [sample_path ''nvme0'' ''10.0.0.1'', sample_path ''nvme1'' ''10.0.0.2''])]])]]"

definition two_paths_host :: "nat host" where
  "two_paths_host = \<lparr>ho_spawn = (\<lambda>c a opts n. (Closed (Some 0) (json_print subsys_listing) [] False, n + 1)),
     ho_env = (\<lambda>_. None), ho_lookup = (\<lambda>s n. (Inr (Str s), n)), ho_stat = (\<lambda>p n. (None, n)),
     ho_read = (\<lambda>p n. (None, n)), ho_write = (\<lambda>p s n. n), ho_now = (\<lambda>n. (0, n)), ho_sleep = (\<lambda>t n. n)\<rparr>"

definition sample_nvmeof :: "nat nvmeof" where
  "sample_nvmeof = new_nvmeof [] two_paths_host (\<lambda>_. Undef)"

definition tcp_transport :: "string \<Rightarrow> js" where
  "tcp_transport a = Obj [(''type'', Str ''tcp''), (''address'', Str a), (''service'', Num (IntN 4420))]"

text \<open>The second path exists, but is not found.\<close>

lemma second_path_missed:
  "fst (getSubsystemPathByNQNTransport sample_nvmeof ''nqn.a'' (tcp_transport ''10.0.0.2'') \<lparr>ext = 0, hist = []\<rparr>) = Inr None"
  by code_simp

lemma nvme_first_path_only_witness:
  "\<exists>t hosts. first_listed ''nqn.a'' hosts (sample_path ''nvme0'' ''10.0.0.1'')
     \<and> path_differs t (sample_path ''nvme0'' ''10.0.0.1'') = Inr False"
proof -
  let ?w = "\<lparr>ext = 0, hist = []\<rparr> :: nat world"
  have "fst (getSubsystemPathByNQNTransport sample_nvmeof ''nqn.a'' (tcp_transport ''10.0.0.1'') ?w)
      = Inr (Some (sample_path ''nvme0'' ''10.0.0.1''))" by code_simp
  from nvme_first_path_only [OF run_fst [OF this]] show ?thesis by blast
qed

end
