(* ===== verification/Partial_Effects.thy ===== *)
theory Partial_Effects
  imports Effects
begin

text \<open>
  Programs with a loop that may run forever: None is a run that never settles. A program of
  \<open>Effects\<close> is one that always settles. What a program does before it settles is stated with
  \<open>pwp\<close>, that it settles with \<open>returns\<close>.
\<close>

type_synonym ('w, 'a) pio = "'w \<Rightarrow> ((exn + 'a) \<times> 'w) option"

definition total :: "('w, 'a) io \<Rightarrow> ('w, 'a) pio" where
  "total m = (\<lambda>w. Some (m w))"

definition pbind :: "('w, 'a) pio \<Rightarrow> ('a \<Rightarrow> ('w, 'b) pio) \<Rightarrow> ('w, 'b) pio" where
  "pbind m f = (\<lambda>w. case m w of
     None \<Rightarrow> None | Some (Inl e, w') \<Rightarrow> Some (Inl e, w') | Some (Inr x, w') \<Rightarrow> f x w')"

definition pcatch :: "('w, 'a) pio \<Rightarrow> (exn \<Rightarrow> ('w, 'a) pio) \<Rightarrow> ('w, 'a) pio" where
  "pcatch m h = (\<lambda>w. case m w of
     None \<Rightarrow> None
   | Some (Inl e, w') \<Rightarrow> (if catchable e then h e w' else Some (Inl e, w'))
   | Some (Inr x, w') \<Rightarrow> Some (Inr x, w'))"

abbreviation pret :: "'a \<Rightarrow> ('w, 'a) pio" where
  "pret x \<equiv> total (ret x)"

abbreviation pthrow :: "exn \<Rightarrow> ('w, 'a) pio" where
  "pthrow e \<equiv> total (throw e)"

fun pfor_each :: "'x list \<Rightarrow> ('x \<Rightarrow> ('w, unit) pio) \<Rightarrow> ('w, unit) pio" where
  "pfor_each [] f = pret ()"
| "pfor_each (x # xs) f = pbind (f x) (\<lambda>_. pfor_each xs f)"

fun pfold_io :: "('s \<Rightarrow> 'x \<Rightarrow> ('w, 's) pio) \<Rightarrow> 's \<Rightarrow> 'x list \<Rightarrow> ('w, 's) pio" where
  "pfold_io f s [] = pret s"
| "pfold_io f s (x # xs) = pbind (f s x) (\<lambda>s'. pfold_io f s' xs)"

text \<open>For evaluation, as for the programs that always settle.\<close>

definition pcontinue :: "('a \<Rightarrow> ('w, 'b) pio) \<Rightarrow> ((exn + 'a) \<times> 'w) option \<Rightarrow> ((exn + 'b) \<times> 'w) option" where
  "pcontinue f r = (case r of None \<Rightarrow> None | Some (Inl e, w) \<Rightarrow> Some (Inl e, w) | Some (Inr x, w) \<Rightarrow> f x w)"

definition precover :: "(exn \<Rightarrow> ('w, 'a) pio) \<Rightarrow> ((exn + 'a) \<times> 'w) option \<Rightarrow> ((exn + 'a) \<times> 'w) option" where
  "precover h r = (case r of
     None \<Rightarrow> None
   | Some (Inl e, w) \<Rightarrow> (if catchable e then h e w else Some (Inl e, w))
   | Some (Inr x, w) \<Rightarrow> Some (Inr x, w))"

lemma prun_code [code]:
  "pcontinue f None = None" "pcontinue f (Some (Inl e, w)) = Some (Inl e, w)" "pcontinue f (Some (Inr x, w)) = f x w"
  "precover h None = None" "precover h (Some (Inl e, w)) = (if catchable e then h e w else Some (Inl e, w))"
  "precover h (Some (Inr x, w)) = Some (Inr x, w)"
  "total n w = Some (n w)" "pbind m f w = pcontinue f (m w)" "pcatch m h w = precover h (m w)"
  by (simp_all add: pcontinue_def precover_def total_def pbind_def pcatch_def)

section \<open>Partial correctness\<close>

definition pwp :: "('w, 'a) pio \<Rightarrow> ('a \<Rightarrow> 'w \<Rightarrow> bool) \<Rightarrow> (exn \<Rightarrow> 'w \<Rightarrow> bool) \<Rightarrow> 'w \<Rightarrow> bool" where
  "pwp m Q E w = (case m w of None \<Rightarrow> True | Some (Inr x, w') \<Rightarrow> Q x w' | Some (Inl e, w') \<Rightarrow> E e w')"

lemma pwp_total [simp]: "pwp (total m) Q E w = wp m Q E w"
  by (simp add: pwp_def wp_def total_def)

lemma pwp_bind [simp]: "pwp (pbind m f) Q E w = pwp m (\<lambda>x. pwp (f x) Q E) E w"
  by (simp add: pwp_def pbind_def split: option.splits prod.splits sum.splits)

lemma pwp_catch [simp]:
  "pwp (pcatch m h) Q E w = pwp m Q (\<lambda>e w'. if catchable e then pwp (h e) Q E w' else E e w') w"
  by (simp add: pwp_def pcatch_def split: option.splits prod.splits sum.splits)

lemma pwp_if [simp]: "pwp (if b then m else n) Q E w = (if b then pwp m Q E w else pwp n Q E w)"
  by simp

lemma pwp_mono:
  assumes "pwp m Q E w" and "\<And>x w'. Q x w' \<Longrightarrow> Q' x w'" and "\<And>e w'. E e w' \<Longrightarrow> E' e w'"
  shows "pwp m Q' E' w"
  using assms by (auto simp: pwp_def split: option.splits prod.splits sum.splits)

lemma pwp_Inr: "pwp m Q E w \<Longrightarrow> m w = Some (Inr x, w') \<Longrightarrow> Q x w'"
  by (simp add: pwp_def)

lemma pwp_for_each_inv:
  assumes "I w" and "\<And>x w. x \<in> set xs \<Longrightarrow> I w \<Longrightarrow> pwp (f x) (\<lambda>_. I) E w"
  shows "pwp (pfor_each xs f) (\<lambda>_. I) E w"
  using assms
proof (induction xs arbitrary: w)
  case (Cons x xs)
  have "pwp (f x) (\<lambda>_. I) E w" using Cons.prems by simp
  moreover have "pwp (pfor_each xs f) (\<lambda>_. I) E w'" if "I w'" for w'
    using that by (rule Cons.IH) (auto intro: Cons.prems(2))
  ultimately show ?case by (auto elim: pwp_mono)
qed simp

lemma pwp_fold_inv:
  assumes "I s w" and "\<And>x s w. x \<in> set xs \<Longrightarrow> I s w \<Longrightarrow> pwp (f s x) I E w"
  shows "pwp (pfold_io f s xs) I E w"
  using assms
proof (induction xs arbitrary: s w)
  case (Cons x xs)
  have "pwp (f s x) I E w" using Cons.prems by simp
  moreover have "pwp (pfold_io f s' xs) I E w'" if "I s' w'" for s' w'
    using that by (rule Cons.IH) (auto intro: Cons.prems(2))
  ultimately show ?case by (auto elim: pwp_mono)
qed simp

lemma pbind_Inr:
  "pbind m f w = Some (Inr y, w') \<longleftrightarrow> (\<exists>x w1. m w = Some (Inr x, w1) \<and> f x w1 = Some (Inr y, w'))"
  by (auto simp: pbind_def split: option.splits prod.splits sum.splits)

lemma total_Some: "total m w = Some (r, w') \<longleftrightarrow> m w = (r, w')"
  by (simp add: total_def)

section \<open>Runs that settle\<close>

named_theorems returns_intro

definition returns :: "('w, 'a) pio \<Rightarrow> bool" where
  "returns m \<longleftrightarrow> (\<forall>w. m w \<noteq> None)"

lemma returnsD: "returns m \<Longrightarrow> \<exists>r w'. m w = Some (r, w')"
  by (simp add: returns_def)

lemma returns_total [returns_intro]: "returns (total m)"
  by (simp add: returns_def total_def)

lemma returns_bind [returns_intro]: "returns m \<Longrightarrow> (\<And>x. returns (f x)) \<Longrightarrow> returns (pbind m f)"
  by (auto simp: returns_def pbind_def split: option.splits prod.splits sum.splits)

lemma returns_catch [returns_intro]: "returns m \<Longrightarrow> (\<And>e. returns (h e)) \<Longrightarrow> returns (pcatch m h)"
  by (auto simp: returns_def pcatch_def split: option.splits prod.splits sum.splits)

lemma returns_if [returns_intro]: "(b \<Longrightarrow> returns m) \<Longrightarrow> (\<not> b \<Longrightarrow> returns n) \<Longrightarrow> returns (if b then m else n)"
  by simp

lemma returns_case_option [returns_intro]:
  "returns n \<Longrightarrow> (\<And>x. returns (f x)) \<Longrightarrow> returns (case v of None \<Rightarrow> n | Some x \<Rightarrow> f x)"
  by (cases v) auto

lemma returns_for_each [returns_intro]: "(\<And>x. returns (f x)) \<Longrightarrow> returns (pfor_each xs f)"
  by (induction xs) (auto intro: returns_intro)

lemma returns_fold [returns_intro]: "(\<And>s x. returns (f s x)) \<Longrightarrow> returns (pfold_io f s xs)"
  by (induction xs arbitrary: s) (auto intro: returns_intro)

section \<open>What a run adds to the history\<close>

definition padds :: "(event \<Rightarrow> bool) \<Rightarrow> ('e world, 'a) pio \<Rightarrow> bool" where
  "padds P m \<longleftrightarrow> (\<forall>w r w'. m w = Some (r, w') \<longrightarrow> (\<exists>es. hist w' = hist w @ es \<and> list_all P es))"

lemma paddsD: "padds P m \<Longrightarrow> m w = Some (r, w') \<Longrightarrow> \<exists>es. hist w' = hist w @ es \<and> list_all P es"
  by (simp add: padds_def)

lemma padds_total [wp_intro]: "adds P m \<Longrightarrow> padds P (total m)"
  unfolding padds_def total_def adds_def by (metis option.inject snd_conv)

lemma padds_bind [wp_intro]:
  assumes "padds P m" and "\<And>x. padds P (f x)"
  shows "padds P (pbind m f)"
  unfolding padds_def
proof (intro allI impI)
  fix w r w'
  assume run: "pbind m f w = Some (r, w')"
  then obtain r1 w1 where 1: "m w = Some (r1, w1)" by (auto simp: pbind_def split: option.splits)
  show "\<exists>es. hist w' = hist w @ es \<and> list_all P es"
  proof (cases r1)
    case (Inl e)
    with run 1 paddsD [OF assms(1) 1] show ?thesis by (simp add: pbind_def)
  next
    case (Inr x)
    with run 1 have "f x w1 = Some (r, w')" by (simp add: pbind_def)
    from adds_append [OF paddsD [OF assms(1) 1] paddsD [OF assms(2) this]] show ?thesis .
  qed
qed

lemma padds_catch [wp_intro]:
  assumes "padds P m" and "\<And>e. padds P (h e)"
  shows "padds P (pcatch m h)"
  unfolding padds_def
proof (intro allI impI)
  fix w r w'
  assume run: "pcatch m h w = Some (r, w')"
  then obtain r1 w1 where 1: "m w = Some (r1, w1)" by (auto simp: pcatch_def split: option.splits)
  show "\<exists>es. hist w' = hist w @ es \<and> list_all P es"
  proof (cases "\<exists>e. r1 = Inl e \<and> catchable e")
    case True
    then obtain e where "r1 = Inl e" "catchable e" by blast
    with run 1 have "h e w1 = Some (r, w')" by (simp add: pcatch_def)
    from adds_append [OF paddsD [OF assms(1) 1] paddsD [OF assms(2) this]] show ?thesis .
  next
    case False
    with run 1 have "w' = w1" by (auto simp: pcatch_def split: sum.splits)
    with paddsD [OF assms(1) 1] show ?thesis by simp
  qed
qed

lemma padds_if [wp_intro]: "(b \<Longrightarrow> padds P m) \<Longrightarrow> (\<not> b \<Longrightarrow> padds P n) \<Longrightarrow> padds P (if b then m else n)"
  by simp

lemma padds_case_option [wp_intro]:
  "padds P n \<Longrightarrow> (\<And>x. v = Some x \<Longrightarrow> padds P (f x)) \<Longrightarrow> padds P (case v of None \<Rightarrow> n | Some x \<Rightarrow> f x)"
  by (cases v) auto

lemma padds_for_each [wp_intro]: "(\<And>x. x \<in> set xs \<Longrightarrow> padds P (f x)) \<Longrightarrow> padds P (pfor_each xs f)"
  by (induction xs) (auto intro!: wp_intro)

lemma padds_fold [wp_intro]: "(\<And>s x. x \<in> set xs \<Longrightarrow> padds P (f s x)) \<Longrightarrow> padds P (pfold_io f s xs)"
  by (induction xs arbitrary: s) (auto intro!: wp_intro)

lemma pwp_padds:
  assumes "padds P m"
    and "\<And>x w' es. hist w' = hist w @ es \<Longrightarrow> list_all P es \<Longrightarrow> Q x w'"
    and "\<And>e w' es. hist w' = hist w @ es \<Longrightarrow> list_all P es \<Longrightarrow> E e w'"
  shows "pwp m Q E w"
  using paddsD [OF assms(1), of w] assms(2,3) by (auto simp: pwp_def split: option.splits prod.splits sum.splits)

section \<open>Rules that keep the result\<close>

definition outcome :: "('w, 'a) io \<Rightarrow> exn + 'a \<Rightarrow> bool" where
  "outcome m r \<longleftrightarrow> (\<exists>w w'. m w = (r, w'))"

definition poutcome :: "('w, 'a) pio \<Rightarrow> exn + 'a \<Rightarrow> bool" where
  "poutcome m r \<longleftrightarrow> (\<exists>w w'. m w = Some (r, w'))"

lemma outcome_total [simp]: "poutcome (total m) r \<longleftrightarrow> outcome m r"
  by (simp add: poutcome_def outcome_def total_def)

lemma padds_bind_outcome:
  assumes "padds P m" and "\<And>x. poutcome m (Inr x) \<Longrightarrow> padds P (f x)"
  shows "padds P (pbind m f)"
  unfolding padds_def
proof (intro allI impI)
  fix w r w'
  assume run: "pbind m f w = Some (r, w')"
  then obtain r1 w1 where 1: "m w = Some (r1, w1)" by (auto simp: pbind_def split: option.splits)
  show "\<exists>es. hist w' = hist w @ es \<and> list_all P es"
  proof (cases r1)
    case (Inl e)
    with run 1 paddsD [OF assms(1) 1] show ?thesis by (simp add: pbind_def)
  next
    case (Inr x)
    with 1 have "poutcome m (Inr x)" by (auto simp: poutcome_def)
    from paddsD [OF assms(2) [OF this]] run 1 Inr have "\<exists>es. hist w' = hist w1 @ es \<and> list_all P es"
      by (simp add: pbind_def)
    from adds_append [OF paddsD [OF assms(1) 1] this] show ?thesis .
  qed
qed

lemma padds_catch_outcome:
  assumes "padds P m" and "\<And>e. poutcome m (Inl e) \<Longrightarrow> padds P (h e)"
  shows "padds P (pcatch m h)"
  unfolding padds_def
proof (intro allI impI)
  fix w r w'
  assume run: "pcatch m h w = Some (r, w')"
  then obtain r1 w1 where 1: "m w = Some (r1, w1)" by (auto simp: pcatch_def split: option.splits)
  show "\<exists>es. hist w' = hist w @ es \<and> list_all P es"
  proof (cases "\<exists>e. r1 = Inl e \<and> catchable e")
    case True
    then obtain e where e: "r1 = Inl e" "catchable e" by blast
    with 1 have "poutcome m (Inl e)" by (auto simp: poutcome_def)
    from paddsD [OF assms(2) [OF this]] run 1 e have "\<exists>es. hist w' = hist w1 @ es \<and> list_all P es"
      by (simp add: pcatch_def)
    from adds_append [OF paddsD [OF assms(1) 1] this] show ?thesis .
  next
    case False
    with run 1 have "w' = w1" by (auto simp: pcatch_def split: sum.splits)
    with paddsD [OF assms(1) 1] show ?thesis by simp
  qed
qed

lemma adds_padds: "adds P m \<longleftrightarrow> padds P (total m)"
  unfolding padds_def total_def adds_def by (metis option.inject snd_conv surj_pair)

lemma total_bind: "total (bind m f) = pbind (total m) (\<lambda>x. total (f x))"
  by (rule ext) (simp add: total_def bind_def pbind_def split: prod.splits sum.splits)

lemma total_catch: "total (catch m h) = pcatch (total m) (\<lambda>e. total (h e))"
  by (rule ext) (simp add: total_def catch_def pcatch_def split: prod.splits sum.splits)

lemma adds_bind_outcome:
  "adds P m \<Longrightarrow> (\<And>x. outcome m (Inr x) \<Longrightarrow> adds P (f x)) \<Longrightarrow> adds P (bind m f)"
  unfolding adds_padds total_bind by (rule padds_bind_outcome) simp_all

lemma adds_catch_outcome:
  "adds P m \<Longrightarrow> (\<And>e. outcome m (Inl e) \<Longrightarrow> adds P (h e)) \<Longrightarrow> adds P (catch m h)"
  unfolding adds_padds total_catch by (rule padds_catch_outcome) simp_all

end
