(* ===== verification/Node_Driver.thy ===== *)
theory Node_Driver
  imports Driver_Options Session_Reaper Reaper_Timers Node_Db_Sweeper Nvmeof Partial_Effects
begin

text \<open>
  The ground of the node service of \<open>CsiBaseDriver\<close> (\<open>src/driver/index.js\<close>): its instances of
  the node utilities, the reaper and the sweeper it starts, and the identity and capability calls.
  \<open>nd_assertCapabilities\<close> is the method of the derived driver, \<open>nd_satisfies\<close> is semver on the
  CSI version, \<open>nd_uri\<close> is the package \<open>uri-js\<close>, and \<open>nd_isDirectory\<close> is \<open>fs.lstatSync\<close>.
\<close>

section \<open>The driver\<close>

record 'e node_driver =
  nd_options :: jsobj
  nd_host :: "'e host"
  nd_lodash :: lodash
  nd_uri :: "string \<Rightarrow> js"
  nd_satisfies :: "string \<Rightarrow> bool"
  nd_platform :: string
  nd_hostname :: string
  nd_csiName :: js
  nd_version :: js
  nd_assertCapabilities :: "js list \<Rightarrow> js \<Rightarrow> bool \<times> string"
  nd_isDirectory :: "string \<Rightarrow> 'e \<Rightarrow> (exn + bool) \<times> 'e"

definition node_opt :: "'e node_driver \<Rightarrow> string \<Rightarrow> js \<Rightarrow> js" where
  "node_opt D path d = lget (nd_lodash D) (Obj (nd_options D)) path d"

definition getDefaultFilesystemInstance :: "'e node_driver \<Rightarrow> 'e filesystem" where
  "getDefaultFilesystemInstance D = new_filesystem [] (nd_host D)"

definition getDefaultMountInstance :: "'e node_driver \<Rightarrow> 'e mounter" where
  "getDefaultMountInstance D = new_mount [] (getDefaultFilesystemInstance D) (nd_host D)"

definition getDefaultISCSIInstance :: "'e node_driver \<Rightarrow> 'e iscsi" where
  "getDefaultISCSIInstance D = new_iscsi [] (nd_host D)"

definition getDefaultNVMEoFInstance :: "'e node_driver \<Rightarrow> 'e nvmeof" where
  "getDefaultNVMEoFInstance D = new_nvmeof [] (nd_host D) (nd_uri D)"

text \<open>The executor quotes the command for the shell that \<open>cp.exec\<close> starts.\<close>

definition getDefaultZetabyteInstance :: "'e node_driver \<Rightarrow> 'e zetabyte" where
  "getDefaultZetabyteInstance D = new_zetabyte
     [(''idempotent'', Bool True),
      (''paths'', Obj [(''zfs'', Str ''zfs''), (''zpool'', Str ''zpool''), (''sudo'', Str ''sudo''), (''chroot'', Str ''chroot'')]),
      (''log_commands'', Bool True)]
     (\<lambda>c a opts. ho_spawn (nd_host D) ''/bin/sh'' [''-c'', join '' '' (map shellEscapeArg (c # a))] [])"

section \<open>The reaper and the sweeper\<close>

text \<open>The options given to the constructors; the logger and the utilities are only checked to be there.\<close>

definition reaper_options :: "'e node_driver \<Rightarrow> jsobj" where
  "reaper_options D =
     [(''logger'', Obj []), (''iscsi'', Obj []), (''mount'', Obj []), (''filesystem'', Obj []),
      (''enabled'', node_opt D ''node.iscsi.sessionReaper.enabled'' (Bool False)),
      (''intervalSeconds'', node_opt D ''node.iscsi.sessionReaper.intervalSeconds'' (Num (IntN 300))),
      (''minStaleSeconds'', node_opt D ''node.iscsi.sessionReaper.minStaleSeconds'' (Num (IntN 120))),
      (''startupDelaySeconds'', node_opt D ''node.iscsi.sessionReaper.startupDelaySeconds'' (Num (IntN 60)))]"

text \<open>None when the reaper is not started.\<close>

definition startISCSISessionReaper :: "'e node_driver \<Rightarrow> reaper_state \<Rightarrow> exn + (reaper \<times> reaper_state) option" where
  "startISCSISessionReaper D s =
     (if \<not> truthy (node_opt D ''node.iscsi.sessionReaper.enabled'' (Bool False)) then Inr None
      else ebind (new_reaper (reaper_options D)) (\<lambda>r. Inr (Some (r, reaper_start r s))))"

definition getDefaultISCSINodeDbSweeperInstance :: "'e node_driver \<Rightarrow> 'e sweeper" where
  "getDefaultISCSINodeDbSweeperInstance D = new_sweeper
     [(''startupDelaySeconds'', node_opt D ''node.iscsi.nodeDbSweeper.startupDelaySeconds'' (Num (IntN 60))),
      (''targetBasename'', node_opt D ''node.iscsi.nodeDbSweeper.targetBasename'' Null)]
     (getDefaultISCSIInstance D)"

section \<open>Platform and mount flags\<close>

datatype node_os = CSI_PROXY | POSIX | WINDOWS

definition getNodeIsWindows :: "'e node_driver \<Rightarrow> bool" where
  "getNodeIsWindows D \<longleftrightarrow> nd_platform D = ''win32''"

definition getNodeOsDriver :: "'e node_driver \<Rightarrow> node_os" where
  "getNodeOsDriver D = (if getNodeIsWindows D then WINDOWS else POSIX)"

definition getCsiProxyEnabled :: "'e node_driver \<Rightarrow> js" where
  "getCsiProxyEnabled D = node_opt D ''node.csiProxy.enabled'' (Bool (nd_platform D = ''win32''))"

text \<open>The last flag with the name wins; None for undefined.\<close>

fun last_flag :: "string \<Rightarrow> string list \<Rightarrow> string option" where
  "last_flag pre [] = None"
| "last_flag pre (f # fs) =
     (if starts_with f pre
      then Some (case split_ch (CHR ''='') f of _ # v # _ \<Rightarrow> v | _ \<Rightarrow> []) else last_flag pre fs)"

definition getMountFlagValue :: "string list \<Rightarrow> string \<Rightarrow> string option" where
  "getMountFlagValue mount_flags f = last_flag (f @ ''='') (rev mount_flags)"

section \<open>Identity and capabilities\<close>

definition GetPluginInfo :: "'e node_driver \<Rightarrow> jsobj" where
  "GetPluginInfo D = [(''name'', nd_csiName D), (''vendor_version'', nd_version D)]"

text \<open>The configured list under a path of the options, or the one value UNKNOWN.\<close>

definition capability_list :: "'e node_driver \<Rightarrow> string list \<Rightarrow> string \<Rightarrow> exn + js list" where
  "capability_list D path kind =
     ebind (getps (Obj (nd_options D)) path) (\<lambda>v.
     case or_else v (Arr [Str ''UNKNOWN'']) of
       Arr items \<Rightarrow> Inr (map (\<lambda>item. Obj [(kind, Obj [(''type'', item)])]) items)
     | _ \<Rightarrow> Inl (type_error ''capabilities.forEach is not a function''))"

definition GetPluginCapabilities :: "'e node_driver \<Rightarrow> exn + jsobj" where
  "GetPluginCapabilities D =
     ebind (capability_list D [''service'', ''identity'', ''capabilities'', ''service''] ''service'') (\<lambda>a.
     ebind (capability_list D [''service'', ''identity'', ''capabilities'', ''volume_expansion''] ''volume_expansion'') (\<lambda>b.
     Inr [(''capabilities'', Arr (a @ b))]))"

definition base_Probe :: jsobj where
  "base_Probe = [(''ready'', Obj [(''value'', Bool True)])]"

definition ControllerGetCapabilities :: "'e node_driver \<Rightarrow> exn + jsobj" where
  "ControllerGetCapabilities D =
     ebind (capability_list D [''service'', ''controller'', ''capabilities'', ''rpc''] ''rpc'') (\<lambda>a.
     Inr [(''capabilities'', Arr a)])"

definition NodeGetCapabilities :: "'e node_driver \<Rightarrow> exn + jsobj" where
  "NodeGetCapabilities D =
     ebind (capability_list D [''service'', ''node'', ''capabilities'', ''rpc''] ''rpc'') (\<lambda>a.
     Inr [(''capabilities'', Arr a)])"

definition NodeGetInfo :: "'e node_driver \<Rightarrow> jsobj" where
  "NodeGetInfo D =
     [(''node_id'', Str (env_or (nd_host D) ''CSI_NODE_ID'' (nd_hostname D))),
      (''max_volumes_per_node'', Num (IntN 0))]"

text \<open>Whether the node service offers an rpc: \<open>options.service.node.capabilities.rpc.includes(...)\<close>.\<close>

definition node_offers :: "'e node_driver \<Rightarrow> string \<Rightarrow> exn + bool" where
  "node_offers D rpc =
     ebind (getps (Obj (nd_options D)) [''service'', ''node'', ''capabilities'', ''rpc'']) (\<lambda>v.
     case v of
       Arr xs \<Rightarrow> Inr (Str rpc \<in> set xs)
     | Str s \<Rightarrow> Inr (contains s rpc)
     | _ \<Rightarrow> Inl (type_error ''includes''))"

text \<open>The fields that every call of the node service asks for.\<close>

definition missing :: "jsobj \<Rightarrow> string \<Rightarrow> ('w, unit) io" where
  "missing req k =
     throw_when (\<not> truthy (obj_get req k)) (GrpcError INVALID_ARGUMENT (''missing '' @ k))"

text \<open>The branch for Windows is outside the model; the one for the csi proxy is never taken.\<close>

definition on_posix :: "'e node_driver \<Rightarrow> ('e world, 'a) pio \<Rightarrow> ('e world, 'a) pio" where
  "on_posix D m =
     (case getNodeOsDriver D of
        POSIX \<Rightarrow> m
      | WINDOWS \<Rightarrow> pthrow (Unmodelled ''windows'')
      | CSI_PROXY \<Rightarrow> pthrow (Unmodelled ''csi-proxy''))"

text \<open>For evaluation: a program is only unfolded when it is run.\<close>

lemmas node_driver_run [code] =
  missing_def [THEN fun_cong] on_posix_def [THEN fun_cong]

lemma never_csi_proxy: "getNodeOsDriver D \<noteq> CSI_PROXY"
  by (simp add: getNodeOsDriver_def)

text \<open>A POSIX node on a given host that offers no rpc, for runs.\<close>

definition sample_node :: "'e host \<Rightarrow> 'e node_driver" where
  "sample_node H = \<lparr>nd_options = [(''service'', Obj [(''node'', Obj [(''capabilities'', Obj [(''rpc'', Arr [])])])])], nd_host = H, 
     nd_lodash = lodash_std, nd_uri = (\<lambda>_. Undef), nd_satisfies = (\<lambda>_. True),
     nd_platform = ''linux'', nd_hostname = ''node'', nd_csiName = Str ''csi'', nd_version = Str ''1'',
     nd_assertCapabilities = (\<lambda>_ _. (True, [])), nd_isDirectory = (\<lambda>_ e. (Inr True, e))\<rparr>"

section \<open>The instances run the plain commands\<close>

lemma no_options:
  "truthy (obj_get (filesystem_options []) ''sudo'') = False" "truthy (obj_get (mount_options []) ''sudo'') = False"
  "truthy (obj_get (iscsi_options []) ''sudo'') = False" "truthy (obj_get (nvmeof_options []) ''sudo'') = False"
  by code_simp+

lemma node_sudo [simp]:
  "sudo_command (fs_options (getDefaultFilesystemInstance D)) c a = (c, a)"
  "sudo_command (mo_options (getDefaultMountInstance D)) c a = (c, a)"
  "sudo_command (nv_options (getDefaultNVMEoFInstance D)) c a = (c, a)"
  "iscsi_command (getDefaultISCSIInstance D) c a = (c, a)"
  by (simp_all add: sudo_command_def iscsi_command_def getDefaultFilesystemInstance_def getDefaultMountInstance_def
      getDefaultNVMEoFInstance_def getDefaultISCSIInstance_def new_filesystem_def new_mount_def new_nvmeof_def
      new_iscsi_def no_options)

lemma default_paths:
  "to_str (field (obj_get (mount_options []) ''paths'') ''mount'') = ''mount''"
  "to_str (field (obj_get (mount_options []) ''paths'') ''umount'') = ''umount''"
  "to_str (field (obj_get (mount_options []) ''paths'') ''findmnt'') = ''findmnt''"
  "to_str (field (obj_get (iscsi_options []) ''paths'') ''iscsiadm'') = ''iscsiadm''"
  "to_str (field (obj_get (nvmeof_options []) ''paths'') ''nvme'') = ''nvme''"
  by code_simp+

lemma node_paths [simp]:
  "mo_path (getDefaultMountInstance D) ''mount'' = ''mount''"
  "mo_path (getDefaultMountInstance D) ''umount'' = ''umount''"
  "mo_path (getDefaultMountInstance D) ''findmnt'' = ''findmnt''"
  "is_path (getDefaultISCSIInstance D) ''iscsiadm'' = ''iscsiadm''"
  "to_str (field (obj_get (nv_options (getDefaultNVMEoFInstance D)) ''paths'') ''nvme'') = ''nvme''"
  by (simp_all add: mo_path_def is_path_def getDefaultMountInstance_def getDefaultISCSIInstance_def
      getDefaultNVMEoFInstance_def new_mount_def new_iscsi_def new_nvmeof_def default_paths)

lemma node_filesystem [simp]:
  "mo_filesystem (getDefaultMountInstance D) = getDefaultFilesystemInstance D"
  "fs_host (getDefaultFilesystemInstance D) = nd_host D" "mo_host (getDefaultMountInstance D) = nd_host D"
  "is_host (getDefaultISCSIInstance D) = nd_host D" "nv_host (getDefaultNVMEoFInstance D) = nd_host D"
  by (simp_all add: getDefaultFilesystemInstance_def getDefaultMountInstance_def getDefaultISCSIInstance_def
      getDefaultNVMEoFInstance_def new_mount_def new_filesystem_def new_iscsi_def new_nvmeof_def)

lemma node_iscsi_ev [simp]: "iscsi_ev (getDefaultISCSIInstance D) args = EvSpawn ''iscsiadm'' args"
  by (simp add: iscsi_ev_def)

end
