(* ===== verification/Node_Commands.thy ===== *)
theory Node_Commands
  imports Node_Driver
begin

text \<open>
  The queries of the node service: commands and calls that read the state of the host. What
  the operations of the node utilities add to the history, for the instances of the driver.
\<close>

section \<open>Queries\<close>

definition query_command :: "string \<Rightarrow> string list \<Rightarrow> bool" where
  "query_command c a \<longleftrightarrow>
     c \<in> {''realpath'', ''lsblk'', ''findmnt'', ''ls'', ''blkid'', ''df'', ''dirname'', ''cat'', ''stat''}
     \<or> c = ''sh'' \<and> a = [''-c'', dm_script]
     \<or> c = ''iscsiadm'' \<and> (a = [''-m'', ''session''] \<or> a = [''-m'', ''session'', ''-P'', ''3''] \<or> (\<exists>q p. a = node_args q p))
     \<or> c = ''nvme'' \<and> (\<exists>as. a = ''list'' # as \<or> a = ''list-subsys'' # as)"

fun query :: "event \<Rightarrow> bool" where
  "query (EvSpawn c a) = query_command c a"
| "query (EvSleep _) = True"
| "query (EvHost k _) = (k \<noteq> ''writeFile'')"
| "query _ = False"

lemma query_commands [simp]:
  "query_command ''realpath'' a" "query_command ''lsblk'' a" "query_command ''findmnt'' a" "query_command ''ls'' a"
  "query_command ''blkid'' a" "query_command ''df'' a" "query_command ''dirname'' a" "query_command ''cat'' a"
  "query_command ''sh'' [''-c'', dm_script]" "query_command ''iscsiadm'' [''-m'', ''session'']"
  "query_command ''iscsiadm'' [''-m'', ''session'', ''-P'', ''3'']" "query_command ''iscsiadm'' (node_args q p)"
  "query_command ''nvme'' (''list'' # a)" "query_command ''nvme'' (''list-subsys'' # a)"
  by (auto simp: query_command_def)

section \<open>Filesystem\<close>

lemma adds_node_fs_exec [wp_intro]:
  "P (EvSpawn c a) \<Longrightarrow> adds P (fs_exec (getDefaultFilesystemInstance D) c a)"
  "P (EvSpawn c a) \<Longrightarrow> adds P (fs_run (getDefaultFilesystemInstance D) c a)"
  "P (EvSpawn c a) \<Longrightarrow> adds P (fs_stdout (getDefaultFilesystemInstance D) c a)"
  unfolding fs_run_def fs_stdout_def by (intro wp_intro; simp)+

lemma adds_case_js_option [wp_intro]:
  "adds P n \<Longrightarrow> (\<And>x. adds P (f x)) \<Longrightarrow> adds P (case v of None \<Rightarrow> n | Some x \<Rightarrow> f x)"
  by (rule adds_case_option)

lemma query_realpath: "adds query (realpath (getDefaultFilesystemInstance D) d)"
  and query_getAllBlockDevices: "adds query (getAllBlockDevices (getDefaultFilesystemInstance D))"
  unfolding realpath_def getAllBlockDevices_def by (auto intro!: wp_intro)

lemma query_find_device: "adds query (find_device (getDefaultFilesystemInstance D) p ds)"
  by (induction ds) (auto intro!: wp_intro query_realpath)

lemma query_isBlockDevice: "adds query (isBlockDevice (getDefaultFilesystemInstance D) d)"
  unfolding isBlockDevice_def by (auto intro!: wp_intro query_realpath query_getAllBlockDevices query_find_device)

lemma query_isDeviceMapperDevice: "adds query (isDeviceMapperDevice (getDefaultFilesystemInstance D) d)"
  unfolding isDeviceMapperDevice_def by (auto intro!: wp_intro query_realpath query_isBlockDevice)

lemma query_getBlockDevice: "adds query (getBlockDevice (getDefaultFilesystemInstance D) d)"
  unfolding getBlockDevice_def by (auto intro!: wp_intro query_realpath)

lemma query_device_mapper:
  "adds query (getAllDeviceMapperSlaveDevices (getDefaultFilesystemInstance D))"
  "adds query (getDeviceMapperDeviceSlaves (getDefaultFilesystemInstance D) d)"
  "adds query (getDeviceMapperDeviceFromSlaves (getDefaultFilesystemInstance D) slaves m)"
  unfolding getAllDeviceMapperSlaveDevices_def getDeviceMapperDeviceSlaves_def getDeviceMapperDeviceFromSlaves_def dm_lines_def
  by (auto intro!: wp_intro query_realpath query_getBlockDevice)

lemma query_host:
  "adds query (host_sleep H ms)" "adds query (host_now H)" "adds query (host_read H p)" "adds query (host_stat H p)"
  "adds query (hostname_lookup H name)"
  unfolding host_sleep_def host_now_def host_read_def host_stat_def hostname_lookup_def by (auto intro!: wp_intro)

lemma query_pathExists: "adds query (pathExists (getDefaultFilesystemInstance D) p)"
  unfolding pathExists_def statSync_def by (auto intro!: wp_intro query_host)

lemma query_dirname: "adds query (dirname (getDefaultFilesystemInstance D) p)"
  unfolding dirname_def by (auto intro!: wp_intro)

lemma query_partitions:
  "adds query (getBlockDevicePartitionCount (getDefaultFilesystemInstance D) d)"
  "adds query (getBlockDeviceLastPartition (getDefaultFilesystemInstance D) d)"
  "adds query (getBlockDeviceLargestPartition (getDefaultFilesystemInstance D) d)"
  unfolding getBlockDevicePartitionCount_def getBlockDeviceLastPartition_def getBlockDeviceLargestPartition_def
  by (auto intro!: wp_intro query_getBlockDevice)

lemma query_getDeviceFilesystemInfo: "adds query (getDeviceFilesystemInfo (getDefaultFilesystemInstance D) d)"
  unfolding getDeviceFilesystemInfo_def by (auto intro!: wp_intro)

lemma query_deviceIsFormatted: "adds query (deviceIsFormatted (getDefaultFilesystemInstance D) d)"
  unfolding deviceIsFormatted_def Let_def by (auto intro!: wp_intro query_getBlockDevice query_getDeviceFilesystemInfo)

lemma query_getInodeInfo: "adds query (getInodeInfo (getDefaultFilesystemInstance D) p)"
  unfolding getInodeInfo_def Let_def by (auto intro!: wp_intro)

lemma parent_walk_adds:
  "parent_walk F d w = Some y \<Longrightarrow> (\<And>d. adds P (getBlockDevice F d))
   \<Longrightarrow> \<exists>es. hist (snd y) = hist w @ es \<and> list_all P es"
proof (induction rule: parent_walk.raw_induct [rotated 1, consumes 1])
  case (1 walk F d w y)
  obtain r1 w1 where g: "getBlockDevice F d w = (r1, w1)" by force
  with "1.prems" have h: "\<exists>es. hist w1 = hist w @ es \<and> list_all P es" by (metis addsD snd_conv)
  show ?case
  proof (cases "\<exists>info p. r1 = Inr info \<and> getp info ''pkname'' = Inr p \<and> truthy p")
    case True
    then obtain info p where p: "r1 = Inr info" "getp info ''pkname'' = Inr p" "truthy p" by blast
    with g "1.hyps" have w: "walk F (''/dev/'' @ to_str p) w1 = Some y" by simp
    from adds_append [OF h "1.IH" [OF w "1.prems"]] show ?thesis .
  next
    case False
    with "1.hyps" have "snd y = w1" unfolding g by (auto split: sum.splits if_splits)
    with h show ?thesis by simp
  qed
qed

lemma padds_parent_walk: "(\<And>d. adds P (getBlockDevice F d)) \<Longrightarrow> padds P (parent_walk F d)"
  using parent_walk_adds by (fastforce simp: padds_def)

lemma query_parents:
  "padds query (parent_walk (getDefaultFilesystemInstance D) d)"
  "padds query (getBlockDeviceParent (getDefaultFilesystemInstance D) d)"
  "padds query (root_transport tran (getDefaultFilesystemInstance D) d)"
proof -
  show p: "padds query (parent_walk (getDefaultFilesystemInstance D) d)"
    by (intro padds_parent_walk query_getBlockDevice)
  then show "padds query (getBlockDeviceParent (getDefaultFilesystemInstance D) d)"
    by (simp add: padds_def getBlockDeviceParent_def)
  from p show "padds query (root_transport tran (getDefaultFilesystemInstance D) d)"
    by (auto simp: padds_def root_transport_def)
qed

section \<open>Mount points\<close>

lemma adds_node_mount_exec [wp_intro]:
  "P (EvSpawn c a) \<Longrightarrow> adds P (mount_exec (getDefaultMountInstance D) c a)"
  by (intro wp_intro) simp

lemma query_findmnt:
  "adds query (findmnt (getDefaultMountInstance D) a)" "adds query (findmnt_or none (getDefaultMountInstance D) a f)"
  unfolding findmnt_def findmnt_or_def by (auto intro!: wp_intro)

lemma query_mounts:
  "adds query (pathIsMounted (getDefaultMountInstance D) p)"
  "adds query (deviceIsMountedAtPath (getDefaultMountInstance D) d p)"
  "adds query (deviceIsMounted (getDefaultMountInstance D) d)"
  "adds query (getMountDetails (getDefaultMountInstance D) p xs ys)"
  unfolding pathIsMounted_def deviceIsMountedAtPath_def getMountDetails_def deviceIsMounted_def resolve_device_def
  by (auto intro!: wp_intro query_findmnt query_realpath)

lemma query_mount_points:
  "adds query (getMountPointDevice (getDefaultMountInstance D) p)"
  "adds query (isBindMountedBlockDevice (getDefaultMountInstance D) p)"
  unfolding getMountPointDevice_def isBindMountedBlockDevice_def
  by (auto intro!: wp_intro query_mounts query_isBlockDevice)

section \<open>iscsiadm\<close>

lemma query_iscsi:
  "adds query (getSessions (getDefaultISCSIInstance D))"
  "adds query (getSessionsDetails (getDefaultISCSIInstance D))"
  "adds query (nodeDBEntryExists (getDefaultISCSIInstance D) q p)"
  by (auto intro!: wp_intro)

lemma query_getSession: "adds query (getSession (getDefaultISCSIInstance D) q p)"
  unfolding getSession_def lookup_portal_host_def by (auto intro!: wp_intro query_iscsi query_host)

lemma query_devicePath: "adds query (devicePathByPortalIQNLUN (getDefaultISCSIInstance D) p q l b)"
  unfolding devicePathByPortalIQNLUN_def Let_def by (auto intro!: wp_intro query_host)

section \<open>nvme\<close>

lemma adds_nv_exec [wp_intro]:
  "P (EvSpawn c a) \<Longrightarrow> adds P (nv_exec (getDefaultNVMEoFInstance D) c a)"
  unfolding nv_exec_def settle_closed_def host_spawn_def by (auto intro!: wp_intro split: spawn_out.splits option.splits)

lemma adds_nvme [wp_intro]:
  "P (EvSpawn ''nvme'' a) \<Longrightarrow> adds P (nvme (getDefaultNVMEoFInstance D) a)"
  "P (EvSpawn ''nvme'' a) \<Longrightarrow> adds P (nvme_run (getDefaultNVMEoFInstance D) a)"
  unfolding nvme_def nvme_run_def by (auto intro!: wp_intro)

lemma query_nvme_lists:
  "adds query (getSubsystems (getDefaultNVMEoFInstance D))"
  "adds query (getSubsystemByNQN (getDefaultNVMEoFInstance D) q)"
  "adds query (nativeMultipathEnabled (getDefaultNVMEoFInstance D))"
  "adds query (parseTransport (getDefaultNVMEoFInstance D) t)"
  unfolding getSubsystems_def getSubsystemByNQN_def nativeMultipathEnabled_def nvme_list_def parseTransport_def
    transport_address_def lookup_address_def Let_def
  by (auto intro!: wp_intro query_host split: js.splits)

lemma query_nvme_paths:
  "adds query (getSubsystemPathByNQNTransport (getDefaultNVMEoFInstance D) q t)"
  "adds query (getControllerByTransportNQN (getDefaultNVMEoFInstance D) t q)"
  unfolding getSubsystemPathByNQNTransport_def getControllerByTransportNQN_def listSubsys_def
  by (auto intro!: wp_intro query_nvme_lists)

lemma query_nvme_devices:
  "adds query (getControllersByNamespaceDeviceName (getDefaultNVMEoFInstance D) n)"
  "adds query (nqnByNamespaceDeviceName (getDefaultNVMEoFInstance D) n)"
  "adds query (getSubsystemStateByNQNTransport (getDefaultNVMEoFInstance D) q t)"
  "adds query (controllerDevicePathByTransportNQN (getDefaultNVMEoFInstance D) t q)"
  "adds query (namespaceDevicePathByTransportNQNNamespace (getDefaultNVMEoFInstance D) t q ns)"
  unfolding getControllersByNamespaceDeviceName_def nqnByNamespaceDeviceName_def getSubsystemStateByNQNTransport_def
    controllerDevicePathByTransportNQN_def namespaceDevicePathByTransportNQNNamespace_def
  by (auto intro!: wp_intro query_nvme_lists query_nvme_paths)

section \<open>The queries as rules\<close>

text \<open>A program of which every query is allowed.\<close>

lemmas query_rules = query_realpath query_getAllBlockDevices query_isBlockDevice query_isDeviceMapperDevice
  query_getBlockDevice query_device_mapper query_host query_pathExists query_dirname query_partitions
  query_getDeviceFilesystemInfo query_deviceIsFormatted query_getInodeInfo query_mounts query_mount_points
  query_iscsi query_getSession query_devicePath query_nvme_lists query_nvme_devices

lemmas adds_query [wp_intro] = query_rules [THEN adds_mono]

lemma padds_mono: "padds P m \<Longrightarrow> (\<And>ev. P ev \<Longrightarrow> Q ev) \<Longrightarrow> padds Q m"
  unfolding padds_def list_all_iff by meson

lemmas padds_query [wp_intro] = query_parents [THEN padds_mono]

end
