(* ===== verification/Iscsi_Reclaim.thy ===== *)
theory Iscsi_Reclaim
  imports Node_Commands
begin

text \<open>
  The helpers of \<open>NodeUnstageVolume\<close> at the top of \<open>src/driver/index.js\<close>: the iSCSI sessions of a
  volume, their logout with a check that it had effect, and whether a device is dead. The
  dependencies of the source are the instances of the driver; messages of the log are not modelled.
\<close>

section \<open>The sessions of a volume\<close>

definition findIscsiSessionForVolumeId :: "jsobj list \<Rightarrow> string \<Rightarrow> jsobj list" where
  "findIscsiSessionForVolumeId sessions volumeId =
     (if volumeId = [] then []
      else filter (\<lambda>session. case obj_get session ''target'' of Str t \<Rightarrow> contains t volumeId | _ \<Rightarrow> False) sessions)"

definition unknown :: "msg \<Rightarrow> exn" where
  "unknown m = GrpcError UNKNOWN m"

text \<open>\<open>getSession\<close> with the portal of a report, which may be missing: parsing it throws.\<close>

definition session_at :: "'e iscsi \<Rightarrow> string \<Rightarrow> js \<Rightarrow> ('e world, bool) io" where
  "session_at I target portal =
     (case portal of
        Str p \<Rightarrow> bind (getSession I target p) (\<lambda>s. ret (s \<noteq> None))
      | _ \<Rightarrow> bind (getSessions I) (\<lambda>_. throw (type_error ''trim'')))"

text \<open>
  \<open>runVerified\<close>: the outcome of the operation does not count; the state is asked for, and once
  more after a pause. A state that cannot be asked for counts as still there.
\<close>

definition checkExists :: "('w, bool) io \<Rightarrow> ('w, bool) io" where
  "checkExists stillExists = catch stillExists (\<lambda>_. ret True)"

definition runVerified :: "'e host \<Rightarrow> msg \<Rightarrow> ('e world, unit) io \<Rightarrow> ('e world, bool) io \<Rightarrow> ('e world, unit) io" where
  "runVerified H message op stillExists =
     andthen (catch op (\<lambda>_. ret ()))
    (bind (checkExists stillExists) (\<lambda>e.
     if \<not> e then ret ()
     else andthen (host_sleep H 250)
         (bind (checkExists stillExists) (\<lambda>e. throw_when e (unknown message)))))"

definition logoutAndDeleteTarget :: "'e iscsi \<Rightarrow> string \<Rightarrow> js \<Rightarrow> ('e world, unit) io" where
  "logoutAndDeleteTarget I target portal =
     andthen
       (runVerified (is_host I)
          (''iscsi logout for '' @ target @ '' '' @ to_str portal @ '' still present; returning retryable error for the CO to retry'')
          (bind (logout I target [to_str portal]) (\<lambda>_. ret ()))
          (session_at I target portal))
       (runVerified (is_host I)
          (''iscsi node-DB delete for '' @ target @ '' '' @ to_str portal @ '' still present; returning retryable error for the CO to retry'')
          (deleteNodeDBEntry I target (to_str portal))
          (nodeDBEntryExists I target (to_str portal)))"

section \<open>Dead devices\<close>

text \<open>The state of the device, or of its parent when it has none itself.\<close>

definition state_file :: "string \<Rightarrow> string" where
  "state_file name = ''/sys/block/'' @ name @ ''/device/state''"

definition device_state_file :: "'e filesystem \<Rightarrow> string \<Rightarrow> ('e world, string) pio" where
  "device_state_file F device =
     pbind (total (realpath F device)) (\<lambda>real.
     let file = state_file (last (split_ch (CHR ''/'') real)) in
     pbind (total (pathExists F file)) (\<lambda>e.
     if e then pret file
     else pbind (getBlockDeviceParent F device) (\<lambda>parent.
       pret (if truthy parent \<and> truthy (field parent ''name'')
             then state_file (to_str (field parent ''name'')) else file))))"

definition readFileSync :: "'e host \<Rightarrow> string \<Rightarrow> ('e world, string) io" where
  "readFileSync H p = bind (host_read H p) (\<lambda>r. case r of Some s \<Rightarrow> ret s | None \<Rightarrow> throw (js_error p))"

definition scsi_state_dead :: "'e filesystem \<Rightarrow> string \<Rightarrow> ('e world, bool) pio" where
  "scsi_state_dead F device =
     pbind (device_state_file F device) (\<lambda>file.
     pbind (total (pathExists F file)) (\<lambda>e.
     if \<not> e then pret False
     else total (bind (readFileSync (fs_host F) file) (\<lambda>s. ret (trim s \<in> {''offline'', ''transport-offline''})))))"

definition stagingDeviceIsDead :: "'e mounter \<Rightarrow> string \<Rightarrow> ('e world, bool) pio" where
  "stagingDeviceIsDead M stagingPath =
     pbind (total (catch (bind (getMountPointDevice M stagingPath) (\<lambda>d. ret (Some d))) (\<lambda>_. ret None))) (\<lambda>device.
     case device of
       None \<Rightarrow> pret False
     | Some device \<Rightarrow>
         if device = [] then pret False
         else pbind (total (catch (pathExists (mo_filesystem M) device) (\<lambda>_. ret True))) (\<lambda>exists.
           if \<not> exists then pret True
           else pcatch (scsi_state_dead (mo_filesystem M) device) (\<lambda>_. pret False)))"

section \<open>Reclaiming the sessions of a volume\<close>

text \<open>The message of a spawn error ends with its code.\<close>

definition iscsiadmUnusable :: "exn \<Rightarrow> bool" where
  "iscsiadmUnusable err =
     (let unusable = (\<lambda>text. let t = to_lower text in
            contains t ''not found'' \<or> contains t ''no such file or directory'' \<or>
            contains t ''failed to find iscsid pid'')
      in case err of
        ExecReject r \<Rightarrow>
          \<not> er_timeout r \<and>
          (er_code r = Some 127 \<or> (case er_error r of Some m \<Rightarrow> ends_with m ''ENOENT'' | None \<Rightarrow> False)
           \<or> unusable (er_stderr r @ '' ''))
      | JsError n m \<Rightarrow> unusable ('' '' @ m)
      | GrpcError s m \<Rightarrow> unusable ('' '' @ m)
      | _ \<Rightarrow> False)"

text \<open>\<open>e.message || e\<close> in a text.\<close>

fun err_text :: "exn \<Rightarrow> string" where
  "err_text (JsError n m) = (if m = [] then exn_str (JsError n m) else m)"
| "err_text (GrpcError s m) = (if m = [] then exn_str (GrpcError s m) else m)"
| "err_text e = exn_str e"

text \<open>\<open>try { m } catch (e) { throw new GrpcError(UNKNOWN, ...) }\<close>\<close>

definition or_unknown :: "('w, 'a) io \<Rightarrow> msg \<Rightarrow> ('w, 'a) io" where
  "or_unknown m text = catch m (\<lambda>e. throw (unknown (text @ '': '' @ err_text e)))"

definition session_target :: "jsobj \<Rightarrow> string" where
  "session_target session = to_str (obj_get session ''target'')"

definition session_portal_js :: "jsobj \<Rightarrow> js" where
  "session_portal_js session = obj_get session ''persistent_portal''"

definition enumerate_sessions :: "'e iscsi \<Rightarrow> string \<Rightarrow> bool \<Rightarrow> ('e world, jsobj list) io" where
  "enumerate_sessions I volumeId iscsiExpected =
     catch (getSessionsDetails I)
       (\<lambda>e. if \<not> iscsiExpected \<and> iscsiadmUnusable e then ret []
            else throw (unknown (''failed to enumerate iscsi sessions for volume '' @ volumeId @ '': '' @ err_text e)))"

definition session_text :: "jsobj \<Rightarrow> string" where
  "session_text session = session_target session @ '' '' @ to_str (session_portal_js session)"

definition refusing :: "string \<Rightarrow> string \<Rightarrow> exn" where
  "refusing volumeId reason = unknown (''refusing NodeUnstageVolume success for '' @ volumeId @ '': '' @ reason)"

definition verify_record :: "'e iscsi \<Rightarrow> string \<Rightarrow> jsobj \<Rightarrow> ('e world, unit) io" where
  "verify_record I volumeId session =
     bind (or_unknown (nodeDBEntryExists I (session_target session) (to_str (session_portal_js session)))
             (''failed to verify iscsi node-DB entry for volume '' @ volumeId @ '' ('' @ session_text session @ '')'')) (\<lambda>e.
     throw_when e (refusing volumeId (''node-DB entry '' @ session_text session @ '' still present after delete attempt'')))"

text \<open>The result tells whether sessions were reclaimed, and which.\<close>

definition reclaimDeadIscsiSession :: "'e iscsi \<Rightarrow> string \<Rightarrow> bool \<Rightarrow> ('e world, bool \<times> jsobj list) io" where
  "reclaimDeadIscsiSession I volumeId iscsiExpected =
     bind (enumerate_sessions I volumeId iscsiExpected) (\<lambda>sessions.
     let matches = findIscsiSessionForVolumeId sessions volumeId in
     if matches = [] then ret (False, [])
     else andthen (for_each matches (\<lambda>s. logoutAndDeleteTarget I (session_target s) (session_portal_js s)))
      (bind (or_unknown (getSessionsDetails I) (''failed to re-enumerate iscsi sessions for volume '' @ volumeId)) (\<lambda>after.
       andthen (throw_when (findIscsiSessionForVolumeId after volumeId \<noteq> [])
                  (refusing volumeId (show_nat (length (findIscsiSessionForVolumeId after volumeId))
                     @ '' iscsi session(s) still logged in after logout attempt'')))
      (andthen (for_each matches (verify_record I volumeId))
         (ret (True, matches))))))"

definition disconnectNvmeByNQN :: "'e nvmeof \<Rightarrow> string \<Rightarrow> ('e world, unit) io" where
  "disconnectNvmeByNQN N nqn =
     andthen (disconnectByNQN N nqn)
    (bind (getSubsystemByNQN N nqn) (\<lambda>s.
     throw_when (s \<noteq> None) (unknown (''nvme subsystem '' @ nqn @ '' still connected after disconnect''))))"

text \<open>For evaluation: a program is only unfolded when it is run.\<close>

lemmas iscsi_reclaim_run [code] =
  session_at_def [THEN fun_cong] checkExists_def [THEN fun_cong] runVerified_def [THEN fun_cong]
  logoutAndDeleteTarget_def [THEN fun_cong] device_state_file_def [THEN fun_cong]
  readFileSync_def [THEN fun_cong] scsi_state_dead_def [THEN fun_cong] stagingDeviceIsDead_def [THEN fun_cong]
  or_unknown_def [THEN fun_cong] enumerate_sessions_def [THEN fun_cong] verify_record_def [THEN fun_cong]
  reclaimDeadIscsiSession_def [THEN fun_cong] disconnectNvmeByNQN_def [THEN fun_cong]

section \<open>What was verified\<close>

lemma checkExists_False: "checkExists m w = (Inr False, w') \<Longrightarrow> m w = (Inr False, w')"
  by (auto simp: checkExists_def catch_def ret_def split: prod.splits sum.splits if_splits)

text \<open>A verified operation ends with a check that answered that nothing is left.\<close>

lemma runVerified_Inr:
  assumes "runVerified H msg op check w = (Inr (), w')"
  shows "\<exists>w1. check w1 = (Inr False, w')"
  using assms unfolding runVerified_def
  by (auto simp: run_Inr dest!: checkExists_False split: if_splits)

lemma logoutAndDeleteTarget_Inr:
  assumes "logoutAndDeleteTarget I target portal w = (Inr (), w')"
  shows "\<exists>w1 w2 w3. session_at I target portal w1 = (Inr False, w2)
    \<and> nodeDBEntryExists I target (to_str portal) w3 = (Inr False, w')"
  using assms unfolding logoutAndDeleteTarget_def
  by (auto simp: run_Inr dest!: runVerified_Inr)

lemma for_each_Inr:
  "for_each xs f w = (Inr (), w') \<Longrightarrow> x \<in> set xs \<Longrightarrow> \<exists>u u'. f x u = (Inr (), u')"
  by (induction xs arbitrary: w) (auto simp: run_Inr)

lemma verify_record_Inr:
  "verify_record I v s w = (Inr (), w') \<Longrightarrow>
     nodeDBEntryExists I (session_target s) (to_str (session_portal_js s)) w = (Inr False, w')"
  by (auto simp: verify_record_def or_unknown_def catch_def run_Inr throw_def split: prod.splits sum.splits if_splits)

lemma or_unknown_Inr: "or_unknown m t w = (Inr x, w') \<Longrightarrow> m w = (Inr x, w')"
  by (auto simp: or_unknown_def catch_def throw_def split: prod.splits sum.splits if_splits)

text \<open>
  When sessions of a volume were reclaimed, they are exactly those of the first report
  whose target contains the volume id, each of them was seen to be gone after its logout, a
  second report has no session of the volume left, and each record was seen to be gone after that.
\<close>

theorem reclaim_verified:
  assumes "reclaimDeadIscsiSession I volumeId expected w = (Inr (True, ms), w')"
  shows "\<exists>sessions w1 after w2 w3. getSessionsDetails I w = (Inr sessions, w1)
    \<and> ms = findIscsiSessionForVolumeId sessions volumeId \<and> ms \<noteq> []
    \<and> getSessionsDetails I w2 = (Inr after, w3) \<and> findIscsiSessionForVolumeId after volumeId = []
    \<and> (\<forall>s\<in>set ms. (\<exists>u u'. session_at I (session_target s) (session_portal_js s) u = (Inr False, u'))
        \<and> (\<exists>u u'. nodeDBEntryExists I (session_target s) (to_str (session_portal_js s)) u = (Inr False, u')))"
proof -
  from assms obtain sessions w1 w2 after w3 where r: "enumerate_sessions I volumeId expected w = (Inr sessions, w1)"
    "ms = findIscsiSessionForVolumeId sessions volumeId" "ms \<noteq> []"
    "for_each ms (\<lambda>s. logoutAndDeleteTarget I (session_target s) (session_portal_js s)) w1 = (Inr (), w2)"
    "getSessionsDetails I w2 = (Inr after, w3)" "findIscsiSessionForVolumeId after volumeId = []"
    "for_each ms (verify_record I volumeId) w3 = (Inr (), w')"
    unfolding reclaimDeadIscsiSession_def
    by (auto simp: run_Inr Let_def dest!: or_unknown_Inr split: if_splits)
  have "getSessionsDetails I w = (Inr sessions, w1)"
    using r(1-3) by (auto simp: enumerate_sessions_def catch_def ret_def throw_def findIscsiSessionForVolumeId_def
        split: prod.splits sum.splits if_splits)
  moreover have "\<exists>u u'. session_at I (session_target s) (session_portal_js s) u = (Inr False, u')" if "s \<in> set ms" for s
    using for_each_Inr [OF r(4) that] logoutAndDeleteTarget_Inr by blast
  moreover have "\<exists>u u'. nodeDBEntryExists I (session_target s) (to_str (session_portal_js s)) u = (Inr False, u')"
    if "s \<in> set ms" for s
    using for_each_Inr [OF r(7) that] verify_record_Inr by blast
  ultimately show ?thesis using r(2,3,5,6) by blast
qed

section \<open>The commands of a reclaim\<close>

text \<open>The logout of a target and the deletion of its record.\<close>

definition ends_target :: "string \<Rightarrow> event \<Rightarrow> bool" where
  "ends_target target ev \<longleftrightarrow>
     (\<exists>p. ev = EvSpawn ''iscsiadm'' (logout_args target p) \<or> ev = EvSpawn ''iscsiadm'' (delete_args target p))"

lemma adds_runVerified [wp_intro]:
  "adds P op \<Longrightarrow> adds P check \<Longrightarrow> (\<And>ev. query ev \<Longrightarrow> P ev) \<Longrightarrow> adds P (runVerified H msg op check)"
  unfolding runVerified_def checkExists_def by (auto intro!: wp_intro)

lemma adds_logoutAndDeleteTarget [wp_intro]:
  assumes "\<And>ev. query ev \<Longrightarrow> P ev" and "\<And>ev. ends_target target ev \<Longrightarrow> P ev"
  shows "adds P (logoutAndDeleteTarget (getDefaultISCSIInstance D) target portal)"
proof -
  have "P (EvSpawn ''iscsiadm'' (logout_args target p))" "P (EvSpawn ''iscsiadm'' (delete_args target p))" "P (EvSleep 250)" for p
    using assms by (auto simp: ends_target_def)
  then show ?thesis
    unfolding logoutAndDeleteTarget_def session_at_def by (auto intro!: wp_intro intro: assms(1) split: js.splits)
qed

definition of_volume :: "string \<Rightarrow> event \<Rightarrow> bool" where
  "of_volume volumeId ev \<longleftrightarrow> (\<exists>target. contains target volumeId \<and> ends_target target ev)"

lemma found_target:
  "s \<in> set (findIscsiSessionForVolumeId sessions v) \<Longrightarrow> v \<noteq> [] \<and> contains (session_target s) v"
  by (auto simp: findIscsiSessionForVolumeId_def session_target_def split: if_splits js.splits)

lemma adds_reclaim [wp_intro]:
  assumes "\<And>ev. query ev \<Longrightarrow> P ev" and "\<And>ev. of_volume volumeId ev \<Longrightarrow> P ev"
  shows "adds P (reclaimDeadIscsiSession (getDefaultISCSIInstance D) volumeId expected)"
proof -
  have "P ev" if "s \<in> set (findIscsiSessionForVolumeId sessions volumeId)" "ends_target (session_target s) ev" for s sessions ev
    using found_target [OF that(1)] that(2) assms(2) unfolding of_volume_def by blast
  then show ?thesis
    unfolding reclaimDeadIscsiSession_def enumerate_sessions_def or_unknown_def verify_record_def Let_def
    by (auto intro!: wp_intro intro: assms(1))
qed

lemma padds_stagingDeviceIsDead [wp_intro]:
  "(\<And>ev. query ev \<Longrightarrow> P ev) \<Longrightarrow> padds P (stagingDeviceIsDead (getDefaultMountInstance D) p)"
  unfolding stagingDeviceIsDead_def scsi_state_dead_def device_state_file_def readFileSync_def Let_def
  by (auto intro!: wp_intro)

section \<open>A reclaim\<close>

text \<open>A host with one session and its record; the external state counts what is gone of them.\<close>

definition volume_report :: string where
  "volume_report = join [CHR 10] [''iSCSI Transport Class version 2.0'', ''version 2.1'',
     ''Target: iqn.vol-1 (non-flash)'', ''Current Portal: 10.0.0.1:3260,1'', ''Persistent Portal: 10.0.0.1:3260,1'']"

definition one_session_host :: "nat host" where
  "one_session_host = \<lparr>ho_spawn = (\<lambda>c a opts n.
       if a = logout_args ''iqn.vol-1'' ''10.0.0.1:3260,1'' then (Closed (Some 0) [] [] False, 1)
       else if a = delete_args ''iqn.vol-1'' ''10.0.0.1:3260,1'' then (Closed (Some 0) [] [] False, 2)
       else if a = [''-m'', ''session'', ''-P'', ''3''] then (if n = 0 then Closed (Some 0) volume_report [] False else Closed (Some 21) [] [] False, n)
       else if a = [''-m'', ''session''] then (if n = 0 then Closed (Some 0) ''tcp: [1] 10.0.0.1:3260,1 iqn.vol-1 (non-flash)'' [] False
         else Closed (Some 21) [] [] False, n)
       else (if n < 2 then Closed (Some 0) ''record'' [] False else Closed (Some 21) [] [] False, n)),
     ho_env = (\<lambda>_. None), ho_lookup = (\<lambda>s n. (Inr (Str s), n)), ho_stat = (\<lambda>p n. (None, n)),
     ho_read = (\<lambda>p n. (None, n)), ho_write = (\<lambda>p s n. n), ho_now = (\<lambda>n. (0, n)), ho_sleep = (\<lambda>t n. n)\<rparr>"

lemma reclaim_verified_witness:
  "\<exists>after w2 w3. getSessionsDetails (new_iscsi [] one_session_host) w2 = (Inr after, w3)
     \<and> findIscsiSessionForVolumeId after ''vol-1'' = []"
proof -
  let ?w = "\<lparr>ext = 0, hist = []\<rparr> :: nat world"
  have "fst (reclaimDeadIscsiSession (new_iscsi [] one_session_host) ''vol-1'' True ?w)
    = Inr (True, [[(''target'', Str ''iqn.vol-1''), (''current_portal'', Str ''10.0.0.1:3260,1''),
         (''persistent_portal'', Str ''10.0.0.1:3260,1'')]])" by code_simp
  from reclaim_verified [OF run_fst [OF this]] show ?thesis by blast
qed

end
