(* ===== verification/Node_Unstage.thy ===== *)
theory Node_Unstage
  imports Iscsi_Reclaim
begin

text \<open>
  \<open>NodeUnstageVolume\<close> of \<open>src/driver/index.js\<close> on a POSIX node: find out what is staged, unmount it
  (by force only when it hangs or its device is dead), log out of the sessions behind it,
  verify all that, and remove the staging paths.
\<close>

section \<open>Unmounting\<close>

definition forced :: "'e node_driver \<Rightarrow> string \<Rightarrow> ('e world, unit) io" where
  "forced D path =
     bind (umount (getDefaultMountInstance D) path [''--force'', ''--lazy'']) (\<lambda>_. ret ())"

definition busy_retry :: retry_options where
  "busy_retry = no_retry_options
     \<lparr>ro_minExecutionTime := 1000,
      ro_retryCondition := Some (\<lambda>err. case err_stderr err of Some e \<Rightarrow> contains e ''busy'' | None \<Rightarrow> False)\<rparr>"

definition node_retry :: "'e node_driver \<Rightarrow> int \<Rightarrow> int \<Rightarrow> ('e world, 'a) io \<Rightarrow> retry_options \<Rightarrow> ('e world, 'a) io" where
  "node_retry D n ms code opts = retry (host_sleep (nd_host D)) (host_now (nd_host D)) n ms code opts"

text \<open>Whether a path is mounted; a query that hangs counts as a stale mount, which is unmounted.\<close>

definition mounted_or_stale :: "'e node_driver \<Rightarrow> string \<Rightarrow> string \<Rightarrow> ('e world, bool) io" where
  "mounted_or_stale D path stale =
     catch (pathIsMounted (getDefaultMountInstance D) path)
       (\<lambda>err. if err_timeout err then andthen (forced D stale) (ret False) else throw err)"

record staged =
  sg_path :: string
  sg_access_block :: bool
  sg_info :: "js option"

text \<open>What is staged: a bind-mounted block device, or a mount and the block device behind it.\<close>

definition find_staged :: "'e node_driver \<Rightarrow> string \<Rightarrow> ('e world, staged) io" where
  "find_staged D staging =
     (let mount = getDefaultMountInstance D; filesystem = getDefaultFilesystemInstance D;
          block_path = staging @ ''/block_device'' in
      bind (mounted_or_stale D block_path staging) (\<lambda>b.
      if b then bind (getBlockDevice filesystem block_path) (\<lambda>info.
             ret \<lparr>sg_path = block_path, sg_access_block = True, sg_info = Some info\<rparr>)
      else bind (pathIsMounted mount staging) (\<lambda>m.
        if \<not> m then ret \<lparr>sg_path = staging, sg_access_block = False, sg_info = None\<rparr>
        else bind (getMountPointDevice mount staging) (\<lambda>device.
             bind (isBlockDevice filesystem device) (\<lambda>ib.
             if ib then bind (getBlockDevice filesystem device) (\<lambda>info.
                    ret \<lparr>sg_path = staging, sg_access_block = False, sg_info = Some info\<rparr>)
             else ret \<lparr>sg_path = staging, sg_access_block = False, sg_info = None\<rparr>)))))"

text \<open>A failed unmount is only forced when the device is dead; otherwise it is thrown again.\<close>

definition handleUmountFailure :: "'e node_driver \<Rightarrow> string \<Rightarrow> exn \<Rightarrow> ('e world, unit) pio" where
  "handleUmountFailure D path umount_err =
     pbind (stagingDeviceIsDead (getDefaultMountInstance D) path) (\<lambda>dead.
     if \<not> dead then pthrow umount_err
     else total (catch (forced D path) (\<lambda>_. ret ())))"

text \<open>The result tells whether the device was confirmed dead.\<close>

definition unmount_failed :: "'e node_driver \<Rightarrow> string \<Rightarrow> exn \<Rightarrow> ('e world, bool) pio" where
  "unmount_failed D path err =
     (let dead = pbind (handleUmountFailure D path err) (\<lambda>_. pret True) in
      if err_timeout err then
        pbind (total (getMountDetails (getDefaultMountInstance D) path [] [])) (\<lambda>details.
        pbind (total (lift (getp details ''fstype''))) (\<lambda>fstype.
        if fstype \<in> {Str ''nfs'', Str ''nfs4''} then total (andthen (forced D path) (ret False))
        else dead))
      else dead)"

definition unmount_staged :: "'e node_driver \<Rightarrow> string \<Rightarrow> ('e world, bool) pio" where
  "unmount_staged D path =
     pbind (total (pathIsMounted (getDefaultMountInstance D) path)) (\<lambda>m.
     if \<not> m then pret False
     else pcatch
       (total (bind (node_retry D 3 0 (umount (getDefaultMountInstance D) path []) busy_retry) (\<lambda>_. ret False)))
       (unmount_failed D path))"

section \<open>The sessions of the device\<close>

text \<open>\<open>is_attached_to_session\<close>: a device of the report has the name of the disk.\<close>

definition attached_to :: "js \<Rightarrow> jsobj \<Rightarrow> exn + bool" where
  "attached_to disk session =
     (let devices = sessionDevices session in
      if \<not> truthy devices then Inr False
      else ebind (iterate devices) (eany (\<lambda>d. ebind (getp d ''attached_scsi_disk'') (\<lambda>x. Inr (loose_eq x disk)))))"

definition logout_attached ::
  "'e node_driver \<Rightarrow> js \<Rightarrow> (string \<times> js) list \<Rightarrow> jsobj \<Rightarrow> ('e world, (string \<times> js) list) io" where
  "logout_attached D disk targets session =
     bind (lift (attached_to disk session)) (\<lambda>b.
     if \<not> b then ret targets
     else andthen (logoutAndDeleteTarget (getDefaultISCSIInstance D) (session_target session) (session_portal_js session))
            (ret (targets @ [(session_target session, session_portal_js session)])))"

definition reclaim_iscsi_device ::
  "'e node_driver \<Rightarrow> string \<Rightarrow> (string \<times> js) list \<Rightarrow> ('e world, (string \<times> js) list) pio" where
  "reclaim_iscsi_device D path targets =
     (let filesystem = getDefaultFilesystemInstance D in
      pbind (deviceIsIscsi filesystem path) (\<lambda>b.
      if \<not> b then pret targets
      else pbind (getBlockDeviceParent filesystem path) (\<lambda>parent.
           total (bind (getSessionsDetails (getDefaultISCSIInstance D)) (\<lambda>sessions.
             fold_io (logout_attached D (field parent ''name'')) targets sessions)))))"

text \<open>The result tells whether the loop over the devices ends.\<close>

definition reclaim_nvme_device :: "'e node_driver \<Rightarrow> js \<Rightarrow> ('e world, bool) pio" where
  "reclaim_nvme_device D info =
     pbind (deviceIsNVMEoF (getDefaultFilesystemInstance D) (to_str (field info ''path''))) (\<lambda>b.
     if \<not> b then pret False
     else total (bind (lift (as_string (field info ''name''))) (\<lambda>name.
       bind (nqnByNamespaceDeviceName (getDefaultNVMEoFInstance D) name) (\<lambda>nqn.
       if \<not> truthy nqn then ret False
       else andthen (disconnectNvmeByNQN (getDefaultNVMEoFInstance D) (to_str nqn)) (ret True)))))"

definition reclaim_device ::
  "'e node_driver \<Rightarrow> bool \<times> (string \<times> js) list \<Rightarrow> js \<Rightarrow> ('e world, bool \<times> (string \<times> js) list) pio" where
  "reclaim_device D = (\<lambda>(break, targets) info.
     if break then pret (break, targets)
     else let tran = field info ''tran'' in
       if tran = Str ''iscsi'' then
         pbind (reclaim_iscsi_device D (to_str (field info ''path'')) targets) (\<lambda>targets. pret (False, targets))
       else if tran = Str ''nvme'' then pbind (reclaim_nvme_device D info) (\<lambda>break. pret (break, targets))
       else pret (False, targets))"

definition real_devices :: "'e node_driver \<Rightarrow> js \<Rightarrow> ('e world, js list) io" where
  "real_devices D info =
     (let filesystem = getDefaultFilesystemInstance D in
      bind (lift (as_string (field info ''path''))) (\<lambda>path.
      bind (isDeviceMapperDevice filesystem path) (\<lambda>dm.
      if \<not> dm then ret [info]
      else bind (getDeviceMapperDeviceSlaves filesystem path) (\<lambda>slaves.
        fold_io (\<lambda>infos slave. bind (getBlockDevice filesystem slave) (\<lambda>i. ret (infos @ [i]))) [] slaves))))"

definition reclaim_by_device :: "'e node_driver \<Rightarrow> js \<Rightarrow> ('e world, (string \<times> js) list) pio" where
  "reclaim_by_device D info =
     pbind (total (real_devices D info)) (\<lambda>infos.
     pbind (pfold_io (reclaim_device D) (False, []) infos) (\<lambda>(break, targets). pret targets))"

section \<open>Verification and clean-up\<close>

definition still_there :: "'e node_driver \<Rightarrow> string \<Rightarrow> string \<times> js \<Rightarrow> ('e world, unit) io" where
  "still_there D volumeId = (\<lambda>(target, portal).
     bind (session_at (getDefaultISCSIInstance D) target portal) (\<lambda>e.
     throw_when e (refusing volumeId
       (''iscsi session '' @ target @ '' '' @ to_str portal @ '' still present after fallback logout''))))"

definition still_mounted :: "'e node_driver \<Rightarrow> string \<Rightarrow> string \<Rightarrow> ('e world, unit) io" where
  "still_mounted D volumeId path =
     bind (pathIsMounted (getDefaultMountInstance D) path) (\<lambda>m.
     throw_when m (refusing volumeId (''staging path still mounted: '' @ path)))"

definition remove_staging :: "'e node_driver \<Rightarrow> bool \<Rightarrow> string \<Rightarrow> ('e world, unit) io" where
  "remove_staging D is_access_block staging =
     (let filesystem = getDefaultFilesystemInstance D; block_path = staging @ ''/block_device'' in
      andthen
        (do_when is_access_block
          (bind (pathExists filesystem block_path) (\<lambda>e.
           do_when e (node_retry D 3 0 (rm filesystem [block_path]) busy_retry))))
        (bind (pathExists filesystem staging) (\<lambda>e.
         do_when e (bind (node_retry D 3 0 (rmdir filesystem staging []) busy_retry) (\<lambda>_. ret ())))))"

section \<open>NodeUnstageVolume\<close>

text \<open>Evidence that iSCSI is involved: a dead device, or one that is attached over iSCSI.\<close>

definition iscsi_expected :: "bool \<Rightarrow> staged \<Rightarrow> bool" where
  "iscsi_expected dead s \<longleftrightarrow>
     dead \<or> (case sg_info s of Some info \<Rightarrow> truthy info \<and> loose_eq (field info ''tran'') (Str ''iscsi'') | None \<Rightarrow> False)"

definition reclaim_staged :: "'e node_driver \<Rightarrow> string \<Rightarrow> bool \<Rightarrow> staged \<Rightarrow> ('e world, unit) pio" where
  "reclaim_staged D volume_id dead s =
     pbind (total (reclaimDeadIscsiSession (getDefaultISCSIInstance D) volume_id (iscsi_expected dead s)))
       (\<lambda>(reclaimed, sessions).
     pbind (case sg_info s of
              Some info \<Rightarrow> if \<not> reclaimed \<and> \<not> dead then reclaim_by_device D info else pret []
            | None \<Rightarrow> pret []) (\<lambda>targets.
     total (for_each targets (still_there D volume_id))))"

definition unstage_posix :: "'e node_driver \<Rightarrow> string \<Rightarrow> string \<Rightarrow> ('e world, unit) pio" where
  "unstage_posix D volume_id staging =
     pbind (total (find_staged D staging)) (\<lambda>s.
     pbind (unmount_staged D (sg_path s)) (\<lambda>dead.
     pbind (reclaim_staged D volume_id dead s) (\<lambda>_.
     total (andthen (still_mounted D volume_id (sg_path s)) (remove_staging D (sg_access_block s) staging)))))"

definition NodeUnstageVolume :: "'e node_driver \<Rightarrow> jsobj \<Rightarrow> ('e world, jsobj) pio" where
  "NodeUnstageVolume D req =
     pbind (total (missing req ''volume_id'')) (\<lambda>_.
     pbind (total (missing req ''staging_target_path'')) (\<lambda>_.
     on_posix D
       (pbind (unstage_posix D (to_str (obj_get req ''volume_id'')) (to_str (obj_get req ''staging_target_path'')))
          (\<lambda>_. pret []))))"

text \<open>For evaluation: a program is only unfolded when it is run.\<close>

lemmas node_unstage_run [code] =
  forced_def [THEN fun_cong] node_retry_def [THEN fun_cong] mounted_or_stale_def [THEN fun_cong]
  find_staged_def [THEN fun_cong] handleUmountFailure_def [THEN fun_cong] unmount_failed_def [THEN fun_cong]
  unmount_staged_def [THEN fun_cong] logout_attached_def [THEN fun_cong]
  reclaim_iscsi_device_def [THEN fun_cong] reclaim_nvme_device_def [THEN fun_cong]
  real_devices_def [THEN fun_cong] reclaim_by_device_def [THEN fun_cong] still_mounted_def [THEN fun_cong]
  remove_staging_def [THEN fun_cong] reclaim_staged_def [THEN fun_cong] unstage_posix_def [THEN fun_cong]
  NodeUnstageVolume_def [THEN fun_cong]

end
