(* ===== verification/Unstage_Safety.thy ===== *)
theory Unstage_Safety
  imports Node_Unstage
begin

text \<open>
  What \<open>NodeUnstageVolume\<close> guarantees: what it verified when it succeeds, when it unmounts by
  force, which commands it runs at all, and that it returns.
\<close>

section \<open>Success\<close>

definition removes :: "string \<Rightarrow> event \<Rightarrow> bool" where
  "removes staging ev \<longleftrightarrow>
     ev = EvSpawn ''rm'' [staging @ ''/block_device''] \<or> ev = EvSpawn ''rmdir'' [staging]"

lemma adds_remove_staging [wp_intro]:
  "(\<And>ev. query ev \<Longrightarrow> P ev) \<Longrightarrow> (\<And>ev. removes staging ev \<Longrightarrow> P ev) \<Longrightarrow> adds P (remove_staging D b staging)"
  unfolding remove_staging_def node_retry_def rm_def rmdir_def Let_def
  by (auto intro!: wp_intro simp: removes_def)

lemma on_posix_Inr: "on_posix D m w = Some (Inr x, w') \<Longrightarrow> m w = Some (Inr x, w') \<and> getNodeOsDriver D = POSIX"
  by (auto simp: on_posix_def total_Some throw_Inr split: node_os.splits)

lemma find_staged_path:
  assumes "find_staged D staging w = (Inr s, w')"
  shows "sg_path s \<in> {staging, staging @ ''/block_device''}"
  using assms unfolding find_staged_def Let_def by (auto simp: run_Inr split: if_splits)

text \<open>
  C18: a NodeUnstageVolume that succeeds has asked once more whether the staging path (or the
  block device below it) is mounted and got the answer that it is not; after that it has only
  removed the staging paths.
\<close>

theorem unstage_unmounted:
  assumes "NodeUnstageVolume D req w = Some (Inr r, w')"
  shows "\<exists>staging path w1 w2 es. truthy (obj_get req ''staging_target_path'')
    \<and> staging = to_str (obj_get req ''staging_target_path'') \<and> path \<in> {staging, staging @ ''/block_device''}
    \<and> pathIsMounted (getDefaultMountInstance D) path w1 = (Inr False, w2)
    \<and> hist w' = hist w2 @ es \<and> list_all (\<lambda>ev. query ev \<or> removes staging ev) es"
proof -
  let ?staging = "to_str (obj_get req ''staging_target_path'')" and ?v = "to_str (obj_get req ''volume_id'')"
  from assms obtain w0 where t: "truthy (obj_get req ''staging_target_path'')"
    "unstage_posix D ?v ?staging w0 = Some (Inr (), w')"
    unfolding NodeUnstageVolume_def missing_def
    by (auto simp: pbind_Inr total_Some run_Inr dest!: on_posix_Inr)
  from t(2) obtain s u0 u1 u2 u3 where u: "find_staged D ?staging u0 = (Inr s, u1)"
    "still_mounted D ?v (sg_path s) u2 = (Inr (), u3)"
    "remove_staging D (sg_access_block s) ?staging u3 = (Inr (), w')"
    unfolding unstage_posix_def by (auto simp: pbind_Inr total_Some run_Inr)
  from u(2) have m: "pathIsMounted (getDefaultMountInstance D) (sg_path s) u2 = (Inr False, u3)"
    unfolding still_mounted_def by (auto simp: run_Inr)
  have "adds (\<lambda>ev. query ev \<or> removes ?staging ev) (remove_staging D (sg_access_block s) ?staging)"
    by (intro wp_intro) simp_all
  from addsD [OF this, of u3] u(3) m t(1) find_staged_path [OF u(1)] show ?thesis by auto
qed

section \<open>Force\<close>

definition unforced :: "event \<Rightarrow> bool" where
  "unforced ev \<longleftrightarrow> (\<forall>path. ev \<noteq> EvSpawn ''umount'' [''--force'', ''--lazy'', path])"

lemma query_unforced: "query ev \<Longrightarrow> unforced ev"
  by (auto simp: unforced_def query_command_def)

lemma adds_umount [wp_intro]:
  "P (EvSpawn ''umount'' (opts @ [p])) \<Longrightarrow> adds P (umount (getDefaultMountInstance D) p opts)"
  unfolding umount_def by (auto intro!: wp_intro)

lemma unforced_commands [simp]:
  "c \<noteq> ''umount'' \<Longrightarrow> unforced (EvSpawn c a)" "unforced (EvSleep n)" "unforced (EvHost k x)" "unforced (EvSpawn ''umount'' [p])"
  by (auto simp: unforced_def)

lemma ends_target_unforced: "ends_target t ev \<Longrightarrow> unforced ev"
  by (auto simp: ends_target_def)

lemma of_volume_unforced: "of_volume v ev \<Longrightarrow> unforced ev"
  by (auto simp: of_volume_def ends_target_unforced)

lemma removes_unforced: "removes p ev \<Longrightarrow> unforced ev"
  by (auto simp: removes_def)

text \<open>The evidence on which a path is unmounted by force.\<close>

definition evidence_to_force :: "'e node_driver \<Rightarrow> string \<Rightarrow> bool" where
  "evidence_to_force D path \<longleftrightarrow>
     (\<exists>e. outcome (pathIsMounted (getDefaultMountInstance D) path) (Inl e) \<and> err_timeout e)
     \<or> poutcome (stagingDeviceIsDead (getDefaultMountInstance D) path) (Inr True)
     \<or> (\<exists>d. outcome (getMountDetails (getDefaultMountInstance D) path [] []) (Inr d)
          \<and> getp d ''fstype'' \<in> {Inr (Str ''nfs''), Inr (Str ''nfs4'')})"

lemma adds_find_staged_unforced:
  assumes "\<not> evidence_to_force D (staging @ ''/block_device'')"
  shows "adds unforced (find_staged D staging)"
proof -
  have "adds unforced (mounted_or_stale D (staging @ ''/block_device'') staging)"
    unfolding mounted_or_stale_def
    by (rule adds_catch_outcome) (use assms in \<open>auto simp: evidence_to_force_def intro!: wp_intro intro: query_unforced\<close>)
  then show ?thesis unfolding find_staged_def Let_def by (auto intro!: wp_intro intro: query_unforced)
qed

lemma padds_unmount_failed_unforced:
  assumes "\<not> evidence_to_force D path"
  shows "padds unforced (unmount_failed D path err)"
proof -
  have h: "padds unforced (handleUmountFailure D path err)"
    unfolding handleUmountFailure_def
    by (rule padds_bind_outcome) (use assms in \<open>auto simp: evidence_to_force_def intro!: wp_intro intro: query_unforced\<close>)
  have d: "padds unforced (pbind (handleUmountFailure D path err) (\<lambda>_. pret True))"
    by (intro wp_intro h)
  have n: "padds unforced (pbind (total (lift (getp details ''fstype''))) (\<lambda>fstype.
      if fstype \<in> {Str ''nfs'', Str ''nfs4''} then total (andthen (forced D path) (ret False))
      else pbind (handleUmountFailure D path err) (\<lambda>_. pret True)))"
    if "outcome (getMountDetails (getDefaultMountInstance D) path [] []) (Inr details)" for details
  proof (rule padds_bind_outcome)
    fix fstype
    assume "poutcome (total (lift (getp details ''fstype''))) (Inr fstype)"
    then have "getp details ''fstype'' = Inr fstype" by (simp add: outcome_def lift_def)
    with that assms have "fstype \<notin> {Str ''nfs'', Str ''nfs4''}" unfolding evidence_to_force_def by auto
    with d show "padds unforced (if fstype \<in> {Str ''nfs'', Str ''nfs4''} then total (andthen (forced D path) (ret False))
      else pbind (handleUmountFailure D path err) (\<lambda>_. pret True))" by simp
  qed (intro wp_intro)
  have "padds unforced (pbind (total (getMountDetails (getDefaultMountInstance D) path [] []))
     (\<lambda>details. pbind (total (lift (getp details ''fstype''))) (\<lambda>fstype.
      if fstype \<in> {Str ''nfs'', Str ''nfs4''} then total (andthen (forced D path) (ret False))
      else pbind (handleUmountFailure D path err) (\<lambda>_. pret True))))"
  proof (rule padds_bind_outcome)
    show "padds unforced (total (getMountDetails (getDefaultMountInstance D) path [] []))"
      by (auto intro!: wp_intro intro: query_unforced)
  qed (simp only: outcome_total n)
  with d show ?thesis unfolding unmount_failed_def Let_def by (intro padds_if)
qed

lemma padds_unmount_staged_unforced:
  "\<not> evidence_to_force D path \<Longrightarrow> padds unforced (unmount_staged D path)"
  unfolding unmount_staged_def node_retry_def
  by (auto intro!: wp_intro padds_unmount_failed_unforced intro: query_unforced)

lemma padds_reclaim_device [wp_intro]:
  assumes "\<And>ev. query ev \<Longrightarrow> P ev" and "\<And>t ev. ends_target t ev \<Longrightarrow> P ev"
    and "\<And>nqn. P (EvSpawn ''nvme'' [''disconnect'', ''--nqn'', nqn])"
  shows "padds P (reclaim_by_device D info)"
  unfolding reclaim_by_device_def real_devices_def reclaim_device_def reclaim_iscsi_device_def reclaim_nvme_device_def
    logout_attached_def disconnectNvmeByNQN_def disconnectByNQN_def deviceIsIscsi_def deviceIsNVMEoF_def Let_def
  by (auto intro!: wp_intro intro: assms split: prod.splits)

lemma padds_reclaim_staged [wp_intro]:
  assumes "\<And>ev. query ev \<Longrightarrow> P ev" and "\<And>t ev. ends_target t ev \<Longrightarrow> P ev"
    and "\<And>nqn. P (EvSpawn ''nvme'' [''disconnect'', ''--nqn'', nqn])"
  shows "padds P (reclaim_staged D v dead s)"
proof -
  have "of_volume v ev \<Longrightarrow> P ev" for ev using assms(2) by (auto simp: of_volume_def)
  then show ?thesis unfolding reclaim_staged_def still_there_def session_at_def
    by (auto intro!: wp_intro intro: assms split: prod.splits js.splits)
qed

lemma unforced_nvme: "unforced (EvSpawn ''nvme'' a)"
  by simp

lemma padds_unstage_unforced:
  assumes "\<not> evidence_to_force D staging" and "\<not> evidence_to_force D (staging @ ''/block_device'')"
  shows "padds unforced (unstage_posix D v staging)"
  unfolding unstage_posix_def
proof (rule padds_bind_outcome)
  show "padds unforced (total (find_staged D staging))"
    by (intro wp_intro adds_find_staged_unforced assms)
  fix s
  assume "poutcome (total (find_staged D staging)) (Inr s)"
  then obtain w w' where "find_staged D staging w = (Inr s, w')" by (auto simp: outcome_def)
  from find_staged_path [OF this] assms have u: "padds unforced (unmount_staged D (sg_path s))"
    by (auto intro!: padds_unmount_staged_unforced)
  show "padds unforced (pbind (unmount_staged D (sg_path s)) (\<lambda>dead.
     pbind (reclaim_staged D v dead s) (\<lambda>_.
     total (andthen (still_mounted D v (sg_path s)) (remove_staging D (sg_access_block s) staging)))))"
    unfolding still_mounted_def
    by (intro wp_intro u) (auto intro: query_unforced ends_target_unforced removes_unforced)
qed


section \<open>Scope\<close>

definition unmounts :: "string \<Rightarrow> event \<Rightarrow> bool" where
  "unmounts staging ev \<longleftrightarrow> (\<exists>path\<in>{staging, staging @ ''/block_device''}.
     ev = EvSpawn ''umount'' [path] \<or> ev = EvSpawn ''umount'' [''--force'', ''--lazy'', path])"

text \<open>Commands that end a session which the daemon reports to hold a disk.\<close>

definition ends_attached :: "'e node_driver \<Rightarrow> event \<Rightarrow> bool" where
  "ends_attached D ev \<longleftrightarrow> (\<exists>sessions s disk. outcome (getSessionsDetails (getDefaultISCSIInstance D)) (Inr sessions)
     \<and> s \<in> set sessions \<and> attached_to disk s = Inr True \<and> ends_target (session_target s) ev)"

definition unstages :: "'e node_driver \<Rightarrow> string \<Rightarrow> string \<Rightarrow> event \<Rightarrow> bool" where
  "unstages D v staging ev \<longleftrightarrow> query ev \<or> unmounts staging ev \<or> of_volume v ev \<or> ends_attached D ev
     \<or> (\<exists>nqn. ev = EvSpawn ''nvme'' [''disconnect'', ''--nqn'', nqn]) \<or> removes staging ev"

lemma unstages [intro]:
  "query ev \<Longrightarrow> unstages D v staging ev" "of_volume v ev \<Longrightarrow> unstages D v staging ev"
  "removes staging ev \<Longrightarrow> unstages D v staging ev" "ends_attached D ev \<Longrightarrow> unstages D v staging ev"
  "unstages D v staging (EvSpawn ''nvme'' [''disconnect'', ''--nqn'', nqn])"
  by (auto simp: unstages_def)

lemma adds_logout_attached:
  assumes "s \<in> set sessions" and "outcome (getSessionsDetails (getDefaultISCSIInstance D)) (Inr sessions)"
  shows "adds (unstages D v staging) (logout_attached D disk targets s)"
  unfolding logout_attached_def
proof (rule adds_bind_outcome)
  fix b
  assume "outcome (lift (attached_to disk s)) (Inr b)"
  then have a: "attached_to disk s = Inr b" by (simp add: outcome_def lift_def)
  have e: "unstages D v staging ev" if "ends_target (session_target s) ev" b for ev
  proof -
    from a that(2) have "attached_to disk s = Inr True" by simp
    with assms that(1) have "ends_attached D ev" unfolding ends_attached_def by blast
    then show ?thesis by blast
  qed
  show "adds (unstages D v staging) (if \<not> b then ret targets
     else andthen (logoutAndDeleteTarget (getDefaultISCSIInstance D) (session_target s) (session_portal_js s))
            (ret (targets @ [(session_target s, session_portal_js s)])))"
    by (auto intro!: wp_intro intro: e)
qed (intro wp_intro)

lemma padds_reclaim_iscsi: "padds (unstages D v staging) (reclaim_iscsi_device D path targets)"
proof -
  have r: "adds (unstages D v staging) (bind (getSessionsDetails (getDefaultISCSIInstance D)) (\<lambda>sessions.
      fold_io (logout_attached D disk) targets sessions))" for disk
    by (rule adds_bind_outcome) (auto intro!: wp_intro adds_logout_attached)
  then show ?thesis
    unfolding reclaim_iscsi_device_def deviceIsIscsi_def Let_def by (auto intro!: r wp_intro)
qed

lemma padds_unstage_reclaim: "padds (unstages D v staging) (reclaim_by_device D info)"
  unfolding reclaim_by_device_def real_devices_def reclaim_device_def reclaim_nvme_device_def
    disconnectNvmeByNQN_def disconnectByNQN_def deviceIsNVMEoF_def Let_def
  by (auto intro!: wp_intro padds_reclaim_iscsi split: prod.splits)


lemma padds_unstage_scope: "padds (unstages D v staging) (unstage_posix D v staging)"
  unfolding unstage_posix_def
proof (rule padds_bind_outcome)
  show "padds (unstages D v staging) (total (find_staged D staging))"
    unfolding find_staged_def mounted_or_stale_def forced_def Let_def
    by (auto intro!: wp_intro) (auto simp: unstages_def unmounts_def)
  fix s
  assume "poutcome (total (find_staged D staging)) (Inr s)"
  then obtain w w' where "find_staged D staging w = (Inr s, w')" by (auto simp: outcome_def)
  note p = find_staged_path [OF this]
  have f: "unstages D v staging (EvSpawn ''umount'' [''--force'', ''--lazy'', sg_path s])"
    "unstages D v staging (EvSpawn ''umount'' [sg_path s])"
    using p by (auto simp: unstages_def unmounts_def)
  have u: "padds (unstages D v staging) (unmount_staged D (sg_path s))"
    unfolding unmount_staged_def unmount_failed_def handleUmountFailure_def node_retry_def forced_def Let_def
    by (auto intro!: wp_intro simp: f)
  have r: "padds (unstages D v staging) (reclaim_staged D v dead s)" for dead
    unfolding reclaim_staged_def still_there_def session_at_def
    by (auto intro!: padds_unstage_reclaim wp_intro split: prod.splits js.splits)
  show "padds (unstages D v staging) (pbind (unmount_staged D (sg_path s)) (\<lambda>dead.
     pbind (reclaim_staged D v dead s) (\<lambda>_.
     total (andthen (still_mounted D v (sg_path s)) (remove_staging D (sg_access_block s) staging)))))"
    unfolding still_mounted_def by (intro wp_intro u r) auto
qed

text \<open>
  NodeUnstageVolume only reads the state of the node, unmounts the staging path or the block
  device below it, ends sessions whose target contains the volume id or that are reported to hold
  a disk, disconnects nvme subsystems, and removes the staging paths.
\<close>

theorem unstage_scope:
  assumes "NodeUnstageVolume D req w = Some (r, w')"
  shows "\<exists>es. hist w' = hist w @ es
    \<and> list_all (unstages D (to_str (obj_get req ''volume_id'')) (to_str (obj_get req ''staging_target_path''))) es"
proof -
  have "padds (unstages D (to_str (obj_get req ''volume_id'')) (to_str (obj_get req ''staging_target_path'')))
     (NodeUnstageVolume D req)"
    unfolding NodeUnstageVolume_def missing_def on_posix_def
    by (auto intro!: wp_intro padds_unstage_scope split: node_os.splits)
  from paddsD [OF this assms] show ?thesis .
qed

section \<open>Termination\<close>

text \<open>The parents of block devices form no cycle: each is lower than its child.\<close>

definition parents_descend :: "(string \<Rightarrow> nat) \<Rightarrow> 'e filesystem \<Rightarrow> bool" where
  "parents_descend rank F \<longleftrightarrow> (\<forall>d w info w' p. getBlockDevice F d w = (Inr info, w') \<and> getp info ''pkname'' = Inr p
     \<and> truthy p \<longrightarrow> rank (''/dev/'' @ to_str p) < rank d)"

lemma returns_parent:
  assumes "parents_descend rank F"
  shows "returns (getBlockDeviceParent F d)"
proof -
  have "\<exists>r w'. parent_walk F d w = Some (r, w') \<and> (\<forall>info. r = Inr info \<longrightarrow> is_root info)" for w
    by (rule parent_walk_settles [where rank = rank]) (use assms in \<open>auto simp: parents_descend_def\<close>)
  then show ?thesis unfolding returns_def getBlockDeviceParent_def by (metis option.distinct(1))
qed

lemma returns_devices:
  assumes "parents_descend rank F"
  shows "returns (deviceIsIscsi F d)" "returns (deviceIsNVMEoF F d)"
  using returns_parent [OF assms]
  by (auto simp: deviceIsIscsi_def deviceIsNVMEoF_def root_transport_def returns_def getBlockDeviceParent_def)

text \<open>
  When the parents of block devices form no cycle, NodeUnstageVolume returns: its retries and
  its loops over devices and sessions end.
\<close>

theorem unstage_returns:
  assumes "parents_descend rank (getDefaultFilesystemInstance D)"
  shows "\<exists>r w'. NodeUnstageVolume D req w = Some (r, w')"
proof -
  note p = returns_parent [OF assms] returns_devices [OF assms]
  have "returns (stagingDeviceIsDead (getDefaultMountInstance D) path)" for path
    unfolding stagingDeviceIsDead_def scsi_state_dead_def device_state_file_def Let_def
    by (auto intro!: returns_intro p)
  then have "returns (unmount_staged D path)" for path
    unfolding unmount_staged_def unmount_failed_def handleUmountFailure_def Let_def by (auto intro!: returns_intro)
  moreover have "returns (reclaim_staged D v dead s)" for v dead s
    unfolding reclaim_staged_def reclaim_by_device_def reclaim_device_def reclaim_iscsi_device_def reclaim_nvme_device_def Let_def
    by (auto intro!: returns_intro p split: prod.splits)
  ultimately have "returns (NodeUnstageVolume D req)"
    unfolding NodeUnstageVolume_def on_posix_def unstage_posix_def by (auto intro!: returns_intro split: node_os.splits)
  from returnsD [OF this] show ?thesis .
qed

section \<open>Runs\<close>

text \<open>
  A node with the disk \<open>sda\<close> and no iSCSI session. The external state counts the umounts; When
  \<open>mounted\<close> holds, a local mount exists before the first of them, and an nfs mount at \<open>/n\<close>.
\<close>

fun local_spawn :: "bool \<Rightarrow> string \<Rightarrow> string list \<Rightarrow> jsobj \<Rightarrow> nat \<Rightarrow> spawn_out \<times> nat" where
  "local_spawn mounted c a opts n =
     (if c = ''umount'' then (Closed (Some 0) [] [] False, n + 1)
      else if c = ''findmnt'' then
        (if mounted \<and> n = 0 \<and> last (take 2 a) = ''/s''
         then Closed (Some 0) (json_print (Obj [(''filesystems'', Arr [Obj [(''source'', Str ''/dev/sda''),
                (''fstype'', Str ''ext4''), (''size'', Num (IntN 1024))]])])) [] False
         else if mounted \<and> last (take 2 a) = ''/n''
         then Closed (Some 0) (json_print (Obj [(''filesystems'', Arr [Obj [(''source'', Str ''srv:/v''),
                (''fstype'', Str ''nfs4''), (''size'', Num (IntN 2048))]])])) [] False
         else Closed (Some 1) [] [] False, n)
      else if c = ''lsblk'' then
        (Closed (Some 0) (json_print (Obj [(''blockdevices'', Arr [Obj [(''name'', Str ''sda''), (''path'', Str ''/dev/sda''),
           (''pkname'', Null), (''tran'', Str ''sata''), (''fstype'', Str ''ext4'')]])])) [] False, n)
      else if c = ''blkid'' then (Closed (Some 0) ''TYPE=ext4'' [] False, n)
      else if c = ''iscsiadm'' then (Closed (Some 21) [] [] False, n)
      else (Closed (Some 0) (concat a) [] False, n))"

definition local_host :: "bool \<Rightarrow> nat host" where
  "local_host mounted = \<lparr>ho_spawn = local_spawn mounted,
     ho_env = (\<lambda>_. None), ho_lookup = (\<lambda>s n. (Inr (Str s), n)), ho_stat = (\<lambda>p n. (None, n)),
     ho_read = (\<lambda>p n. (None, n)), ho_write = (\<lambda>p s n. n), ho_now = (\<lambda>n. (0, n)), ho_sleep = (\<lambda>t n. n)\<rparr>"

declare local_spawn.simps [simp del]

definition unstage_request :: jsobj where
  "unstage_request = [(''volume_id'', Str ''vol-1''), (''staging_target_path'', Str ''/s'')]"

definition at_start :: "nat world" where
  "at_start = \<lparr>ext = 0, hist = []\<rparr>"

lemma sample_fields:
  "to_str (obj_get unstage_request ''volume_id'') = ''vol-1''"
  "to_str (obj_get unstage_request ''staging_target_path'') = ''/s''"
  "truthy (obj_get unstage_request ''volume_id'')" "truthy (obj_get unstage_request ''staging_target_path'')"
  by code_simp+

lemma sample_run:
  assumes "map_option fst (unstage_posix (sample_node H) ''vol-1'' ''/s'' w) = Some (Inr ())"
  shows "\<exists>w'. NodeUnstageVolume (sample_node H) unstage_request w = Some (Inr [], w')"
  using assms
  by (auto simp: NodeUnstageVolume_def missing_def throw_when_def on_posix_def getNodeOsDriver_def getNodeIsWindows_def
      sample_fields sample_node_def pbind_def total_def ret_def)

lemma local_run:
  "\<exists>w'. NodeUnstageVolume (sample_node (local_host True)) unstage_request at_start = Some (Inr [], w')"
  by (rule sample_run) code_simp

lemma unstage_unmounted_witness:
  "\<exists>path w1 w2. path \<in> {''/s'', ''/s/block_device''}
     \<and> pathIsMounted (getDefaultMountInstance (sample_node (local_host True))) path w1 = (Inr False, w2)"
proof -
  from local_run obtain w' where
    "NodeUnstageVolume (sample_node (local_host True)) unstage_request at_start = Some (Inr [], w')" ..
  from unstage_unmounted [OF this] show ?thesis by (auto simp: sample_fields)
qed

lemma unstage_scope_witness:
  "\<exists>r w'. NodeUnstageVolume (sample_node (local_host True)) unstage_request at_start = Some (r, w')
     \<and> list_all (unstages (sample_node (local_host True)) ''vol-1'' ''/s'') (hist w')"
proof -
  from local_run obtain w' where
    r: "NodeUnstageVolume (sample_node (local_host True)) unstage_request at_start = Some (Inr [], w')" ..
  from unstage_scope [OF r] r show ?thesis by (auto simp: sample_fields at_start_def)
qed

text \<open>Nothing is mounted: no query hangs, and no device of a mount is dead.\<close>

lemma nothing_mounted:
  "findmnt (getDefaultMountInstance (sample_node (local_host False))) a w =
     (Inl (ExecReject (closed_result (Some 1) [] [] False)),
      w\<lparr>hist := hist w @ [EvSpawn ''findmnt'' a]\<rparr>)"
  by (simp add: findmnt_def mount_exec_def sample_node_def local_host_def local_spawn.simps host_spawn_def perform_def bind_def
      settle_closed_def throw_def)

lemma no_evidence: "\<not> evidence_to_force (sample_node (local_host False)) path"
  unfolding evidence_to_force_def poutcome_def outcome_def stagingDeviceIsDead_def pathIsMounted_def getMountDetails_def
    getMountPointDevice_def
  by (auto simp: nothing_mounted closed_result_def bind_def catch_def total_def pbind_def ret_def)


lemma unstage_returns_witness:
  "\<exists>r w'. NodeUnstageVolume (sample_node (chain_host ''sda'')) unstage_request at_start = Some (r, w')"
proof (rule unstage_returns)
  have "nd_host (sample_node (chain_host ''sda'')) = chain_host ''sda''" by (simp add: sample_node_def)
  then show "parents_descend (\<lambda>d. if d = ''/dev/sda'' then 0 else 1)
      (getDefaultFilesystemInstance (sample_node (chain_host ''sda'')))"
    unfolding parents_descend_def getDefaultFilesystemInstance_def
    by (intro allI impI) (elim conjE, rule chain_descends, simp_all)
qed

end
