(* ===== verification/Node_Expand.thy ===== *)
theory Node_Expand
  imports Unstage_Safety
begin

text \<open>
  \<open>NodeGetVolumeStats\<close> and \<open>NodeExpandVolume\<close> of \<open>src/driver/index.js\<close> on a POSIX node: the usage of
  a mounted volume, and the rescan of its devices followed by the resize of its filesystem.
\<close>

section \<open>The path of a volume\<close>

text \<open>
  Whether the volume is a bind-mounted block device, and the path that is used from then on: the
  one below the volume path, also when the volume path itself is the bind mount.
\<close>

definition volume_access :: "'e node_driver \<Rightarrow> string \<Rightarrow> ('e world, bool \<times> string) io" where
  "volume_access D volume_path =
     (let mount = getDefaultMountInstance D; block_path = volume_path @ ''/block_device'' in
      bind (bind (isBindMountedBlockDevice mount volume_path) (\<lambda>b.
            if b then ret True else isBindMountedBlockDevice mount block_path)) (\<lambda>block.
      ret (block, if block then block_path else volume_path)))"

section \<open>NodeGetVolumeStats\<close>

definition volume_condition :: "'e node_driver \<Rightarrow> exn + jsobj" where
  "volume_condition D =
     (if \<not> nd_satisfies D ''>=1.3.0'' then Inr []
      else ebind (node_offers D ''VOLUME_CONDITION'') (\<lambda>offers.
           Inr (if offers then [(''volume_condition'', Obj [(''abnormal'', Bool False), (''message'', Str ''OK'')])] else [])))"

definition inode_usage :: "jsobj \<Rightarrow> js list" where
  "inode_usage info =
     (if js_greater (obj_get info ''inodes_total'') (Num (IntN 0))
      then [Obj [(''available'', obj_get info ''inodes_free''), (''total'', obj_get info ''inodes_total''),
                 (''used'', obj_get info ''inodes_used''), (''unit'', Str ''INODES'')]]
      else [])"

definition nothing_mounted_at :: "string \<Rightarrow> exn" where
  "nothing_mounted_at path = GrpcError NOT_FOUND (''nothing mounted at path: '' @ path)"

definition mount_usage :: "'e node_driver \<Rightarrow> string \<Rightarrow> ('e world, js list) io" where
  "mount_usage D path =
     bind (pathIsMounted (getDefaultMountInstance D) path) (\<lambda>m.
     andthen (throw_when (\<not> m) (nothing_mounted_at path))
    (bind (getMountDetails (getDefaultMountInstance D) path [''avail'', ''size'', ''used''] []) (\<lambda>details.
     bind (lift (getp details ''avail'')) (\<lambda>_.
     bind (catch (bind (getInodeInfo (getDefaultFilesystemInstance D) path) (\<lambda>info. ret (inode_usage info))) (\<lambda>_. ret [])) (\<lambda>inodes.
     ret (Obj [(''available'', field details ''avail''), (''total'', field details ''size''),
               (''used'', field details ''used''), (''unit'', Str ''BYTES'')] # inodes))))))"

definition block_usage :: "'e node_driver \<Rightarrow> string \<Rightarrow> ('e world, js list) io" where
  "block_usage D path =
     bind (pathExists (getDefaultFilesystemInstance D) path) (\<lambda>e.
     andthen (throw_when (\<not> e) (nothing_mounted_at path))
    (bind (getBlockDevice (getDefaultFilesystemInstance D) path) (\<lambda>info.
     bind (lift (getp info ''size'')) (\<lambda>n. ret [Obj [(''total'', n), (''unit'', Str ''BYTES'')]]))))"

definition stats_posix :: "'e node_driver \<Rightarrow> string \<Rightarrow> ('e world, js list) io" where
  "stats_posix D volume_path =
     bind (volume_access D volume_path) (\<lambda>(block, path). if block then block_usage D path else mount_usage D path)"

definition NodeGetVolumeStats :: "'e node_driver \<Rightarrow> jsobj \<Rightarrow> ('e world, jsobj) pio" where
  "NodeGetVolumeStats D req =
     pbind (total (missing req ''volume_id'')) (\<lambda>_.
     pbind (total (missing req ''volume_path'')) (\<lambda>_.
     pbind (total (lift (volume_condition D))) (\<lambda>condition.
     on_posix D (total (bind (stats_posix D (to_str (obj_get req ''volume_path''))) (\<lambda>usage.
       ret (condition @ [(''usage'', Arr usage)])))))))"

section \<open>NodeExpandVolume\<close>

text \<open>
  The device at the path, whether it is formatted and whether it is a block device. Of the errors
  only a query without an answer is reported; any other counts as not being a block device.
\<close>

definition expand_device :: "'e node_driver \<Rightarrow> string \<Rightarrow> string \<Rightarrow> ('e world, string \<times> bool \<times> bool) io" where
  "expand_device D volume_path path =
     catch (bind (getMountPointDevice (getDefaultMountInstance D) path) (\<lambda>device.
            bind (deviceIsFormatted (getDefaultFilesystemInstance D) device) (\<lambda>f.
            bind (isBlockDevice (getDefaultFilesystemInstance D) device) (\<lambda>b. ret (device, f, b)))))
       (\<lambda>err. if err_code err = Some 1
              then throw (GrpcError NOT_FOUND (''volume_path '' @ volume_path @ '' is not currently mounted''))
              else ret ([], False, False))"

definition rescan_nvme :: "'e node_driver \<Rightarrow> string \<Rightarrow> ('e world, unit) io" where
  "rescan_nvme D device =
     (let nvmeof = getDefaultNVMEoFInstance D in
      bind (getControllersByNamespaceDeviceName nvmeof device) (\<lambda>controllers.
      bind (lift (iterate controllers)) (\<lambda>controllers.
      for_each controllers (\<lambda>controller.
        bind (lift (getp controller ''Controller'')) (\<lambda>c. rescanNamespace nvmeof (''/dev/'' @ to_str c))))))"

definition rescan_one :: "'e node_driver \<Rightarrow> string \<Rightarrow> ('e world, unit) pio" where
  "rescan_one D device =
     pbind (deviceIsNVMEoF (getDefaultFilesystemInstance D) device) (\<lambda>nvme.
     total (andthen (do_when nvme (rescan_nvme D device)) (rescanDevice (getDefaultFilesystemInstance D) device)))"

text \<open>The slaves of a device-mapper device are rescanned before it.\<close>

definition rescan_devices :: "'e node_driver \<Rightarrow> string \<Rightarrow> ('e world, string list) io" where
  "rescan_devices D device =
     (let filesystem = getDefaultFilesystemInstance D in
      bind (isDeviceMapperDevice filesystem device) (\<lambda>dm.
      bind (if dm then getDeviceMapperDeviceSlaves filesystem device else ret []) (\<lambda>slaves.
      ret (slaves @ [device]))))"

definition grow_filesystem :: "'e node_driver \<Rightarrow> string \<Rightarrow> string \<Rightarrow> js \<Rightarrow> ('e world, unit) io" where
  "grow_filesystem D device path fs_type =
     (let grow = (\<lambda>d t. bind (expandFilesystem (getDefaultFilesystemInstance D) d t []) (\<lambda>_. ret ())) in
      if \<not> truthy fs_type then ret ()
      else if fs_type \<in> {Str ''ext3'', Str ''ext4'', Str ''ext4dev''} then grow device (to_str fs_type)
      else if fs_type \<in> {Str ''btrfs'', Str ''xfs''} then
        bind (getMountDetails (getDefaultMountInstance D) path [] []) (\<lambda>details.
        bind (lift (getp details ''fstype'')) (\<lambda>t.
        do_when (t \<in> {Str ''btrfs'', Str ''xfs''}) (grow path (to_str fs_type))))
      else if fs_type \<in> {Str ''exfat'', Str ''ntfs'', Str ''vfat''} then ret ()
      else throw (GrpcError FAILED_PRECONDITION (''unsupported/unknown filesystem '' @ to_str fs_type)))"

definition mounted_size :: "'e node_driver \<Rightarrow> string \<Rightarrow> ('e world, js) io" where
  "mounted_size D path =
     bind (getMountDetails (getDefaultMountInstance D) path [''size''] []) (\<lambda>details. lift (getp details ''size''))"

definition device_size :: "'e node_driver \<Rightarrow> string \<Rightarrow> ('e world, js) io" where
  "device_size D device =
     bind (getBlockDevice (getDefaultFilesystemInstance D) device) (\<lambda>info. lift (getp info ''size''))"

text \<open>After the rescan and a pause of two seconds.\<close>

definition grow_device :: "'e node_driver \<Rightarrow> bool \<Rightarrow> string \<Rightarrow> string \<Rightarrow> bool \<Rightarrow> ('e world, js) io" where
  "grow_device D block path device formatted =
     (if formatted \<and> \<not> block then
        bind (getDeviceFilesystemInfo (getDefaultFilesystemInstance D) device) (\<lambda>info.
        andthen (grow_filesystem D device path (obj_get info ''type'')) (mounted_size D path))
      else device_size D device)"

definition expand_posix :: "'e node_driver \<Rightarrow> string \<Rightarrow> ('e world, js) pio" where
  "expand_posix D volume_path =
     pbind (total (volume_access D volume_path)) (\<lambda>(block, path).
     pbind (total (expand_device D volume_path path)) (\<lambda>(device, formatted, is_block).
     if is_block then
       pbind (total (rescan_devices D device)) (\<lambda>devices.
       pbind (pfor_each devices (rescan_one D)) (\<lambda>_.
       total (andthen (host_sleep (nd_host D) 2000) (grow_device D block path device formatted))))
     else total (mounted_size D path)))"

definition NodeExpandVolume :: "'e node_driver \<Rightarrow> jsobj \<Rightarrow> ('e world, jsobj) pio" where
  "NodeExpandVolume D req =
     pbind (total (missing req ''volume_id'')) (\<lambda>_.
     pbind (total (missing req ''volume_path'')) (\<lambda>_.
     on_posix D (pbind (expand_posix D (to_str (obj_get req ''volume_path''))) (\<lambda>n. pret [(''capacity_bytes'', n)]))))"

text \<open>For evaluation: a program is only unfolded when it is run.\<close>

lemmas node_expand_run [code] =
  volume_access_def [THEN fun_cong] mount_usage_def [THEN fun_cong] block_usage_def [THEN fun_cong]
  stats_posix_def [THEN fun_cong] NodeGetVolumeStats_def [THEN fun_cong] expand_device_def [THEN fun_cong]
  rescan_nvme_def [THEN fun_cong] rescan_one_def [THEN fun_cong] rescan_devices_def [THEN fun_cong]
  grow_filesystem_def [THEN fun_cong] mounted_size_def [THEN fun_cong] device_size_def [THEN fun_cong]
  grow_device_def [THEN fun_cong] expand_posix_def [THEN fun_cong] NodeExpandVolume_def [THEN fun_cong]

section \<open>Statistics only read\<close>

lemma adds_volume_access [wp_intro]: "(\<And>ev. query ev \<Longrightarrow> P ev) \<Longrightarrow> adds P (volume_access D p)"
  unfolding volume_access_def Let_def by (auto intro!: wp_intro)

text \<open>
  A NodeGetVolumeStats changes nothing on the node, and what it reports is the usage of a block
  device that exists or of a path that is mounted.
\<close>

theorem stats_read_only:
  assumes "NodeGetVolumeStats D req w = Some (Inr res, w')"
  shows "(\<exists>es. hist w' = hist w @ es \<and> list_all query es)
    \<and> (\<exists>block path w1 w2 w3. volume_access D (to_str (obj_get req ''volume_path'')) w1 = (Inr (block, path), w2)
      \<and> (if block then pathExists (getDefaultFilesystemInstance D) path w2 = (Inr True, w3)
         else pathIsMounted (getDefaultMountInstance D) path w2 = (Inr True, w3)))"
proof -
  have "adds query (stats_posix D path)" for path
    unfolding stats_posix_def block_usage_def mount_usage_def by (auto intro!: wp_intro split: prod.splits)
  then have "padds query (NodeGetVolumeStats D req)"
    unfolding NodeGetVolumeStats_def missing_def on_posix_def by (auto intro!: wp_intro split: node_os.splits)
  moreover have "\<exists>block path w1 w2 w3. volume_access D (to_str (obj_get req ''volume_path'')) w1 = (Inr (block, path), w2)
      \<and> (if block then pathExists (getDefaultFilesystemInstance D) path w2 = (Inr True, w3)
         else pathIsMounted (getDefaultMountInstance D) path w2 = (Inr True, w3))"
    using assms unfolding NodeGetVolumeStats_def stats_posix_def block_usage_def mount_usage_def
    by (fastforce simp: pbind_Inr total_Some run_Inr dest!: on_posix_Inr split: if_splits)
  ultimately show ?thesis using assms by (blast dest: paddsD)
qed

section \<open>The phases of an expansion\<close>

text \<open>Events of one kind, and after a pause only events of another.\<close>

definition phases :: "(event \<Rightarrow> bool) \<Rightarrow> (event \<Rightarrow> bool) \<Rightarrow> event list \<Rightarrow> bool" where
  "phases P Q es \<longleftrightarrow>
     (\<exists>a b. es = a @ b \<and> list_all P a \<and> (b = [] \<or> (\<exists>c. b = EvSleep 2000 # c \<and> list_all Q c)))"

definition in_phases :: "(event \<Rightarrow> bool) \<Rightarrow> (event \<Rightarrow> bool) \<Rightarrow> ('e world, 'a) pio \<Rightarrow> bool" where
  "in_phases P Q m \<longleftrightarrow> (\<forall>w r w'. m w = Some (r, w') \<longrightarrow> (\<exists>es. hist w' = hist w @ es \<and> phases P Q es))"

lemma phases_append: "list_all P a \<Longrightarrow> phases P Q b \<Longrightarrow> phases P Q (a @ b)"
  unfolding phases_def by (metis append_assoc list_all_append)

lemma phases_after: "list_all Q c \<Longrightarrow> phases P Q (EvSleep 2000 # c)"
  unfolding phases_def by (rule exI [where x = "[]"]) simp

lemma in_phases_before: "padds P m \<Longrightarrow> in_phases P Q m"
  unfolding in_phases_def padds_def phases_def by (metis append_Nil2)

lemma in_phases_bind:
  assumes "padds P m" and "\<And>x. in_phases P Q (f x)"
  shows "in_phases P Q (pbind m f)"
  unfolding in_phases_def
proof (intro allI impI)
  fix w r w'
  assume run: "pbind m f w = Some (r, w')"
  then obtain r1 w1 where 1: "m w = Some (r1, w1)" by (auto simp: pbind_def split: option.splits)
  with assms(1) obtain a where a: "hist w1 = hist w @ a" "list_all P a" by (auto dest: paddsD)
  show "\<exists>es. hist w' = hist w @ es \<and> phases P Q es"
  proof (cases r1)
    case (Inl e)
    with run 1 a show ?thesis unfolding phases_def by (auto simp: pbind_def)
  next
    case (Inr x)
    with run 1 have "f x w1 = Some (r, w')" by (simp add: pbind_def)
    with assms(2) [of x] obtain b where "hist w' = hist w1 @ b" "phases P Q b" unfolding in_phases_def by blast
    with a phases_append show ?thesis by (metis append_assoc)
  qed
qed

lemma in_phases_map: "in_phases P Q m \<Longrightarrow> in_phases P Q (pbind m (\<lambda>x. pret (g x)))"
  unfolding in_phases_def
  by (auto simp: pbind_def total_def ret_def split: option.splits sum.splits)

lemma in_phases_after:
  assumes "adds Q m"
  shows "in_phases P Q (total (andthen (host_sleep H 2000) m))"
  unfolding in_phases_def
proof (intro allI impI)
  fix w r w'
  assume "total (andthen (host_sleep H 2000) m) w = Some (r, w')"
  then have u: "m (w\<lparr>ext := ho_sleep H 2000 (ext w), hist := hist w @ [EvSleep 2000]\<rparr>) = (r, w')"
    by (simp add: total_def andthen_def bind_def host_sleep_def perform_def)
  from addsD [OF assms, of "w\<lparr>ext := ho_sleep H 2000 (ext w), hist := hist w @ [EvSleep 2000]\<rparr>"] u obtain c where "hist w' = hist w @ EvSleep 2000 # c" "list_all Q c" by auto
  then show "\<exists>es. hist w' = hist w @ es \<and> phases P Q es" by (blast intro: phases_after)
qed

definition rescans :: "event \<Rightarrow> bool" where
  "rescans ev \<longleftrightarrow> query ev \<or> (\<exists>p. ev = EvHost ''writeFile'' p) \<or> (\<exists>d. ev = EvSpawn ''multipath'' [''-r'', d])
     \<or> (\<exists>d. ev = EvSpawn ''nvme'' [''ns-rescan'', d])"

definition grows :: "event \<Rightarrow> bool" where
  "grows ev \<longleftrightarrow> query ev \<or> (\<exists>d. ev \<in> {EvSpawn ''resize2fs'' [d], EvSpawn ''xfs_growfs'' [d],
     EvSpawn ''btrfs'' [''filesystem'', ''resize'', ''max'', d]})"

lemma padds_rescan_one: "padds rescans (rescan_one D device)"
proof -
  have q: "query ev \<Longrightarrow> rescans ev" for ev by (simp add: rescans_def)
  have n: "rescans (EvSpawn ''nvme'' [''ns-rescan'', d])" "rescans (EvHost ''writeFile'' p)" "rescans (EvSpawn ''multipath'' [''-r'', d])"
    for d p by (simp_all add: rescans_def)
  have "adds rescans (rescan_nvme D device)"
    unfolding rescan_nvme_def rescanNamespace_def Let_def by (auto intro!: wp_intro n intro: q)
  moreover have "adds rescans (rescanDevice (getDefaultFilesystemInstance D) device)"
    unfolding rescanDevice_def Let_def by (auto intro!: wp_intro n intro: q)
  ultimately show ?thesis
    unfolding rescan_one_def deviceIsNVMEoF_def by (auto intro!: wp_intro intro: q)
qed

lemma adds_grow_device: "adds grows (grow_device D block path device formatted)"
proof -
  have q: "query ev \<Longrightarrow> grows ev" for ev by (simp add: grows_def)
  have lower: "to_lower ''ext3'' = ''ext3''" "to_lower ''ext4'' = ''ext4''" "to_lower ''ext4dev'' = ''ext4dev''"
    "to_lower ''btrfs'' = ''btrfs''" "to_lower ''xfs'' = ''xfs''" by code_simp+
  have g: "grows (EvSpawn ''resize2fs'' [d])" "grows (EvSpawn ''xfs_growfs'' [d])"
    "grows (EvSpawn ''btrfs'' [''filesystem'', ''resize'', ''max'', d])" for d
    by (simp_all add: grows_def)
  have e: "adds grows (expandFilesystem (getDefaultFilesystemInstance D) d t [])"
    if "t \<in> {''ext3'', ''ext4'', ''ext4dev'', ''btrfs'', ''xfs''}" for d t
    using that
    by (elim insertE emptyE) (simp_all add: expandFilesystem_def resize_ext_def lower g adds_bind adds_ret adds_node_fs_exec)
  have g: "adds grows (bind (expandFilesystem (getDefaultFilesystemInstance D) d (to_str t) []) (\<lambda>_. ret ()))"
    if "t \<in> {Str ''ext3'', Str ''ext4'', Str ''ext4dev''} \<or> t \<in> {Str ''btrfs'', Str ''xfs''}" for d t
  proof -
    have "to_str t \<in> {''ext3'', ''ext4'', ''ext4dev'', ''btrfs'', ''xfs''}" using that by auto
    from e [OF this] show ?thesis by (intro adds_bind adds_ret)
  qed
  have m: "adds grows (getMountDetails (getDefaultMountInstance D) p [] [])" for p by (auto intro!: wp_intro intro: q)
  have "adds grows (grow_filesystem D device path t)" for t
    unfolding grow_filesystem_def Let_def
    by (intro adds_if adds_ret adds_throw g adds_bind [OF m] adds_bind [OF adds_lift] adds_do_when) simp_all
  then show ?thesis
    unfolding grow_device_def mounted_size_def device_size_def by (auto intro!: wp_intro intro: q)
qed

text \<open>
  A NodeExpandVolume first rescans devices and then, after a pause of two seconds, resizes
  the filesystem; it runs no other command that changes the node, and it resizes nothing before
  all rescans are done.
\<close>

theorem expand_rescans_first:
  assumes "NodeExpandVolume D req w = Some (r, w')"
  shows "\<exists>es. hist w' = hist w @ es \<and> phases rescans grows es"
proof -
  have q: "query ev \<Longrightarrow> rescans ev" for ev by (simp add: rescans_def)
  have d: "padds rescans (total (expand_device D v p))" for v p
    unfolding expand_device_def by (auto intro!: wp_intro intro: q)
  have m: "in_phases rescans grows (total (mounted_size D p))" for p
    unfolding mounted_size_def by (intro in_phases_before) (auto intro!: wp_intro intro: q)
  have s: "padds rescans (total (rescan_devices D p))" for p
    unfolding rescan_devices_def Let_def by (auto intro!: wp_intro intro: q)
  have l: "padds rescans (pfor_each ds (rescan_one D))" for ds by (intro padds_for_each padds_rescan_one)
  have a: "in_phases rescans grows (total (andthen (host_sleep (nd_host D) 2000) (grow_device D b p dev f)))" for b p dev f
    by (intro in_phases_after adds_grow_device)
  have v: "padds rescans (total (volume_access D p))" for p by (auto intro!: wp_intro intro: q)
  have x: "in_phases rescans grows (expand_posix D p)" for p
    unfolding expand_posix_def
    by (rule in_phases_bind [OF v], simp only: split_beta, rule in_phases_bind [OF d], simp only: split_beta split: if_splits,
        intro conjI impI in_phases_bind [OF s] in_phases_bind [OF l] a m)
  have o: "in_phases rescans grows (on_posix D m)" if "in_phases rescans grows m" for m :: "('a world, jsobj) pio"
    using that unfolding on_posix_def by (auto split: node_os.splits intro!: in_phases_before wp_intro)
  have "padds rescans (total (missing req k))" for k unfolding missing_def by (auto intro!: wp_intro)
  then have "in_phases rescans grows (NodeExpandVolume D req)"
    unfolding NodeExpandVolume_def by (intro in_phases_bind [of _ "total (missing _ _)"] o in_phases_map x) auto
  with assms show ?thesis unfolding in_phases_def by blast
qed

text \<open>When the parents of block devices form no cycle, an expansion returns.\<close>

lemma expand_returns:
  assumes "parents_descend rank (getDefaultFilesystemInstance D)"
  shows "\<exists>r w'. NodeExpandVolume D req w = Some (r, w')"
proof -
  have "returns (NodeExpandVolume D req)"
    unfolding NodeExpandVolume_def on_posix_def expand_posix_def rescan_one_def
    by (auto intro!: returns_intro returns_devices [OF assms] split: node_os.splits prod.splits)
  then show ?thesis by (rule returnsD)
qed

section \<open>Runs\<close>

definition volume_request :: "string \<Rightarrow> jsobj" where
  "volume_request path = [(''volume_id'', Str ''vol-1''), (''volume_path'', Str path)]"

lemma volume_path: "to_str (obj_get (volume_request path) ''volume_path'') = path"
  by (simp add: volume_request_def obj_get_def)

lemma expand_rescans_first_witness:
  "\<exists>w'. NodeExpandVolume (sample_node (local_host True)) (volume_request ''/n'') at_start
       = Some (Inr [(''capacity_bytes'', Num (IntN 2048))], w')
     \<and> phases rescans grows (hist w')"
proof -
  have "map_option fst (NodeExpandVolume (sample_node (local_host True)) (volume_request ''/n'') at_start)
      = Some (Inr [(''capacity_bytes'', Num (IntN 2048))])"
    by code_simp
  then obtain w' where r: "NodeExpandVolume (sample_node (local_host True)) (volume_request ''/n'') at_start
      = Some (Inr [(''capacity_bytes'', Num (IntN 2048))], w')" by auto
  from expand_rescans_first [OF r] r show ?thesis by (auto simp: at_start_def)
qed

lemma stats_read_only_witness:
  "\<exists>block path w1 w2. volume_access (sample_node (local_host True)) ''/s'' w1 = (Inr (block, path), w2)"
proof -
  have "map_option (\<lambda>(r, w'). isl r) (NodeGetVolumeStats (sample_node (local_host True)) (volume_request ''/s'') at_start)
      = Some False"
    by code_simp
  then obtain res w' where
    "NodeGetVolumeStats (sample_node (local_host True)) (volume_request ''/s'') at_start = Some (Inr res, w')"
    by (auto simp: isl_def) (metis sum.exhaust)
  from stats_read_only [OF this] show ?thesis by (auto simp: volume_path)
qed

end
