(* ===== verification/Node_Publish.thy ===== *)
theory Node_Publish
  imports Unstage_Safety
begin

text \<open>
  \<open>NodePublishVolume\<close> and \<open>NodeUnpublishVolume\<close> of \<open>src/driver/index.js\<close> on a POSIX node: the bind mount
  of a staged volume to the target path, and its removal. What a publish guarantees of the
  mount, and what an unpublish may do.
\<close>

section \<open>NodePublishVolume\<close>

text \<open>\<open>!capability || Object.keys(capability).length === 0\<close>\<close>

fun no_capability :: "js \<Rightarrow> bool" where
  "no_capability (Obj ob) = (ob = [])"
| "no_capability (Arr xs) = (xs = [])"
| "no_capability (Str s) = (s = [])"
| "no_capability _ = True"

text \<open>The flags of the request; the last part only asks for the options, whose path may be missing.\<close>

definition capability_flags :: "'e node_driver \<Rightarrow> js \<Rightarrow> exn + js list" where
  "capability_flags D capability =
     ebind (getp capability ''mount'') (\<lambda>m.
     ebind (getp m ''mount_flags'') (\<lambda>f.
     ebind (iterate (or_else f (Arr []))) (\<lambda>flags.
     ebind (if nd_satisfies D ''>=1.5.0'' then node_offers D ''VOLUME_MOUNT_GROUP'' else Inr False) (\<lambda>_. Inr flags))))"

definition publish_flags :: "'e node_driver \<Rightarrow> js \<Rightarrow> js \<Rightarrow> js \<Rightarrow> exn + js list" where
  "publish_flags D access_type capability readonly =
     ebind (if loose_eq access_type (Str ''mount'') then capability_flags D capability else Inr []) (\<lambda>flags.
     Inr (flags @ [Str ''defaults''] @ (if truthy readonly then [Str ''ro''] else [])))"

definition published_drivers :: "js set" where
  "published_drivers = {Str ''nfs'', Str ''smb'', Str ''lustre'', Str ''objectivefs'', Str ''oneclient'', Str ''hostpath'',
     Str ''iscsi'', Str ''nvmeof'', Str ''zfs-local''}"

definition ensure_directory :: "'e filesystem \<Rightarrow> string \<Rightarrow> ('e world, unit) io" where
  "ensure_directory F path =
     bind (pathExists F path) (\<lambda>e. do_when (\<not> e) (bind (mkdir F path [''-p'', ''-m'', ''0750'']) (\<lambda>_. ret ())))"

definition ensure_target :: "'e filesystem \<Rightarrow> js \<Rightarrow> string \<Rightarrow> ('e world, unit) io" where
  "ensure_target F access_type target =
     (if access_type = Str ''mount'' then ensure_directory F target
      else if access_type = Str ''block'' then
        bind (dirname F target) (\<lambda>dir.
        andthen (ensure_directory F dir)
       (bind (pathExists F target) (\<lambda>e. do_when (\<not> e) (touch F target []))))
      else throw (GrpcError INVALID_ARGUMENT (''unsupported/unknown access_type '' @ to_str access_type)))"

definition staged_path :: "js \<Rightarrow> string \<Rightarrow> string" where
  "staged_path access_type staging = (if loose_eq access_type (Str ''block'') then staging @ ''/block_device'' else staging)"

text \<open>The device that has to be mounted at the target; \<open>dev\<close> stands for a bind-mounted file.\<close>

definition staged_device :: "'e mounter \<Rightarrow> js \<Rightarrow> string \<Rightarrow> ('e world, string) io" where
  "staged_device M access_type staging =
     (if loose_eq access_type (Str ''block'') then ret ''dev'' else getMountPointDevice M staging)"

definition publish_mount :: "'e mounter \<Rightarrow> js \<Rightarrow> string \<Rightarrow> string \<Rightarrow> js list \<Rightarrow> ('e world, unit) io" where
  "publish_mount M access_type staging target flags =
     (let path = staged_path access_type staging in
      bind (pathIsMounted M path) (\<lambda>m.
      andthen (throw_when (\<not> m) (GrpcError FAILED_PRECONDITION (''staging path is not mounted: '' @ path)))
     (bind (pathIsMounted M target) (\<lambda>m.
      if \<not> m then bind (bindMount M path target [''-o'', to_str (Arr flags)]) (\<lambda>_. ret ())
      else bind (staged_device M access_type staging) (\<lambda>device.
           bind (deviceIsMountedAtPath M device target) (\<lambda>m.
           throw_when (\<not> m) (GrpcError FAILED_PRECONDITION
             (''it appears '' @ device @ '' is already mounted at '' @ target @ '', should be '' @ path))))))))"

definition publish_posix ::
  "'e node_driver \<Rightarrow> js \<Rightarrow> js \<Rightarrow> js \<Rightarrow> string \<Rightarrow> js list \<Rightarrow> ('e world, unit) io" where
  "publish_posix D attach access_type staging target flags =
     (if attach \<notin> published_drivers
      then throw (GrpcError INVALID_ARGUMENT (''unknown/unsupported node_attach_driver: '' @ to_str attach))
      else andthen (ensure_target (getDefaultFilesystemInstance D) access_type target)
        (if truthy staging then publish_mount (getDefaultMountInstance D) access_type (to_str staging) target flags
         else throw (GrpcError FAILED_PRECONDITION ''only staged configurations are valid'')))"

definition NodePublishVolume :: "'e node_driver \<Rightarrow> jsobj \<Rightarrow> ('e world, jsobj) pio" where
  "NodePublishVolume D req =
     (let capability = obj_get req ''volume_capability'' in
      pbind (total (missing req ''volume_id'')) (\<lambda>_.
      pbind (total (missing req ''target_path'')) (\<lambda>_.
      pbind (total (throw_when (no_capability capability) (GrpcError INVALID_ARGUMENT ''missing capability''))) (\<lambda>_.
      pbind (total (lift (getp capability ''access_type''))) (\<lambda>a.
      let access_type = or_else a (Str ''mount'') in
      pbind (total (lift (getp (obj_get req ''volume_context'') ''node_attach_driver''))) (\<lambda>attach.
      pbind (total (lift (publish_flags D access_type capability (obj_get req ''readonly'')))) (\<lambda>flags.
      on_posix D
        (total (andthen (publish_posix D attach access_type (or_else (obj_get req ''staging_target_path'') (Str []))
                           (to_str (obj_get req ''target_path'')) flags)
                 (ret []))))))))))"

section \<open>NodeUnpublishVolume\<close>

text \<open>A mount that hangs is unmounted by force only when it is one of nfs.\<close>

definition unpublish_umount :: "'e node_driver \<Rightarrow> string \<Rightarrow> ('e world, unit) io" where
  "unpublish_umount D target =
     catch (bind (node_retry D 10 0 (umount (getDefaultMountInstance D) target []) busy_retry) (\<lambda>_. ret ()))
       (\<lambda>err. if \<not> err_timeout err then throw err
              else bind (getMountDetails (getDefaultMountInstance D) target [] []) (\<lambda>details.
                   bind (lift (getp details ''fstype'')) (\<lambda>fstype.
                   if fstype \<in> {Str ''nfs'', Str ''nfs4''} then forced D target else throw err)))"

definition is_directory :: "'e node_driver \<Rightarrow> string \<Rightarrow> ('e world, bool) io" where
  "is_directory D path = perform (EvHost ''lstat'' path) (nd_isDirectory D path)"

definition remove_target :: "'e node_driver \<Rightarrow> string \<Rightarrow> ('e world, unit) io" where
  "remove_target D target =
     (let filesystem = getDefaultFilesystemInstance D in
      bind (pathExists filesystem target) (\<lambda>e.
      do_when e
        (bind (is_directory D target) (\<lambda>dir.
         if dir then bind (node_retry D 30 0 (rmdir filesystem target []) busy_retry) (\<lambda>_. ret ())
         else node_retry D 30 0 (rm filesystem [target]) (no_retry_options\<lparr>ro_minExecutionTime := 1000\<rparr>)))))"

definition unpublish_posix :: "'e node_driver \<Rightarrow> string \<Rightarrow> ('e world, unit) io" where
  "unpublish_posix D target =
     bind (mounted_or_stale D target target) (\<lambda>m.
     andthen (do_when m (unpublish_umount D target)) (remove_target D target))"

definition NodeUnpublishVolume :: "'e node_driver \<Rightarrow> jsobj \<Rightarrow> ('e world, jsobj) pio" where
  "NodeUnpublishVolume D req =
     pbind (total (missing req ''volume_id'')) (\<lambda>_.
     pbind (total (missing req ''target_path'')) (\<lambda>_.
     on_posix D (total (andthen (unpublish_posix D (to_str (obj_get req ''target_path''))) (ret [])))))"

text \<open>For evaluation: a program is only unfolded when it is run.\<close>

lemmas node_publish_run [code] =
  ensure_directory_def [THEN fun_cong] ensure_target_def [THEN fun_cong] staged_device_def [THEN fun_cong]
  publish_mount_def [THEN fun_cong] publish_posix_def [THEN fun_cong] NodePublishVolume_def [THEN fun_cong]
  unpublish_umount_def [THEN fun_cong] is_directory_def [THEN fun_cong] remove_target_def [THEN fun_cong]
  unpublish_posix_def [THEN fun_cong] NodeUnpublishVolume_def [THEN fun_cong]

section \<open>What a publish guarantees\<close>

lemma publish_mount_Inr:
  assumes "publish_mount M access_type staging target flags w = (Inr (), w')"
  shows "\<exists>w1 w2 w3. pathIsMounted M (staged_path access_type staging) w1 = (Inr True, w2)
    \<and> (pathIsMounted M target w2 = (Inr False, w3)
         \<and> (\<exists>r. bindMount M (staged_path access_type staging) target [''-o'', to_str (Arr flags)] w3 = (Inr r, w'))
       \<or> pathIsMounted M target w2 = (Inr True, w3)
         \<and> (\<exists>device w4. staged_device M access_type staging w3 = (Inr device, w4)
              \<and> deviceIsMountedAtPath M device target w4 = (Inr True, w')))"
  using assms unfolding publish_mount_def Let_def by (auto simp: run_Inr split: if_splits) blast+

lemma publish_flags_last:
  "publish_flags D a c readonly = Inr flags \<Longrightarrow> truthy readonly \<Longrightarrow> last flags = Str ''ro''"
  by (auto simp: publish_flags_def ebind_def split: sum.splits)

text \<open>
  C20: a NodePublishVolume that succeeds has asked whether the staged path is mounted and got the
  answer yes; then the target was either not mounted and the staged path was bind-mounted there, or
  it was mounted and the staged device is the one mounted there. For a readonly request the last
  flag is ro.
\<close>

theorem publish_mounts_staged:
  assumes "NodePublishVolume D req w = Some (Inr r, w')"
  shows "\<exists>a access flags w1 w2 w3.
    let M = getDefaultMountInstance D; staging = to_str (obj_get req ''staging_target_path'');
        target = to_str (obj_get req ''target_path''); path = staged_path access staging in
    getp (obj_get req ''volume_capability'') ''access_type'' = Inr a \<and> access = or_else a (Str ''mount'')
    \<and> truthy (obj_get req ''staging_target_path'') \<and> access \<in> {Str ''mount'', Str ''block''}
    \<and> (truthy (obj_get req ''readonly'') \<longrightarrow> last flags = Str ''ro'')
    \<and> pathIsMounted M path w1 = (Inr True, w2)
    \<and> (pathIsMounted M target w2 = (Inr False, w3)
         \<and> (\<exists>r. bindMount M path target [''-o'', to_str (Arr flags)] w3 = (Inr r, w'))
       \<or> pathIsMounted M target w2 = (Inr True, w3)
         \<and> (\<exists>device w4. staged_device M access staging w3 = (Inr device, w4)
              \<and> deviceIsMountedAtPath M device target w4 = (Inr True, w')))"
proof -
  obtain a attach access flags u where a: "getp (obj_get req ''volume_capability'') ''access_type'' = Inr a"
      "access = or_else a (Str ''mount'')"
    and f: "publish_flags D access (obj_get req ''volume_capability'') (obj_get req ''readonly'') = Inr flags"
    and p: "publish_posix D attach access (or_else (obj_get req ''staging_target_path'') (Str []))
       (to_str (obj_get req ''target_path'')) flags u = (Inr (), w')"
    using assms unfolding NodePublishVolume_def Let_def
    by (auto simp: pbind_Inr total_Some run_Inr lift_def dest!: on_posix_Inr)
  from p have t: "truthy (obj_get req ''staging_target_path'')" "access \<in> {Str ''mount'', Str ''block''}"
    unfolding publish_posix_def ensure_target_def or_else_def
    by (auto simp: run_Inr throw_Inr truthy.simps split: if_splits)
  with p obtain u where "publish_mount (getDefaultMountInstance D) access (to_str (obj_get req ''staging_target_path''))
      (to_str (obj_get req ''target_path'')) flags u = (Inr (), w')"
    unfolding publish_posix_def or_else_def by (auto simp: run_Inr throw_Inr split: if_splits)
  from publish_mount_Inr [OF this] t a publish_flags_last [OF f] show ?thesis unfolding Let_def by blast
qed

section \<open>What a publish may do\<close>

definition publishes :: "string \<Rightarrow> string \<Rightarrow> event \<Rightarrow> bool" where
  "publishes staging target ev \<longleftrightarrow> query ev
     \<or> (\<exists>dir. ev = EvSpawn ''mkdir'' [''-p'', ''-m'', ''0750'', dir]) \<or> ev = EvSpawn ''touch'' [target]
     \<or> (\<exists>path\<in>{staging, staging @ ''/block_device''}. \<exists>flags. ev = EvSpawn ''mount'' [''--bind'', ''-o'', flags, path, target])"

lemma adds_ensure_directory [wp_intro]:
  assumes "\<And>ev. query ev \<Longrightarrow> P ev" and "P (EvSpawn ''mkdir'' [''-p'', ''-m'', ''0750'', path])"
  shows "adds P (ensure_directory (getDefaultFilesystemInstance D) path)"
  unfolding ensure_directory_def mkdir_def using assms(2) by (auto intro!: wp_intro intro: assms(1))

lemma adds_bindMount [wp_intro]:
  "P (EvSpawn ''mount'' (''--bind'' # options @ [source, target])) \<Longrightarrow>
     adds P (bindMount (getDefaultMountInstance D) source target options)"
  unfolding bindMount_def by (auto intro!: wp_intro)

text \<open>
  Besides reading the state of the node, a NodePublishVolume only creates directories, creates
  the target file, and bind-mounts the staged path to the target.
\<close>

theorem publish_scope:
  assumes "NodePublishVolume D req w = Some (r, w')"
  shows "\<exists>es. hist w' = hist w @ es
    \<and> list_all (publishes (to_str (obj_get req ''staging_target_path'')) (to_str (obj_get req ''target_path''))) es"
proof -
  let ?P = "publishes (to_str (obj_get req ''staging_target_path'')) (to_str (obj_get req ''target_path''))"
  have q: "query ev \<Longrightarrow> ?P ev" for ev by (simp add: publishes_def)
  have m: "?P (EvSpawn ''mount'' [''--bind'', ''-o'', flags, staged_path a (to_str (obj_get req ''staging_target_path'')),
      to_str (obj_get req ''target_path'')])" for flags a
    by (auto simp: publishes_def staged_path_def)
  have d: "?P (EvSpawn ''mkdir'' [''-p'', ''-m'', ''0750'', dir])" "?P (EvSpawn ''touch'' [to_str (obj_get req ''target_path'')])" for dir
    by (simp_all add: publishes_def)
  have e: "adds ?P (ensure_target (getDefaultFilesystemInstance D) access (to_str (obj_get req ''target_path'')))" for access
    unfolding ensure_target_def touch_def by (auto intro!: wp_intro d intro: q)
  have p: "adds ?P (publish_mount (getDefaultMountInstance D) access (to_str (obj_get req ''staging_target_path''))
      (to_str (obj_get req ''target_path'')) flags)" for access flags
    unfolding publish_mount_def staged_device_def Let_def by (auto intro!: wp_intro m intro: q)
  have "adds ?P (publish_posix D attach access (or_else (obj_get req ''staging_target_path'') (Str []))
      (to_str (obj_get req ''target_path'')) flags)" for attach access flags
    unfolding publish_posix_def or_else_def by (auto intro!: wp_intro e p simp: truthy.simps)
  then have "padds ?P (NodePublishVolume D req)"
    unfolding NodePublishVolume_def missing_def on_posix_def Let_def
    by (auto intro!: wp_intro split: node_os.splits)
  from paddsD [OF this assms] show ?thesis .
qed

section \<open>What an unpublish guarantees\<close>

lemma adds_remove_target:
  assumes "\<And>ev. query ev \<Longrightarrow> P ev" and "P (EvSpawn ''rmdir'' [target])" and "P (EvSpawn ''rm'' [target])"
  shows "adds P (remove_target D target)"
  unfolding remove_target_def is_directory_def node_retry_def rm_def rmdir_def Let_def
  using assms(2,3) by (auto intro!: wp_intro intro: assms(1))

text \<open>A path is unmounted by force when it hangs: the query of the mount, or the unmount of an nfs mount.\<close>

definition hangs :: "'e node_driver \<Rightarrow> string \<Rightarrow> bool" where
  "hangs D path \<longleftrightarrow>
     (\<exists>e. outcome (pathIsMounted (getDefaultMountInstance D) path) (Inl e) \<and> err_timeout e)
     \<or> (\<exists>d. outcome (getMountDetails (getDefaultMountInstance D) path [] []) (Inr d)
          \<and> getp d ''fstype'' \<in> {Inr (Str ''nfs''), Inr (Str ''nfs4'')})"

definition unpublishes :: "'e node_driver \<Rightarrow> string \<Rightarrow> event \<Rightarrow> bool" where
  "unpublishes D target ev \<longleftrightarrow> query ev \<or> ev \<in> {EvSpawn ''umount'' [target], EvSpawn ''rmdir'' [target], EvSpawn ''rm'' [target]}
     \<or> hangs D target \<and> ev = EvSpawn ''umount'' [''--force'', ''--lazy'', target]"

lemma adds_unpublish_umount: "adds (unpublishes D target) (unpublish_umount D target)"
proof -
  have q: "query ev \<Longrightarrow> unpublishes D target ev" for ev by (simp add: unpublishes_def)
  have f: "adds (unpublishes D target) (forced D target)" if "hangs D target"
    using that unfolding forced_def by (auto intro!: wp_intro simp: unpublishes_def)
  have n: "adds (unpublishes D target) (if fstype \<in> {Str ''nfs'', Str ''nfs4''} then forced D target else throw err)"
    if "outcome (getMountDetails (getDefaultMountInstance D) target [] []) (Inr d)" "getp d ''fstype'' = Inr fstype" for d fstype err
    using that f unfolding hangs_def by (auto intro: wp_intro)
  have t: "adds (unpublishes D target) (bind (lift (getp d ''fstype'')) (\<lambda>fstype.
      if fstype \<in> {Str ''nfs'', Str ''nfs4''} then forced D target else throw err))"
    if "outcome (getMountDetails (getDefaultMountInstance D) target [] []) (Inr d)" for d err
  proof (rule adds_bind_outcome)
    fix fstype
    assume "outcome (lift (getp d ''fstype'')) (Inr fstype)"
    then have "getp d ''fstype'' = Inr fstype" by (simp add: outcome_def lift_def)
    from n [OF that this] show "adds (unpublishes D target)
        (if fstype \<in> {Str ''nfs'', Str ''nfs4''} then forced D target else throw err)" .
  qed (intro wp_intro)
  have h: "adds (unpublishes D target) (bind (getMountDetails (getDefaultMountInstance D) target [] []) (\<lambda>d.
      bind (lift (getp d ''fstype'')) (\<lambda>fstype.
      if fstype \<in> {Str ''nfs'', Str ''nfs4''} then forced D target else throw err)))" for err
  proof (rule adds_bind_outcome)
    show "adds (unpublishes D target) (getMountDetails (getDefaultMountInstance D) target [] [])"
      by (auto intro!: wp_intro intro: q)
  qed (rule t)
  have u: "adds (unpublishes D target) (bind (node_retry D 10 0 (umount (getDefaultMountInstance D) target []) busy_retry) (\<lambda>_. ret ()))"
    unfolding node_retry_def by (auto intro!: wp_intro simp: unpublishes_def)
  show ?thesis unfolding unpublish_umount_def by (intro adds_catch u adds_if adds_throw h)
qed

text \<open>
  Besides reading the state of the node, a NodeUnpublishVolume only unmounts and removes the
  target path, and it unmounts by force only when the path hangs.
\<close>

theorem unpublish_scope:
  assumes "NodeUnpublishVolume D req w = Some (r, w')"
  shows "\<exists>es. hist w' = hist w @ es \<and> list_all (unpublishes D (to_str (obj_get req ''target_path''))) es"
proof -
  let ?t = "to_str (obj_get req ''target_path'')"
  have q: "query ev \<Longrightarrow> unpublishes D ?t ev" for ev by (simp add: unpublishes_def)
  have m: "adds (unpublishes D ?t) (mounted_or_stale D ?t ?t)"
    unfolding mounted_or_stale_def
    by (rule adds_catch_outcome) (auto simp: unpublishes_def hangs_def forced_def intro!: wp_intro)
  have "adds (unpublishes D ?t) (unpublish_posix D ?t)"
    unfolding unpublish_posix_def
    by (intro wp_intro m adds_unpublish_umount adds_remove_target) (auto intro: q simp: unpublishes_def)
  then have "padds (unpublishes D ?t) (NodeUnpublishVolume D req)"
    unfolding NodeUnpublishVolume_def missing_def on_posix_def
    by (auto intro!: wp_intro split: node_os.splits)
  from paddsD [OF this assms] show ?thesis .
qed

section \<open>Runs\<close>

definition publish_request :: jsobj where
  "publish_request = [(''volume_id'', Str ''vol-1''), (''staging_target_path'', Str ''/s''), (''target_path'', Str ''/t''),
     (''volume_capability'', Obj [(''access_type'', Str ''mount''), (''mount'', Obj [])]),
     (''volume_context'', Obj [(''node_attach_driver'', Str ''nfs'')]), (''readonly'', Bool True)]"

lemma publish_run:
  "\<exists>w'. NodePublishVolume (sample_node (local_host True)) publish_request at_start = Some (Inr [], w')"
proof -
  have "map_option fst (NodePublishVolume (sample_node (local_host True)) publish_request at_start) = Some (Inr [])"
    by code_simp
  then show ?thesis by auto
qed

lemma publish_mounts_staged_witness:
  "\<exists>w1 w2. pathIsMounted (getDefaultMountInstance (sample_node (local_host True))) ''/s'' w1 = (Inr True, w2)"
proof -
  have p: "to_str (obj_get publish_request ''staging_target_path'') = ''/s''"
    "getp (obj_get publish_request ''volume_capability'') ''access_type'' = Inr (Str ''mount'')"
    by code_simp+
  have "or_else (Str ''mount'') (Str ''mount'') = Str ''mount''" "staged_path (Str ''mount'') ''/s'' = ''/s''" by code_simp+
  moreover from publish_run obtain w' where
    r: "NodePublishVolume (sample_node (local_host True)) publish_request at_start = Some (Inr [], w')" ..
  ultimately show ?thesis using publish_mounts_staged [OF r] p by (auto simp: Let_def)
qed

lemma publish_scope_witness:
  "\<exists>r w'. NodePublishVolume (sample_node (local_host True)) publish_request at_start = Some (r, w')
     \<and> list_all (publishes ''/s'' ''/t'') (hist w')"
proof -
  have p: "to_str (obj_get publish_request ''staging_target_path'') = ''/s''"
    "to_str (obj_get publish_request ''target_path'') = ''/t''" by code_simp+
  from publish_run obtain w' where
    r: "NodePublishVolume (sample_node (local_host True)) publish_request at_start = Some (Inr [], w')" ..
  from publish_scope [OF r] r show ?thesis by (auto simp: p at_start_def)
qed

definition unpublish_request :: jsobj where
  "unpublish_request = [(''volume_id'', Str ''vol-1''), (''target_path'', Str ''/s'')]"

lemma unpublish_scope_witness:
  "\<exists>r w'. NodeUnpublishVolume (sample_node (local_host True)) unpublish_request at_start = Some (r, w')
     \<and> list_all (unpublishes (sample_node (local_host True)) ''/s'') (hist w')"
proof -
  have "map_option fst (NodeUnpublishVolume (sample_node (local_host True)) unpublish_request at_start) = Some (Inr [])"
    by code_simp
  then obtain w' where
    r: "NodeUnpublishVolume (sample_node (local_host True)) unpublish_request at_start = Some (Inr [], w')" by auto
  have p: "to_str (obj_get unpublish_request ''target_path'') = ''/s''" by code_simp
  from unpublish_scope [OF r] r show ?thesis by (auto simp: p at_start_def)
qed

end
