(* ===== verification/Objectivefs.thy ===== *)
theory Objectivefs
  imports Filesystem
begin

text \<open>
  \<open>src/utils/objectivefs.js\<close> and \<open>src/utils/oneclient.js\<close>: the commands of the two network
  filesystems that the node mounts with a tool of their own, and the filesystems that
  \<open>mount.objectivefs\<close> creates, lists and destroys. The license in the environment is cut to its
  public part when a filesystem is mounted.
\<close>

section \<open>The instance\<close>

record 'e objectivefs =
  of_options :: jsobj
  of_host :: "'e host"

definition objectivefs_options :: "jsobj \<Rightarrow> jsobj" where
  "objectivefs_options options =
     (let paths = obj_of (obj_get options ''paths'');
          paths = default_to ''objectivefs'' (Str ''mount.objectivefs'') paths;
          paths = default_to ''sudo'' (Str ''/usr/bin/sudo'') paths;
          paths = default_to ''chroot'' (Str ''/usr/sbin/chroot'') paths
      in default_to ''env'' (Obj []) (obj_set ''paths'' (Obj paths) options))"

definition new_objectivefs :: "jsobj \<Rightarrow> 'e host \<Rightarrow> 'e objectivefs" where
  "new_objectivefs options H = \<lparr>of_options = objectivefs_options options, of_host = H\<rparr>"

definition ofs_path :: "'e objectivefs \<Rightarrow> string" where
  "ofs_path O' = to_str (field (obj_get (of_options O') ''paths'') ''objectivefs'')"

section \<open>exec\<close>

text \<open>The environment of a command: the one of the instance, then the one of the call.\<close>

definition mount_license :: "jsobj \<Rightarrow> exn + jsobj" where
  "mount_license env =
     (case obj_get env ''OBJECTIVEFS_LICENSE'' of
        Str s \<Rightarrow> Inr (if length s > 24 then obj_set ''OBJECTIVEFS_LICENSE'' (Str (take 24 s)) env else env)
      | Arr xs \<Rightarrow> if length xs > 24 then Inl (type_error ''substr is not a function'') else Inr env
      | _ \<Rightarrow> Inr env)"

definition ofs_env :: "'e objectivefs \<Rightarrow> jsobj \<Rightarrow> bool \<Rightarrow> exn + jsobj" where
  "ofs_env O' env mounting =
     (let env = obj_assign (obj_assign [] (obj_of (obj_get (of_options O') ''env''))) env in
      ebind (if mounting then mount_license env else Inr env) (\<lambda>env.
      Inr (obj_set ''PATH'' (case ho_env (of_host O') ''PATH'' of None \<Rightarrow> Undef | Some p \<Rightarrow> Str p) env)))"

definition EXIT_CODES :: "(int \<times> string) list" where
  "EXIT_CODES =
     [(64, ''administrator can not mount filesystems''), (65, ''unable to decrypt using passphrase''),
      (78, ''missing or invalid passphrase'')]"

definition explain_exit :: "int option \<Rightarrow> string \<Rightarrow> string" where
  "explain_exit code err =
     (if err = [] then (case Option.bind code (map_of EXIT_CODES) of Some s \<Rightarrow> s | None \<Rightarrow> []) else err)"

definition ofs_exec :: "'e objectivefs \<Rightarrow> string \<Rightarrow> string list \<Rightarrow> jsobj \<Rightarrow> bool \<Rightarrow> ('e world, exec_result) io" where
  "ofs_exec O' command args env mounting =
     (let (c, a) = sudo_command (of_options O') command args;
          timeout = default_timeout (of_host O') ''MOUNT_DEFAULT_TIMEOUT'' 30000 in
      bind (lift (ofs_env O' env mounting)) (\<lambda>env.
      bind (host_spawn (of_host O') c a [(''env'', Obj env), (''timeout'', timeout)]) (\<lambda>r. case r of
        SpawnFailed m \<Rightarrow> throw (Uncaught m)
      | Closed code out err killed \<Rightarrow> settle_closed code out (explain_exit code err))))"

section \<open>Filesystems\<close>

definition ofs_mount :: "'e objectivefs \<Rightarrow> jsobj \<Rightarrow> string \<Rightarrow> string \<Rightarrow> js list \<Rightarrow> ('e world, exec_result) io" where
  "ofs_mount O' env filesystem target options =
     ofs_exec O' (ofs_path O')
       ((if options \<noteq> [] then [''-o'', to_str (Arr options)] else []) @ [filesystem, target]) env True"

fun err_stdout :: "exn \<Rightarrow> string option" where
  "err_stdout (ExecReject r) = Some (er_stdout r)"
| "err_stdout _ = None"

definition stream_has :: "string option \<Rightarrow> string \<Rightarrow> bool" where
  "stream_has s p \<longleftrightarrow> (case s of Some t \<Rightarrow> contains t p | None \<Rightarrow> False)"

definition ofs_create :: "'e objectivefs \<Rightarrow> jsobj \<Rightarrow> string \<Rightarrow> string list \<Rightarrow> ('e world, unit) io" where
  "ofs_create O' env filesystem options =
     catch (bind (ofs_exec O' (ofs_path O') ([''create''] @ options @ [filesystem]) env False) (\<lambda>_. ret ()))
       (\<lambda>err. if err_code err = Some 1 \<and> stream_has (err_stderr err) ''filesystem already exists''
              then ret () else throw err)"

definition getObjectStoreFromFilesystem :: "string \<Rightarrow> js" where
  "getObjectStoreFromFilesystem filesystem =
     (if contains filesystem ''://'' then Str (before_string filesystem ''://'' @ ''://'') else Undef)"

definition stripObjectStoreFromFilesystem :: "string \<Rightarrow> string" where
  "stripObjectStoreFromFilesystem filesystem =
     (if contains filesystem ''://'' then after_string filesystem ''://'' else filesystem)"

text \<open>The safety checks before a filesystem is destroyed: it is a direct child of the configured pool.\<close>

definition ofs_safe :: "'e objectivefs \<Rightarrow> string \<Rightarrow> exn + unit" where
  "ofs_safe O' filesystem =
     (let parts = split_ch (CHR ''/'') filesystem;
          failed = Inl (js_error (''filesystem safety check failed for fs: '' @ filesystem)) in
      if length parts \<noteq> 2 \<or> parts ! 0 = [] then failed
      else ebind (as_string (obj_get (of_options O') ''pool'')) (\<lambda>pool.
           let pool = stripObjectStoreFromFilesystem pool in
           if pool = [] \<or> trim (parts ! 0) \<noteq> trim pool \<or> parts ! 1 = [] then failed else Inr ()))"

definition destroy_script :: "'e objectivefs \<Rightarrow> string \<Rightarrow> string list \<Rightarrow> string" where
  "destroy_script O' filesystem options =
     ''echo y | '' @ ofs_path O' @ '' '' @ join '' '' ([''destroy''] @ options @ [filesystem])"

definition ofs_destroy :: "'e objectivefs \<Rightarrow> jsobj \<Rightarrow> string \<Rightarrow> string list \<Rightarrow> ('e world, unit) io" where
  "ofs_destroy O' env filesystem options =
     (let filesystem = stripObjectStoreFromFilesystem filesystem in
      andthen (lift (ofs_safe O' filesystem))
        (catch (bind (ofs_exec O' ''/bin/bash'' [''-c'', destroy_script O' filesystem options] env False) (\<lambda>_. ret ()))
          (\<lambda>err. if err_code err = Some 68 \<and> stream_has (err_stdout err) ''does not look like an ObjectiveFS filesystem''
                 then ret () else throw err)))"

text \<open>A table: the headers of its first line name the fields of the others.\<close>

definition list_entry :: "string list \<Rightarrow> string \<Rightarrow> exn + jsobj" where
  "list_entry headers line =
     (let parts = split_ch (CHR 9) line in
      efold (\<lambda>entry (i, name). ebind (item parts i) (\<lambda>p. Inr (obj_set (trim name) (Str (trim p)) entry)))
        [] (enumerate 0 headers))"

definition parseListOutput :: "string \<Rightarrow> exn + jsobj list" where
  "parseListOutput data =
     (case split_ch (CHR 10) data of
        [] \<Rightarrow> Inr []
      | first # rest \<Rightarrow>
          let headers = (if first = [] then [] else map trim (split_ch (CHR 9) first)) in
          emap (list_entry headers) (filter (\<lambda>line. line \<noteq> []) rest))"

definition ofs_list :: "'e objectivefs \<Rightarrow> jsobj \<Rightarrow> string \<Rightarrow> string list \<Rightarrow> ('e world, jsobj list) io" where
  "ofs_list O' env filesystem options =
     bind (ofs_exec O' (ofs_path O') ([''list''] @ options @ (if filesystem = [] then [] else [filesystem])) env False)
       (\<lambda>r. lift (parseListOutput (er_stdout r)))"

text \<open>The method for a snapshot lists instead: the filesystem is not among the arguments.\<close>

definition ofs_snapshot :: "'e objectivefs \<Rightarrow> jsobj \<Rightarrow> string \<Rightarrow> string list \<Rightarrow> ('e world, exec_result) io" where
  "ofs_snapshot O' env filesystem options = ofs_exec O' (ofs_path O') ([''list''] @ options) env False"

section \<open>oneclient\<close>

record 'e oneclient =
  oc_options :: jsobj
  oc_host :: "'e host"

definition oneclient_options :: "jsobj \<Rightarrow> jsobj" where
  "oneclient_options options =
     (let paths = obj_of (obj_get options ''paths'');
          paths = default_to ''oneclient'' (Str ''oneclient'') paths;
          paths = default_to ''sudo'' (Str ''/usr/bin/sudo'') paths;
          paths = default_to ''chroot'' (Str ''/usr/sbin/chroot'') paths
      in obj_set ''paths'' (Obj paths) options)"

definition new_oneclient :: "jsobj \<Rightarrow> 'e host \<Rightarrow> 'e oneclient" where
  "new_oneclient options H = \<lparr>oc_options = oneclient_options options, oc_host = H\<rparr>"

definition oc_exec :: "'e oneclient \<Rightarrow> string list \<Rightarrow> ('e world, exec_result) io" where
  "oc_exec C args =
     (let (c, a) = sudo_command (oc_options C) (to_str (field (obj_get (oc_options C) ''paths'') ''oneclient'')) args in
      bind (host_spawn (oc_host C) c a [(''timeout'', default_timeout (oc_host C) ''MOUNT_DEFAULT_TIMEOUT'' 30000)])
        (\<lambda>r. case r of
           SpawnFailed m \<Rightarrow> throw (Uncaught m)
         | Closed code out err killed \<Rightarrow> settle_closed code out err))"

definition oc_mount :: "'e oneclient \<Rightarrow> string \<Rightarrow> string list \<Rightarrow> ('e world, exec_result) io" where
  "oc_mount C target options = oc_exec C (options @ [target])"

definition oc_umount :: "'e oneclient \<Rightarrow> string \<Rightarrow> ('e world, bool) io" where
  "oc_umount C target = bind (oc_exec C [''-u'', target]) (\<lambda>_. ret True)"

text \<open>For evaluation: a program is only unfolded when it is run.\<close>

lemmas objectivefs_run [code] =
  ofs_exec_def [THEN fun_cong] ofs_mount_def [THEN fun_cong] ofs_create_def [THEN fun_cong]
  ofs_destroy_def [THEN fun_cong] ofs_list_def [THEN fun_cong] ofs_snapshot_def [THEN fun_cong]
  oc_exec_def [THEN fun_cong] oc_mount_def [THEN fun_cong] oc_umount_def [THEN fun_cong]

section \<open>What the commands add to the history\<close>

definition ofs_event :: "'e objectivefs \<Rightarrow> string \<Rightarrow> string list \<Rightarrow> event" where
  "ofs_event O' command args = (case sudo_command (of_options O') command args of (c, a) \<Rightarrow> EvSpawn c a)"

lemma adds_ofs_exec [wp_intro]: "P (ofs_event O' command args) \<Longrightarrow> adds P (ofs_exec O' command args env mounting)"
  unfolding ofs_exec_def ofs_event_def
  by (auto intro!: wp_intro split: prod.splits spawn_out.splits)

lemma adds_oc_exec [wp_intro]:
  "(\<And>c a. sudo_command (oc_options C) (to_str (field (obj_get (oc_options C) ''paths'') ''oneclient'')) args = (c, a)
      \<Longrightarrow> P (EvSpawn c a)) \<Longrightarrow> adds P (oc_exec C args)"
  unfolding oc_exec_def by (auto intro!: wp_intro split: prod.splits spawn_out.splits)

section \<open>A destroyed filesystem is a child of the pool\<close>

lemma split_two:
  "length (split_ch d s) = 2 \<Longrightarrow> s = split_ch d s ! 0 @ d # split_ch d s ! 1"
  using join_split_ch [of d s] by (cases "split_ch d s"; cases "tl (split_ch d s)") auto

definition child_of_pool :: "'e objectivefs \<Rightarrow> string \<Rightarrow> bool" where
  "child_of_pool O' filesystem \<longleftrightarrow> (\<exists>p v pool. filesystem = p @ ''/'' @ v \<and> p \<noteq> [] \<and> v \<noteq> [] \<and> CHR ''/'' \<notin> set p \<and> CHR ''/'' \<notin> set v
     \<and> obj_get (of_options O') ''pool'' = Str pool \<and> trim p = trim (stripObjectStoreFromFilesystem pool))"

lemma ofs_safe_child:
  assumes "ofs_safe O' filesystem = Inr ()"
  shows "child_of_pool O' filesystem"
proof -
  let ?ps = "split_ch (CHR ''/'') filesystem"
  from assms obtain pool where p: "length ?ps = 2" "?ps ! 0 \<noteq> []" "?ps ! 1 \<noteq> []" "obj_get (of_options O') ''pool'' = Str pool"
    "trim (?ps ! 0) = trim (stripObjectStoreFromFilesystem pool)"
    by (auto simp: ofs_safe_def Let_def as_string_def ebind_eq_Inr split: if_splits js.splits)
  then have "?ps ! 0 \<in> set ?ps" "?ps ! 1 \<in> set ?ps" by simp_all
  with split_two [OF p(1)] p split_ch_fields_no_sep [of _ "CHR ''/''" filesystem] show ?thesis
    unfolding child_of_pool_def by (metis append_Cons append_Nil)
qed

lemma ofs_exec_hist:
  "\<exists>es. hist (snd (ofs_exec O' command args env mounting w)) = hist w @ es \<and> set es \<subseteq> {ofs_event O' command args} \<and> length es \<le> 1"
  by (auto simp: ofs_exec_def ofs_event_def bind_def lift_def host_spawn_def perform_def throw_def settle_closed_def ret_def
      split: prod.splits sum.splits spawn_out.splits option.splits)

lemma ofs_destroy_scope:
  assumes "ofs_destroy O' env filesystem options w = (r, w')"
  shows "hist w' = hist w \<or> child_of_pool O' (stripObjectStoreFromFilesystem filesystem)
    \<and> hist w' = hist w @ [ofs_event O' ''/bin/bash''
        [''-c'', destroy_script O' (stripObjectStoreFromFilesystem filesystem) options]]"
proof (cases "ofs_safe O' (stripObjectStoreFromFilesystem filesystem)")
  case (Inl e)
  with assms show ?thesis by (auto simp: ofs_destroy_def Let_def andthen_def bind_def lift_def)
next
  case (Inr u)
  let ?x = "ofs_exec O' ''/bin/bash'' [''-c'', destroy_script O' (stripObjectStoreFromFilesystem filesystem) options] env False"
  from Inr assms have "hist w' = hist (snd (?x w))"
    by (auto simp: ofs_destroy_def Let_def andthen_def bind_def lift_def catch_def ret_def throw_def
        split: prod.splits sum.splits if_splits)
  with ofs_exec_hist [of O' "''/bin/bash''" "[''-c'', destroy_script O' (stripObjectStoreFromFilesystem filesystem) options]" env False w]
    ofs_safe_child [of O' "stripObjectStoreFromFilesystem filesystem"] Inr
  show ?thesis by (auto simp: le_Suc_eq length_Suc_conv)
qed

section \<open>A table is parsed back\<close>

lemma set_join_notin: "c \<noteq> d \<Longrightarrow> \<forall>w\<in>set ws. c \<notin> set w \<Longrightarrow> c \<notin> set (join [d] ws)"
  by (induction "[d]" ws rule: join.induct) auto

lemma obj_set_fresh: "k \<notin> fst ` set ob \<Longrightarrow> obj_set k v ob = ob @ [(k, v)]"
  unfolding obj_set_def by (induction ob) auto

lemma list_entry_fields:
  assumes "length parts = n + length hs" and "distinct (map fst acc @ hs)"
    and "\<forall>s\<in>set hs \<union> set parts. trim s = s"
  shows "efold (\<lambda>entry (i, name). ebind (item parts i) (\<lambda>p. Inr (obj_set (trim name) (Str (trim p)) entry)))
     acc (enumerate n hs) = Inr (acc @ zip hs (map Str (drop n parts)))"
  using assms
proof (induction hs arbitrary: n acc)
  case (Cons h hs)
  then have n: "n < length parts" and "h \<notin> fst ` set acc" by auto
  with Cons.prems have "ebind (item parts n) (\<lambda>p. Inr (obj_set (trim h) (Str (trim p)) acc)) = Inr (acc @ [(h, Str (parts ! n))])"
    by (simp add: item_def obj_set_fresh)
  moreover have "drop n parts = parts ! n # drop (Suc n) parts" using n by (simp add: Cons_nth_drop_Suc)
  moreover have "efold (\<lambda>entry (i, name). ebind (item parts i) (\<lambda>p. Inr (obj_set (trim name) (Str (trim p)) entry)))
     (acc @ [(h, Str (parts ! n))]) (enumerate (Suc n) hs)
     = Inr ((acc @ [(h, Str (parts ! n))]) @ zip hs (map Str (drop (Suc n) parts)))"
    by (rule Cons.IH) (use Cons.prems in auto)
  ultimately show ?case by simp
qed simp

definition print_line :: "string list \<Rightarrow> string" where
  "print_line = join [CHR 9]"

definition plain_cell :: "string \<Rightarrow> bool" where
  "plain_cell s \<longleftrightarrow> trim s = s \<and> CHR 9 \<notin> set s \<and> CHR 10 \<notin> set s \<and> s \<noteq> []"

lemma print_line:
  assumes "ws \<noteq> []" and "list_all plain_cell ws"
  shows "split_ch (CHR 9) (print_line ws) = ws" "CHR 10 \<notin> set (print_line ws)" "print_line ws \<noteq> []"
proof -
  show "split_ch (CHR 9) (print_line ws) = ws"
    unfolding print_line_def by (rule split_join_ch) (use assms in \<open>auto simp: list_all_iff plain_cell_def\<close>)
  show "CHR 10 \<notin> set (print_line ws)"
    unfolding print_line_def by (rule set_join_notin) (use assms in \<open>auto simp: list_all_iff plain_cell_def\<close>)
  show "print_line ws \<noteq> []"
    using assms by (cases ws rule: remdups_adj.cases) (auto simp: print_line_def plain_cell_def)
qed

definition well_formed_table :: "string list \<Rightarrow> string list list \<Rightarrow> bool" where
  "well_formed_table headers rows \<longleftrightarrow> headers \<noteq> [] \<and> distinct headers \<and> list_all plain_cell headers
     \<and> list_all (\<lambda>row. length row = length headers \<and> list_all plain_cell row) rows"

text \<open>
  Parsing the output of a listing gives back, row by row, the fields of a printed table under
  its headers.
\<close>

theorem ofs_list_roundtrip:
  assumes "well_formed_table headers rows"
  shows "parseListOutput (join [CHR 10] (map print_line (headers # rows)))
    = Inr (map (\<lambda>row. zip headers (map Str row)) rows)"
proof -
  from assms have h: "headers \<noteq> []" "list_all plain_cell headers" "distinct headers" by (simp_all add: well_formed_table_def)
  have r: "row \<noteq> []" "list_all plain_cell row" "length row = length headers" if "row \<in> set rows" for row
    using assms that by (auto simp: well_formed_table_def list_all_iff)
  have "split_ch (CHR 10) (join [CHR 10] (map print_line (headers # rows))) = map print_line (headers # rows)"
    by (rule split_join_ch) (use print_line(2) [OF h(1,2)] print_line(2) [OF r(1,2)] in auto)
  moreover have "map trim (split_ch (CHR 9) (print_line headers)) = headers"
    using print_line(1) [OF h(1,2)] h(2) by (auto simp: list_all_iff plain_cell_def intro: map_idI)
  moreover have "filter (\<lambda>line. line \<noteq> []) (map print_line rows) = map print_line rows"
    using print_line(3) [OF r(1,2)] by (auto simp: filter_id_conv)
  moreover have "list_entry headers (print_line row) = Inr (zip headers (map Str row))" if "row \<in> set rows" for row
    using list_entry_fields [of row 0 headers "[]"] r [OF that] h print_line(1) [OF r(1) [OF that] r(2) [OF that]]
    by (simp add: list_entry_def list_all_iff plain_cell_def ball_Un)
  then have "emap (list_entry headers) (map print_line rows) = Inr (map (\<lambda>row. zip headers (map Str row)) rows)"
    by (induction rows) simp_all
  ultimately show ?thesis using print_line(3) [OF h(1,2)] by (simp add: parseListOutput_def)
qed

lemma ofs_list_roundtrip_witness:
  "parseListOutput (join [CHR 10] (map print_line [[''NAME'', ''KIND''], [''minio://p/v'', ''ofs'']]))
    = Inr [[(''NAME'', Str ''minio://p/v''), (''KIND'', Str ''ofs'')]]"
proof -
  have "well_formed_table [''NAME'', ''KIND''] [[''minio://p/v'', ''ofs'']]" by code_simp
  from ofs_list_roundtrip [OF this] show ?thesis by simp
qed

end
