(* ===== verification/Stage_Attach.thy ===== *)
theory Stage_Attach
  imports Node_Publish Clone_Properties Objectivefs
begin

text \<open>
  How \<open>NodeStageVolume\<close> of \<open>src/driver/index.js\<close> gets the device of a volume on a POSIX node: the
  share of a server, the iSCSI or NVMe-oF connections over every portal with their multipath
  device, or a local zfs dataset. The wait for a device node ends when the clock advances.
\<close>

section \<open>Waiting for a device\<close>

text \<open>\<open>Math.round(ms / 1000)\<close>\<close>

definition js_seconds :: "int \<Rightarrow> int" where
  "js_seconds ms = (ms + 500) div 1000"

definition wait_step :: "'e filesystem \<Rightarrow> string \<Rightarrow> ('e world, bool) io" where
  "wait_step F device = andthen (host_sleep (fs_host F) 2000) (pathExists F device)"

partial_function (option) await_device ::
  "'e filesystem \<Rightarrow> string \<Rightarrow> int \<Rightarrow> 'e world \<Rightarrow> ((exn + bool) \<times> 'e world) option" where
  "await_device F device timer_start w =
     (case wait_step F device w of
        (Inl e, w1) \<Rightarrow> Some (Inl e, w1)
      | (Inr found, w1) \<Rightarrow>
          if found then Some (Inr True, w1)
          else (case host_now (fs_host F) w1 of
                  (Inl e, w2) \<Rightarrow> Some (Inl e, w2)
                | (Inr t, w2) \<Rightarrow>
                    if js_seconds t - timer_start > 30 then Some (Inr False, w2)
                    else await_device F device timer_start w2))"

definition device_appears :: "'e filesystem \<Rightarrow> string \<Rightarrow> ('e world, bool) pio" where
  "device_appears F device =
     pbind (total (pathExists F device)) (\<lambda>e.
     pbind (total (host_now (fs_host F))) (\<lambda>t.
     if e then pret True else await_device F device (js_seconds t)))"

section \<open>iSCSI\<close>

definition split_trim :: "js \<Rightarrow> exn + string list" where
  "split_trim v = ebind (as_string v) (\<lambda>s. Inr (map trim (split_ch (CHR '','') s)))"

definition one_or_many :: "js \<Rightarrow> string \<Rightarrow> string \<Rightarrow> exn + string list" where
  "one_or_many ctx one many =
     ebind (if truthy (field ctx one) then ebind (as_string (field ctx one)) (\<lambda>s. Inr [trim s]) else Inr []) (\<lambda>a.
     ebind (if truthy (field ctx many) then split_trim (field ctx many) else Inr []) (\<lambda>b. Inr (a @ b)))"

definition full_portal :: "string \<Rightarrow> string" where
  "full_portal value = trim (if contains value '':'' then value else value @ '':3260'')"

definition iscsi_portals :: "js \<Rightarrow> exn + string list" where
  "iscsi_portals ctx = ebind (one_or_many ctx ''portal'' ''portals'') (\<lambda>ps. Inr (uniq (map full_portal ps)))"

text \<open>The attributes of the record: manual startup, then those of the secrets.\<close>

definition node_db :: "jsobj \<Rightarrow> jsobj" where
  "node_db secrets =
     foldl (\<lambda>db (k, v). if starts_with k ''node-db.'' then obj_set (drop 8 k) v db else db)
       [(''node.startup'', Str ''manual'')] secrets"

definition open_iscsi_session ::
  "'e node_driver \<Rightarrow> jsobj \<Rightarrow> string \<Rightarrow> string \<Rightarrow> ('e world, iscsi_session) io" where
  "open_iscsi_session D secrets iqn portal =
     (let iscsi = getDefaultISCSIInstance D in
      andthen (node_retry D 5 2000 (createNodeDBEntry iscsi iqn portal (node_db secrets)) no_retry_options)
     (andthen (bind (node_retry D 15 2000 (login iscsi iqn portal) no_retry_options) (\<lambda>_. ret ()))
     (bind (getSession iscsi iqn portal) (\<lambda>session.
      case session of
        None \<Rightarrow> throw (unknown (''unable to find iscsi session for iqn: '' @ iqn @ '', portal: '' @ portal))
      | Some s \<Rightarrow> ret s))))"

definition iscsi_device_path ::
  "'e node_driver \<Rightarrow> jsobj \<Rightarrow> js \<Rightarrow> string \<Rightarrow> ('e world, string) io" where
  "iscsi_device_path D secrets ctx portal =
     (let iscsi = getDefaultISCSIInstance D; iqn = to_str (field ctx ''iqn'') in
      bind (open_iscsi_session D secrets iqn portal) (\<lambda>session.
      bind (lift (parsePortal (se_portal session))) (\<lambda>p.
      andthen (bind (rescanSession iscsi (Obj [(''id'', Num (se_id session))])) (\<lambda>_. ret ()))
        (devicePathByPortalIQNLUN iscsi (po_host p @ '':'' @ num_to_string (po_port p)) iqn (field ctx ''lun'') False))))"

text \<open>The state: the last device and the devices that appeared.\<close>

definition connect_iscsi ::
  "'e node_driver \<Rightarrow> jsobj \<Rightarrow> js \<Rightarrow> string \<times> string list \<Rightarrow> string \<Rightarrow> ('e world, string \<times> string list) pio" where
  "connect_iscsi D secrets ctx st portal =
     pbind (total (iscsi_device_path D secrets ctx portal)) (\<lambda>device.
     pbind (device_appears (getDefaultFilesystemInstance D) device) (\<lambda>created.
     if \<not> created then pret (device, snd st)
     else total (bind (realpath (getDefaultFilesystemInstance D) device) (\<lambda>real. ret (real, snd st @ [real])))))"

text \<open>The device-mapper device over the given ones.\<close>

definition multipath_device :: "'e node_driver \<Rightarrow> string list \<Rightarrow> ('e world, string) io" where
  "multipath_device D devices =
     bind (getDeviceMapperDeviceFromSlaves (getDefaultFilesystemInstance D) devices False) (\<lambda>dm.
     case dm of
       Some device \<Rightarrow> if device = [] then throw (unknown ''failed to discover multipath device'') else ret device
     | None \<Rightarrow> throw (unknown ''failed to discover multipath device''))"

definition dm_multipath :: "'e node_driver \<Rightarrow> nat \<Rightarrow> string list \<Rightarrow> ('e world, bool) io" where
  "dm_multipath D connections devices =
     bind (getAllDeviceMapperSlaveDevices (getDefaultFilesystemInstance D)) (\<lambda>slaves.
     ret (connections > 1 \<or> (\<exists>d\<in>set slaves. d \<in> set devices)))"

definition choose_iscsi :: "'e node_driver \<Rightarrow> nat \<Rightarrow> string \<Rightarrow> string list \<Rightarrow> ('e world, string) io" where
  "choose_iscsi D connections device devices =
     andthen (throw_when (devices = []) (unknown ''unable to attach any iscsi devices''))
    (bind (dm_multipath D connections devices) (\<lambda>multipath.
     if multipath then multipath_device D devices else ret device))"

definition attach_iscsi :: "'e node_driver \<Rightarrow> jsobj \<Rightarrow> js \<Rightarrow> ('e world, string) pio" where
  "attach_iscsi D secrets ctx =
     pbind (total (lift (iscsi_portals ctx))) (\<lambda>portals.
     pbind (pfold_io (connect_iscsi D secrets ctx) ([], []) portals) (\<lambda>(device, devices).
     total (andthen (host_sleep (nd_host D) 2000) (choose_iscsi D (length portals) device (uniq devices)))))"

section \<open>NVMe-oF\<close>

text \<open>A step of a connection: an error makes the loop go on with the next transport.\<close>

definition attempt :: "('w, 'a) io \<Rightarrow> ('w, 'a option) io" where
  "attempt m = catch (bind m (\<lambda>x. ret (Some x))) (\<lambda>_. ret None)"

definition connection_live :: "'e node_driver \<Rightarrow> string \<Rightarrow> js \<Rightarrow> ('e world, unit) io" where
  "connection_live D nqn transport =
     bind (getSubsystemStateByNQNTransport (getDefaultNVMEoFInstance D) nqn transport) (\<lambda>state.
     throw_when (\<not> loose_eq state (Str ''live'')) (js_error ''nvmeof connection is not live''))"

definition find_controller :: "'e node_driver \<Rightarrow> string \<Rightarrow> js \<Rightarrow> ('e world, string) io" where
  "find_controller D nqn transport =
     bind (controllerDevicePathByTransportNQN (getDefaultNVMEoFInstance D) transport nqn) (\<lambda>c.
     case c of
       Some device \<Rightarrow> if device = [] then throw (js_error ''failed to find controller device'') else ret device
     | None \<Rightarrow> throw (js_error ''failed to find controller device''))"

text \<open>The condition of the retry tests the controller, so a missing namespace is not looked for again.\<close>

definition find_namespace :: "'e node_driver \<Rightarrow> string \<Rightarrow> js \<Rightarrow> js \<Rightarrow> string \<Rightarrow> ('e world, string option) io" where
  "find_namespace D nqn transport nsid controller =
     (let nvmeof = getDefaultNVMEoFInstance D in
      andthen (rescanNamespace nvmeof controller)
        (namespaceDevicePathByTransportNQNNamespace nvmeof transport nqn nsid))"

text \<open>The controller and the namespace device over one transport; None when the loop goes on.\<close>

definition nvme_devices :: "'e node_driver \<Rightarrow> js \<Rightarrow> js \<Rightarrow> ('e world, (string \<times> string) option) io" where
  "nvme_devices D ctx transport =
     (let nqn = to_str (field ctx ''nqn'') in
      bind (attempt (node_retry D 30 2000 (connectByNQNTransport (getDefaultNVMEoFInstance D) nqn transport) no_retry_options)) (\<lambda>a.
      if a = None then ret None
      else bind (attempt (node_retry D 30 2000 (connection_live D nqn transport) no_retry_options)) (\<lambda>b.
      if b = None then ret None
      else bind (attempt (node_retry D 30 2000 (find_controller D nqn transport) no_retry_options)) (\<lambda>c.
      case c of
        None \<Rightarrow> ret None
      | Some controller \<Rightarrow>
          bind (attempt (node_retry D 15 2000 (find_namespace D nqn transport (field ctx ''nsid'') controller) no_retry_options)) (\<lambda>n.
          ret (case n of
                 Some (Some namespace) \<Rightarrow> if namespace = [] then None else Some (controller, namespace)
               | _ \<Rightarrow> None))))))"

text \<open>The state: the last device, the controllers and the namespace devices.\<close>

definition connect_nvme ::
  "'e node_driver \<Rightarrow> js \<Rightarrow> string \<times> string list \<times> string list \<Rightarrow> string \<Rightarrow> ('e world, string \<times> string list \<times> string list) pio" where
  "connect_nvme D ctx st transport =
     pbind (total (nvme_devices D ctx (Str transport))) (\<lambda>found.
     case found of
       None \<Rightarrow> pret st
     | Some (controller, namespace) \<Rightarrow>
         pbind (device_appears (getDefaultFilesystemInstance D) namespace) (\<lambda>created.
         if \<not> created then pret st
         else total (bind (realpath (getDefaultFilesystemInstance D) namespace) (\<lambda>real.
                ret (real, fst (snd st) @ [controller], snd (snd st) @ [namespace])))))"

definition choose_nvme :: "'e node_driver \<Rightarrow> nat \<Rightarrow> string \<Rightarrow> string list \<Rightarrow> ('e world, string) io" where
  "choose_nvme D connections device namespaces =
     andthen (throw_when (namespaces = []) (unknown ''unable to attach any nvme devices''))
    (bind (nativeMultipathEnabled (getDefaultNVMEoFInstance D)) (\<lambda>native.
     if native then
       andthen (throw_when (length namespaces > 1)
                  (unknown ''too many nvme namespace devices, native multipath enabled therefore should only have 1''))
         (ret device)
     else bind (dm_multipath D connections namespaces) (\<lambda>multipath.
       if multipath then multipath_device D namespaces
       else andthen (throw_when (length namespaces > 1)
                       (unknown ''too many nvme namespace devices, neither DM nor native multipath enabled''))
              (ret device))))"

definition attach_nvme :: "'e node_driver \<Rightarrow> js \<Rightarrow> ('e world, string) pio" where
  "attach_nvme D ctx =
     pbind (total (lift (one_or_many ctx ''transport'' ''transports''))) (\<lambda>ts.
     let transports = uniq ts in
     pbind (pfold_io (connect_nvme D ctx) ([], [], []) transports) (\<lambda>(device, _, namespaces).
     total (andthen (host_sleep (nd_host D) 2000) (choose_nvme D (length transports) device (uniq namespaces)))))"

section \<open>Shares and local datasets\<close>

text \<open>A guest mount when no user is named; the flags are missing unless a mount is asked for.\<close>

definition smb_flags :: "js list option \<Rightarrow> js \<Rightarrow> exn + js list" where
  "smb_flags flags vgroup =
     (case flags of
        None \<Rightarrow> Inl (type_error ''some'')
      | Some fs \<Rightarrow>
          ebind (eany (\<lambda>e. ebind (as_string e) (\<lambda>s. Inr (starts_with (to_lower (trim s)) ''username=''))) fs) (\<lambda>user.
          ebind (if user then Inr True else eany (\<lambda>e. ebind (as_string e) (\<lambda>s. Inr (to_lower (trim s) = ''guest''))) fs) (\<lambda>known.
          Inr (fs @ (if known then [] else [Str ''guest'']) @ (if truthy vgroup then [Str (''gid='' @ to_str vgroup)] else [])))))"

definition attach_zfs :: "'e node_driver \<Rightarrow> js \<Rightarrow> js \<Rightarrow> ('e world, string \<times> js) io" where
  "attach_zfs D ctx fs_type =
     (let zb = getDefaultZetabyteInstance D; asset = to_str (field ctx ''zfs_asset_name'') in
      bind (zfs_get zb 2 asset (Arr [Str ''type'', Str ''mountpoint'']) []) (\<lambda>r.
      bind (lift (ebind (getp (get_js r) asset) (\<lambda>p. ebind (getp p ''type'') (\<lambda>t. getp t ''value'')))) (\<lambda>type.
      if type = Str ''filesystem'' then
        bind (lift (ebind (getp (field (get_js r) asset) ''mountpoint'') (\<lambda>m. getp m ''value''))) (\<lambda>m.
        andthen (do_when (\<not> loose_eq m (Str ''legacy''))
                   (bind (zfs_set zb 2 asset [(''mountpoint'', Str ''legacy'')]) (\<lambda>_. ret ())))
          (ret (asset, if truthy fs_type then fs_type else Str ''zfs'')))
      else if type = Str ''volume'' then ret (''/dev/zvol/'' @ asset, fs_type)
      else throw (unknown (''unknown zfs asset type: '' @ to_str type)))))"

section \<open>ObjectiveFS and oneclient\<close>

definition getDefaultObjectiveFSInstance :: "'e node_driver \<Rightarrow> 'e objectivefs" where
  "getDefaultObjectiveFSInstance D =
     new_objectivefs [(''pool'', node_opt D ''objectivefs.pool'' Undef)] (nd_host D)"

definition getDefaultOneClientInstance :: "'e node_driver \<Rightarrow> 'e oneclient" where
  "getDefaultOneClientInstance D = new_oneclient [] (nd_host D)"

text \<open>The entries \<open>env.NAME\<close> of the secrets, and those of the context over them.\<close>

definition env_entries :: "jsobj \<Rightarrow> jsobj" where
  "env_entries ob = map (\<lambda>(k, v). (drop 4 k, v)) (filter (\<lambda>(k, v). starts_with k ''env.'') ob)"

definition volume_env :: "jsobj \<Rightarrow> js \<Rightarrow> jsobj" where
  "volume_env secrets ctx = obj_assign (obj_assign [] (env_entries secrets)) (env_entries (entries ctx))"

text \<open>The object store of the environment, or the one in the name of the filesystem.\<close>

definition stage_objectivefs ::
  "'e node_driver \<Rightarrow> js \<Rightarrow> string \<Rightarrow> jsobj \<Rightarrow> js list option \<Rightarrow> ('e world, unit) io" where
  "stage_objectivefs D ctx staging secrets flags =
     (let env = volume_env secrets ctx; named = field ctx ''filesystem'' in
      andthen (throw_when (\<not> truthy named) (GrpcError FAILED_PRECONDITION ''missing ofs volume filesystem''))
     (bind (lift (as_string named)) (\<lambda>named.
      let given = obj_get env ''OBJECTSTORE'';
          store = (if truthy given then given else getObjectStoreFromFilesystem named);
          env = (if truthy given \<or> \<not> truthy store then env else obj_set ''OBJECTSTORE'' store env) in
      andthen (throw_when (\<not> truthy store)
                 (GrpcError FAILED_PRECONDITION ''missing required ofs volume env.OBJECTSTORE''))
        (let filesystem = stripObjectStoreFromFilesystem named in
         bind (deviceIsMountedAtPath (getDefaultMountInstance D) (to_str store @ filesystem) staging) (\<lambda>mounted.
         do_when (\<not> mounted)
           (bind (ofs_mount (getDefaultObjectiveFSInstance D) env filesystem staging
                    (case flags of Some fs \<Rightarrow> fs | None \<Rightarrow> [])) (\<lambda>_. ret ())))))))"

definition spaces_of :: "js \<Rightarrow> string \<Rightarrow> exn + js list" where
  "spaces_of v opt =
     (if truthy v then ebind (as_string v) (\<lambda>s. Inr (concat (map (\<lambda>space. [Str opt, Str space]) (split_ch (CHR '','') s))))
      else Inr [])"

text \<open>
  The arguments of the command, as \<open>spawn\<close> makes them strings. The flags are missing, and pushing to
  them fails, unless a mount is asked for.
\<close>

definition oneclient_args :: "js \<Rightarrow> jsobj \<Rightarrow> js list option \<Rightarrow> exn + string list" where
  "oneclient_args ctx secrets flags =
     ebind (spaces_of (field ctx ''space_names'') ''--space'') (\<lambda>names.
     ebind (spaces_of (field ctx ''space_ids'') ''--space-id'') (\<lambda>ids.
     let token = (if truthy (obj_get secrets ''token'') then obj_get secrets ''token'' else field ctx ''token'');
         added = names @ ids @ (if truthy token then [Str ''-t'', token] else []) in
     ebind (case flags of Some fs \<Rightarrow> Inr (fs @ added)
            | None \<Rightarrow> if added = [] then Inr [Undef] else Inl (type_error ''push'')) (\<lambda>fs.
     Inr (map to_str ([Str ''-H'', field ctx ''server''] @ fs)))))"

definition stage_oneclient ::
  "'e node_driver \<Rightarrow> js \<Rightarrow> string \<Rightarrow> jsobj \<Rightarrow> js list option \<Rightarrow> ('e world, unit) io" where
  "stage_oneclient D ctx staging secrets flags =
     bind (deviceIsMountedAtPath (getDefaultMountInstance D) ''oneclient'' staging) (\<lambda>mounted.
     do_when (\<not> mounted)
       (bind (lift (oneclient_args ctx secrets flags)) (\<lambda>args.
        bind (oc_mount (getDefaultOneClientInstance D) staging args) (\<lambda>_. ret ()))))"

section \<open>The device of a volume\<close>

record attached =
  at_device :: string
  at_fs_type :: js
  at_flags :: "js list option"

text \<open>None when the volume is staged already: a host path, ObjectiveFS and oneclient are mounted at once.\<close>

definition attach_volume ::
  "'e node_driver \<Rightarrow> js \<Rightarrow> js \<Rightarrow> string \<Rightarrow> jsobj \<Rightarrow> js \<Rightarrow> js list option \<Rightarrow> js \<Rightarrow> ('e world, attached option) pio" where
  "attach_volume D attach ctx staging secrets fs_type flags vgroup =
     (let on_device = (\<lambda>device. Some \<lparr>at_device = device, at_fs_type = fs_type, at_flags = flags\<rparr>);
          server = to_str (field ctx ''server''); share = to_str (field ctx ''share'') in
      if attach \<in> {Str ''nfs'', Str ''lustre''} then pret (on_device (server @ '':'' @ share))
      else if attach = Str ''smb'' then
        total (bind (lift (smb_flags flags vgroup)) (\<lambda>fs.
          ret (Some \<lparr>at_device = ''//'' @ server @ ''/'' @ share, at_fs_type = fs_type, at_flags = Some fs\<rparr>)))
      else if attach = Str ''iscsi'' then pbind (attach_iscsi D secrets ctx) (\<lambda>d. pret (on_device d))
      else if attach = Str ''nvmeof'' then pbind (attach_nvme D ctx) (\<lambda>d. pret (on_device d))
      else if attach = Str ''hostpath'' then
        total (bind (pathIsMounted (getDefaultMountInstance D) staging) (\<lambda>m.
          andthen (do_when (\<not> m) (bind (bindMount (getDefaultMountInstance D) (to_str (field ctx ''path'')) staging []) (\<lambda>_. ret ())))
            (ret None)))
      else if attach = Str ''objectivefs'' then
        total (andthen (stage_objectivefs D ctx staging secrets flags) (ret None))
      else if attach = Str ''oneclient'' then
        total (andthen (stage_oneclient D ctx staging secrets flags) (ret None))
      else if attach = Str ''zfs-local'' then
        total (bind (attach_zfs D ctx fs_type) (\<lambda>(device, t).
          ret (Some \<lparr>at_device = device, at_fs_type = t, at_flags = flags\<rparr>)))
      else pthrow (GrpcError INVALID_ARGUMENT (''unknown/unsupported node_attach_driver: '' @ to_str attach)))"

text \<open>For evaluation: a program is only unfolded when it is run.\<close>

lemmas stage_attach_run [code] =
  wait_step_def [THEN fun_cong] device_appears_def [THEN fun_cong] open_iscsi_session_def [THEN fun_cong]
  iscsi_device_path_def [THEN fun_cong] connect_iscsi_def [THEN fun_cong]
  multipath_device_def [THEN fun_cong] dm_multipath_def [THEN fun_cong] choose_iscsi_def [THEN fun_cong]
  attach_iscsi_def [THEN fun_cong] attempt_def [THEN fun_cong] connection_live_def [THEN fun_cong]
  find_controller_def [THEN fun_cong] find_namespace_def [THEN fun_cong] nvme_devices_def [THEN fun_cong]
  connect_nvme_def [THEN fun_cong] choose_nvme_def [THEN fun_cong] attach_nvme_def [THEN fun_cong]
  attach_zfs_def [THEN fun_cong] stage_objectivefs_def [THEN fun_cong] stage_oneclient_def [THEN fun_cong]
  attach_volume_def [THEN fun_cong]

end
