(* ===== verification/Node_Stage.thy ===== *)
theory Node_Stage
  imports Stage_Attach
begin

text \<open>
  \<open>NodeStageVolume\<close> of \<open>src/driver/index.js\<close> on a POSIX node: check the request, get the device,
  format it when it is not formatted, check, mount and grow its filesystem, or bind-mount the
  device for raw block access.
\<close>

section \<open>The request\<close>

text \<open>The flags of the request, of the options and of the secrets, and the group of the mount.\<close>

definition comma_flags :: "js \<Rightarrow> exn + js list" where
  "comma_flags v =
     (if truthy v then ebind (as_string v) (\<lambda>s. Inr (map Str (split_ch (CHR '','') s))) else Inr [])"

definition stage_flags :: "'e node_driver \<Rightarrow> js \<Rightarrow> jsobj \<Rightarrow> js \<Rightarrow> exn + js list \<times> js" where
  "stage_flags D capability secrets attach =
     ebind (getp capability ''mount'') (\<lambda>m.
     ebind (getp m ''mount_flags'') (\<lambda>f.
     ebind (case or_else f (Arr []) of Arr xs \<Rightarrow> Inr xs | _ \<Rightarrow> Inl (type_error ''mount_flags.push is not a function'')) (\<lambda>flags.
     ebind (comma_flags (node_opt D ''node.mount.mount_flags'' Undef)) (\<lambda>yaml.
     ebind (comma_flags (obj_get secrets ''mount_flags'')) (\<lambda>secret.
     ebind (if nd_satisfies D ''>=1.5.0'' then node_offers D ''VOLUME_MOUNT_GROUP'' else Inr False) (\<lambda>offers.
     ebind (if offers then getp m ''volume_mount_group'' else Inr Undef) (\<lambda>vgroup.
     Inr (flags @ yaml @ secret @ (if attach \<in> {Str ''objectivefs'', Str ''oneclient''} then [] else [Str ''defaults'']), vgroup))))))))"

text \<open>\<open>JSON.parse(JSON.stringify(undefined))\<close> throws.\<close>

definition stage_secrets :: "'e node_driver \<Rightarrow> jsobj \<Rightarrow> js \<Rightarrow> exn + jsobj" where
  "stage_secrets D req ctx =
     (let text = (\<lambda>v. if truthy v then to_str v else []) in
      case obj_get req ''secrets'' of
        Obj secrets \<Rightarrow>
          Inr (getNormalizedParameters (nd_options D) secrets (text (field ctx ''provisioner_driver''))
                 (text (field ctx ''provisioner_driver_instance_id'')))
      | _ \<Rightarrow> Inl (JsError ''SyntaxError'' ''JSON''))"

definition check_stage_capability :: "'e node_driver \<Rightarrow> js \<Rightarrow> js \<Rightarrow> js \<Rightarrow> exn + unit" where
  "check_stage_capability D capability ctx attach =
     (let (valid, message) = nd_assertCapabilities D [capability]
            (if loose_eq (field ctx ''provisioner_driver'') (Str ''node-manual'') then attach else Undef) in
      if valid then Inr () else Inl (GrpcError INVALID_ARGUMENT (''invalid capability: '' @ message)))"

section \<open>Formatting\<close>

definition format_options :: "'e node_driver \<Rightarrow> js \<Rightarrow> exn + string list" where
  "format_options D fs_type =
     ebind (getps (Obj (nd_options D)) [''node'', ''format'']) (\<lambda>format.
     ebind (iterate (lgetPath (nd_lodash D) format [to_str fs_type, ''customOptions''] (Arr []))) (\<lambda>custom.
     Inr ((if fs_type \<in> {Str ''ext3'', Str ''ext4'', Str ''ext4dev''} then [''-m'', ''0''] else []) @ map to_str custom)))"

definition ensure_formatted :: "'e node_driver \<Rightarrow> string \<Rightarrow> js \<Rightarrow> ('e world, unit) io" where
  "ensure_formatted D device fs_type =
     (let filesystem = getDefaultFilesystemInstance D in
      bind (deviceIsFormatted filesystem device) (\<lambda>formatted.
      do_when (\<not> formatted)
        (bind (lift (format_options D fs_type)) (\<lambda>options.
         bind (formatDevice filesystem device (to_str fs_type) options) (\<lambda>_. ret ())))))"

definition string_list :: "js \<Rightarrow> exn + string list" where
  "string_list v = ebind (iterate (or_else v (Arr []))) (\<lambda>xs. Inr (map to_str xs))"

definition check_unmounted :: "'e node_driver \<Rightarrow> string \<Rightarrow> string \<Rightarrow> js \<Rightarrow> ('e world, unit) io" where
  "check_unmounted D device staging fs_type =
     bind (deviceIsMountedAtPath (getDefaultMountInstance D) device staging) (\<lambda>mounted.
     do_when (\<not> mounted)
       (bind (lift (ebind (getps (Obj (nd_options D)) [''node'', ''mount'', ''checkFilesystem'']) (\<lambda>c. getp c (to_str fs_type)))) (\<lambda>c.
        let settings = or_else c (Obj []) in
        do_when (truthy (field settings ''enabled''))
          (bind (lift (string_list (field settings ''customOptions''))) (\<lambda>options.
           bind (lift (string_list (field settings ''customFilesystemOptions''))) (\<lambda>fsoptions.
           bind (checkFilesystem (getDefaultFilesystemInstance D) device (to_str fs_type) options fsoptions) (\<lambda>_. ret ())))))))"

text \<open>
  The partition that holds the data: the last one of a device with partitions, and for ntfs the
  largest one of a device that is partitioned now.
\<close>

definition data_partition :: "'e node_driver \<Rightarrow> string \<Rightarrow> js \<Rightarrow> ('e world, string) pio" where
  "data_partition D device fs_type =
     (let filesystem = getDefaultFilesystemInstance D in
      pbind (total (getBlockDevicePartitionCount filesystem device)) (\<lambda>count.
      pbind (if count > 0 then
               pbind (total (bind (getBlockDeviceLastPartition filesystem device) (\<lambda>d. lift (as_string d)))) (\<lambda>d.
               pbind (expandPartition filesystem d) (\<lambda>_. pret d))
             else pret device) (\<lambda>device.
      if loose_eq fs_type (Str ''ntfs'') \<and> count < 1 then
        total (andthen (partitionDeviceWindows filesystem device)
                 (bind (getBlockDeviceLargestPartition filesystem device) (\<lambda>d. lift (as_string d))))
      else pret device)))"

text \<open>The device to mount and the type found on it.\<close>

definition prepare_block ::
  "'e node_driver \<Rightarrow> string \<Rightarrow> string \<Rightarrow> js \<Rightarrow> ('e world, string \<times> js) pio" where
  "prepare_block D device staging fs_type =
     (let filesystem = getDefaultFilesystemInstance D; fs_type = or_else fs_type (Str ''ext4'') in
      pbind (data_partition D device fs_type) (\<lambda>device.
      total (bind (isBlockDevice filesystem device) (\<lambda>block.
        if \<not> block then ret (device, fs_type)
        else andthen (ensure_formatted D device fs_type)
            (bind (getDeviceFilesystemInfo filesystem device) (\<lambda>info.
             let fs_type = obj_get info ''type'' in
             andthen (check_unmounted D device staging fs_type) (ret (device, fs_type))))))))"

section \<open>Mounting\<close>

definition default_fs_type :: "js \<Rightarrow> js \<Rightarrow> js" where
  "default_fs_type attach fs_type =
     (if truthy fs_type then fs_type
      else if attach = Str ''nfs'' then Str ''nfs''
      else if attach = Str ''lustre'' then Str ''lustre''
      else if attach = Str ''smb'' then Str ''cifs''
      else if attach \<in> {Str ''iscsi'', Str ''nvmeof''} then Str ''ext4''
      else fs_type)"

definition windows_fs :: "js set" where
  "windows_fs = {Str ''exfat'', Str ''ntfs'', Str ''vfat''}"

definition mount_at :: "'e node_driver \<Rightarrow> string \<Rightarrow> string \<Rightarrow> js \<Rightarrow> js list \<Rightarrow> ('e world, unit) io" where
  "mount_at D device staging fs_type flags =
     bind (mount (getDefaultMountInstance D) device staging [''-t'', to_str fs_type, ''-o'', to_str (Arr flags)]) (\<lambda>_. ret ())"

definition final_flags :: "js \<Rightarrow> js list \<Rightarrow> js \<Rightarrow> js list" where
  "final_flags fs_type flags vgroup =
     flags @ (if truthy vgroup \<and> fs_type \<in> windows_fs then [Str (''gid='' @ to_str vgroup)] else [])
       @ (if fs_type = Str ''xfs'' then [Str ''nouuid''] else [])"

text \<open>The result is the list of flags, which the mount extends.\<close>

definition mount_device ::
  "'e node_driver \<Rightarrow> string \<Rightarrow> string \<Rightarrow> js \<Rightarrow> js list \<Rightarrow> js \<Rightarrow> ('e world, js list) io" where
  "mount_device D device staging fs_type flags vgroup =
     (let filesystem = getDefaultFilesystemInstance D in
      bind (deviceIsMountedAtPath (getDefaultMountInstance D) device staging) (\<lambda>mounted.
      if mounted then ret flags
      else bind (isBlockDevice filesystem device) (\<lambda>block.
        andthen (do_when (block \<and> fs_type \<in> windows_fs)
                  (bind (expandFilesystem filesystem device (to_str fs_type) []) (\<lambda>_. ret ())))
       (andthen (mount_at D device staging (if loose_eq fs_type (Str ''ntfs'') then Str ''ntfs3'' else fs_type)
                   (final_flags fs_type flags vgroup))
          (ret (final_flags fs_type flags vgroup))))))"

text \<open>The resize that only succeeds after a clean unmount.\<close>

definition needs_remount :: "exn \<Rightarrow> bool" where
  "needs_remount err \<longleftrightarrow>
     err_code err = Some 1
     \<and> stream_has (err_stdout err) ''find valid filesystem superblock''
     \<and> stream_has (err_stderr err) ''checksum does not match superblock''"

definition grow_mounted ::
  "'e node_driver \<Rightarrow> string \<Rightarrow> string \<Rightarrow> js \<Rightarrow> js list \<Rightarrow> ('e world, unit) io" where
  "grow_mounted D device staging fs_type flags =
     (let filesystem = getDefaultFilesystemInstance D;
          grow = (\<lambda>d. bind (expandFilesystem filesystem d (to_str fs_type) []) (\<lambda>_. ret ())) in
      bind (isBlockDevice filesystem device) (\<lambda>block.
      if \<not> block then ret ()
      else if fs_type \<in> {Str ''ext3'', Str ''ext4'', Str ''ext4dev''} then
        catch (grow device)
          (\<lambda>err. if needs_remount err
                 then andthen (bind (umount (getDefaultMountInstance D) staging []) (\<lambda>_. ret ()))
                     (andthen (mount_at D device staging fs_type flags) (grow device))
                 else throw err)
      else if fs_type \<in> {Str ''btrfs'', Str ''xfs''} then grow staging
      else if fs_type \<in> windows_fs then ret ()
      else throw (GrpcError FAILED_PRECONDITION (''unsupported/unknown filesystem '' @ to_str fs_type))))"

definition stage_block :: "'e node_driver \<Rightarrow> string \<Rightarrow> string \<Rightarrow> ('e world, unit) io" where
  "stage_block D device staging =
     (let filesystem = getDefaultFilesystemInstance D; mount = getDefaultMountInstance D;
          block_path = staging @ ''/block_device'' in
      bind (deviceIsMountedAtPath mount ''dev'' block_path) (\<lambda>mounted.
      do_when (\<not> mounted)
        (andthen (ensure_directory filesystem staging)
        (andthen (bind (pathExists filesystem block_path) (\<lambda>e. do_when (\<not> e) (touch filesystem block_path [])))
           (bind (bindMount mount device block_path [''-o'', ''defaults'']) (\<lambda>_. ret ()))))))"

definition is_block_attach :: "js \<Rightarrow> string \<Rightarrow> bool" where
  "is_block_attach attach device \<longleftrightarrow>
     attach \<in> {Str ''iscsi'', Str ''nvmeof''} \<or> attach = Str ''zfs-local'' \<and> starts_with device ''/dev/zvol/''"

definition stage_mount ::
  "'e node_driver \<Rightarrow> js \<Rightarrow> string \<Rightarrow> attached \<Rightarrow> js \<Rightarrow> ('e world, unit) pio" where
  "stage_mount D attach staging a vgroup =
     pbind (if is_block_attach attach (at_device a) then prepare_block D (at_device a) staging (at_fs_type a)
            else pret (at_device a, at_fs_type a)) (\<lambda>(device, found).
     let fs_type = default_fs_type attach found in
     total (bind (mount_device D device staging fs_type (case at_flags a of Some fs \<Rightarrow> fs | None \<Rightarrow> []) vgroup) (\<lambda>flags.
       grow_mounted D device staging fs_type flags)))"

section \<open>NodeStageVolume\<close>

definition stage_device ::
  "'e node_driver \<Rightarrow> js \<Rightarrow> js \<Rightarrow> string \<Rightarrow> attached \<Rightarrow> js \<Rightarrow> ('e world, unit) pio" where
  "stage_device D attach access_type staging a vgroup =
     (if access_type = Str ''mount'' then stage_mount D attach staging a vgroup
      else if access_type = Str ''block'' then total (stage_block D (at_device a) staging)
      else pthrow (GrpcError INVALID_ARGUMENT (''unknown/unsupported access_type: '' @ to_str access_type)))"

definition stage_posix ::
  "'e node_driver \<Rightarrow> js \<Rightarrow> js \<Rightarrow> js \<Rightarrow> string \<Rightarrow> jsobj \<Rightarrow> js \<Rightarrow> js list option \<Rightarrow> js \<Rightarrow> ('e world, unit) pio" where
  "stage_posix D attach ctx access_type staging secrets fs_type flags vgroup =
     pbind (total (ensure_directory (getDefaultFilesystemInstance D) staging)) (\<lambda>_.
     pbind (attach_volume D attach ctx staging secrets fs_type flags vgroup) (\<lambda>a.
     case a of None \<Rightarrow> pret () | Some a \<Rightarrow> stage_device D attach access_type staging a vgroup))"

record stage_request =
  sr_attach :: js
  sr_context :: js
  sr_access :: js
  sr_secrets :: jsobj
  sr_flags :: "js list option"
  sr_vgroup :: js

text \<open>The part of the request that is checked before anything is done.\<close>

definition stage_checks :: "'e node_driver \<Rightarrow> jsobj \<Rightarrow> exn + stage_request" where
  "stage_checks D req =
     (let capability = obj_get req ''volume_capability''; ctx = obj_get req ''volume_context'' in
      if \<not> truthy (obj_get req ''volume_id'') then Inl (GrpcError INVALID_ARGUMENT ''missing volume_id'')
      else if \<not> truthy (obj_get req ''staging_target_path'') then Inl (GrpcError INVALID_ARGUMENT ''missing staging_target_path'')
      else if no_capability capability then Inl (GrpcError INVALID_ARGUMENT ''missing capability'')
      else ebind (getp capability ''access_type'') (\<lambda>a.
           ebind (getp ctx ''node_attach_driver'') (\<lambda>attach.
           ebind (stage_secrets D req ctx) (\<lambda>secrets.
           let access = or_else a (Str ''mount'') in
           ebind (if loose_eq access (Str ''mount'')
                  then ebind (stage_flags D capability secrets attach) (\<lambda>(flags, g). Inr (Some flags, g))
                  else Inr (None, Undef)) (\<lambda>(flags, g).
           ebind (check_stage_capability D capability ctx attach) (\<lambda>_.
           Inr \<lparr>sr_attach = attach, sr_context = ctx, sr_access = access, sr_secrets = secrets,
                sr_flags = flags, sr_vgroup = g\<rparr>))))))"

definition NodeStageVolume :: "'e node_driver \<Rightarrow> jsobj \<Rightarrow> ('e world, jsobj) pio" where
  "NodeStageVolume D req =
     pbind (total (lift (stage_checks D req))) (\<lambda>s.
     on_posix D
       (pbind (stage_posix D (sr_attach s) (sr_context s) (sr_access s) (to_str (obj_get req ''staging_target_path''))
                 (sr_secrets s) (lget (nd_lodash D) (obj_get req ''volume_capability'') ''mount.fs_type'' Undef)
                 (sr_flags s) (sr_vgroup s))
          (\<lambda>_. pret [])))"

text \<open>For evaluation: a program is only unfolded when it is run.\<close>

lemmas node_stage_run [code] =
  ensure_formatted_def [THEN fun_cong] check_unmounted_def [THEN fun_cong] data_partition_def [THEN fun_cong]
  prepare_block_def [THEN fun_cong] mount_at_def [THEN fun_cong] mount_device_def [THEN fun_cong]
  grow_mounted_def [THEN fun_cong] stage_block_def [THEN fun_cong] stage_mount_def [THEN fun_cong]
  stage_device_def [THEN fun_cong] stage_posix_def [THEN fun_cong] NodeStageVolume_def [THEN fun_cong]

end
