(* ===== verification/Stage_Safety.thy ===== *)
theory Stage_Safety
  imports Node_Stage
begin

text \<open>
  What \<open>NodeStageVolume\<close> guarantees: that it returns, what is mounted when it succeeds, which
  device of a multipath volume it uses, and that it formats a device only when the device was
  found blank.
\<close>

section \<open>The clock\<close>

text \<open>
  A clock that is not set back: it does not go back while it is read or a file is looked up, and a
  sleep takes at least its time.
\<close>

definition clock_runs :: "('e \<Rightarrow> int) \<Rightarrow> 'e host \<Rightarrow> bool" where
  "clock_runs c H \<longleftrightarrow>
     (\<forall>e. fst (ho_now H e) = c e \<and> c e \<le> c (snd (ho_now H e)))
     \<and> (\<forall>ms e. c e + max 0 ms \<le> c (ho_sleep H ms e)) \<and> (\<forall>p e. c e \<le> c (snd (ho_stat H p e)))"

definition no_earlier :: "('e \<Rightarrow> int) \<Rightarrow> ('e world, 'a) io \<Rightarrow> bool" where
  "no_earlier c m \<longleftrightarrow> (\<forall>w. c (ext w) \<le> c (ext (snd (m w))))"

named_theorems no_earlier_intro

lemma no_earlierD: "no_earlier c m \<Longrightarrow> m w = (r, w') \<Longrightarrow> c (ext w) \<le> c (ext w')"
  unfolding no_earlier_def by (metis snd_conv)

lemma no_earlier_basic [no_earlier_intro]: "no_earlier c (ret x)" "no_earlier c (throw e)"
  by (simp_all add: no_earlier_def ret_def throw_def)

lemma no_earlier_bind [no_earlier_intro]:
  assumes "no_earlier c m" and "\<And>x. no_earlier c (f x)"
  shows "no_earlier c (bind m f)"
  unfolding no_earlier_def
proof
  fix w
  obtain r w1 where m: "m w = (r, w1)" by force
  note 1 = no_earlierD [OF assms(1) this]
  show "c (ext w) \<le> c (ext (snd (bind m f w)))"
  proof (cases r)
    case (Inr x)
    have "c (ext w1) \<le> c (ext (snd (f x w1)))" using assms(2) by (simp add: no_earlier_def)
    with 1 m Inr show ?thesis by (simp add: bind_def)
  qed (use 1 m in \<open>simp add: bind_def\<close>)
qed

lemma no_earlier_catch [no_earlier_intro]:
  assumes "no_earlier c m" and "\<And>e. no_earlier c (h e)"
  shows "no_earlier c (catch m h)"
  unfolding no_earlier_def
proof
  fix w
  obtain r w1 where m: "m w = (r, w1)" by force
  note 1 = no_earlierD [OF assms(1) this]
  have "c (ext w1) \<le> c (ext (snd (h e w1)))" for e using assms(2) by (simp add: no_earlier_def)
  with 1 m show "c (ext w) \<le> c (ext (snd (catch m h w)))"
    by (auto simp: catch_def split: sum.splits intro: order.trans)
qed

lemma no_earlier_if [no_earlier_intro]: "(b \<Longrightarrow> no_earlier c m) \<Longrightarrow> (\<not> b \<Longrightarrow> no_earlier c n) \<Longrightarrow> no_earlier c (if b then m else n)"
  by simp

lemma no_earlier_case_option [no_earlier_intro]:
  "no_earlier c n \<Longrightarrow> (\<And>x. no_earlier c (f x)) \<Longrightarrow> no_earlier c (case v of None \<Rightarrow> n | Some x \<Rightarrow> f x)"
  by (cases v) auto

lemma no_earlier_andthen [no_earlier_intro]: "no_earlier c m \<Longrightarrow> no_earlier c n \<Longrightarrow> no_earlier c (andthen m n)"
  unfolding andthen_def by (intro no_earlier_intro)

lemma no_earlier_do_when [no_earlier_intro]: "no_earlier c m \<Longrightarrow> no_earlier c (do_when b m)"
  unfolding do_when_def by (intro no_earlier_intro)

lemma no_earlier_host [no_earlier_intro]:
  assumes "clock_runs c H"
  shows "no_earlier c (host_sleep H ms)" "no_earlier c (host_now H)" "no_earlier c (host_stat H p)"
proof -
  have "c e + max 0 ms \<le> c (ho_sleep H ms e)" for e using assms by (simp add: clock_runs_def)
  then have "c e \<le> c (ho_sleep H ms e)" for e by (meson le_add_same_cancel1 max.cobounded1 order.trans)
  then show "no_earlier c (host_sleep H ms)" by (simp add: no_earlier_def host_sleep_def perform_def)
  show "no_earlier c (host_now H)" "no_earlier c (host_stat H p)"
    using assms by (auto simp: no_earlier_def host_now_def host_stat_def perform_def clock_runs_def case_prod_beta)
qed

lemma no_earlier_retry_loop:
  assumes "no_earlier c code" and "no_earlier c now" and "\<And>ms. no_earlier c (sleep ms)"
  shows "c (ext w) \<le> c (ext (snd (retry_loop sleep now n d code opts k w)))"
proof (induction "nat (n - k)" arbitrary: k w rule: less_induct)
  case less
  have pause: "no_earlier c (retry_pause sleep now opts d (k + 1) t)" for t
    unfolding retry_pause_def Let_def by (auto intro!: no_earlier_intro assms(2,3))
  have again: "c (ext w') \<le> c (ext (snd (retry_loop sleep now n d code opts (k + 1) w')))" if "k + 1 < n" for w'
    using that by (intro less) simp
  obtain r0 w0 where 0: "now w = (r0, w0)" by force
  note l0 = no_earlierD [OF assms(2) 0]
  obtain r1 w1 where 1: "code w0 = (r1, w1)" by force
  note l1 = order.trans [OF l0 no_earlierD [OF assms(1) 1]]
  show ?case
  proof (cases "\<exists>t0 err. r0 = Inr t0 \<and> r1 = Inl err \<and> catchable err \<and> k + 1 < n
      \<and> \<not> (case ro_retryCondition opts of Some c \<Rightarrow> \<not> c err | None \<Rightarrow> False)")
    case True
    then obtain t0 err where e: "r0 = Inr t0" "r1 = Inl err" "catchable err" "k + 1 < n"
      "\<not> (case ro_retryCondition opts of Some c \<Rightarrow> \<not> c err | None \<Rightarrow> False)" by blast
    obtain r2 w2 where 2: "retry_pause sleep now opts d (k + 1) t0 w1 = (r2, w2)" by force
    note l2 = order.trans [OF l1 no_earlierD [OF pause 2]]
    from e 0 1 2 have "retry_loop sleep now n d code opts k w = (case r2 of Inl e \<Rightarrow> (Inl e, w2)
        | Inr _ \<Rightarrow> retry_loop sleep now n d code opts (k + 1) w2)"
      by (subst retry_loop.simps) (auto split: sum.splits)
    with l2 order.trans [OF l2 again [OF e(4), of w2]] show ?thesis by (auto split: sum.splits)
  next
    case False
    with 0 1 have "snd (retry_loop sleep now n d code opts k w) \<in> {w0, w1}"
      by (subst retry_loop.simps) (auto split: sum.splits)
    with l0 l1 show ?thesis by auto
  qed
qed

lemma no_earlier_pathExists:
  "clock_runs c (fs_host F) \<Longrightarrow> no_earlier c (pathExists F p)"
  unfolding pathExists_def statSync_def retry_def no_earlier_def [of _ "retry_loop _ _ _ _ _ _ _"]
  by (intro no_earlier_intro) (auto simp: no_earlier_def [of _ "retry_loop _ _ _ _ _ _ _"] intro!: no_earlier_retry_loop no_earlier_intro)

section \<open>The wait for a device ends\<close>

lemma wait_step_no_earlier:
  assumes "clock_runs c (fs_host F)" and "wait_step F device w = (Inr b, w')"
  shows "c (ext w) + 2000 \<le> c (ext w')"
proof -
  from assms(2) obtain w1 where s: "host_sleep (fs_host F) 2000 w = (Inr (), w1)" "pathExists F device w1 = (Inr b, w')"
    by (auto simp: wait_step_def andthen_Inr)
  have "\<forall>ms e. c e + max 0 ms \<le> c (ho_sleep (fs_host F) ms e)" using assms(1) by (simp add: clock_runs_def)
  then have "c (ext w) + 2000 \<le> c (ho_sleep (fs_host F) 2000 (ext w))" by (metis max.absorb2 zero_le_numeral)
  with s(1) have "c (ext w) + 2000 \<le> c (ext w1)" by (auto simp: host_sleep_def perform_def)
  with no_earlierD [OF no_earlier_pathExists [OF assms(1)] s(2)] show ?thesis by simp
qed

lemma await_device_settles:
  assumes "clock_runs c (fs_host F)"
  shows "await_device F device t0 w \<noteq> None"
proof (induction "nat (1000 * (t0 + 31) - c (ext w))" arbitrary: w rule: less_induct)
  case less
  obtain r w1 where s: "wait_step F device w = (r, w1)" by force
  obtain t w2 where n: "host_now (fs_host F) w1 = (Inr t, w2)" "t = c (ext w1)" "c (ext w1) \<le> c (ext w2)"
    using assms by (auto simp: clock_runs_def host_now_def perform_def case_prod_beta)
  have "await_device F device t0 w2 \<noteq> None" if "r = Inr False" "\<not> js_seconds t - t0 > 30"
  proof (rule less)
    from that s have "c (ext w) + 2000 \<le> c (ext w1)" by (intro wait_step_no_earlier [OF assms]) simp
    moreover from that(2) n(2) have "c (ext w1) < 1000 * (t0 + 31)" by (simp add: js_seconds_def)
    ultimately show "nat (1000 * (t0 + 31) - c (ext w2)) < nat (1000 * (t0 + 31) - c (ext w))" using n(3) by linarith
  qed
  with s n(1) show ?case by (subst await_device.simps) (auto split: sum.splits)
qed

lemma returns_device_appears:
  assumes "clock_runs c (fs_host F)"
  shows "returns (device_appears F device)"
proof -
  have "returns (await_device F device t)" for t
    using await_device_settles [OF assms] by (simp add: returns_def)
  then show ?thesis unfolding device_appears_def by (auto intro!: returns_intro)
qed

section \<open>A stage returns\<close>

lemma expandPartition_program:
  "expandPartition F d = pbind (total (bind (getBlockDevice F d) (\<lambda>_. getDeviceFilesystemInfo F d))) (\<lambda>info.
     pbind (getBlockDeviceParent F d) (\<lambda>parent.
     total (catch (fs_run F ''growpart'' [to_str (field parent ''path''), to_str (obj_get info ''part_entry_number'')])
              (\<lambda>_. ret ()))))"
  by (rule ext) (simp add: expandPartition_def pbind_def total_def split: prod.splits sum.splits option.splits)

lemma returns_attach:
  assumes "clock_runs c (nd_host D)"
  shows "returns (attach_volume D attach ctx staging secrets fs_type flags vgroup)"
proof -
  have w: "returns (device_appears (getDefaultFilesystemInstance D) device)" for device
    by (rule returns_device_appears [of c]) (simp add: assms)
  have "returns (attach_iscsi D secrets ctx)"
    unfolding attach_iscsi_def connect_iscsi_def by (auto intro!: returns_intro w split: prod.splits)
  moreover have "returns (attach_nvme D ctx)"
    unfolding attach_nvme_def connect_nvme_def Let_def by (auto intro!: returns_intro w split: prod.splits option.splits)
  ultimately show ?thesis unfolding attach_volume_def Let_def by (auto intro!: returns_intro)
qed

lemma returns_prepare_block:
  assumes "parents_descend rank (getDefaultFilesystemInstance D)"
  shows "returns (prepare_block D device staging fs_type)"
  unfolding prepare_block_def data_partition_def expandPartition_program Let_def
  by (auto intro!: returns_intro returns_parent [OF assms])

text \<open>
  C23: when the parents of block devices form no cycle and the clock of the node is not set back,
  NodeStageVolume returns for every request: the wait for a device node ends after its thirty
  seconds, and so do the retries and the loops over portals and transports.
\<close>

theorem stage_returns:
  assumes "parents_descend rank (getDefaultFilesystemInstance D)" and "clock_runs c (nd_host D)"
  shows "\<exists>r w'. NodeStageVolume D req w = Some (r, w')"
proof -
  have "returns (NodeStageVolume D req)"
    unfolding NodeStageVolume_def on_posix_def stage_posix_def stage_device_def stage_mount_def Let_def
    by (auto intro!: returns_intro returns_attach [OF assms(2)] returns_prepare_block [OF assms(1)]
        split: node_os.splits option.splits prod.splits)
  then show ?thesis by (rule returnsD)
qed

section \<open>What is formatted\<close>

text \<open>
  A device is formatted only when it was found without a filesystem; a partition table is written
  only for ntfs.
\<close>

definition spares_data :: "'e node_driver \<Rightarrow> js \<Rightarrow> event \<Rightarrow> bool" where
  "spares_data D fs_type ev \<longleftrightarrow>
     (\<forall>t a. ev = EvSpawn (''mkfs.'' @ t) a \<longrightarrow> outcome (deviceIsFormatted (getDefaultFilesystemInstance D) (last a)) (Inr False))
     \<and> (\<forall>a. ev = EvSpawn ''sfdisk'' a \<longrightarrow> loose_eq fs_type (Str ''ntfs''))"

lemma spares_data [simp]:
  "spares_data D f (EvSpawn c a) \<longleftrightarrow>
     (starts_with c ''mkfs.'' \<longrightarrow> outcome (deviceIsFormatted (getDefaultFilesystemInstance D) (last a)) (Inr False))
     \<and> (c = ''sfdisk'' \<longrightarrow> loose_eq f (Str ''ntfs''))"
  "spares_data D f (EvSleep n)" "spares_data D f (EvHost k x)"
  by (auto simp: spares_data_def starts_with_iff_prefix)

lemma query_spares: "query ev \<Longrightarrow> spares_data D f ev"
  by (cases ev) (auto simp: query_command_def starts_with_def)

lemma adds_update_attempts [wp_intro]:
  "(\<And>ev. query ev \<Longrightarrow> P ev) \<Longrightarrow> (\<And>a. P (EvSpawn ''iscsiadm'' a)) \<Longrightarrow> adds P (update_attempts (getDefaultISCSIInstance D) a n)"
  by (induction n arbitrary: a) (auto intro!: wp_intro)

lemma adds_stage_iscsi [wp_intro]:
  assumes "\<And>ev. query ev \<Longrightarrow> P ev" and "\<And>a. P (EvSpawn ''iscsiadm'' a)"
  shows "adds P (iscsi_device_path D secrets ctx portal)"
  unfolding iscsi_device_path_def open_iscsi_session_def createNodeDBEntry_def login_def rescanSession_def node_retry_def Let_def
  by (auto intro!: wp_intro assms(2) intro: assms(1))

lemma adds_stage_nvme [wp_intro]:
  assumes "\<And>ev. query ev \<Longrightarrow> P ev" and "\<And>a. P (EvSpawn ''nvme'' a)"
  shows "adds P (nvme_devices D ctx transport)"
  unfolding nvme_devices_def attempt_def connectByNQNTransport_def connection_live_def find_controller_def find_namespace_def
    rescanNamespace_def node_retry_def Let_def
  by (auto intro!: wp_intro assms(2) intro: assms(1))

lemma await_device_adds:
  "await_device F device t0 w = Some y \<Longrightarrow> adds P (wait_step F device) \<Longrightarrow> adds P (host_now (fs_host F))
   \<Longrightarrow> \<exists>es. hist (snd y) = hist w @ es \<and> list_all P es"
proof (induction rule: await_device.raw_induct [rotated 1, consumes 1])
  case (1 await F device t0 w y)
  obtain r1 w1 where s: "wait_step F device w = (r1, w1)" by force
  with "1.prems" have h: "\<exists>es. hist w1 = hist w @ es \<and> list_all P es" by (metis addsD snd_conv)
  obtain r2 w2 where n: "host_now (fs_host F) w1 = (r2, w2)" by force
  with "1.prems" have "\<exists>es. hist w2 = hist w1 @ es \<and> list_all P es" by (metis addsD snd_conv)
  note h2 = adds_append [OF h this]
  show ?case
  proof (cases "r1 = Inr False \<and> (\<exists>t. r2 = Inr t \<and> \<not> js_seconds t - t0 > 30)")
    case True
    with s n "1.hyps" have "await F device t0 w2 = Some y" by auto
    from adds_append [OF h2 "1.IH" [OF this "1.prems"]] show ?thesis .
  next
    case False
    then have "snd y = w1 \<or> snd y = w2" using "1.hyps" unfolding s by (auto simp: n split: sum.splits if_splits)
    with h h2 show ?thesis by auto
  qed
qed

lemma padds_device_appears [wp_intro]:
  assumes "\<And>ev. query ev \<Longrightarrow> P ev"
  shows "padds P (device_appears (getDefaultFilesystemInstance D) device)"
proof -
  have "adds P (wait_step (getDefaultFilesystemInstance D) device)"
    unfolding wait_step_def by (auto intro!: wp_intro intro: assms)
  moreover have "adds P (host_now (fs_host (getDefaultFilesystemInstance D)))" by (intro wp_intro) (simp_all add: assms)
  ultimately have "padds P (await_device (getDefaultFilesystemInstance D) device t)" for t
    using await_device_adds by (fastforce simp: padds_def)
  then show ?thesis unfolding device_appears_def by (auto intro!: wp_intro intro: assms)
qed

lemma padds_attach [wp_intro]:
  assumes "\<And>ev. query ev \<Longrightarrow> P ev" and "\<And>a. P (EvSpawn ''iscsiadm'' a)" and "\<And>a. P (EvSpawn ''nvme'' a)"
  shows "padds P (attach_iscsi D secrets ctx)" "padds P (attach_nvme D ctx)"
  unfolding attach_iscsi_def attach_nvme_def connect_iscsi_def connect_nvme_def choose_iscsi_def choose_nvme_def
    multipath_device_def dm_multipath_def Let_def
  by (auto intro!: wp_intro assms(2,3) intro: assms(1) split: prod.splits option.splits)

lemma node_zfs_command [simp]: "zfs_command (getDefaultZetabyteInstance D) args = (''zfs'', args)"
proof -
  let ?Z = "getDefaultZetabyteInstance D"
  have "zb_opt ?Z ''chroot'' = Undef" "zb_opt ?Z ''sudo'' = Undef" "zb_path ?Z ''zfs'' = ''zfs''"
    by (simp_all add: zb_opt_def zb_path_def getDefaultZetabyteInstance_def new_zetabyte_def zetabyte_options_def default_to_def
        field_def obj_get_def obj_has_def obj_set_def)
  then show ?thesis by (simp add: zfs_command_def exec_command_def timeout_opts_def obj_has_def)
qed

lemma node_zfs_event: "zfs_event (getDefaultZetabyteInstance D) args = EvSpawn ''zfs'' args"
  by (simp add: zfs_event_def)

lemma adds_attach_zfs: "adds (spares_data D f) (attach_zfs D ctx fs_type)"
  unfolding attach_zfs_def zfs_get_def zfs_set_def Let_def
  by (auto intro!: wp_intro simp: node_zfs_event starts_with_def split: prod.splits)

lemma node_objectivefs [simp]:
  "ofs_event (getDefaultObjectiveFSInstance D) c a = EvSpawn c a"
  "ofs_path (getDefaultObjectiveFSInstance D) = ''mount.objectivefs''"
  by (simp_all add: ofs_event_def ofs_path_def sudo_command_def getDefaultObjectiveFSInstance_def new_objectivefs_def
      objectivefs_options_def default_to_def field_def obj_get_def obj_set_def)

lemma adds_stage_objectivefs [wp_intro]:
  assumes "\<And>ev. query ev \<Longrightarrow> P ev" and "\<And>a. P (EvSpawn ''mount.objectivefs'' a)"
  shows "adds P (stage_objectivefs D ctx staging secrets flags)"
  unfolding stage_objectivefs_def ofs_mount_def Let_def by (auto intro!: wp_intro assms(2) intro: assms(1))

lemma node_oneclient:
  "sudo_command (oc_options (getDefaultOneClientInstance D)) c a = (c, a)"
  "to_str (field (obj_get (oc_options (getDefaultOneClientInstance D)) ''paths'') ''oneclient'') = ''oneclient''"
  by (simp_all add: sudo_command_def getDefaultOneClientInstance_def new_oneclient_def oneclient_options_def default_to_def
      field_def obj_get_def obj_set_def)

lemma adds_stage_oneclient [wp_intro]:
  assumes "\<And>ev. query ev \<Longrightarrow> P ev" and "\<And>a. P (EvSpawn ''oneclient'' a)"
  shows "adds P (stage_oneclient D ctx staging secrets flags)"
  unfolding stage_oneclient_def oc_mount_def by (auto intro!: wp_intro intro: assms simp: node_oneclient)

lemma padds_attach_volume:
  "padds (spares_data D f) (attach_volume D attach ctx staging secrets fs_type flags vgroup)"
proof -
  have b: "adds (spares_data D f) (bindMount (getDefaultMountInstance D) path staging [])" for path
    by (intro wp_intro) (simp add: starts_with_def)
  have m: "adds (spares_data D f) (pathIsMounted (getDefaultMountInstance D) staging)"
    by (auto intro!: wp_intro intro: query_spares)
  have o': "adds (spares_data D f) (stage_objectivefs D ctx staging secrets flags)"
    "adds (spares_data D f) (stage_oneclient D ctx staging secrets flags)"
    by (rule adds_stage_objectivefs adds_stage_oneclient; simp add: query_spares starts_with_def)+
  have a: "padds (spares_data D f) (attach_iscsi D secrets ctx)" "padds (spares_data D f) (attach_nvme D ctx)"
    by (rule padds_attach; simp add: query_spares starts_with_def)+
  show ?thesis
    unfolding attach_volume_def Let_def
    by (intro padds_if padds_total padds_bind adds_bind adds_andthen adds_do_when adds_ret adds_throw adds_lift a b m o' adds_attach_zfs)
      (auto intro: adds_ret adds_attach_zfs split: prod.splits)
qed

lemma adds_ensure_formatted: "adds (spares_data D f) (ensure_formatted D device fs_type)"
  unfolding ensure_formatted_def Let_def
proof (rule adds_bind_outcome)
  show "adds (spares_data D f) (deviceIsFormatted (getDefaultFilesystemInstance D) device)"
    by (auto intro!: wp_intro intro: query_spares)
  fix formatted
  assume "outcome (deviceIsFormatted (getDefaultFilesystemInstance D) device) (Inr formatted)"
  then show "adds (spares_data D f) (do_when (\<not> formatted) (bind (lift (format_options D fs_type))
      (\<lambda>options. bind (formatDevice (getDefaultFilesystemInstance D) device (to_str fs_type) options) (\<lambda>_. ret ()))))"
    unfolding formatDevice_def by (cases formatted) (auto intro!: wp_intro)
qed

lemma node_no_sudo: "truthy (obj_get (fs_options (getDefaultFilesystemInstance D)) ''sudo'') = False"
  by (simp add: getDefaultFilesystemInstance_def new_filesystem_def no_options)

lemma adds_expandFilesystem [wp_intro]:
  "(\<And>c a. c \<in> {''btrfs'', ''resize2fs'', ''ntfsresize'', ''ntfsfix'', ''xfs_growfs'', ''fatresize''} \<Longrightarrow> P (EvSpawn c a))
   \<Longrightarrow> adds P (expandFilesystem (getDefaultFilesystemInstance D) device fs_type options)"
  unfolding expandFilesystem_def unknown_command_def Let_def by (auto intro!: wp_intro simp: node_no_sudo)

lemma adds_check_unmounted: "adds (spares_data D f) (check_unmounted D device staging fs_type)"
  unfolding check_unmounted_def checkFilesystem_def Let_def
  by (auto intro!: wp_intro intro: query_spares simp: starts_with_def)

lemma padds_data_partition:
  assumes "loose_eq fs_type (Str ''ntfs'') \<Longrightarrow> loose_eq f (Str ''ntfs'')"
  shows "padds (spares_data D f) (data_partition D device fs_type)"
proof -
  have e: "padds (spares_data D f) (expandPartition (getDefaultFilesystemInstance D) d)" for d
    unfolding expandPartition_program by (auto intro!: wp_intro intro: query_spares simp: starts_with_def)
  have w: "adds (spares_data D f) (partitionDeviceWindows (getDefaultFilesystemInstance D) device)"
    if "loose_eq f (Str ''ntfs'')" for device
    unfolding partitionDeviceWindows_def sfdisk_twice_def fs_exec_stdin_def Let_def using that
    by (auto intro!: wp_intro intro: query_spares simp: starts_with_def split: spawn_out.splits)
  show ?thesis
    unfolding data_partition_def Let_def
    by (intro padds_bind padds_if padds_total e adds_andthen adds_bind adds_lift adds_ret w)
      (auto intro!: wp_intro intro: query_spares assms)
qed

lemma padds_prepare_block:
  assumes "loose_eq (or_else fs_type (Str ''ext4'')) (Str ''ntfs'') \<Longrightarrow> loose_eq f (Str ''ntfs'')"
  shows "padds (spares_data D f) (prepare_block D device staging fs_type)"
  unfolding prepare_block_def Let_def
  by (intro padds_bind padds_total padds_data_partition assms adds_bind adds_if adds_andthen adds_ensure_formatted
      adds_check_unmounted adds_ret) (auto intro!: wp_intro intro: query_spares)

lemma adds_mount_at: "adds (spares_data D f) (mount_at D device staging fs_type flags)"
  unfolding mount_at_def mount_def by (auto intro!: wp_intro simp: starts_with_def)

lemma adds_mount_device: "adds (spares_data D f) (mount_device D device staging fs_type flags vgroup)"
  unfolding mount_device_def Let_def
  by (intro adds_bind adds_if adds_andthen adds_do_when adds_mount_at adds_ret adds_expandFilesystem)
    (auto intro!: wp_intro intro: query_spares simp: starts_with_def)

lemma adds_grow_mounted: "adds (spares_data D f) (grow_mounted D device staging fs_type flags)"
proof -
  have g: "adds (spares_data D f) (bind (expandFilesystem (getDefaultFilesystemInstance D) d (to_str fs_type) []) (\<lambda>_. ret ()))" for d
    by (intro adds_bind adds_ret adds_expandFilesystem) (auto simp: starts_with_def)
  have b: "adds (spares_data D f) (isBlockDevice (getDefaultFilesystemInstance D) device)"
    by (rule adds_query) (rule query_spares)
  have u: "adds (spares_data D f) (umount (getDefaultMountInstance D) staging [])"
    by (rule adds_umount) (simp add: starts_with_def)
  show ?thesis
    unfolding grow_mounted_def Let_def
    by (intro adds_bind adds_if adds_catch adds_throw g b u adds_mount_at adds_ret adds_andthen)
qed

lemma adds_stage_block: "adds (spares_data D f) (stage_block D device staging)"
  unfolding stage_block_def touch_def bindMount_def Let_def
  by (auto intro!: wp_intro intro: query_spares simp: starts_with_def)

lemma attached_fs_type:
  assumes "poutcome (attach_volume D attach ctx staging secrets fs_type flags vgroup) (Inr (Some a))"
  shows "at_fs_type a = fs_type \<or> at_fs_type a = Str ''zfs''"
  using assms unfolding poutcome_def attach_volume_def attach_zfs_def Let_def
  by (auto simp: pbind_Inr total_Some run_Inr split: if_splits)

lemma padds_stage_device:
  assumes "loose_eq (or_else (at_fs_type a) (Str ''ext4'')) (Str ''ntfs'') \<Longrightarrow> loose_eq f (Str ''ntfs'')"
  shows "padds (spares_data D f) (stage_device D attach access_type staging a vgroup)"
proof -
  have "padds (spares_data D f) (stage_mount D attach staging a vgroup)"
    unfolding stage_mount_def Let_def
    by (rule padds_bind) (auto intro!: padds_if padds_prepare_block assms padds_total adds_ret adds_bind adds_mount_device
        adds_grow_mounted split: prod.splits)
  then show ?thesis
    unfolding stage_device_def by (auto intro!: padds_if padds_total adds_stage_block adds_throw)
qed

text \<open>
  C21: besides everything else it may do, a NodeStageVolume formats a device only when the device
  was found to carry no filesystem, and it writes a partition table only when the request asks for
  ntfs.
\<close>

theorem stage_formats_blank_only:
  assumes "NodeStageVolume D req w = Some (r, w')"
  shows "\<exists>es. hist w' = hist w @ es
    \<and> list_all (spares_data D (lget (nd_lodash D) (obj_get req ''volume_capability'') ''mount.fs_type'' Undef)) es"
proof -
  let ?f = "lget (nd_lodash D) (obj_get req ''volume_capability'') ''mount.fs_type'' Undef"
  have d: "padds (spares_data D ?f) (ensure_directory' staging)"
    if "ensure_directory' = (\<lambda>p. total (ensure_directory (getDefaultFilesystemInstance D) p))" for ensure_directory' staging
    unfolding that by (auto intro!: wp_intro intro: query_spares simp: starts_with_def)
  have s: "padds (spares_data D ?f) (stage_posix D attach ctx access staging secrets ?f flags vgroup)"
    for attach ctx access staging secrets flags vgroup
    unfolding stage_posix_def
  proof (intro padds_bind [OF d [OF refl]] padds_bind_outcome)
    fix a
    assume "poutcome (attach_volume D attach ctx staging secrets ?f flags vgroup) (Inr a)"
    then have "at_fs_type b = ?f \<or> at_fs_type b = Str ''zfs''" if "a = Some b" for b
      using that attached_fs_type by blast
    then have n: "loose_eq ?f (Str ''ntfs'')" if "a = Some b" "loose_eq (or_else (at_fs_type b) (Str ''ext4'')) (Str ''ntfs'')" for b
      using that by (auto simp: or_else_def split: if_splits)
    show "padds (spares_data D ?f) (case a of None \<Rightarrow> pret () | Some a \<Rightarrow> stage_device D attach access staging a vgroup)"
      by (cases a) (auto intro!: padds_total adds_ret padds_stage_device n)
  qed (rule padds_attach_volume)
  have "padds (spares_data D ?f) (NodeStageVolume D req)"
    unfolding NodeStageVolume_def on_posix_def
    by (auto intro!: padds_bind padds_total adds_lift adds_ret adds_throw s split: node_os.splits)
  from paddsD [OF this assms] show ?thesis .
qed

section \<open>What is mounted\<close>

text \<open>A path is mounted: it is found to be, or it is mounted now, by \<open>mount\<close> or the tool of the volume.\<close>

definition mounted_now :: "'e node_driver \<Rightarrow> string \<Rightarrow> 'e world \<Rightarrow> 'e world \<Rightarrow> bool" where
  "mounted_now D path w w' \<longleftrightarrow> (let M = getDefaultMountInstance D in
     pathIsMounted M path w = (Inr True, w')
     \<or> (\<exists>device. deviceIsMountedAtPath M device path w = (Inr True, w'))
     \<or> (\<exists>device options r. mount M device path options w = (Inr r, w'))
     \<or> (\<exists>source options r. bindMount M source path options w = (Inr r, w'))
     \<or> (\<exists>env filesystem options r. ofs_mount (getDefaultObjectiveFSInstance D) env filesystem path options w = (Inr r, w'))
     \<or> (\<exists>args r. oc_mount (getDefaultOneClientInstance D) path args w = (Inr r, w')))"

lemma mounted_now:
  "pathIsMounted (getDefaultMountInstance D) path w = (Inr True, w') \<Longrightarrow> mounted_now D path w w'"
  "deviceIsMountedAtPath (getDefaultMountInstance D) device path w = (Inr True, w') \<Longrightarrow> mounted_now D path w w'"
  "mount (getDefaultMountInstance D) device path options w = (Inr r, w') \<Longrightarrow> mounted_now D path w w'"
  "bindMount (getDefaultMountInstance D) device path options w = (Inr r, w') \<Longrightarrow> mounted_now D path w w'"
  "ofs_mount (getDefaultObjectiveFSInstance D) env device path flags w = (Inr r, w') \<Longrightarrow> mounted_now D path w w'"
  "oc_mount (getDefaultOneClientInstance D) path args w = (Inr r, w') \<Longrightarrow> mounted_now D path w w'"
  unfolding mounted_now_def Let_def by blast+

lemma do_when_Inr: "do_when b m w = (Inr (), w') \<longleftrightarrow> (if b then m w = (Inr (), w') else w' = w)"
  by (auto simp: do_when_def ret_def)

lemma mount_device_mounted:
  assumes "mount_device D device staging fs_type flags vgroup w = (Inr fs, w')"
  shows "\<exists>w1. mounted_now D staging w1 w'"
  using assms unfolding mount_device_def mount_at_def Let_def
  by (auto simp: run_Inr split: if_splits intro: mounted_now)

lemma stage_block_mounted:
  assumes "stage_block D device staging w = (Inr (), w')"
  shows "\<exists>w1. mounted_now D (staging @ ''/block_device'') w1 w'"
proof -
  from assms obtain m u where m: "deviceIsMountedAtPath (getDefaultMountInstance D) ''dev'' (staging @ ''/block_device'') w = (Inr m, u)"
    "m \<and> w' = u \<or> (\<exists>u1 r. bindMount (getDefaultMountInstance D) device (staging @ ''/block_device'') [''-o'', ''defaults''] u1 = (Inr r, w'))"
    unfolding stage_block_def Let_def by (auto simp: run_Inr do_when_Inr split: if_splits)
  then show ?thesis by (metis (full_types) mounted_now(2,4))
qed

lemma attach_none_mounted:
  assumes "attach_volume D attach ctx staging secrets fs_type flags vgroup w = Some (Inr None, w')"
  shows "attach \<in> {Str ''hostpath'', Str ''objectivefs'', Str ''oneclient''} \<and> (\<exists>w1. mounted_now D staging w1 w')"
proof -
  from assms consider
      (hostpath) m u where "attach = Str ''hostpath''" "pathIsMounted (getDefaultMountInstance D) staging w = (Inr m, u)"
        "m \<and> w' = u \<or> (\<exists>path u1 r. bindMount (getDefaultMountInstance D) path staging [] u1 = (Inr r, w'))"
    | (objectivefs) "attach = Str ''objectivefs''" "stage_objectivefs D ctx staging secrets flags w = (Inr (), w')"
    | (oneclient) "attach = Str ''oneclient''" "stage_oneclient D ctx staging secrets flags w = (Inr (), w')"
    unfolding attach_volume_def Let_def
    by (auto simp: pbind_Inr total_Some run_Inr do_when_Inr split: if_splits) blast
  then show ?thesis
  proof cases
    case hostpath
    then show ?thesis by (metis (full_types) insertI1 mounted_now(1,4))
  next
    case objectivefs
    then show ?thesis unfolding stage_objectivefs_def Let_def
      by (auto simp: run_Inr do_when_Inr split: if_splits intro: mounted_now)
  next
    case oneclient
    then show ?thesis unfolding stage_oneclient_def
      by (auto simp: run_Inr do_when_Inr split: if_splits intro: mounted_now)
  qed
qed

text \<open>A raw block volume is staged below the staging path, unless its attach driver mounts it itself.\<close>

definition staged_path_of :: "stage_request \<Rightarrow> string \<Rightarrow> string" where
  "staged_path_of s staging =
     (if sr_access s = Str ''block'' \<and> sr_attach s \<notin> {Str ''hostpath'', Str ''objectivefs'', Str ''oneclient''}
      then staging @ ''/block_device'' else staging)"

lemma attach_some_driver:
  assumes "attach_volume D attach ctx staging secrets fs_type flags vgroup w = Some (Inr (Some a), w')"
  shows "attach \<notin> {Str ''hostpath'', Str ''objectivefs'', Str ''oneclient''}"
  using assms unfolding attach_volume_def Let_def by (auto simp: pbind_Inr total_Some run_Inr)

lemma stage_posix_mounted:
  assumes "stage_posix D (sr_attach s) ctx (sr_access s) staging secrets fs_type flags vgroup w = Some (Inr (), w')"
  shows "\<exists>w1 w2. mounted_now D (staged_path_of s staging) w1 w2
    \<and> (w' = w2 \<or> (\<exists>device fs_type flags. grow_mounted D device staging fs_type flags w2 = (Inr (), w')))"
proof -
  from assms obtain a u1 u2 where a: "attach_volume D (sr_attach s) ctx staging secrets fs_type flags vgroup u1 = Some (Inr a, u2)"
    "(case a of None \<Rightarrow> pret () | Some a \<Rightarrow> stage_device D (sr_attach s) (sr_access s) staging a vgroup) u2 = Some (Inr (), w')"
    unfolding stage_posix_def by (auto simp: pbind_Inr)
  show ?thesis
  proof (cases a)
    case None
    with a attach_none_mounted [of D "sr_attach s"] show ?thesis
      by (fastforce simp: total_Some ret_Inr staged_path_of_def)
  next
    case (Some x)
    note n = attach_some_driver [OF a(1) [unfolded Some]]
    from a(2) Some consider (mount) "sr_access s = Str ''mount''" "stage_mount D (sr_attach s) staging x vgroup u2 = Some (Inr (), w')"
      | (block) "sr_access s = Str ''block''" "stage_block D (at_device x) staging u2 = (Inr (), w')"
      by (auto simp: stage_device_def total_Some throw_Inr split: if_splits)
    then show ?thesis
    proof cases
      case mount
      then obtain device found fl v1 v2 fs where m: "mount_device D device staging (default_fs_type (sr_attach s) found) fl vgroup v1 = (Inr fs, v2)"
        "grow_mounted D device staging (default_fs_type (sr_attach s) found) fs v2 = (Inr (), w')"
        unfolding stage_mount_def Let_def by (auto simp: pbind_Inr total_Some run_Inr)
      have "staged_path_of s staging = staging" using mount(1) by (simp add: staged_path_of_def)
      with mount_device_mounted [OF m(1)] m(2) show ?thesis by metis
    next
      case block
      from stage_block_mounted [OF block(2)] block(1) n show ?thesis by (auto simp: staged_path_of_def)
    qed
  qed
qed


section \<open>Runs\<close>

text \<open>A clock that the sleeps advance.\<close>

definition ticking :: "nat host \<Rightarrow> nat host" where
  "ticking H = H\<lparr>ho_now := (\<lambda>n. (int n, n)), ho_sleep := (\<lambda>ms n. n + nat ms), ho_stat := (\<lambda>p n. (None, n))\<rparr>"

lemma ticking_clock: "clock_runs int (ticking H)"
  by (simp add: clock_runs_def ticking_def)

lemma getBlockDevice_ticking:
  "getBlockDevice (new_filesystem [] (ticking H)) = getBlockDevice (new_filesystem [] H)"
  by (intro ext) (simp add: getBlockDevice_def realpath_def fs_stdout_def fs_exec_def fs_exec_stdin_def host_spawn_def
      new_filesystem_def ticking_def)

definition stage_request_nfs :: jsobj where
  "stage_request_nfs = [(''volume_id'', Str ''vol-1''), (''staging_target_path'', Str ''/s''), (''secrets'', Obj []),
     (''volume_capability'', Obj [(''access_type'', Str ''mount''), (''mount'', Obj [])]),
     (''volume_context'', Obj [(''node_attach_driver'', Str ''nfs''), (''server'', Str ''srv''), (''share'', Str ''/v'')])]"

lemma stage_returns_witness:
  "\<exists>r w'. NodeStageVolume (sample_node (ticking (chain_host ''sda''))) stage_request_nfs at_start = Some (r, w')"
proof (rule stage_returns)
  have h: "nd_host (sample_node (ticking (chain_host ''sda''))) = ticking (chain_host ''sda'')" by (simp add: sample_node_def)
  then show "clock_runs int (nd_host (sample_node (ticking (chain_host ''sda''))))" by (simp add: ticking_clock)
  show "parents_descend (\<lambda>d. if d = ''/dev/sda'' then 0 else 1)
      (getDefaultFilesystemInstance (sample_node (ticking (chain_host ''sda''))))"
    unfolding parents_descend_def getDefaultFilesystemInstance_def h getBlockDevice_ticking
    by (intro allI impI) (elim conjE, rule chain_descends, simp_all)
qed

lemma stage_run:
  "map_option fst (NodeStageVolume (sample_node (local_host False)) stage_request_nfs at_start) = Some (Inr [])"
  by code_simp

lemma stage_nfs_run:
  "\<exists>w'. NodeStageVolume (sample_node (local_host False)) stage_request_nfs at_start = Some (Inr [], w')"
  using stage_run by auto


text \<open>A local zvol without a filesystem, on a node where \<open>blkid\<close> fails after the device was formatted.\<close>

fun zvol_spawn :: "string \<Rightarrow> string list \<Rightarrow> jsobj \<Rightarrow> nat \<Rightarrow> spawn_out \<times> nat" where
  "zvol_spawn c a opts n =
     (if c = ''/bin/sh'' then
        (Closed (Some 0) (join [CHR 10] (map (join [CHR 9])
           [[''t/v'', ''type'', ''volume'', ''-'', ''-''], [''t/v'', ''mountpoint'', ''-'', ''-'', ''-'']])) [] False, n)
      else if c = ''findmnt'' then (Closed (Some 1) [] [] False, n)
      else if c = ''lsblk'' then
        (Closed (Some 0) (json_print (Obj [(''blockdevices'', Arr [Obj [(''path'', Str ''/dev/zvol/t/v'')]])])) [] False, n)
      else if c = ''blkid'' then (Closed (Some 2) [] [] False, n)
      else (Closed (Some 0) (concat a) [] False, n))"

declare zvol_spawn.simps [simp del]

definition zvol_host :: "nat host" where
  "zvol_host = (local_host False)\<lparr>ho_spawn := zvol_spawn\<rparr>"

definition stage_request_zvol :: jsobj where
  "stage_request_zvol = [(''volume_id'', Str ''vol-1''), (''staging_target_path'', Str ''/s''), (''secrets'', Obj []),
     (''volume_capability'', Obj [(''access_type'', Str ''mount''), (''mount'', Obj [])]),
     (''volume_context'', Obj [(''node_attach_driver'', Str ''zfs-local''), (''zfs_asset_name'', Str ''t/v'')])]"

definition zvol_node :: "nat node_driver" where
  "zvol_node = (sample_node zvol_host)
     \<lparr>nd_options := [(''service'', Obj [(''node'', Obj [(''capabilities'', Obj [(''rpc'', Arr [])])])]),
        (''node'', Obj [(''format'', Obj []), (''mount'', Obj [(''checkFilesystem'', Obj [])])])]\<rparr>"

lemma stage_zvol_run:
  "map_option (\<lambda>(r, w). filter (\<lambda>ev. case ev of EvSpawn c a \<Rightarrow> starts_with c ''mkfs'' | _ \<Rightarrow> False) (hist w))
     (NodeStageVolume zvol_node stage_request_zvol at_start)
   = Some [EvSpawn ''mkfs.ext4'' [''-m'', ''0'', ''/dev/zvol/t/v'']]"
  by code_simp

lemma stage_formats_blank_only_witness:
  "\<exists>r w'. NodeStageVolume zvol_node stage_request_zvol at_start = Some (r, w')
     \<and> EvSpawn ''mkfs.ext4'' [''-m'', ''0'', ''/dev/zvol/t/v''] \<in> set (hist w')
     \<and> outcome (deviceIsFormatted (getDefaultFilesystemInstance zvol_node) ''/dev/zvol/t/v'') (Inr False)"
proof -
  from stage_zvol_run obtain r w' where r: "NodeStageVolume zvol_node stage_request_zvol at_start = Some (r, w')"
    and f: "filter (\<lambda>ev. case ev of EvSpawn c a \<Rightarrow> starts_with c ''mkfs'' | _ \<Rightarrow> False) (hist w')
      = [EvSpawn ''mkfs.ext4'' [''-m'', ''0'', ''/dev/zvol/t/v'']]" by auto
  have m: "EvSpawn ''mkfs.ext4'' [''-m'', ''0'', ''/dev/zvol/t/v''] \<in> set (hist w')"
    using arg_cong [OF f, of set] by (auto simp: set_eq_iff)
  have "hist at_start = []" by (simp add: at_start_def)
  with stage_formats_blank_only [OF r] m have "spares_data zvol_node
      (lget (nd_lodash zvol_node) (obj_get stage_request_zvol ''volume_capability'') ''mount.fs_type'' Undef)
      (EvSpawn ''mkfs.ext4'' [''-m'', ''0'', ''/dev/zvol/t/v''])" by (auto simp: list_all_iff)
  then have "outcome (deviceIsFormatted (getDefaultFilesystemInstance zvol_node) ''/dev/zvol/t/v'') (Inr False)"
    by (simp add: starts_with_def)
  with r m show ?thesis by blast
qed

end
