(* ===== verification/Objectivefs_Controller.thy ===== *)
theory Objectivefs_Controller
  imports Objectivefs Controller_Create Controller_Volumes
begin

text \<open>
  \<open>src/driver/controller-objectivefs/index.js\<close>: the controller whose volumes are ObjectiveFS
  filesystems, one below the configured pool for each volume. The driver is the record of
  \<open>Controller_Base\<close> (its zfs client is not used) and the host of its client.
\<close>

section \<open>The constructor and the client\<close>

definition ofs_controller_rpcs :: "(string \<Rightarrow> bool) \<Rightarrow> string list" where
  "ofs_controller_rpcs satisfies =
     [''CREATE_DELETE_VOLUME'', ''LIST_VOLUMES'']
     @ (if satisfies ''>=1.5.0'' then [''SINGLE_NODE_MULTI_WRITER''] else [])"

definition ofs_node_rpcs :: "(string \<Rightarrow> bool) \<Rightarrow> string list" where
  "ofs_node_rpcs satisfies =
     [''STAGE_UNSTAGE_VOLUME'', ''GET_VOLUME_STATS'']
     @ (if satisfies ''>=1.5.0'' then [''SINGLE_NODE_MULTI_WRITER''] else [])"

definition caps_of :: "string \<Rightarrow> jsobj \<Rightarrow> jsobj" where
  "caps_of part service = inner_obj (obj_get (inner_obj (obj_get service part)) ''capabilities'')"

definition with_caps :: "string \<Rightarrow> jsobj \<Rightarrow> jsobj \<Rightarrow> jsobj" where
  "with_caps part caps service =
     obj_set part (Obj (obj_set ''capabilities'' (Obj caps) (inner_obj (obj_get service part)))) service"

definition ofs_service_options :: "(string \<Rightarrow> bool) \<Rightarrow> jsobj \<Rightarrow> jsobj" where
  "ofs_service_options satisfies options =
     (let service = inner_obj (obj_get options ''service'');
          icaps = default_list ''volume_expansion'' []
                    (default_list ''service'' [''CONTROLLER_SERVICE''] (caps_of ''identity'' service));
          ccaps = default_list ''rpc'' (ofs_controller_rpcs satisfies) (caps_of ''controller'' service);
          ncaps = default_list ''rpc'' (ofs_node_rpcs satisfies) (caps_of ''node'' service)
      in obj_set ''service''
           (Obj (with_caps ''node'' ncaps (with_caps ''controller'' ccaps (with_caps ''identity'' icaps service)))) options)"

definition ofs_opt :: "'e driver \<Rightarrow> string \<Rightarrow> js \<Rightarrow> js" where
  "ofs_opt D path d = opts_get D (dr_options D) path d"

definition getObjectiveFSClient :: "'e driver \<Rightarrow> 'e host \<Rightarrow> 'e objectivefs" where
  "getObjectiveFSClient D H = new_objectivefs
     [(''sudo'', ofs_opt D ''objectivefs.cli.sudoEnabled'' (Bool False)),
      (''pool'', ofs_opt D ''objectivefs.pool'' Undef), (''env'', ofs_opt D ''objectivefs.env'' (Obj []))] H"

section \<open>Capabilities\<close>

definition ofs_access_modes :: "'e driver \<Rightarrow> js \<Rightarrow> js" where
  "ofs_access_modes D capability =
     (let configured = ofs_opt D ''csi.access_modes'' Null in
      if configured \<noteq> Null then configured
      else Arr (map Str (default_access_modes ''filesystem'')))"

definition ofs_fs_types :: "string list" where
  "ofs_fs_types = [''fuse.objectivefs'', ''objectivefs'']"

definition ofs_check_capability :: "'e driver \<Rightarrow> js \<Rightarrow> exn + msg option" where
  "ofs_check_capability D capability =
     ebind (getp capability ''access_type'') (\<lambda>t.
     if \<not> loose_eq t (Str ''mount'') then Inr (Some (''invalid access_type '' @ to_str t))
     else ebind (getp capability ''mount'') (\<lambda>m. ebind (getp m ''fs_type'') (\<lambda>f.
          if truthy f \<and> f \<notin> set (map Str ofs_fs_types) then Inr (Some (''invalid fs_type '' @ to_str f))
          else ebind (getp capability ''access_mode'') (\<lambda>am. ebind (getp am ''mode'') (\<lambda>mode.
               ebind (js_includes (ofs_access_modes D capability) mode) (\<lambda>b.
               Inr (if b then None else Some (''invalid access_mode, '' @ to_str mode))))))))"

fun ofs_every_capability :: "'e driver \<Rightarrow> js list \<Rightarrow> exn + bool \<times> js" where
  "ofs_every_capability D [] = Inr (True, Null)"
| "ofs_every_capability D (c # cs) =
     ebind (ofs_check_capability D c) (\<lambda>r.
       case r of None \<Rightarrow> ofs_every_capability D cs | Some m \<Rightarrow> Inr (False, Str m))"

definition ofs_assertCapabilities :: "'e driver \<Rightarrow> js \<Rightarrow> exn + bool \<times> js" where
  "ofs_assertCapabilities D capabilities =
     (case capabilities of Arr cs \<Rightarrow> ofs_every_capability D cs | _ \<Rightarrow> Inl (type_error ''every''))"

section \<open>Volumes\<close>

text \<open>\<open>entry.NAME.replace(object_store, "")\<close>; an undefined object store is the text \<open>undefined\<close>.\<close>

definition ofs_filesystem :: "'e driver \<Rightarrow> jsobj \<Rightarrow> exn + string" where
  "ofs_filesystem D entry =
     ebind (as_string (obj_get entry ''NAME'')) (\<lambda>name.
     Inr (replace_first (to_str (ofs_opt D ''objectivefs.env.OBJECTSTORE'' Undef)) [] name))"

definition ofs_provisioner :: "'e driver \<Rightarrow> jsobj \<Rightarrow> jsobj" where
  "ofs_provisioner D context =
     (let id = obj_get (dr_options D) ''instance_id'' in
      if truthy id then obj_set ''provisioner_driver_instance_id'' id context else context)"

definition ofs_volume :: "'e driver \<Rightarrow> jsobj \<Rightarrow> exn + js" where
  "ofs_volume D entry =
     ebind (ofs_filesystem D entry) (\<lambda>filesystem.
     let store = ofs_opt D ''objectivefs.env.OBJECTSTORE'' Undef in
     Inr (Obj [(''volume_id'', at (split_ch (CHR ''/'') filesystem) 1), (''capacity_bytes'', Num (IntN 0)),
       (''content_source'', Undef),
       (''volume_context'', Obj (ofs_provisioner D
          [(''provisioner_driver'', obj_get (dr_options D) ''driver''), (''node_attach_driver'', Str ''objectivefs''),
           (''filesystem'', Str filesystem), (''object_store'', store), (''env.OBJECTSTORE'', store)])),
       (''accessible_topology'', Undef)]))"

definition ofs_volume_status :: "'e driver \<Rightarrow> jsobj \<Rightarrow> exn + js" where
  "ofs_volume_status D entry = ebind (ofs_filesystem D entry) (\<lambda>_. Inr (getVolumeStatus D))"

section \<open>Handlers\<close>

definition ofs_configured :: "'e driver \<Rightarrow> exn + unit" where
  "ofs_configured D =
     (if \<not> truthy (ofs_opt D ''objectivefs.pool'' Undef)
      then Inl (grpc FAILED_PRECONDITION ''objectivefs.pool not configured'')
      else if \<not> truthy (ofs_opt D ''objectivefs.env.OBJECTSTORE'' Undef)
      then Inl (grpc FAILED_PRECONDITION ''env.OBJECTSTORE not configured'')
      else Inr ())"

definition ofs_Probe :: "'e driver \<Rightarrow> exn + js" where
  "ofs_Probe D =
     (let ready = Obj [(''ready'', Obj [(''value'', Bool True)])] in
      if ''controller'' \<in> set (dr_csiMode D) then ebind (ofs_configured D) (\<lambda>_. Inr ready) else Inr ready)"

definition MAX_VOLUME_NAME_LENGTH :: nat where
  "MAX_VOLUME_NAME_LENGTH = 63"

definition context_env :: "js \<Rightarrow> jsobj" where
  "context_env parameters = filter (\<lambda>(k, v). starts_with k ''env.'') (entries parameters)"

definition ofs_capacity :: "js \<Rightarrow> exn + unit" where
  "ofs_capacity r =
     (if range_inverted r then Inl (grpc OUT_OF_RANGE ''required_bytes is greather than limit_bytes'')
      else let capacity_bytes = or_else (field r ''required_bytes'') (field r ''limit_bytes'') in
        if \<not> truthy capacity_bytes
        then Inl (invalid_argument ''volume capacity is required (either required_bytes or limit_bytes)'')
        else if above_limit capacity_bytes r
        then Inl (grpc OUT_OF_RANGE ''required volume capacity is greater than limit'')
        else Inr ())"

text \<open>The checks of a creation and the id of the volume.\<close>

definition ofs_create_checks :: "'e driver \<Rightarrow> jsobj \<Rightarrow> exn + string" where
  "ofs_create_checks D req =
     ebind (ofs_configured D) (\<lambda>_.
     ebind (getVolumeIdFromCall D req) (\<lambda>v.
     let volume_id = to_lower v in
     ebind (if length volume_id \<ge> MAX_VOLUME_NAME_LENGTH
            then Inl (invalid_argument (''derived volume_id '' @ volume_id @ '' is too long for objectivefs'')) else Inr ()) (\<lambda>_.
     ebind (case obj_get req ''volume_capabilities'' of
              Arr (c # cs) \<Rightarrow> ebind (ofs_assertCapabilities D (Arr (c # cs))) (\<lambda>(valid, m).
                if valid then Inr () else Inl (invalid_argument (to_str m)))
            | _ \<Rightarrow> Inl (invalid_argument ''missing volume_capabilities'')) (\<lambda>_.
     ebind (ofs_capacity (request_range req)) (\<lambda>_.
     if truthy (obj_get req ''volume_content_source'') then Inl (invalid_argument ''cloning is not enabled'')
     else Inr volume_id)))))"

definition ofs_CreateVolume :: "'e driver \<Rightarrow> 'e host \<Rightarrow> jsobj \<Rightarrow> ('e world, js) io" where
  "ofs_CreateVolume D H req =
     bind (lift (ofs_create_checks D req)) (\<lambda>volume_id.
     let filesystem = to_str (ofs_opt D ''objectivefs.pool'' Undef) @ ''/'' @ volume_id;
         env = obj_set ''env.OBJECTSTORE'' (ofs_opt D ''objectivefs.env.OBJECTSTORE'' Undef)
                 (context_env (obj_get req ''parameters'')) in
     andthen (ofs_create (getObjectiveFSClient D H) [] filesystem [''-f''])
       (ret (Obj [(''volume'', Obj [(''volume_id'', Str volume_id), (''capacity_bytes'', Num (IntN 0)),
          (''content_source'', obj_get req ''volume_content_source''),
          (''volume_context'', Obj (ofs_provisioner D (obj_assign
             [(''provisioner_driver'', obj_get (dr_options D) ''driver''), (''node_attach_driver'', Str ''objectivefs''),
              (''filesystem'', Str filesystem)] env)))])])))"

definition ofs_DeleteVolume :: "'e driver \<Rightarrow> 'e host \<Rightarrow> jsobj \<Rightarrow> ('e world, js) io" where
  "ofs_DeleteVolume D H req =
     (let volume_id = obj_get req ''volume_id'' in
      andthen (throw_when (\<not> truthy volume_id) (invalid_argument ''volume_id is required''))
     (if loose_eq (ofs_opt D ''_private.csi.volume.deleteStrategy'' (Str [])) (Str ''retain'') then ret (Obj [])
      else bind (lift (as_string volume_id)) (\<lambda>v.
        andthen (ofs_destroy (getObjectiveFSClient D H) []
                   (to_str (ofs_opt D ''objectivefs.pool'' Undef) @ ''/'' @ to_lower v) [])
          (ret (Obj [])))))"

definition ofs_unsupported :: "('e world, js) io" where
  "ofs_unsupported = throw (grpc UNIMPLEMENTED ''operation not supported by driver'')"

definition ofs_entry :: "'e driver \<Rightarrow> js list \<Rightarrow> jsobj \<Rightarrow> exn + js list" where
  "ofs_entry D es entry =
     (if \<not> loose_eq (obj_get entry ''KIND'') (Str ''ofs'') then Inr es
      else ebind (ofs_volume D entry) (\<lambda>volume. ebind (ofs_volume_status D entry) (\<lambda>status.
           Inr (es @ [Obj [(''volume'', volume), (''status'', status)]]))))"

definition ofs_ListVolumes :: "'e driver \<Rightarrow> 'e host \<Rightarrow> jsobj \<Rightarrow> ('e world, js) io" where
  "ofs_ListVolumes D H req =
     (let max_entries = obj_get req ''max_entries''; starting_token = obj_get req ''starting_token'' in
      if truthy starting_token then cached_page D ''ListVolumes'' max_entries (to_str starting_token)
      else bind (ofs_list (getObjectiveFSClient D H) [] [] []) (\<lambda>listed.
           bind (lift (efold (ofs_entry D) [] listed)) (first_page D ''ListVolumes'' max_entries)))"

definition ofs_ValidateVolumeCapabilities :: "'e driver \<Rightarrow> 'e host \<Rightarrow> jsobj \<Rightarrow> ('e world, js) io" where
  "ofs_ValidateVolumeCapabilities D H req =
     (let volume_id = obj_get req ''volume_id''; capabilities = obj_get req ''volume_capabilities'';
          filesystem = to_str (ofs_opt D ''objectivefs.pool'' Undef) @ ''/'' @ to_str volume_id in
      andthen (throw_when (\<not> truthy volume_id) (invalid_argument ''missing volume_id''))
     (bind (ofs_list (getObjectiveFSClient D H) [] filesystem []) (\<lambda>listed.
      bind (lift (eany (\<lambda>entry. ebind (as_string (obj_get entry ''NAME'')) (\<lambda>name.
              Inr (ends_with name filesystem \<and> loose_eq (obj_get entry ''KIND'') (Str ''ofs'')))) listed)) (\<lambda>exists.
      andthen (throw_when (\<not> exists) (grpc NOT_FOUND (''invalid volume_id: '' @ to_str volume_id)))
     (andthen (throw_when (no_capabilities capabilities) (invalid_argument ''missing capabilities''))
     (bind (lift (ofs_assertCapabilities D capabilities)) (\<lambda>(valid, m).
        ret (if \<not> valid then Obj [(''message'', m)]
             else Obj [(''confirmed'', Obj [(''volume_context'', obj_get req ''volume_context''),
                   (''volume_capabilities'', capabilities), (''parameters'', obj_get req ''parameters'')])]))))))))"

lemmas objectivefs_controller_run [code] =
  ofs_CreateVolume_def [THEN fun_cong] ofs_DeleteVolume_def [THEN fun_cong] ofs_ListVolumes_def [THEN fun_cong]
  ofs_ValidateVolumeCapabilities_def [THEN fun_cong]

section \<open>Deletion\<close>

text \<open>
  A DeleteVolume of the ObjectiveFS controller runs nothing, or one command, and then the
  filesystem that command destroys is a direct child of the configured pool, the volumes are not
  retained, and the filesystem is the one of the volume id below the pool.
\<close>

theorem ofs_delete_scope:
  assumes "ofs_DeleteVolume D H req w = (r, w')"
  shows "hist w' = hist w \<or> (\<exists>v filesystem. let C = getObjectiveFSClient D H in
    obj_get req ''volume_id'' = Str v \<and> v \<noteq> []
    \<and> \<not> loose_eq (ofs_opt D ''_private.csi.volume.deleteStrategy'' (Str [])) (Str ''retain'')
    \<and> filesystem = stripObjectStoreFromFilesystem (to_str (ofs_opt D ''objectivefs.pool'' Undef) @ ''/'' @ to_lower v)
    \<and> child_of_pool C filesystem
    \<and> hist w' = hist w @ [ofs_event C ''/bin/bash'' [''-c'', destroy_script C filesystem []]])"
proof (cases "\<exists>v. obj_get req ''volume_id'' = Str v \<and> v \<noteq> []
    \<and> \<not> loose_eq (ofs_opt D ''_private.csi.volume.deleteStrategy'' (Str [])) (Str ''retain'')")
  case False
  with assms show ?thesis
    by (auto simp: ofs_DeleteVolume_def Let_def andthen_def bind_def throw_when_def throw_def ret_def lift_def as_string_def
        truthy.simps split: if_splits js.splits)
next
  case True
  then obtain v where v: "obj_get req ''volume_id'' = Str v" "v \<noteq> []"
    "\<not> loose_eq (ofs_opt D ''_private.csi.volume.deleteStrategy'' (Str [])) (Str ''retain'')" by blast
  let ?C = "getObjectiveFSClient D H" and ?f = "to_str (ofs_opt D ''objectivefs.pool'' Undef) @ ''/'' @ to_lower v"
  obtain r1 w1 where d: "ofs_destroy ?C [] ?f [] w = (r1, w1)" by force
  with assms v have "hist w' = hist w1"
    by (auto simp: ofs_DeleteVolume_def Let_def andthen_def bind_def throw_when_def ret_def lift_def as_string_def
        split: sum.splits)
  with ofs_destroy_scope [OF d] v show ?thesis unfolding Let_def by auto
qed

definition quiet_host :: "nat host" where
  "quiet_host = \<lparr>ho_spawn = (\<lambda>c a opts n. (Closed (Some 0) [] [] False, n)),
     ho_env = (\<lambda>_. None), ho_lookup = (\<lambda>s n. (Inr (Str s), n)), ho_stat = (\<lambda>p n. (None, n)),
     ho_read = (\<lambda>p n. (None, n)), ho_write = (\<lambda>p s n. n), ho_now = (\<lambda>n. (0, n)), ho_sleep = (\<lambda>t n. n)\<rparr>"

definition ofs_sample :: "nat driver" where
  "ofs_sample = (sample_driver ''filesystem'' (\<lambda>_ _. Closed (Some 0) [] [] False))
     \<lparr>dr_options := [(''objectivefs'', Obj [(''pool'', Str ''p''), (''env'', Obj [(''OBJECTSTORE'', Str ''minio://'')])])]\<rparr>"

lemma ofs_delete_scope_witness:
  "\<exists>w' :: nat world. child_of_pool (getObjectiveFSClient ofs_sample quiet_host) ''p/v1''
     \<and> hist w' = [EvSpawn ''/bin/bash'' [''-c'', ''echo y | mount.objectivefs destroy p/v1'']]"
proof -
  let ?run = "ofs_DeleteVolume ofs_sample quiet_host [(''volume_id'', Str ''V1'')] world0" and ?C = "getObjectiveFSClient ofs_sample quiet_host"
  obtain r w' where run: "?run = (r, w')" by force
  have "hist (snd ?run) = [EvSpawn ''/bin/bash'' [''-c'', ''echo y | mount.objectivefs destroy p/v1'']]" by code_simp
  with run have h: "hist w' = [EvSpawn ''/bin/bash'' [''-c'', ''echo y | mount.objectivefs destroy p/v1'']]" by simp
  have "hist world0 = []" by (simp add: world0_def)
  with h ofs_delete_scope [OF run] obtain v where v: "obj_get [(''volume_id'', Str ''V1'')] ''volume_id'' = Str v"
    "child_of_pool ?C (stripObjectStoreFromFilesystem (to_str (ofs_opt ofs_sample ''objectivefs.pool'' Undef) @ ''/'' @ to_lower v))"
    by (auto simp: Let_def)
  from v(1) have "v = ''V1''" by (simp add: obj_get_def)
  moreover have "stripObjectStoreFromFilesystem (to_str (ofs_opt ofs_sample ''objectivefs.pool'' Undef) @ ''/'' @ to_lower ''V1'') = ''p/v1''"
    by code_simp
  ultimately show ?thesis using v(2) h by auto
qed

end
