(* ===== verification/Backup_Tools.thy ===== *)
theory Backup_Tools
  imports Nvmeof Objectivefs
begin

text \<open>
  \<open>src/utils/restic.js\<close> and \<open>src/utils/kopia.js\<close>: the commands of the two backup tools, how their
  output is parsed, and which failures they turn into results. The environment of the process is
  inherited by every child; the progress that is logged while a child runs is not modelled.
\<close>

section \<open>restic\<close>

record 'e restic =
  re_options :: jsobj
  re_host :: "'e host"

definition restic_options :: "jsobj \<Rightarrow> jsobj" where
  "restic_options options =
     (let paths = obj_of (obj_get options ''paths'');
          paths = default_to ''restic'' (Str ''restic'') paths;
          paths = default_to ''sudo'' (Str ''/usr/bin/sudo'') paths;
          paths = default_to ''chroot'' (Str ''/usr/sbin/chroot'') paths;
          options = obj_set ''paths'' (Obj paths) options
      in default_to ''global_flags'' (Arr []) (default_to ''env'' (Obj []) options))"

definition new_restic :: "jsobj \<Rightarrow> 'e host \<Rightarrow> 'e restic" where
  "new_restic options H = \<lparr>re_options = restic_options options, re_host = H\<rparr>"

text \<open>The output as one JSON value, or else as one value per line.\<close>

definition parsed_lines :: "string \<Rightarrow> js \<Rightarrow> exn + js" where
  "parsed_lines out parsed =
     (case emap (\<lambda>line. json_parse (Str (trim line))) (filter (\<lambda>line. line \<noteq> []) (split_ch (CHR 10) out)) of
        Inr vs \<Rightarrow> Inr (Arr vs)
      | Inl e \<Rightarrow> if catchable e then Inr parsed else Inl e)"

definition restic_parsed :: "string \<Rightarrow> string \<Rightarrow> exn + js" where
  "restic_parsed operation out =
     ebind (parsed_output out) (\<lambda>parsed.
     ebind (if truthy parsed then Inr parsed else parsed_lines out parsed) (\<lambda>parsed.
     Inr (case parsed of Arr vs \<Rightarrow> parsed
          | _ \<Rightarrow> if truthy parsed \<and> operation = ''backup'' then Arr [parsed] else parsed)))"

text \<open>
  A child that is killed because a file is missing counts as failed, or as done when it lists. The
  result it settles with keeps the null code of the child.
\<close>

definition overridden_code :: "string \<Rightarrow> int option \<Rightarrow> string \<Rightarrow> int option" where
  "overridden_code operation code err =
     (if code \<noteq> None \<or> \<not> contains err ''no such file or directory'' then code
      else if operation = ''forget'' then Some 1
      else if operation = ''snapshots'' then Some 0
      else None)"

definition settle_overridden :: "string \<Rightarrow> int option \<Rightarrow> string \<Rightarrow> string \<Rightarrow> ('w, exec_result) io" where
  "settle_overridden operation code out err =
     (let r = closed_result code out err in case overridden_code operation code err of
        None \<Rightarrow> throw (ExecReject (r True))
      | Some n \<Rightarrow> if n \<noteq> 0 then throw (ExecReject (r False)) else ret (r False))"

definition restic_exec :: "'e restic \<Rightarrow> string list \<Rightarrow> string \<Rightarrow> js \<Rightarrow> ('e world, exec_result \<times> js) io" where
  "restic_exec R args operation timeout =
     (let (c, a) = sudo_command (re_options R) (to_str (field (obj_get (re_options R) ''paths'') ''restic'')) args in
      bind (host_spawn (re_host R) c a [(''env'', obj_get (re_options R) ''env''), (''timeout'', timeout)]) (\<lambda>r. case r of
        SpawnFailed m \<Rightarrow> throw (Uncaught m)
      | Closed code out err killed \<Rightarrow>
          bind (lift (restic_parsed operation out)) (\<lambda>parsed.
          bind (settle_overridden operation code out err) (\<lambda>r. ret (r, parsed)))))"

definition restic_timeout :: "'e restic \<Rightarrow> js" where
  "restic_timeout R = default_timeout (re_host R) ''RESTIC_DEFAULT_TIMEOUT'' 90000"

definition restic_args :: "'e restic \<Rightarrow> string list \<Rightarrow> string list \<Rightarrow> string list" where
  "restic_args R command options = command @ each_item (obj_get (re_options R) ''global_flags'') @ options"

definition restic_init :: "'e restic \<Rightarrow> string list \<Rightarrow> ('e world, unit) io" where
  "restic_init R options =
     catch (bind (restic_exec R (restic_args R [''init'', ''--json''] options) [] (restic_timeout R)) (\<lambda>_. ret ()))
       (\<lambda>err. if err_code err = Some 1 \<and> stream_has (err_stderr err) ''already'' then ret () else throw err)"

definition restic_unlock :: "'e restic \<Rightarrow> string list \<Rightarrow> ('e world, unit) io" where
  "restic_unlock R options =
     bind (restic_exec R (restic_args R [''unlock'', ''--json''] options) [] (restic_timeout R)) (\<lambda>_. ret ())"

definition restic_backup :: "'e restic \<Rightarrow> string \<Rightarrow> string list \<Rightarrow> ('e world, exec_result \<times> js) io" where
  "restic_backup R path options =
     restic_exec R (restic_args R [''backup'', ''--json''] options @ [path]) ''backup'' (Num (IntN 0))"

definition restic_tag :: "'e restic \<Rightarrow> string list \<Rightarrow> ('e world, exec_result \<times> js) io" where
  "restic_tag R options = restic_exec R (restic_args R [''tag'', ''--json''] options) ''tag'' (restic_timeout R)"

text \<open>The listed snapshots, and those of every listed group.\<close>

definition listed_snapshots :: "js \<Rightarrow> exn + js list" where
  "listed_snapshots parsed =
     (case parsed of
        Arr items \<Rightarrow>
          efold (\<lambda>acc item.
            ebind (getp item ''id'') (\<lambda>i.
            ebind (getp item ''snapshots'') (\<lambda>ss.
            ebind (if truthy ss then iterate ss else Inr []) (\<lambda>xs.
            Inr (acc @ (if truthy i then [item] else []) @ xs))))) [] items
      | _ \<Rightarrow> Inl (type_error ''forEach''))"

definition restic_snapshots :: "'e restic \<Rightarrow> string list \<Rightarrow> ('e world, js list) io" where
  "restic_snapshots R options =
     bind (restic_exec R (restic_args R [''snapshots'', ''--json'', ''--no-lock''] options) ''snapshots'' (restic_timeout R))
       (\<lambda>(r, parsed). lift (listed_snapshots parsed))"

definition restic_snapshot_exists :: "'e restic \<Rightarrow> string \<Rightarrow> ('e world, bool) io" where
  "restic_snapshot_exists R snapshot_id = bind (restic_snapshots R [snapshot_id]) (\<lambda>ss. ret (ss \<noteq> []))"

text \<open>The handler never sees the code 1 that \<open>overridden_code\<close> stands for.\<close>

definition restic_forget :: "'e restic \<Rightarrow> string list \<Rightarrow> ('e world, js) io" where
  "restic_forget R options =
     catch (bind (restic_exec R (restic_args R [''forget'', ''--json''] options) ''forget'' (restic_timeout R)) (\<lambda>(r, parsed). ret parsed))
       (\<lambda>err. if err_code err = Some 1 \<and> stream_has (err_stderr err) ''no such file or directory''
              then ret (Arr []) else throw err)"

definition restic_stats :: "'e restic \<Rightarrow> string list \<Rightarrow> ('e world, js) io" where
  "restic_stats R options =
     bind (restic_exec R (restic_args R [''stats'', ''--json'', ''--no-lock''] options) ''stats'' (Num (IntN 0)))
       (\<lambda>(r, parsed). ret parsed)"

text \<open>\<open>match(/ignoring error/g)\<close>: the occurrences that do not overlap.\<close>

function occurrences :: "string \<Rightarrow> string \<Rightarrow> nat" where
  "occurrences p s =
     (if p = [] then 0 else case find_at s p of None \<Rightarrow> 0 | Some i \<Rightarrow> Suc (occurrences p (drop (i + length p) s)))"
  by pat_completeness auto

termination
proof (relation "measure (\<lambda>(p, s). length s)")
  fix p s :: string and i
  assume p: "p \<noteq> []" and i: "find_at s p = Some i"
  have "s \<noteq> []" using p i by (cases s) (auto simp: starts_with_def split: if_splits)
  with p show "((p, drop (i + length p) s), (p, s)) \<in> measure (\<lambda>(p, s). length s)" by simp
qed simp

declare occurrences.simps [simp del]

text \<open>
  A restore that ended with errors counts as done when the last line of its errors has the digits of
  the number of ignored errors in it.
\<close>

definition ignored_errors_only :: "string \<Rightarrow> bool" where
  "ignored_errors_only err =
     contains (last (filter (\<lambda>l. trim l \<noteq> []) (split_ch (CHR 10) err))) (show_nat (occurrences ''ignoring error'' err))"

definition restic_restore :: "'e restic \<Rightarrow> string list \<Rightarrow> ('e world, unit) io" where
  "restic_restore R options =
     catch (bind (restic_exec R (restic_args R [''restore'', ''--json'', ''--no-lock''] options) ''restore'' (Num (IntN 0)))
              (\<lambda>_. ret ()))
       (\<lambda>err. if err_code err = Some 1 \<and> stream_has (err_stderr err) ''Fatal:''
                \<and> (case err_stderr err of Some s \<Rightarrow> ignored_errors_only s | None \<Rightarrow> False)
              then ret () else throw err)"

text \<open>The last lines of a result, and the values of \<open>--tag\<close> among arguments.\<close>

definition last_lines :: "nat \<Rightarrow> string \<Rightarrow> string" where
  "last_lines n s = (let ls = split_ch (CHR 10) s in join [CHR 10] (drop (length ls - n) ls))"

definition trimResultData :: "exec_result \<times> js \<Rightarrow> nat \<Rightarrow> exec_result \<times> js" where
  "trimResultData result max_entries =
     (let (r, parsed) = result; n = (if max_entries = 0 then 50 else max_entries) in
      (r\<lparr>er_stderr := last_lines n (er_stderr r), er_stdout := last_lines n (er_stdout r)\<rparr>,
       case parsed of Arr vs \<Rightarrow> Arr (drop (length vs - n) vs) | _ \<Rightarrow> parsed))"

fun parseTagsFromArgs :: "string list \<Rightarrow> string list" where
  "parseTagsFromArgs (x # y # xs) =
     (if x = ''--tag'' \<and> y \<noteq> ''--tag'' then split_ch (CHR '','') y @ parseTagsFromArgs xs else parseTagsFromArgs (y # xs))"
| "parseTagsFromArgs _ = []"

section \<open>kopia\<close>

record 'e kopia =
  ko_options :: jsobj
  ko_host :: "'e host"

definition kopia_env :: "string \<Rightarrow> jsobj \<Rightarrow> jsobj" where
  "kopia_env uuid env =
     obj_set ''KOPIA_LOG_DIR'' (Str (''/tmp/kopia/'' @ uuid @ ''/log''))
    (obj_set ''KOPIA_CACHE_DIRECTORY'' (Str (''/tmp/kopia/'' @ uuid @ ''/cache''))
    (obj_set ''KOPIA_CHECK_FOR_UPDATES'' (Str ''false'')
    (obj_set ''KOPIA_CONFIG_PATH'' (Str (''/tmp/kopia/'' @ uuid @ ''/repository.config'')) env)))"

definition kopia_options :: "string \<Rightarrow> jsobj \<Rightarrow> jsobj" where
  "kopia_options uuid options =
     (let paths = obj_of (obj_get options ''paths'');
          paths = default_to ''kopia'' (Str ''kopia'') paths;
          paths = default_to ''sudo'' (Str ''/usr/bin/sudo'') paths;
          paths = default_to ''chroot'' (Str ''/usr/sbin/chroot'') paths;
          options = obj_set ''paths'' (Obj paths) options;
          options = obj_set ''env'' (Obj (kopia_env uuid (obj_of (obj_get options ''env'')))) options
      in default_to ''global_flags'' (Arr []) options)"

definition new_kopia :: "string \<Rightarrow> jsobj \<Rightarrow> 'e host \<Rightarrow> 'e kopia" where
  "new_kopia uuid options H = \<lparr>ko_options = kopia_options uuid options, ko_host = H\<rparr>"

text \<open>What is logged of a command: the argument after the first \<open>--token\<close> is redacted.\<close>

definition kopia_cleansed :: "string list \<Rightarrow> string list" where
  "kopia_cleansed args =
     (let before = takeWhile (\<lambda>v. trim v \<noteq> ''--token'') args; rest = drop (length before) args in
      case rest of
        [] \<Rightarrow> args
      | t # [] \<Rightarrow> before @ [t, ''redacted'']
      | t # _ # more' \<Rightarrow> before @ t # ''redacted'' # more')"

definition kopia_log :: "'e kopia \<Rightarrow> string list \<Rightarrow> string" where
  "kopia_log K args =
     (let (c, a) = sudo_command (ko_options K) (to_str (field (obj_get (ko_options K) ''paths'') ''kopia'')) args in
      ''executing kopia command: '' @ c @ '' '' @ join '' '' (kopia_cleansed a))"

definition kopia_exec :: "'e kopia \<Rightarrow> string list \<Rightarrow> ('e world, exec_result \<times> js) io" where
  "kopia_exec K args =
     (let (c, a) = sudo_command (ko_options K) (to_str (field (obj_get (ko_options K) ''paths'') ''kopia'')) args;
          timeout = default_timeout (ko_host K) ''KOPIA_DEFAULT_TIMEOUT'' 90000 in
      bind (host_spawn (ko_host K) c a [(''env'', obj_get (ko_options K) ''env''), (''timeout'', timeout)]) (\<lambda>r. case r of
        SpawnFailed m \<Rightarrow> throw (Uncaught m)
      | Closed code out err killed \<Rightarrow>
          bind (lift (parsed_output out)) (\<lambda>parsed.
          bind (settle_closed code out err) (\<lambda>r. ret (r, parsed)))))"

definition kopia_command :: "'e kopia \<Rightarrow> string list \<Rightarrow> string list \<Rightarrow> ('e world, exec_result \<times> js) io" where
  "kopia_command K command options = kopia_exec K (command @ each_item (obj_get (ko_options K) ''global_flags'') @ options)"

definition repositoryConnect :: "'e kopia \<Rightarrow> string list \<Rightarrow> ('e world, unit) io" where
  "repositoryConnect K options = bind (kopia_command K [''repository'', ''connect''] options) (\<lambda>_. ret ())"

definition repositoryStatus :: "'e kopia \<Rightarrow> string list \<Rightarrow> ('e world, exec_result \<times> js) io" where
  "repositoryStatus K options = kopia_command K [''repository'', ''status'', ''--json''] options"

definition snapshotList :: "'e kopia \<Rightarrow> string list \<Rightarrow> ('e world, js) io" where
  "snapshotList K options = bind (kopia_command K [''snapshot'', ''list'', ''--json''] options) (\<lambda>(r, parsed). ret parsed)"

text \<open>None when no snapshot has the id.\<close>

definition snapshotGet :: "'e kopia \<Rightarrow> js \<Rightarrow> ('e world, js option) io" where
  "snapshotGet K snapshot_id =
     bind (kopia_command K [''snapshot'', ''list'', ''--json'', ''--all''] []) (\<lambda>(r, parsed).
     case parsed of
       Arr items \<Rightarrow> lift (efind (\<lambda>item. ebind (getp item ''id'') (\<lambda>i. Inr (loose_eq i snapshot_id))) items)
     | _ \<Rightarrow> throw (type_error ''find''))"

definition snapshotCreate :: "'e kopia \<Rightarrow> string list \<Rightarrow> ('e world, js) io" where
  "snapshotCreate K options = bind (kopia_command K [''snapshot'', ''create'', ''--json''] options) (\<lambda>(r, parsed). ret parsed)"

definition no_such_snapshot :: "exn \<Rightarrow> bool" where
  "no_such_snapshot err \<longleftrightarrow> err_code err = Some 1
     \<and> (stream_has (err_stderr err) ''no snapshots matched'' \<or> stream_has (err_stderr err) ''invalid content hash'')"

definition snapshotDelete :: "'e kopia \<Rightarrow> string list \<Rightarrow> ('e world, unit) io" where
  "snapshotDelete K options =
     catch (bind (kopia_command K [''snapshot'', ''delete'', ''--delete''] options) (\<lambda>_. ret ()))
       (\<lambda>err. if no_such_snapshot err then ret () else throw err)"

definition snapshotRestore :: "'e kopia \<Rightarrow> string list \<Rightarrow> ('e world, unit) io" where
  "snapshotRestore K options =
     catch (bind (kopia_command K [''snapshot'', ''restore''] options) (\<lambda>_. ret ()))
       (\<lambda>err. if no_such_snapshot err then ret () else throw err)"

lemmas backup_tools_run [code] =
  settle_overridden_def [THEN fun_cong] restic_exec_def [THEN fun_cong] restic_init_def [THEN fun_cong]
  restic_unlock_def [THEN fun_cong] restic_backup_def [THEN fun_cong] restic_tag_def [THEN fun_cong]
  restic_snapshots_def [THEN fun_cong] restic_snapshot_exists_def [THEN fun_cong] restic_forget_def [THEN fun_cong]
  restic_stats_def [THEN fun_cong] restic_restore_def [THEN fun_cong] kopia_exec_def [THEN fun_cong]
  kopia_command_def [THEN fun_cong] repositoryConnect_def [THEN fun_cong] repositoryStatus_def [THEN fun_cong]
  snapshotList_def [THEN fun_cong] snapshotGet_def [THEN fun_cong] snapshotCreate_def [THEN fun_cong]
  snapshotDelete_def [THEN fun_cong] snapshotRestore_def [THEN fun_cong]

section \<open>What is logged and what is run\<close>

lemma kopia_cleansed_token:
  assumes "\<forall>v\<in>set a. trim v \<noteq> ''--token''" and "trim t = ''--token''"
  shows "kopia_cleansed (a @ t # x # b) = a @ t # ''redacted'' # b"
  using assms by (simp add: kopia_cleansed_def Let_def takeWhile_append2 dropWhile_append2)

lemma restic_exec_event:
  "restic_exec R args operation timeout w = (r, w') \<Longrightarrow>
     \<exists>c a. (c, a) = sudo_command (re_options R) (to_str (field (obj_get (re_options R) ''paths'') ''restic'')) args
       \<and> hist w' = hist w @ [EvSpawn c a]"
  by (auto simp: restic_exec_def bind_def lift_def host_spawn_def perform_def throw_def settle_overridden_def ret_def Let_def
      split: prod.splits sum.splits spawn_out.splits option.splits if_splits)

end
