(* ===== verification/Url_Params.thy ===== *)
theory Url_Params
  imports Effects Json
begin

text \<open>
  \<open>URLSearchParams\<close> of Node.js, in which the client drivers keep the driver of a snapshot and its
  id: the text of a list of pairs and the pairs of a text. Texts that need UTF-8 are outside the model.
\<close>

definition url_plain :: "char \<Rightarrow> bool" where
  "url_plain c \<longleftrightarrow> is_alnum c \<or> c \<in> set ''*-._''"

definition upper_hex_digit :: "nat \<Rightarrow> char" where
  "upper_hex_digit n = (if n < 10 then char_of (48 + n) else char_of (55 + n))"

definition url_escape :: "char \<Rightarrow> string" where
  "url_escape c =
     (if url_plain c then [c]
      else if c = CHR '' '' then ''+''
      else [CHR ''%'', upper_hex_digit (of_char c div 16), upper_hex_digit (of_char c mod 16)])"

definition url_encode :: "string \<Rightarrow> exn + string" where
  "url_encode s =
     (if list_all (\<lambda>c. (of_char c :: nat) < 128) s then Inr (concat (map url_escape s))
      else Inl (Unmodelled ''text outside ASCII''))"

definition url_serialize :: "(string \<times> string) list \<Rightarrow> exn + string" where
  "url_serialize ps =
     ebind (emap (\<lambda>(k, v). ebind (url_encode k) (\<lambda>a. ebind (url_encode v) (\<lambda>b. Inr (a @ CHR ''='' # b)))) ps)
       (\<lambda>segments. Inr (join ''&'' segments))"

text \<open>An escape that is not followed by two hexadecimal digits stands for itself.\<close>

fun url_decode :: "string \<Rightarrow> exn + string" where
  "url_decode [] = Inr []"
| "url_decode (c # s) =
     (if c = CHR ''+'' then ebind (url_decode s) (\<lambda>t. Inr (CHR '' '' # t))
      else if c \<noteq> CHR ''%'' then ebind (url_decode s) (\<lambda>t. Inr (c # t))
      else case s of
        a # b # u \<Rightarrow>
          (case (hex_value a, hex_value b) of
             (Some x, Some y) \<Rightarrow>
               if 16 * x + y < 128 then ebind (url_decode u) (\<lambda>t. Inr (char_of (16 * x + y) # t))
               else Inl (Unmodelled ''text outside ASCII'')
           | _ \<Rightarrow> ebind (url_decode s) (\<lambda>t. Inr (c # t)))
      | _ \<Rightarrow> ebind (url_decode s) (\<lambda>t. Inr (c # t)))"

definition url_pair :: "string \<Rightarrow> exn + string \<times> string" where
  "url_pair segment =
     (let k = takeWhile (\<lambda>c. c \<noteq> CHR ''='') segment in
      ebind (url_decode k) (\<lambda>a. ebind (url_decode (drop (Suc (length k)) segment)) (\<lambda>b. Inr (a, b))))"

definition url_parse :: "string \<Rightarrow> exn + (string \<times> string) list" where
  "url_parse s =
     emap url_pair (filter (\<lambda>segment. segment \<noteq> [])
       (split_ch (CHR ''&'') (if starts_with s ''?'' then tl s else s)))"

definition url_get :: "(string \<times> string) list \<Rightarrow> string \<Rightarrow> js" where
  "url_get ps k = (case map_of ps k of Some v \<Rightarrow> Str v | None \<Rightarrow> Null)"

section \<open>The round trip\<close>

lemma hex_value_upper [simp]: "n < 16 \<Longrightarrow> hex_value (upper_hex_digit n) = Some n"
  by (auto simp: hex_value_def upper_hex_digit_def of_char_of Let_def)

lemma url_decode_escape:
  assumes "(of_char c :: nat) < 128"
  shows "url_decode (url_escape c @ s) = ebind (url_decode s) (\<lambda>t. Inr (c # t))"
proof (cases "url_plain c \<or> c = CHR '' ''")
  case True
  moreover have "\<not> url_plain (CHR ''+'')" "\<not> url_plain (CHR ''%'')" by code_simp+
  ultimately show ?thesis by (auto simp: url_escape_def)
next
  case False
  let ?n = "of_char c :: nat"
  have h: "hex_value (upper_hex_digit (?n div 16)) = Some (?n div 16)" "hex_value (upper_hex_digit (?n mod 16)) = Some (?n mod 16)"
    using assms by simp_all
  have n: "16 * (?n div 16) + ?n mod 16 = ?n" by simp
  show ?thesis using False assms by (simp add: url_escape_def h n)
qed

lemma url_decode_encode: "url_encode s = Inr t \<Longrightarrow> url_decode t = Inr s"
proof (induction s arbitrary: t)
  case (Cons c s)
  then have c: "(of_char c :: nat) < 128" and t: "t = url_escape c @ concat (map url_escape s)"
    and s: "url_encode s = Inr (concat (map url_escape s))" by (auto simp: url_encode_def split: if_splits)
  from Cons.IH [OF s] show ?case unfolding t url_decode_escape [OF c] by simp
qed (simp add: url_encode_def)

lemma upper_hex_digit_plain: "n < 16 \<Longrightarrow> upper_hex_digit n \<notin> set ''&=?''"
proof -
  assume "n < 16"
  moreover have "\<forall>n\<in>set [0..<16]. upper_hex_digit n \<notin> set ''&=?''" by code_simp
  ultimately show ?thesis by simp
qed

lemma url_escape_chars:
  assumes "(of_char c :: nat) < 128"
  shows "set (url_escape c) \<inter> set ''&=?'' = {}"
proof -
  have "\<not> url_plain (CHR ''&'')" "\<not> url_plain (CHR ''='')" "\<not> url_plain (CHR ''?'')" by code_simp+
  moreover have "upper_hex_digit (of_char c div 16) \<notin> set ''&=?''" "upper_hex_digit (of_char c mod 16) \<notin> set ''&=?''"
    using assms by (simp_all only: upper_hex_digit_plain) (auto intro!: upper_hex_digit_plain)
  ultimately show ?thesis by (auto simp: url_escape_def)
qed

lemma url_encode_chars:
  assumes "url_encode s = Inr t" shows "set t \<inter> set ''&=?'' = {}"
proof -
  from assms have "list_all (\<lambda>c. (of_char c :: nat) < 128) s" and t: "t = concat (map url_escape s)"
    by (auto simp: url_encode_def split: if_splits)
  then have "\<forall>c\<in>set s. set (url_escape c) \<inter> set ''&=?'' = {}" using url_escape_chars by (auto simp: list_all_iff)
  then show ?thesis unfolding t by auto
qed

lemma url_pair_segment:
  assumes "url_encode k = Inr a" and "url_encode v = Inr b"
  shows "url_pair (a @ CHR ''='' # b) = Inr (k, v)"
proof -
  have "CHR ''='' \<notin> set a" using url_encode_chars [OF assms(1)] by auto
  then have "takeWhile (\<lambda>c. c \<noteq> CHR ''='') (a @ CHR ''='' # b) = a" by (subst takeWhile_append2) auto
  then show ?thesis using assms by (simp add: url_pair_def Let_def url_decode_encode)
qed

lemma url_segments:
  assumes "emap (\<lambda>(k, v). ebind (url_encode k) (\<lambda>a. ebind (url_encode v) (\<lambda>b. Inr (a @ CHR ''='' # b)))) ps = Inr segments"
  shows "emap url_pair segments = Inr ps \<and> (\<forall>x\<in>set segments. x \<noteq> [] \<and> CHR ''&'' \<notin> set x \<and> CHR ''?'' \<notin> set x)"
  using assms
proof (induction ps arbitrary: segments)
  case (Cons p ps)
  obtain k v where p: "p = (k, v)" by (cases p)
  with Cons.prems obtain a b rest where ab: "url_encode k = Inr a" "url_encode v = Inr b"
    and rest: "emap (\<lambda>(k, v). ebind (url_encode k) (\<lambda>a. ebind (url_encode v) (\<lambda>b. Inr (a @ CHR ''='' # b)))) ps = Inr rest"
    and s: "segments = (a @ CHR ''='' # b) # rest"
    by (auto simp: ebind_eq_Inr)
  from Cons.IH [OF rest] url_pair_segment [OF ab] url_encode_chars [OF ab(1)] url_encode_chars [OF ab(2)]
  show ?case by (auto simp: s p)
qed simp

lemma url_roundtrip:
  assumes "url_serialize ps = Inr s"
  shows "url_parse s = Inr ps"
proof -
  from assms obtain segments where e: "emap (\<lambda>(k, v). ebind (url_encode k) (\<lambda>a. ebind (url_encode v) (\<lambda>b. Inr (a @ CHR ''='' # b)))) ps = Inr segments"
    and s: "s = join ''&'' segments" by (auto simp: url_serialize_def ebind_eq_Inr)
  note seg = url_segments [OF e]
  show ?thesis
  proof (cases segments)
    case Nil
    with seg s show ?thesis by (simp add: url_parse_def starts_with_def)
  next
    case (Cons x xs)
    have "hd s = hd x \<and> s \<noteq> []" using seg Cons s by (cases xs; cases x) auto
    moreover have "hd x \<noteq> CHR ''?''" using seg Cons by (cases x) auto
    ultimately have q: "\<not> starts_with s ''?''" by (cases s) (auto simp: starts_with_def)
    have "split_ch (CHR ''&'') s = segments" using seg Cons unfolding s by (intro split_join_ch) auto
    moreover have "filter (\<lambda>x. x \<noteq> []) segments = segments" using seg by (simp add: filter_id_conv)
    ultimately show ?thesis using seg q by (simp add: url_parse_def)
  qed
qed

end
