(* ===== verification/Client_Common.thy ===== *)
theory Client_Common
  imports Backup_Tools Url_Params Objectivefs_Controller
begin

text \<open>
  \<open>src/driver/controller-client-common/index.js\<close>, the controller whose volumes are directories of a
  share that the controller itself has mounted, and the drivers derived from it for NFS, SMB, Lustre
  and local paths: the constructor, the paths of volumes and snapshots, the work on directories, the
  clients of the backup tools, and the calls that create no data. \<open>Client_Snapshots\<close> has the others.
\<close>

section \<open>The driver\<close>

text \<open>
  The derived driver, the options and packages of \<open>Controller_Base\<close> (the zfs client is not used), the
  host, and \<open>fs\<close> as parameters: whether a path exists, whether it is a directory, and the calls that
  make, remove, copy and change directories.
\<close>

datatype client_kind = NfsClient | SmbClient | LustreClient | LocalHostpath

record 'e client_driver =
  cd_kind :: client_kind
  cd_driver :: "'e driver"
  cd_host :: "'e host"
  cd_windows :: bool
  cd_csiName :: js
  cd_hostname :: string
  cd_exists :: "string \<Rightarrow> 'e \<Rightarrow> bool \<times> 'e"
  cd_isDirectory :: "string \<Rightarrow> 'e \<Rightarrow> (exn + bool) \<times> 'e"
  cd_mkdir :: "string \<Rightarrow> 'e \<Rightarrow> (exn + unit) \<times> 'e"
  cd_rm :: "string \<Rightarrow> 'e \<Rightarrow> (exn + unit) \<times> 'e"
  cd_copy :: "string \<Rightarrow> string \<Rightarrow> 'e \<Rightarrow> (exn + unit) \<times> 'e"
  cd_chmod :: "string \<Rightarrow> js \<Rightarrow> 'e \<Rightarrow> (exn + unit) \<times> 'e"

definition cc_options :: "'e client_driver \<Rightarrow> jsobj" where
  "cc_options D = dr_options (cd_driver D)"

definition cc_opt :: "'e client_driver \<Rightarrow> string \<Rightarrow> js \<Rightarrow> js" where
  "cc_opt D path d = opts_get (cd_driver D) (cc_options D) path d"

fun getConfigKey :: "client_kind \<Rightarrow> string" where
  "getConfigKey NfsClient = ''nfs''"
| "getConfigKey SmbClient = ''smb''"
| "getConfigKey LustreClient = ''lustre''"
| "getConfigKey LocalHostpath = ''local-hostpath''"

fun getFsTypes :: "client_kind \<Rightarrow> string list" where
  "getFsTypes NfsClient = [''nfs'']"
| "getFsTypes SmbClient = [''cifs'']"
| "getFsTypes LustreClient = [''lustre'']"
| "getFsTypes LocalHostpath = []"

definition cc_section :: "'e client_driver \<Rightarrow> js" where
  "cc_section D = obj_get (cc_options D) (getConfigKey (cd_kind D))"

definition cc_conf :: "'e client_driver \<Rightarrow> string \<Rightarrow> exn + js" where
  "cc_conf D k = getp (cc_section D) k"

definition cc_setting :: "'e client_driver \<Rightarrow> string \<Rightarrow> js \<Rightarrow> js" where
  "cc_setting D path d = lget (dr_lodash (cd_driver D)) (cc_section D) path d"

section \<open>The constructors\<close>

definition cc_controller_rpcs :: "(string \<Rightarrow> bool) \<Rightarrow> string list" where
  "cc_controller_rpcs satisfies =
     [''CREATE_DELETE_VOLUME'', ''CREATE_DELETE_SNAPSHOT'', ''CLONE_VOLUME'']
     @ (if satisfies ''>=1.5.0'' then [''SINGLE_NODE_MULTI_WRITER''] else [])"

definition cc_node_rpcs :: "(string \<Rightarrow> bool) \<Rightarrow> string list" where
  "cc_node_rpcs satisfies =
     [''STAGE_UNSTAGE_VOLUME'', ''GET_VOLUME_STATS'']
     @ (if satisfies ''>=1.5.0'' then [''SINGLE_NODE_MULTI_WRITER''] else [])"

definition cc_service_options :: "(string \<Rightarrow> bool) \<Rightarrow> jsobj \<Rightarrow> jsobj" where
  "cc_service_options satisfies options =
     (let service = inner_obj (obj_get options ''service'');
          icaps = default_list ''volume_expansion'' []
                    (default_list ''service'' [''CONTROLLER_SERVICE''] (caps_of ''identity'' service));
          ccaps = default_list ''rpc'' (cc_controller_rpcs satisfies) (caps_of ''controller'' service);
          ncaps = default_list ''rpc'' (cc_node_rpcs satisfies) (caps_of ''node'' service)
      in obj_set ''service''
           (Obj (with_caps ''node'' ncaps (with_caps ''controller'' ccaps (with_caps ''identity'' icaps service)))) options)"

text \<open>The local driver replaces what its options do not configure.\<close>

definition hostpath_service_options :: "lodash \<Rightarrow> (string \<Rightarrow> bool) \<Rightarrow> jsobj \<Rightarrow> jsobj" where
  "hostpath_service_options L satisfies given =
     (let i_caps = lget L (Obj given) ''service.identity.capabilities.service'' (Bool False);
          c_caps = lget L (Obj given) ''service.controller.capabilities'' (Bool False);
          options = cc_service_options satisfies given;
          service = inner_obj (obj_get options ''service'');
          service = (if truthy i_caps then service
            else with_caps ''identity'' (obj_set ''service''
                   (Arr [Str ''CONTROLLER_SERVICE'', Str ''VOLUME_ACCESSIBILITY_CONSTRAINTS'']) (caps_of ''identity'' service)) service);
          rpc = obj_get (caps_of ''controller'' service) ''rpc'';
          service = (case rpc of
              Arr xs \<Rightarrow> if truthy c_caps \<or> Str ''GET_CAPACITY'' \<in> set xs then service
                else with_caps ''controller'' (obj_set ''rpc'' (Arr (xs @ [Str ''GET_CAPACITY''])) (caps_of ''controller'' service)) service
            | _ \<Rightarrow> service)
      in obj_set ''service'' (Obj service) options)"

section \<open>Capabilities\<close>

definition cc_access_modes :: "'e client_driver \<Rightarrow> js" where
  "cc_access_modes D =
     (let configured = cc_opt D ''csi.access_modes'' Null in
      if configured \<noteq> Null then configured else Arr (map Str (default_access_modes ''filesystem'')))"

definition cc_check_capability :: "'e client_driver \<Rightarrow> js \<Rightarrow> exn + msg option" where
  "cc_check_capability D capability =
     ebind (getp capability ''access_type'') (\<lambda>t.
     if \<not> loose_eq t (Str ''mount'') then Inr (Some (''invalid access_type '' @ to_str t))
     else ebind (getp capability ''mount'') (\<lambda>m. ebind (getp m ''fs_type'') (\<lambda>f.
          if truthy f \<and> f \<notin> set (map Str (getFsTypes (cd_kind D))) then Inr (Some (''invalid fs_type '' @ to_str f))
          else ebind (getp capability ''access_mode'') (\<lambda>am. ebind (getp am ''mode'') (\<lambda>mode.
               ebind (js_includes (cc_access_modes D) mode) (\<lambda>b.
               Inr (if b then None else Some (''invalid access_mode, '' @ to_str mode))))))))"

fun cc_every_capability :: "'e client_driver \<Rightarrow> js list \<Rightarrow> exn + bool \<times> js" where
  "cc_every_capability D [] = Inr (True, Null)"
| "cc_every_capability D (c # cs) =
     ebind (cc_check_capability D c) (\<lambda>r.
       case r of None \<Rightarrow> cc_every_capability D cs | Some m \<Rightarrow> Inr (False, Str m))"

definition cc_assertCapabilities :: "'e client_driver \<Rightarrow> js \<Rightarrow> exn + bool \<times> js" where
  "cc_assertCapabilities D capabilities =
     (case capabilities of Arr cs \<Rightarrow> cc_every_capability D cs | _ \<Rightarrow> Inl (type_error ''every''))"

section \<open>Paths\<close>

definition cc_base_path :: "'e client_driver \<Rightarrow> string \<Rightarrow> exn + string" where
  "cc_base_path D k =
     (let missing = grpc FAILED_PRECONDITION (''invalid configuration: missing '' @ k) in
      ebind (cc_conf D k) (\<lambda>path.
      if \<not> truthy path then Inl missing
      else ebind (as_string path) (\<lambda>s. if strip_slash s = [] then Inl missing else Inr (strip_slash s))))"

definition getShareBasePath :: "'e client_driver \<Rightarrow> exn + string" where
  "getShareBasePath D = cc_base_path D ''shareBasePath''"

definition getControllerBasePath :: "'e client_driver \<Rightarrow> exn + string" where
  "getControllerBasePath D = cc_base_path D ''controllerBasePath''"

definition assertSafeIdForPath :: "js \<Rightarrow> exn + string" where
  "assertSafeIdForPath v =
     (let refused = Inl (invalid_argument (''invalid id '' @ quoted (to_str v) @ '': contains illegal path characters'')) in
      case v of
        Str s \<Rightarrow>
          if s = [] \<or> CHR 0x00 \<in> set s \<or> CHR ''/'' \<in> set s \<or> CHR 0x5C \<in> set s \<or> contains s ''..'' then refused else Inr s
      | _ \<Rightarrow> refused)"

definition below :: "exn + string \<Rightarrow> string \<Rightarrow> js \<Rightarrow> exn + string" where
  "below base extra v =
     ebind (assertSafeIdForPath v) (\<lambda>s. ebind base (\<lambda>b. Inr (b @ extra @ ''/'' @ s)))"

definition getShareVolumePath :: "'e client_driver \<Rightarrow> js \<Rightarrow> exn + string" where
  "getShareVolumePath D volume_id = below (getShareBasePath D) ''/v'' volume_id"

definition getShareSnapshotPath :: "'e client_driver \<Rightarrow> js \<Rightarrow> exn + string" where
  "getShareSnapshotPath D snapshot_id = below (getShareBasePath D) ''/s'' snapshot_id"

definition getControllerVolumePath :: "'e client_driver \<Rightarrow> js \<Rightarrow> exn + string" where
  "getControllerVolumePath D volume_id = below (getControllerBasePath D) ''/v'' volume_id"

definition getControllerSnapshotPath :: "'e client_driver \<Rightarrow> js \<Rightarrow> exn + string" where
  "getControllerSnapshotPath D snapshot_id = below (getControllerBasePath D) ''/s'' snapshot_id"

definition stripTrailingSlash :: "string \<Rightarrow> string" where
  "stripTrailingSlash s = (if length s > 1 then strip_slash s else s)"

definition stripLeadingSlash :: "string \<Rightarrow> string" where
  "stripLeadingSlash s = (if length s > 1 then dropWhile (\<lambda>c. c = CHR ''/'') s else s)"

section \<open>Directories\<close>

text \<open>A child without an exit code (a signal killed it) counts as a success here.\<close>

definition cc_exec :: "'e client_driver \<Rightarrow> string \<Rightarrow> string list \<Rightarrow> ('e world, exec_result) io" where
  "cc_exec D command args =
     bind (host_spawn (cd_host D) command args []) (\<lambda>r. case r of
       SpawnFailed m \<Rightarrow> throw (Uncaught m)
     | Closed code out err killed \<Rightarrow>
         if code = None \<or> code = Some 0 then ret (closed_result code out err False)
         else throw (ExecReject (closed_result code out err False)))"

definition getDirectoryUsage :: "'e client_driver \<Rightarrow> string \<Rightarrow> ('e world, js) io" where
  "getDirectoryUsage D path =
     (if cd_windows D then ret (Num (IntN 0))
      else bind (cc_exec D ''du'' [''-s'', ''--block-size=1'', path]) (\<lambda>r.
        ret (Str (hd (split_ch (CHR 9) (er_stdout r))))))"

definition getAvailableSpaceAtPath :: "'e client_driver \<Rightarrow> string \<Rightarrow> ('e world, js) io" where
  "getAvailableSpaceAtPath D path =
     (if cd_windows D then ret (Num (IntN 0))
      else bind (cc_exec D ''df'' [''--block-size=1'', ''--output=avail'', path]) (\<lambda>r.
        bind (lift (item (split_ch (CHR 10) (er_stdout r)) 1)) (\<lambda>s. ret (Str (trim s)))))"

definition createDir :: "'e client_driver \<Rightarrow> string \<Rightarrow> ('e world, unit) io" where
  "createDir D path = perform (EvHost ''mkdir'' path) (cd_mkdir D path)"

definition deleteDir :: "'e client_driver \<Rightarrow> string \<Rightarrow> ('e world, unit) io" where
  "deleteDir D path = perform (EvHost ''rm'' path) (cd_rm D path)"

definition cloneDir :: "'e client_driver \<Rightarrow> string \<Rightarrow> string \<Rightarrow> ('e world, unit) io" where
  "cloneDir D source_path target_path =
     (if cd_windows D then
        perform (EvHost ''copy'' (stripTrailingSlash target_path))
          (cd_copy D (stripTrailingSlash source_path) (stripTrailingSlash target_path))
      else andthen (createDir D target_path)
        (bind (cc_exec D ''rsync'' [''-a'', stripTrailingSlash source_path @ ''/'', stripTrailingSlash target_path @ ''/''])
          (\<lambda>_. ret ())))"

definition directoryExists :: "'e client_driver \<Rightarrow> string \<Rightarrow> ('e world, bool) io" where
  "directoryExists D path =
     bind (perform (EvHost ''exists'' path) (\<lambda>e. case cd_exists D path e of (b, e') \<Rightarrow> (Inr b, e'))) (\<lambda>r.
     if \<not> r then ret False
     else bind (perform (EvHost ''isDirectory'' path) (cd_isDirectory D path)) (\<lambda>d.
       if d then ret True else throw (js_error (''path ['' @ path @ ''] exists but is not a directory''))))"

definition normalizePath :: "bool \<Rightarrow> string \<Rightarrow> string" where
  "normalizePath win32 p =
     (if win32 then map (\<lambda>c. if c = CHR ''/'' then CHR 0x5C else c) p
      else map (\<lambda>c. if c = CHR 0x5C then CHR ''/'' else c) p)"

section \<open>The backup tools\<close>

text \<open>The host name that is worked out for the restic client is never given to it.\<close>

definition getResticClient :: "'e client_driver \<Rightarrow> 'e restic" where
  "getResticClient D = new_restic
     [(''env'', cc_setting D ''snapshots.restic.env'' (Obj [])),
      (''global_flags'', cc_setting D ''snapshots.restic.global_flags'' (Arr []))] (cd_host D)"

definition restic_hostname :: string where
  "restic_hostname = to_str Undef"

definition client_hostname :: "'e client_driver \<Rightarrow> string" where
  "client_hostname D =
     to_str (cd_csiName D) @ (if loose_eq (obj_get (cc_options D) ''driver'') (Str ''local-hostpath'')
       then ''-'' @ env_or (cd_host D) ''CSI_NODE_ID'' (cd_hostname D) else [])"

definition kopia_connect_options :: "'e client_driver \<Rightarrow> string list" where
  "kopia_connect_options D =
     [''--override-hostname'', client_hostname D, ''--override-username'', ''democratic-csi'', ''from-config'', ''--token'',
      to_str (cc_setting D ''snapshots.kopia.config_token'' (Str []))]"

text \<open>The registry keeps the client of an earlier call that connected; without one, a new client connects.\<close>

definition getKopiaClient :: "'e client_driver \<Rightarrow> 'e kopia option \<Rightarrow> ('e world, 'e kopia) io" where
  "getKopiaClient D registered =
     (case registered of
        Some K \<Rightarrow> ret K
      | None \<Rightarrow> bind (uuidv4 (cd_driver D)) (\<lambda>uuid.
          let K = new_kopia uuid
            [(''env'', cc_setting D ''snapshots.kopia.env'' (Obj [])),
             (''global_flags'', cc_setting D ''snapshots.kopia.global_flags'' (Arr []))] (cd_host D) in
          andthen (repositoryConnect K (kopia_connect_options D)) (ret K)))"

section \<open>Volumes as the node sees them\<close>

definition getVolumeContext :: "'e client_driver \<Rightarrow> js \<Rightarrow> exn + jsobj" where
  "getVolumeContext D volume_id =
     (let mounted = (\<lambda>f. ebind (cc_conf D ''shareHost'') (\<lambda>server. ebind (getShareVolumePath D volume_id) (\<lambda>share.
            Inr [(''node_attach_driver'', Str (getConfigKey (cd_kind D))), (''server'', server), (''share'', Str (f share))]))) in
      case cd_kind D of
        LocalHostpath \<Rightarrow> ebind (getShareVolumePath D volume_id) (\<lambda>path.
          Inr [(''node_attach_driver'', Str ''hostpath''), (''path'', Str path)])
      | SmbClient \<Rightarrow> mounted stripLeadingSlash
      | _ \<Rightarrow> mounted (\<lambda>share. share))"

definition node_segments :: "'e client_driver \<Rightarrow> js" where
  "node_segments D = Obj [(''segments'',
     Obj [(''org.democratic-csi.topology/node'', Str (env_or (cd_host D) ''CSI_NODE_ID'' (cd_hostname D)))])]"

definition cc_topology :: "'e client_driver \<Rightarrow> js" where
  "cc_topology D = (if cd_kind D = LocalHostpath then Arr [node_segments D] else Undef)"

definition hostpath_NodeGetInfo :: "'e client_driver \<Rightarrow> jsobj \<Rightarrow> jsobj" where
  "hostpath_NodeGetInfo D response = obj_set ''accessible_topology'' (node_segments D) response"

section \<open>Calls\<close>

definition cc_unsupported :: "('e world, js) io" where
  "cc_unsupported = throw (grpc UNIMPLEMENTED ''operation not supported by driver'')"

definition cc_DeleteVolume :: "'e client_driver \<Rightarrow> jsobj \<Rightarrow> ('e world, js) io" where
  "cc_DeleteVolume D req =
     (let volume_id = obj_get req ''volume_id'' in
      andthen (throw_when (\<not> truthy volume_id) (invalid_argument ''volume_id is required''))
     (bind (lift (validateVolumeId volume_id)) (\<lambda>_.
      if loose_eq (cc_opt D ''_private.csi.volume.deleteStrategy'' (Str [])) (Str ''retain'') then ret (Obj [])
      else bind (lift (getControllerVolumePath D volume_id)) (\<lambda>volume_path.
        andthen (deleteDir D volume_path) (ret (Obj []))))))"

definition cc_GetCapacity :: "'e client_driver \<Rightarrow> jsobj \<Rightarrow> ('e world, js) io" where
  "cc_GetCapacity D req =
     (let capabilities = obj_get req ''volume_capabilities'' in
      if \<not> rpc_enabled (cd_driver D) ''GET_CAPACITY'' then cc_unsupported
      else bind (lift (if truthy capabilities then cc_assertCapabilities D capabilities else Inr (True, Null))) (\<lambda>(valid, m).
        if \<not> valid then ret (Obj [(''available_capacity'', Num (IntN 0))])
        else bind (lift (getControllerBasePath D)) (\<lambda>base.
          bind (directoryExists D base) (\<lambda>there.
          andthen (do_when (\<not> there) (createDir D base))
         (bind (getAvailableSpaceAtPath D base) (\<lambda>available.
          ret (Obj [(''available_capacity'', available)])))))))"

definition cc_ValidateVolumeCapabilities :: "'e client_driver \<Rightarrow> jsobj \<Rightarrow> ('e world, js) io" where
  "cc_ValidateVolumeCapabilities D req =
     (let volume_id = obj_get req ''volume_id''; capabilities = obj_get req ''volume_capabilities'' in
      andthen (throw_when (\<not> truthy volume_id) (invalid_argument ''missing volume_id''))
     (bind (lift (validateVolumeId volume_id)) (\<lambda>_.
      andthen (throw_when (no_capabilities capabilities) (invalid_argument ''missing capabilities''))
     (bind (lift (getControllerVolumePath D volume_id)) (\<lambda>volume_path.
      bind (directoryExists D volume_path) (\<lambda>there.
      andthen (throw_when (\<not> there) (grpc NOT_FOUND (''invalid volume_id: '' @ to_str volume_id)))
     (bind (lift (cc_assertCapabilities D capabilities)) (\<lambda>(valid, m).
        ret (if \<not> valid then Obj [(''message'', m)]
             else Obj [(''confirmed'', Obj [(''volume_context'', obj_get req ''volume_context''),
                   (''volume_capabilities'', capabilities), (''parameters'', obj_get req ''parameters'')])])))))))))"

text \<open>For evaluation: a program is only unfolded when it is run.\<close>

lemmas client_common_run [code] =
  cc_exec_def [THEN fun_cong] getDirectoryUsage_def [THEN fun_cong] getAvailableSpaceAtPath_def [THEN fun_cong]
  createDir_def [THEN fun_cong] deleteDir_def [THEN fun_cong] cloneDir_def [THEN fun_cong] directoryExists_def [THEN fun_cong]
  getKopiaClient_def [THEN fun_cong] cc_DeleteVolume_def [THEN fun_cong] cc_GetCapacity_def [THEN fun_cong]
  cc_ValidateVolumeCapabilities_def [THEN fun_cong]

end
