(* ===== verification/Client_Snapshots.thy ===== *)
theory Client_Snapshots
  imports Client_Common Controller_Snapshots
begin

text \<open>
  The calls of \<open>src/driver/controller-client-common/index.js\<close> that make volumes and snapshots and
  delete snapshots: \<open>CreateVolume\<close> with its three snapshot drivers and its clones, \<open>CreateSnapshot\<close> and
  \<open>DeleteSnapshot\<close>. The sets of names in flight are only logged and not modelled. \<open>registered\<close> is
  the kopia client that the registry holds.
\<close>

section \<open>Dates\<close>

text \<open>
  \<open>new Date(s).getTime()\<close> of the dates that the backup tools print: a date, a time, a fraction of a
  second that is cut to milliseconds, and a time zone.
\<close>

definition digits_at :: "string \<Rightarrow> nat \<Rightarrow> nat \<Rightarrow> nat option" where
  "digits_at s i n = (let d = take n (drop i s) in if length d = n \<and> list_all is_digit d then Some (parse_nat d) else None)"

definition zone_minutes :: "string \<Rightarrow> int option" where
  "zone_minutes z =
     (if z = ''Z'' then Some 0
      else case (digits_at z 1 2, digits_at z 4 2) of
        (Some h, Some m) \<Rightarrow>
          if length z = 6 \<and> z ! 3 = CHR '':'' \<and> z ! 0 = CHR ''+'' then Some (int (60 * h + m))
          else if length z = 6 \<and> z ! 3 = CHR '':'' \<and> z ! 0 = CHR ''-'' then Some (- int (60 * h + m))
          else None
      | _ \<Rightarrow> None)"

definition days_from_epoch :: "int \<Rightarrow> int \<Rightarrow> int \<Rightarrow> int" where
  "days_from_epoch year month day =
     (let y = (if month \<le> 2 then year - 1 else year); m = (if month > 2 then month - 3 else month + 9)
      in 365 * y + y div 4 - y div 100 + y div 400 + (153 * m + 2) div 5 + day - 719469)"

definition date_ms :: "js \<Rightarrow> exn + int" where
  "date_ms v =
     (case v of
        Str s \<Rightarrow>
          (let rest = drop 19 s; fraction = starts_with rest ''.'';
               digits = (if fraction then takeWhile is_digit (tl rest) else []);
               zone = (if fraction then dropWhile is_digit (tl rest) else rest) in
           case (map (\<lambda>(i, n). digits_at s i n) [(0, 4), (5, 2), (8, 2), (11, 2), (14, 2), (17, 2)], zone_minutes zone) of
             ([Some y, Some mo, Some d, Some h, Some mi, Some sec], Some z) \<Rightarrow>
               if map (nth s) [4, 7, 10, 13, 16] = ''--T::'' \<and> 1 \<le> mo \<and> mo \<le> 12
               then Inr ((((days_from_epoch (int y) (int mo) (int d) * 24 + int h) * 60 + int mi - z) * 60 + int sec) * 1000
                         + int (parse_nat (take 3 (digits @ ''000''))))
               else Inl (Unmodelled ''date'')
           | _ \<Rightarrow> Inl (Unmodelled ''date''))
      | _ \<Rightarrow> Inl (Unmodelled ''date''))"

text \<open>\<open>Math.round(ms / 1000)\<close>\<close>

definition round_seconds :: "int \<Rightarrow> int" where
  "round_seconds ms = (ms + 500) div 1000"

section \<open>Snapshot ids\<close>

definition snapshot_handle :: "string \<Rightarrow> js \<Rightarrow> exn + string" where
  "snapshot_handle snapshot_driver snapshot_id =
     url_serialize [(''snapshot_driver'', snapshot_driver), (''snapshot_id'', to_str snapshot_id)]"

text \<open>The driver and the id; an id that names no driver is one of the file copies, as it is.\<close>

definition parsed_snapshot_id :: "js \<Rightarrow> exn + js \<times> js" where
  "parsed_snapshot_id snapshot_id =
     (let plain = (Str ''filecopy'', snapshot_id) in
      case snapshot_id of
        Str s \<Rightarrow> ebind (url_parse s) (\<lambda>ps.
          let d = url_get ps ''snapshot_driver'' in
          Inr (if truthy d then (d, url_get ps ''snapshot_id'') else plain))
      | Obj kvs \<Rightarrow> Inl (Unmodelled ''an object as snapshot id'')
      | Arr xs \<Rightarrow> Inl (Unmodelled ''an array as snapshot id'')
      | _ \<Rightarrow> Inr plain)"

definition unknown_driver :: "js \<Rightarrow> exn" where
  "unknown_driver d = invalid_argument (''unknown snapthot driver: '' @ to_str d)"

section \<open>CreateVolume\<close>

definition cc_create_checks :: "'e client_driver \<Rightarrow> jsobj \<Rightarrow> exn + string" where
  "cc_create_checks D req =
     ebind (getVolumeIdFromCall (cd_driver D) req) (\<lambda>volume_id.
     ebind (case obj_get req ''volume_capabilities'' of
              Arr (c # cs) \<Rightarrow> ebind (cc_assertCapabilities D (Arr (c # cs))) (\<lambda>(valid, m).
                if valid then Inr () else Inl (invalid_argument (to_str m)))
            | _ \<Rightarrow> Inl (invalid_argument ''missing volume_capabilities'')) (\<lambda>_.
     let r = request_range req; capacity_bytes = or_else (field r ''required_bytes'') (field r ''limit_bytes'') in
     if range_inverted r then Inl (grpc OUT_OF_RANGE ''required_bytes is greather than limit_bytes'')
     else if \<not> truthy capacity_bytes
     then Inl (invalid_argument ''volume capacity is required (either required_bytes or limit_bytes)'')
     else if above_limit capacity_bytes r
     then Inl (grpc OUT_OF_RANGE ''required volume capacity is greater than limit'')
     else Inr volume_id))"

definition copy_from :: "'e client_driver \<Rightarrow> exn + string \<Rightarrow> string \<Rightarrow> ('e world, unit) io" where
  "copy_from D source volume_path =
     bind (lift source) (\<lambda>source_path.
     bind (directoryExists D source_path) (\<lambda>there.
     andthen (throw_when (\<not> there) (grpc NOT_FOUND (''invalid volume_content_source path: '' @ source_path)))
       (cloneDir D source_path volume_path)))"

text \<open>\<open>xs[0]\<close>\<close>

fun first_item :: "js \<Rightarrow> exn + js" where
  "first_item (Arr []) = Inr Undef"
| "first_item (Arr (x # xs)) = Inr x"
| "first_item (Str []) = Inr Undef"
| "first_item (Str (c # s)) = Inr (Str [c])"
| "first_item Undef = Inl (type_error ''0 of undefined'')"
| "first_item Null = Inl (type_error ''0 of null'')"
| "first_item (Obj kvs) = Inr (obj_get kvs ''0'')"
| "first_item v = Inr Undef"

definition invalid_restic_source :: "js \<Rightarrow> exn" where
  "invalid_restic_source snapshot_id =
     grpc NOT_FOUND (''invalid restic snapshot volume_content_source: '' @ to_str snapshot_id)"

definition restore_restic :: "'e client_driver \<Rightarrow> js \<Rightarrow> string \<Rightarrow> ('e world, unit) io" where
  "restore_restic D snapshot_id volume_path =
     (let R = getResticClient D in
      andthen (restic_init R [])
     (bind (restic_snapshots R [to_str snapshot_id]) (\<lambda>snapshots.
      if snapshots = [] then throw (invalid_restic_source snapshot_id)
      else bind (lift (getp (last snapshots) ''id'')) (\<lambda>i.
           bind (lift (ebind (getp (last snapshots) ''paths'') first_item)) (\<lambda>p.
           restic_restore R [to_str i @ '':'' @ to_str p, ''--target'', volume_path, ''--sparse'', ''--host'', restic_hostname])))))"

definition restore_kopia :: "'e client_driver \<Rightarrow> 'e kopia option \<Rightarrow> js \<Rightarrow> string \<Rightarrow> ('e world, unit) io" where
  "restore_kopia D registered snapshot_id volume_path =
     bind (getKopiaClient D registered) (\<lambda>K.
     bind (snapshotGet K snapshot_id) (\<lambda>snapshot.
     if \<not> truthy (case snapshot of None \<Rightarrow> Undef | Some s \<Rightarrow> s) then throw (invalid_restic_source snapshot_id)
     else snapshotRestore K [''--write-sparse-files'', to_str snapshot_id, volume_path]))"

definition cc_fill :: "'e client_driver \<Rightarrow> 'e kopia option \<Rightarrow> js \<Rightarrow> string \<Rightarrow> ('e world, unit) io" where
  "cc_fill D registered content_source volume_path =
     bind (lift (getp content_source ''type'')) (\<lambda>t.
     bind (lift (if loose_eq t (Str ''snapshot'')
                 then ebind (getps content_source [''snapshot'', ''snapshot_id'']) parsed_snapshot_id
                 else Inr (Undef, Undef))) (\<lambda>(d, i).
     if t = Str ''snapshot'' then
       (if d = Str ''filecopy'' then copy_from D (getControllerSnapshotPath D i) volume_path
        else if d = Str ''restic'' then restore_restic D i volume_path
        else if d = Str ''kopia'' then restore_kopia D registered i volume_path
        else throw (unknown_driver d))
     else if t = Str ''volume'' then
       copy_from D (ebind (getps content_source [''volume'', ''volume_id'']) (getControllerVolumePath D)) volume_path
     else throw (invalid_argument (''invalid volume_content_source type: '' @ to_str t))))"

definition cc_permissions :: "'e client_driver \<Rightarrow> string \<Rightarrow> ('e world, unit) io" where
  "cc_permissions D volume_path =
     bind (lift (cc_conf D ''dirPermissionsMode'')) (\<lambda>mode.
     bind (lift (cc_conf D ''dirPermissionsUser'')) (\<lambda>user.
     bind (lift (cc_conf D ''dirPermissionsGroup'')) (\<lambda>grp.
     andthen (do_when (truthy mode) (perform (EvHost ''chmod'' volume_path) (cd_chmod D volume_path mode)))
    (do_when ((truthy user \<or> truthy grp) \<and> \<not> cd_windows D)
       (bind (cc_exec D ''chown''
          [(if truthy user then to_str user else []) @ '':'' @ (if truthy grp then to_str grp else []), volume_path])
          (\<lambda>_. ret ()))))))"

definition cc_volume_context :: "'e client_driver \<Rightarrow> string \<Rightarrow> exn + jsobj" where
  "cc_volume_context D volume_id =
     ebind (getVolumeContext D (Str volume_id)) (\<lambda>context.
     let context = obj_set ''provisioner_driver'' (obj_get (cc_options D) ''driver'') context;
         id = obj_get (cc_options D) ''instance_id'' in
     Inr (if truthy id then obj_set ''provisioner_driver_instance_id'' id context else context))"

definition cc_CreateVolume :: "'e client_driver \<Rightarrow> 'e kopia option \<Rightarrow> jsobj \<Rightarrow> ('e world, js) io" where
  "cc_CreateVolume D registered req =
     (let content_source = obj_get req ''volume_content_source'' in
      bind (lift (cc_create_checks D req)) (\<lambda>volume_id.
      bind (lift (getControllerVolumePath D (Str volume_id))) (\<lambda>volume_path.
      andthen (createDir D volume_path)
     (andthen (do_when (truthy content_source) (cc_fill D registered content_source volume_path))
     (andthen (cc_permissions D volume_path)
     (bind (lift (cc_volume_context D volume_id)) (\<lambda>volume_context.
      ret (Obj [(''volume'', Obj [(''volume_id'', Str volume_id), (''capacity_bytes'', Num (IntN 0)),
         (''content_source'', content_source), (''volume_context'', Obj volume_context),
         (''accessible_topology'', cc_topology D)])]))))))))"

section \<open>CreateSnapshot\<close>

text \<open>Each of the three ways to cut a snapshot gives its id, its date in milliseconds and its size.\<close>

definition cut_filecopy :: "'e client_driver \<Rightarrow> string \<Rightarrow> string \<Rightarrow> string \<Rightarrow> int \<Rightarrow> ('e world, js \<times> int \<times> js) io" where
  "cut_filecopy D source_volume_id name volume_path now =
     (let snapshot_id = source_volume_id @ ''-'' @ name in
      bind (lift (getControllerSnapshotPath D (Str snapshot_id))) (\<lambda>snapshot_path.
      bind (directoryExists D snapshot_path) (\<lambda>there.
      andthen (do_when (\<not> there) (cloneDir D volume_path snapshot_path))
     (bind (getDirectoryUsage D snapshot_path) (\<lambda>size_bytes.
      ret (Str snapshot_id, now, size_bytes))))))"

text \<open>No comma separates the id of the instance from the id of the volume.\<close>

definition restic_base_tag :: "'e client_driver \<Rightarrow> string \<Rightarrow> string" where
  "restic_base_tag D source_volume_id =
     (let id = obj_get (cc_options D) ''instance_id'' in
      ''source=democratic-csi,csi_volume_id='' @ source_volume_id
      @ (if truthy id then ''csi_instance_id='' @ to_str id else []))"

definition restic_own :: "string \<Rightarrow> string list" where
  "restic_own volume_path = [''--path'', strip_slash volume_path, ''--host'', restic_hostname]"

definition restic_group_by :: "string list" where
  "restic_group_by = [''--group-by'', ''host,paths,tags'']"

definition find_restic :: "'e client_driver \<Rightarrow> string \<Rightarrow> string \<Rightarrow> string \<Rightarrow> ('e world, js list) io" where
  "find_restic D source_volume_id name volume_path =
     restic_snapshots (getResticClient D) (restic_own volume_path @ restic_group_by
       @ [''--tag'', restic_base_tag D source_volume_id @ '',csi_snapshot_name='' @ name])"

definition added_tags :: "'e client_driver \<Rightarrow> string \<Rightarrow> exn + string" where
  "added_tags D name =
     (let tag = ''csi_snapshot_name='' @ name in
      case cc_setting D ''snapshots.restic.tags'' (Arr []) of
        Arr xs \<Rightarrow> Inr (if xs = [] then tag else tag @ '','' @ to_str (Arr xs))
      | Str s \<Rightarrow> if s = [] then Inr tag else Inl (type_error ''join'')
      | Null \<Rightarrow> Inl (type_error ''length'')
      | _ \<Rightarrow> Inr tag)"

definition backup_restic :: "'e client_driver \<Rightarrow> string \<Rightarrow> string \<Rightarrow> string \<Rightarrow> int \<Rightarrow> ('e world, js \<times> int \<times> js) io" where
  "backup_restic D source_volume_id name volume_path now =
     (let R = getResticClient D in
      bind (restic_backup R volume_path ([''--host'', restic_hostname, ''--one-file-system''] @ restic_group_by
              @ [''--tag'', restic_base_tag D source_volume_id])) (\<lambda>(r, parsed).
      bind (lift (case parsed of
          Arr vs \<Rightarrow> efind (\<lambda>message. ebind (getp message ''message_type'') (\<lambda>t. Inr (loose_eq t (Str ''summary'')))) (rev vs)
        | _ \<Rightarrow> Inl (type_error ''reverse''))) (\<lambda>summary.
      bind (lift (getp (case summary of None \<Rightarrow> Undef | Some v \<Rightarrow> v) ''snapshot_id'')) (\<lambda>original.
      bind (restic_stats R [to_str original]) (\<lambda>stats.
      bind (lift (getp stats ''total_size'')) (\<lambda>size_bytes.
      bind (lift (added_tags D name)) (\<lambda>add_tags.
      bind (restic_tag R (restic_own volume_path @ [''--add'', add_tags, to_str original])) (\<lambda>_.
      bind (find_restic D source_volume_id name volume_path) (\<lambda>found.
      bind (lift (efind (\<lambda>snapshot. ebind (getp snapshot ''original'') (\<lambda>v. Inr (loose_eq v original))) found)) (\<lambda>snapshot.
      case snapshot of
        None \<Rightarrow> throw (grpc UNKNOWN (''failed to find snapshot post-tag operation: snapshot_id='' @ to_str original))
      | Some s \<Rightarrow> bind (lift (getp s ''id'')) (\<lambda>i. ret (i, now, size_bytes))))))))))))"

definition cut_restic :: "'e client_driver \<Rightarrow> string \<Rightarrow> string \<Rightarrow> string \<Rightarrow> int \<Rightarrow> ('e world, js \<times> int \<times> js) io" where
  "cut_restic D source_volume_id name volume_path now =
     andthen (restic_init (getResticClient D) [])
    (bind (find_restic D source_volume_id name volume_path) (\<lambda>found.
     if found = [] then backup_restic D source_volume_id name volume_path now
     else bind (lift (getp (last found) ''id'')) (\<lambda>i.
          bind (restic_stats (getResticClient D) [to_str i]) (\<lambda>stats.
          bind (lift (ebind (getp (last found) ''time'') date_ms)) (\<lambda>date.
          bind (lift (getp stats ''total_size'')) (\<lambda>size_bytes. ret (i, date, size_bytes)))))))"

definition kopia_tag_options :: "'e client_driver \<Rightarrow> string \<Rightarrow> string \<Rightarrow> string list" where
  "kopia_tag_options D source_volume_id name =
     (let id = obj_get (cc_options D) ''instance_id'' in
      concat (map (\<lambda>tag. [''--tags'', tag])
        ([''source:democratic-csi'', ''csi_volume_id:'' @ source_volume_id]
         @ (if truthy id then [''csi_instance_id:'' @ to_str id] else [])
         @ [''csi_snapshot_name:'' @ name])))"

text \<open>The items of a response when it has a positive \<open>length\<close>.\<close>

fun response_items :: "js \<Rightarrow> exn + js list" where
  "response_items (Arr xs) = Inr xs"
| "response_items Undef = Inl (type_error ''length of undefined'')"
| "response_items Null = Inl (type_error ''length of null'')"
| "response_items (Str s) = (if s = [] then Inr [] else Inl (Unmodelled ''characters of a text''))"
| "response_items v = Inr []"

definition cut_kopia ::
  "'e client_driver \<Rightarrow> 'e kopia option \<Rightarrow> string \<Rightarrow> string \<Rightarrow> string \<Rightarrow> ('e world, js \<times> int \<times> js) io" where
  "cut_kopia D registered source_volume_id name volume_path =
     bind (getKopiaClient D registered) (\<lambda>K.
     let tag_options = kopia_tag_options D source_volume_id name in
     bind (snapshotList K ([''--no-storage-stats'', ''--no-delta''] @ tag_options
             @ [''democratic-csi@'' @ client_hostname D @ '':'' @ strip_slash volume_path])) (\<lambda>response.
     bind (lift (response_items response)) (\<lambda>found.
     if found = [] then
       bind (snapshotCreate K (tag_options @ [volume_path])) (\<lambda>snapshot.
       bind (lift (getp snapshot ''id'')) (\<lambda>i.
       bind (lift (ebind (getp snapshot ''startTime'') date_ms)) (\<lambda>date.
       bind (lift (getps snapshot [''rootEntry'', ''summ'', ''size''])) (\<lambda>size_bytes. ret (i, date, size_bytes)))))
     else
       bind (lift (getp (last found) ''id'')) (\<lambda>i.
       bind (lift (ebind (getp (last found) ''startTime'') date_ms)) (\<lambda>date.
       bind (lift (getps (last found) [''stats'', ''totalSize''])) (\<lambda>size_bytes. ret (i, date, size_bytes)))))))"

definition snapshot_driver_of :: "'e client_driver \<Rightarrow> jsobj \<Rightarrow> exn + js" where
  "snapshot_driver_of D req =
     (let configured = cc_setting D ''snapshots.default_driver'' (Str ''filecopy'') in
      ebind (getp (obj_get req ''parameters'') ''driver'') (\<lambda>d. Inr (if truthy d then d else configured)))"

text \<open>The driver, the source volume, the name and the path of the source of a new snapshot.\<close>

definition cc_snapshot_checks :: "'e client_driver \<Rightarrow> jsobj \<Rightarrow> exn + js \<times> string \<times> string \<times> string" where
  "cc_snapshot_checks D req =
     ebind (snapshot_driver_of D req) (\<lambda>d.
     if \<not> truthy (obj_get req ''source_volume_id'') then Inl (invalid_argument ''snapshot source_volume_id is required'')
     else ebind (validateVolumeId (obj_get req ''source_volume_id'')) (\<lambda>source_volume_id.
       if \<not> truthy (obj_get req ''name'') then Inl (invalid_argument ''snapshot name is required'')
       else ebind (check_snapshot_name (obj_get req ''name'')) (\<lambda>name.
         ebind (getControllerVolumePath D (Str source_volume_id)) (\<lambda>volume_path.
         Inr (d, source_volume_id, name, volume_path)))))"

definition cc_CreateSnapshot :: "'e client_driver \<Rightarrow> 'e kopia option \<Rightarrow> jsobj \<Rightarrow> ('e world, js) io" where
  "cc_CreateSnapshot D registered req =
     bind (lift (cc_snapshot_checks D req)) (\<lambda>(d, source_volume_id, name, volume_path).
     bind (host_now (cd_host D)) (\<lambda>now.
     bind (if d = Str ''filecopy'' then cut_filecopy D source_volume_id name volume_path now
           else if d = Str ''restic'' then cut_restic D source_volume_id name volume_path now
           else if d = Str ''kopia'' then cut_kopia D registered source_volume_id name volume_path
           else throw (unknown_driver d)) (\<lambda>(snapshot_id, date, size_bytes).
     bind (lift (snapshot_handle (to_str d) snapshot_id)) (\<lambda>handle.
     ret (Obj [(''snapshot'', Obj [(''size_bytes'', size_bytes), (''snapshot_id'', Str handle),
        (''source_volume_id'', Str source_volume_id),
        (''creation_time'', Obj [(''seconds'', Num (IntN (round_seconds date))), (''nanos'', Num (IntN 0))]),
        (''ready_to_use'', Bool True)])])))))"

section \<open>DeleteSnapshot\<close>

definition prune_enabled :: "'e client_driver \<Rightarrow> bool" where
  "prune_enabled D =
     (case cc_setting D ''snapshots.restic.prune'' (Bool False) of
        Bool b \<Rightarrow> b
      | v \<Rightarrow> to_lower (to_str v) \<in> {''true'', ''yes'', ''1''})"

definition forget_restic :: "'e client_driver \<Rightarrow> js \<Rightarrow> ('e world, unit) io" where
  "forget_restic D snapshot_id =
     (let R = getResticClient D in
      andthen (restic_init R [])
     (bind (restic_snapshot_exists R (to_str snapshot_id)) (\<lambda>there.
      do_when there
        (bind (restic_forget R ((if prune_enabled D then [''--prune''] else []) @ [to_str snapshot_id])) (\<lambda>_. ret ())))))"

definition cc_DeleteSnapshot :: "'e client_driver \<Rightarrow> 'e kopia option \<Rightarrow> jsobj \<Rightarrow> ('e world, js) io" where
  "cc_DeleteSnapshot D registered req =
     (let snapshot_id = obj_get req ''snapshot_id'' in
      andthen (throw_when (\<not> truthy snapshot_id) (invalid_argument ''snapshot_id is required''))
     (bind (lift (parsed_snapshot_id snapshot_id)) (\<lambda>(d, i).
      andthen
        (if d = Str ''filecopy'' then bind (lift (getControllerSnapshotPath D i)) (deleteDir D)
         else if d = Str ''restic'' then forget_restic D i
         else if d = Str ''kopia'' then bind (getKopiaClient D registered) (\<lambda>K. snapshotDelete K [to_str i])
         else throw (unknown_driver d))
        (ret (Obj [])))))"

lemmas client_snapshots_run [code] =
  copy_from_def [THEN fun_cong] restore_restic_def [THEN fun_cong] restore_kopia_def [THEN fun_cong]
  cc_fill_def [THEN fun_cong] cc_permissions_def [THEN fun_cong] cc_CreateVolume_def [THEN fun_cong]
  cut_filecopy_def [THEN fun_cong] backup_restic_def [THEN fun_cong] cut_restic_def [THEN fun_cong]
  cut_kopia_def [THEN fun_cong] find_restic_def [THEN fun_cong] cc_CreateSnapshot_def [THEN fun_cong]
  forget_restic_def [THEN fun_cong] cc_DeleteSnapshot_def [THEN fun_cong]

end
