(* ===== verification/Client_Properties.thy ===== *)
theory Client_Properties
  imports Client_Snapshots
begin

text \<open>
  What the client controllers do to the share: which directories they remove, when a snapshot is
  copied, and what becomes of the ids they hand out.
\<close>

section \<open>Paths\<close>

lemma below_Inr:
  "below base extra v = Inr p \<longleftrightarrow> (\<exists>s b. v = Str s \<and> assertSafeIdForPath v = Inr s \<and> base = Inr b \<and> p = b @ extra @ ''/'' @ s)"
  by (cases v) (auto simp: below_def assertSafeIdForPath_def ebind_eq_Inr Let_def)

lemma safe_id_no_slash: "assertSafeIdForPath v = Inr s \<Longrightarrow> v = Str s \<and> s \<noteq> [] \<and> CHR ''/'' \<notin> set s \<and> s \<noteq> ''..''"
  by (cases v) (auto simp: assertSafeIdForPath_def Let_def contains_iff split: if_splits)

text \<open>The names between the separators of a path, without those that stand for the directory itself.\<close>

definition path_names :: "string \<Rightarrow> string list" where
  "path_names p = filter (\<lambda>x. x \<noteq> [] \<and> x \<noteq> ''.'') (split_ch (CHR ''/'') p)"

lemma path_names_below: "CHR ''/'' \<notin> set s \<Longrightarrow>
    path_names (b @ ''/'' @ s) = path_names b @ (if s = [] \<or> s = ''.'' then [] else [s])"
proof (induction b rule: length_induct)
  case (1 b)
  show ?case
  proof (cases "CHR ''/'' \<in> set b")
    case True
    then obtain u t where b: "b = u @ CHR ''/'' # t" and u: "CHR ''/'' \<notin> set u" by (meson split_list_first)
    with 1 have "path_names (t @ ''/'' @ s) = path_names t @ (if s = [] \<or> s = ''.'' then [] else [s])" by simp
    with u show ?thesis by (simp add: b path_names_def split_ch_append_sep)
  next
    case False
    with 1 show ?thesis by (simp add: path_names_def split_ch_append_sep split_ch_no_sep)
  qed
qed

section \<open>Deletion\<close>

text \<open>
  C24: whatever the host answers, a DeleteVolume of a client controller removes nothing, or exactly one
  directory: the child of the volumes directory named by the volume id of the request, which is a
  valid volume id, when volumes are not retained.
\<close>

theorem client_delete_scope:
  assumes "cc_DeleteVolume D req w = (r, w')"
  shows "hist w' = hist w \<or> (\<exists>v base. obj_get req ''volume_id'' = Str v \<and> validateVolumeId (Str v) = Inr v
    \<and> getControllerBasePath D = Inr base
    \<and> \<not> loose_eq (cc_opt D ''_private.csi.volume.deleteStrategy'' (Str [])) (Str ''retain'')
    \<and> path_names (base @ ''/v/'' @ v) = path_names (base @ ''/v'') @ [v] \<and> v \<noteq> ''..''
    \<and> hist w' = hist w @ [EvHost ''rm'' (base @ ''/v/'' @ v)])"
proof -
  let ?v = "obj_get req ''volume_id''"
  note run = cc_DeleteVolume_def Let_def andthen_def bind_def throw_when_def throw_def ret_def lift_def
  show ?thesis
  proof (cases "truthy ?v \<and> \<not> loose_eq (cc_opt D ''_private.csi.volume.deleteStrategy'' (Str [])) (Str ''retain'')")
    case False
    with assms show ?thesis by (auto simp: run split: sum.splits if_splits)
  next
    case True
    show ?thesis
    proof (cases "validateVolumeId ?v")
      case (Inl e)
      with True assms show ?thesis by (simp add: run)
    next
      case (Inr v)
      then have v: "?v = Str v" "validateVolumeId (Str v) = Inr v" "v \<noteq> []" "v \<noteq> ''.''"
        using validateVolumeId_Inr [OF Inr]
        by (auto simp: validateVolumeId_def is_alnum_def is_alpha_def is_lower_alpha_def is_digit_def Let_def split: if_splits)
      show ?thesis
      proof (cases "getControllerVolumePath D (Str v)")
        case (Inl e)
        with True v assms show ?thesis by (simp add: run)
      next
        case (Inr p)
        then obtain base where p: "getControllerBasePath D = Inr base" "assertSafeIdForPath (Str v) = Inr v"
          "p = base @ ''/v/'' @ v" by (auto simp: getControllerVolumePath_def below_Inr)
        with safe_id_no_slash [OF p(2)] v(4) path_names_below [of v "base @ ''/v''"]
        have "path_names (base @ ''/v/'' @ v) = path_names (base @ ''/v'') @ [v] \<and> v \<noteq> ''..''" by simp
        moreover have "hist w' = hist w @ [EvHost ''rm'' p]"
          using True v Inr assms by (auto simp: run deleteDir_def perform_def split: sum.splits prod.splits)
        ultimately show ?thesis using v p True by blast
      qed
    qed
  qed
qed

section \<open>The backup tools remove no directory\<close>

fun removes :: "event \<Rightarrow> bool" where
  "removes (EvHost call path) = (call = ''rm'')"
| "removes _ = False"

lemma keeps_restic_exec [wp_intro]: "adds (\<lambda>e. \<not> removes e) (restic_exec R args operation timeout)"
  unfolding restic_exec_def settle_overridden_def Let_def host_spawn_def
  by (auto intro!: wp_intro split: prod.splits spawn_out.splits option.splits)

lemma keeps_kopia_command [wp_intro]: "adds (\<lambda>e. \<not> removes e) (kopia_command K command options)"
  unfolding kopia_command_def kopia_exec_def settle_closed_def Let_def host_spawn_def
  by (auto intro!: wp_intro split: prod.splits spawn_out.splits option.splits)

lemma keeps_getKopiaClient [wp_intro]: "adds (\<lambda>e. \<not> removes e) (getKopiaClient D registered)"
  unfolding getKopiaClient_def uuidv4_def repositoryConnect_def Let_def
  by (auto intro!: wp_intro split: option.splits)

lemma keeps_forget_restic: "adds (\<lambda>e. \<not> removes e) (forget_restic D snapshot_id)"
  unfolding forget_restic_def restic_init_def restic_snapshot_exists_def restic_snapshots_def restic_forget_def Let_def
  by (auto intro!: wp_intro split: prod.splits)

lemma keeps_snapshotDelete [wp_intro]: "adds (\<lambda>e. \<not> removes e) (snapshotDelete K options)"
  unfolding snapshotDelete_def by (auto intro!: wp_intro)

lemma keeps_delete_kopia: "adds (\<lambda>e. \<not> removes e) (bind (getKopiaClient D registered) (\<lambda>K. snapshotDelete K options))"
  by (intro wp_intro)

lemma adds_keeps: "adds (\<lambda>e. \<not> removes e) m \<Longrightarrow> m w = (r, w') \<Longrightarrow> \<exists>es. hist w' = hist w @ es \<and> filter removes es = []"
  using addsD [of "\<lambda>e. \<not> removes e" m w] by (auto simp: list_all_iff filter_empty_conv)

section \<open>Deletion of snapshots\<close>

text \<open>
  Whatever the host and the backup tools answer, a DeleteSnapshot of a client controller removes at
  most one directory of the share, named by the id below the snapshots directory: a child of it
  for every id but \<open>.\<close>, which is accepted, and removes the snapshots directory itself.
\<close>

theorem client_snapshot_delete_scope:
  assumes "cc_DeleteSnapshot D registered req w = (r, w')"
  shows "\<exists>es. hist w' = hist w @ es \<and> (filter removes es = [] \<or> (\<exists>i base. getControllerBasePath D = Inr base
      \<and> es = [EvHost ''rm'' (base @ ''/s/'' @ i)] \<and> i \<noteq> ''..''
      \<and> path_names (base @ ''/s/'' @ i) = path_names (base @ ''/s'') @ (if i = ''.'' then [] else [i])))
    \<and> (obj_get req ''snapshot_id'' = Str ''.'' \<and> getControllerBasePath D = Inr base \<longrightarrow> es = [EvHost ''rm'' (base @ ''/s/.'')])"
proof -
  let ?v = "obj_get req ''snapshot_id''"
  have dot: "?v = Str ''.'' \<Longrightarrow> truthy ?v \<and> parsed_snapshot_id ?v = Inr (Str ''filecopy'', Str ''.'') \<and> assertSafeIdForPath ?v = Inr ''.''"
    by (simp add: parsed_snapshot_id_def url_parse_def url_pair_def url_get_def starts_with_def contains_def assertSafeIdForPath_def Let_def)
  show ?thesis
  proof (cases "truthy ?v \<and> (\<exists>d i. parsed_snapshot_id ?v = Inr (d, i))")
    case False
    with dot have "?v \<noteq> Str ''.''" by blast
    moreover have "hist w' = hist w"
      using False assms
      by (auto simp: cc_DeleteSnapshot_def Let_def andthen_def bind_def throw_when_def throw_def ret_def lift_def split: sum.splits if_splits)
    ultimately show ?thesis by simp
  next
    case True
    then obtain d i where di: "parsed_snapshot_id ?v = Inr (d, i)" by blast
    define m where "m = (if d = Str ''filecopy'' then bind (lift (getControllerSnapshotPath D i)) (deleteDir D)
         else if d = Str ''restic'' then forget_restic D i
         else if d = Str ''kopia'' then bind (getKopiaClient D registered) (\<lambda>K. snapshotDelete K [to_str i])
         else throw (unknown_driver d))"
    have "cc_DeleteSnapshot D registered req = andthen m (ret (Obj []))"
      using True by (simp add: cc_DeleteSnapshot_def Let_def andthen_def throw_when_def di bind_lift_Inr m_def)
    with assms have "hist w' = hist (snd (m w))"
      by (auto simp: andthen_def bind_def ret_def split: sum.splits prod.splits)
    moreover obtain q w1 where m: "m w = (q, w1)" by force
    ultimately have h: "hist w' = hist w1" by simp
    show ?thesis
    proof (cases "d = Str ''filecopy''")
      case False
      then have "adds (\<lambda>e. \<not> removes e) m" unfolding m_def
        by (auto intro!: keeps_forget_restic keeps_delete_kopia intro: wp_intro)
      from adds_keeps [OF this m] h False dot di show ?thesis by auto
    next
      case filecopy: True
      show ?thesis
      proof (cases "getControllerSnapshotPath D i")
        case (Inl e)
        then have "\<not> (?v = Str ''.'' \<and> getControllerBasePath D = Inr base)"
          using dot di by (auto simp: getControllerSnapshotPath_def below_def)
        with Inl m h filecopy show ?thesis by (simp add: m_def bind_def lift_def)
      next
        case (Inr p)
        then obtain j b where j: "i = Str j" "assertSafeIdForPath i = Inr j" "getControllerBasePath D = Inr b" "p = b @ ''/s/'' @ j"
          by (auto simp: getControllerSnapshotPath_def below_Inr)
        have "hist w1 = hist w @ [EvHost ''rm'' p]"
          using m filecopy Inr by (auto simp: m_def bind_lift_Inr deleteDir_def perform_def split: prod.splits)
        moreover have "path_names p = path_names (b @ ''/s'') @ (if j = ''.'' then [] else [j])" "j \<noteq> ''..''"
          using safe_id_no_slash [OF j(2)] j(1) path_names_below [of j "b @ ''/s''"] by (auto simp: j(4))
        moreover have "?v = Str ''.'' \<longrightarrow> j = ''.''" using dot di j(1) by auto
        ultimately show ?thesis using h j by auto
      qed
    qed
  qed
qed

section \<open>A snapshot's id\<close>

lemma snapshot_handle_parsed:
  assumes "snapshot_handle d i = Inr h" and "d \<noteq> []"
  shows "parsed_snapshot_id (Str h) = Inr (Str d, Str (to_str i))" and "h \<noteq> []"
proof -
  have u: "url_parse h = Inr [(''snapshot_driver'', d), (''snapshot_id'', to_str i)]"
    using assms(1) unfolding snapshot_handle_def by (rule url_roundtrip)
  then show "parsed_snapshot_id (Str h) = Inr (Str d, Str (to_str i))"
    using assms(2) by (simp add: parsed_snapshot_id_def url_get_def)
  show "h \<noteq> []" using u by (auto simp: url_parse_def starts_with_def)
qed

section \<open>Cutting a file copy\<close>

definition copy_request :: "string \<Rightarrow> string \<Rightarrow> jsobj" where
  "copy_request v n = [(''source_volume_id'', Str v), (''name'', Str n), (''parameters'', Obj [(''driver'', Str ''filecopy'')])]"

lemma copy_request_checks:
  "cc_snapshot_checks D (copy_request v n) = Inr (d, v', n', p) \<Longrightarrow>
     d = Str ''filecopy'' \<and> v' = v \<and> n' = n \<and> validateVolumeId (Str v) = Inr v \<and> getControllerVolumePath D (Str v) = Inr p"
  using validateVolumeId_Inr [of "Str v" v']
  by (auto simp: cc_snapshot_checks_def copy_request_def snapshot_driver_of_def obj_get_def getp_def ebind_eq_Inr
      check_snapshot_name_def as_string_def truthy.simps split: if_splits)

lemma host_now_Inr: "host_now H w = (Inr t, w1) \<longleftrightarrow>
    (\<exists>e. ho_now H (ext w) = (t, e) \<and> w1 = w\<lparr>ext := e, hist := hist w @ [EvHost ''now'' []]\<rparr>)"
  by (auto simp: host_now_def perform_def split: prod.splits)

text \<open>A successful cut of a file copy, taken apart.\<close>

lemma copy_request_run:
  assumes "cc_CreateSnapshot D registered (copy_request v n) w = (Inr resp, w')"
  obtains t e p q size h where "ho_now (cd_host D) (ext w) = (t, e)" and "getControllerVolumePath D (Str v) = Inr p"
    and "getControllerSnapshotPath D (Str (v @ ''-'' @ n)) = Inr q" and "snapshot_handle ''filecopy'' (Str (v @ ''-'' @ n)) = Inr h"
    and "resp = Obj [(''snapshot'', Obj [(''size_bytes'', size), (''snapshot_id'', Str h), (''source_volume_id'', Str v),
        (''creation_time'', Obj [(''seconds'', Num (IntN (round_seconds t))), (''nanos'', Num (IntN 0))]), (''ready_to_use'', Bool True)])]"
    and "cut_filecopy D v n p t (w\<lparr>ext := e, hist := hist w @ [EvHost ''now'' []]\<rparr>) = (Inr (Str (v @ ''-'' @ n), t, size), w')"
proof -
  from assms obtain d v' n' p t w1 i date size h where c: "cc_snapshot_checks D (copy_request v n) = Inr (d, v', n', p)"
    and now: "host_now (cd_host D) w = (Inr t, w1)"
    and cut: "(if d = Str ''filecopy'' then cut_filecopy D v' n' p t
           else if d = Str ''restic'' then cut_restic D v' n' p t
           else if d = Str ''kopia'' then cut_kopia D registered v' n' p
           else throw (unknown_driver d)) w1 = (Inr (i, date, size), w')"
    and h: "snapshot_handle (to_str d) i = Inr h"
    and r: "resp = Obj [(''snapshot'', Obj [(''size_bytes'', size), (''snapshot_id'', Str h), (''source_volume_id'', Str v'),
        (''creation_time'', Obj [(''seconds'', Num (IntN (round_seconds date))), (''nanos'', Num (IntN 0))]), (''ready_to_use'', Bool True)])]"
    by (auto simp: cc_CreateSnapshot_def run_Inr split: prod.splits)
  from copy_request_checks [OF c] have e: "d = Str ''filecopy''" "v' = v" "n' = n" "getControllerVolumePath D (Str v) = Inr p" by auto
  from now obtain x where x: "ho_now (cd_host D) (ext w) = (t, x)" "w1 = w\<lparr>ext := x, hist := hist w @ [EvHost ''now'' []]\<rparr>"
    by (auto simp: host_now_Inr)
  from cut e have "cut_filecopy D v n p t w1 = (Inr (i, date, size), w')" by simp
  moreover then obtain q where "getControllerSnapshotPath D (Str (v @ ''-'' @ n)) = Inr q" "i = Str (v @ ''-'' @ n)" "date = t"
    by (auto simp: cut_filecopy_def Let_def run_Inr)
  ultimately show thesis using e x h r that by auto
qed

lemma strip_slash_no_slash: "s = [] \<or> last s \<noteq> CHR ''/'' \<Longrightarrow> strip_slash s = s"
  by (auto simp: strip_slash_def ends_with_iff_suffix)

lemma stripTrailingSlash_below: "s \<noteq> [] \<Longrightarrow> CHR ''/'' \<notin> set s \<Longrightarrow> stripTrailingSlash (b @ s) = b @ s"
  using strip_slash_no_slash [of "b @ s"] by (cases s rule: rev_cases) (auto simp: stripTrailingSlash_def)

lemma directoryExists_Inr: "directoryExists D p w = (Inr b, w') \<Longrightarrow>
    hist w' = hist w @ EvHost ''exists'' p # (if b then [EvHost ''isDirectory'' p] else []) \<and> b = fst (cd_exists D p (ext w))"
  by (auto simp: directoryExists_def bind_def perform_def ret_def throw_def split: prod.splits sum.splits if_splits)

lemma cc_exec_Inr: "cc_exec D c a w = (Inr r, w') \<Longrightarrow> hist w' = hist w @ [EvSpawn c a]"
  by (auto simp: cc_exec_def host_spawn_def bind_def perform_def ret_def throw_def split: prod.splits sum.splits spawn_out.splits if_splits)

lemma cloneDir_Inr: "\<not> cd_windows D \<Longrightarrow> cloneDir D s t w = (Inr u, w') \<Longrightarrow>
    hist w' = hist w @ [EvHost ''mkdir'' t, EvSpawn ''rsync'' [''-a'', stripTrailingSlash s @ ''/'', stripTrailingSlash t @ ''/'']]"
  by (auto simp: cloneDir_def createDir_def run_Inr perform_def split: prod.splits dest!: cc_exec_Inr)

lemma getDirectoryUsage_Inr: "\<not> cd_windows D \<Longrightarrow> getDirectoryUsage D p w = (Inr u, w') \<Longrightarrow>
    hist w' = hist w @ [EvSpawn ''du'' [''-s'', ''--block-size=1'', p]]"
  by (auto simp: getDirectoryUsage_def run_Inr dest!: cc_exec_Inr)

lemma cut_filecopy_Inr:
  assumes "cut_filecopy D v n p t w = (Inr x, w')" and "\<not> cd_windows D"
    and "getControllerSnapshotPath D (Str (v @ ''-'' @ n)) = Inr q"
  shows "hist w' = hist w @ EvHost ''exists'' q #
      (if fst (cd_exists D q (ext w)) then [EvHost ''isDirectory'' q]
       else [EvHost ''mkdir'' q, EvSpawn ''rsync'' [''-a'', stripTrailingSlash p @ ''/'', stripTrailingSlash q @ ''/'']])
      @ [EvSpawn ''du'' [''-s'', ''--block-size=1'', q]]"
proof -
  from assms obtain b w1 u w2 size where d: "directoryExists D q w = (Inr b, w1)"
    and c: "do_when (\<not> b) (cloneDir D p q) w1 = (Inr u, w2)" and s: "getDirectoryUsage D q w2 = (Inr size, w')"
    by (auto simp: cut_filecopy_def Let_def run_Inr)
  from directoryExists_Inr [OF d] c cloneDir_Inr [OF assms(2), of p q w1 u w2] getDirectoryUsage_Inr [OF assms(2) s]
  show ?thesis by (auto simp: do_when_def ret_Inr split: if_splits)
qed

lemma copy_request_hist:
  assumes "cc_CreateSnapshot D registered (copy_request v n) w = (Inr resp, w')" and "\<not> cd_windows D"
  shows "\<exists>base. getControllerBasePath D = Inr base \<and> (let source = base @ ''/v/'' @ v; target = base @ ''/s/'' @ v @ ''-'' @ n in
    hist w' = hist w @ EvHost ''now'' [] # EvHost ''exists'' target #
      (if fst (cd_exists D target (snd (ho_now (cd_host D) (ext w)))) then [EvHost ''isDirectory'' target]
       else [EvHost ''mkdir'' target, EvSpawn ''rsync'' [''-a'', source @ ''/'', target @ ''/'']])
      @ [EvSpawn ''du'' [''-s'', ''--block-size=1'', target]])"
  using assms(1)
proof (rule copy_request_run)
  fix t e p q size h
  assume now: "ho_now (cd_host D) (ext w) = (t, e)" and p: "getControllerVolumePath D (Str v) = Inr p"
    and q: "getControllerSnapshotPath D (Str (v @ ''-'' @ n)) = Inr q"
    and cut: "cut_filecopy D v n p t (w\<lparr>ext := e, hist := hist w @ [EvHost ''now'' []]\<rparr>) = (Inr (Str (v @ ''-'' @ n), t, size), w')"
  from p obtain base where b: "getControllerBasePath D = Inr base" "p = base @ ''/v/'' @ v" "assertSafeIdForPath (Str v) = Inr v"
    by (auto simp: getControllerVolumePath_def below_Inr)
  from q b have q': "q = base @ ''/s/'' @ v @ ''-'' @ n" "assertSafeIdForPath (Str (v @ ''-'' @ n)) = Inr (v @ ''-'' @ n)"
    by (auto simp: getControllerSnapshotPath_def below_Inr)
  have "stripTrailingSlash p = p" "stripTrailingSlash q = q"
    using safe_id_no_slash [OF b(3)] safe_id_no_slash [OF q'(2)] stripTrailingSlash_below [of v "base @ ''/v/''"]
      stripTrailingSlash_below [of "v @ ''-'' @ n" "base @ ''/s/''"]
    by (simp_all add: b(2) q'(1))
  with cut_filecopy_Inr [OF cut assms(2) q] b q'(1) now show ?thesis by (simp add: Let_def)
qed


text \<open>
  The id that CreateSnapshot gives a file copy leads DeleteSnapshot back to it: the call removes
  the directory that the snapshot was copied to, and nothing else.
\<close>

theorem snapshot_id_leads_back:
  assumes "cc_CreateSnapshot D registered (copy_request v n) w = (Inr resp, w')"
  shows "\<exists>h base. field (field resp ''snapshot'') ''snapshot_id'' = Str h \<and> getControllerBasePath D = Inr base
    \<and> hist (snd (cc_DeleteSnapshot D registered' [(''snapshot_id'', Str h)] w2))
        = hist w2 @ [EvHost ''rm'' (base @ ''/s/'' @ v @ ''-'' @ n)]"
  using assms
proof (rule copy_request_run)
  fix t e p q size h
  assume q: "getControllerSnapshotPath D (Str (v @ ''-'' @ n)) = Inr q"
    and h: "snapshot_handle ''filecopy'' (Str (v @ ''-'' @ n)) = Inr h"
    and r: "resp = Obj [(''snapshot'', Obj [(''size_bytes'', size), (''snapshot_id'', Str h), (''source_volume_id'', Str v),
        (''creation_time'', Obj [(''seconds'', Num (IntN (round_seconds t))), (''nanos'', Num (IntN 0))]), (''ready_to_use'', Bool True)])]"
  from snapshot_handle_parsed [OF h] have pi: "parsed_snapshot_id (Str h) = Inr (Str ''filecopy'', Str (v @ ''-'' @ n))" and ne: "h \<noteq> []"
    by simp_all
  from q obtain base where b: "getControllerBasePath D = Inr base" "q = base @ ''/s/'' @ v @ ''-'' @ n"
    by (auto simp: getControllerSnapshotPath_def below_Inr)
  have "cc_DeleteSnapshot D registered' [(''snapshot_id'', Str h)] = andthen (deleteDir D q) (ret (Obj []))"
    using ne by (simp add: cc_DeleteSnapshot_def obj_get_def Let_def andthen_def throw_when_def bind_lift_Inr pi q [simplified])
  then have "hist (snd (cc_DeleteSnapshot D registered' [(''snapshot_id'', Str h)] w2)) = hist w2 @ [EvHost ''rm'' q]"
    by (auto simp: andthen_def deleteDir_def bind_def ret_def perform_def split: prod.splits sum.splits)
  moreover have "field (field resp ''snapshot'') ''snapshot_id'' = Str h" by (simp add: r field_def obj_get_def)
  ultimately show ?thesis using b by blast
qed

text \<open>
  The ids of file copies are not unique. When the volume ids and the names of two requests read the
  same joined by a dash, both snapshots get one id; and when the directory of the first is there,
  the second request succeeds without copying its own volume.
\<close>

theorem other_volume_snapshot_reused:
  assumes "cc_CreateSnapshot D registered (copy_request v n) w = (Inr resp, w')"
    and "cc_CreateSnapshot D registered' (copy_request v2 n2) w2 = (Inr resp2, w3)"
    and "v @ ''-'' @ n = v2 @ ''-'' @ n2" and "\<not> cd_windows D" and "getControllerBasePath D = Inr base"
    and "fst (cd_exists D (base @ ''/s/'' @ v @ ''-'' @ n) (snd (ho_now (cd_host D) (ext w2))))"
  shows "field (field resp2 ''snapshot'') ''snapshot_id'' = field (field resp ''snapshot'') ''snapshot_id''
    \<and> (let target = base @ ''/s/'' @ v @ ''-'' @ n in hist w3 = hist w2 @ [EvHost ''now'' [], EvHost ''exists'' target,
        EvHost ''isDirectory'' target, EvSpawn ''du'' [''-s'', ''--block-size=1'', target]])"
proof -
  from assms(1) obtain h where h: "snapshot_handle ''filecopy'' (Str (v @ ''-'' @ n)) = Inr h"
    "field (field resp ''snapshot'') ''snapshot_id'' = Str h"
    by (rule copy_request_run) (simp add: field_def obj_get_def)
  from assms(2) obtain h2 where h2: "snapshot_handle ''filecopy'' (Str (v2 @ ''-'' @ n2)) = Inr h2"
    "field (field resp2 ''snapshot'') ''snapshot_id'' = Str h2"
    by (rule copy_request_run) (simp add: field_def obj_get_def)
  have "h2 = h" using h(1) h2(1) by (simp only: assms(3)) simp
  with h(2) h2(2) copy_request_hist [OF assms(2,4), folded assms(3)] assms(5,6) show ?thesis by (simp add: Let_def)
qed

section \<open>Copies\<close>

text \<open>
  A copy of a directory succeeds exactly when rsync exits with zero or without a code: one that a
  signal killed half way counts as a finished copy.
\<close>

theorem copy_outcome:
  assumes "\<not> cd_windows D" and "cd_mkdir D t (ext w) = (Inr u, e)"
    and "ho_spawn (cd_host D) ''rsync'' [''-a'', stripTrailingSlash s @ ''/'', stripTrailingSlash t @ ''/''] [] e
      = (Closed code out err killed, e')"
  shows "fst (cloneDir D s t w) =
    (if code = None \<or> code = Some 0 then Inr () else Inl (ExecReject (closed_result code out err False)))"
  using assms
  by (simp add: cloneDir_def createDir_def cc_exec_def host_spawn_def andthen_def bind_def perform_def ret_def throw_def)

text \<open>A successful CreateVolume sets at most the mode and the owner of the directory after filling it.\<close>

definition sets_access :: "string \<Rightarrow> event \<Rightarrow> bool" where
  "sets_access path e \<longleftrightarrow> e = EvHost ''chmod'' path \<or> (\<exists>owner. e = EvSpawn ''chown'' [owner, path])"

lemma cc_permissions_adds: "adds (sets_access p) (cc_permissions D p)"
  unfolding cc_permissions_def cc_exec_def host_spawn_def sets_access_def
  by (auto intro!: wp_intro split: spawn_out.splits)

definition clone_request :: "string \<Rightarrow> jsobj" where
  "clone_request v = [(''type'', Str ''volume''), (''volume'', Obj [(''volume_id'', Str v)])]"

text \<open>
  On a POSIX controller, a CreateVolume that succeeds as a clone has made the directory of the
  volume, seen that the directory of the source volume exists, copied the source into the
  new directory, and then only set the mode and the owner of the new directory.
\<close>

theorem clone_copies_source:
  assumes "cc_CreateVolume D registered req w = (Inr resp, w')" and "\<not> cd_windows D"
    and "obj_get req ''volume_content_source'' = Obj (clone_request source)"
  shows "\<exists>v base es. cc_create_checks D req = Inr v \<and> getControllerBasePath D = Inr base
    \<and> (let from = base @ ''/v/'' @ source; target = base @ ''/v/'' @ v in
        hist w' = hist w @ [EvHost ''mkdir'' target, EvHost ''exists'' from, EvHost ''isDirectory'' from,
          EvHost ''mkdir'' target, EvSpawn ''rsync'' [''-a'', from @ ''/'', target @ ''/'']] @ es
        \<and> list_all (sets_access target) es)"
proof -
  from assms obtain v p w1 w2 w3 u u' u'' where v: "cc_create_checks D req = Inr v" and p: "getControllerVolumePath D (Str v) = Inr p"
    and mk: "createDir D p w = (Inr u, w1)" and fill: "cc_fill D registered (Obj (clone_request source)) p w1 = (Inr u', w2)"
    and perm: "cc_permissions D p w2 = (Inr u'', w3)" and w3: "w' = w3"
    by (auto simp: cc_CreateVolume_def Let_def run_Inr do_when_def)
  from fill obtain q w4 w5 where q: "getControllerVolumePath D (Str source) = Inr q"
    and d: "directoryExists D q w1 = (Inr True, w4)" and c: "cloneDir D q p w4 = (Inr w5, w2)"
    by (auto simp: cc_fill_def clone_request_def getp_def obj_get_def run_Inr copy_from_def ebind_eq_Inr loose_eq_def split: if_splits)
  from p q obtain base where b: "getControllerBasePath D = Inr base" "p = base @ ''/v/'' @ v" "q = base @ ''/v/'' @ source"
    "assertSafeIdForPath (Str v) = Inr v" "assertSafeIdForPath (Str source) = Inr source"
    by (auto simp: getControllerVolumePath_def below_Inr)
  have s: "stripTrailingSlash p = p" "stripTrailingSlash q = q"
    using safe_id_no_slash [OF b(4)] safe_id_no_slash [OF b(5)] stripTrailingSlash_below [of v "base @ ''/v/''"]
      stripTrailingSlash_below [of source "base @ ''/v/''"] by (simp_all add: b(2,3))
  have "hist w1 = hist w @ [EvHost ''mkdir'' p]" using mk by (auto simp: createDir_def perform_def split: prod.splits)
  moreover obtain es where "hist w3 = hist w2 @ es" "list_all (sets_access p) es"
    using addsD [OF cc_permissions_adds, of D p w2] perm by auto
  ultimately show ?thesis
    using v b(1) directoryExists_Inr [OF d] cloneDir_Inr [OF assms(2) c] w3 s
    by (auto simp: Let_def b(2,3))
qed

section \<open>A sample controller\<close>

text \<open>
  An NFS client controller whose host counts the children that it has run; the directories of
  volumes are there, those of snapshots once a child has run.
\<close>

fun client_spawn :: "string \<Rightarrow> string list \<Rightarrow> jsobj \<Rightarrow> nat \<Rightarrow> spawn_out \<times> nat" where
  "client_spawn c a opts n = (Closed (if c = ''rsync'' then None else Some 0) ''5'' [] False, Suc n)"

definition client_sample :: "nat client_driver" where
  "client_sample = \<lparr>cd_kind = NfsClient,
     cd_driver = (sample_driver ''filesystem'' (\<lambda>_ _. Closed (Some 0) [] [] False))
       \<lparr>dr_options := [(''driver'', Str ''nfs-client''), (''nfs'', Obj [(''shareHost'', Str ''nas''),
          (''shareBasePath'', Str ''/share''), (''controllerBasePath'', Str ''/mnt/'')])]\<rparr>,
     cd_host = quiet_host\<lparr>ho_spawn := client_spawn\<rparr>, cd_windows = False, cd_csiName = Str ''csi'', cd_hostname = ''h'',
     cd_exists = (\<lambda>p n. (0 < n \<or> starts_with p ''/mnt/v/'', n)), cd_isDirectory = (\<lambda>p n. (Inr True, n)),
     cd_mkdir = (\<lambda>p n. (Inr (), n)), cd_rm = (\<lambda>p n. (Inr (), n)), cd_copy = (\<lambda>s t n. (Inr (), n)), cd_chmod = (\<lambda>p m n. (Inr (), n))\<rparr>"

lemma client_sample_base: "getControllerBasePath client_sample = Inr ''/mnt''"
  by code_simp

lemma client_sample_posix: "\<not> cd_windows client_sample"
  by (simp add: client_sample_def)

lemma cut_a: "cc_CreateSnapshot client_sample None (copy_request ''a'' ''b-c'') world0 = (Inr (Obj [(''snapshot'',
    Obj [(''size_bytes'', Str ''5''), (''snapshot_id'', Str ''snapshot_driver=filecopy&snapshot_id=a-b-c''), (''source_volume_id'', Str ''a''),
      (''creation_time'', Obj [(''seconds'', Num (IntN 0)), (''nanos'', Num (IntN 0))]), (''ready_to_use'', Bool True)])]),
    \<lparr>ext = 2, hist = [EvHost ''now'' [], EvHost ''exists'' ''/mnt/s/a-b-c'', EvHost ''mkdir'' ''/mnt/s/a-b-c'',
      EvSpawn ''rsync'' [''-a'', ''/mnt/v/a/'', ''/mnt/s/a-b-c/''], EvSpawn ''du'' [''-s'', ''--block-size=1'', ''/mnt/s/a-b-c'']]\<rparr>)"
  by code_simp

text \<open>Another volume whose snapshot gets the same id.\<close>

lemma cut_ab: "cc_CreateSnapshot client_sample None (copy_request ''a-b'' ''c'') \<lparr>ext = 2, hist = []\<rparr> = (Inr (Obj [(''snapshot'',
    Obj [(''size_bytes'', Str ''5''), (''snapshot_id'', Str ''snapshot_driver=filecopy&snapshot_id=a-b-c''), (''source_volume_id'', Str ''a-b''),
      (''creation_time'', Obj [(''seconds'', Num (IntN 0)), (''nanos'', Num (IntN 0))]), (''ready_to_use'', Bool True)])]),
    \<lparr>ext = 3, hist = [EvHost ''now'' [], EvHost ''exists'' ''/mnt/s/a-b-c'', EvHost ''isDirectory'' ''/mnt/s/a-b-c'',
      EvSpawn ''du'' [''-s'', ''--block-size=1'', ''/mnt/s/a-b-c'']]\<rparr>)"
  by code_simp

lemma client_delete_scope_witness:
  "\<exists>w' :: nat world. hist w' = [EvHost ''rm'' ''/mnt/v/a''] \<and> path_names ''/mnt/v/a'' = path_names ''/mnt/v'' @ [''a'']"
proof -
  let ?req = "[(''volume_id'', Str ''a'')]"
  obtain r w' where run: "cc_DeleteVolume client_sample ?req world0 = (r, w')" by force
  have "hist (snd (cc_DeleteVolume client_sample ?req world0)) = [EvHost ''rm'' ''/mnt/v/a'']" by code_simp
  with run have h: "hist w' = [EvHost ''rm'' ''/mnt/v/a'']" by simp
  have "hist world0 = []" by (simp add: world0_def)
  with client_delete_scope [OF run] h client_sample_base show ?thesis by (auto simp: obj_get_def)
qed

lemma client_snapshot_delete_scope_witness:
  "\<exists>w' :: nat world. hist w' = [EvHost ''rm'' ''/mnt/s/.''] \<and> path_names ''/mnt/s/.'' = path_names ''/mnt/s''"
proof -
  let ?req = "[(''snapshot_id'', Str ''.'')]"
  obtain r w' where run: "cc_DeleteSnapshot client_sample None ?req world0 = (r, w')" by force
  have "hist world0 = []" by (simp add: world0_def)
  with client_snapshot_delete_scope [OF run, of "''/mnt''"] client_sample_base
  show ?thesis by (auto simp: obj_get_def)
qed


lemma snapshot_id_leads_back_witness:
  "hist (snd (cc_DeleteSnapshot client_sample None [(''snapshot_id'', Str ''snapshot_driver=filecopy&snapshot_id=a-b-c'')] world0))
     = [EvHost ''rm'' ''/mnt/s/a-b-c'']"
  using snapshot_id_leads_back [OF cut_a, of None world0]
  by (auto simp: client_sample_base world0_def field_def obj_get_def)

lemma other_volume_snapshot_reused_witness:
  "hist (snd (cc_CreateSnapshot client_sample None (copy_request ''a-b'' ''c'') \<lparr>ext = 2, hist = []\<rparr>))
     = [EvHost ''now'' [], EvHost ''exists'' ''/mnt/s/a-b-c'', EvHost ''isDirectory'' ''/mnt/s/a-b-c'',
        EvSpawn ''du'' [''-s'', ''--block-size=1'', ''/mnt/s/a-b-c'']]"
proof -
  have "fst (cd_exists client_sample (''/mnt'' @ ''/s/'' @ ''a'' @ ''-'' @ ''b-c'')
      (snd (ho_now (cd_host client_sample) (ext (\<lparr>ext = 2, hist = []\<rparr> :: nat world)))))"
    by (simp add: client_sample_def quiet_host_def)
  with other_volume_snapshot_reused [OF cut_a cut_ab _ client_sample_posix client_sample_base] show ?thesis
    by (simp add: cut_ab Let_def)
qed

lemma copy_outcome_witness: "fst (cloneDir client_sample ''/mnt/v/a'' ''/mnt/s/b'' world0) = Inr ()"
  by (subst copy_outcome [where u = "()" and e = 0 and code = None and out = "''5''" and err = "[]" and killed = False and e' = 1])
    (simp_all add: client_sample_def world0_def)

lemma clone_copies_source_witness:
  "EvSpawn ''rsync'' [''-a'', ''/mnt/v/a/'', ''/mnt/v/pvc-1/''] \<in> set (hist (snd (cc_CreateVolume client_sample None
     [(''name'', Str ''pvc-1''), (''volume_capabilities'', Arr [Obj [(''access_type'', Str ''mount''), (''mount'', Obj []),
        (''access_mode'', Obj [(''mode'', Str ''MULTI_NODE_MULTI_WRITER'')])]]),
      (''volume_content_source'', Obj (clone_request ''a''))] world0)))"
proof -
  let ?req = "[(''name'', Str ''pvc-1''), (''volume_capabilities'', Arr [Obj [(''access_type'', Str ''mount''), (''mount'', Obj []),
        (''access_mode'', Obj [(''mode'', Str ''MULTI_NODE_MULTI_WRITER'')])]]), (''volume_content_source'', Obj (clone_request ''a''))]"
  have "\<not> isl (fst (cc_CreateVolume client_sample None ?req world0))" by code_simp
  then obtain resp w' where run: "cc_CreateVolume client_sample None ?req world0 = (Inr resp, w')"
    by (metis isl_def prod.collapse sum.exhaust)
  have checks: "cc_create_checks client_sample ?req = Inr ''pvc-1''" by code_simp
  have "obj_get ?req ''volume_content_source'' = Obj (clone_request ''a'')" by (simp add: obj_get_def)
  from clone_copies_source [OF run client_sample_posix this] client_sample_base checks show ?thesis
    by (auto simp: run Let_def)
qed

end
