(* ===== verification/Zfs_Generic.thy ===== *)
theory Zfs_Generic
  imports Controller_Volumes Objectivefs Partial_Effects
begin

text \<open>
  \<open>src/driver/controller-zfs-generic/index.js\<close>: the share methods that \<open>ControllerZfsBaseDriver\<close> leaves
  to its derived drivers, for datasets shared over NFS, SMB, iSCSI (targetcli or pcs) and NVMe-oF
  (nvmetcli or spdkcli), with scripts that run on the storage host. The driver is the record of
  \<open>Controller_Base\<close>, whose share methods are not used here, and a host for the clock. The loop
  that waits for a device has no bound of its own: its programs are those of \<open>Partial_Effects\<close>.
  The mutexes that serialize the tools and the option \<open>pty\<close> of the exec client are not modelled.
\<close>

record 'e generic_driver =
  gd_driver :: "'e driver"
  gd_host :: "'e host"

definition gd_options :: "'e generic_driver \<Rightarrow> jsobj" where
  "gd_options G = dr_options (gd_driver G)"

definition gd_path :: "'e generic_driver \<Rightarrow> string list \<Rightarrow> exn + js" where
  "gd_path G ks = getps (Obj (gd_options G)) ks"

definition gd_get :: "'e generic_driver \<Rightarrow> string \<Rightarrow> js \<Rightarrow> js" where
  "gd_get G path d = opts_get (gd_driver G) (gd_options G) path d"

definition ISCSI_ASSETS_NAME_PROPERTY_NAME :: string where
  "ISCSI_ASSETS_NAME_PROPERTY_NAME = ''democratic-csi:iscsi_assets_name''"

definition NVMEOF_ASSETS_NAME_PROPERTY_NAME :: string where
  "NVMEOF_ASSETS_NAME_PROPERTY_NAME = ''democratic-csi:nvmeof_assets_name''"

definition lines :: "string list \<Rightarrow> string" where
  "lines ls = join [CHR 10] ls"

section \<open>What is logged\<close>

text \<open>
  The two regular expressions of \<open>redactTargetCliSecrets\<close>: what follows \<open>password=\<close> up to a space, a
  double quote or a backslash, and the quoted text of the answer of targetcli.
\<close>

definition secret_char :: "char \<Rightarrow> bool" where
  "secret_char c \<longleftrightarrow> \<not> is_space c \<and> c \<noteq> CHR 34 \<and> c \<noteq> CHR 0x5C"

function redact_assignments :: "string \<Rightarrow> string" where
  "redact_assignments s =
     (if starts_with s ''password='' \<and> takeWhile secret_char (drop 9 s) \<noteq> []
      then ''password=<redacted>'' @ redact_assignments (dropWhile secret_char (drop 9 s))
      else case s of [] \<Rightarrow> [] | c # t \<Rightarrow> c # redact_assignments t)"
  by pat_completeness auto

termination
proof (relation "measure length")
  fix s :: string
  assume "starts_with s ''password='' \<and> takeWhile secret_char (drop 9 s) \<noteq> []"
  then have "0 < length s" by (auto simp: starts_with_iff_prefix)
  moreover have "length (dropWhile secret_char (drop 9 s)) \<le> length s - 9"
    using length_dropWhile_le [of secret_char "drop 9 s"] by simp
  ultimately have "length (dropWhile secret_char (drop 9 s)) < length s" by linarith
  then show "(dropWhile secret_char (drop 9 s), s) \<in> measure length" by simp
qed auto

declare redact_assignments.simps [simp del]

definition now_is :: "string list" where
  "now_is = map (\<lambda>p. ''Parameter '' @ p @ '' is now '' @ [CHR 0x27]) [''mutual_password'', ''password'']"

function redact_answers :: "string \<Rightarrow> string" where
  "redact_answers s =
     (case find (starts_with s) now_is of
        Some p \<Rightarrow>
          let rest = drop (length p) s; tail = dropWhile (\<lambda>c. c \<noteq> CHR 0x27) rest in
          if p = [] \<or> tail = [] then s
          else p @ ''<redacted>'' @ [CHR 0x27] @ redact_answers (tl tail)
      | None \<Rightarrow> (case s of [] \<Rightarrow> [] | c # t \<Rightarrow> c # redact_answers t))"
  by pat_completeness auto

termination
proof (relation "measure length")
  fix s p :: string and rest tail
  assume rest: "rest = drop (length p) s" and tail: "tail = dropWhile (\<lambda>c. c \<noteq> CHR 0x27) rest" and ne: "\<not> (p = [] \<or> tail = [])"
  have "length tail \<le> length s" using length_dropWhile_le [of "\<lambda>c. c \<noteq> CHR 0x27" rest] unfolding tail rest by simp
  with ne show "(tl tail, s) \<in> measure length" by (cases tail) auto
qed auto

declare redact_answers.simps [simp del]

definition redactTargetCliSecrets :: "string \<Rightarrow> string" where
  "redactTargetCliSecrets text = redact_answers (redact_assignments text)"

section \<open>The tools of the storage host\<close>

text \<open>\<open>throw response\<close>: the plain object with the code and the output of a command.\<close>

definition response_error :: "jsobj \<Rightarrow> exn" where
  "response_error response =
     ExecReject (closed_result (case obj_get response ''code'' of Num (IntN n) \<Rightarrow> Some n | _ \<Rightarrow> None)
       (if truthy (obj_get response ''stdout'') then to_str (obj_get response ''stdout'') else [])
       (if truthy (obj_get response ''stderr'') then to_str (obj_get response ''stderr'') else []) False)"

definition checked_response :: "jsobj \<Rightarrow> ('w, jsobj) io" where
  "checked_response response =
     (if loose_eq (obj_get response ''code'') (Num (IntN 0)) then ret response else throw (response_error response))"

text \<open>The command line that feeds a script to a tool: \<open>sh -c\<close> of an \<open>echo\<close> in double quotes and a bar.\<close>

definition tool :: "'e generic_driver \<Rightarrow> string \<Rightarrow> string \<Rightarrow> string" where
  "tool G sudo_path name = (if truthy (gd_get G sudo_path (Bool False)) then ''sudo '' @ name else name)"

definition script_line :: "string \<Rightarrow> string \<Rightarrow> string" where
  "script_line program data = ''echo '' @ [CHR 34] @ data @ [CHR 34] @ '' | '' @ program"

definition sh_command :: "string \<Rightarrow> string" where
  "sh_command line = buildCommand ''sh'' [''-c'', line]"

definition target_line :: "'e generic_driver \<Rightarrow> string \<Rightarrow> string" where
  "target_line G data =
     script_line (tool G ''iscsi.shareStrategyTargetCli.sudoEnabled'' ''targetcli'') (trim data @ [CHR 10] @ ''exit'')"

definition target_log :: "'e generic_driver \<Rightarrow> string \<Rightarrow> string" where
  "target_log G data = redactTargetCliSecrets (''sh -c '' @ target_line G data)"

definition targetCliCommand :: "'e generic_driver \<Rightarrow> string \<Rightarrow> ('e world, jsobj) io" where
  "targetCliCommand G data = bind (exec_client (gd_driver G) (sh_command (target_line G data))) checked_response"

definition verify_script :: "string list \<Rightarrow> string" where
  "verify_script paths = lines (map (\<lambda>path. path @ '' pwd'') paths)"

definition targetCliVerifyPaths :: "'e generic_driver \<Rightarrow> string list \<Rightarrow> ('e world, unit) io" where
  "targetCliVerifyPaths G paths =
     bind (targetCliCommand G (verify_script paths)) (\<lambda>response.
     bind (lift (as_string (or_else (obj_get response ''stdout'') (Str [])))) (\<lambda>stdout.
     throw_when (contains stdout ''No such path'')
       (grpc UNAVAILABLE (''targetcli objects missing after create: '' @ join '', '' paths))))"

text \<open>One round of the wait: whether the device is there; an error once the deadline is over.\<close>

definition wait_round :: "'e generic_driver \<Rightarrow> string \<Rightarrow> int \<Rightarrow> int \<Rightarrow> ('e world, bool) io" where
  "wait_round G path deadline interval =
     bind (exec_client (gd_driver G) (buildCommand ''test'' [''-e'', path])) (\<lambda>response.
     if loose_eq (obj_get response ''code'') (Num (IntN 0)) then ret True
     else bind (host_now (gd_host G)) (\<lambda>now.
       andthen (throw_when (now \<ge> deadline)
          (grpc UNAVAILABLE (''timed out waiting for device '' @ path @ '' on storage host'')))
         (andthen (host_sleep (gd_host G) interval) (ret False))))"

partial_function (option) wait_rounds ::
  "'e generic_driver \<Rightarrow> string \<Rightarrow> int \<Rightarrow> int \<Rightarrow> 'e world \<Rightarrow> ((exn + unit) \<times> 'e world) option" where
  "wait_rounds G path deadline interval w =
     (case wait_round G path deadline interval w of
        (Inl e, w1) \<Rightarrow> Some (Inl e, w1)
      | (Inr there, w1) \<Rightarrow> if there then Some (Inr (), w1) else wait_rounds G path deadline interval w1)"

text \<open>A setting in milliseconds; one that is not a number is outside the model.\<close>

definition gd_ms :: "'e generic_driver \<Rightarrow> string \<Rightarrow> int \<Rightarrow> exn + int" where
  "gd_ms G path d =
     (case gd_get G path (Num (IntN d)) of Num (IntN n) \<Rightarrow> Inr n | _ \<Rightarrow> Inl (Unmodelled ''not a number of milliseconds''))"

definition waitForDevice :: "'e generic_driver \<Rightarrow> string \<Rightarrow> ('e world, unit) pio" where
  "waitForDevice G path =
     pbind (total (lift (gd_ms G ''iscsi.shareStrategyTargetCli.deviceWaitTimeout'' 30000))) (\<lambda>timeout.
     pbind (total (lift (gd_ms G ''iscsi.shareStrategyTargetCli.deviceWaitInterval'' 1000))) (\<lambda>interval.
     pbind (total (catch (bind (exec_client (gd_driver G) (buildCommand ''udevadm'' [''settle''])) (\<lambda>_. ret ())) (\<lambda>_. ret ()))) (\<lambda>_.
     pbind (total (host_now (gd_host G))) (\<lambda>now.
     wait_rounds G path (now + timeout) interval))))"

text \<open>A resource that exists already is not an error of pcs.\<close>

definition pcs_line :: "'e generic_driver \<Rightarrow> string list \<Rightarrow> string" where
  "pcs_line G terms = tool G ''iscsi.shareStrategyPcs.sudoEnabled'' ''pcs'' @ '' '' @ join '' '' terms"

definition pcs_log :: "'e generic_driver \<Rightarrow> string list \<Rightarrow> string" where
  "pcs_log G terms =
     concat (map (\<lambda>term. '' '' @ (if starts_with term ''incoming_password='' then ''incoming_password=<redacted>'' else term))
       (split_ch (CHR '' '') (''sh -c '' @ pcs_line G terms)))"

definition pcsCommand :: "'e generic_driver \<Rightarrow> string list \<Rightarrow> ('e world, jsobj) io" where
  "pcsCommand G terms =
     bind (exec_client (gd_driver G) (sh_command (pcs_line G terms))) (\<lambda>response.
     bind (if loose_eq (obj_get response ''code'') (Num (IntN 1))
           then lift (ebind (as_string (obj_get response ''stdout'')) (\<lambda>s. Inr (contains s ''already exists'')))
           else ret False) (\<lambda>there.
     checked_response (if there then obj_set ''code'' (Num (IntN 0)) response else response)))"

text \<open>The tools of NVMe-oF; the configuration of nvmet is tested with a command whose code nobody reads.\<close>

definition nvmetCliCommand :: "'e generic_driver \<Rightarrow> string \<Rightarrow> ('e world, jsobj) io" where
  "nvmetCliCommand G data =
     (let imported = gd_get G ''nvmeof.shareStrategyNvmetCli.configIsImportedFilePath'' Undef;
          name = to_str (gd_get G ''nvmeof.shareStrategyNvmetCli.nvmetcliPath'' (Str ''nvmetcli'')) in
      andthen
        (do_when (truthy imported)
          (catch (bind (exec_client (gd_driver G) (buildCommand ''test'' [''-f'', to_str imported])) (\<lambda>_. ret ()))
             (\<lambda>_. throw (js_error ''nvmet has not been fully configured''))))
        (bind (exec_client (gd_driver G)
           (sh_command (script_line (tool G ''nvmeof.shareStrategyNvmetCli.sudoEnabled'' name) (trim data)))) checked_response))"

definition spdkCliCommand :: "'e generic_driver \<Rightarrow> string \<Rightarrow> ('e world, jsobj) io" where
  "spdkCliCommand G data =
     (let name = to_str (gd_get G ''nvmeof.shareStrategySpdkCli.spdkcliPath'' (Str ''spdkcli'')) in
      bind (exec_client (gd_driver G)
        (sh_command (script_line (tool G ''nvmeof.shareStrategySpdkCli.sudoEnabled'' name) (trim data)))) checked_response)"

text \<open>Each command is tried at most three times, two seconds apart, as long as a test of the error holds.\<close>

definition three_times :: "'e generic_driver \<Rightarrow> (exn \<Rightarrow> bool) \<Rightarrow> ('e world, 'a) io \<Rightarrow> ('e world, unit) io" where
  "three_times G again m =
     retry (host_sleep (gd_host G)) (ret 0) 3 2000 (bind m (\<lambda>_. ret ())) (no_retry_options\<lparr>ro_retryCondition := Some again\<rparr>)"

definition ran_out_of_input :: "exn \<Rightarrow> bool" where
  "ran_out_of_input err \<longleftrightarrow> stream_has (err_stdout err) ''Ran out of input''"

definition timed_out :: "exn \<Rightarrow> bool" where
  "timed_out err \<longleftrightarrow> stream_has (err_stdout err) ''Timed Out''"

fun is_grpc :: "exn \<Rightarrow> bool" where
  "is_grpc (GrpcError s m) = True"
| "is_grpc _ = False"

section \<open>Names and scripts\<close>

definition generateSmbShareName :: "string \<Rightarrow> string" where
  "generateSmbShareName datasetName = map (\<lambda>c. if c = CHR ''/'' \<or> c = CHR ''-'' then CHR ''_'' else c) datasetName"

definition decorated :: "'e generic_driver \<Rightarrow> string \<Rightarrow> string \<Rightarrow> exn + string" where
  "decorated G section name =
     ebind (gd_path G [section, ''namePrefix'']) (\<lambda>pre. ebind (gd_path G [section, ''nameSuffix'']) (\<lambda>suf.
     Inr ((if truthy pre then to_str pre else []) @ name @ (if truthy suf then to_str suf else []))))"

definition asset_name :: "'e generic_driver \<Rightarrow> string \<Rightarrow> jsobj \<Rightarrow> string \<Rightarrow> exn + string" where
  "asset_name G section req datasetName =
     ebind (gd_path G [section, ''nameTemplate'']) (\<lambda>template.
     ebind (if truthy template
            then dr_template (gd_driver G) template (Obj [(''name'', obj_get req ''name''), (''parameters'', obj_get req ''parameters'')])
            else Inr (extractLeafName datasetName)) (\<lambda>name.
     ebind (decorated G section name) (\<lambda>name. Inr (to_lower name))))"

text \<open>A text for each attribute of an object that may be missing.\<close>

definition each_attribute :: "js \<Rightarrow> (string \<Rightarrow> string \<Rightarrow> string) \<Rightarrow> string" where
  "each_attribute attributes f =
     (if truthy attributes then concat (map (\<lambda>(k, v). f k (to_str v)) (entries attributes)) else [])"

definition set_line :: "string \<Rightarrow> string \<Rightarrow> string \<Rightarrow> string \<Rightarrow> string" where
  "set_line path kind k v = [CHR 10] @ path @ '' set '' @ kind @ '' '' @ k @ ''='' @ v"

definition target_create_script :: "string \<Rightarrow> string \<Rightarrow> string \<Rightarrow> string \<Rightarrow> string \<Rightarrow> string" where
  "target_create_script target assetName device attributes block_attributes =
     lines [[], ''# create target'', ''/iscsi create '' @ target, [], ''# setup tpg'', attributes, [], [], ''# create extent'',
       ''/backstores/block create '' @ assetName @ '' '' @ device, block_attributes, [], ''# add extent to target/tpg'',
       ''/iscsi/'' @ target @ ''/tpg1/luns create /backstores/block/'' @ assetName, []]"

definition target_delete_script :: "string \<Rightarrow> string \<Rightarrow> string" where
  "target_delete_script target assetName =
     lines [[], ''# delete target'', ''/iscsi delete '' @ target, [], ''# delete extent'', ''/backstores/block delete '' @ assetName, []]"

text \<open>The attributes of the block device and those of the target, from the options.\<close>

definition target_texts :: "'e generic_driver \<Rightarrow> string \<Rightarrow> string \<Rightarrow> exn + string \<times> string" where
  "target_texts G target assetName =
     (let at = ''/iscsi/'' @ target @ ''/tpg1'' in
      ebind (gd_path G [''iscsi'', ''shareStrategyTargetCli'']) (\<lambda>s. ebind (getp s ''block'') (\<lambda>block. ebind (getp s ''tpg'') (\<lambda>tpg.
      Inr ((if truthy tpg
            then each_attribute (field tpg ''attributes'') (set_line at ''attribute'') @ each_attribute (field tpg ''auth'') (set_line at ''auth'')
            else []),
           (if truthy block then each_attribute (field block ''attributes'') (set_line (''/backstores/block/'' @ assetName) ''attribute'') else []))))))"

definition device_of :: "string \<Rightarrow> string" where
  "device_of datasetName = ''/dev/zvol/'' @ datasetName"

section \<open>Sharing over iSCSI\<close>

definition target_objects :: "string \<Rightarrow> string \<Rightarrow> string list" where
  "target_objects target assetName = [''/backstores/block/'' @ assetName, ''/iscsi/'' @ target @ ''/tpg1/luns/lun0'']"

text \<open>targetcli ends with 0 when a line of its script fails, so what it made is looked for.\<close>

definition create_target :: "'e generic_driver \<Rightarrow> string \<Rightarrow> string \<Rightarrow> string \<Rightarrow> ('e world, unit) io" where
  "create_target G target assetName script =
     three_times G (\<lambda>err. ran_out_of_input err \<or> is_grpc err)
       (bind (targetCliCommand G script) (\<lambda>_. targetCliVerifyPaths G (target_objects target assetName)))"

definition share_targetcli :: "'e generic_driver \<Rightarrow> string \<Rightarrow> string \<Rightarrow> ('e world, js) pio" where
  "share_targetcli G assetName datasetName =
     pbind (total (lift (gd_path G [''iscsi'', ''shareStrategyTargetCli'', ''basename'']))) (\<lambda>basename.
     let target = to_str basename @ '':'' @ assetName in
     pbind (total (lift (target_texts G target assetName))) (\<lambda>(attributes, block_attributes).
     pbind (waitForDevice G (device_of datasetName)) (\<lambda>_.
     pbind (total (create_target G target assetName
         (target_create_script target assetName (device_of datasetName) attributes block_attributes))) (\<lambda>_.
     pret basename))))"

definition in_quotes :: "string \<Rightarrow> string" where
  "in_quotes s = [CHR 34] @ s @ [CHR 34]"

definition share_pcs :: "'e generic_driver \<Rightarrow> string \<Rightarrow> string \<Rightarrow> ('e world, js) io" where
  "share_pcs G assetName datasetName =
     bind (lift (gd_path G [''iscsi'', ''shareStrategyPcs''])) (\<lambda>s.
     bind (lift (getp s ''basename'')) (\<lambda>basename. bind (lift (getp s ''pcs_group'')) (\<lambda>grp.
     bind (lift (getp s ''auth'')) (\<lambda>auth. bind (lift (getp auth ''enabled'')) (\<lambda>enabled.
     let extra = [''group'', to_str grp, ''--wait'']; target = to_str basename @ '':'' @ assetName;
         credential = (\<lambda>k. k @ ''='' @ in_quotes (to_str (field auth k))) in
     andthen (three_times G timed_out (pcsCommand G
       ([''resource'', ''create'', ''--future'', ''--force'', ''target-'' @ assetName, ''ocf:heartbeat:iSCSITarget'',
         ''implementation='' @ in_quotes ''lio-t'', ''portals='' @ in_quotes '':::3260'', ''iqn='' @ in_quotes target]
        @ (if truthy enabled then [credential ''incoming_username'', credential ''incoming_password''] else []) @ extra)))
    (andthen (three_times G timed_out (pcsCommand G
       ([''resource'', ''create'', ''--future'', ''lun-'' @ assetName, ''ocf:heartbeat:iSCSILogicalUnit'',
         ''implementation='' @ in_quotes ''lio-t'', ''target_iqn='' @ in_quotes target, ''lun='' @ in_quotes ''0'',
         ''path='' @ in_quotes (device_of datasetName)] @ extra)))
     (ret basename)))))))"

definition unknown_strategy :: "js \<Rightarrow> exn" where
  "unknown_strategy s = grpc FAILED_PRECONDITION (''invalid configuration: unknown shareStrategy '' @ to_str s)"

text \<open>\<open>xs ? xs.join(",") : ""\<close>\<close>

definition joined :: "js \<Rightarrow> exn + js" where
  "joined v = (if \<not> truthy v then Inr (Str []) else case v of Arr xs \<Rightarrow> Inr (Str (to_str v)) | _ \<Rightarrow> Inl (type_error ''join''))"

definition iscsi_context :: "'e generic_driver \<Rightarrow> string \<Rightarrow> exn + jsobj" where
  "iscsi_context G iqn =
     ebind (gd_path G [''iscsi'']) (\<lambda>s. ebind (joined (field s ''targetPortals'')) (\<lambda>portals.
     Inr [(''node_attach_driver'', Str ''iscsi''), (''portal'', or_else (field s ''targetPortal'') (Str [])), (''portals'', portals),
       (''interface'', or_else (field s ''interface'') (Str [])), (''iqn'', Str iqn), (''lun'', Num (IntN 0))]))"

definition share_iscsi :: "'e generic_driver \<Rightarrow> jsobj \<Rightarrow> string \<Rightarrow> ('e world, jsobj) pio" where
  "share_iscsi G req datasetName =
     pbind (total (lift (asset_name G ''iscsi'' req datasetName))) (\<lambda>assetName.
     pbind (total (lift (gd_path G [''iscsi'', ''shareStrategy'']))) (\<lambda>strategy.
     pbind (if strategy = Str ''targetCli'' then share_targetcli G assetName datasetName
            else if strategy = Str ''pcs'' then total (share_pcs G assetName datasetName)
            else pthrow (unknown_strategy strategy)) (\<lambda>basename.
     pbind (total (zset (gd_driver G) datasetName [(ISCSI_ASSETS_NAME_PROPERTY_NAME, Str assetName)])) (\<lambda>_.
     total (lift (iscsi_context G (to_str basename @ '':'' @ assetName)))))))"

section \<open>Sharing over NVMe-oF\<close>

text \<open>\<open>xs.forEach\<close> that appends a text for each item.\<close>

definition each_text :: "js \<Rightarrow> (js \<Rightarrow> string) \<Rightarrow> exn + string" where
  "each_text v f = (case v of Arr xs \<Rightarrow> Inr (concat (map f xs)) | _ \<Rightarrow> Inl (type_error ''forEach''))"

definition port_lines :: "string \<Rightarrow> string \<Rightarrow> js \<Rightarrow> string" where
  "port_lines action target port = lines [[], ''cd /ports/'' @ to_str port @ ''/subsystems'', action @ '' '' @ target, []]"

definition nvmet_savefile :: "'e generic_driver \<Rightarrow> string" where
  "nvmet_savefile G =
     (let path = gd_get G ''nvmeof.shareStrategyNvmetCli.configPath'' (Str []) in
      if truthy path then ''savefile='' @ to_str path else to_str path)"

definition nvmet_create_script :: "string \<Rightarrow> string \<Rightarrow> string \<Rightarrow> string \<Rightarrow> string \<Rightarrow> string" where
  "nvmet_create_script target device attributes ports savefile =
     lines [[], ''# create subsystem'', ''cd /subsystems'', ''create '' @ target, ''cd '' @ target, attributes, [],
       ''# create subsystem namespace'', ''cd namespaces'', ''create 1'', ''cd 1'', ''set device path='' @ device, ''enable'', [],
       ''# associate subsystem/target to port(al)'', ports, [], ''saveconfig '' @ savefile, []]"

definition nvmet_delete_script :: "string \<Rightarrow> string \<Rightarrow> string \<Rightarrow> string" where
  "nvmet_delete_script target ports savefile =
     lines [[], ''# delete subsystem from port'', ports, [], ''# delete subsystem'', ''cd /subsystems'', ''delete '' @ target, [],
       ''saveconfig '' @ savefile, []]"

definition share_nvmet :: "'e generic_driver \<Rightarrow> string \<Rightarrow> string \<Rightarrow> ('e world, js) io" where
  "share_nvmet G assetName datasetName =
     bind (lift (gd_path G [''nvmeof'', ''shareStrategyNvmetCli''])) (\<lambda>s.
     bind (lift (getp s ''basename'')) (\<lambda>basename. bind (lift (getp s ''subsystem'')) (\<lambda>subsystem. bind (lift (getp s ''ports'')) (\<lambda>ports.
     let target = to_str basename @ '':'' @ assetName;
         attributes = (if truthy subsystem then each_attribute (field subsystem ''attributes'')
            (\<lambda>k v. [CHR 10] @ ''set attr '' @ k @ ''='' @ v) else []) in
     bind (lift (each_text ports (port_lines ''create'' target))) (\<lambda>portCommands.
     andthen (three_times G ran_out_of_input
       (nvmetCliCommand G (nvmet_create_script target (device_of datasetName) attributes portCommands (nvmet_savefile G))))
      (ret basename))))))"

text \<open>Nothing separates the attributes that the code appends to one another here.\<close>

definition spdk_attributes :: "js \<Rightarrow> string" where
  "spdk_attributes v = (if truthy v then each_attribute (field v ''attributes'') (\<lambda>k v. k @ ''='' @ v) else [])"

definition spdk_listener :: "js \<Rightarrow> string" where
  "spdk_listener listener =
     lines [[], ''create '' @ concat (map (\<lambda>(k, v). '' '' @ k @ ''='' @ to_str v @ '' '') (entries listener)), []]"

definition spdk_create_script :: "string \<Rightarrow> string \<Rightarrow> string \<Rightarrow> string \<Rightarrow> string \<Rightarrow> string \<Rightarrow> string \<Rightarrow> string" where
  "spdk_create_script target device kind bdev subsystem listeners configPath =
     lines [[], ''# create bdev'', ''cd /bdevs/'' @ kind, ''create filename='' @ device @ '' name='' @ target @ '' '' @ bdev, [],
       ''# create subsystem'', ''cd /nvmf/subsystem'', ''create nqn='' @ target @ '' '' @ subsystem, ''cd '' @ target, [],
       ''# create namespace'', ''cd /nvmf/subsystem/'' @ target @ ''/namespaces'', ''create bdev_name='' @ target @ '' nsid=1'', [],
       ''# add listener'', listeners, [], ''cd /'', ''save_config filename='' @ configPath, []]"

definition spdk_delete_script :: "string \<Rightarrow> string \<Rightarrow> string \<Rightarrow> string" where
  "spdk_delete_script target kind configPath =
     lines [[], ''# delete subsystem'', ''cd /nvmf/subsystem/'', ''delete subsystem_nqn='' @ target, [],
       ''# delete bdev'', ''cd /bdevs/'' @ kind, ''delete name='' @ target, [], ''cd /'', ''save_config filename='' @ configPath, []]"

definition share_spdk :: "'e generic_driver \<Rightarrow> string \<Rightarrow> string \<Rightarrow> ('e world, js) io" where
  "share_spdk G assetName datasetName =
     bind (lift (gd_path G [''nvmeof'', ''shareStrategySpdkCli''])) (\<lambda>s.
     bind (lift (getp s ''basename'')) (\<lambda>basename.
     let target = to_str basename @ '':'' @ assetName in
     bind (lift (each_text (field s ''listeners'') spdk_listener)) (\<lambda>listeners.
     bind (lift (getp (field s ''bdev'') ''type'')) (\<lambda>kind.
     andthen (three_times G ran_out_of_input (spdkCliCommand G
       (spdk_create_script target (device_of datasetName) (to_str kind) (spdk_attributes (field s ''bdev'')) (spdk_attributes (field s ''subsystem''))
         (''cd /nvmf/subsystem/'' @ target @ ''/listen_addresses'' @ [CHR 10] @ listeners) (to_str (field s ''configPath'')))))
      (ret basename)))))"

definition nvmeof_context :: "'e generic_driver \<Rightarrow> string \<Rightarrow> exn + jsobj" where
  "nvmeof_context G nqn =
     ebind (gd_path G [''nvmeof'']) (\<lambda>s. ebind (joined (field s ''transports'')) (\<lambda>transports.
     Inr [(''node_attach_driver'', Str ''nvmeof''), (''transport'', or_else (field s ''transport'') (Str [])),
       (''transports'', transports), (''nqn'', Str nqn), (''nsid'', Num (IntN 1))]))"

text \<open>An unknown strategy is no error here: the name of the target starts with \<open>undefined\<close> then.\<close>

definition share_nvmeof :: "'e generic_driver \<Rightarrow> jsobj \<Rightarrow> string \<Rightarrow> ('e world, jsobj) io" where
  "share_nvmeof G req datasetName =
     bind (lift (asset_name G ''nvmeof'' req datasetName)) (\<lambda>assetName.
     bind (lift (gd_path G [''nvmeof'', ''shareStrategy''])) (\<lambda>strategy.
     bind (if strategy = Str ''nvmetCli'' then share_nvmet G assetName datasetName
           else if strategy = Str ''spdkCli'' then share_spdk G assetName datasetName
           else ret Undef) (\<lambda>basename.
     bind (zset (gd_driver G) datasetName [(NVMEOF_ASSETS_NAME_PROPERTY_NAME, Str assetName)]) (\<lambda>_.
     lift (nvmeof_context G (to_str basename @ '':'' @ assetName))))))"

section \<open>Sharing over NFS and SMB\<close>

definition share_property :: "'e generic_driver \<Rightarrow> string \<Rightarrow> string \<Rightarrow> exn + js" where
  "share_property G section key = gd_path G [section, ''shareStrategySetDatasetProperties'', ''properties'', key]"

definition set_share_properties :: "'e generic_driver \<Rightarrow> string \<Rightarrow> string list \<Rightarrow> string \<Rightarrow> ('e world, unit) io" where
  "set_share_properties G section keys datasetName =
     for_each keys (\<lambda>key.
       bind (lift (share_property G section key)) (\<lambda>v.
       do_when (truthy v) (zset (gd_driver G) datasetName [(key, v)])))"

definition inherit_share_properties :: "'e generic_driver \<Rightarrow> string \<Rightarrow> string list \<Rightarrow> string \<Rightarrow> ('e world, unit) io" where
  "inherit_share_properties G section keys datasetName =
     andthen
       (for_each keys (\<lambda>key.
          bind (lift (share_property G section key)) (\<lambda>v.
          do_when (truthy v)
            (catch (bind (zfs_inherit (dr_zb (gd_driver G)) 2 datasetName key) (\<lambda>_. ret ()))
               (\<lambda>err. if err_has err ''dataset does not exist'' then ret () else throw err)))))
       (host_sleep (gd_host G) 2000)"

definition dataset_row :: "'e generic_driver \<Rightarrow> string \<Rightarrow> string \<Rightarrow> ('e world, js) io" where
  "dataset_row G datasetName property =
     bind (zget (gd_driver G) datasetName [property] []) (\<lambda>properties. lift (getp properties datasetName))"

definition share_nfs :: "'e generic_driver \<Rightarrow> string \<Rightarrow> ('e world, jsobj) io" where
  "share_nfs G datasetName =
     bind (lift (gd_path G [''nfs'', ''shareStrategy''])) (\<lambda>strategy.
     andthen (do_when (strategy = Str ''setDatasetProperties'')
       (set_share_properties G ''nfs'' [''share'', ''sharenfs''] datasetName))
    (bind (dataset_row G datasetName ''mountpoint'') (\<lambda>row.
     bind (lift (gd_path G [''nfs'', ''shareHost''])) (\<lambda>server.
     bind (lift (getps row [''mountpoint'', ''value''])) (\<lambda>share.
     ret [(''node_attach_driver'', Str ''nfs''), (''server'', server), (''share'', share)])))))"

definition share_smb :: "'e generic_driver \<Rightarrow> string \<Rightarrow> ('e world, jsobj) io" where
  "share_smb G datasetName =
     bind (lift (gd_path G [''smb'', ''shareStrategy''])) (\<lambda>strategy.
     let sets = (strategy = Str ''setDatasetProperties'') in
     andthen (do_when sets (set_share_properties G ''smb'' [''share'', ''sharesmb''] datasetName))
    (bind (dataset_row G datasetName ''mountpoint'') (\<lambda>row.
     bind (lift (gd_path G [''smb'', ''shareHost''])) (\<lambda>server.
     ret [(''node_attach_driver'', Str ''smb''), (''server'', server),
       (''share'', if sets then Str (generateSmbShareName datasetName) else Undef)]))))"

section \<open>The share methods\<close>

definition unknown_share_driver :: "'e generic_driver \<Rightarrow> exn" where
  "unknown_share_driver G = grpc FAILED_PRECONDITION (''invalid configuration: unknown driver '' @ to_str (obj_get (gd_options G) ''driver''))"

definition generic_createShare :: "'e generic_driver \<Rightarrow> jsobj \<Rightarrow> string \<Rightarrow> ('e world, jsobj) pio" where
  "generic_createShare G req datasetName =
     (let d = obj_get (gd_options G) ''driver'' in
      if d = Str ''zfs-generic-nfs'' then total (share_nfs G datasetName)
      else if d = Str ''zfs-generic-smb'' then total (share_smb G datasetName)
      else if d = Str ''zfs-generic-iscsi'' then share_iscsi G req datasetName
      else if d = Str ''zfs-generic-nvmeof'' then total (share_nvmeof G req datasetName)
      else pthrow (unknown_share_driver G))"

text \<open>The name under which a dataset was shared: stored with it, or worked out without the template.\<close>

definition stored_name :: "'e generic_driver \<Rightarrow> string \<Rightarrow> js \<Rightarrow> string \<Rightarrow> exn + string" where
  "stored_name G section v datasetName =
     ebind (if isPropertyValueSet v then as_string v else decorated G section (extractLeafName datasetName))
       (\<lambda>name. Inr (to_lower name))"

text \<open>The row with the stored name, None when the dataset is gone.\<close>

definition stored_value :: "'e generic_driver \<Rightarrow> string \<Rightarrow> string \<Rightarrow> ('e world, js option) io" where
  "stored_value G datasetName property =
     bind (catch (bind (zget (gd_driver G) datasetName [property] []) (\<lambda>p. ret (Some p)))
        (\<lambda>err. if err_has err ''dataset does not exist'' then ret None else throw err)) (\<lambda>found.
     case found of
       None \<Rightarrow> ret None
     | Some p \<Rightarrow> bind (lift (getps p [datasetName, property, ''value''])) (\<lambda>v. ret (Some v)))"

definition unshare_iscsi :: "'e generic_driver \<Rightarrow> string \<Rightarrow> ('e world, unit) io" where
  "unshare_iscsi G assetName =
     bind (lift (gd_path G [''iscsi'', ''shareStrategy''])) (\<lambda>strategy.
     if strategy = Str ''targetCli'' then
       bind (lift (gd_path G [''iscsi'', ''shareStrategyTargetCli'', ''basename''])) (\<lambda>basename.
         three_times G ran_out_of_input (targetCliCommand G (target_delete_script (to_str basename @ '':'' @ assetName) assetName)))
     else if strategy = Str ''pcs'' then
       andthen (three_times G timed_out (pcsCommand G [''resource'', ''delete'', ''lun-'' @ assetName]))
         (three_times G timed_out (pcsCommand G [''resource'', ''delete'', ''target-'' @ assetName]))
     else throw (unknown_strategy strategy))"

definition unshare_nvmeof :: "'e generic_driver \<Rightarrow> string \<Rightarrow> ('e world, unit) io" where
  "unshare_nvmeof G assetName =
     bind (lift (gd_path G [''nvmeof'', ''shareStrategy''])) (\<lambda>strategy.
     if strategy = Str ''nvmetCli'' then
       bind (lift (gd_path G [''nvmeof'', ''shareStrategyNvmetCli''])) (\<lambda>s.
       bind (lift (getp s ''basename'')) (\<lambda>basename.
       let target = to_str basename @ '':'' @ assetName in
       bind (lift (each_text (field s ''ports'') (port_lines ''delete'' target))) (\<lambda>portCommands.
         three_times G ran_out_of_input (nvmetCliCommand G (nvmet_delete_script target portCommands (nvmet_savefile G))))))
     else if strategy = Str ''spdkCli'' then
       bind (lift (gd_path G [''nvmeof'', ''shareStrategySpdkCli''])) (\<lambda>s.
       bind (lift (getp s ''basename'')) (\<lambda>basename. bind (lift (getps s [''bdev'', ''type''])) (\<lambda>kind.
         three_times G ran_out_of_input (spdkCliCommand G
           (spdk_delete_script (to_str basename @ '':'' @ assetName) (to_str kind) (to_str (field s ''configPath'')))))))
     else ret ())"

definition unshare_stored ::
  "'e generic_driver \<Rightarrow> string \<Rightarrow> string \<Rightarrow> (string \<Rightarrow> ('e world, unit) io) \<Rightarrow> string \<Rightarrow> ('e world, unit) io" where
  "unshare_stored G section property unshare datasetName =
     bind (stored_value G datasetName property) (\<lambda>v.
     case v of None \<Rightarrow> ret () | Some v \<Rightarrow> bind (lift (stored_name G section v datasetName)) unshare)"

definition unshare_properties :: "'e generic_driver \<Rightarrow> string \<Rightarrow> string list \<Rightarrow> string \<Rightarrow> ('e world, unit) io" where
  "unshare_properties G section keys datasetName =
     bind (lift (gd_path G [section, ''shareStrategy''])) (\<lambda>strategy.
     if strategy = Str ''setDatasetProperties'' then inherit_share_properties G section keys datasetName
     else throw (unknown_strategy strategy))"

definition generic_deleteShare :: "'e generic_driver \<Rightarrow> string \<Rightarrow> ('e world, unit) io" where
  "generic_deleteShare G datasetName =
     (let d = obj_get (gd_options G) ''driver'' in
      if d = Str ''zfs-generic-nfs'' then unshare_properties G ''nfs'' [''share'', ''sharenfs''] datasetName
      else if d = Str ''zfs-generic-smb'' then unshare_properties G ''smb'' [''share'', ''sharesmb''] datasetName
      else if d = Str ''zfs-generic-iscsi'' then
        unshare_stored G ''iscsi'' ISCSI_ASSETS_NAME_PROPERTY_NAME (unshare_iscsi G) datasetName
      else if d = Str ''zfs-generic-nvmeof'' then
        unshare_stored G ''nvmeof'' NVMEOF_ASSETS_NAME_PROPERTY_NAME (unshare_nvmeof G) datasetName
      else throw (unknown_share_driver G))"

definition generic_expandVolume :: "'e generic_driver \<Rightarrow> ('e world, unit) io" where
  "generic_expandVolume G =
     (if obj_get (gd_options G) ''driver'' = Str ''zfs-generic-iscsi''
      then bind (lift (gd_path G [''iscsi'', ''shareStrategy''])) (\<lambda>_. ret ()) else ret ())"

section \<open>The instances\<close>

fun getDriverZfsResourceType :: "js \<Rightarrow> exn + string" where
  "getDriverZfsResourceType d =
     (if d \<in> {Str ''zfs-generic-nfs'', Str ''zfs-generic-smb''} then Inr ''filesystem''
      else if d \<in> {Str ''zfs-generic-iscsi'', Str ''zfs-generic-nvmeof''} then Inr ''volume''
      else Inl (js_error (''unknown driver: '' @ to_str d)))"

definition generic_zetabyte_options :: "'e generic_driver \<Rightarrow> jsobj" where
  "generic_zetabyte_options G =
     [(''idempotent'', Bool True), (''sudo'', gd_get G ''zfs.cli.sudoEnabled'' (Bool False)),
      (''paths'', Obj (obj_assign [] (entries (gd_get G ''zfs.cli.paths'' (Obj [])))))]"

text \<open>
  \<open>LocalCliExecClient.exec\<close>: a command that does not end with 0 rejects the promise, where the
  client over ssh resolves it with the code.
\<close>

definition local_exec :: "(string \<Rightarrow> 'e \<Rightarrow> spawn_out \<times> 'e) \<Rightarrow> string \<Rightarrow> 'e \<Rightarrow> (exn + jsobj) \<times> 'e" where
  "local_exec run command e =
     (case run command e of
        (Closed code out err killed, e') \<Rightarrow>
          (if code = Some 0
           then Inr [(''stderr'', Str err), (''stdout'', Str out), (''code'', Num (IntN 0)), (''signal'', Undef)]
           else Inl (js_error (''Command failed: '' @ command @ [CHR 10] @ err)), e')
      | (SpawnFailed m, e') \<Rightarrow> (Inl (js_error m), e'))"

lemmas zfs_generic_run [code] = wait_rounds.simps
  checked_response_def [THEN fun_cong] targetCliCommand_def [THEN fun_cong] targetCliVerifyPaths_def [THEN fun_cong]
  wait_round_def [THEN fun_cong] waitForDevice_def [THEN fun_cong] pcsCommand_def [THEN fun_cong]
  nvmetCliCommand_def [THEN fun_cong] spdkCliCommand_def [THEN fun_cong] three_times_def [THEN fun_cong]
  create_target_def [THEN fun_cong] share_targetcli_def [THEN fun_cong] share_pcs_def [THEN fun_cong]
  share_iscsi_def [THEN fun_cong] share_nvmet_def [THEN fun_cong] share_spdk_def [THEN fun_cong]
  share_nvmeof_def [THEN fun_cong] set_share_properties_def [THEN fun_cong] inherit_share_properties_def [THEN fun_cong]
  dataset_row_def [THEN fun_cong] share_nfs_def [THEN fun_cong] share_smb_def [THEN fun_cong]
  generic_createShare_def [THEN fun_cong] stored_value_def [THEN fun_cong] unshare_iscsi_def [THEN fun_cong]
  unshare_nvmeof_def [THEN fun_cong] unshare_stored_def [THEN fun_cong] unshare_properties_def [THEN fun_cong]
  generic_deleteShare_def [THEN fun_cong] generic_expandVolume_def [THEN fun_cong]

end
