(* ===== verification/Generic_Properties.thy ===== *)
theory Generic_Properties
  imports Zfs_Generic Stage_Safety Histories Objectivefs_Controller
begin

text \<open>
  What the share methods of the generic zfs driver guarantee: that a share returns, that a target
  is announced only after its objects were seen, that deleting a share finds the target again, and
  what reaches the log.
\<close>

section \<open>A share returns\<close>

definition exec_keeps_time :: "('e \<Rightarrow> int) \<Rightarrow> 'e driver \<Rightarrow> bool" where
  "exec_keeps_time c D \<longleftrightarrow> (\<forall>command e. c e \<le> c (snd (dr_exec D command e)))"

lemma no_earlier_exec_client [no_earlier_intro]: "exec_keeps_time c D \<Longrightarrow> no_earlier c (exec_client D command)"
  by (auto simp: no_earlier_def exec_client_def perform_def exec_keeps_time_def case_prod_beta)

lemma wait_round_later:
  assumes "clock_runs c (gd_host G)" and "exec_keeps_time c (gd_driver G)" and "0 < interval"
    and "wait_round G path deadline interval w = (Inr False, w')"
  shows "c (ext w) < c (ext w')" and "c (ext w) < deadline"
proof -
  let ?test = "exec_client (gd_driver G) (buildCommand ''test'' [''-e'', path])"
  from assms(4) obtain response w1 t w2 where t: "?test w = (Inr response, w1)"
    and n: "host_now (gd_host G) w1 = (Inr t, w2)" "t < deadline" and s: "host_sleep (gd_host G) interval w2 = (Inr (), w')"
    by (auto simp: wait_round_def bind_Inr andthen_Inr throw_when_Inr ret_Inr split: if_splits)
  have 1: "c (ext w) \<le> c (ext w1)" by (rule no_earlierD [OF no_earlier_exec_client [OF assms(2)] t])
  have 2: "c (ext w1) \<le> c (ext w2)"
    using no_earlier_host(2) [OF assms(1)] n(1) by (rule no_earlierD)
  have t': "t = c (ext w1)" using n(1) assms(1) by (auto simp: clock_runs_def host_now_def perform_def case_prod_beta)
  have "\<forall>ms e. c e + max 0 ms \<le> c (ho_sleep (gd_host G) ms e)" using assms(1) by (simp add: clock_runs_def)
  then have "c (ext w2) + interval \<le> c (ho_sleep (gd_host G) interval (ext w2))"
    using assms(3) by (metis max.absorb2 order.strict_implies_order)
  with s have "c (ext w2) + interval \<le> c (ext w')" by (auto simp: host_sleep_def perform_def)
  with 1 2 n(2) t' assms(3) show "c (ext w) < c (ext w')" "c (ext w) < deadline" by linarith+
qed

lemma wait_rounds_settle:
  assumes "clock_runs c (gd_host G)" and "exec_keeps_time c (gd_driver G)" and "0 < interval"
  shows "wait_rounds G path deadline interval w \<noteq> None"
proof (induction "nat (deadline - c (ext w))" arbitrary: w rule: less_induct)
  case less
  obtain r w1 where s: "wait_round G path deadline interval w = (r, w1)" by force
  have "wait_rounds G path deadline interval w1 \<noteq> None" if "r = Inr False"
    using wait_round_later [OF assms s [unfolded that]] by (intro less) simp
  with s show ?case by (subst wait_rounds.simps) (auto split: sum.splits)
qed

lemma returns_bind_lift:
  "(\<And>x. r = Inr x \<Longrightarrow> returns (f x)) \<Longrightarrow> returns (pbind (total (lift r)) f)"
  by (cases r) (auto simp: returns_def pbind_def total_def lift_def)

lemma returns_waitForDevice:
  assumes "clock_runs c (gd_host G)" and "exec_keeps_time c (gd_driver G)"
    and "\<And>n. gd_ms G ''iscsi.shareStrategyTargetCli.deviceWaitInterval'' 1000 = Inr n \<Longrightarrow> 0 < n"
  shows "returns (waitForDevice G path)"
proof -
  have "returns (wait_rounds G path t n)"
    if "gd_ms G ''iscsi.shareStrategyTargetCli.deviceWaitInterval'' 1000 = Inr n" for t n
    using wait_rounds_settle [OF assms(1,2) assms(3) [OF that]] by (simp add: returns_def)
  then show ?thesis unfolding waitForDevice_def by (intro returns_bind_lift returns_intro)
qed

lemma returns_createShare:
  assumes "clock_runs c (gd_host G)" and "exec_keeps_time c (gd_driver G)"
    and "\<And>n. gd_ms G ''iscsi.shareStrategyTargetCli.deviceWaitInterval'' 1000 = Inr n \<Longrightarrow> 0 < n"
  shows "returns (generic_createShare G req datasetName)"
  unfolding generic_createShare_def share_iscsi_def share_targetcli_def Let_def
  by (auto intro!: returns_intro returns_waitForDevice [OF assms] split: prod.splits)

section \<open>A target that is announced was seen\<close>

text \<open>The last attempt of a run that succeeds.\<close>

lemma retry_loop_last:
  "retry_loop sleep now n d code opts k w = (Inr x, w') \<Longrightarrow> \<exists>w1. code w1 = (Inr x, w')"
proof (induction sleep now n d code opts k w rule: retry_loop.induct)
  case (1 sleep now n d code opts k w)
  from "1.prems" show ?case
    by (subst (asm) retry_loop.simps)
      (auto split: prod.splits sum.splits if_splits option.splits intro: "1.IH")
qed

lemma three_times_last: "three_times G again m w = (Inr (), w') \<Longrightarrow> \<exists>w1 x. m w1 = (Inr x, w')"
  by (auto simp: three_times_def retry_def bind_Inr ret_Inr dest!: retry_loop_last)

text \<open>
  The storage host in the state \<open>e\<close> answers the look for the objects of a target with 0 and with
  no word that one is missing, and is in the state \<open>e'\<close> then.
\<close>

definition seen_target :: "'e generic_driver \<Rightarrow> string \<Rightarrow> string \<Rightarrow> 'e \<Rightarrow> 'e \<Rightarrow> bool" where
  "seen_target G target assetName e e' \<longleftrightarrow>
     (\<exists>response stdout. dr_exec (gd_driver G) (sh_command (target_line G (verify_script (target_objects target assetName)))) e = (Inr response, e')
        \<and> loose_eq (obj_get response ''code'') (Num (IntN 0))
        \<and> as_string (or_else (obj_get response ''stdout'') (Str [])) = Inr stdout \<and> \<not> contains stdout ''No such path'')"

definition look_event :: "'e generic_driver \<Rightarrow> string \<Rightarrow> string \<Rightarrow> event" where
  "look_event G target assetName = EvShell (sh_command (target_line G (verify_script (target_objects target assetName))))"

lemma exec_client_Inr:
  "exec_client D command w = (Inr response, w') \<Longrightarrow>
     dr_exec D command (ext w) = (Inr response, ext w') \<and> hist w' = hist w @ [EvShell command]"
  by (auto simp: exec_client_def perform_def split: prod.splits)

lemma verify_paths_seen:
  assumes "targetCliVerifyPaths G (target_objects target assetName) w = (Inr (), w')"
  shows "seen_target G target assetName (ext w) (ext w') \<and> hist w' = hist w @ [look_event G target assetName]"
proof -
  let ?look = "sh_command (target_line G (verify_script (target_objects target assetName)))"
  from assms obtain response w1 stdout where x: "exec_client (gd_driver G) ?look w = (Inr response, w1)"
    and c: "checked_response response w1 = (Inr response, w1)"
    and o: "as_string (or_else (obj_get response ''stdout'') (Str [])) = Inr stdout" "\<not> contains stdout ''No such path''" "w' = w1"
    by (auto simp: targetCliVerifyPaths_def targetCliCommand_def checked_response_def run_Inr split: if_splits)
  from c have "loose_eq (obj_get response ''code'') (Num (IntN 0))"
    by (auto simp: checked_response_def throw_def split: if_splits)
  with exec_client_Inr [OF x] o show ?thesis unfolding seen_target_def look_event_def by auto
qed

lemma create_target_seen:
  assumes "create_target G target assetName script w = (Inr (), w')"
  shows "\<exists>e es. seen_target G target assetName e (ext w') \<and> hist w' = es @ [look_event G target assetName]"
proof -
  from three_times_last [OF assms [unfolded create_target_def]] obtain w1 w2 where
    "targetCliVerifyPaths G (target_objects target assetName) w2 = (Inr (), w')" by (auto simp: bind_Inr)
  from verify_paths_seen [OF this] show ?thesis by blast
qed

lemma share_targetcli_seen:
  assumes "share_targetcli G assetName datasetName w = Some (Inr basename, w')"
  shows "\<exists>e es. seen_target G (to_str basename @ '':'' @ assetName) assetName e (ext w')
    \<and> hist w' = es @ [look_event G (to_str basename @ '':'' @ assetName) assetName]"
  using assms
  by (auto simp: share_targetcli_def pbind_Inr total_Some run_Inr Let_def split: prod.splits dest!: create_target_seen)

lemma iscsi_context_iqn: "iscsi_context G iqn = Inr ctx \<Longrightarrow> obj_get ctx ''iqn'' = Str iqn"
  by (auto simp: iscsi_context_def ebind_def obj_get_def split: sum.splits)

lemma share_iscsi_run:
  assumes "share_iscsi G req datasetName w = Some (Inr ctx, w')"
    and "gd_path G [''iscsi'', ''shareStrategy''] = Inr (Str ''targetCli'')"
  obtains assetName basename w1 where "asset_name G ''iscsi'' req datasetName = Inr assetName"
    "share_targetcli G assetName datasetName w = Some (Inr basename, w1)"
    "zset (gd_driver G) datasetName [(ISCSI_ASSETS_NAME_PROPERTY_NAME, Str assetName)] w1 = (Inr (), w')"
    "obj_get ctx ''iqn'' = Str (to_str basename @ '':'' @ assetName)"
  using assms
  by (auto simp: share_iscsi_def pbind_Inr total_Some run_Inr dest!: iscsi_context_iqn)

lemma targetcli_share_seen:
  assumes "generic_createShare G req datasetName w = Some (Inr ctx, w')"
    and "obj_get (gd_options G) ''driver'' = Str ''zfs-generic-iscsi''"
    and "gd_path G [''iscsi'', ''shareStrategy''] = Inr (Str ''targetCli'')"
  shows "\<exists>target assetName e w1 es. asset_name G ''iscsi'' req datasetName = Inr assetName
    \<and> obj_get ctx ''iqn'' = Str target \<and> seen_target G target assetName e (ext w1)
    \<and> zset (gd_driver G) datasetName [(ISCSI_ASSETS_NAME_PROPERTY_NAME, Str assetName)] w1 = (Inr (), w')
    \<and> hist w1 = es @ [look_event G target assetName]"
proof -
  from assms have "share_iscsi G req datasetName w = Some (Inr ctx, w')" by (simp add: generic_createShare_def)
  from this assms(3) show ?thesis
    by (rule share_iscsi_run) (use share_targetcli_seen in blast)
qed

section \<open>A share is deleted under the name it was made with\<close>

lemma lower_ch_twice: "lower_ch (lower_ch c) = lower_ch c"
  unfolding lower_ch_def Let_def by (cases "(of_char c :: nat) \<le> 222") auto

lemma to_lower_twice: "to_lower (to_lower s) = to_lower s"
  unfolding to_lower_def map_map by (rule map_cong [OF refl]) (simp add: lower_ch_twice)

lemma asset_name_lower: "asset_name G section req datasetName = Inr a \<Longrightarrow> to_lower a = a"
  by (auto simp: asset_name_def ebind_def to_lower_twice split: sum.splits if_splits)

lemma stored_name_shared:
  assumes "asset_name G section req datasetName = Inr a" and "a \<noteq> []" and "a \<noteq> ''-''"
  shows "stored_name G section (Str a) datasetName = Inr a"
  using assms asset_name_lower [OF assms(1)] by (simp add: stored_name_def isPropertyValueSet_def as_string_def ebind_def)

section \<open>What the log shows of a secret\<close>

lemma redact_here:
  "takeWhile secret_char p \<noteq> [] \<Longrightarrow>
     redact_assignments (''password='' @ p) = ''password=<redacted>'' @ redact_assignments (dropWhile secret_char p)"
  by (subst redact_assignments.simps) (simp add: starts_with_def)

lemma redact_step:
  "\<not> (starts_with (c # t) ''password='' \<and> takeWhile secret_char (drop 9 (c # t)) \<noteq> []) \<Longrightarrow>
     redact_assignments (c # t) = c # redact_assignments t"
  by (subst redact_assignments.simps) auto


lemma password_once:
  assumes "starts_with (pre @ ''password='' @ s) ''password=''"
  shows "pre = [] \<or> (\<exists>u. pre = ''password='' @ u)"
  using assms unfolding starts_with_iff_prefix
  by (auto simp: prefix_def Cons_eq_append_conv append_eq_Cons_conv)

text \<open>The part of a text after an assignment does not depend on the secret that was assigned.\<close>

lemma redact_same:
  assumes "p \<noteq> []" "list_all secret_char p" "q \<noteq> []" "list_all secret_char q"
    and "post = [] \<or> \<not> secret_char (hd post)"
  shows "redact_assignments (pre @ ''password='' @ p @ post) = redact_assignments (pre @ ''password='' @ q @ post)"
proof (induction pre rule: length_induct)
  case (1 pre)
  let ?on = "\<lambda>u s. u @ ''password='' @ s @ post"
  have over: "takeWhile secret_char (r @ post) = r" "dropWhile secret_char (r @ post) = post" if "list_all secret_char r" for r
    using that assms(5) by (cases post; simp add: list_all_iff takeWhile_append2 dropWhile_append2)+
  have secret: "list_all secret_char ''password=''" by code_simp
  consider (start) "pre = []" | (swallow) u where "pre = ''password='' @ u" "list_all secret_char u"
    | (before) v d z where "pre = ''password='' @ v @ d # z" "v \<noteq> []" "list_all secret_char v" "\<not> secret_char d"
    | (none) c t where "pre = c # t" "\<And>u. pre = ''password='' @ u \<Longrightarrow> u \<noteq> [] \<and> \<not> secret_char (hd u)"
  proof -
    assume cs: "pre = [] \<Longrightarrow> thesis" "\<And>u. pre = ''password='' @ u \<Longrightarrow> list_all secret_char u \<Longrightarrow> thesis"
      "\<And>v d z. pre = ''password='' @ v @ d # z \<Longrightarrow> v \<noteq> [] \<Longrightarrow> list_all secret_char v \<Longrightarrow> \<not> secret_char d \<Longrightarrow> thesis"
      "\<And>c t. pre = c # t \<Longrightarrow> (\<And>u. pre = ''password='' @ u \<Longrightarrow> u \<noteq> [] \<and> \<not> secret_char (hd u)) \<Longrightarrow> thesis"
    have split: thesis if u: "pre = ''password='' @ u" "\<not> list_all secret_char u" "secret_char (hd u)" for u
    proof -
      from u(2) obtain v d z where v: "u = v @ d # z" "list_all secret_char v" "\<not> secret_char d"
        by (auto simp: list_all_iff dest!: split_list_first_prop)
      with u(3) have "v \<noteq> []" by auto
      with v u(1) cs(3) show thesis by blast
    qed
    show thesis
      by (cases pre) (use cs(1,2,4) split list.pred_inject(1) in \<open>blast+\<close>)
  qed
  then show ?case
  proof cases
    case start
    have "redact_assignments (?on [] r) = ''password=<redacted>'' @ redact_assignments post"
      if "r \<noteq> []" "list_all secret_char r" for r using redact_here [of "r @ post"] over [OF that(2)] that(1) by simp
    with assms start show ?thesis by simp
  next
    case (swallow u)
    have "redact_assignments (?on pre r) = ''password=<redacted>'' @ redact_assignments post" if "list_all secret_char r" for r
      using redact_here [of "?on u r"] over [of "u @ ''password='' @ r"] that secret swallow by simp
    with assms show ?thesis by simp
  next
    case (before v d z)
    have "takeWhile secret_char (v @ d # s) = v" "dropWhile secret_char (v @ d # s) = d # s" for s
      using before by (simp_all add: list_all_iff takeWhile_append2 dropWhile_append2)
    then have "redact_assignments (?on pre r) = ''password=<redacted>'' @ redact_assignments (?on (d # z) r)" for r
      using redact_here [of "?on (v @ d # z) r"] before by simp
    moreover have "redact_assignments (?on (d # z) p) = redact_assignments (?on (d # z) q)"
      by (rule 1 [rule_format]) (simp add: before)
    ultimately show ?thesis by simp
  next
    case (none c t)
    have "redact_assignments (?on pre r) = c # redact_assignments (?on t r)" for r
    proof (cases "starts_with (?on pre r) ''password=''")
      case True
      with password_once [OF this] none obtain u where u: "pre = ''password='' @ u" by auto
      with none(2) [OF u] have "takeWhile secret_char (drop 9 (?on pre r)) = []" by (cases u) simp_all
      with none(1) show ?thesis using redact_step [of c "?on t r"] by simp
    next
      case False
      with none(1) show ?thesis using redact_step [of c "?on t r"] by simp
    qed
    moreover have "redact_assignments (?on t p) = redact_assignments (?on t q)"
      by (rule 1 [rule_format]) (simp add: none)
    ultimately show ?thesis by simp
  qed
qed

text \<open>What is logged of a script that sets a secret.\<close>

lemma rtrim_keeps:
  assumes "p \<noteq> []" and "list_all secret_char p"
  shows "rev (dropWhile is_space (rev (pre @ p @ post))) = pre @ p @ rev (dropWhile is_space (rev post))"
proof -
  from assms have "rev p \<noteq> []" "\<not> is_space (hd (rev p))"
    by (auto simp: list_all_iff secret_char_def hd_rev)
  then have "dropWhile is_space (rev p @ rev pre) = rev p @ rev pre" by (cases "rev p") auto
  then show ?thesis by (simp add: dropWhile_append)
qed

lemma ltrim_keeps: "dropWhile is_space (pre @ ''password='' @ s) = dropWhile is_space pre @ ''password='' @ s"
  by (simp add: dropWhile_append is_space_def)

lemma trim_around:
  assumes "p \<noteq> []" and "list_all secret_char p"
  shows "trim (pre @ ''password='' @ p @ post)
    = dropWhile is_space pre @ ''password='' @ p @ rev (dropWhile is_space (rev post))"
  using rtrim_keeps [OF assms, of "dropWhile is_space pre @ ''password=''"] by (simp only: trim_def ltrim_keeps append.assoc)

lemma create_script_around:
  "\<exists>pre post. \<forall>attributes. target_create_script target assetName device attributes block_attributes
     = pre @ attributes @ [CHR 10] @ post"
proof (intro exI allI)
  fix attributes
  show "target_create_script target assetName device attributes block_attributes
    = lines [[], ''# create target'', ''/iscsi create '' @ target, [], ''# setup tpg'', []] @ attributes @ [CHR 10]
      @ lines [[], [], ''# create extent'', ''/backstores/block create '' @ assetName @ '' '' @ device, block_attributes, [],
          ''# add extent to target/tpg'', ''/iscsi/'' @ target @ ''/tpg1/luns create /backstores/block/'' @ assetName, []]"
    by (simp add: target_create_script_def lines_def)
qed

lemma rtrim_hd: "s = [] \<or> \<not> secret_char (hd s) \<Longrightarrow>
    rev (dropWhile is_space (rev s)) = [] \<or> \<not> secret_char (hd (rev (dropWhile is_space (rev s))))"
proof -
  obtain t where "rev s = t @ dropWhile is_space (rev s)" by (metis takeWhile_dropWhile_id)
  then have "s = rev (dropWhile is_space (rev s)) @ rev t" by (metis rev_append rev_rev_ident)
  then have "rev (dropWhile is_space (rev s)) = [] \<or> hd (rev (dropWhile is_space (rev s))) = hd s \<and> s \<noteq> []"
    by (metis hd_append append_is_Nil_conv)
  then show "s = [] \<or> \<not> secret_char (hd s) \<Longrightarrow> ?thesis" by metis
qed

lemma target_log_same:
  assumes "p \<noteq> []" "list_all secret_char p" "q \<noteq> []" "list_all secret_char q"
    and "post = [] \<or> \<not> secret_char (hd post)"
  shows "target_log G (pre @ ''password='' @ p @ post) = target_log G (pre @ ''password='' @ q @ post)"
proof -
  let ?post = "rev (dropWhile is_space (rev post))"
  have h: "?post @ s = [] \<or> \<not> secret_char (hd (?post @ s))" if "s = [] \<or> \<not> secret_char (hd s)" for s
    using rtrim_hd [OF assms(5)] that by (metis append_Nil hd_append)
  have "redact_assignments (x @ ''password='' @ p @ ?post @ CHR 10 # s) = redact_assignments (x @ ''password='' @ q @ ?post @ CHR 10 # s)" for x s
    by (rule redact_same [OF assms(1-4) h]) (simp add: secret_char_def is_space_def)
  from this [of "''sh -c echo '' @ [CHR 34] @ dropWhile is_space pre"] show ?thesis
    unfolding target_log_def target_line_def script_line_def redactTargetCliSecrets_def trim_around [OF assms(1,2)]
      trim_around [OF assms(3,4)]
    by (simp only: append.assoc append.simps)
qed

lemma create_script_log_same:
  assumes "p \<noteq> []" "list_all secret_char p" "q \<noteq> []" "list_all secret_char q"
    and "post = [] \<or> \<not> secret_char (hd post)"
  shows "target_log G (target_create_script target assetName device (pre @ ''password='' @ p @ post) block_attributes)
    = target_log G (target_create_script target assetName device (pre @ ''password='' @ q @ post) block_attributes)"
proof -
  obtain u v where "\<And>attributes. target_create_script target assetName device attributes block_attributes = u @ attributes @ [CHR 10] @ v"
    using create_script_around by blast
  moreover have "target_log G ((u @ pre) @ ''password='' @ p @ (post @ [CHR 10] @ v))
      = target_log G ((u @ pre) @ ''password='' @ q @ (post @ [CHR 10] @ v))"
    by (rule target_log_same [OF assms(1-4)]) (use assms(5) in \<open>cases post; auto simp: secret_char_def is_space_def\<close>)
  ultimately show ?thesis by simp
qed

section \<open>The exec clients\<close>

text \<open>A client over ssh resolves whatever the code is, so a test whose code nobody reads changes nothing.\<close>

lemma nvmet_test_ignored:
  assumes "\<And>command e. \<exists>response. fst (dr_exec (gd_driver G) command e) = Inr response"
    and "gd_get G ''nvmeof.shareStrategyNvmetCli.configIsImportedFilePath'' Undef = Str path" and "path \<noteq> []"
  shows "nvmetCliCommand G data w = bind (exec_client (gd_driver G)
      (sh_command (script_line (tool G ''nvmeof.shareStrategyNvmetCli.sudoEnabled''
         (to_str (gd_get G ''nvmeof.shareStrategyNvmetCli.nvmetcliPath'' (Str ''nvmetcli'')))) (trim data)))) checked_response
    (snd (exec_client (gd_driver G) (buildCommand ''test'' [''-f'', path]) w))"
proof -
  let ?test = "exec_client (gd_driver G) (buildCommand ''test'' [''-f'', path])"
  from assms(1) have "\<exists>response. fst (?test w) = Inr response" by (simp add: exec_client_def perform_def case_prod_beta)
  then obtain response w1 where t: "?test w = (Inr response, w1)" by (metis prod.collapse)
  then have "do_when True (catch (bind ?test (\<lambda>_. ret ())) h) w = (Inr (), snd (?test w))" for h
    by (simp add: do_when_def catch_def bind_def ret_def)
  with assms(2,3) show ?thesis by (simp add: nvmetCliCommand_def Let_def andthen_def bind_def [of "do_when _ _"])
qed

text \<open>A local client rejects when a test fails, so a device that is not there yet ends the wait.\<close>

lemma local_wait_fails:
  assumes "dr_exec (gd_driver G) = local_exec run"
    and "fst (run (buildCommand ''test'' [''-e'', path]) (ext w)) = Closed (Some 1) out err killed"
  shows "\<exists>message w'. wait_rounds G path deadline interval w = Some (Inl (js_error message), w')
    \<and> hist w' = hist w @ [EvShell (buildCommand ''test'' [''-e'', path])]"
proof -
  let ?test = "buildCommand ''test'' [''-e'', path]"
  obtain e' where "run ?test (ext w) = (Closed (Some 1) out err killed, e')" using assms(2) by (metis prod.collapse)
  then have "\<exists>message w'. wait_round G path deadline interval w = (Inl (js_error message), w') \<and> hist w' = hist w @ [EvShell ?test]"
    by (auto simp: wait_round_def exec_client_def bind_def perform_def assms(1) local_exec_def)
  then show ?thesis by (subst wait_rounds.simps) auto
qed

section \<open>Properties\<close>

text \<open>
  When the clock is not set back, commands of the exec client take no negative time and the
  configured interval between two looks for a device is positive, \<open>createShare\<close> returns for every
  request: the loop of \<open>waitForDevice\<close> ends at its deadline, and every other step is bounded.
\<close>

theorem generic_share_returns:
  assumes "clock_runs c (gd_host G)" and "exec_keeps_time c (gd_driver G)"
    and "\<And>n. gd_ms G ''iscsi.shareStrategyTargetCli.deviceWaitInterval'' 1000 = Inr n \<Longrightarrow> 0 < n"
  shows "\<exists>r w'. generic_createShare G req datasetName w = Some (r, w')"
  by (rule returnsD [OF returns_createShare [OF assms]])



text \<open>
  C28: a CHAP secret of the options does not reach the log: what is logged of the script that creates
  a target is the same for any two secrets that are free of spaces, double quotes and backslashes,
  for the password of the initiator and for the mutual one, wherever the assignment is.
\<close>

theorem chap_secret_not_logged:
  assumes "p \<noteq> []" "list_all secret_char p" "q \<noteq> []" "list_all secret_char q"
    and "post = [] \<or> \<not> secret_char (hd post)"
  shows "target_log G (target_create_script target assetName device (pre @ ''password='' @ p @ post) block_attributes)
    = target_log G (target_create_script target assetName device (pre @ ''password='' @ q @ post) block_attributes)"
  using assms by (rule create_script_log_same)

text \<open>
  With the client that runs commands locally, which rejects when a command ends with another
  code than 0, \<open>waitForDevice\<close> never waits: the first look that does not find the device rejects,
  before any deadline and without a pause.
\<close>

theorem local_client_never_waits:
  assumes "dr_exec (gd_driver G) = local_exec run"
    and "fst (run (buildCommand ''test'' [''-e'', path]) (ext w)) = Closed (Some 1) out err killed"
  shows "\<exists>message w'. wait_rounds G path deadline interval w = Some (Inl (js_error message), w')
    \<and> hist w' = hist w @ [EvShell (buildCommand ''test'' [''-e'', path])]"
  using assms by (rule local_wait_fails)

section \<open>Runs\<close>

definition share_replies :: "string list \<Rightarrow> nat \<Rightarrow> spawn_out" where
  "share_replies args n =
     Closed (Some 0) (if ''get'' \<in> set args then get_line ''tank/v/pvc-1'' ISCSI_ASSETS_NAME_PROPERTY_NAME ''k-pvc-1'' ''local'' else []) [] False"

definition share_driver :: "nat driver" where
  "share_driver = (sample_driver ''volume'' share_replies)
     \<lparr>dr_options := [(''driver'', Str ''zfs-generic-iscsi''),
        (''iscsi'', Obj [(''shareStrategy'', Str ''targetCli''), (''namePrefix'', Str ''K-''),
           (''shareStrategyTargetCli'', Obj [(''basename'', Str ''iqn.x'')])]),
        (''nvmeof'', Obj [(''shareStrategyNvmetCli'', Obj [(''configIsImportedFilePath'', Str ''/i'')])])]\<rparr>"

definition share_sample :: "nat generic_driver" where
  "share_sample = \<lparr>gd_driver = share_driver, gd_host = ticking quiet_host\<rparr>"

lemma generic_share_returns_witness:
  "\<exists>r w'. generic_createShare share_sample [(''name'', Str ''pvc-1'')] ''tank/v/pvc-1'' world0 = Some (r, w')"
proof (rule generic_share_returns)
  show "clock_runs int (gd_host share_sample)" by (simp add: share_sample_def ticking_clock)
  show "exec_keeps_time int (gd_driver share_sample)"
    by (simp add: exec_keeps_time_def share_sample_def share_driver_def sample_driver_def)
  have "gd_ms share_sample ''iscsi.shareStrategyTargetCli.deviceWaitInterval'' 1000 = Inr 1000" by code_simp
  then show "gd_ms share_sample ''iscsi.shareStrategyTargetCli.deviceWaitInterval'' 1000 = Inr n \<Longrightarrow> 0 < n" for n by simp
qed

lemma share_iqn:
  "map_option (map_sum (\<lambda>_. ()) (\<lambda>ctx. obj_get ctx ''iqn'') \<circ> fst)
     (generic_createShare share_sample [(''name'', Str ''pvc-1'')] ''tank/v/pvc-1'' world0) = Some (Inr (Str ''iqn.x:k-pvc-1''))"
  by code_simp

lemma share_run:
  obtains ctx w' where "generic_createShare share_sample [(''name'', Str ''pvc-1'')] ''tank/v/pvc-1'' world0 = Some (Inr ctx, w')"
    "obj_get ctx ''iqn'' = Str ''iqn.x:k-pvc-1''"
proof (cases "generic_createShare share_sample [(''name'', Str ''pvc-1'')] ''tank/v/pvc-1'' world0")
  case (Some x)
  with share_iqn show thesis by (cases x; cases "fst x") (auto intro: that)
qed (use share_iqn in simp)

lemma share_facts:
  "obj_get (gd_options share_sample) ''driver'' = Str ''zfs-generic-iscsi''"
  "gd_path share_sample [''iscsi'', ''shareStrategy''] = Inr (Str ''targetCli'')"
  "asset_name share_sample ''iscsi'' [(''name'', Str ''pvc-1'')] ''tank/v/pvc-1'' = Inr ''k-pvc-1''"
  by code_simp+



lemma chap_secret_not_logged_witness:
  "target_log share_sample (target_create_script ''iqn.x:a'' ''a'' ''/dev/zvol/a'' (''set auth password='' @ ''s3cr3t'') [])
     = target_log share_sample (target_create_script ''iqn.x:a'' ''a'' ''/dev/zvol/a'' (''set auth password='' @ ''other'') [])"
  using chap_secret_not_logged [of "''s3cr3t''" "''other''" "[]" share_sample "''iqn.x:a''" "''a''" "''/dev/zvol/a''" "''set auth ''"]
  by (simp add: secret_char_def is_space_def)

lemma local_client_never_waits_witness:
  "\<exists>message. fst (the (wait_rounds (share_sample\<lparr>gd_driver := share_driver\<lparr>dr_exec := local_exec (\<lambda>c n. (Closed (Some 1) [] [] False, n))\<rparr>\<rparr>)
     ''/dev/zvol/a'' 30000 1000 world0)) = Inl (js_error message)"
  using local_client_never_waits [of "share_sample\<lparr>gd_driver := share_driver\<lparr>dr_exec := local_exec (\<lambda>c n. (Closed (Some 1) [] [] False, n))\<rparr>\<rparr>"
    "\<lambda>c n. (Closed (Some 1) [] [] False, n)" "''/dev/zvol/a''" world0 "[]" "[]" False 30000 1000]
  by auto

end
