(* ===== verification/Ssh_Client.thy ===== *)
theory Ssh_Client
  imports Zetabyte_Helpers
begin

text \<open>
  \<open>src/utils/zfs_ssh_exec_client.js\<close>: commands over a shared ssh connection, as a state machine.
  The client of the package ssh2 is the environment: what it calls back and which events it emits, in
  which order, is not determined. Each step is what runs between two turns of the event loop, or less:
  a continuation of a promise is a step of its own here, so there are more interleavings than the
  runtime has. \<open>ZfsSshProcessManager\<close> of \<open>src/utils/zfs.js\<close> is the consumer of the proxied commands.
\<close>

section \<open>The state\<close>

datatype ssh_error = SshError string | TimedOut string

fun ssh_message :: "ssh_error \<Rightarrow> string" where
  "ssh_message (SshError m) = m"
| "ssh_message (TimedOut m) = m"

record ssh_result =
  sr_stderr :: "string option"
  sr_stdout :: "string option"
  sr_code :: "int option"
  sr_signal :: "string option"

text \<open>What a proxy of a child process emits.\<close>

datatype proxy_event = OutData string | ErrData string | ProxyClose "int option" "string option"

datatype ssh_phase = Looping | Queued | Connecting | Connected | Opening | Streaming | Sleeping | Left

record ssh_exec =
  se_command :: string
  se_proxied :: bool
  se_phase :: ssh_phase
  se_conn :: "nat option"
  se_attached :: bool
  se_timer :: bool
  se_stdout :: "string option"
  se_stderr :: "string option"
  se_open :: bool
  se_proxy :: "proxy_event list"
  se_settled :: "(ssh_error + ssh_result) option"

text \<open>
  The clients of ssh2 are numbered in the order they are made. \<open>ss_connects\<close> are the clients on which
  \<open>connect\<close> was called and \<open>ss_ended\<close> those on which \<open>end\<close> was. \<open>ss_mutex\<close> is the command that holds the
  mutex of \<open>_connect\<close> while it waits for a client to be ready.
\<close>

record ssh_client =
  ss_timeoutMs :: nat
  ss_conn :: "nat option"
  ss_state :: "string option"
  ss_err :: "ssh_error option"
  ss_ready_event_count :: nat
  ss_error_event_count :: nat
  ss_next :: nat
  ss_connects :: "nat list"
  ss_ended :: "nat list"
  ss_mutex :: "(nat \<times> nat) option"
  ss_execs :: "nat \<Rightarrow> ssh_exec option"

definition DEFAULT_EXEC_TIMEOUT_MS :: nat where
  "DEFAULT_EXEC_TIMEOUT_MS = 15 * 60 * 1000"

text \<open>The digits of the environment variable; an option that is not an integer is left out.\<close>

fun parse_digits :: "string \<Rightarrow> nat option" where
  "parse_digits s =
     (if s \<noteq> [] \<and> list_all is_digit s then Some (fold (\<lambda>c n. 10 * n + (of_char c - 48)) s 0) else None)"

definition getExecTimeoutMs :: "int option \<Rightarrow> string option \<Rightarrow> nat" where
  "getExecTimeoutMs fromOption fromEnv =
     (case fromOption of
        Some n \<Rightarrow> if 0 \<le> n then nat n
                  else (case Option.bind fromEnv parse_digits of Some m \<Rightarrow> m | None \<Rightarrow> DEFAULT_EXEC_TIMEOUT_MS)
      | None \<Rightarrow> (case Option.bind fromEnv parse_digits of Some m \<Rightarrow> m | None \<Rightarrow> DEFAULT_EXEC_TIMEOUT_MS))"

definition new_ssh_client :: "nat \<Rightarrow> ssh_client" where
  "new_ssh_client timeoutMs =
     \<lparr>ss_timeoutMs = timeoutMs, ss_conn = None, ss_state = None, ss_err = None, ss_ready_event_count = 0,
      ss_error_event_count = 0, ss_next = 0, ss_connects = [], ss_ended = [], ss_mutex = None, ss_execs = (\<lambda>_. None)\<rparr>"

section \<open>One command\<close>

text \<open>
  \<open>settle\<close>: only the first call has an effect. It clears the timer and takes the listeners off the
  connection; a proxied command that is rejected is told to its proxy by \<open>ZfsSshProcessManager.spawn\<close>.
\<close>

definition settle :: "ssh_error + ssh_result \<Rightarrow> ssh_exec \<Rightarrow> ssh_exec" where
  "settle r x =
     (if se_settled x \<noteq> None then x
      else x\<lparr>se_settled := Some r, se_timer := False, se_attached := False,
             se_proxy := se_proxy x @ (case r of
                 Inl err \<Rightarrow> if se_proxied x then [ErrData (ssh_message err), ProxyClose (Some 1) (Some ''SIGQUIT'')] else []
               | Inr res \<Rightarrow> if se_proxied x then [ProxyClose (sr_code res) (sr_signal res)] else [])\<rparr>)"

definition new_exec :: "nat \<Rightarrow> string \<Rightarrow> bool \<Rightarrow> ssh_exec" where
  "new_exec timeoutMs command proxied =
     \<lparr>se_command = command, se_proxied = proxied, se_phase = Looping, se_conn = None, se_attached = False,
      se_timer = (timeoutMs > 0), se_stdout = None, se_stderr = None, se_open = False, se_proxy = [], se_settled = None\<rparr>"

text \<open>The listeners on the connection of a command.\<close>

definition conn_end_error :: "ssh_exec \<Rightarrow> ssh_error" where
  "conn_end_error x = SshError (''ssh connection ended while exec in flight: '' @ se_command x)"

definition conn_close_error :: "ssh_exec \<Rightarrow> ssh_error" where
  "conn_close_error x = SshError (''ssh connection closed while exec in flight: '' @ se_command x)"

definition timeout_error :: "nat \<Rightarrow> ssh_exec \<Rightarrow> ssh_error" where
  "timeout_error ms x = TimedOut (''ssh exec timed out after '' @ show_nat ms @ ''ms: '' @ se_command x)"

text \<open>The timer: the channel is destroyed after the promise is rejected.\<close>

definition exec_timeout :: "nat \<Rightarrow> ssh_exec \<Rightarrow> ssh_exec" where
  "exec_timeout ms x = (settle (Inl (timeout_error ms x)) x)\<lparr>se_timer := False, se_open := False\<rparr>"

text \<open>\<open>onExec\<close>: a channel that opens for a command that has settled is destroyed.\<close>

definition on_exec :: "ssh_error option \<Rightarrow> ssh_exec \<Rightarrow> ssh_exec" where
  "on_exec err x =
     (case err of
        Some e \<Rightarrow> (settle (Inl e) x)\<lparr>se_phase := Left\<rparr>
      | None \<Rightarrow> if se_settled x \<noteq> None then x\<lparr>se_phase := Left\<rparr> else x\<lparr>se_phase := Streaming, se_open := True\<rparr>)"

text \<open>\<open>_handleExecStream\<close>: what the channel emits.\<close>

definition appended :: "string option \<Rightarrow> string \<Rightarrow> string option" where
  "appended b data = Some ((case b of None \<Rightarrow> [] | Some s \<Rightarrow> s) @ data)"

definition on_stdout :: "string \<Rightarrow> ssh_exec \<Rightarrow> ssh_exec" where
  "on_stdout data x =
     (if se_settled x \<noteq> None then x
      else x\<lparr>se_proxy := se_proxy x @ (if se_proxied x then [OutData data] else []), se_stdout := appended (se_stdout x) data\<rparr>)"

definition on_stderr :: "string \<Rightarrow> ssh_exec \<Rightarrow> ssh_exec" where
  "on_stderr data x =
     (if se_settled x \<noteq> None then x
      else x\<lparr>se_proxy := se_proxy x @ (if se_proxied x then [ErrData data] else []), se_stderr := appended (se_stderr x) data\<rparr>)"

definition on_close :: "int option \<Rightarrow> string option \<Rightarrow> ssh_exec \<Rightarrow> ssh_exec" where
  "on_close code signal x =
     (if se_settled x \<noteq> None then x
      else settle (Inr \<lparr>sr_stderr = se_stderr x, sr_stdout = se_stdout x, sr_code = code, sr_signal = signal\<rparr>) x)"

section \<open>The shared connection\<close>

definition upd_exec :: "nat \<Rightarrow> (ssh_exec \<Rightarrow> ssh_exec) \<Rightarrow> ssh_client \<Rightarrow> ssh_client" where
  "upd_exec i f s = s\<lparr>ss_execs := (ss_execs s)(i := map_option f (ss_execs s i))\<rparr>"

definition has_ready :: "ssh_client \<Rightarrow> bool" where
  "has_ready s \<longleftrightarrow> ss_conn s \<noteq> None \<and> ss_state s = Some ''ready''"

text \<open>A command starts: the timer is armed unless the timeout is 0.\<close>

definition start_exec :: "nat \<Rightarrow> string \<Rightarrow> bool \<Rightarrow> ssh_client \<Rightarrow> ssh_client" where
  "start_exec i command proxied s = s\<lparr>ss_execs := (ss_execs s)(i \<mapsto> new_exec (ss_timeoutMs s) command proxied)\<rparr>"

text \<open>\<open>connect\<close>: the shared client when it is ready, the queue of the mutex otherwise.\<close>

definition call_connect :: "nat \<Rightarrow> ssh_client \<Rightarrow> ssh_client" where
  "call_connect i s =
     upd_exec i (\<lambda>x. if se_settled x \<noteq> None then x\<lparr>se_phase := Left\<rparr>
       else if has_ready s then x\<lparr>se_phase := Connected, se_conn := ss_conn s\<rparr> else x\<lparr>se_phase := Queued\<rparr>) s"

text \<open>
  \<open>_connect\<close> under the mutex: the client that another caller made ready, or the old client is ended and
  a new one made, which the holder of the mutex waits for.
\<close>

definition enter_connect :: "nat \<Rightarrow> ssh_client \<Rightarrow> ssh_client" where
  "enter_connect i s =
     (if has_ready s then upd_exec i (\<lambda>x. x\<lparr>se_phase := Connected, se_conn := ss_conn s\<rparr>) s
      else (upd_exec i (\<lambda>x. x\<lparr>se_phase := Connecting\<rparr>) s)
        \<lparr>ss_ended := ss_ended s @ (case ss_conn s of Some k \<Rightarrow> [k] | None \<Rightarrow> []),
         ss_conn := Some (ss_next s), ss_state := Some ''connecting'', ss_err := None, ss_next := ss_next s + 1,
         ss_connects := ss_connects s @ [ss_next s], ss_mutex := Some (i, ss_next s)\<rparr>)"

definition connect_done :: "nat \<Rightarrow> nat \<Rightarrow> ssh_client \<Rightarrow> ssh_client" where
  "connect_done i k s = (upd_exec i (\<lambda>x. x\<lparr>se_phase := Connected, se_conn := Some k\<rparr>) s)\<lparr>ss_mutex := None\<rparr>"

definition connect_failed :: "nat \<Rightarrow> nat \<Rightarrow> ssh_error \<Rightarrow> ssh_client \<Rightarrow> ssh_client" where
  "connect_failed i k err s =
     (upd_exec i (\<lambda>x. (settle (Inl err) x)\<lparr>se_phase := Left\<rparr>)
        (if ss_conn s = Some k then s\<lparr>ss_state := Some ''error'', ss_err := Some err\<rparr> else s))
       \<lparr>ss_mutex := None, ss_ended := ss_ended s @ [k]\<rparr>"

datatype conn_event = CEnd | CClose | CError ssh_error | CReady

text \<open>The listeners of \<open>_createConnection\<close>: an event of a client that was replaced does not change the state.\<close>

definition track :: "nat \<Rightarrow> conn_event \<Rightarrow> ssh_client \<Rightarrow> ssh_client" where
  "track k ev s =
     (let current = (ss_conn s = Some k) in
      case ev of
        CEnd \<Rightarrow> if current then s\<lparr>ss_state := Some ''ended''\<rparr> else s
      | CClose \<Rightarrow> if current then s\<lparr>ss_state := Some ''closed''\<rparr> else s
      | CError err \<Rightarrow>
          (if current then s\<lparr>ss_state := Some ''error'', ss_err := Some err\<rparr> else s)\<lparr>ss_error_event_count := ss_error_event_count s + 1\<rparr>
      | CReady \<Rightarrow>
          (if current then s\<lparr>ss_state := Some ''ready''\<rparr> else s)\<lparr>ss_ready_event_count := ss_ready_event_count s + 1\<rparr>)"

definition on_connecting :: "nat \<Rightarrow> conn_event \<Rightarrow> ssh_client \<Rightarrow> ssh_client" where
  "on_connecting k ev s =
     (case ss_mutex s of
        None \<Rightarrow> s
      | Some (i, k') \<Rightarrow>
          if k' \<noteq> k then s
          else (case ev of
              CReady \<Rightarrow> connect_done i k s
            | CError err \<Rightarrow> connect_failed i k err s
            | CClose \<Rightarrow> connect_failed i k (SshError ''ssh connection closed before ready'') s
            | CEnd \<Rightarrow> s))"

definition on_conn :: "nat \<Rightarrow> conn_event \<Rightarrow> ssh_exec \<Rightarrow> ssh_exec" where
  "on_conn k ev x =
     (if se_attached x \<and> se_conn x = Some k
      then (case ev of CEnd \<Rightarrow> settle (Inl (conn_end_error x)) x | CClose \<Rightarrow> settle (Inl (conn_close_error x)) x | _ \<Rightarrow> x)
      else x)"

definition on_execs :: "nat \<Rightarrow> conn_event \<Rightarrow> ssh_client \<Rightarrow> ssh_client" where
  "on_execs k ev s = s\<lparr>ss_execs := (\<lambda>i. map_option (on_conn k ev) (ss_execs s i))\<rparr>"

definition conn_emits :: "nat \<Rightarrow> conn_event \<Rightarrow> ssh_client \<Rightarrow> ssh_client" where
  "conn_emits k ev s = on_execs k ev (on_connecting k ev (track k ev s))"

text \<open>
  The request on the connection: the listeners come first and go again when \<open>conn.exec\<close> throws. A client
  that turns out not to be connected is marked, and the loop sleeps and tries again.
\<close>

definition request_exec :: "nat \<Rightarrow> nat \<Rightarrow> ssh_error option \<Rightarrow> ssh_client \<Rightarrow> ssh_client" where
  "request_exec i k thrown s =
     (case thrown of
        None \<Rightarrow> upd_exec i (\<lambda>x. if se_settled x \<noteq> None then x\<lparr>se_phase := Left\<rparr> else x\<lparr>se_phase := Opening, se_attached := True\<rparr>) s
      | Some err \<Rightarrow>
          if contains (ssh_message err) ''Not connected''
          then (upd_exec i (\<lambda>x. if se_settled x \<noteq> None then x\<lparr>se_phase := Left\<rparr> else x\<lparr>se_phase := Sleeping\<rparr>) s)
            \<lparr>ss_state := (if ss_conn s = Some k \<and> ss_state s = Some ''ready''
                  \<and> (\<forall>x. ss_execs s i = Some x \<longrightarrow> se_settled x = None) then Some ''closed'' else ss_state s)\<rparr>
          else upd_exec i (\<lambda>x. (settle (Inl err) x)\<lparr>se_phase := Left\<rparr>) s)"

definition wake_exec :: "nat \<Rightarrow> ssh_client \<Rightarrow> ssh_client" where
  "wake_exec i s = upd_exec i (\<lambda>x. x\<lparr>se_phase := Looping\<rparr>) s"

section \<open>The steps\<close>

inductive ssh_step :: "ssh_client \<Rightarrow> ssh_client \<Rightarrow> bool" where
  start: "ss_execs s i = None \<Longrightarrow> ssh_step s (start_exec i command proxied s)"
| loop: "ss_execs s i = Some x \<Longrightarrow> se_phase x = Looping \<Longrightarrow> ssh_step s (call_connect i s)"
| enter: "ss_execs s i = Some x \<Longrightarrow> se_phase x = Queued \<Longrightarrow> ss_mutex s = None \<Longrightarrow> ssh_step s (enter_connect i s)"
| refuse: "ss_mutex s = Some (i, k) \<Longrightarrow> ssh_step s (connect_failed i k err s)"
| event: "k < ss_next s \<Longrightarrow> ssh_step s (conn_emits k ev s)"
| request: "ss_execs s i = Some x \<Longrightarrow> se_phase x = Connected \<Longrightarrow> se_conn x = Some k \<Longrightarrow> ssh_step s (request_exec i k thrown s)"
| opened: "ss_execs s i = Some x \<Longrightarrow> se_phase x = Opening \<Longrightarrow> ssh_step s (upd_exec i (on_exec err) s)"
| out: "ss_execs s i = Some x \<Longrightarrow> se_phase x = Streaming \<Longrightarrow> ssh_step s (upd_exec i (on_stdout data) s)"
| err: "ss_execs s i = Some x \<Longrightarrow> se_phase x = Streaming \<Longrightarrow> ssh_step s (upd_exec i (on_stderr data) s)"
| close: "ss_execs s i = Some x \<Longrightarrow> se_phase x = Streaming \<Longrightarrow> ssh_step s (upd_exec i (on_close code signal) s)"
| timeout: "ss_execs s i = Some x \<Longrightarrow> se_timer x \<Longrightarrow> ssh_step s (upd_exec i (exec_timeout (ss_timeoutMs s)) s)"
| wake: "ss_execs s i = Some x \<Longrightarrow> se_phase x = Sleeping \<Longrightarrow> ssh_step s (wake_exec i s)"

inductive ssh_reachable :: "nat \<Rightarrow> ssh_client \<Rightarrow> bool" for timeoutMs where
  init: "ssh_reachable timeoutMs (new_ssh_client timeoutMs)"
| step: "ssh_reachable timeoutMs s \<Longrightarrow> ssh_step s s' \<Longrightarrow> ssh_reachable timeoutMs s'"

section \<open>A connection of its own\<close>

text \<open>
  \<open>_nexec\<close>: the same with a client that only this command uses. It is ended when the promise settles, so
  whether it was ended is whether the command has settled.
\<close>

datatype nexec_event = NConnectThrows ssh_error | NError ssh_error | NClose | NReady "ssh_error option" | NExec "ssh_error option"
  | NOut string | NErr string | NStreamClose "int option" "string option" | NTimeout

definition nexec_emits :: "nat \<Rightarrow> nexec_event \<Rightarrow> ssh_exec \<Rightarrow> ssh_exec" where
  "nexec_emits ms ev x =
     (case ev of
        NConnectThrows err \<Rightarrow> settle (Inl err) x
      | NError err \<Rightarrow> settle (Inl err) x
      | NClose \<Rightarrow> settle (Inl (SshError (''ssh connection closed before exec completed: '' @ se_command x))) x
      | NReady (Some err) \<Rightarrow> settle (Inl err) x
      | NReady None \<Rightarrow> x\<lparr>se_phase := Opening\<rparr>
      | NExec (Some err) \<Rightarrow> settle (Inl err) x
      | NExec None \<Rightarrow> if se_settled x \<noteq> None then x else x\<lparr>se_phase := Streaming\<rparr>
      | NOut data \<Rightarrow> on_stdout data x
      | NErr data \<Rightarrow> on_stderr data x
      | NStreamClose code signal \<Rightarrow> on_close code signal x
      | NTimeout \<Rightarrow> if se_timer x then settle (Inl (timeout_error ms x)) x else x)"

definition nexec :: "nat \<Rightarrow> string \<Rightarrow> bool \<Rightarrow> nexec_event list \<Rightarrow> ssh_exec" where
  "nexec ms command proxied events = fold (nexec_emits ms) events (new_exec ms command proxied)"

text \<open>Connections are shared unless the environment says otherwise.\<close>

definition reuses_connection :: "string option \<Rightarrow> bool" where
  "reuses_connection env \<longleftrightarrow> env \<noteq> Some ''0''"

end
