(* ===== verification/Ssh_Properties.thy ===== *)
theory Ssh_Properties
  imports Ssh_Client
begin

text \<open>
  What the ssh client guarantees in every reachable state: a command settles once and for good, one that
  is in flight hears of the end of its connection, a timeout is always armed for one that has not
  settled, and no client of ssh2 is connected twice.
\<close>

section \<open>The invariant\<close>

definition closes :: "proxy_event list \<Rightarrow> nat" where
  "closes es = length (filter (\<lambda>e. case e of ProxyClose _ _ \<Rightarrow> True | _ \<Rightarrow> False) es)"

lemma closes_simps [simp]: "closes [] = 0" "closes (OutData d # es) = closes es" "closes (ErrData d # es) = closes es"
  "closes (ProxyClose c g # es) = Suc (closes es)" "closes (es @ fs) = closes es + closes fs"
  by (simp_all add: closes_def)

definition in_flight :: "ssh_exec \<Rightarrow> bool" where
  "in_flight x \<longleftrightarrow> se_settled x = None \<and> se_phase x \<in> {Opening, Streaming}"

definition exec_ok :: "nat \<Rightarrow> (nat \<times> nat) option \<Rightarrow> nat \<Rightarrow> nat \<Rightarrow> ssh_exec \<Rightarrow> bool" where
  "exec_ok T m n i x \<longleftrightarrow>
     (se_settled x \<noteq> None \<longrightarrow> \<not> se_attached x \<and> \<not> se_timer x)
     \<and> (se_attached x \<longleftrightarrow> in_flight x)
     \<and> (0 < T \<and> se_settled x = None \<longrightarrow> se_timer x)
     \<and> (se_phase x = Left \<longrightarrow> se_settled x \<noteq> None)
     \<and> (se_phase x = Connecting \<longrightarrow> (\<exists>k. m = Some (i, k)))
     \<and> (\<forall>k. se_conn x = Some k \<longrightarrow> k < n)
     \<and> (se_phase x \<in> {Connected, Opening, Streaming} \<longrightarrow> se_conn x \<noteq> None)
     \<and> closes (se_proxy x) = (if se_proxied x \<and> se_settled x \<noteq> None then 1 else 0)"

definition client_ok :: "nat \<Rightarrow> ssh_client \<Rightarrow> bool" where
  "client_ok T s \<longleftrightarrow>
     ss_timeoutMs s = T \<and> ss_connects s = [0..<ss_next s]
     \<and> ss_conn s = (if ss_next s = 0 then None else Some (ss_next s - 1))
     \<and> {..<ss_next s - 1} \<subseteq> set (ss_ended s)
     \<and> (\<forall>i k. ss_mutex s = Some (i, k) \<longrightarrow> ss_conn s = Some k \<and> (\<exists>x. ss_execs s i = Some x \<and> se_phase x = Connecting))
     \<and> (\<forall>i x. ss_execs s i = Some x \<longrightarrow> exec_ok T (ss_mutex s) (ss_next s) i x)"

lemma client_ok_exec: "client_ok T s \<Longrightarrow> ss_execs s i = Some x \<Longrightarrow> exec_ok T (ss_mutex s) (ss_next s) i x"
  by (simp add: client_ok_def)

lemma new_exec_ok: "exec_ok T m n i (new_exec T command proxied)"
  by (simp add: exec_ok_def new_exec_def in_flight_def)

text \<open>What settling does, and that it is final.\<close>

lemma settle_simps [simp]:
  "se_phase (settle r x) = se_phase x" "se_conn (settle r x) = se_conn x" "se_proxied (settle r x) = se_proxied x"
  "se_settled (settle r x) = (if se_settled x = None then Some r else se_settled x)" "settle r x = x \<longleftrightarrow> se_settled x \<noteq> None"
  by (auto simp: settle_def dest: arg_cong [of _ _ se_settled])

lemma settle_ok: "exec_ok T m n i x \<Longrightarrow> exec_ok T m n i (settle r x)"
  by (auto simp: exec_ok_def settle_def in_flight_def split: sum.splits)

lemma settle_left_ok: "exec_ok T m n i x \<Longrightarrow> exec_ok T m' n i ((settle r x)\<lparr>se_phase := Left\<rparr>)"
  by (auto simp: exec_ok_def settle_def in_flight_def split: sum.splits)

lemma exec_ok_other: "exec_ok T m n i x \<Longrightarrow> se_phase x \<noteq> Connecting \<Longrightarrow> exec_ok T m' n i x"
  unfolding exec_ok_def by blast

lemma exec_ok_more: "exec_ok T m n i x \<Longrightarrow> n \<le> n' \<Longrightarrow> exec_ok T m n' i x"
  by (fastforce simp: exec_ok_def)

lemma exec_ok_steps:
  assumes "exec_ok T m n i x"
  shows "se_phase x \<in> {Opening, Streaming} \<Longrightarrow> exec_ok T m n i (on_exec e x)"
    and "exec_ok T m n i (on_stdout data x)" and "exec_ok T m n i (on_stderr data x)" and "exec_ok T m n i (on_close code signal x)"
    and "exec_ok T m n i (exec_timeout ms x)" and "exec_ok T m n i (on_conn k ev x)"
    and "se_phase x \<noteq> Connecting \<Longrightarrow> \<not> in_flight x \<Longrightarrow> se_phase x \<noteq> Left \<Longrightarrow> p \<in> {Looping, Queued, Sleeping} \<Longrightarrow> exec_ok T m n i (x\<lparr>se_phase := p\<rparr>)"
    and "\<not> in_flight x \<Longrightarrow> k < n \<Longrightarrow> exec_ok T m' n i (x\<lparr>se_phase := Connected, se_conn := Some k\<rparr>)"
    and "se_settled x \<noteq> None \<Longrightarrow> exec_ok T m n i (x\<lparr>se_phase := Left\<rparr>)"
    and "se_settled x = None \<Longrightarrow> se_conn x \<noteq> None \<Longrightarrow> exec_ok T m n i (x\<lparr>se_phase := Opening, se_attached := True\<rparr>)"
proof -
  note a = assms
  show "se_phase x \<in> {Opening, Streaming} \<Longrightarrow> exec_ok T m n i (on_exec e x)"
    using a settle_left_ok [OF a] by (auto simp: on_exec_def exec_ok_def in_flight_def split: option.splits)
  show "exec_ok T m n i (on_stdout data x)" "exec_ok T m n i (on_stderr data x)"
    using a by (auto simp: on_stdout_def on_stderr_def exec_ok_def in_flight_def)
  show "exec_ok T m n i (on_close code signal x)" "exec_ok T m n i (on_conn k ev x)"
    using a settle_ok [OF a] by (auto simp: on_close_def on_conn_def split: conn_event.splits)
  show "exec_ok T m n i (exec_timeout ms x)"
    using settle_ok [OF a] by (simp add: exec_timeout_def exec_ok_def in_flight_def)
qed (use assms in \<open>auto simp: exec_ok_def in_flight_def\<close>)

section \<open>The invariant holds in every reachable state\<close>

lemma upd_exec_ok:
  assumes "client_ok T s" and "\<And>x. ss_execs s i = Some x \<Longrightarrow> exec_ok T (ss_mutex s) (ss_next s) i (f x)"
    and "\<And>x k. ss_execs s i = Some x \<Longrightarrow> ss_mutex s = Some (i, k) \<Longrightarrow> se_phase (f x) = Connecting"
  shows "client_ok T (upd_exec i f s)"
  using assms by (auto simp: client_ok_def upd_exec_def)

text \<open>A step of a command that is not connecting.\<close>

lemma upd_other_ok:
  assumes "client_ok T s" and "ss_execs s i = Some x" and "se_phase x \<noteq> Connecting"
    and "exec_ok T (ss_mutex s) (ss_next s) i (f x)"
  shows "client_ok T (upd_exec i f s)"
proof (rule upd_exec_ok [OF assms(1)])
  show "ss_execs s i = Some y \<Longrightarrow> exec_ok T (ss_mutex s) (ss_next s) i (f y)" for y using assms(2,4) by simp
  show "ss_execs s i = Some y \<Longrightarrow> ss_mutex s = Some (i, k) \<Longrightarrow> se_phase (f y) = Connecting" for y k
    using assms(1-3) by (auto simp: client_ok_def)
qed

lemma start_ok: "client_ok T s \<Longrightarrow> ss_execs s i = None \<Longrightarrow> client_ok T (start_exec i command proxied s)"
  by (auto simp: client_ok_def start_exec_def new_exec_ok)

text \<open>What the invariant reads.\<close>

lemma client_ok_frame:
  assumes "client_ok T s" and "ss_timeoutMs s' = ss_timeoutMs s" "ss_connects s' = ss_connects s" "ss_next s' = ss_next s"
    "ss_conn s' = ss_conn s" "ss_mutex s' = ss_mutex s" "ss_execs s' = ss_execs s" "set (ss_ended s) \<subseteq> set (ss_ended s')"
  shows "client_ok T s'"
  using assms(1) order.trans [OF _ assms(8)] unfolding client_ok_def assms(2-7) by blast

lemma track_frame [simp]:
  "ss_timeoutMs (track k ev s) = ss_timeoutMs s" "ss_connects (track k ev s) = ss_connects s" "ss_next (track k ev s) = ss_next s"
  "ss_conn (track k ev s) = ss_conn s" "ss_mutex (track k ev s) = ss_mutex s" "ss_execs (track k ev s) = ss_execs s"
  "ss_ended (track k ev s) = ss_ended s"
  by (simp_all add: track_def Let_def split: conn_event.splits)

lemma track_ok: "client_ok T s \<Longrightarrow> client_ok T (track k ev s)"
  by (erule client_ok_frame) simp_all

text \<open>The holder of the mutex gives it back: its command is connecting no longer.\<close>

lemma release_ok:
  assumes "client_ok T s" and "ss_mutex s = Some (i, k)" and "\<And>x. ss_execs s i = Some x \<Longrightarrow> exec_ok T None (ss_next s) i (f x)"
  shows "client_ok T ((upd_exec i f s)\<lparr>ss_mutex := None\<rparr>)"
proof -
  have "exec_ok T None (ss_next s) j y" if "ss_execs s j = Some y" "j \<noteq> i" for j y
  proof -
    from assms(1) that(1) have "exec_ok T (ss_mutex s) (ss_next s) j y" by (rule client_ok_exec)
    moreover from this assms(2) that(2) have "se_phase y \<noteq> Connecting" by (auto simp: exec_ok_def)
    ultimately show ?thesis by (rule exec_ok_other)
  qed
  with assms show ?thesis by (auto simp: client_ok_def upd_exec_def)
qed

lemma mutex_exec:
  assumes "client_ok T s" and "ss_mutex s = Some (i, k)"
  obtains x where "ss_execs s i = Some x" "se_phase x = Connecting" "ss_conn s = Some k" "k < ss_next s"
  using assms by (auto simp: client_ok_def split: if_splits)

lemma connect_done_ok:
  assumes "client_ok T s" and "ss_mutex s = Some (i, k)"
  shows "client_ok T (connect_done i k s)"
proof -
  obtain x where x: "ss_execs s i = Some x" "se_phase x = Connecting" "k < ss_next s" using assms by (rule mutex_exec)
  then have "\<not> in_flight x" by (simp add: in_flight_def)
  from exec_ok_steps(8) [OF client_ok_exec [OF assms(1) x(1)] this x(3)] x(1) show ?thesis
    unfolding connect_done_def by (intro release_ok [OF assms]) simp
qed

lemma connect_failed_ok:
  assumes "client_ok T s" and "ss_mutex s = Some (i, k)"
  shows "client_ok T (connect_failed i k err s)"
proof -
  let ?s = "if ss_conn s = Some k then s\<lparr>ss_state := Some ''error'', ss_err := Some err\<rparr> else s"
  let ?f = "\<lambda>x. (settle (Inl err) x)\<lparr>se_phase := Left\<rparr>"
  have s: "client_ok T ?s" "ss_mutex ?s = Some (i, k)" "ss_execs ?s = ss_execs s" "ss_next ?s = ss_next s"
    using assms by (auto intro: client_ok_frame)
  have "exec_ok T None (ss_next ?s) i (?f x)" if "ss_execs ?s i = Some x" for x
    using client_ok_exec [OF s(1) that] by (rule settle_left_ok)
  with s(1,2) have "client_ok T ((upd_exec i ?f ?s)\<lparr>ss_mutex := None\<rparr>)" by (rule release_ok)
  then show ?thesis by (rule client_ok_frame) (auto simp: connect_failed_def upd_exec_def)
qed

lemma on_connecting_ok: "client_ok T s \<Longrightarrow> client_ok T (on_connecting k ev s)"
  by (auto simp: on_connecting_def intro: connect_done_ok connect_failed_ok split: option.splits conn_event.splits)

lemma on_conn_phase [simp]: "se_phase (on_conn k ev x) = se_phase x"
  by (simp add: on_conn_def split: conn_event.splits)

lemma on_execs_ok: "client_ok T s \<Longrightarrow> client_ok T (on_execs k ev s)"
  by (auto simp: client_ok_def on_execs_def intro: exec_ok_steps(6))

lemma enter_ok:
  assumes "client_ok T s" and "ss_execs s i = Some x" and "se_phase x = Queued" and "ss_mutex s = None"
  shows "client_ok T (enter_connect i s)"
proof (cases "has_ready s")
  case True
  then obtain k where k: "ss_conn s = Some k" by (auto simp: has_ready_def)
  with assms(1) have "k < ss_next s" by (auto simp: client_ok_def split: if_splits)
  from exec_ok_steps(8) [OF client_ok_exec [OF assms(1,2)] _ this] assms(3) have
    "exec_ok T (ss_mutex s) (ss_next s) i (x\<lparr>se_phase := Connected, se_conn := ss_conn s\<rparr>)" by (simp add: in_flight_def k)
  with assms True show ?thesis by (simp add: enter_connect_def) (intro upd_exec_ok; simp)
next
  case False
  have "exec_ok T (Some (i, ss_next s)) (ss_next s + 1) j y" if "ss_execs s j = Some y" "j \<noteq> i" for j y
  proof -
    from client_ok_exec [OF assms(1) that(1)] have e: "exec_ok T None (ss_next s) j y" by (simp add: assms(4))
    then have "se_phase y \<noteq> Connecting" by (simp add: exec_ok_def)
    with e have "exec_ok T (Some (i, ss_next s)) (ss_next s) j y" by (rule exec_ok_other)
    then show ?thesis by (rule exec_ok_more) simp
  qed
  moreover have "exec_ok T (Some (i, ss_next s)) (ss_next s + 1) i (x\<lparr>se_phase := Connecting\<rparr>)"
    using client_ok_exec [OF assms(1,2)] assms(3) by (fastforce simp: exec_ok_def in_flight_def)
  moreover have "{..<ss_next s} \<subseteq> set (ss_ended s) \<union> (case ss_conn s of Some k \<Rightarrow> {k} | None \<Rightarrow> {})"
    using assms(1) by (cases "ss_next s") (auto simp: client_ok_def lessThan_Suc)
  ultimately show ?thesis using assms False
    by (auto simp: client_ok_def enter_connect_def upd_exec_def split: option.splits)
qed

lemma request_ok:
  assumes "client_ok T s" and "ss_execs s i = Some x" and "se_phase x = Connected" and "se_conn x = Some k"
  shows "client_ok T (request_exec i k thrown s)"
proof -
  have e: "exec_ok T (ss_mutex s) (ss_next s) i x" using assms(1,2) by (rule client_ok_exec)
  have m: "ss_mutex s \<noteq> Some (i, k')" for k' using assms(1-3) by (auto simp: client_ok_def)
  have sleep: "client_ok T (upd_exec i (\<lambda>x. if se_settled x \<noteq> None then x\<lparr>se_phase := Left\<rparr> else x\<lparr>se_phase := Sleeping\<rparr>) s)"
    using exec_ok_steps(9) [OF e] exec_ok_steps(7) [OF e, of Sleeping] assms m by (intro upd_exec_ok) (auto simp: in_flight_def)
  have "client_ok T (upd_exec i (\<lambda>x. if se_settled x \<noteq> None then x\<lparr>se_phase := Left\<rparr> else x\<lparr>se_phase := Opening, se_attached := True\<rparr>) s)"
    using exec_ok_steps(9,10) [OF e] assms m by (intro upd_exec_ok) auto
  moreover have "client_ok T (upd_exec i (\<lambda>x. (settle (Inl err) x)\<lparr>se_phase := Left\<rparr>) s)" for err
    using settle_left_ok [OF e] assms m by (intro upd_exec_ok) auto
  moreover have "client_ok T ((upd_exec i (\<lambda>x. if se_settled x \<noteq> None then x\<lparr>se_phase := Left\<rparr> else x\<lparr>se_phase := Sleeping\<rparr>) s)
      \<lparr>ss_state := st\<rparr>)" for st
    using sleep by (rule client_ok_frame) simp_all
  ultimately show ?thesis by (simp add: request_exec_def split: option.splits)
qed

lemma step_ok:
  assumes "ssh_step s s'" and "client_ok T s"
  shows "client_ok T s'"
  using assms(1)
proof cases
  case (start i command proxied)
  with assms(2) show ?thesis by (simp add: start_ok)
next
  case (loop i x)
  have e: "exec_ok T (ss_mutex s) (ss_next s) i x" using assms(2) loop(2) by (rule client_ok_exec)
  have m: "\<forall>k'. ss_mutex s \<noteq> Some (i, k')" using assms(2) loop by (auto simp: client_ok_def)
  have "k < ss_next s" if "ss_conn s = Some k" for k using assms(2) that by (auto simp: client_ok_def split: if_splits)
  with exec_ok_steps(9) [OF e] exec_ok_steps(7) [OF e, of Queued] exec_ok_steps(8) [OF e] loop m show ?thesis
    unfolding loop(1) call_connect_def by (intro upd_exec_ok [OF assms(2)]) (auto simp: in_flight_def has_ready_def)
next
  case (enter i x)
  with assms(2) show ?thesis by (simp add: enter_ok)
next
  case (refuse i k err)
  with assms(2) show ?thesis by (simp add: connect_failed_ok)
next
  case (event k ev)
  with assms(2) show ?thesis by (simp add: conn_emits_def on_execs_ok on_connecting_ok track_ok)
next
  case (request i x k thrown)
  with assms(2) show ?thesis by (simp add: request_ok)
next
  case (timeout i x)
  note e = client_ok_exec [OF assms(2) timeout(2)]
  show ?thesis unfolding timeout(1)
    by (rule upd_exec_ok [OF assms(2)])
      (use assms(2) timeout(2) exec_ok_steps(5) [OF e] in \<open>auto simp: exec_timeout_def client_ok_def\<close>)
next
  case (wake i x)
  note e = client_ok_exec [OF assms(2) wake(2)]
  show ?thesis unfolding wake(1) wake_exec_def
    by (rule upd_exec_ok [OF assms(2)])
      (use assms(2) wake exec_ok_steps(7) [OF e] in \<open>auto simp: in_flight_def client_ok_def\<close>)
next
  case (opened i x err)
  from exec_ok_steps(1) [OF client_ok_exec [OF assms(2) opened(2)]] opened(3) show ?thesis
    unfolding opened(1) by (intro upd_other_ok [OF assms(2) opened(2)]) simp_all
next
  case (out i x data)
  from exec_ok_steps(2) [OF client_ok_exec [OF assms(2) out(2)]] out(3) show ?thesis
    unfolding out(1) by (intro upd_other_ok [OF assms(2) out(2)]) simp_all
next
  case (err i x data)
  from exec_ok_steps(3) [OF client_ok_exec [OF assms(2) err(2)]] err(3) show ?thesis
    unfolding err(1) by (intro upd_other_ok [OF assms(2) err(2)]) simp_all
next
  case (close i x code signal)
  from exec_ok_steps(4) [OF client_ok_exec [OF assms(2) close(2)]] close(3) show ?thesis
    unfolding close(1) by (intro upd_other_ok [OF assms(2) close(2)]) simp_all
qed

lemma reachable_ok: "ssh_reachable T s \<Longrightarrow> client_ok T s"
proof (induction rule: ssh_reachable.induct)
  case init
  show ?case by (simp add: client_ok_def new_ssh_client_def)
next
  case (step s s')
  then show ?case using step_ok by blast
qed

section \<open>What a step keeps\<close>

definition kept :: "ssh_exec \<Rightarrow> ssh_exec \<Rightarrow> bool" where
  "kept x y \<longleftrightarrow> se_command y = se_command x \<and> se_proxied y = se_proxied x
     \<and> (se_settled x \<noteq> None \<longrightarrow> se_settled y = se_settled x \<and> se_proxy y = se_proxy x)"

lemma settle_kept [simp]: "kept x (settle r x)" "kept x ((settle r x)\<lparr>se_phase := p\<rparr>)"
  by (simp_all add: kept_def settle_def)

lemma kept_steps [simp]:
  "kept x x" "kept x (x\<lparr>se_phase := p\<rparr>)" "kept x (x\<lparr>se_phase := p, se_conn := c\<rparr>)" "kept x (x\<lparr>se_phase := p, se_attached := b\<rparr>)"
  "kept x (on_exec e x)" "kept x (on_stdout data x)" "kept x (on_stderr data x)" "kept x (on_close code signal x)"
  "kept x (exec_timeout ms x)" "kept x (on_conn k ev x)"
  by (simp_all add: kept_def on_exec_def on_stdout_def on_stderr_def on_close_def exec_timeout_def on_conn_def settle_def
      split: option.splits conn_event.splits)

lemma kept_trans: "kept x y \<Longrightarrow> kept y z \<Longrightarrow> kept x z"
  by (auto simp: kept_def)

definition all_kept :: "ssh_client \<Rightarrow> ssh_client \<Rightarrow> bool" where
  "all_kept s s' \<longleftrightarrow> (\<forall>i x. ss_execs s i = Some x \<longrightarrow> (\<exists>y. ss_execs s' i = Some y \<and> kept x y))"

lemma all_kept_upd: "(\<And>x. kept x (f x)) \<Longrightarrow> all_kept s (upd_exec i f s)"
  by (simp add: all_kept_def upd_exec_def)

lemma all_kept_trans: "all_kept s t \<Longrightarrow> all_kept t u \<Longrightarrow> all_kept s u"
  unfolding all_kept_def by (blast intro: kept_trans)

lemma all_kept_cong: "all_kept s t \<Longrightarrow> ss_execs u = ss_execs t \<Longrightarrow> all_kept s u"
  by (simp add: all_kept_def)

lemma all_kept_refl: "ss_execs u = ss_execs s \<Longrightarrow> all_kept s u"
  by (simp add: all_kept_def)

lemma all_kept_failed: "all_kept s (connect_failed i k err s)"
proof -
  let ?s = "if ss_conn s = Some k then s\<lparr>ss_state := Some ''error'', ss_err := Some err\<rparr> else s"
  have "all_kept s ?s" by (rule all_kept_refl) simp
  moreover have "all_kept ?s (upd_exec i (\<lambda>x. (settle (Inl err) x)\<lparr>se_phase := Left\<rparr>) ?s)" by (rule all_kept_upd) simp
  ultimately have "all_kept s (upd_exec i (\<lambda>x. (settle (Inl err) x)\<lparr>se_phase := Left\<rparr>) ?s)" by (rule all_kept_trans)
  then show ?thesis by (rule all_kept_cong) (simp add: connect_failed_def)
qed

lemma all_kept_event: "all_kept s (conn_emits k ev s)"
proof -
  have 1: "all_kept s (track k ev s)" by (rule all_kept_refl) simp
  have "all_kept s (connect_done i k s)" for i s
    by (rule all_kept_cong [OF all_kept_upd]) (simp_all add: connect_done_def)
  then have 2: "all_kept s (on_connecting k ev s)" for s
    by (auto simp: on_connecting_def all_kept_failed all_kept_refl split: option.splits conn_event.splits)
  have 3: "all_kept s (on_execs k ev s)" for s by (simp add: all_kept_def on_execs_def)
  show ?thesis unfolding conn_emits_def by (rule all_kept_trans [OF all_kept_trans [OF 1 2] 3])
qed

lemma step_kept: "ssh_step s s' \<Longrightarrow> all_kept s s'"
proof (induction rule: ssh_step.induct)
  case (start s i command proxied)
  then show ?case by (auto simp: all_kept_def start_exec_def)
next
  case (enter s i x)
  have "all_kept s (upd_exec i (\<lambda>x. x\<lparr>se_phase := Connecting\<rparr>) s)" by (rule all_kept_upd) simp
  then show ?case by (auto simp: enter_connect_def intro: all_kept_upd all_kept_cong)
next
  case (request s i x k thrown)
  have "all_kept s (upd_exec i (\<lambda>x. if se_settled x \<noteq> None then x\<lparr>se_phase := Left\<rparr> else x\<lparr>se_phase := Sleeping\<rparr>) s)"
    by (rule all_kept_upd) simp
  then show ?case by (auto simp: request_exec_def intro!: all_kept_upd intro: all_kept_cong split: option.splits)
qed (auto simp: call_connect_def wake_exec_def all_kept_failed all_kept_event intro!: all_kept_upd)

lemma steps_kept: "ssh_step\<^sup>*\<^sup>* s s' \<Longrightarrow> all_kept s s'"
proof (induction rule: rtranclp_induct)
  case base
  show ?case by (rule all_kept_refl) simp
next
  case (step t u)
  from step.IH step_kept [OF step.hyps(2)] show ?case by (rule all_kept_trans)
qed

text \<open>A command of \<open>_nexec\<close>: what follows the event that settles it changes nothing.\<close>

lemma nexec_event_kept: "kept x (nexec_emits ms ev x)"
  by (auto simp: nexec_emits_def split: nexec_event.splits option.splits)

lemma nexec_settles_once:
  "se_settled (nexec ms command proxied es) = Some r \<Longrightarrow> se_settled (nexec ms command proxied (es @ fs)) = Some r"
proof (induction fs rule: rev_induct)
  case (snoc f fs)
  from nexec_event_kept [of "nexec ms command proxied (es @ fs)" ms f] snoc show ?case
    by (simp add: kept_def nexec_def)
qed simp

lemma in_flight_conn_event:
  assumes "client_ok T s" and "ss_execs s i = Some x" and "se_phase x \<in> {Opening, Streaming}" and "se_conn x = Some k"
    and "se_settled x = None" and "ev \<in> {CEnd, CClose}"
  shows "\<exists>y. ss_execs (conn_emits k ev s) i = Some y \<and> se_settled y \<noteq> None"
proof -
  have m: "ss_mutex s \<noteq> Some (i, k')" for k' using assms(1-3) by (auto simp: client_ok_def)
  then have "ss_execs (on_connecting k ev (track k ev s)) i = Some x"
    using assms(2) by (auto simp: on_connecting_def connect_done_def connect_failed_def upd_exec_def split: option.splits conn_event.splits)
  moreover have "se_attached x" using client_ok_exec [OF assms(1,2)] assms(3,5) by (simp add: exec_ok_def in_flight_def)
  ultimately show ?thesis using assms(4-6) by (auto simp: conn_emits_def on_execs_def on_conn_def)
qed

section \<open>Properties\<close>

text \<open>
  C29: a command over the shared ssh connection settles once: in every reachable state, whatever its
  connection, channel, timer and the other commands do afterwards, its result stays and its proxy hears
  nothing more; and a proxy of a command that has settled has heard exactly one close.
\<close>

theorem ssh_settles_once:
  assumes "ssh_reachable T s" and "ss_execs s i = Some x" and "se_settled x = Some r" and "ssh_step\<^sup>*\<^sup>* s s'"
  shows "\<exists>y. ss_execs s' i = Some y \<and> se_settled y = Some r \<and> se_proxy y = se_proxy x
    \<and> (se_proxied x \<longrightarrow> closes (se_proxy y) = 1)"
proof -
  have "closes (se_proxy x) = (if se_proxied x then 1 else 0)"
    using client_ok_exec [OF reachable_ok [OF assms(1)] assms(2)] assms(3) by (simp add: exec_ok_def)
  with steps_kept [OF assms(4)] assms(2,3) show ?thesis by (fastforce simp: all_kept_def kept_def)
qed

text \<open>
  C30: no command hangs: in every reachable state, for a command that has not settled the timer is armed
  when there is a timeout, and the step of the timer rejects it with the timeout; and once it is on its
  way over a connection, the end and the close of this very connection settle it.
\<close>

theorem ssh_nothing_hangs:
  assumes "ssh_reachable T s" and "ss_execs s i = Some x" and "se_settled x = None"
  shows "(0 < T \<longrightarrow> (\<exists>s' y. ssh_step s s' \<and> ss_execs s' i = Some y \<and> se_settled y = Some (Inl (timeout_error T x))))
    \<and> (se_phase x \<in> {Opening, Streaming} \<longrightarrow> (\<exists>k < ss_next s. se_conn x = Some k
        \<and> (\<forall>ev \<in> {CEnd, CClose}. ssh_step s (conn_emits k ev s)
             \<and> (\<exists>y. ss_execs (conn_emits k ev s) i = Some y \<and> se_settled y \<noteq> None))))"
proof (intro conjI impI)
  note ok = reachable_ok [OF assms(1)]
  note e = client_ok_exec [OF ok assms(2)]
  {
    assume "0 < T"
    with e assms(3) have "se_timer x" by (simp add: exec_ok_def)
    from ssh_step.timeout [OF assms(2) this]
    have "ssh_step s (upd_exec i (exec_timeout T) s)" using ok by (simp add: client_ok_def)
    moreover have "ss_execs (upd_exec i (exec_timeout T) s) i = Some (exec_timeout T x)" using assms(2) by (simp add: upd_exec_def)
    moreover have "se_settled (exec_timeout T x) = Some (Inl (timeout_error T x))" using assms(3) by (simp add: exec_timeout_def)
    ultimately show "\<exists>s' y. ssh_step s s' \<and> ss_execs s' i = Some y \<and> se_settled y = Some (Inl (timeout_error T x))" by blast
  }
  assume p: "se_phase x \<in> {Opening, Streaming}"
  with e obtain k where k: "se_conn x = Some k" "k < ss_next s" by (auto simp: exec_ok_def)
  with in_flight_conn_event [OF ok assms(2) p k(1) assms(3)] ssh_step.event [OF k(2)]
  show "\<exists>k < ss_next s. se_conn x = Some k
      \<and> (\<forall>ev \<in> {CEnd, CClose}. ssh_step s (conn_emits k ev s)
           \<and> (\<exists>y. ss_execs (conn_emits k ev s) i = Some y \<and> se_settled y \<noteq> None))" by blast
qed

text \<open>
  C31: every connection has a client of its own: in every reachable state \<open>connect\<close> was called once on
  each client of ssh2 that was made, every client but the current one was ended, and whatever one that
  was replaced still emits leaves the current client and its state as they are.
\<close>

theorem ssh_fresh_clients:
  assumes "ssh_reachable T s"
  shows "ss_connects s = [0..<ss_next s] \<and> (\<forall>k < ss_next s. ss_conn s \<noteq> Some k \<longrightarrow> k \<in> set (ss_ended s))
    \<and> (\<forall>k ev. ss_conn s \<noteq> Some k \<longrightarrow> ss_conn (conn_emits k ev s) = ss_conn s
         \<and> ss_state (conn_emits k ev s) = ss_state s \<and> ss_err (conn_emits k ev s) = ss_err s)"
proof (intro conjI allI impI)
  note ok = reachable_ok [OF assms]
  then show "ss_connects s = [0..<ss_next s]" by (simp add: client_ok_def)
  fix k
  show "k < ss_next s \<Longrightarrow> ss_conn s \<noteq> Some k \<Longrightarrow> k \<in> set (ss_ended s)"
    using ok by (cases "ss_next s") (auto simp: client_ok_def lessThan_Suc)
  fix ev
  assume k: "ss_conn s \<noteq> Some k"
  have m: "ss_mutex s \<noteq> Some (i, k)" for i using ok k unfolding client_ok_def by blast
  then have "on_connecting k ev (track k ev s) = track k ev s" by (auto simp: on_connecting_def split: option.splits)
  with k show "ss_conn (conn_emits k ev s) = ss_conn s" "ss_state (conn_emits k ev s) = ss_state s" "ss_err (conn_emits k ev s) = ss_err s"
    by (simp_all add: conn_emits_def on_execs_def track_def Let_def split: conn_event.splits)
qed

section \<open>Runs\<close>

text \<open>A command that connects, opens its channel and ends, and what is reached on the way.\<close>

definition ssh_opened :: ssh_client where
  "ssh_opened = upd_exec 0 (on_exec None) (request_exec 0 0 None (conn_emits 0 CReady (enter_connect 0
     (call_connect 0 (start_exec 0 ''zfs'' True (new_ssh_client 5))))))"

definition ssh_ended :: ssh_client where
  "ssh_ended = upd_exec 0 (on_close (Some 0) None) ssh_opened"

lemmas ssh_run = start_exec_def call_connect_def enter_connect_def conn_emits_def on_connecting_def track_def on_execs_def on_conn_def
  connect_done_def request_exec_def upd_exec_def new_ssh_client_def new_exec_def has_ready_def on_exec_def Let_def

lemma ssh_opened_reachable: "ssh_reachable 5 ssh_opened"
proof -
  have 0: "ssh_reachable 5 (start_exec 0 ''zfs'' True (new_ssh_client 5))" (is "ssh_reachable 5 ?a")
    by (rule ssh_reachable.step [OF ssh_reachable.init ssh_step.start]) (simp add: new_ssh_client_def)
  have 1: "ssh_reachable 5 (call_connect 0 ?a)" (is "ssh_reachable 5 ?b")
    by (rule ssh_reachable.step [OF 0 ssh_step.loop]) (simp add: ssh_run)+
  have 2: "ssh_reachable 5 (enter_connect 0 ?b)" (is "ssh_reachable 5 ?c")
    by (rule ssh_reachable.step [OF 1 ssh_step.enter]) (simp add: ssh_run)+
  have 3: "ssh_reachable 5 (conn_emits 0 CReady ?c)" (is "ssh_reachable 5 ?d")
    by (rule ssh_reachable.step [OF 2 ssh_step.event]) (simp add: ssh_run)
  have 4: "ssh_reachable 5 (request_exec 0 0 None ?d)" (is "ssh_reachable 5 ?e")
    by (rule ssh_reachable.step [OF 3 ssh_step.request]) (simp add: ssh_run)+
  show ?thesis unfolding ssh_opened_def
    by (rule ssh_reachable.step [OF 4 ssh_step.opened]) (simp add: ssh_run)+
qed

lemma ssh_opened_exec:
  "\<exists>x. ss_execs ssh_opened 0 = Some x \<and> se_command x = ''zfs'' \<and> se_phase x = Streaming \<and> se_settled x = None
    \<and> se_proxied x \<and> se_proxy x = []"
  by (simp add: ssh_opened_def ssh_run)

lemma ssh_ended_exec:
  "\<exists>x. ss_execs ssh_ended 0 = Some x \<and> se_settled x = Some (Inr \<lparr>sr_stderr = None, sr_stdout = None, sr_code = Some 0, sr_signal = None\<rparr>)"
  by (simp add: ssh_ended_def ssh_opened_def ssh_run on_close_def)

lemma ssh_ended_reachable: "ssh_reachable 5 ssh_ended"
  unfolding ssh_ended_def
  by (rule ssh_reachable.step [OF ssh_opened_reachable ssh_step.close]) (simp add: ssh_opened_def ssh_run)+

lemma ssh_settles_once_witness:
  "\<exists>y. ss_execs (conn_emits 0 CClose ssh_ended) 0 = Some y
     \<and> se_settled y = Some (Inr \<lparr>sr_stderr = None, sr_stdout = None, sr_code = Some 0, sr_signal = None\<rparr>)"
proof -
  obtain x where x: "ss_execs ssh_ended 0 = Some x"
    "se_settled x = Some (Inr \<lparr>sr_stderr = None, sr_stdout = None, sr_code = Some 0, sr_signal = None\<rparr>)"
    using ssh_ended_exec by blast
  have "ssh_step ssh_ended (conn_emits 0 CClose ssh_ended)"
    by (rule ssh_step.event) (simp add: ssh_ended_def ssh_opened_def ssh_run)
  then have "ssh_step\<^sup>*\<^sup>* ssh_ended (conn_emits 0 CClose ssh_ended)" by blast
  from ssh_settles_once [OF ssh_ended_reachable x this] show ?thesis by blast
qed

lemma ssh_nothing_hangs_witness:
  "\<exists>y. ss_execs (conn_emits 0 CClose ssh_opened) 0 = Some y \<and> se_settled y \<noteq> None"
proof -
  obtain x where x: "ss_execs ssh_opened 0 = Some x" "se_phase x = Streaming" "se_settled x = None" using ssh_opened_exec by blast
  have "ss_next ssh_opened = 1" by (simp add: ssh_opened_def ssh_run)
  with ssh_nothing_hangs [OF ssh_opened_reachable x(1,3)] x(2) show ?thesis by auto
qed

lemma ssh_fresh_clients_witness: "ss_connects ssh_ended = [0]"
proof -
  have "ss_next ssh_ended = 1" by (simp add: ssh_ended_def ssh_opened_def ssh_run)
  with ssh_fresh_clients [OF ssh_ended_reachable] show ?thesis by simp
qed

end
