(* ===== verification/Synology_Http.thy ===== *)
theory Synology_Http
  imports Controller_Volumes Host
begin

text \<open>
  \<open>src/driver/controller-synology/http/index.js\<close>: the client of the web API of a Synology appliance.
  The session id is the state of the client and stands beside the state of the outside in the world.
  What the web server answers to a request, and that it does not answer, is a parameter; every request of
  the sources is a GET. The mutexes and the agents are not modelled. A request is an event with
  its data, without the session id.
\<close>

section \<open>Errors\<close>

text \<open>An error of the API with its code (null when the status of the answer was bad), or another one.\<close>

datatype syno_error = Syno js int | Other exn

definition SYNO_ERRORS :: "(string \<times> status \<times> msg) list" where
  "SYNO_ERRORS =
     [(''400'', UNAUTHENTICATED, ''Failed to authenticate to the Synology DSM.''),
      (''407'', UNAUTHENTICATED, ''IP has been blocked to the Synology DSM due to too many failed attempts.''),
      (''18990002'', RESOURCE_EXHAUSTED, ''The synology volume is out of disk space.''),
      (''18990318'', INVALID_ARGUMENT, ''The requested lun type is incompatible with the Synology filesystem.''),
      (''18990538'', ALREADY_EXISTS, ''A LUN with this name already exists.''),
      (''18990541'', RESOURCE_EXHAUSTED, ''The maximum number of LUNS has been reached.''),
      (''18990542'', RESOURCE_EXHAUSTED, ''The maximum number if iSCSI target has been reached.''),
      (''18990708'', INVALID_ARGUMENT, ''Bad target auth info.''),
      (''18990744'', ALREADY_EXISTS, ''An iSCSI target with this name already exists.''),
      (''18990532'', NOT_FOUND, ''No such snapshot.''),
      (''18990500'', INVALID_ARGUMENT, ''Bad LUN type''),
      (''18990543'', RESOURCE_EXHAUSTED, ''Maximum number of snapshots reached.''),
      (''18990635'', INVALID_ARGUMENT, ''Invalid ioPolicy.'')]"

fun syno_exn :: "syno_error \<Rightarrow> exn" where
  "syno_exn (Other e) = e"
| "syno_exn (Syno code httpCode) =
     (if js_greater code (Num (IntN 0)) then
        (case map_of SYNO_ERRORS (to_str code) of
           Some (st, m) \<Rightarrow> GrpcError st m
         | None \<Rightarrow> GrpcError UNKNOWN (''An unknown error occurred when executing a synology command (code = '' @ to_str code @ '').''))
      else GrpcError UNKNOWN (''The synology webserver returned a status code '' @ show_int httpCode))"

section \<open>Requests\<close>

text \<open>No answer, or the status, whether the content type says JSON, and the body.\<close>

datatype web_answer = NoAnswer msg | Answer int bool js

record 'e synology =
  sy_driver :: "'e driver"
  sy_host :: "'e host"
  sy_connection :: jsobj
  sy_csi :: js
  sy_web :: "string \<Rightarrow> jsobj \<Rightarrow> 'e \<Rightarrow> web_answer \<times> 'e"

type_synonym ('e, 'a) syno = "(('e \<times> js) world, 'a) io"

definition get_sid :: "('e, js) syno" where
  "get_sid = (\<lambda>w. (Inr (snd (ext w)), w))"

definition set_sid :: "js \<Rightarrow> ('e, unit) syno" where
  "set_sid v = (\<lambda>w. (Inr (), w\<lparr>ext := (fst (ext w), v)\<rparr>))"

text \<open>The query string: arrays and booleans are printed, what is undefined is left out.\<close>

definition query_params :: "jsobj \<Rightarrow> jsobj" where
  "query_params data =
     map (\<lambda>(k, v). (k, case v of Arr _ \<Rightarrow> Str (json_print v) | Bool _ \<Rightarrow> Str (json_print v) | _ \<Rightarrow> v))
       (filter (\<lambda>(k, v). v \<noteq> Undef) data)"

fun parsed_body :: "bool \<Rightarrow> js \<Rightarrow> exn + js" where
  "parsed_body json Null = Inr Null"
| "parsed_body json (Arr xs) = Inr (Arr xs)"
| "parsed_body json (Obj kvs) = Inr (Obj kvs)"
| "parsed_body json v = (if json then json_parse v else Inr v)"

text \<open>
  The callback of a request: how the promise settles, and whether the API refused the session id. After
  a request without an answer the callback goes on with a response that is null, and throws.
\<close>

definition api_error :: "js \<Rightarrow> exn + js option" where
  "api_error body =
     ebind (getp body ''success'') (\<lambda>s.
     if s = Bool False then ebind (getps body [''error'', ''code'']) (\<lambda>c. Inr (Some c)) else Inr None)"

definition settle_answer :: "web_answer \<Rightarrow> (syno_error + js) \<times> bool" where
  "settle_answer a =
     (case a of
        NoAnswer m \<Rightarrow> (Inl (Other (JsError ''AxiosError'' m)), False)
      | Answer st json body \<Rightarrow>
          (case parsed_body json body of
             Inl e \<Rightarrow> (Inl (Other e), False)
           | Inr b \<Rightarrow>
               let bad = (st > 299 \<or> st < 200) in
               (case api_error b of
                  Inl e \<Rightarrow> (Inl (if bad then Syno Null st else Other e), False)
                | Inr None \<Rightarrow> (if bad then Inl (Syno Null st) else Inr b, False)
                | Inr (Some code) \<Rightarrow> (Inl (if bad then Syno Null st else Syno code st), loose_eq code (Num (IntN 119))))))"

definition send :: "'e synology \<Rightarrow> string \<Rightarrow> jsobj \<Rightarrow> jsobj \<Rightarrow> js \<Rightarrow> ('e, syno_error + js) syno" where
  "send C path data credential sid =
     bind (perform (EvHttp path data) (\<lambda>(e, s).
        case sy_web C path (query_params (data @ credential)) e of (a, e') \<Rightarrow> (Inr a, (e', s)))) (\<lambda>a.
     case settle_answer a of (r, refused) \<Rightarrow>
       bind get_sid (\<lambda>current.
       andthen (do_when (refused \<and> loose_eq sid current) (set_sid Null)) (ret r)))"

definition login_data :: jsobj where
  "login_data = [(''api'', Str ''SYNO.API.Auth''), (''version'', Str ''6''), (''method'', Str ''login'')]"

definition login_credential :: "'e synology \<Rightarrow> jsobj" where
  "login_credential C =
     [(''account'', obj_get (sy_connection C) ''username''), (''passwd'', obj_get (sy_connection C) ''password''),
      (''session'', obj_get (sy_connection C) ''session''), (''format'', Str ''sid'')]"

text \<open>\<open>login\<close>: the session id that is there, or a new one.\<close>

definition login_session :: "'e synology \<Rightarrow> ('e, syno_error + js) syno" where
  "login_session C =
     bind get_sid (\<lambda>sid.
     if truthy sid then ret (Inr sid)
     else bind (send C ''auth.cgi'' login_data (login_credential C) Undef) (\<lambda>r.
       case r of
         Inl e \<Rightarrow> ret (Inl e)
       | Inr body \<Rightarrow>
           (case getps body [''data'', ''sid''] of
              Inl e \<Rightarrow> ret (Inl (Other e))
            | Inr new \<Rightarrow> andthen (set_sid new) (ret (Inr new)))))"

definition do_request :: "'e synology \<Rightarrow> jsobj \<Rightarrow> ('e, syno_error + js) syno" where
  "do_request C data =
     bind (login_session C) (\<lambda>l.
     case l of Inl e \<Rightarrow> ret (Inl e) | Inr sid \<Rightarrow> send C ''entry.cgi'' data [(''_sid'', sid)] sid)"

text \<open>A request whose error is not looked at.\<close>

definition call_api :: "'e synology \<Rightarrow> jsobj \<Rightarrow> ('e, js) syno" where
  "call_api C data =
     bind (do_request C data) (\<lambda>r. case r of Inl e \<Rightarrow> throw (syno_exn e) | Inr body \<Rightarrow> ret body)"

section \<open>The log\<close>

text \<open>\<open>recursiveCleanse\<close>: the properties with these names whose value is no object are redacted.\<close>

definition cleansed_names :: "string list" where
  "cleansed_names = [''account'', ''passwd'', ''username'', ''password'', ''_sid'', ''sid'', ''Authorization'', ''authorization'',
     ''user'', ''mutual_user'', ''mutual_password'']"

fun recursiveCleanse :: "js \<Rightarrow> js" where
  "recursiveCleanse (Obj kvs) =
     Obj (map (\<lambda>(k, v). (k, case v of Obj _ \<Rightarrow> recursiveCleanse v | Arr _ \<Rightarrow> recursiveCleanse v
        | _ \<Rightarrow> if k \<in> set cleansed_names then Str ''redacted'' else v)) kvs)"
| "recursiveCleanse (Arr xs) = Arr (map recursiveCleanse xs)"
| "recursiveCleanse v = v"

fun is_object :: "js \<Rightarrow> bool" where
  "is_object (Obj _) = True"
| "is_object (Arr _) = True"
| "is_object _ = False"

lemma cleansed_secret:
  "k \<in> set cleansed_names \<Longrightarrow> \<not> is_object v \<Longrightarrow> \<not> is_object v' \<Longrightarrow>
     recursiveCleanse (Obj (pre @ (k, v) # post)) = recursiveCleanse (Obj (pre @ (k, v') # post))"
  by (cases v; cases v') simp_all

section \<open>Lists\<close>

text \<open>\<open>xs.find(i => i[k] == v)\<close>\<close>

fun find_by :: "string \<Rightarrow> js \<Rightarrow> js list \<Rightarrow> exn + js" where
  "find_by k v [] = Inr Undef"
| "find_by k v (x # xs) = ebind (getp x k) (\<lambda>y. if loose_eq y v then Inr x else find_by k v xs)"

definition js_find :: "string \<Rightarrow> js \<Rightarrow> js \<Rightarrow> exn + js" where
  "js_find k v xs = (case xs of Arr ys \<Rightarrow> find_by k v ys | _ \<Rightarrow> Inl (type_error ''find''))"

text \<open>\<open>JSON.stringify(v)\<close> as a value.\<close>

definition quoted_json :: "js \<Rightarrow> js" where
  "quoted_json v = (case json_stringify v of None \<Rightarrow> Undef | Some s \<Rightarrow> Str s)"

text \<open>The property of what was found, undefined when nothing was.\<close>

definition found_prop :: "string \<Rightarrow> js \<Rightarrow> js" where
  "found_prop k x = (if truthy x then field x k else Undef)"

section \<open>LUNs\<close>

definition lun_list :: jsobj where
  "lun_list = [(''api'', Str ''SYNO.Core.ISCSI.LUN''), (''version'', Str ''1''), (''method'', Str ''list'')]"

definition GetLuns :: "'e synology \<Rightarrow> ('e, js) syno" where
  "GetLuns C = bind (call_api C lun_list) (\<lambda>body. lift (getps body [''data'', ''luns'']))"

definition find_lun :: "'e synology \<Rightarrow> string \<Rightarrow> js \<Rightarrow> ('e, js) syno" where
  "find_lun C k v = bind (GetLuns C) (\<lambda>luns. lift (js_find k v luns))"

definition GetLunByName :: "'e synology \<Rightarrow> string \<Rightarrow> ('e, js) syno" where
  "GetLunByName C name = find_lun C ''name'' (Str name)"

definition GetLunUUIDByName :: "'e synology \<Rightarrow> string \<Rightarrow> ('e, js) syno" where
  "GetLunUUIDByName C name = bind (GetLunByName C name) (\<lambda>lun. ret (found_prop ''uuid'' lun))"

definition GetLunIDByName :: "'e synology \<Rightarrow> string \<Rightarrow> ('e, js) syno" where
  "GetLunIDByName C name = bind (GetLunByName C name) (\<lambda>lun. ret (found_prop ''lun_id'' lun))"

definition GetLunByID :: "'e synology \<Rightarrow> js \<Rightarrow> ('e, js) syno" where
  "GetLunByID C lun_id = find_lun C ''lun_id'' lun_id"

definition lun_call :: "string \<Rightarrow> js \<Rightarrow> jsobj" where
  "lun_call action version = [(''api'', Str ''SYNO.Core.ISCSI.LUN''), (''method'', Str action), (''version'', version)]"

text \<open>A name that exists already is not an error: the LUN of that name is used.\<close>

definition CreateLun :: "'e synology \<Rightarrow> jsobj \<Rightarrow> ('e, js) syno" where
  "CreateLun C data =
     (let create = obj_assign data [(''api'', Str ''SYNO.Core.ISCSI.LUN''), (''version'', Str ''1''), (''method'', Str ''create'')] in
      bind (do_request C create) (\<lambda>r.
      case r of
        Inr body \<Rightarrow> lift (getps body [''data'', ''uuid''])
      | Inl e \<Rightarrow>
          if (case e of Syno code _ \<Rightarrow> code = Num (IntN 18990538) | _ \<Rightarrow> False)
          then bind (find_lun C ''name'' (obj_get create ''name'')) (\<lambda>lun. lift (getp lun ''uuid''))
          else throw (syno_exn e)))"

definition MapLun :: "'e synology \<Rightarrow> js \<Rightarrow> js \<Rightarrow> ('e, unit) syno" where
  "MapLun C lun_uuid target_ids =
     bind (call_api C [(''uuid'', quoted_json lun_uuid), (''target_ids'', quoted_json target_ids), (''api'', Str ''SYNO.Core.ISCSI.LUN''),
       (''method'', Str ''map_target''), (''version'', Str ''1'')]) (\<lambda>_. ret ())"

definition DeleteLun :: "'e synology \<Rightarrow> js \<Rightarrow> ('e, unit) syno" where
  "DeleteLun C lun_uuid =
     bind (call_api C (lun_call ''delete'' (Num (IntN 1)) @ [(''uuid'', quoted_json (Str [])),
       (''uuids'', quoted_json (Arr [or_else lun_uuid (Str [])])), (''is_soft_feas_ignored'', Bool True)])) (\<lambda>_. ret ())"

definition DeleteAllLuns :: "'e synology \<Rightarrow> ('e, unit) syno" where
  "DeleteAllLuns C =
     bind (GetLuns C) (\<lambda>luns.
     case luns of
       Arr xs \<Rightarrow> for_each xs (\<lambda>lun. bind (lift (getp lun ''uuid'')) (DeleteLun C))
     | _ \<Rightarrow> throw (type_error ''iterable''))"

definition ExpandISCSILun :: "'e synology \<Rightarrow> js \<Rightarrow> js \<Rightarrow> ('e, js) syno" where
  "ExpandISCSILun C lun_uuid new_size =
     call_api C (lun_call ''set'' (Num (IntN 1)) @ [(''uuid'', quoted_json lun_uuid), (''new_size'', new_size)])"

text \<open>The description of a clone when there is one.\<close>

definition described :: "js \<Rightarrow> jsobj \<Rightarrow> jsobj" where
  "described description data = (if truthy description then data @ [(''description'', description)] else data)"

definition CreateClonedVolume :: "'e synology \<Rightarrow> js \<Rightarrow> string \<Rightarrow> string \<Rightarrow> js \<Rightarrow> ('e, js) syno" where
  "CreateClonedVolume C src_lun_uuid dst_lun_name dst_location description =
     call_api C (described description
       [(''api'', Str ''SYNO.Core.ISCSI.LUN''), (''version'', Num (IntN 1)), (''method'', Str ''clone''),
        (''src_lun_uuid'', quoted_json src_lun_uuid), (''dst_lun_name'', Str dst_lun_name), (''dst_location'', Str dst_location),
        (''is_same_pool'', Bool True), (''clone_type'', Str ''democratic-csi'')])"

definition CreateVolumeFromSnapshot :: "'e synology \<Rightarrow> js \<Rightarrow> js \<Rightarrow> string \<Rightarrow> js \<Rightarrow> ('e, js) syno" where
  "CreateVolumeFromSnapshot C src_lun_uuid snapshot_uuid cloned_lun_name description =
     call_api C (described description
       [(''api'', Str ''SYNO.Core.ISCSI.LUN''), (''version'', Num (IntN 1)), (''method'', Str ''clone_snapshot''),
        (''src_lun_uuid'', quoted_json src_lun_uuid), (''snapshot_uuid'', quoted_json snapshot_uuid),
        (''cloned_lun_name'', Str cloned_lun_name), (''clone_type'', Str ''democratic-csi'')])"

section \<open>Snapshots\<close>

definition snapshots_of :: "'e synology \<Rightarrow> js \<Rightarrow> ('e, js) syno" where
  "snapshots_of C lun_uuid =
     bind (call_api C (lun_call ''list_snapshot'' (Num (IntN 1)) @ [(''src_lun_uuid'', quoted_json lun_uuid)])) (\<lambda>body.
     lift (getps body [''data'', ''snapshots'']))"

text \<open>\<open>concat\<close> appends the elements of an array and any other value as one.\<close>

definition js_concat :: "js list \<Rightarrow> js \<Rightarrow> js list" where
  "js_concat xs v = (case v of Arr ys \<Rightarrow> xs @ ys | _ \<Rightarrow> xs @ [v])"

definition GetSnapshots :: "'e synology \<Rightarrow> ('e, js list) syno" where
  "GetSnapshots C =
     bind (GetLuns C) (\<lambda>luns.
     case luns of
       Arr xs \<Rightarrow> fold_io (\<lambda>found lun. bind (lift (getp lun ''uuid'')) (\<lambda>u. bind (snapshots_of C u) (\<lambda>v. ret (js_concat found v)))) [] xs
     | _ \<Rightarrow> throw (type_error ''iterable''))"

definition find_snapshot :: "'e synology \<Rightarrow> js \<Rightarrow> string \<Rightarrow> js \<Rightarrow> ('e, js) syno" where
  "find_snapshot C lun_uuid k v =
     bind (snapshots_of C lun_uuid) (\<lambda>snapshots. if truthy snapshots then lift (js_find k v snapshots) else ret Undef)"

definition GetSnapshotByLunUUIDAndName :: "'e synology \<Rightarrow> js \<Rightarrow> js \<Rightarrow> ('e, js) syno" where
  "GetSnapshotByLunUUIDAndName C lun_uuid name = find_snapshot C lun_uuid ''description'' name"

definition GetSnapshotByLunUUIDAndSnapshotUUID :: "'e synology \<Rightarrow> js \<Rightarrow> js \<Rightarrow> ('e, js) syno" where
  "GetSnapshotByLunUUIDAndSnapshotUUID C lun_uuid snapshot_uuid = find_snapshot C lun_uuid ''uuid'' snapshot_uuid"

definition TakeSnapshot :: "'e synology \<Rightarrow> jsobj \<Rightarrow> ('e, js) syno" where
  "TakeSnapshot C data =
     (let d = obj_assign data (lun_call ''take_snapshot'' (Num (IntN 1))) in
      call_api C (obj_set ''src_lun_uuid'' (quoted_json (obj_get d ''src_lun_uuid'')) d))"

definition RemoveSnapshot :: "'e synology \<Rightarrow> js \<Rightarrow> ('e, unit) syno" where
  "RemoveSnapshot C snapshot_uuid =
     bind (call_api C (lun_call ''delete_snapshot'' (Num (IntN 1)) @ [(''snapshot_uuid'', quoted_json snapshot_uuid),
       (''deleted_by'', Str ''democratic_csi'')])) (\<lambda>_. ret ())"

section \<open>Targets and volumes\<close>

definition GetVolumeInfo :: "'e synology \<Rightarrow> string \<Rightarrow> ('e, js) syno" where
  "GetVolumeInfo C volume_path =
     call_api C [(''api'', Str ''SYNO.Core.Storage.Volume''), (''method'', Str ''get''), (''version'', Str ''1''), (''volume_path'', Str volume_path)]"

definition target_list :: jsobj where
  "target_list = [(''api'', Str ''SYNO.Core.ISCSI.Target''), (''version'', Str ''1''), (''path'', Str ''entry.cgi''), (''method'', Str ''list''),
     (''additional'', Str (''['' @ join '', '' (map json_quote [''mapped_lun'', ''status'', ''acls'', ''connected_sessions'']) @ '']''))]"

definition ListTargets :: "'e synology \<Rightarrow> ('e, js) syno" where
  "ListTargets C = bind (call_api C target_list) (\<lambda>body. lift (getps body [''data'', ''targets'']))"

definition GetTargetByTargetID :: "'e synology \<Rightarrow> js \<Rightarrow> ('e, js) syno" where
  "GetTargetByTargetID C target_id = bind (ListTargets C) (\<lambda>targets. lift (js_find ''target_id'' target_id targets))"

definition GetTargetByIQN :: "'e synology \<Rightarrow> string \<Rightarrow> ('e, js) syno" where
  "GetTargetByIQN C iqn = bind (ListTargets C) (\<lambda>targets. lift (js_find ''iqn'' (Str iqn) targets))"

definition CreateTarget :: "'e synology \<Rightarrow> jsobj \<Rightarrow> ('e, js) syno" where
  "CreateTarget C data =
     (let create = obj_assign data [(''api'', Str ''SYNO.Core.ISCSI.Target''), (''version'', Str ''1''), (''method'', Str ''create'')] in
      bind (do_request C create) (\<lambda>r.
      case r of
        Inr body \<Rightarrow> lift (getps body [''data'', ''target_id''])
      | Inl e \<Rightarrow>
          if (case e of Syno code _ \<Rightarrow> code = Num (IntN 18990744) | _ \<Rightarrow> False)
          then bind (ListTargets C) (\<lambda>targets. bind (lift (js_find ''iqn'' (obj_get create ''iqn'') targets)) (\<lambda>target.
            if truthy target then ret (field target ''target_id'') else throw (syno_exn e)))
          else throw (syno_exn e)))"

definition DeleteTarget :: "'e synology \<Rightarrow> js \<Rightarrow> ('e, unit) syno" where
  "DeleteTarget C target_id =
     bind (call_api C [(''api'', Str ''SYNO.Core.ISCSI.Target''), (''method'', Str ''delete''), (''version'', Str ''1''),
       (''path'', Str ''entry.cgi''), (''target_id'', quoted_json (Str (to_str (or_else target_id (Str [])))))]) (\<lambda>_. ret ())"

lemmas synology_http_run [code] =
  get_sid_def [THEN fun_cong] set_sid_def [THEN fun_cong] send_def [THEN fun_cong] login_session_def [THEN fun_cong] do_request_def [THEN fun_cong]
  call_api_def [THEN fun_cong] GetLuns_def [THEN fun_cong] find_lun_def [THEN fun_cong] GetLunByName_def [THEN fun_cong]
  GetLunUUIDByName_def [THEN fun_cong] GetLunIDByName_def [THEN fun_cong] GetLunByID_def [THEN fun_cong] CreateLun_def [THEN fun_cong]
  MapLun_def [THEN fun_cong] DeleteLun_def [THEN fun_cong] DeleteAllLuns_def [THEN fun_cong] ExpandISCSILun_def [THEN fun_cong]
  CreateClonedVolume_def [THEN fun_cong] CreateVolumeFromSnapshot_def [THEN fun_cong] snapshots_of_def [THEN fun_cong]
  GetSnapshots_def [THEN fun_cong] find_snapshot_def [THEN fun_cong] GetSnapshotByLunUUIDAndName_def [THEN fun_cong]
  GetSnapshotByLunUUIDAndSnapshotUUID_def [THEN fun_cong] TakeSnapshot_def [THEN fun_cong] RemoveSnapshot_def [THEN fun_cong]
  GetVolumeInfo_def [THEN fun_cong] ListTargets_def [THEN fun_cong] GetTargetByTargetID_def [THEN fun_cong] GetTargetByIQN_def [THEN fun_cong]
  CreateTarget_def [THEN fun_cong] DeleteTarget_def [THEN fun_cong]

end
