(* ===== verification/Synology.thy ===== *)
theory Synology
  imports Synology_Http Zfs_Generic Objectivefs_Controller
begin

text \<open>
  \<open>src/driver/controller-synology/index.js\<close>: the controller that provides LUNs of a Synology appliance
  over iSCSI; the drivers for NFS and SMB refuse every call.
\<close>

section \<open>The driver\<close>

definition sy_options :: "'e synology \<Rightarrow> jsobj" where
  "sy_options C = dr_options (sy_driver C)"

definition sy_get :: "'e synology \<Rightarrow> js \<Rightarrow> string \<Rightarrow> js \<Rightarrow> js" where
  "sy_get C v path d = lget (dr_lodash (sy_driver C)) v path d"

definition getDriverResourceType :: "js \<Rightarrow> exn + string" where
  "getDriverResourceType d =
     (if d = Str ''synology-nfs'' \<or> d = Str ''synology-smb'' then Inr ''filesystem''
      else if d = Str ''synology-iscsi'' then Inr ''volume''
      else Inl (js_error (''unknown driver: '' @ to_str d)))"

definition getDriverShareType :: "js \<Rightarrow> exn + string" where
  "getDriverShareType d =
     (if d = Str ''synology-nfs'' then Inr ''nfs''
      else if d = Str ''synology-smb'' then Inr ''smb''
      else if d = Str ''synology-iscsi'' then Inr ''iscsi''
      else Inl (js_error (''unknown driver: '' @ to_str d)))"

definition synology_rpcs :: "(string \<Rightarrow> bool) \<Rightarrow> string list" where
  "synology_rpcs satisfies =
     [''CREATE_DELETE_VOLUME'', ''GET_CAPACITY'', ''CREATE_DELETE_SNAPSHOT'', ''CLONE_VOLUME'', ''EXPAND_VOLUME'']
     @ (if satisfies ''>=1.5.0'' then [''SINGLE_NODE_MULTI_WRITER''] else [])"

definition synology_node_rpcs :: "(string \<Rightarrow> bool) \<Rightarrow> string \<Rightarrow> string list" where
  "synology_node_rpcs satisfies resource =
     [''STAGE_UNSTAGE_VOLUME'', ''GET_VOLUME_STATS''] @ (if resource = ''volume'' then [''EXPAND_VOLUME''] else [])
     @ (if satisfies ''>=1.5.0'' then [''SINGLE_NODE_MULTI_WRITER''] else [])"

definition synology_service_options :: "(string \<Rightarrow> bool) \<Rightarrow> jsobj \<Rightarrow> exn + jsobj" where
  "synology_service_options satisfies options =
     ebind (getDriverResourceType (obj_get options ''driver'')) (\<lambda>resource.
     let service = inner_obj (obj_get options ''service'');
         icaps = default_list ''volume_expansion'' [''ONLINE''] (default_list ''service'' [''CONTROLLER_SERVICE''] (caps_of ''identity'' service));
         ccaps = default_list ''rpc'' (synology_rpcs satisfies) (caps_of ''controller'' service);
         ncaps = default_list ''rpc'' (synology_node_rpcs satisfies resource) (caps_of ''node'' service)
     in Inr (obj_set ''service'' (Obj (with_caps ''node'' ncaps (with_caps ''controller'' ccaps (with_caps ''identity'' icaps service)))) options))"

text \<open>Device attributes as a list of pairs and as an object.\<close>

definition getObjectFromDevAttribs :: "js \<Rightarrow> exn + jsobj" where
  "getObjectFromDevAttribs l =
     (if \<not> truthy l then Inr []
      else case l of
        Arr xs \<Rightarrow> efold (\<lambda>ob item. ebind (getp item ''dev_attrib'') (\<lambda>k. ebind (getp item ''enable'') (\<lambda>v. Inr (obj_set (to_str k) v ob)))) [] xs
      | _ \<Rightarrow> Inl (type_error ''reduce''))"

definition getDevAttribsFromObject :: "jsobj \<Rightarrow> bool \<Rightarrow> js" where
  "getDevAttribsFromObject ob keepNull =
     Arr (map (\<lambda>(k, v). Obj [(''dev_attrib'', Str k), (''enable'', v)]) (filter (\<lambda>(k, v). keepNull \<or> \<not> nullish v) ob))"

definition parseParameterYamlData :: "'e synology \<Rightarrow> js \<Rightarrow> string \<Rightarrow> exn + js" where
  "parseParameterYamlData C data hint = load_yaml (sy_driver C) data (trim (hint @ '' not a valid YAML document.''))"

definition buildIscsiName :: "'e synology \<Rightarrow> string \<Rightarrow> exn + string" where
  "buildIscsiName C volume_id =
     ebind (getps (Obj (sy_options C)) [''iscsi'', ''namePrefix'']) (\<lambda>pre. ebind (getps (Obj (sy_options C)) [''iscsi'', ''nameSuffix'']) (\<lambda>suf.
     Inr (to_lower ((if truthy pre then to_str pre else []) @ volume_id @ (if truthy suf then to_str suf else [])))))"

definition getLocation :: "'e synology \<Rightarrow> exn + string" where
  "getLocation C =
     ebind (as_string (or_else (sy_get C (Obj (sy_options C)) ''synology.volume'' Undef) (Str ''volume1''))) (\<lambda>location.
     Inr (if starts_with location ''/'' then location else ''/'' @ location))"

text \<open>The capabilities are checked as by the controller of zfs datasets.\<close>

definition sy_capabilities :: "'e synology \<Rightarrow> js \<Rightarrow> exn + bool \<times> js" where
  "sy_capabilities C capabilities =
     ebind (getDriverResourceType (obj_get (sy_options C) ''driver'')) (\<lambda>resource.
     assertCapabilities ((sy_driver C)\<lparr>dr_resource := resource\<rparr>) capabilities)"

definition sy_unsupported :: exn where
  "sy_unsupported = grpc UNIMPLEMENTED ''operation not supported by driver''"

text \<open>What a call does for iSCSI; the other drivers support nothing.\<close>

definition for_iscsi :: "'e synology \<Rightarrow> ('e, 'a) syno \<Rightarrow> ('e, 'a) syno" where
  "for_iscsi C m =
     bind (lift (getDriverShareType (obj_get (sy_options C) ''driver''))) (\<lambda>share. if share = ''iscsi'' then m else throw sy_unsupported)"

section \<open>CreateVolume\<close>

definition sy_create_checks :: "'e synology \<Rightarrow> jsobj \<Rightarrow> exn + string \<times> js" where
  "sy_create_checks C req =
     ebind (getVolumeIdFromCall (sy_driver C) req) (\<lambda>volume_id.
     ebind (case obj_get req ''volume_capabilities'' of
              Arr (c # cs) \<Rightarrow> ebind (sy_capabilities C (Arr (c # cs))) (\<lambda>(valid, m). if valid then Inr () else Inl (invalid_argument (to_str m)))
            | _ \<Rightarrow> Inl (invalid_argument ''missing volume_capabilities'')) (\<lambda>_.
     let r = request_range req in
     ebind (ofs_capacity r) (\<lambda>_. Inr (volume_id, or_else (field r ''required_bytes'') (field r ''limit_bytes'')))))"

definition assign_js :: "jsobj \<Rightarrow> js \<Rightarrow> exn + jsobj" where
  "assign_js a v =
     (case v of Obj kvs \<Rightarrow> Inr (obj_assign a kvs) | Arr _ \<Rightarrow> Inl (Unmodelled ''array'') | Str _ \<Rightarrow> Inl (Unmodelled ''string'') | _ \<Rightarrow> Inr a)"

text \<open>A template: the options, then the parameters of the class, then the secrets.\<close>

definition sy_template :: "'e synology \<Rightarrow> jsobj \<Rightarrow> string \<Rightarrow> exn + jsobj" where
  "sy_template C req name =
     (let np = getNormalizedParameters (sy_options C) (request_params req) [] [] in
      ebind (assign_js [] (sy_get C (Obj (sy_options C)) (''iscsi.'' @ name) (Obj []))) (\<lambda>a.
      ebind (parseParameterYamlData C (sy_get C (Obj np) name (Str ''{}'')) (''parameters.'' @ name)) (\<lambda>p. ebind (assign_js a p) (\<lambda>a.
      ebind (parseParameterYamlData C (sy_get C (Obj req) (''secrets.'' @ name) (Str ''{}'')) (''secrets.'' @ name)) (assign_js a)))))"

definition sy_described :: "'e synology \<Rightarrow> jsobj \<Rightarrow> jsobj \<Rightarrow> exn + jsobj" where
  "sy_described C req lunTemplate =
     (let d = obj_get lunTemplate ''description'' in
      if \<not> truthy d then Inr lunTemplate
      else ebind (dr_template (sy_driver C) d (Obj [(''name'', obj_get req ''name''), (''parameters'', obj_get req ''parameters''), (''csi'', sy_csi C)])) (\<lambda>text.
           Inr (obj_set ''description'' (Str text) lunTemplate)))"

definition size_conflict :: "js \<Rightarrow> js \<Rightarrow> exn" where
  "size_conflict sz r = grpc ALREADY_EXISTS (''volume has already been created with a different size, existing size: '' @ to_str sz
     @ '', required_bytes: '' @ to_str (field r ''required_bytes'') @ '', limit_bytes: '' @ to_str (field r ''limit_bytes''))"

definition existing_lun_fits :: "'e synology \<Rightarrow> string \<Rightarrow> js \<Rightarrow> ('e, unit) syno" where
  "existing_lun_fits C iscsiName r =
     bind (GetLunByName C iscsiName) (\<lambda>lun.
     let sz = field lun ''size'' in
     throw_when (truthy lun \<and> (below_required sz r \<or> above_limit sz r)) (size_conflict sz r))"

text \<open>
  \<open>await httpClient.GetLunByID(id).uuid\<close> reads a property of the promise, not of its value: undefined,
  whatever the request that was started answers.
\<close>

definition legacy_lun :: "'e synology \<Rightarrow> string \<Rightarrow> ('e, js) syno" where
  "legacy_lun C lun_id = bind (catch (bind (GetLunByID C (Str lun_id)) (\<lambda>_. ret ())) (\<lambda>_. ret ())) (\<lambda>_. ret Undef)"

definition source_lun :: "'e synology \<Rightarrow> js \<Rightarrow> ('e, js) syno" where
  "source_lun C src =
     bind (lift (as_string src)) (\<lambda>s. if contains s ''-'' then ret (Str s) else legacy_lun C s)"

definition invalid_snapshot :: "js \<Rightarrow> exn" where
  "invalid_snapshot i = grpc NOT_FOUND (''invalid snapshot_id: '' @ to_str i)"

definition invalid_volume :: "js \<Rightarrow> exn" where
  "invalid_volume i = grpc NOT_FOUND (''invalid volume_id: '' @ to_str i)"

definition lun_from_snapshot :: "'e synology \<Rightarrow> js \<Rightarrow> string \<Rightarrow> js \<Rightarrow> ('e, unit) syno" where
  "lun_from_snapshot C source iscsiName description =
     bind (lift (getps source [''snapshot'', ''snapshot_id''])) (\<lambda>i. bind (lift (as_string i)) (\<lambda>snapshot_id.
     let parts = split_ch (CHR ''/'') snapshot_id in
     andthen (throw_when (\<not> truthy (at parts 2) \<or> \<not> truthy (at parts 3)) (invalid_snapshot i))
    (bind (source_lun C (at parts 2)) (\<lambda>src_lun_uuid.
     bind (GetSnapshotByLunUUIDAndSnapshotUUID C src_lun_uuid (at parts 3)) (\<lambda>snapshot.
     andthen (throw_when (\<not> truthy snapshot) (invalid_snapshot i))
    (bind (GetLunByName C iscsiName) (\<lambda>existing.
     if truthy existing then ret ()
     else bind (CreateVolumeFromSnapshot C src_lun_uuid (at parts 3) iscsiName description) (\<lambda>_. ret ()))))))))"

definition lun_from_volume :: "'e synology \<Rightarrow> js \<Rightarrow> string \<Rightarrow> js \<Rightarrow> ('e, unit) syno" where
  "lun_from_volume C source iscsiName description =
     bind (GetLunByName C iscsiName) (\<lambda>existing.
     if truthy existing then ret ()
     else bind (lift (getps source [''volume'', ''volume_id''])) (\<lambda>i. bind (lift (as_string i)) (\<lambda>volume_id.
       bind (lift (buildIscsiName C volume_id)) (\<lambda>srcLunName.
       andthen (throw_when (srcLunName = []) (invalid_volume i))
      (bind (GetLunUUIDByName C srcLunName) (\<lambda>src_lun_uuid.
       andthen (throw_when (\<not> truthy src_lun_uuid) (invalid_volume i))
      (bind (lift (getLocation C)) (\<lambda>location.
       bind (CreateClonedVolume C src_lun_uuid iscsiName location description) (\<lambda>_. ret ())))))))))"

text \<open>The LUN of the volume: a clone that grows to the capacity, or a new one.\<close>

definition make_lun :: "'e synology \<Rightarrow> js \<Rightarrow> string \<Rightarrow> jsobj \<Rightarrow> js \<Rightarrow> ('e, js) syno" where
  "make_lun C source iscsiName lunTemplate capacity_bytes =
     (if truthy source then
        bind (lift (getp source ''type'')) (\<lambda>kind.
        andthen (if kind = Str ''snapshot'' then lun_from_snapshot C source iscsiName (obj_get lunTemplate ''description'')
                 else if kind = Str ''volume'' then lun_from_volume C source iscsiName (obj_get lunTemplate ''description'')
                 else throw (invalid_argument (''invalid volume_content_source type: '' @ to_str kind)))
       (bind (GetLunByName C iscsiName) (\<lambda>lun. bind (lift (getp lun ''uuid'')) (\<lambda>lun_uuid.
        if js_less (field lun ''size'') capacity_bytes
        then bind (ExpandISCSILun C lun_uuid capacity_bytes) (\<lambda>_. ret lun_uuid) else ret lun_uuid))))
      else bind (lift (getLocation C)) (\<lambda>location.
        CreateLun C (obj_assign lunTemplate [(''name'', Str iscsiName), (''location'', Str location), (''size'', capacity_bytes)])))"

definition sy_iqn :: "'e synology \<Rightarrow> string \<Rightarrow> exn + string" where
  "sy_iqn C iscsiName = ebind (getps (Obj (sy_options C)) [''iscsi'', ''baseiqn'']) (\<lambda>b. Inr (to_str b @ iscsiName))"

definition find_mapping :: "js \<Rightarrow> js \<Rightarrow> exn + js" where
  "find_mapping target lun_uuid = ebind (getp target ''mapped_luns'') (js_find ''lun_uuid'' lun_uuid)"

text \<open>The target of the volume, to which its LUN is mapped unless it is already.\<close>

definition map_target :: "'e synology \<Rightarrow> string \<Rightarrow> string \<Rightarrow> jsobj \<Rightarrow> js \<Rightarrow> ('e, js) syno" where
  "map_target C iqn iscsiName targetTemplate lun_uuid =
     bind (CreateTarget C (obj_assign targetTemplate [(''name'', Str iscsiName), (''iqn'', Str iqn)])) (\<lambda>_.
     bind (GetTargetByIQN C iqn) (\<lambda>target.
     andthen (throw_when (\<not> truthy target) (grpc UNKNOWN (''failed to lookup target: '' @ iqn)))
    (let target_id = field target ''target_id'' in
     bind (lift (find_mapping target lun_uuid)) (\<lambda>mapping.
     bind (if truthy mapping then ret mapping
           else andthen (MapLun C lun_uuid (Arr [target_id]))
             (bind (GetTargetByTargetID C target_id) (\<lambda>target. lift (find_mapping target lun_uuid)))) (\<lambda>mapping.
     andthen (throw_when (\<not> truthy mapping) (grpc UNKNOWN ''failed to lookup lun_mapping_id'')) (ret mapping))))))"

definition sy_context :: "'e synology \<Rightarrow> string \<Rightarrow> js \<Rightarrow> exn + jsobj" where
  "sy_context C iqn mapping =
     ebind (getps (Obj (sy_options C)) [''iscsi'']) (\<lambda>s. ebind (joined (field s ''targetPortals'')) (\<lambda>portals.
     Inr (ofs_provisioner (sy_driver C)
       [(''node_attach_driver'', Str ''iscsi''), (''portal'', or_else (field s ''targetPortal'') (Str [])), (''portals'', portals),
        (''interface'', or_else (field s ''interface'') (Str [])), (''iqn'', Str iqn), (''lun'', field mapping ''mapping_index''),
        (''provisioner_driver'', obj_get (sy_options C) ''driver'')])))"

definition sy_CreateVolume :: "'e synology \<Rightarrow> jsobj \<Rightarrow> ('e, js) syno" where
  "sy_CreateVolume C req =
     bind (lift (sy_create_checks C req)) (\<lambda>(volume_id, capacity_bytes).
     for_iscsi C (
       bind (lift (buildIscsiName C volume_id)) (\<lambda>iscsiName.
       bind (lift (sy_template C req ''lunTemplate'')) (\<lambda>lunTemplate.
       bind (lift (sy_template C req ''targetTemplate'')) (\<lambda>targetTemplate.
       bind (lift (sy_described C req lunTemplate)) (\<lambda>lunTemplate.
       andthen (existing_lun_fits C iscsiName (request_range req))
      (bind (make_lun C (obj_get req ''volume_content_source'') iscsiName lunTemplate capacity_bytes) (\<lambda>lun_uuid.
       bind (lift (sy_iqn C iscsiName)) (\<lambda>iqn.
       bind (map_target C iqn iscsiName targetTemplate lun_uuid) (\<lambda>mapping.
       bind (lift (sy_context C iqn mapping)) (\<lambda>context.
       ret (Obj [(''volume'', Obj [(''volume_id'', Str volume_id), (''capacity_bytes'', capacity_bytes),
         (''content_source'', obj_get req ''volume_content_source''), (''volume_context'', Obj context)])]))))))))))))"

section \<open>DeleteVolume\<close>

text \<open>The checks after a deletion, which the appliance finishes in the background.\<close>

fun settle_lun :: "'e synology \<Rightarrow> string \<Rightarrow> nat \<Rightarrow> js \<Rightarrow> ('e, js) syno" where
  "settle_lun C iscsiName 0 lun_uuid = ret lun_uuid"
| "settle_lun C iscsiName (Suc n) lun_uuid =
     (if \<not> truthy lun_uuid then ret lun_uuid
      else andthen (perform (EvSleep 5000) (\<lambda>(e, s). (Inr (), (ho_sleep (sy_host C) 5000 e, s))))
        (bind (GetLunUUIDByName C iscsiName) (settle_lun C iscsiName n)))"

definition delete_lun :: "'e synology \<Rightarrow> string \<Rightarrow> ('e, unit) syno" where
  "delete_lun C iscsiName =
     bind (GetLunUUIDByName C iscsiName) (\<lambda>lun_uuid.
     if \<not> truthy lun_uuid then ret ()
     else andthen (DeleteLun C lun_uuid)
       (bind (settle_lun C iscsiName 8 lun_uuid) (\<lambda>left.
        throw_when (truthy left) (grpc UNKNOWN (''failed to remove lun: '' @ to_str left)))))"

definition sy_DeleteVolume :: "'e synology \<Rightarrow> jsobj \<Rightarrow> ('e, js) syno" where
  "sy_DeleteVolume C req =
     (let volume_id = obj_get req ''volume_id'' in
      andthen (throw_when (\<not> truthy volume_id) (invalid_argument ''volume_id is required''))
     (if loose_eq (sy_get C (Obj (sy_options C)) ''_private.csi.volume.deleteStrategy'' (Str [])) (Str ''retain'') then ret (Obj [])
      else for_iscsi C (
        bind (lift (as_string volume_id)) (\<lambda>v.
        bind (lift (buildIscsiName C v)) (\<lambda>iscsiName.
        bind (lift (sy_iqn C iscsiName)) (\<lambda>iqn.
        bind (GetTargetByIQN C iqn) (\<lambda>target.
        andthen (if truthy target then DeleteTarget C (field target ''target_id'') else ret ())
       (andthen (delete_lun C iscsiName) (ret (Obj []))))))))))"

section \<open>The other calls\<close>

definition sy_ControllerExpandVolume :: "'e synology \<Rightarrow> jsobj \<Rightarrow> ('e, js) syno" where
  "sy_ControllerExpandVolume C req =
     (let volume_id = obj_get req ''volume_id''; r = obj_get req ''capacity_range'' in
      andthen (throw_when (\<not> truthy volume_id) (invalid_argument ''volume_id is required''))
     (bind (lift (getp r ''required_bytes'')) (\<lambda>required_bytes.
      let capacity_bytes = or_else required_bytes (field r ''limit_bytes'') in
      andthen (throw_when (\<not> truthy capacity_bytes)
        (invalid_argument ''volume capacity is required (either required_bytes or limit_bytes)''))
     (andthen (throw_when (range_inverted r) (invalid_argument ''required_bytes is greather than limit_bytes''))
     (andthen (throw_when (above_limit capacity_bytes r) (grpc OUT_OF_RANGE ''required volume capacity is greater than limit''))
     (for_iscsi C (
        bind (lift (as_string volume_id)) (\<lambda>v.
        bind (lift (buildIscsiName C v)) (\<lambda>iscsiName.
        bind (GetLunUUIDByName C iscsiName) (\<lambda>lun_uuid.
        bind (ExpandISCSILun C lun_uuid capacity_bytes) (\<lambda>_.
        ret (Obj [(''capacity_bytes'', capacity_bytes), (''node_expansion_required'', Bool True)]))))))))))))"

definition sy_GetCapacity :: "'e synology \<Rightarrow> jsobj \<Rightarrow> ('e, js) syno" where
  "sy_GetCapacity C req =
     bind (lift (getLocation C)) (\<lambda>location.
     bind (if truthy (obj_get req ''volume_capabilities'') then lift (sy_capabilities C (obj_get req ''volume_capabilities''))
           else ret (True, Null)) (\<lambda>(valid, _).
     if \<not> valid then ret (Obj [(''available_capacity'', Num (IntN 0))])
     else bind (GetVolumeInfo C location) (\<lambda>body. bind (lift (getps body [''data'', ''volume'', ''size_free_byte''])) (\<lambda>n.
       ret (Obj [(''available_capacity'', n)])))))"

definition bad_name_chars :: "string \<Rightarrow> string" where
  "bad_name_chars name = uniq (filter (\<lambda>c. \<not> is_alnum c \<and> c \<notin> set ''_-:.+'') name)"

definition sy_CreateSnapshot :: "'e synology \<Rightarrow> jsobj \<Rightarrow> ('e, js) syno" where
  "sy_CreateSnapshot C req =
     (let source_volume_id = obj_get req ''source_volume_id''; name = obj_get req ''name'' in
      andthen (throw_when (\<not> truthy source_volume_id) (invalid_argument ''snapshot source_volume_id is required''))
     (andthen (throw_when (\<not> truthy name) (invalid_argument ''snapshot name is required''))
     (bind (lift (as_string name)) (\<lambda>n.
      andthen (throw_when (bad_name_chars n \<noteq> []) (invalid_argument (''snapshot name contains invalid characters: '' @ bad_name_chars n)))
     (bind (lift (as_string source_volume_id)) (\<lambda>v. bind (lift (buildIscsiName C v)) (\<lambda>iscsiName.
      bind (GetLunByName C iscsiName) (\<lambda>lun.
      andthen (throw_when (\<not> truthy lun) (invalid_argument (''invalid source_volume_id: '' @ v)))
     (bind (lift (sy_template C req ''lunSnapshotTemplate'')) (\<lambda>template.
      bind (GetSnapshots C) (\<lambda>snapshots.
      bind (lift (eany (\<lambda>s. ebind (getp s ''description'') (\<lambda>d.
              Inr (loose_eq d name \<and> \<not> loose_eq (field s ''parent_uuid'') (field lun ''uuid'')))) snapshots)) (\<lambda>other.
      andthen (throw_when other (grpc ALREADY_EXISTS (''snapshot name: '' @ n @ '' is incompatible with source_volume_id: '' @ v
        @ '' due to being used with another source_volume_id'')))
     (bind (GetSnapshotByLunUUIDAndName C (field lun ''uuid'') name) (\<lambda>snapshot.
      bind (if truthy snapshot then ret snapshot
            else bind (TakeSnapshot C (obj_assign template [(''src_lun_uuid'', field lun ''uuid''), (''taken_by'', Str ''democratic-csi''), (''description'', name)])) (\<lambda>_.
              bind (GetSnapshotByLunUUIDAndName C (field lun ''uuid'') name) (\<lambda>snapshot.
              andthen (throw_when (\<not> truthy snapshot) (js_error ''failed to create snapshot'')) (ret snapshot)))) (\<lambda>snapshot.
      ret (Obj [(''snapshot'', Obj [(''size_bytes'', field snapshot ''total_size''),
        (''snapshot_id'', Str (''/lun/'' @ to_str (field lun ''uuid'') @ ''/'' @ to_str (field snapshot ''uuid''))),
        (''source_volume_id'', source_volume_id), (''creation_time'', Obj [(''seconds'', field snapshot ''time''), (''nanos'', Num (IntN 0))]),
        (''ready_to_use'', Bool True)])]))))))))))))))))"

definition sy_DeleteSnapshot :: "'e synology \<Rightarrow> jsobj \<Rightarrow> ('e, js) syno" where
  "sy_DeleteSnapshot C req =
     (let i = obj_get req ''snapshot_id'' in
      andthen (throw_when (\<not> truthy i) (invalid_argument ''snapshot_id is required''))
     (bind (lift (as_string i)) (\<lambda>snapshot_id.
      let parts = split_ch (CHR ''/'') snapshot_id in
      if \<not> truthy (at parts 2) \<or> \<not> truthy (at parts 3) then ret (Obj [])
      else bind (source_lun C (at parts 2)) (\<lambda>lun_uuid.
        bind (GetSnapshotByLunUUIDAndSnapshotUUID C lun_uuid (at parts 3)) (\<lambda>snapshot.
        andthen (if truthy snapshot then RemoveSnapshot C (field snapshot ''uuid'') else ret ()) (ret (Obj [])))))))"

definition sy_ValidateVolumeCapabilities :: "'e synology \<Rightarrow> jsobj \<Rightarrow> ('e, js) syno" where
  "sy_ValidateVolumeCapabilities C req =
     (let volume_id = obj_get req ''volume_id''; capabilities = obj_get req ''volume_capabilities'' in
      andthen (throw_when (\<not> truthy volume_id) (invalid_argument ''missing volume_id''))
     (andthen (throw_when (no_capabilities capabilities) (invalid_argument ''missing capabilities''))
     (for_iscsi C (
        bind (lift (as_string volume_id)) (\<lambda>v. bind (lift (buildIscsiName C v)) (\<lambda>iscsiName.
        bind (GetLunUUIDByName C iscsiName) (\<lambda>lun_uuid.
        andthen (throw_when (\<not> truthy lun_uuid) (invalid_volume volume_id))
       (bind (lift (sy_capabilities C capabilities)) (\<lambda>(valid, m).
        ret (if \<not> valid then Obj [(''message'', m)]
             else Obj [(''confirmed'', Obj [(''volume_context'', obj_get req ''volume_context''),
                   (''volume_capabilities'', capabilities), (''parameters'', obj_get req ''parameters'')])]))))))))))"

lemmas synology_run [code] =
  for_iscsi_def [THEN fun_cong] existing_lun_fits_def [THEN fun_cong] legacy_lun_def [THEN fun_cong] source_lun_def [THEN fun_cong]
  lun_from_snapshot_def [THEN fun_cong] lun_from_volume_def [THEN fun_cong] make_lun_def [THEN fun_cong] map_target_def [THEN fun_cong]
  sy_CreateVolume_def [THEN fun_cong] delete_lun_def [THEN fun_cong] sy_DeleteVolume_def [THEN fun_cong]
  sy_ControllerExpandVolume_def [THEN fun_cong] sy_GetCapacity_def [THEN fun_cong] sy_CreateSnapshot_def [THEN fun_cong]
  sy_DeleteSnapshot_def [THEN fun_cong] sy_ValidateVolumeCapabilities_def [THEN fun_cong]

end
