(* ===== verification/Synology_Properties.thy ===== *)
theory Synology_Properties
  imports Synology
begin

text \<open>
  What the controller of Synology appliances guarantees: what a deletion changes and when it succeeds,
  that an announced LUN is mapped, and that a refused session is renewed.
\<close>

section \<open>Requests that are added\<close>

lemma adds_sid [wp_intro]: "adds P get_sid" "adds P (set_sid v)"
  by (simp_all add: adds_def get_sid_def set_sid_def)

lemma adds_send [wp_intro]: "P (EvHttp path data) \<Longrightarrow> adds P (send C path data cr sid)"
  unfolding send_def by (auto intro!: wp_intro split: prod.splits)

definition login_event :: event where
  "login_event = EvHttp ''auth.cgi'' login_data"

definition api_event :: "jsobj \<Rightarrow> event" where
  "api_event data = EvHttp ''entry.cgi'' data"

lemma adds_login [wp_intro]: "P login_event \<Longrightarrow> adds P (login_session C)"
  unfolding login_session_def login_event_def by (auto intro!: wp_intro split: sum.splits)

lemma adds_do_request [wp_intro]: "P login_event \<Longrightarrow> P (api_event data) \<Longrightarrow> adds P (do_request C data)"
  unfolding do_request_def api_event_def by (auto intro!: wp_intro split: sum.splits)

lemma adds_call_api [wp_intro]: "P login_event \<Longrightarrow> P (api_event data) \<Longrightarrow> adds P (call_api C data)"
  unfolding call_api_def by (auto intro!: wp_intro split: sum.splits)

section \<open>Deletion\<close>

lemma settle_lun_gone:
  "settle_lun C iscsiName n u w = (Inr v, w') \<Longrightarrow> truthy u \<Longrightarrow> \<not> truthy v \<Longrightarrow> \<exists>w1. GetLunUUIDByName C iscsiName w1 = (Inr v, w')"
proof (induction n arbitrary: u w)
  case 0
  then show ?case by (simp add: ret_def)
next
  case (Suc n)
  then obtain u1 w1 w2 where q: "GetLunUUIDByName C iscsiName w1 = (Inr u1, w2)" "settle_lun C iscsiName n u1 w2 = (Inr v, w')"
    by (auto simp: bind_Inr andthen_Inr)
  show ?case
  proof (cases "truthy u1")
    case True
    with q(2) Suc show ?thesis by blast
  next
    case False
    then have "settle_lun C iscsiName n u1 w2 = (Inr u1, w2)" by (cases n) (simp_all add: ret_def)
    with q show ?thesis by auto
  qed
qed

lemma delete_lun_gone:
  assumes "delete_lun C iscsiName w = (Inr (), w')"
  shows "\<exists>u w1. GetLunUUIDByName C iscsiName w = (Inr u, w1)
    \<and> (if truthy u then \<exists>w2 w3 gone. DeleteLun C u w1 = (Inr (), w2) \<and> GetLunUUIDByName C iscsiName w3 = (Inr gone, w') \<and> \<not> truthy gone
       else w' = w1)"
proof -
  from assms obtain u w1 where u: "GetLunUUIDByName C iscsiName w = (Inr u, w1)"
    and rest: "(if \<not> truthy u then ret () else andthen (DeleteLun C u) (bind (settle_lun C iscsiName 8 u) (\<lambda>left.
        throw_when (truthy left) (grpc UNKNOWN (''failed to remove lun: '' @ to_str left))))) w1 = (Inr (), w')"
    by (auto simp: delete_lun_def bind_Inr)
  show ?thesis
  proof (cases "truthy u")
    case True
    with rest obtain w2 left where d: "DeleteLun C u w1 = (Inr (), w2)" "settle_lun C iscsiName 8 u w2 = (Inr left, w')" "\<not> truthy left"
      by (auto simp: andthen_Inr bind_Inr throw_when_Inr)
    from settle_lun_gone [OF d(2) True d(3)] u d True show ?thesis by auto
  next
    case False
    with u rest show ?thesis by (auto simp: ret_Inr)
  qed
qed

lemma for_iscsi_Inr: "for_iscsi C m w = (Inr y, w') \<Longrightarrow> m w = (Inr y, w')"
  by (auto simp: for_iscsi_def bind_Inr lift_Inr throw_Inr split: if_splits)

lemma delete_volume_run:
  assumes "sy_DeleteVolume C req w = (Inr resp, w')"
    and "\<not> loose_eq (sy_get C (Obj (sy_options C)) ''_private.csi.volume.deleteStrategy'' (Str [])) (Str ''retain'')"
  obtains v iscsiName iqn target w1 w2 where "obj_get req ''volume_id'' = Str v" "buildIscsiName C v = Inr iscsiName"
    "sy_iqn C iscsiName = Inr iqn" "GetTargetByIQN C iqn w = (Inr target, w1)"
    "(if truthy target then DeleteTarget C (field target ''target_id'') else ret ()) w1 = (Inr (), w2)"
    "delete_lun C iscsiName w2 = (Inr (), w')"
proof -
  from assms have "for_iscsi C (
        bind (lift (as_string (obj_get req ''volume_id''))) (\<lambda>v.
        bind (lift (buildIscsiName C v)) (\<lambda>iscsiName.
        bind (lift (sy_iqn C iscsiName)) (\<lambda>iqn.
        bind (GetTargetByIQN C iqn) (\<lambda>target.
        andthen (if truthy target then DeleteTarget C (field target ''target_id'') else ret ())
       (andthen (delete_lun C iscsiName) (ret (Obj [])))))))) w = (Inr resp, w')"
    by (auto simp: sy_DeleteVolume_def Let_def andthen_Inr throw_when_Inr)
  from for_iscsi_Inr [OF this] show thesis
    by (auto simp: bind_Inr lift_Inr andthen_Inr ret_Inr as_string_def split: js.splits intro: that)
qed

section \<open>Mapping\<close>

lemma map_target_mapped:
  assumes "map_target C iqn iscsiName template lun_uuid w = (Inr mapping, w')"
  shows "\<exists>target w1. find_mapping target lun_uuid = Inr mapping \<and> truthy mapping
    \<and> (GetTargetByIQN C iqn w1 = (Inr target, w')
       \<or> (\<exists>t w0 w2. GetTargetByIQN C iqn w0 = (Inr t, w2) \<and> GetTargetByTargetID C (field t ''target_id'') w1 = (Inr target, w')))"
proof -
  from assms obtain target w1 w2 m where t: "GetTargetByIQN C iqn w1 = (Inr target, w2)" and m: "find_mapping target lun_uuid = Inr m"
    and rest: "(if truthy m then ret m else andthen (MapLun C lun_uuid (Arr [field target ''target_id'']))
        (bind (GetTargetByTargetID C (field target ''target_id'')) (\<lambda>target. lift (find_mapping target lun_uuid)))) w2 = (Inr mapping, w')"
    and "truthy mapping"
    by (auto simp: map_target_def Let_def bind_Inr andthen_Inr lift_Inr throw_when_Inr ret_Inr)
  show ?thesis
  proof (cases "truthy m")
    case True
    with rest t m show ?thesis by (auto simp: ret_Inr)
  next
    case False
    with rest obtain w3 t2 where "GetTargetByTargetID C (field target ''target_id'') w3 = (Inr t2, w')" "find_mapping t2 lun_uuid = Inr mapping"
      by (auto simp: andthen_Inr bind_Inr lift_Inr)
    with t \<open>truthy mapping\<close> show ?thesis by blast
  qed
qed

lemma sy_context_lun:
  "sy_context C iqn mapping = Inr ctx \<Longrightarrow> obj_get ctx ''iqn'' = Str iqn \<and> obj_get ctx ''lun'' = field mapping ''mapping_index''"
  by (auto simp: sy_context_def ofs_provisioner_def ebind_def obj_get_def obj_set_def Let_def split: sum.splits)

section \<open>Sessions\<close>

lemma login_with_sid: "truthy (snd (ext w)) \<Longrightarrow> login_session C w = (Inr (Inr (snd (ext w))), w)"
  by (simp add: login_session_def get_sid_def bind_def ret_def)

lemma hist_send: "send C path data cr sid w = (r, w') \<Longrightarrow> hist w' = hist w @ [EvHttp path data]"
  by (auto simp: send_def bind_def perform_def andthen_def do_when_def get_sid_def set_sid_def ret_def Let_def
      split: prod.splits if_splits)

lemma hist_login:
  assumes "\<not> truthy (snd (ext w))" and "login_session C w = (r, w')"
  shows "hist w' = hist w @ [login_event]"
proof -
  obtain r1 w1 where s: "send C ''auth.cgi'' login_data (login_credential C) Undef w = (r1, w1)" by force
  with assms have "hist w' = hist w1"
    by (auto simp: login_session_def get_sid_def set_sid_def bind_def andthen_def ret_def split: sum.splits)
  with hist_send [OF s] show ?thesis by (simp add: login_event_def)
qed

text \<open>A request while the session is good, and one after it was refused.\<close>

lemma do_request_with_sid:
  "truthy (snd (ext w)) \<Longrightarrow> do_request C data w = send C ''entry.cgi'' data [(''_sid'', snd (ext w))] (snd (ext w)) w"
  by (simp add: do_request_def bind_def login_with_sid)

lemma refused_sid_dropped:
  assumes "send C path data cr (Str s) w = (r, w')" and "snd (ext w) = Str s"
    and "sy_web C path (query_params (data @ cr)) (fst (ext w)) = (Answer st json body, e')"
    and "parsed_body json body = Inr b" and "api_error b = Inr (Some code)" and "loose_eq code (Num (IntN 119))"
  shows "(\<exists>e. r = Inr (Inl e)) \<and> snd (ext w') = Null"
  using assms
  by (auto simp: send_def bind_def perform_def andthen_def do_when_def get_sid_def set_sid_def ret_def Let_def settle_answer_def
      case_prod_beta loose_eq_def to_prim_def split: if_splits)

lemma hist_do_request_without_sid:
  assumes "\<not> truthy (snd (ext w))" and "do_request C data w = (r, w')"
  shows "\<exists>es. hist w' = hist w @ login_event # es \<and> set es \<subseteq> {api_event data}"
proof -
  obtain l w1 where l: "login_session C w = (l, w1)" by force
  note h = hist_login [OF assms(1) l]
  show ?thesis
  proof (cases "\<exists>sid. l = Inr (Inr sid)")
    case True
    then obtain sid where "l = Inr (Inr sid)" by blast
    with assms(2) l have "send C ''entry.cgi'' data [(''_sid'', sid)] sid w1 = (r, w')" by (simp add: do_request_def bind_def)
    from hist_send [OF this] h show ?thesis by (auto simp: api_event_def)
  next
    case False
    with assms(2) l have "w' = w1" by (auto simp: do_request_def bind_def ret_def split: sum.splits)
    with h show ?thesis by auto
  qed
qed

section \<open>Properties\<close>


text \<open>
  The target and the number that a CreateVolume of a Synology volume announces are those at which the
  appliance listed the LUN of the volume, and this listing was the last thing it did.
\<close>

theorem synology_lun_mapped:
  assumes "sy_CreateVolume C req w = (Inr resp, w')"
  shows "\<exists>v iscsiName iqn lun_uuid lunTemplate capacity u1 u2 mapping target w1. buildIscsiName C v = Inr iscsiName
    \<and> sy_iqn C iscsiName = Inr iqn
    \<and> make_lun C (obj_get req ''volume_content_source'') iscsiName lunTemplate capacity u1 = (Inr lun_uuid, u2)
    \<and> getps resp [''volume'', ''volume_context'', ''iqn''] = Inr (Str iqn)
    \<and> getps resp [''volume'', ''volume_context'', ''lun''] = Inr (field mapping ''mapping_index'')
    \<and> find_mapping target lun_uuid = Inr mapping \<and> truthy mapping
    \<and> (GetTargetByIQN C iqn w1 = (Inr target, w')
       \<or> (\<exists>t w0 w2. GetTargetByIQN C iqn w0 = (Inr t, w2) \<and> GetTargetByTargetID C (field t ''target_id'') w1 = (Inr target, w')))"
proof -
  from assms obtain v capacity where run: "for_iscsi C (
       bind (lift (buildIscsiName C v)) (\<lambda>iscsiName.
       bind (lift (sy_template C req ''lunTemplate'')) (\<lambda>lunTemplate.
       bind (lift (sy_template C req ''targetTemplate'')) (\<lambda>targetTemplate.
       bind (lift (sy_described C req lunTemplate)) (\<lambda>lunTemplate.
       andthen (existing_lun_fits C iscsiName (request_range req))
      (bind (make_lun C (obj_get req ''volume_content_source'') iscsiName lunTemplate capacity) (\<lambda>lun_uuid.
       bind (lift (sy_iqn C iscsiName)) (\<lambda>iqn.
       bind (map_target C iqn iscsiName targetTemplate lun_uuid) (\<lambda>mapping.
       bind (lift (sy_context C iqn mapping)) (\<lambda>context.
       ret (Obj [(''volume'', Obj [(''volume_id'', Str v), (''capacity_bytes'', capacity),
         (''content_source'', obj_get req ''volume_content_source''), (''volume_context'', Obj context)])]))))))))))) w = (Inr resp, w')"
    by (auto simp: sy_CreateVolume_def bind_Inr lift_Inr)
  from for_iscsi_Inr [OF run] obtain iscsiName lunTemplate targetTemplate u1 u2 lun_uuid iqn mapping ctx where m:
    "buildIscsiName C v = Inr iscsiName" "sy_iqn C iscsiName = Inr iqn"
    "make_lun C (obj_get req ''volume_content_source'') iscsiName lunTemplate capacity u1 = (Inr lun_uuid, u2)"
    "map_target C iqn iscsiName targetTemplate lun_uuid u2 = (Inr mapping, w')" "sy_context C iqn mapping = Inr ctx"
    "resp = Obj [(''volume'', Obj [(''volume_id'', Str v), (''capacity_bytes'', capacity),
         (''content_source'', obj_get req ''volume_content_source''), (''volume_context'', Obj ctx)])]"
    by (auto simp: bind_Inr lift_Inr andthen_Inr ret_Inr)
  have "getps resp [''volume'', ''volume_context'', k] = Inr (obj_get ctx k)" for k
    by (simp add: m(6) getp_def ebind_def obj_get_def)
  with m map_target_mapped [OF m(4)] sy_context_lun [OF m(5)] show ?thesis by (metis (no_types, lifting))
qed

text \<open>
  A session is kept until the appliance refuses it and renewed then: a request with a session id runs
  without a login, and when its answer is the error for a bad session the request fails, the id is
  dropped, and the next request logs in before anything else.
\<close>

theorem refused_session_renewed:
  assumes "do_request C data w = (r, w1)" and "do_request C data' w1 = (r2, w2)" and "snd (ext w) = Str s" and "s \<noteq> []"
    and "sy_web C ''entry.cgi'' (query_params (data @ [(''_sid'', Str s)])) (fst (ext w)) = (Answer st json body, e')"
    and "parsed_body json body = Inr b" and "api_error b = Inr (Some code)" and "loose_eq code (Num (IntN 119))"
  shows "(\<exists>e. r = Inr (Inl e)) \<and> (\<exists>es. hist w2 = hist w @ [api_event data, login_event] @ es \<and> set es \<subseteq> {api_event data'})"
proof -
  have "send C ''entry.cgi'' data [(''_sid'', Str s)] (Str s) w = (r, w1)"
    using assms(1,3,4) by (simp add: do_request_with_sid)
  note d = refused_sid_dropped [OF this assms(3,5-8)] hist_send [OF this]
  from hist_do_request_without_sid [OF _ assms(2)] d show ?thesis by (auto simp: api_event_def)
qed

section \<open>Runs\<close>

text \<open>An appliance with one target and, until it is deleted, one LUN.\<close>

definition api_ok :: "jsobj \<Rightarrow> web_answer" where
  "api_ok data = Answer 200 False (Obj [(''success'', Bool True), (''data'', Obj data)])"

definition appliance :: "string \<Rightarrow> jsobj \<Rightarrow> nat \<Rightarrow> web_answer \<times> nat" where
  "appliance path p n =
     (let m = obj_get p ''method'' in
      if path = ''auth.cgi'' then (api_ok [(''sid'', Str ''s'')], n)
      else if obj_get p ''api'' = Str ''SYNO.Core.ISCSI.Target'' then
        (api_ok [(''target_id'', Num (IntN 1)), (''targets'', Arr [Obj [(''iqn'', Str ''iqn:a''), (''target_id'', Num (IntN 1)),
           (''mapped_luns'', Arr [Obj [(''lun_uuid'', Str ''u''), (''mapping_index'', Num (IntN 2))]])]])], n)
      else if m = Str ''delete'' then (api_ok [], 1)
      else (api_ok [(''uuid'', Str ''u''), (''luns'', Arr (if n = 0 then [Obj [(''name'', Str ''a''), (''uuid'', Str ''u''), (''size'', Num (IntN 8))]] else []))], n))"

definition synology_sample :: "nat synology" where
  "synology_sample = \<lparr>sy_driver = (sample_driver ''volume'' (\<lambda>_ _. Closed (Some 0) [] [] False))
       \<lparr>dr_options := [(''driver'', Str ''synology-iscsi''), (''iscsi'', Obj [(''baseiqn'', Str ''iqn:'')])]\<rparr>,
     sy_host = quiet_host, sy_connection = [], sy_csi = Obj [], sy_web = appliance\<rparr>"

definition synology_start :: "nat \<Rightarrow> (nat \<times> js) world" where
  "synology_start n = \<lparr>ext = (n, Undef), hist = []\<rparr>"

lemma synology_delete_run: "map_sum (\<lambda>_. ()) (\<lambda>r. r) (fst (sy_DeleteVolume synology_sample [(''volume_id'', Str ''A'')] (synology_start 0))) = Inr (Obj [])"
  by code_simp


definition synology_request :: jsobj where
  "synology_request = [(''name'', Str ''a''), (''capacity_range'', Obj [(''required_bytes'', Str ''8'')]),
     (''volume_capabilities'', Arr [Obj [(''access_type'', Str ''mount''), (''mount'', Obj []), (''access_mode'', Obj [(''mode'', Str ''SINGLE_NODE_WRITER'')])]])]"

lemma synology_create_run:
  "map_sum (\<lambda>_. ()) (\<lambda>r. getps r [''volume'', ''volume_context'', ''lun'']) (fst (sy_CreateVolume synology_sample synology_request (synology_start 0)))
     = Inr (Inr (Num (IntN 2)))"
  by code_simp

lemma synology_lun_mapped_witness:
  "\<exists>resp w'. sy_CreateVolume synology_sample synology_request (synology_start 0) = (Inr resp, w')
     \<and> getps resp [''volume'', ''volume_context'', ''iqn''] = Inr (Str ''iqn:a'')
     \<and> (\<exists>target lun_uuid mapping. find_mapping target lun_uuid = Inr mapping \<and> field mapping ''mapping_index'' = Num (IntN 2))"
proof -
  obtain r w' where run: "sy_CreateVolume synology_sample synology_request (synology_start 0) = (r, w')" by force
  with synology_create_run obtain resp where resp: "r = Inr resp" "getps resp [''volume'', ''volume_context'', ''lun''] = Inr (Num (IntN 2))"
    by (cases r) simp_all
  from run resp(1) have c: "sy_CreateVolume synology_sample synology_request (synology_start 0) = (Inr resp, w')" by simp
  have "map_sum (\<lambda>_. ()) (\<lambda>r. getps r [''volume'', ''volume_context'', ''iqn'']) (fst (sy_CreateVolume synology_sample synology_request (synology_start 0)))
      = Inr (Inr (Str ''iqn:a''))" by code_simp
  with c have i: "getps resp [''volume'', ''volume_context'', ''iqn''] = Inr (Str ''iqn:a'')" by simp
  from synology_lun_mapped [OF c] obtain target lun_uuid mapping where "find_mapping target lun_uuid = Inr mapping"
    "getps resp [''volume'', ''volume_context'', ''lun''] = Inr (field mapping ''mapping_index'')" by blast
  with c i resp(2) show ?thesis by force
qed

definition refusing_web :: "string \<Rightarrow> jsobj \<Rightarrow> nat \<Rightarrow> web_answer \<times> nat" where
  "refusing_web path p n =
     (if path = ''auth.cgi'' then (api_ok [(''sid'', Str ''s'')], n)
      else (Answer 200 False (Obj [(''success'', Bool False), (''error'', Obj [(''code'', Num (IntN 119))])]), n))"

lemma refused_session_renewed_witness:
  "hist (snd (do_request (synology_sample\<lparr>sy_web := refusing_web\<rparr>) lun_list
      (snd (do_request (synology_sample\<lparr>sy_web := refusing_web\<rparr>) lun_list \<lparr>ext = (0, Str ''s''), hist = []\<rparr>))))
     \<in> (\<lambda>es. [api_event lun_list, login_event] @ es) ` {es. set es \<subseteq> {api_event lun_list}}"
proof -
  let ?b = "Obj [(''success'', Bool False), (''error'', Obj [(''code'', Num (IntN 119))])]"
  let ?C = "synology_sample\<lparr>sy_web := refusing_web\<rparr>" and ?w = "\<lparr>ext = (0 :: nat, Str ''s''), hist = []\<rparr>"
  obtain r w1 where 1: "do_request ?C lun_list ?w = (r, w1)" by force
  obtain r2 w2 where 2: "do_request ?C lun_list w1 = (r2, w2)" by force
  have "(\<exists>e. r = Inr (Inl e)) \<and> (\<exists>es. hist w2 = hist ?w @ [api_event lun_list, login_event] @ es \<and> set es \<subseteq> {api_event lun_list})"
    by (rule refused_session_renewed [OF 1 2, of "''s''" 200 False ?b 0 ?b "Num (IntN 119)"])
      (simp_all add: refusing_web_def api_error_def ebind_def getp_def obj_get_def loose_eq_def to_prim_def)
  with 1 2 show ?thesis by auto
qed

end
