(* ===== verification/Registry.thy ===== *)
theory Registry
  imports JS_Values
begin

text \<open>
  \<open>src/utils/registry.js\<close>: the table of shared instances. A value that is falsy is never stored and
  stands here as None. \<open>getAsync\<close> looks the key up, waits for the value it makes and stores it, with
  whatever else runs in between: it is two steps.
\<close>

type_synonym 'v registry = "(string \<times> 'v) list"

definition registry_put :: "string \<Rightarrow> 'v option \<Rightarrow> 'v registry \<Rightarrow> 'v registry" where
  "registry_put key v data = (case v of None \<Rightarrow> obj_delete key data | Some x \<Rightarrow> obj_set key x data)"

definition registry_get :: "string \<Rightarrow> (unit \<Rightarrow> 'v option) \<Rightarrow> 'v registry \<Rightarrow> 'v option \<times> 'v registry" where
  "registry_get key make data =
     (case map_of data key of
        Some x \<Rightarrow> (Some x, data)
      | None \<Rightarrow> (case make () of
          None \<Rightarrow> (None, data)
        | Some x \<Rightarrow> let data' = registry_put key (Some x) data in (map_of data' key, data')))"

definition registry_delete :: "string \<Rightarrow> 'v registry \<Rightarrow> 'v registry" where
  "registry_delete key data = obj_delete key data"

text \<open>The two steps of \<open>getAsync\<close>: whether a value must be made, and what is stored and answered.\<close>

definition getAsync_begins :: "string \<Rightarrow> 'v registry \<Rightarrow> 'v option" where
  "getAsync_begins key data = map_of data key"

definition getAsync_ends :: "string \<Rightarrow> 'v option \<Rightarrow> 'v registry \<Rightarrow> 'v option \<times> 'v registry" where
  "getAsync_ends key made data =
     (case made of None \<Rightarrow> (None, data) | Some x \<Rightarrow> let data' = registry_put key (Some x) data in (map_of data' key, data'))"

lemma map_of_put [simp]: "map_of (registry_put key (Some x) data) key' = (if key' = key then Some x else map_of data key')"
  by (simp add: registry_put_def obj_set_def update_conv')

text \<open>An instance is made once: a second lookup answers the same one and makes none.\<close>

lemma registry_get_once:
  "registry_get key make data = (Some x, data') \<Longrightarrow> registry_get key make' data' = (Some x, data')"
  by (auto simp: registry_get_def Let_def split: option.splits)

text \<open>Two calls of \<open>getAsync\<close> that overlap make two instances, and the callers get different ones.\<close>

lemma getAsync_overlap:
  assumes "getAsync_begins key data = None"
    and "getAsync_ends key (Some x) data = (r1, data1)" and "getAsync_ends key (Some y) data1 = (r2, data2)"
  shows "r1 = Some x \<and> r2 = Some y"
  using assms by (auto simp: getAsync_ends_def Let_def)

end
