(* ===== verification/Freenas_Http.thy ===== *)
theory Freenas_Http
  imports Controller_Volumes Host Url_Params Partial_Effects
begin

text \<open>
  \<open>src/driver/freenas/http/index.js\<close> and \<open>src/driver/freenas/http/api.js\<close>: the web client of a FreeNAS or
  TrueNAS appliance and the calls of its API. The version of the API is the state of the client and
  stands beside the state of the outside in the world. What the web server answers is a parameter, as
  are the cache, semver and uri-js. The keep-alive agents are not modelled.
\<close>

section \<open>The client\<close>

text \<open>No response, or the status and the body of one.\<close>

datatype http_response = NoResponse msg | Response int js

record 'e freenas =
  fn_host :: "'e host"
  fn_options :: jsobj
  fn_serialize :: "jsobj \<Rightarrow> string"
  fn_web :: "jsobj \<Rightarrow> 'e \<Rightarrow> http_response \<times> 'e"
  fn_cache_get :: "'e \<Rightarrow> js \<times> 'e"
  fn_cache_set :: "js \<Rightarrow> 'e \<Rightarrow> 'e"
  fn_satisfies :: "js \<Rightarrow> string \<Rightarrow> bool"

type_synonym ('e, 'a) nas = "(('e \<times> js) world, 'a) io"
type_synonym ('e, 'a) pnas = "(('e \<times> js) world, 'a) pio"

definition getApiVersion :: "('e, js) nas" where
  "getApiVersion = (\<lambda>w. (Inr (snd (ext w)), w))"

definition setApiVersion :: "js \<Rightarrow> ('e, unit) nas" where
  "setApiVersion v = (\<lambda>w. (Inr (), w\<lparr>ext := (fst (ext w), v)\<rparr>))"

text \<open>The protocol comes from the port when it is not configured; 443 is looked for last.\<close>

definition server_protocol :: "jsobj \<Rightarrow> js" where
  "server_protocol server =
     (let port = obj_get server ''port''; p = obj_get server ''protocol'' in
      if truthy p then p
      else if truthy port \<and> contains (to_str port) ''443'' then Str ''https''
      else Str ''http'')"

definition getBaseURL :: "'e freenas \<Rightarrow> js \<Rightarrow> string" where
  "getBaseURL C version =
     fn_serialize C [(''scheme'', server_protocol (fn_options C)), (''host'', obj_get (fn_options C) ''host''),
       (''port'', obj_get (fn_options C) ''port''),
       (''path'', Str (if loose_eq version (Num (IntN 1)) then ''/api/v1.0'' else ''/api/v2.0''))]"

definition getRequestCommonOptions :: "'e freenas \<Rightarrow> jsobj" where
  "getRequestCommonOptions C =
     (let opt = obj_get (fn_options C);
          headers = [(''Accept'', Str ''application/json''), (''User-Agent'', Str ''democratic-csi-driver''),
                     (''Content-Type'', Str ''application/json'')];
          common = [(''responseType'', Str ''json''), (''timeout'', Num (IntN (60 * 1000)))]
      in if truthy (opt ''apiKey'')
         then (''headers'', Obj (headers @ [(''Authorization'', Str (''Bearer '' @ to_str (opt ''apiKey'')))])) # common
         else (''headers'', Obj headers) # common
           @ (if truthy (opt ''username'') \<and> truthy (opt ''password'')
              then [(''auth'', Obj [(''username'', opt ''username''), (''password'', opt ''password'')])] else []))"

text \<open>What is logged of the options of a request: a property below another one is redacted when it is there.\<close>

definition redact_at :: "string \<Rightarrow> string \<Rightarrow> jsobj \<Rightarrow> jsobj" where
  "redact_at a b options =
     (if truthy (field (obj_get options a) b)
      then obj_set a (Obj (obj_set b (Str ''redacted'') (inner_obj (obj_get options a)))) options else options)"

definition logged_options :: "jsobj \<Rightarrow> jsobj" where
  "logged_options options =
     redact_at ''headers'' ''Authorization'' (redact_at ''auth'' ''password'' (redact_at ''auth'' ''username'' options))"

text \<open>A status of the server errors, 500 and above, rejects like no response does; every other one resolves.\<close>

fun settled_response :: "http_response \<Rightarrow> exn + int \<times> js" where
  "settled_response (NoResponse m) = Inl (JsError ''AxiosError'' m)"
| "settled_response (Response status body) =
     (if status \<ge> 500 then Inl (JsError ''AxiosError'' (''Request failed with status code '' @ show_int status))
      else Inr (status, body))"

definition request_options :: "'e freenas \<Rightarrow> js \<Rightarrow> string \<Rightarrow> string \<Rightarrow> js \<Rightarrow> jsobj \<Rightarrow> jsobj" where
  "request_options C version verb endpoint data options =
     obj_assign (obj_assign (getRequestCommonOptions C) options)
       [(''method'', Str verb), (''url'', Str (getBaseURL C version @ endpoint)),
        (if verb = ''GET'' then ''params'' else ''data'', data)]"

definition http_send :: "'e freenas \<Rightarrow> string \<Rightarrow> string \<Rightarrow> js \<Rightarrow> jsobj \<Rightarrow> ('e, int \<times> js) nas" where
  "http_send C verb endpoint data options =
     bind getApiVersion (\<lambda>version.
     let e = (if loose_eq version (Num (IntN 1)) \<and> \<not> ends_with endpoint ''/'' then endpoint @ ''/'' else endpoint) in
     perform (EvHttp (verb @ '' '' @ e) (inner_obj data)) (\<lambda>(x, v).
       case fn_web C (request_options C version verb e data options) x of (r, x') \<Rightarrow> (settled_response r, (x', v))))"

definition http_get :: "'e freenas \<Rightarrow> string \<Rightarrow> js \<Rightarrow> jsobj \<Rightarrow> ('e, int \<times> js) nas" where
  "http_get C endpoint data options = http_send C ''GET'' endpoint data options"

definition http_post :: "'e freenas \<Rightarrow> string \<Rightarrow> js \<Rightarrow> ('e, int \<times> js) nas" where
  "http_post C endpoint data = http_send C ''POST'' endpoint data []"

definition http_put :: "'e freenas \<Rightarrow> string \<Rightarrow> js \<Rightarrow> ('e, int \<times> js) nas" where
  "http_put C endpoint data = http_send C ''PUT'' endpoint data []"

definition http_delete :: "'e freenas \<Rightarrow> string \<Rightarrow> js \<Rightarrow> ('e, int \<times> js) nas" where
  "http_delete C endpoint data = http_send C ''DELETE'' endpoint data []"

section \<open>Answers\<close>

text \<open>\<open>new Error(JSON.stringify(response.body))\<close>, and whether the text of a body has a part.\<close>

definition body_error :: "js \<Rightarrow> exn" where
  "body_error body = js_error (case json_stringify body of None \<Rightarrow> [] | Some s \<Rightarrow> s)"

definition body_has :: "js \<Rightarrow> string \<Rightarrow> exn + bool" where
  "body_has body part = (case json_stringify body of None \<Rightarrow> Inl (type_error ''includes'') | Some s \<Rightarrow> Inr (contains s part))"

text \<open>The body of a success, or an error with the body.\<close>

definition ok_body :: "int \<times> js \<Rightarrow> ('e, js) nas" where
  "ok_body r = (if fst r = 200 then ret (snd r) else throw (body_error (snd r)))"

definition ok :: "int \<times> js \<Rightarrow> ('e, unit) nas" where
  "ok r = bind (ok_body r) (\<lambda>_. ret ())"

text \<open>A refusal (422) that says this much counts as a success too.\<close>

definition refusal :: "int \<times> js \<Rightarrow> string \<Rightarrow> exn + bool" where
  "refusal r part = (if fst r = 422 then body_has (snd r) part else Inr False)"

definition ok_or :: "string \<Rightarrow> int \<times> js \<Rightarrow> ('e, unit) nas" where
  "ok_or part r =
     (if fst r = 200 then ret ()
      else bind (lift (refusal r part)) (\<lambda>said. if said then ret () else throw (body_error (snd r))))"

text \<open>\<open>encodeURIComponent\<close>, on ASCII.\<close>

definition uri_plain :: "char \<Rightarrow> bool" where
  "uri_plain c \<longleftrightarrow> is_alnum c \<or> c \<in> set ''-_.!~*()'' \<or> c = CHR 0x27"

definition encodeURIComponent :: "string \<Rightarrow> exn + string" where
  "encodeURIComponent s =
     (if list_all (\<lambda>c. (of_char c :: nat) < 128) s
      then Inr (concat (map (\<lambda>c. if uri_plain c then [c]
                                   else [CHR ''%'', upper_hex_digit (of_char c div 16), upper_hex_digit (of_char c mod 16)]) s))
      else Inl (Unmodelled ''text outside ASCII''))"

section \<open>Searching a listing\<close>

text \<open>What a resource must match: nothing given, properties, or a test.\<close>

datatype resource_match = NoMatch | ByProperties jsobj | ByTest "js \<Rightarrow> exn + bool"

text \<open>The loop over the properties stops at the first one that differs.\<close>

fun has_properties :: "jsobj \<Rightarrow> js \<Rightarrow> exn + bool" where
  "has_properties [] i = Inr True"
| "has_properties ((k, v) # kvs) i = ebind (getp i k) (\<lambda>x. if loose_eq v x then has_properties kvs i else Inr False)"

fun resource_matches :: "resource_match \<Rightarrow> js \<Rightarrow> exn + bool" where
  "resource_matches NoMatch i = Inr False"
| "resource_matches (ByProperties kvs) i = has_properties kvs i"
| "resource_matches (ByTest f) i = f i"

text \<open>\<open>some\<close> with the assignment in its callback: the first element that matches becomes the target.\<close>

fun first_match :: "(js \<Rightarrow> exn + bool) \<Rightarrow> js list \<Rightarrow> js \<Rightarrow> exn + js" where
  "first_match f [] target = Inr target"
| "first_match f (i # is) target = ebind (f i) (\<lambda>b. if b then Inr i else first_match f is target)"

definition page_params :: "nat \<Rightarrow> js" where
  "page_params page = Obj [(''limit'', Num (IntN 100)), (''offset'', Num (IntN (100 * int page)))]"

text \<open>What a page does to the search: it ends, or goes on with a target that may be none.\<close>

definition search_page :: "(js \<Rightarrow> exn + bool) \<Rightarrow> js option \<Rightarrow> js \<Rightarrow> int \<times> js \<Rightarrow> exn + js \<times> bool" where
  "search_page f last_body target r =
     (case r of (status, body) \<Rightarrow>
        if (case last_body of None \<Rightarrow> False | Some b \<Rightarrow> json_stringify b = json_stringify body) then Inr (target, True)
        else if status \<noteq> 200
          then Inl (js_error (''FreeNAS http error - code: '' @ show_int status @ '' body: ''
                 @ (case json_stringify body of None \<Rightarrow> ''undefined'' | Some s \<Rightarrow> s)))
        else (case body of
            Arr [] \<Rightarrow> Inr (target, True)
          | Str [] \<Rightarrow> Inr (target, True)
          | Arr xs \<Rightarrow> ebind (first_match f xs target) (\<lambda>t. Inr (t, truthy t))
          | _ \<Rightarrow> Inl (type_error ''some'')))"

partial_function (option) search_pages ::
  "'e freenas \<Rightarrow> string \<Rightarrow> (js \<Rightarrow> exn + bool) \<Rightarrow> nat \<Rightarrow> js option \<Rightarrow> js \<Rightarrow> ('e \<times> js) world \<Rightarrow> ((exn + js) \<times> ('e \<times> js) world) option" where
  "search_pages C endpoint f page last_body target w =
     (case http_get C endpoint (page_params page) [] w of
        (Inl e, w1) \<Rightarrow> Some (Inl e, w1)
      | (Inr r, w1) \<Rightarrow>
          (case search_page f last_body target r of
             Inl e \<Rightarrow> Some (Inl e, w1)
           | Inr (t, stop) \<Rightarrow>
               if stop then Some (Inr t, w1) else search_pages C endpoint f (page + 1) (Some (snd r)) t w1))"

definition findResourceByProperties :: "'e freenas \<Rightarrow> string \<Rightarrow> resource_match \<Rightarrow> ('e, js) pnas" where
  "findResourceByProperties C endpoint m =
     (if m = NoMatch \<or> m = ByProperties [] then pret Undef
      else search_pages C endpoint (resource_matches m) 0 None Undef)"

section \<open>The version of the appliance\<close>

definition version_cache_get :: "'e freenas \<Rightarrow> ('e, js) nas" where
  "version_cache_get C = perform (EvCache ''freenas:system_version'') (\<lambda>(x, v). case fn_cache_get C x of (r, x') \<Rightarrow> (Inr r, (x', v)))"

definition setVersionInfoCache :: "'e freenas \<Rightarrow> js \<Rightarrow> ('e, unit) nas" where
  "setVersionInfoCache C info = perform (EvCache ''freenas:system_version'') (\<lambda>(x, v). (Inr (), (fn_cache_set C info x, v)))"

text \<open>The details in the text of the error, the responses of the package axios, are left out.\<close>

definition version_error :: exn where
  "version_error = js_error ''FreeNAS error getting system version info''"

definition getSystemVersion :: "'e freenas \<Rightarrow> ('e, js) nas" where
  "getSystemVersion C =
     bind (version_cache_get C) (\<lambda>cached.
     if truthy cached then ret cached
     else bind getApiVersion (\<lambda>start.
       andthen (setApiVersion (Num (IntN 2)))
      (bind (catch (bind (http_get C ''/system/version/'' Null [(''timeout'', Num (IntN (5 * 1000)))]) (\<lambda>r.
           if fst r = 200
           then let info = Obj [(''v2'', snd r)] in
             andthen (setVersionInfoCache C info) (andthen (setApiVersion start) (ret (Some info)))
           else ret None)) (\<lambda>_. ret None)) (\<lambda>found.
       case found of Some info \<Rightarrow> ret info | None \<Rightarrow> throw version_error))))"

text \<open>The first two numbers of a version string.\<close>

definition version_numbers :: "string \<Rightarrow> string" where
  "version_numbers version =
     (let parts = filter (\<lambda>p. p \<noteq> []) (map (filter (\<lambda>c. is_digit c \<or> c = CHR ''.'')) (split_ch (CHR ''-'') version))
      in join ''.'' (take 2 (split_ch (CHR ''.'') (join ''.'' parts))))"

definition version_text :: "js \<Rightarrow> exn + js" where
  "version_text info =
     ebind (getp info ''v2'') (\<lambda>v2. if truthy v2 then Inr v2 else getps info [''v1'', ''fullversion''])"

definition getSystemVersionMajorMinor :: "'e freenas \<Rightarrow> ('e, js) nas" where
  "getSystemVersionMajorMinor C =
     bind (getSystemVersion C) (\<lambda>info.
     bind (lift (version_text info)) (\<lambda>version.
     if truthy version then bind (lift (as_string version)) (\<lambda>s. ret (Str (version_numbers s))) else ret Undef))"

definition getSystemVersionMajor :: "'e freenas \<Rightarrow> ('e, string) nas" where
  "getSystemVersionMajor C =
     bind (getSystemVersionMajorMinor C) (\<lambda>v. bind (lift (as_string v)) (\<lambda>s. ret (hd (split_ch (CHR ''.'') s))))"

definition getIsScale :: "'e freenas \<Rightarrow> ('e, bool) nas" where
  "getIsScale C =
     bind (getSystemVersion C) (\<lambda>info.
     bind (getSystemVersionMajor C) (\<lambda>major.
     bind (lift (getp info ''v2'')) (\<lambda>v2.
     if \<not> truthy v2 then ret False
     else bind (lift (as_string v2)) (\<lambda>s.
       ret (contains (to_lower s) ''scale'' \<or> num_le (IntN 20) (str_to_num major))))))"

text \<open>Whether the version, as semver coerces it, is in a range.\<close>

definition version_in :: "'e freenas \<Rightarrow> string \<Rightarrow> ('e, bool) nas" where
  "version_in C r = bind (getSystemVersionMajorMinor C) (\<lambda>v. ret (fn_satisfies C v r))"

section \<open>Properties\<close>

definition getIsUserProperty :: "string \<Rightarrow> bool" where
  "getIsUserProperty p \<longleftrightarrow> contains p '':''"

definition getUserProperties :: "jsobj \<Rightarrow> jsobj" where
  "getUserProperties properties = map (\<lambda>(k, v). (k, Str (to_str v))) (filter (\<lambda>(k, v). getIsUserProperty k) properties)"

definition getSystemProperties :: "jsobj \<Rightarrow> jsobj" where
  "getSystemProperties properties = filter (\<lambda>(k, v). \<not> getIsUserProperty k) properties"

definition getPropertiesKeyValueArray :: "jsobj \<Rightarrow> js" where
  "getPropertiesKeyValueArray properties =
     Arr (map (\<lambda>(k, v). Obj [(''key'', Str k),
       (''value'', if getIsUserProperty k \<and> \<not> nullish v then Str (to_str v) else v)]) properties)"

definition unset_property :: js where
  "unset_property = Obj [(''value'', Str ''-''), (''rawvalue'', Str ''-''), (''source'', Str ''-'')]"

text \<open>A property is looked for in the dataset, its properties and its user properties.\<close>

definition dataset_property :: "jsobj \<Rightarrow> string \<Rightarrow> js" where
  "dataset_property dataset p =
     (let ps = inner_obj (obj_get dataset ''properties''); us = inner_obj (obj_get dataset ''user_properties'');
          v = (if obj_has dataset p then obj_get dataset p else if obj_has ps p then obj_get ps p
               else if obj_has us p then obj_get us p else unset_property)
      in case v of Obj _ \<Rightarrow> v | Arr _ \<Rightarrow> v
         | _ \<Rightarrow> Obj [(''value'', v), (''rawvalue'', v), (''source'', Str ''-'')])"

definition normalizeProperties :: "js \<Rightarrow> string list \<Rightarrow> exn + jsobj" where
  "normalizeProperties dataset ps =
     (if nullish dataset \<and> ps \<noteq> [] then Inl (type_error ''hasOwnProperty'')
      else Inr (fold (\<lambda>p res. obj_set p (dataset_property (inner_obj dataset) p) res) ps []))"

section \<open>Datasets\<close>

definition dataset_endpoint :: "string \<Rightarrow> exn + string" where
  "dataset_endpoint datasetName = ebind (encodeURIComponent datasetName) (\<lambda>s. Inr (''/pool/dataset/id/'' @ s))"

definition DatasetCreate :: "'e freenas \<Rightarrow> string \<Rightarrow> jsobj \<Rightarrow> ('e, unit) nas" where
  "DatasetCreate C datasetName data =
     bind (http_post C ''/pool/dataset'' (Obj (obj_set ''name'' (Str datasetName) data))) (ok_or ''already exists'')"

definition DatasetDelete :: "'e freenas \<Rightarrow> string \<Rightarrow> js \<Rightarrow> ('e, unit) nas" where
  "DatasetDelete C datasetName data =
     bind (lift (dataset_endpoint datasetName)) (\<lambda>endpoint. bind (http_delete C endpoint data) (ok_or ''does not exist''))"

definition DatasetSet :: "'e freenas \<Rightarrow> string \<Rightarrow> jsobj \<Rightarrow> ('e, unit) nas" where
  "DatasetSet C datasetName properties =
     bind (lift (dataset_endpoint datasetName)) (\<lambda>endpoint.
     bind (http_put C endpoint (Obj (obj_set ''user_properties_update'' (getPropertiesKeyValueArray (getUserProperties properties))
       (getSystemProperties properties)))) ok)"

definition DatasetInherit :: "'e freenas \<Rightarrow> string \<Rightarrow> string \<Rightarrow> ('e, unit) nas" where
  "DatasetInherit C datasetName p =
     bind (lift (dataset_endpoint datasetName)) (\<lambda>endpoint.
     bind (http_put C endpoint (Obj (if getIsUserProperty p
         then [(''user_properties_update'', Arr [Obj [(''key'', Str p), (''remove'', Bool True)]])]
         else obj_set ''user_properties_update'' (Arr []) [(p, Str ''INHERIT'')]))) ok)"

definition DatasetGet :: "'e freenas \<Rightarrow> string \<Rightarrow> string list \<Rightarrow> jsobj \<Rightarrow> ('e, jsobj) nas" where
  "DatasetGet C datasetName ps queryParams =
     bind (lift (dataset_endpoint datasetName)) (\<lambda>endpoint.
     bind (http_get C endpoint (Obj queryParams) []) (\<lambda>r.
     if fst r = 200 then lift (normalizeProperties (snd r) ps)
     else if fst r = 404 then throw (js_error ''dataset does not exist'')
     else throw (body_error (snd r))))"

section \<open>Snapshots\<close>

text \<open>The path of the snapshot calls moved with version 25.10.\<close>

definition snapshot_root :: "'e freenas \<Rightarrow> ('e, string) nas" where
  "snapshot_root C = bind (version_in C ''>=25.10'') (\<lambda>b. ret (if b then ''/pool/snapshot'' else ''/zfs/snapshot''))"

definition snapshot_endpoint :: "'e freenas \<Rightarrow> string \<Rightarrow> ('e, string) nas" where
  "snapshot_endpoint C snapshotName =
     bind (snapshot_root C) (\<lambda>root. bind (lift (encodeURIComponent snapshotName)) (\<lambda>s. ret (root @ ''/id/'' @ s)))"

definition SnapshotSet :: "'e freenas \<Rightarrow> string \<Rightarrow> jsobj \<Rightarrow> ('e, unit) nas" where
  "SnapshotSet C snapshotName properties =
     bind (snapshot_endpoint C snapshotName) (\<lambda>endpoint.
     bind (http_put C endpoint (Obj [(''user_properties_update'', getPropertiesKeyValueArray (getUserProperties properties))])) ok)"

definition SnapshotGet :: "'e freenas \<Rightarrow> string \<Rightarrow> string list \<Rightarrow> ('e, jsobj) nas" where
  "SnapshotGet C snapshotName ps =
     bind (snapshot_endpoint C snapshotName) (\<lambda>endpoint.
     bind (http_get C endpoint Undef []) (\<lambda>r.
     if fst r = 200 then lift (normalizeProperties (snd r) ps)
     else if fst r = 404 then throw (js_error ''snapshot does not exist'')
     else throw (body_error (snd r))))"

definition SnapshotCreate :: "'e freenas \<Rightarrow> string \<Rightarrow> jsobj \<Rightarrow> ('e, unit) nas" where
  "SnapshotCreate C snapshotName data =
     bind (snapshot_root C) (\<lambda>root.
     bind (http_post C root (Obj (obj_assign data [(''dataset'', Str (extractDatasetName snapshotName)),
       (''name'', Str (extractSnapshotName snapshotName))]))) (ok_or ''already exists''))"

definition SnapshotDelete :: "'e freenas \<Rightarrow> string \<Rightarrow> jsobj \<Rightarrow> ('e, unit) nas" where
  "SnapshotDelete C snapshotName data =
     bind (snapshot_endpoint C snapshotName) (\<lambda>endpoint.
     bind (http_delete C endpoint (Obj data)) (\<lambda>r. if fst r = 404 then ret () else ok_or ''not found'' r))"

definition CloneCreate :: "'e freenas \<Rightarrow> string \<Rightarrow> string \<Rightarrow> jsobj \<Rightarrow> ('e, unit) nas" where
  "CloneCreate C snapshotName datasetName data =
     bind (snapshot_root C) (\<lambda>root.
     bind (http_post C (root @ ''/clone'') (Obj (obj_assign data [(''snapshot'', Str snapshotName), (''dataset_dst'', Str datasetName)])))
       (ok_or ''already exists''))"

definition destroy_each :: "'e freenas \<Rightarrow> string \<Rightarrow> ('e, unit) nas" where
  "destroy_each C datasetName =
     bind (DatasetGet C datasetName [''id'', ''type'', ''name'', ''pool'', ''snapshots'']
       [(''extra.snapshots'', Str ''true''), (''extra.retrieve_children'', Str ''false'')]) (\<lambda>r.
     case obj_get r ''snapshots'' of
       Arr xs \<Rightarrow> for_each xs (\<lambda>s. bind (lift (getp s ''name'')) (\<lambda>n. SnapshotDelete C (to_str n) [(''defer'', Bool True)]))
     | _ \<Rightarrow> throw (type_error ''iterable''))"

definition DatasetDestroySnapshots :: "'e freenas \<Rightarrow> string \<Rightarrow> jsobj \<Rightarrow> ('e, js) nas" where
  "DatasetDestroySnapshots C datasetName data =
     bind (getSystemVersionMajor C) (\<lambda>major.
     if num_le (IntN 25) (str_to_num major)
     then catch (andthen (destroy_each C datasetName) (ret Undef))
       (\<lambda>e. if err_has e ''dataset does not exist'' then ret Undef else throw e)
     else bind (http_post C ''/pool/dataset/destroy_snapshots'' (Obj (obj_set ''name'' (Str datasetName) data))) (\<lambda>r.
       if fst r = 200 then ret (snd r) else andthen (ok_or ''already exists'' r) (ret Undef)))"

section \<open>NVMe-oF\<close>

definition nvmet_versions :: "'e freenas \<Rightarrow> ('e, unit) nas" where
  "nvmet_versions C = bind (version_in C ''>=25.10'') (\<lambda>b.
     throw_when (\<not> b) (js_error ''nvmet is unavailable with TrueNAS versions <25.10''))"

definition NvmetSubsysList :: "'e freenas \<Rightarrow> jsobj \<Rightarrow> ('e, js) nas" where
  "NvmetSubsysList C data = andthen (nvmet_versions C) (bind (http_get C ''/nvmet/subsys'' (Obj data) []) ok_body)"

text \<open>The first subsystem of that name; the body is the error when there is none.\<close>

definition NvmetSubsysGetByName :: "'e freenas \<Rightarrow> string \<Rightarrow> jsobj \<Rightarrow> ('e, js) nas" where
  "NvmetSubsysGetByName C subsysName data =
     andthen (nvmet_versions C)
    (bind (http_get C ''/nvmet/subsys'' (Obj (obj_set ''name'' (Str subsysName) data)) []) (\<lambda>r.
     bind (lift (if fst r \<noteq> 200 then Inr None
                 else case snd r of
                   Arr xs \<Rightarrow> efold (\<lambda>found s. if found \<noteq> None then Inr found
                     else ebind (getp s ''name'') (\<lambda>n. Inr (if loose_eq n (Str subsysName) then Some s else None))) None xs
                 | Str _ \<Rightarrow> Inr None
                 | _ \<Rightarrow> Inl (type_error ''iterable''))) (\<lambda>found.
     case found of Some s \<Rightarrow> ret s | None \<Rightarrow> throw (body_error (snd r)))))"

definition NvmetSubsysCreate :: "'e freenas \<Rightarrow> string \<Rightarrow> jsobj \<Rightarrow> ('e, js) nas" where
  "NvmetSubsysCreate C subsysName data =
     andthen (nvmet_versions C)
    (bind (http_post C ''/nvmet/subsys'' (Obj (obj_assign data [(''name'', Str subsysName), (''allow_any_host'', Bool True)]))) (\<lambda>r.
     if fst r = 200 then ret (snd r)
     else bind (lift (refusal r ''already exists'')) (\<lambda>said.
       if said then NvmetSubsysGetByName C subsysName [] else throw (body_error (snd r)))))"

definition NvmetSubsysGetById :: "'e freenas \<Rightarrow> js \<Rightarrow> jsobj \<Rightarrow> ('e, js) nas" where
  "NvmetSubsysGetById C i data =
     andthen (nvmet_versions C) (bind (http_get C (''/nvmet/subsys/id/'' @ to_str i) (Obj data) []) ok_body)"

definition NvmetSubsysDeleteById :: "'e freenas \<Rightarrow> js \<Rightarrow> jsobj \<Rightarrow> ('e, unit) nas" where
  "NvmetSubsysDeleteById C i data =
     andthen (nvmet_versions C) (bind (http_delete C (''/nvmet/subsys/id/'' @ to_str i) (Obj data)) (ok_or ''does not exist''))"

definition NvmetPortList :: "'e freenas \<Rightarrow> jsobj \<Rightarrow> ('e, js) nas" where
  "NvmetPortList C data = andthen (nvmet_versions C) (bind (http_get C ''/nvmet/port'' (Obj data) []) ok_body)"

definition NvmetPortSubsysList :: "'e freenas \<Rightarrow> jsobj \<Rightarrow> ('e, js) nas" where
  "NvmetPortSubsysList C data = andthen (nvmet_versions C) (bind (http_get C ''/nvmet/port_subsys'' (Obj data) []) ok_body)"

definition NvmetPortSubsysCreate :: "'e freenas \<Rightarrow> js \<Rightarrow> js \<Rightarrow> ('e, js) nas" where
  "NvmetPortSubsysCreate C port_id subsys_id =
     (let data = [(''port_id'', port_id), (''subsys_id'', subsys_id)] in
      andthen (nvmet_versions C)
     (bind (http_post C ''/nvmet/port_subsys'' (Obj data)) (\<lambda>r.
      if fst r = 200 then ret (snd r)
      else bind (lift (refusal r ''already exists'')) (\<lambda>said.
        if \<not> said then throw (body_error (snd r))
        else bind (NvmetPortSubsysList C data) (\<lambda>v.
          case v of Arr [x] \<Rightarrow> ret x | _ \<Rightarrow> bind (lift (getp v ''body'')) (\<lambda>b. throw (body_error b)))))))"

text \<open>The path of a zvol below \<open>/dev\<close>.\<close>

definition zvol_path :: "string \<Rightarrow> string" where
  "zvol_path zvol =
     (let a = (if starts_with zvol ''/dev/'' then drop 5 zvol else zvol);
          b = (if starts_with a ''/'' then drop 1 a else a)
      in if starts_with b ''zvol/'' then b else ''zvol/'' @ b)"

definition NvmetNamespaceGetByDeivcePath :: "'e freenas \<Rightarrow> string \<Rightarrow> ('e, js) nas" where
  "NvmetNamespaceGetByDeivcePath C zvol =
     andthen (nvmet_versions C)
    (bind (http_get C ''/nvmet/namespace'' (Obj [(''device_path'', Str (zvol_path zvol))]) []) (\<lambda>r.
     case (fst r = 200, snd r) of (True, Arr [x]) \<Rightarrow> ret x | _ \<Rightarrow> throw (body_error (snd r))))"

definition namespace_subsys :: "js \<Rightarrow> js" where
  "namespace_subsys n = (let v = field (field n ''subsys'') ''id'' in if v = Undef then field n ''subsys_id'' else v)"

definition foreign_namespace :: "string \<Rightarrow> js \<Rightarrow> js \<Rightarrow> exn" where
  "foreign_namespace zvol n subsysId =
     js_error (''namespace with device_path '' @ zvol_path zvol @ '' already exists but belongs to subsys_id ''
       @ to_str (namespace_subsys n) @ '' (expected '' @ to_str subsysId @ ''): ''
       @ (case json_stringify n of None \<Rightarrow> ''undefined'' | Some s \<Rightarrow> s))"

text \<open>A namespace of the device that is there already counts when it belongs to the subsystem.\<close>

definition NvmetNamespaceCreate :: "'e freenas \<Rightarrow> string \<Rightarrow> js \<Rightarrow> jsobj \<Rightarrow> ('e, js) nas" where
  "NvmetNamespaceCreate C zvol subsysId data =
     andthen (nvmet_versions C)
    (bind (http_post C ''/nvmet/namespace'' (Obj (obj_assign data [(''device_type'', Str ''ZVOL''), (''device_path'', Str (zvol_path zvol)),
       (''subsys_id'', subsysId)]))) (\<lambda>r.
     if fst r = 200 then ret (snd r)
     else bind (lift (refusal r ''already exists'')) (\<lambda>exists.
       bind (lift (refusal r ''already used by subsystem'')) (\<lambda>used.
       if \<not> exists \<and> \<not> used then throw (body_error (snd r))
       else bind (NvmetNamespaceGetByDeivcePath C (zvol_path zvol)) (\<lambda>n.
         andthen (throw_when (\<not> loose_eq (namespace_subsys n) subsysId) (foreign_namespace zvol n subsysId)) (ret n))))))"

definition NvmetNamespaceDeleteById :: "'e freenas \<Rightarrow> js \<Rightarrow> ('e, unit) nas" where
  "NvmetNamespaceDeleteById C i =
     andthen (nvmet_versions C) (bind (http_delete C (''/nvmet/namespace/id/'' @ to_str i) Undef) (ok_or ''does not exist''))"

section \<open>Jobs and files\<close>

definition ReplicationRunOnetime :: "'e freenas \<Rightarrow> js \<Rightarrow> ('e, js) nas" where
  "ReplicationRunOnetime C data = bind (http_post C ''/replication/run_onetime'' data) ok_body"

definition CoreGetJobs :: "'e freenas \<Rightarrow> jsobj \<Rightarrow> ('e, js) nas" where
  "CoreGetJobs C data = bind (http_get C ''/core/get_jobs'' (Obj data) []) ok_body"

definition fn_ms :: "'e freenas \<Rightarrow> ('e, int) nas" where
  "fn_ms C = perform (EvHost ''now'' []) (\<lambda>(x, v). case ho_now (fn_host C) x of (t, x') \<Rightarrow> (Inr t, (x', v)))"

definition fn_sleep :: "'e freenas \<Rightarrow> int \<Rightarrow> ('e, unit) nas" where
  "fn_sleep C ms = perform (EvSleep ms) (\<lambda>(x, v). (Inr (), (ho_sleep (fn_host C) ms x, v)))"

definition first_job :: "js \<Rightarrow> exn + js" where
  "first_job jobs = (case jobs of Arr xs \<Rightarrow> Inr (if xs = [] then Undef else hd xs) | _ \<Rightarrow> getp jobs ''0'')"

definition job_finished :: "js \<Rightarrow> bool" where
  "job_finished state \<longleftrightarrow> state \<in> {Str ''SUCCESS'', Str ''ABORTED'', Str ''FAILED''}"

text \<open>One look at a job: the clock against the timeout, a pause but for the first look, and the state of the job.\<close>

definition job_round :: "'e freenas \<Rightarrow> js \<Rightarrow> int \<Rightarrow> int \<Rightarrow> int \<Rightarrow> js \<Rightarrow> ('e, js \<times> bool) nas" where
  "job_round C job_id timeout check_interval start job =
     bind (fn_ms C) (\<lambda>now.
     andthen (throw_when (timeout > 0 \<and> now > start + 1000 * timeout) (js_error ''timeout waiting for job to complete''))
    (andthen (do_when (truthy job) (fn_sleep C check_interval))
    (bind (CoreGetJobs C [(''id'', job_id)]) (\<lambda>jobs.
     bind (lift (first_job jobs)) (\<lambda>job.
     bind (lift (getp job ''state'')) (\<lambda>state. ret (job, job_finished state)))))))"

partial_function (option) job_rounds ::
  "'e freenas \<Rightarrow> js \<Rightarrow> int \<Rightarrow> int \<Rightarrow> int \<Rightarrow> js \<Rightarrow> ('e \<times> js) world \<Rightarrow> ((exn + js) \<times> ('e \<times> js) world) option" where
  "job_rounds C job_id timeout check_interval start job w =
     (case job_round C job_id timeout check_interval start job w of
        (Inl e, w1) \<Rightarrow> Some (Inl e, w1)
      | (Inr (j, finished), w1) \<Rightarrow>
          if finished then Some (Inr j, w1) else job_rounds C job_id timeout check_interval start j w1)"

text \<open>The timeout is in seconds, the interval and the clock in milliseconds.\<close>

definition CoreWaitForJob :: "'e freenas \<Rightarrow> js \<Rightarrow> int \<Rightarrow> int \<Rightarrow> ('e, js) pnas" where
  "CoreWaitForJob C job_id timeout check_interval =
     (if \<not> truthy job_id then pthrow (js_error ''invalid job_id'')
      else pbind (total (fn_ms C)) (\<lambda>start. job_rounds C job_id timeout check_interval start Undef))"

definition FilesystemSetperm :: "'e freenas \<Rightarrow> js \<Rightarrow> ('e, js) nas" where
  "FilesystemSetperm C data = bind (http_post C ''/filesystem/setperm'' data) ok_body"

definition FilesystemChown :: "'e freenas \<Rightarrow> js \<Rightarrow> ('e, js) nas" where
  "FilesystemChown C data = bind (http_post C ''/filesystem/chown'' data) ok_body"

declare search_pages.simps [code] job_rounds.simps [code]

lemmas freenas_run [code] =
  getApiVersion_def [THEN fun_cong] setApiVersion_def [THEN fun_cong] http_send_def [THEN fun_cong] http_get_def [THEN fun_cong]
  http_post_def [THEN fun_cong] http_put_def [THEN fun_cong] http_delete_def [THEN fun_cong] ok_body_def [THEN fun_cong] ok_def [THEN fun_cong]
  ok_or_def [THEN fun_cong] version_cache_get_def [THEN fun_cong] setVersionInfoCache_def [THEN fun_cong] getSystemVersion_def [THEN fun_cong]
  getSystemVersionMajorMinor_def [THEN fun_cong] getSystemVersionMajor_def [THEN fun_cong] getIsScale_def [THEN fun_cong]
  version_in_def [THEN fun_cong] nvmet_versions_def [THEN fun_cong] NvmetNamespaceCreate_def [THEN fun_cong]
  NvmetNamespaceGetByDeivcePath_def [THEN fun_cong] CoreGetJobs_def [THEN fun_cong] fn_ms_def [THEN fun_cong] fn_sleep_def [THEN fun_cong]
  job_round_def [THEN fun_cong] CoreWaitForJob_def [THEN fun_cong] findResourceByProperties_def [THEN fun_cong]

end
