(* ===== verification/Freenas_Properties.thy ===== *)
theory Freenas_Properties
  imports Freenas_Http Stage_Safety Objectivefs_Controller
begin

text \<open>
  What the web client of a FreeNAS or TrueNAS appliance guarantees: that a search over the pages of a
  listing finds what a search of the whole listing would, that the wait for a job ends, and that a
  namespace is given to the subsystem it was asked for.
\<close>

section \<open>A search over pages\<close>

definition has_all :: "jsobj \<Rightarrow> js \<Rightarrow> bool" where
  "has_all kvs i \<longleftrightarrow> (\<forall>(k, v) \<in> set kvs. loose_eq v (field i k))"

definition serves :: "'e freenas \<Rightarrow> string \<Rightarrow> js list \<Rightarrow> bool" where
  "serves C endpoint xs \<longleftrightarrow> (\<forall>k x. fst (fn_web C (request_options C (Num (IntN 2)) ''GET'' endpoint (page_params k) []) x)
     = Response 200 (Arr (take 100 (drop (100 * k) xs))))"

lemma has_properties_Obj: "has_properties kvs (Obj d) = Inr (has_all kvs (Obj d))"
  by (induction kvs) (auto simp: has_all_def getp_def field_def)

lemma first_match_find:
  "\<forall>i \<in> set xs. f i = Inr (p i) \<Longrightarrow> first_match f xs t = Inr (case find p xs of None \<Rightarrow> t | Some i \<Rightarrow> i)"
  by (induction xs) auto

lemma find_append: "find p (xs @ ys) = (case find p xs of None \<Rightarrow> find p ys | Some i \<Rightarrow> Some i)"
  by (induction xs) auto

lemma json_oks_iff: "json_oks xs \<longleftrightarrow> (\<forall>x \<in> set xs. json_ok x)"
  by (induction xs) auto

lemma json_print_inject: "json_ok a \<Longrightarrow> json_ok b \<Longrightarrow> json_print a = json_print b \<Longrightarrow> a = b"
  by (metis json_roundtrip sum.inject(2))

lemma pages_differ:
  assumes "distinct xs" and "\<forall>i \<in> set xs. json_ok i" and "drop (100 * Suc k) xs \<noteq> []"
  shows "json_stringify (Arr (take 100 (drop (100 * k) xs))) \<noteq> json_stringify (Arr (take 100 (drop (100 * Suc k) xs)))"
proof
  let ?a = "take 100 (drop (100 * k) xs)" and ?b = "take 100 (drop (100 * Suc k) xs)"
  assume "json_stringify (Arr ?a) = json_stringify (Arr ?b)"
  moreover have "json_ok (Arr ?a)" "json_ok (Arr ?b)"
    using assms(2) by (auto simp: json_oks_iff dest!: in_set_takeD in_set_dropD)
  ultimately have eq: "?a = ?b" using json_print_inject [of "Arr ?a" "Arr ?b"] by (simp add: json_stringify_def)
  have "set ?a \<inter> set (drop 100 (drop (100 * k) xs)) = {}"
    by (rule set_take_disj_set_drop_if_distinct) (use assms(1) in simp_all)
  moreover have "set ?b \<subseteq> set (drop 100 (drop (100 * k) xs))" by (simp add: add.commute set_take_subset)
  ultimately have "set ?a \<inter> set ?b = {}" by blast
  with eq show False using assms(3) by auto
qed

lemma get_page:
  assumes "serves C endpoint xs" and "snd (ext w) = Num (IntN 2)"
  shows "\<exists>w1. http_get C endpoint (page_params k) [] w = (Inr (200, Arr (take 100 (drop (100 * k) xs))), w1) \<and> snd (ext w1) = Num (IntN 2)"
  using assms unfolding serves_def
  by (auto simp: http_get_def http_send_def getApiVersion_def bind_def perform_def loose_eq_def case_prod_beta prod_eq_iff)

lemma search_from:
  assumes "serves C endpoint xs" and "distinct xs" and "\<forall>i \<in> set xs. json_ok i \<and> truthy i \<and> f i = Inr (p i)"
    and "snd (ext w) = Num (IntN 2)"
    and "last_body = (case k of 0 \<Rightarrow> None | Suc j \<Rightarrow> Some (Arr (take 100 (drop (100 * j) xs))))"
  shows "\<exists>w'. search_pages C endpoint f k last_body Undef w
    = Some (Inr (case find p (drop (100 * k) xs) of None \<Rightarrow> Undef | Some i \<Rightarrow> i), w')"
  using assms(4,5)
proof (induction "length xs - 100 * k" arbitrary: k last_body w rule: less_induct)
  case less
  let ?page = "take 100 (drop (100 * k) xs)"
  obtain w1 where w1: "http_get C endpoint (page_params k) [] w = (Inr (200, Arr ?page), w1)" "snd (ext w1) = Num (IntN 2)"
    using get_page [OF assms(1) less.prems(1)] by blast
  note step = search_pages.simps [of C endpoint f k last_body Undef w, unfolded w1(1)]
  show ?case
  proof (cases "drop (100 * k) xs = []")
    case True
    then have "search_page f last_body Undef (200, Arr ?page) = Inr (Undef, True)" by (simp add: search_page_def)
    with step True show ?thesis by simp
  next
    case False
    then have lt: "100 * k < length xs" by simp
    have new: "\<not> (case last_body of None \<Rightarrow> False | Some b \<Rightarrow> json_stringify b = json_stringify (Arr ?page))"
      using less.prems(2) pages_differ [OF assms(2) _ _] assms(3) False by (auto split: nat.splits)
    have "first_match f ?page Undef = Inr (case find p ?page of None \<Rightarrow> Undef | Some i \<Rightarrow> i)"
      by (rule first_match_find) (use assms(3) in \<open>auto dest!: in_set_takeD in_set_dropD\<close>)
    moreover have "\<exists>y ys. ?page = y # ys" using False by (cases ?page) auto
    ultimately have page: "search_page f last_body Undef (200, Arr ?page)
        = Inr (case find p ?page of None \<Rightarrow> (Undef, False) | Some i \<Rightarrow> (i, truthy i))"
      using new by (auto simp: search_page_def split: option.splits)
    have split: "drop (100 * k) xs = ?page @ drop (100 * Suc k) xs"
      by (metis append_take_drop_id drop_drop mult_Suc_right add.commute)
    show ?thesis
    proof (cases "find p ?page")
      case (Some i)
      then have "truthy i" using assms(3) by (auto simp: find_Some_iff dest!: nth_mem in_set_takeD in_set_dropD)
      with step page Some show ?thesis by (subst split) (simp add: find_append)
    next
      case None
      have "\<exists>w'. search_pages C endpoint f (k + 1) (Some (Arr ?page)) Undef w1
          = Some (Inr (case find p (drop (100 * (k + 1)) xs) of None \<Rightarrow> Undef | Some i \<Rightarrow> i), w')"
        by (rule less.hyps) (use lt w1(2) in simp_all)
      with step page None show ?thesis by (subst split) (simp add: find_append)
    qed
  qed
qed

section \<open>The wait for a job\<close>

text \<open>A request takes no negative time, and the jobs that are listed are objects.\<close>

definition web_keeps_time :: "('e \<Rightarrow> int) \<Rightarrow> 'e freenas \<Rightarrow> bool" where
  "web_keeps_time c C \<longleftrightarrow> (\<forall>options x. c x \<le> c (snd (fn_web C options x)))"

definition lists_jobs :: "'e freenas \<Rightarrow> bool" where
  "lists_jobs C \<longleftrightarrow> (\<forall>options x st body j. fst (fn_web C options x) = Response st body \<longrightarrow> first_job body = Inr j \<longrightarrow> truthy j \<or> nullish j)"

definition nas_time :: "('e \<Rightarrow> int) \<Rightarrow> ('e \<times> js) world \<Rightarrow> int" where
  "nas_time c w = c (fst (ext w))"

lemma http_send_later: "web_keeps_time c C \<Longrightarrow> http_send C verb endpoint data options w = (r, w1) \<Longrightarrow> nas_time c w \<le> nas_time c w1"
  by (auto simp: http_send_def getApiVersion_def bind_def perform_def nas_time_def web_keeps_time_def case_prod_beta Let_def)

lemma http_send_answer:
  "http_send C verb endpoint data options w = (Inr (st, body), w1) \<Longrightarrow> \<exists>o' x. fst (fn_web C o' x) = Response st body"
  by (auto simp: http_send_def getApiVersion_def bind_def perform_def case_prod_beta Let_def split: if_splits elim!: settled_response.elims) blast+

lemma fn_ms_run: "clock_runs c (fn_host C) \<Longrightarrow> fn_ms C w = (r, w1) \<Longrightarrow> r = Inr (nas_time c w) \<and> nas_time c w \<le> nas_time c w1"
  by (auto simp: fn_ms_def perform_def clock_runs_def nas_time_def case_prod_beta)

lemma fn_sleep_run: "clock_runs c (fn_host C) \<Longrightarrow> 0 \<le> ms \<Longrightarrow> fn_sleep C ms w = (r, w1) \<Longrightarrow> nas_time c w + ms \<le> nas_time c w1"
  unfolding clock_runs_def
  by (auto simp: fn_sleep_def perform_def nas_time_def case_prod_beta dest: spec [of _ ms])

lemma job_round_run:
  assumes "clock_runs c (fn_host C)" and "web_keeps_time c C" and "lists_jobs C" and "0 < interval" and "0 < timeout"
    and "job_round C i timeout interval start job w = (Inr (j, b), w1)"
  shows "truthy j" and "nas_time c w \<le> start + 1000 * timeout" and "truthy job \<Longrightarrow> nas_time c w < nas_time c w1"
    and "b = job_finished (field j ''state'')"
proof -
  from assms(6) obtain t w2 w3 jobs w4 state where t: "fn_ms C w = (Inr t, w2)" "\<not> (timeout > 0 \<and> t > start + 1000 * timeout)"
    and s: "do_when (truthy job) (fn_sleep C interval) w2 = (Inr (), w3)"
    and q: "CoreGetJobs C [(''id'', i)] w3 = (Inr jobs, w1)" and f: "first_job jobs = Inr j" "getp j ''state'' = Inr state" "b = job_finished state"
    by (auto simp: job_round_def bind_Inr andthen_Inr throw_when_Inr lift_Inr ret_Inr)
  note ms = fn_ms_run [OF assms(1) t(1)]
  from q obtain st where q': "http_send C ''GET'' ''/core/get_jobs'' (Obj [(''id'', i)]) [] w3 = (Inr (st, jobs), w1)"
    by (auto simp: CoreGetJobs_def http_get_def ok_body_def bind_Inr ret_Inr throw_Inr split: if_splits)
  from http_send_answer [OF q'] f(1) assms(3) have "truthy j \<or> nullish j" unfolding lists_jobs_def by blast
  moreover have "\<not> nullish j" using f(2) by (cases j) (auto simp: getp_def)
  ultimately show "truthy j" by blast
  show "nas_time c w \<le> start + 1000 * timeout" using ms t(2) assms(5) by auto
  show "b = job_finished (field j ''state'')" using f(2,3) by (auto simp: getp_def field_def split: option.splits)
  assume "truthy job"
  with s have "fn_sleep C interval w2 = (Inr (), w3)" by (simp add: do_when_def)
  from fn_sleep_run [OF assms(1) _ this] assms(4) ms http_send_later [OF assms(2) q']
  show "nas_time c w < nas_time c w1" by linarith
qed

lemma job_rounds_settle:
  assumes "clock_runs c (fn_host C)" and "web_keeps_time c C" and "lists_jobs C" and "0 < interval" and "0 < timeout" and "truthy job"
  shows "\<exists>r w'. job_rounds C i timeout interval start job w = Some (r, w') \<and> (\<forall>j. r = Inr j \<longrightarrow> job_finished (field j ''state''))"
  using assms(6)
proof (induction "nat (start + 1000 * timeout + 1 - nas_time c w)" arbitrary: w job rule: less_induct)
  case less
  obtain r w1 where s: "job_round C i timeout interval start job w = (r, w1)" by force
  show ?case
  proof (cases r)
    case (Inl e)
    with s show ?thesis by (subst job_rounds.simps) simp
  next
    case (Inr jb)
    obtain j b where jb: "jb = (j, b)" by force
    note run = job_round_run [OF assms(1-5) s [unfolded Inr jb]]
    show ?thesis
    proof (cases b)
      case True
      with s Inr jb run(4) show ?thesis by (subst job_rounds.simps) simp
    next
      case False
      have "\<exists>r w'. job_rounds C i timeout interval start j w1 = Some (r, w') \<and> (\<forall>j. r = Inr j \<longrightarrow> job_finished (field j ''state''))"
        by (rule less.hyps) (use run(1,2) run(3) [OF less.prems] in auto)
      with s Inr jb False show ?thesis by (subst job_rounds.simps) simp
    qed
  qed
qed

lemma first_round_settles:
  assumes "clock_runs c (fn_host C)" and "web_keeps_time c C" and "lists_jobs C" and "0 < interval" and "0 < timeout"
  shows "\<exists>r w'. job_rounds C i timeout interval start job w = Some (r, w') \<and> (\<forall>j. r = Inr j \<longrightarrow> job_finished (field j ''state''))"
proof -
  obtain r w1 where s: "job_round C i timeout interval start job w = (r, w1)" by force
  show ?thesis
  proof (cases r)
    case (Inl e)
    with s show ?thesis by (subst job_rounds.simps) simp
  next
    case (Inr jb)
    obtain j b where jb: "jb = (j, b)" by force
    note run = job_round_run [OF assms s [unfolded Inr jb]]
    from job_rounds_settle [OF assms run(1)] s Inr jb run(4) show ?thesis
      by (subst job_rounds.simps) (cases b; simp)
  qed
qed

section \<open>Namespaces\<close>

lemma zvol_path_below: "\<exists>t. zvol_path zvol = ''zvol/'' @ t"
proof -
  have "starts_with b ''zvol/'' \<Longrightarrow> \<exists>t. b = ''zvol/'' @ t" for b
    unfolding starts_with_def by (metis append_take_drop_id)
  then show ?thesis by (simp add: zvol_path_def Let_def)
qed

lemma zvol_path_idem [simp]: "zvol_path (zvol_path zvol) = zvol_path zvol"
proof -
  obtain t where "zvol_path zvol = ''zvol/'' @ t" using zvol_path_below by blast
  moreover have "zvol_path (''zvol/'' @ t) = ''zvol/'' @ t" by (simp add: zvol_path_def starts_with_def Let_def)
  ultimately show ?thesis by simp
qed

text \<open>The appliance answered a request with this body, and without an error.\<close>

definition answered :: "'e freenas \<Rightarrow> string \<Rightarrow> string \<Rightarrow> jsobj \<Rightarrow> js \<Rightarrow> bool" where
  "answered C verb endpoint data body \<longleftrightarrow>
     (\<exists>v e x. e \<in> {endpoint, endpoint @ ''/''} \<and> fst (fn_web C (request_options C v verb e (Obj data) []) x) = Response 200 body)"

lemma http_send_answered: "http_send C verb endpoint (Obj data) [] w = (Inr (200, body), w1) \<Longrightarrow> answered C verb endpoint data body"
  unfolding answered_def
  by (auto simp: http_send_def getApiVersion_def bind_def perform_def case_prod_beta Let_def split: if_splits elim!: settled_response.elims) blast+

section \<open>Secrets\<close>

text \<open>The options that are logged, by the credentials that are configured.\<close>

definition logged_headers :: "jsobj \<Rightarrow> js" where
  "logged_headers auth =
     Obj ([(''Accept'', Str ''application/json''), (''User-Agent'', Str ''democratic-csi-driver''),
       (''Content-Type'', Str ''application/json'')] @ auth)"

definition logged_rest :: "'e freenas \<Rightarrow> js \<Rightarrow> string \<Rightarrow> string \<Rightarrow> js \<Rightarrow> jsobj" where
  "logged_rest C v verb endpoint data =
     [(''method'', Str verb), (''url'', Str (getBaseURL C v @ endpoint)), (if verb = ''GET'' then ''params'' else ''data'', data)]"

lemma request_options_run:
  assumes "getRequestCommonOptions C = common" and "fst ` set common \<inter> {''method'', ''url'', ''params'', ''data''} = {}"
  shows "request_options C v verb endpoint data [] = common @ logged_rest C v verb endpoint data"
  using assms by (auto simp: request_options_def logged_rest_def obj_set_new image_iff)

lemma logged_with_key:
  assumes "truthy (obj_get (fn_options C) ''apiKey'')"
  shows "logged_options (request_options C v verb endpoint data [])
    = (''headers'', logged_headers [(''Authorization'', Str ''redacted'')])
      # [(''responseType'', Str ''json''), (''timeout'', Num (IntN 60000))] @ logged_rest C v verb endpoint data"
proof -
  have c: "getRequestCommonOptions C = [(''headers'', logged_headers [(''Authorization'', Str (''Bearer '' @ to_str (obj_get (fn_options C) ''apiKey'')))]),
      (''responseType'', Str ''json''), (''timeout'', Num (IntN 60000))]"
    using assms by (simp add: getRequestCommonOptions_def logged_headers_def Let_def)
  show ?thesis unfolding request_options_run [OF c, simplified]
    by (simp add: logged_options_def redact_at_def logged_headers_def logged_rest_def obj_get_def obj_set_def field_def)
qed

lemma logged_with_auth:
  assumes "\<not> truthy (obj_get (fn_options C) ''apiKey'')" and "truthy (obj_get (fn_options C) ''username'')"
    and "truthy (obj_get (fn_options C) ''password'')"
  shows "logged_options (request_options C v verb endpoint data [])
    = (''headers'', logged_headers [])
      # [(''responseType'', Str ''json''), (''timeout'', Num (IntN 60000)),
         (''auth'', Obj [(''username'', Str ''redacted''), (''password'', Str ''redacted'')])] @ logged_rest C v verb endpoint data"
proof -
  have c: "getRequestCommonOptions C = [(''headers'', logged_headers []), (''responseType'', Str ''json''), (''timeout'', Num (IntN 60000)),
      (''auth'', Obj [(''username'', obj_get (fn_options C) ''username''), (''password'', obj_get (fn_options C) ''password'')])]"
    using assms by (simp add: getRequestCommonOptions_def logged_headers_def Let_def)
  show ?thesis unfolding request_options_run [OF c, simplified] using assms(2,3)
    by (simp add: logged_options_def redact_at_def logged_headers_def logged_rest_def obj_get_def [of "_ # _"] obj_set_def field_def)
qed

lemma logged_without:
  assumes "\<not> truthy (obj_get (fn_options C) ''apiKey'')"
    and "\<not> (truthy (obj_get (fn_options C) ''username'') \<and> truthy (obj_get (fn_options C) ''password''))"
  shows "logged_options (request_options C v verb endpoint data [])
    = (''headers'', logged_headers [])
      # [(''responseType'', Str ''json''), (''timeout'', Num (IntN 60000))] @ logged_rest C v verb endpoint data"
proof -
  have c: "getRequestCommonOptions C = [(''headers'', logged_headers []), (''responseType'', Str ''json''), (''timeout'', Num (IntN 60000))]"
    using assms by (auto simp: getRequestCommonOptions_def logged_headers_def Let_def)
  show ?thesis unfolding request_options_run [OF c, simplified]
    by (simp add: logged_options_def redact_at_def logged_headers_def logged_rest_def obj_get_def obj_set_def field_def)
qed

section \<open>Properties\<close>

text \<open>
  C33: a search over the pages of a listing is a search of the listing: when the appliance serves the
  pages of a list of distinct objects, the search ends and answers the first object with the properties,
  or undefined when there is none.
\<close>

theorem paged_search_is_search:
  assumes "serves C endpoint xs" and "distinct xs" and "\<forall>i \<in> set xs. \<exists>d. i = Obj d \<and> json_ok i"
    and "snd (ext w) = Num (IntN 2)" and "kvs \<noteq> []"
  shows "\<exists>w'. findResourceByProperties C endpoint (ByProperties kvs) w
    = Some (Inr (case find (has_all kvs) xs of None \<Rightarrow> Undef | Some i \<Rightarrow> i), w')"
proof -
  have r: "resource_matches (ByProperties kvs) = has_properties kvs" by (rule ext) simp
  have "\<forall>i \<in> set xs. json_ok i \<and> truthy i \<and> has_properties kvs i = Inr (has_all kvs i)"
    using assms(3) by (auto simp: has_properties_Obj)
  from search_from [OF assms(1,2) this assms(4), of None 0] assms(5) show ?thesis
    by (simp add: findResourceByProperties_def r)
qed


text \<open>
  C35: the wait for a job ends: when the clock is not set back, requests take no negative time and the jobs
  that are listed are objects, a wait with a timeout and an interval returns, and what it returns
  without an error is the job in a state that is final.
\<close>

theorem job_wait_ends:
  assumes "clock_runs c (fn_host C)" and "web_keeps_time c C" and "lists_jobs C" and "0 < interval" and "0 < timeout"
  shows "\<exists>r w'. CoreWaitForJob C job_id timeout interval w = Some (r, w') \<and> (\<forall>j. r = Inr j \<longrightarrow> job_finished (field j ''state''))"
proof (cases "truthy job_id")
  case True
  obtain r w1 where n: "fn_ms C w = (r, w1)" by force
  with fn_ms_run [OF assms(1) n] first_round_settles [OF assms] True show ?thesis
    by (simp add: CoreWaitForJob_def pbind_def total_def)
qed (simp add: CoreWaitForJob_def total_def throw_def)

text \<open>
  C34: a volume is never attached to the subsystem of another one: the namespace that is returned is the one
  that the appliance made for the device and the subsystem of the request, or one that it listed
  alone for this device and that belongs to this subsystem.
\<close>

theorem namespace_of_subsys:
  assumes "NvmetNamespaceCreate C zvol subsysId data w = (Inr n, w')"
  shows "(\<exists>d. answered C ''POST'' ''/nvmet/namespace'' d n
       \<and> obj_get d ''device_path'' = Str (zvol_path zvol) \<and> obj_get d ''subsys_id'' = subsysId)
    \<or> (answered C ''GET'' ''/nvmet/namespace'' [(''device_path'', Str (zvol_path zvol))] (Arr [n])
       \<and> loose_eq (namespace_subsys n) subsysId)"
proof -
  from assms obtain r w0 w1 where p: "http_send C ''POST'' ''/nvmet/namespace'' (Obj (obj_assign data [(''device_type'', Str ''ZVOL''),
        (''device_path'', Str (zvol_path zvol)), (''subsys_id'', subsysId)])) [] w0 = (Inr r, w1)"
    and rest: "(if fst r = 200 then ret (snd r)
     else bind (lift (refusal r ''already exists'')) (\<lambda>exists.
       bind (lift (refusal r ''already used by subsystem'')) (\<lambda>used.
       if \<not> exists \<and> \<not> used then throw (body_error (snd r))
       else bind (NvmetNamespaceGetByDeivcePath C (zvol_path zvol)) (\<lambda>n.
         andthen (throw_when (\<not> loose_eq (namespace_subsys n) subsysId) (foreign_namespace zvol n subsysId)) (ret n))))) w1 = (Inr n, w')"
    unfolding NvmetNamespaceCreate_def http_post_def bind_Inr andthen_Inr by blast
  show ?thesis
  proof (cases "fst r = 200")
    case True
    with p have "http_send C ''POST'' ''/nvmet/namespace'' (Obj (obj_assign data [(''device_type'', Str ''ZVOL''),
        (''device_path'', Str (zvol_path zvol)), (''subsys_id'', subsysId)])) [] w0 = (Inr (200, snd r), w1)" by (cases r) simp
    from http_send_answered [OF this] True rest show ?thesis
      by (intro disjI1 exI conjI) (auto simp: ret_Inr map_of_obj_assign obj_get_def simp del: obj_assign.simps)
  next
    case False
    with rest obtain w2 where g: "NvmetNamespaceGetByDeivcePath C (zvol_path zvol) w2 = (Inr n, w')" "loose_eq (namespace_subsys n) subsysId"
      by (auto simp: bind_Inr andthen_Inr throw_when_Inr lift_Inr throw_Inr ret_Inr split: if_splits)
    from g(1) obtain w3 where "http_send C ''GET'' ''/nvmet/namespace'' (Obj [(''device_path'', Str (zvol_path zvol))]) [] w3 = (Inr (200, Arr [n]), w')"
      by (auto simp: NvmetNamespaceGetByDeivcePath_def http_get_def bind_Inr andthen_Inr throw_Inr ret_Inr
          split: bool.splits js.splits list.splits)
    from http_send_answered [OF this] g(2) show ?thesis by blast
  qed
qed

text \<open>
  No credential reaches the log: what is logged of the options of a request is the same for any two
  configurations that differ only in the values of the user name, the password and the API key.
\<close>

theorem nas_credentials_not_logged:
  assumes "fn_serialize C' = fn_serialize C"
    and "\<And>k. k \<notin> {''apiKey'', ''username'', ''password''} \<Longrightarrow> obj_get (fn_options C') k = obj_get (fn_options C) k"
    and "\<And>k. k \<in> {''apiKey'', ''username'', ''password''} \<Longrightarrow> truthy (obj_get (fn_options C') k) = truthy (obj_get (fn_options C) k)"
  shows "logged_options (request_options C' v verb endpoint data []) = logged_options (request_options C v verb endpoint data [])"
proof -
  have "getBaseURL C' v = getBaseURL C v" using assms(1,2) by (simp add: getBaseURL_def server_protocol_def)
  then have rest: "logged_rest C' v verb endpoint data = logged_rest C v verb endpoint data" by (simp add: logged_rest_def)
  note t = assms(3) [of "''apiKey''"] assms(3) [of "''username''"] assms(3) [of "''password''"]
  show ?thesis
  proof (cases "truthy (obj_get (fn_options C) ''apiKey'')")
    case True
    with t rest logged_with_key [of C] logged_with_key [of C'] show ?thesis by simp
  next
    case False
    with t rest logged_with_auth [of C] logged_with_auth [of C'] logged_without [of C] logged_without [of C'] show ?thesis
      by (cases "truthy (obj_get (fn_options C) ''username'') \<and> truthy (obj_get (fn_options C) ''password'')") simp_all
  qed
qed

section \<open>Samples\<close>

text \<open>A listing of 150 targets that is served in pages, and a job that is finished at the first look.\<close>

definition sample_listing :: "js list" where
  "sample_listing = map (\<lambda>n. Obj [(''id'', Num (IntN (int n)))]) [0..<150]"

definition sample_page :: "jsobj \<Rightarrow> js" where
  "sample_page options =
     (case getps (Obj options) [''params'', ''offset''] of
        Inr (Num (IntN n)) \<Rightarrow> Arr (take 100 (drop (nat n) sample_listing)) | _ \<Rightarrow> Arr [])"

definition nas_sample :: "(jsobj \<Rightarrow> http_response) \<Rightarrow> jsobj \<Rightarrow> nat freenas" where
  "nas_sample web options =
     \<lparr>fn_host = ticking quiet_host, fn_options = options, fn_serialize = (\<lambda>_. ''http://nas''), fn_web = (\<lambda>o' x. (web o', x + 1)),
      fn_cache_get = (\<lambda>x. (Undef, x)), fn_cache_set = (\<lambda>_ x. x), fn_satisfies = (\<lambda>_ _. True)\<rparr>"

definition nas_start :: "(nat \<times> js) world" where
  "nas_start = \<lparr>ext = (0, Num (IntN 2)), hist = []\<rparr>"

lemma sample_serves: "serves (nas_sample (\<lambda>o'. Response 200 (sample_page o')) []) endpoint sample_listing"
proof -
  have "sample_page (request_options C v ''GET'' endpoint (page_params k) []) = Arr (take 100 (drop (100 * k) sample_listing))" for C :: "nat freenas" and v k
  proof -
    have "obj_get (request_options C v ''GET'' endpoint (page_params k) []) ''params'' = page_params k"
      by (simp add: request_options_def)
    then show ?thesis by (simp add: sample_page_def getp_def page_params_def obj_get_def [of "_ # _"] nat_mult_distrib)
  qed
  then show ?thesis by (simp add: serves_def nas_sample_def)
qed

lemma paged_search_is_search_witness:
  "\<exists>w'. findResourceByProperties (nas_sample (\<lambda>o'. Response 200 (sample_page o')) []) ''/iscsi/target'' (ByProperties [(''id'', Num (IntN 120))])
     nas_start = Some (Inr (Obj [(''id'', Num (IntN 120))]), w')"
proof -
  have "distinct sample_listing" by (simp add: sample_listing_def distinct_map inj_on_def)
  moreover have "\<forall>i \<in> set sample_listing. \<exists>d. i = Obj d \<and> json_ok i" by (auto simp: sample_listing_def)
  moreover have "find (has_all [(''id'', Num (IntN 120))]) sample_listing = Some (Obj [(''id'', Num (IntN 120))])" by code_simp
  ultimately show ?thesis
    using paged_search_is_search [OF sample_serves, of nas_start "[(''id'', Num (IntN 120))]"] by (simp add: nas_start_def)
qed

lemma job_wait_ends_witness:
  "\<exists>r w'. CoreWaitForJob (nas_sample (\<lambda>_. Response 200 (Arr [Obj [(''state'', Str ''RUNNING'')]])) []) (Num (IntN 7)) 30 3000 nas_start = Some (r, w')
     \<and> (\<forall>j. r = Inr j \<longrightarrow> job_finished (field j ''state''))"
  by (rule job_wait_ends [where c = int])
    (simp_all add: nas_sample_def ticking_clock web_keeps_time_def lists_jobs_def first_job_def)

definition namespace_web :: "jsobj \<Rightarrow> http_response" where
  "namespace_web o' =
     (if obj_get o' ''method'' = Str ''POST'' then Response 422 (Obj [(''message'', Str ''already used by subsystem: a'')])
      else if contains (to_str (obj_get o' ''url'')) ''version'' then Response 200 (Str ''TrueNAS-25.10.0'')
      else Response 200 (Arr [Obj [(''id'', Num (IntN 4)), (''subsys'', Obj [(''id'', Num (IntN 9))])]]))"

lemma namespace_run:
  "fst (NvmetNamespaceCreate (nas_sample namespace_web []) ''/dev/zvol/tank/a'' (Num (IntN 9)) [] nas_start)
    = Inr (Obj [(''id'', Num (IntN 4)), (''subsys'', Obj [(''id'', Num (IntN 9))])])"
  by code_simp

lemma namespace_of_subsys_witness:
  "answered (nas_sample namespace_web []) ''GET'' ''/nvmet/namespace'' [(''device_path'', Str (zvol_path ''/dev/zvol/tank/a''))]
     (Arr [Obj [(''id'', Num (IntN 4)), (''subsys'', Obj [(''id'', Num (IntN 9))])]])
   \<or> (\<exists>d. answered (nas_sample namespace_web []) ''POST'' ''/nvmet/namespace'' d (Obj [(''id'', Num (IntN 4)), (''subsys'', Obj [(''id'', Num (IntN 9))])]))"
  using namespace_of_subsys [OF run_fst [OF namespace_run]] by blast

lemma nas_credentials_not_logged_witness:
  "logged_options (request_options (nas_sample namespace_web [(''username'', Str ''root''), (''password'', Str ''secret'')]) Undef ''GET'' ''/'' Undef [])
   = logged_options (request_options (nas_sample namespace_web [(''username'', Str ''admin''), (''password'', Str ''hunter2'')]) Undef ''GET'' ''/'' Undef [])"
  by (rule nas_credentials_not_logged) (auto simp: nas_sample_def obj_get_def)

end
