(* ===== verification/Inline_Drivers.thy ===== *)
theory Inline_Drivers
  imports Objectivefs_Controller Node_Publish
begin

text \<open>
  The drivers without a controller: \<open>src/driver/zfs-local-ephemeral-inline/index.js\<close> and
  \<open>src/driver/ephemeral-inline-containerd-oci/index.js\<close> make the volume of a pod when it is published, with
  \<open>src/utils/ctr.js\<close> for containerd, and \<open>src/driver/node-manual/index.js\<close> only runs the node service. The
  package that parses image references and the calls of \<open>fs\<close> that make and remove directories are
  parameters; Windows is not modelled.
\<close>

section \<open>Capabilities\<close>

definition inline_node_rpcs :: "(string \<Rightarrow> bool) \<Rightarrow> string list" where
  "inline_node_rpcs satisfies = [''GET_VOLUME_STATS''] @ (if satisfies ''>=1.5.0'' then [''SINGLE_NODE_MULTI_WRITER''] else [])"

definition inline_service_options :: "(string \<Rightarrow> bool) \<Rightarrow> jsobj \<Rightarrow> jsobj" where
  "inline_service_options satisfies options =
     (let service = inner_obj (obj_get options ''service'');
          icaps = default_list ''volume_expansion'' [''UNKNOWN''] (default_list ''service'' [''UNKNOWN''] (caps_of ''identity'' service));
          ccaps = default_list ''rpc'' [] (caps_of ''controller'' service);
          ncaps = default_list ''rpc'' (inline_node_rpcs satisfies) (caps_of ''node'' service)
      in obj_set ''service'' (Obj (with_caps ''node'' ncaps (with_caps ''controller'' ccaps (with_caps ''identity'' icaps service)))) options)"

definition manual_node_rpcs :: "(string \<Rightarrow> bool) \<Rightarrow> string list" where
  "manual_node_rpcs satisfies =
     [''STAGE_UNSTAGE_VOLUME'', ''GET_VOLUME_STATS''] @ (if satisfies ''>=1.5.0'' then [''SINGLE_NODE_MULTI_WRITER''] else [])"

definition manual_service_options :: "(string \<Rightarrow> bool) \<Rightarrow> jsobj \<Rightarrow> jsobj" where
  "manual_service_options satisfies options =
     (let service = inner_obj (obj_get options ''service'');
          icaps = default_list ''volume_expansion'' [] (default_list ''service'' [] (caps_of ''identity'' service));
          ccaps = default_list ''rpc'' [] (caps_of ''controller'' service);
          ncaps = default_list ''rpc'' (manual_node_rpcs satisfies) (caps_of ''node'' service)
      in obj_set ''service'' (Obj (with_caps ''node'' ncaps (with_caps ''controller'' ccaps (with_caps ''identity'' icaps service)))) options)"

definition single_node_modes :: "string list" where
  "single_node_modes =
     [''UNKNOWN'', ''SINGLE_NODE_WRITER'', ''SINGLE_NODE_SINGLE_WRITER'', ''SINGLE_NODE_MULTI_WRITER'', ''SINGLE_NODE_READER_ONLY'']"

text \<open>\<open>v && v.length > 0\<close>\<close>

fun has_length :: "js \<Rightarrow> bool" where
  "has_length (Arr xs) = (xs \<noteq> [])"
| "has_length (Str s) = (s \<noteq> [])"
| "has_length _ = False"

definition mode_message :: "string list \<Rightarrow> js \<Rightarrow> exn + msg option" where
  "mode_message modes capability =
     ebind (getps capability [''access_mode'', ''mode'']) (\<lambda>mode.
     Inr (if mode \<in> set (map Str modes) then None else Some (''invalid access_mode, '' @ to_str mode)))"

text \<open>An inline volume is mounted without flags, with one of the types of filesystems that are given.\<close>

definition inline_check :: "string list \<Rightarrow> js \<Rightarrow> exn + msg option" where
  "inline_check fs_types capability =
     ebind (getp capability ''access_type'') (\<lambda>t.
     if \<not> loose_eq t (Str ''mount'') then Inr (Some (''invalid access_type '' @ to_str t))
     else ebind (getps capability [''mount'', ''fs_type'']) (\<lambda>f.
       if truthy f \<and> f \<notin> set (map Str fs_types) then Inr (Some (''invalid fs_type '' @ to_str f))
       else ebind (getps capability [''mount'', ''mount_flags'']) (\<lambda>flags.
         if has_length flags then Inr (Some (''invalid mount_flags '' @ to_str flags))
         else mode_message single_node_modes capability)))"

fun inline_every_capability :: "(js \<Rightarrow> exn + msg option) \<Rightarrow> js list \<Rightarrow> exn + bool \<times> js" where
  "inline_every_capability f [] = Inr (True, Null)"
| "inline_every_capability f (c # cs) = ebind (f c) (\<lambda>r. case r of None \<Rightarrow> inline_every_capability f cs | Some m \<Rightarrow> Inr (False, Str m))"

definition inline_assertCapabilities :: "string list \<Rightarrow> js \<Rightarrow> exn + bool \<times> js" where
  "inline_assertCapabilities fs_types capabilities =
     (case capabilities of Arr cs \<Rightarrow> inline_every_capability (inline_check fs_types) cs | _ \<Rightarrow> Inl (type_error ''every''))"

definition assert_capability :: "string list \<Rightarrow> js \<Rightarrow> exn + unit" where
  "assert_capability fs_types capability =
     (if \<not> truthy capability then Inr ()
      else ebind (inline_assertCapabilities fs_types (Arr [capability])) (\<lambda>(valid, m).
        if valid then Inr () else Inl (GrpcError INVALID_ARGUMENT (to_str m))))"

definition inline_ValidateVolumeCapabilities :: "string list \<Rightarrow> jsobj \<Rightarrow> exn + js" where
  "inline_ValidateVolumeCapabilities fs_types req =
     ebind (inline_assertCapabilities fs_types (obj_get req ''volume_capabilities'')) (\<lambda>(valid, m).
     Inr (if \<not> valid then Obj [(''message'', m)]
          else Obj [(''confirmed'', Obj [(''volume_context'', obj_get req ''volume_context''),
                (''volume_capabilities'', obj_get req ''volume_capabilities''), (''parameters'', obj_get req ''parameters'')])]))"

section \<open>The node-manual driver\<close>

text \<open>What kind of resource is attached, its types of filesystems and the access modes that are set at first.\<close>

definition block_fs_types :: "string list" where
  "block_fs_types = [''btrfs'', ''ext3'', ''ext4'', ''ext4dev'', ''xfs'']"

definition manual_kind :: "js \<Rightarrow> (bool \<times> string list \<times> string list) option" where
  "manual_kind attach =
     (if attach = Str ''nfs'' then Some (False, [''nfs''], [])
      else if attach = Str ''smb'' then Some (False, [''cifs''], [])
      else if attach = Str ''lustre'' then Some (False, [''lustre''], [])
      else if attach = Str ''objectivefs'' then Some (False, [''objectivefs'', ''fuse.objectivefs''], [])
      else if attach = Str ''oneclient'' then Some (False, [''oneclient'', ''fuse.oneclient''], [])
      else if attach = Str ''hostpath'' then Some (False, [], [])
      else if attach = Str ''iscsi'' \<or> attach = Str ''nvmeof'' then Some (True, block_fs_types, [])
      else if attach = Str ''zfs-local'' then Some (True, block_fs_types @ [''zfs''], single_node_modes)
      else None)"

definition multi_node_modes :: "bool \<Rightarrow> string list" where
  "multi_node_modes block =
     single_node_modes @ [''MULTI_NODE_READER_ONLY'', ''MULTI_NODE_SINGLE_WRITER'']
       @ (if block then [] else [''MULTI_NODE_MULTI_WRITER''])"

text \<open>The list of access modes is filled at the first capability and grows at every block capability.\<close>

definition grown_modes :: "bool \<Rightarrow> string list \<Rightarrow> js \<Rightarrow> string list" where
  "grown_modes block modes t =
     (let ms = (if modes = [] then multi_node_modes block else modes) in
      if loose_eq t (Str ''block'') \<and> ''MULTI_NODE_MULTI_WRITER'' \<notin> set ms then ms @ [''MULTI_NODE_MULTI_WRITER''] else ms)"

definition manual_check :: "bool \<Rightarrow> string list \<Rightarrow> string list \<Rightarrow> js \<Rightarrow> js \<Rightarrow> exn + msg option" where
  "manual_check block fs_types modes t capability =
     (if \<not> block \<and> \<not> loose_eq t (Str ''mount'') then Inr (Some (''invalid access_type '' @ to_str t))
      else ebind (if loose_eq t (Str ''mount'') then getps capability [''mount'', ''fs_type''] else Inr Undef) (\<lambda>f.
        if truthy f \<and> f \<notin> set (map Str fs_types) then Inr (Some (''invalid fs_type '' @ to_str f))
        else mode_message modes capability))"

fun manual_every :: "bool \<Rightarrow> string list \<Rightarrow> string list \<Rightarrow> js list \<Rightarrow> exn + bool \<times> js" where
  "manual_every block fs_types modes [] = Inr (True, Null)"
| "manual_every block fs_types modes (c # cs) =
     ebind (getp c ''access_type'') (\<lambda>t.
     let ms = grown_modes block modes t in
     ebind (manual_check block fs_types ms t c) (\<lambda>r.
       case r of None \<Rightarrow> manual_every block fs_types ms cs | Some m \<Rightarrow> Inr (False, Str m)))"

definition manual_assertCapabilities :: "js \<Rightarrow> js \<Rightarrow> exn + bool \<times> js" where
  "manual_assertCapabilities capabilities attach =
     (case manual_kind attach of
        None \<Rightarrow> Inr (False, Str (''unknown node_attach_driver: '' @ to_str attach))
      | Some (block, fs_types, modes) \<Rightarrow>
          (case capabilities of Arr cs \<Rightarrow> manual_every block fs_types modes cs | _ \<Rightarrow> Inl (type_error ''every'')))"

text \<open>Every call of the controller.\<close>

definition manual_unsupported :: exn where
  "manual_unsupported = GrpcError UNIMPLEMENTED ''operation not supported by driver''"

section \<open>Datasets for pods\<close>

record 'e inline_driver =
  il_node :: "'e node_driver"
  il_zb :: "'e zetabyte"
  il_parse :: "string \<Rightarrow> exn + js \<times> js \<times> string"
  il_mkdir :: "string \<Rightarrow> 'e \<Rightarrow> (exn + unit) \<times> 'e"
  il_rm :: "string \<Rightarrow> 'e \<Rightarrow> (exn + unit) \<times> 'e"

definition il_options :: "'e inline_driver \<Rightarrow> jsobj" where
  "il_options D = nd_options (il_node D)"

definition inline_zetabyte_options :: "'e node_driver \<Rightarrow> exn + jsobj" where
  "inline_zetabyte_options N =
     ebind (getps (Obj (nd_options N)) [''zfs'', ''chroot'']) (\<lambda>chroot.
     let container = (ho_env (nd_host N) ''DEMOCRATIC_CSI_IS_CONTAINER'' = Some ''true'');
         paths = (if container then [(''zpool'', Str ''/usr/local/bin/zpool''), (''zfs'', Str ''/usr/local/bin/zfs'')]
                  else [(''zpool'', Str ''/usr/sbin/zpool''), (''zfs'', Str ''/usr/sbin/zfs'')])
     in Inr ([(''idempotent'', Bool True)] @ (if container then [] else [(''chroot'', chroot)])
          @ [(''paths'', Obj (obj_assign paths (entries (node_opt N ''zfs.cli.paths'' (Obj [])))))]))"

definition inline_parent :: "'e inline_driver \<Rightarrow> exn + string" where
  "inline_parent D =
     ebind (getps (Obj (il_options D)) [''zfs'', ''datasetParentName'']) (\<lambda>v. ebind (as_string v) (\<lambda>s.
     Inr (strip_slash (strip_slash s @ ''/v''))))"

definition required :: "js \<Rightarrow> msg \<Rightarrow> exn + unit" where
  "required v m = (if truthy v then Inr () else Inl (GrpcError INVALID_ARGUMENT (m @ '' is required'')))"

text \<open>The properties of the pod, which every other one overrides.\<close>

definition pod_properties :: "js \<Rightarrow> exn + jsobj" where
  "pod_properties volume_context =
     (if nullish volume_context then Inl (type_error ''Cannot convert undefined or null to object'')
      else Inr (fold (\<lambda>(k, v) ob. if starts_with k ''property.'' then obj_set (drop 9 k) v ob else ob) (entries volume_context) []))"

definition standard_properties :: "'e inline_driver \<Rightarrow> js \<Rightarrow> js \<Rightarrow> js \<Rightarrow> jsobj" where
  "standard_properties D name target_path readonly =
     [(''democratic-csi:csi_volume_name'', name), (''democratic-csi:managed_resource'', Str ''true''),
      (''democratic-csi:volume_context_provisioner_driver'', obj_get (il_options D) ''driver'')]
     @ (if truthy (obj_get (il_options D) ''instance_id'')
        then [(''democratic-csi:volume_context_provisioner_instance_id'', obj_get (il_options D) ''instance_id'')] else [])
     @ [(''democratic-csi:provision_success'', Str ''true''), (''mountpoint'', target_path)]
     @ (if truthy readonly then [(''readonly'', Str ''on'')] else [])"

text \<open>A configured property is set when nothing set it, or when it says that it must not be overridden.\<close>

definition configured_property :: "jsobj \<Rightarrow> string \<times> js \<Rightarrow> exn + jsobj" where
  "configured_property ob kv =
     (case kv of (k, c) \<Rightarrow>
        ebind (getp c ''value'') (\<lambda>v.
        case c of
          Obj members \<Rightarrow>
            let override = (if obj_has members ''allowOverride'' then truthy (obj_get members ''allowOverride'') else True)
            in Inr (if \<not> override \<or> \<not> obj_has ob k then obj_set k v ob else ob)
        | Arr _ \<Rightarrow> Inr (if \<not> obj_has ob k then obj_set k v ob else ob)
        | _ \<Rightarrow> Inl (type_error ''Cannot use in operator'')))"

definition inline_properties :: "'e inline_driver \<Rightarrow> jsobj \<Rightarrow> exn + jsobj" where
  "inline_properties D req =
     ebind (pod_properties (obj_get req ''volume_context'')) (\<lambda>pod.
     ebind (getps (Obj (il_options D)) [''zfs'', ''properties'']) (\<lambda>configured.
     efold configured_property
       (obj_assign pod (standard_properties D (obj_get req ''volume_id'') (obj_get req ''target_path'') (obj_get req ''readonly'')))
       (if truthy configured then entries configured else [])))"

definition inline_dataset :: "'e inline_driver \<Rightarrow> jsobj \<Rightarrow> exn + string" where
  "inline_dataset D req =
     ebind (inline_parent D) (\<lambda>parent.
     ebind (required (obj_get req ''volume_id'') ''volume_id'') (\<lambda>_.
     ebind (required (obj_get req ''target_path'') ''target_path'') (\<lambda>_.
     Inr (parent @ ''/'' @ to_str (obj_get req ''volume_id'')))))"

definition inline_NodePublishVolume :: "'e inline_driver \<Rightarrow> jsobj \<Rightarrow> ('e world, js) io" where
  "inline_NodePublishVolume D req =
     (let capability = obj_get req ''volume_capability'' in
      bind (lift (getp capability ''access_type'')) (\<lambda>_.
      bind (lift (inline_dataset D req)) (\<lambda>datasetName.
      bind (lift (assert_capability [''zfs''] capability)) (\<lambda>_.
      bind (lift (inline_properties D req)) (\<lambda>ps.
      bind (zfs_create (il_zb D) 2 datasetName [(''parents'', Bool True), (''properties'', Obj ps)]) (\<lambda>_.
      ret (Obj [])))))))"

definition remove_published :: "'e inline_driver \<Rightarrow> string \<Rightarrow> ('e world, unit) io" where
  "remove_published D target =
     (let filesystem = getDefaultFilesystemInstance (il_node D) in
      bind (pathExists filesystem target) (\<lambda>e.
      do_when e
        (bind (is_directory (il_node D) target) (\<lambda>dir.
         if dir then bind (rmdir filesystem target []) (\<lambda>_. ret ()) else rm filesystem [target]))))"

definition inline_NodeUnpublishVolume :: "'e inline_driver \<Rightarrow> jsobj \<Rightarrow> ('e world, js) io" where
  "inline_NodeUnpublishVolume D req =
     bind (lift (inline_dataset D req)) (\<lambda>datasetName.
     bind (catch (zfs_destroy (il_zb D) 2 datasetName [(''recurse'', Bool True), (''force'', Bool True)])
       (\<lambda>e. if err_has e ''filesystem has dependent clones''
            then throw (GrpcError FAILED_PRECONDITION ''filesystem has dependent clones'') else throw e)) (\<lambda>_.
     bind (lift (as_string (obj_get req ''target_path''))) (\<lambda>target.
     andthen (remove_published D target) (ret (Obj [])))))"

definition inline_GetCapacity :: "'e inline_driver \<Rightarrow> jsobj \<Rightarrow> ('e world, js) io" where
  "inline_GetCapacity D req =
     bind (lift (inline_parent D)) (\<lambda>datasetName.
     bind (if truthy (obj_get req ''volume_capabilities'')
           then lift (inline_assertCapabilities [''zfs''] (obj_get req ''volume_capabilities'')) else ret (True, Null)) (\<lambda>(valid, _).
     if \<not> valid then ret (Obj [(''available_capacity'', Num (IntN 0))])
     else bind (zfs_get (il_zb D) 2 datasetName (Arr [Str ''avail'']) []) (\<lambda>r.
       bind (lift (getps (get_js r) [datasetName, ''available'', ''value''])) (\<lambda>v. ret (Obj [(''available_capacity'', v)])))))"

section \<open>containerd\<close>

record 'e ctr =
  ct_options :: jsobj
  ct_host :: "'e host"

definition ctr_options :: "jsobj \<Rightarrow> jsobj" where
  "ctr_options options =
     (let paths = inner_obj (obj_get options ''paths'');
          a = (if truthy (obj_get paths ''ctr'') then paths else obj_set ''ctr'' (Str ''ctr'') paths);
          b = (if truthy (obj_get a ''sudo'') then a else obj_set ''sudo'' (Str ''/usr/bin/sudo'') a)
      in obj_assign options [(''containerd'', or_else (obj_get options ''containerd'') (Obj [])), (''paths'', Obj b),
           (''env'', or_else (obj_get options ''env'') (Obj []))])"

definition new_ctr :: "jsobj \<Rightarrow> 'e host \<Rightarrow> 'e ctr" where
  "new_ctr options H = \<lparr>ct_options = ctr_options options, ct_host = H\<rparr>"

definition ctr_env :: "'e ctr \<Rightarrow> jsobj" where
  "ctr_env C =
     (let containerd = obj_get (ct_options C) ''containerd''; address = field containerd ''address''; ns = field containerd ''namespace'';
          env = inner_obj (obj_get (ct_options C) ''env'');
          a = (if truthy address then obj_set ''CONTAINERD_ADDRESS'' address env else env);
          b = (if truthy ns then obj_set ''CONTAINERD_NAMESPACE'' ns a else a)
      in obj_set ''PATH'' (case ho_env (ct_host C) ''PATH'' of None \<Rightarrow> Undef | Some p \<Rightarrow> Str p) b)"

text \<open>The result and what its output is as JSON, undefined when it is none.\<close>

definition ctr_exec :: "'e ctr \<Rightarrow> string list \<Rightarrow> ('e world, exec_result \<times> js) io" where
  "ctr_exec C args =
     (let (c, a) = sudo_command (ct_options C) (to_str (field (obj_get (ct_options C) ''paths'') ''ctr'')) args in
      bind (host_spawn (ct_host C) c a [(''env'', Obj (ctr_env C))]) (\<lambda>r. case r of
          SpawnFailed m \<Rightarrow> throw (Uncaught m)
        | Closed code out err killed \<Rightarrow>
            bind (settle_closed code out err) (\<lambda>res. ret (res, case json_parse_str out of Inl _ \<Rightarrow> Undef | Inr v \<Rightarrow> v))))"

definition ctr_info :: "'e ctr \<Rightarrow> ('e world, js) io" where
  "ctr_info C = bind (ctr_exec C [''info'']) (\<lambda>(r, parsed). ret parsed)"

definition imagePull :: "'e ctr \<Rightarrow> string \<Rightarrow> string list \<Rightarrow> ('e world, js) io" where
  "imagePull C img args = bind (ctr_exec C ([''images'', ''pull''] @ args @ [img])) (\<lambda>(r, parsed). ret parsed)"

definition imageMount :: "'e ctr \<Rightarrow> string \<Rightarrow> string \<Rightarrow> string list \<Rightarrow> ('e world, exec_result \<times> js) io" where
  "imageMount C img target args = ctr_exec C ([''images'', ''mount''] @ args @ [img, target])"

definition imageUnmount :: "'e ctr \<Rightarrow> string \<Rightarrow> string list \<Rightarrow> ('e world, exec_result \<times> js) io" where
  "imageUnmount C target args = ctr_exec C ([''images'', ''unmount''] @ args @ [target])"

definition imageInspect :: "'e ctr \<Rightarrow> string \<Rightarrow> string list \<Rightarrow> ('e world, exec_result \<times> js) io" where
  "imageInspect C img args = ctr_exec C ([''images'', ''inspect''] @ args @ [img])"

definition snapshot_list :: "'e ctr \<Rightarrow> string list \<Rightarrow> ('e world, exec_result \<times> js) io" where
  "snapshot_list C args = ctr_exec C ([''snapshot'', ''list''] @ args)"

definition snapshot_delete :: "'e ctr \<Rightarrow> string \<Rightarrow> ('e world, exec_result \<times> js) io" where
  "snapshot_delete C key = ctr_exec C [''snapshot'', ''delete'', key]"

section \<open>Images for pods\<close>

definition getCTR :: "'e inline_driver \<Rightarrow> 'e ctr" where
  "getCTR D = new_ctr (inner_obj (node_opt (il_node D) ''containerd'' (Obj []))) (nd_host (il_node D))"

definition exists_sync :: "'e inline_driver \<Rightarrow> string \<Rightarrow> ('e world, bool) io" where
  "exists_sync D p = perform (EvHost ''exists'' p) (\<lambda>e. case ho_stat (nd_host (il_node D)) p e of (r, e') \<Rightarrow> (Inr (r = None), e'))"

definition mkdir_sync :: "'e inline_driver \<Rightarrow> string \<Rightarrow> ('e world, unit) io" where
  "mkdir_sync D p = perform (EvDriver ''mkdirSync'' p) (il_mkdir D p)"

definition rm_sync :: "'e inline_driver \<Rightarrow> string \<Rightarrow> ('e world, unit) io" where
  "rm_sync D p = perform (EvDriver ''rmSync'' p) (il_rm D p)"

text \<open>A repository without a tag is that of its latest image.\<close>

definition image_reference :: "'e inline_driver \<Rightarrow> string \<Rightarrow> exn + js \<times> js \<times> string" where
  "image_reference D reference =
     ebind (il_parse D reference) (\<lambda>p.
     if fst p = Str ''repository'' then il_parse D (reference @ '':latest'') else Inr p)"

definition pull_policy :: "js \<Rightarrow> js \<times> js \<times> string \<Rightarrow> string" where
  "pull_policy policy p =
     (if truthy policy then to_str policy
      else case p of (t, tag, _) \<Rightarrow>
        if loose_eq t (Str ''tagged'') \<and> loose_eq tag (Str ''latest'') then ''Always'' else ''IfNotPresent'')"

definition needs_pull :: "'e inline_driver \<Rightarrow> string \<Rightarrow> string \<Rightarrow> ('e world, bool) io" where
  "needs_pull D policy img =
     (let p = to_lower policy in
      if p = ''never'' then ret False
      else if p = ''ifnotpresent'' then catch (bind (imageInspect (getCTR D) img []) (\<lambda>_. ret False)) (\<lambda>_. ret True)
      else ret True)"

definition snapshot_labels :: "jsobj \<Rightarrow> (string \<times> js) list" where
  "snapshot_labels volume_context =
     fold (\<lambda>(k, v) ob. if starts_with k ''snapshot.label.'' then obj_set (drop 15 k) v ob else ob) volume_context []"

definition mount_image :: "'e inline_driver \<Rightarrow> jsobj \<Rightarrow> string \<Rightarrow> string \<Rightarrow> ('e world, unit) io" where
  "mount_image D volume_context reference target =
     (let ctx = obj_get volume_context; platform = flag_value (ctx ''image.platform'') ''--platform'' in
      bind (lift (image_reference D reference)) (\<lambda>p.
      let img = snd (snd p) in
      bind (needs_pull D (pull_policy (ctx ''image.pullPolicy'') p) img) (\<lambda>pull.
      andthen (do_when pull (bind (imagePull (getCTR D) img (platform @ flag_value (ctx ''image.user'') ''--user'')) (\<lambda>_. ret ())))
     (bind (imageMount (getCTR D) img target
         (platform @ concat (map (\<lambda>(k, v). [''--label'', k @ ''='' @ to_str v]) (snapshot_labels volume_context)) @ [''--rw''])) (\<lambda>_.
      ret ())))))"

definition oci_NodePublishVolume :: "'e inline_driver \<Rightarrow> jsobj \<Rightarrow> ('e world, js) io" where
  "oci_NodePublishVolume D req =
     (let capability = obj_get req ''volume_capability''; volume_context = obj_get req ''volume_context'';
          ctx = entries volume_context; reference = obj_get ctx ''image.reference'' in
      bind (lift (getp capability ''access_type'')) (\<lambda>_.
      andthen (throw_when (nullish volume_context) (type_error ''Cannot convert undefined or null to object''))
     (bind (lift (required reference ''image.reference'')) (\<lambda>_.
      bind (lift (required (obj_get req ''volume_id'') ''volume_id'')) (\<lambda>_.
      bind (lift (required (obj_get req ''target_path'') ''target_path'')) (\<lambda>_.
      bind (lift (assert_capability [] capability)) (\<lambda>_.
      bind (lift (as_string (obj_get req ''target_path''))) (\<lambda>target.
      bind (exists_sync D target) (\<lambda>there.
      andthen (do_when (\<not> there) (mkdir_sync D target))
     (bind (pathIsMounted (getDefaultMountInstance (il_node D)) target) (\<lambda>mounted.
      andthen (do_when (\<not> mounted) (mount_image D ctx (to_str reference) target)) (ret (Obj [])))))))))))))"

definition oci_NodeUnpublishVolume :: "'e inline_driver \<Rightarrow> jsobj \<Rightarrow> ('e world, js) io" where
  "oci_NodeUnpublishVolume D req =
     bind (lift (required (obj_get req ''volume_id'') ''volume_id'')) (\<lambda>_.
     bind (lift (required (obj_get req ''target_path'') ''target_path'')) (\<lambda>_.
     bind (lift (as_string (obj_get req ''target_path''))) (\<lambda>target.
     bind (imageUnmount (getCTR D) target []) (\<lambda>_.
     andthen (catch (bind (snapshot_delete (getCTR D) target) (\<lambda>_. ret ()))
       (\<lambda>e. case err_stderr e of
              None \<Rightarrow> throw (type_error ''includes'')
            | Some s \<Rightarrow> if contains s ''does not exist'' then ret () else throw e))
    (bind (exists_sync D target) (\<lambda>there.
     bind (if there then is_directory (il_node D) target else ret False) (\<lambda>dir.
     andthen (do_when dir (rm_sync D target)) (ret (Obj [])))))))))"

text \<open>The code calls a method that only the driver for datasets has.\<close>

definition oci_GetCapacity :: "exn + js" where
  "oci_GetCapacity = Inl (type_error ''this.getZetabyte is not a function'')"

end
