(* ===== verification/Inline_Properties.thy ===== *)
theory Inline_Properties
  imports Inline_Drivers Histories
begin

text \<open>
  What the drivers for inline volumes guarantee: what an unpublish removes and when, and which of the
  properties of a dataset wins.
\<close>

section \<open>The end of a volume\<close>

lemma hist_zfs_destroy:
  "zfs_destroy Z 2 d opts w = (r, w') \<Longrightarrow> hist w' = hist w @ [zfs_event Z (destroy_args d opts)]"
  by (auto simp: zfs_destroy_def zfs_run_outcome zfs_event_def Let_def case_prod_beta)

lemma destroy_refused:
  "m w = (Inl e, w1) \<Longrightarrow>
     bind (catch m (\<lambda>e. if B e then throw (E e) else throw e)) f w = (Inl (if catchable e \<and> B e then E e else e), w1)"
  by (simp add: bind_def catch_def throw_def)

lemma destroy_passed: "m w = (Inr x, w1) \<Longrightarrow> bind (catch m h) f w = f x w1"
  by (simp add: bind_def catch_def)

lemma adds_remove_published:
  assumes "\<And>ev. query ev \<Longrightarrow> P ev" and "P (EvSpawn ''rmdir'' [target])" and "P (EvSpawn ''rm'' [target])"
  shows "adds P (remove_published D target)"
  unfolding remove_published_def is_directory_def rm_def rmdir_def Let_def
  using assms(2,3) by (auto intro!: wp_intro intro: assms(1))

definition ctr_event :: "'e ctr \<Rightarrow> string list \<Rightarrow> event" where
  "ctr_event C args =
     (case sudo_command (ct_options C) (to_str (field (obj_get (ct_options C) ''paths'') ''ctr'')) args of (c, a) \<Rightarrow> EvSpawn c a)"

lemma emits_ctr_exec: "ctr_exec C args w = (r, w') \<Longrightarrow> hist w' = hist w @ [ctr_event C args]"
  by (auto simp: ctr_exec_def ctr_event_def bind_def host_spawn_def perform_def settle_closed_def throw_def ret_def Let_def
      split: prod.splits spawn_out.splits option.splits sum.splits if_splits)

lemma adds_ctr_exec [wp_intro]: "P (ctr_event C args) \<Longrightarrow> adds P (ctr_exec C args)"
  by (auto simp: adds_def intro!: exI [of _ "[ctr_event C args]"] emits_ctr_exec [OF prod.collapse [symmetric]])

text \<open>The directory of an image is removed only after it was unmounted without an error.\<close>

lemma oci_unpublish_scope:
  assumes "oci_NodeUnpublishVolume D req w = (r, w')" and "obj_get req ''target_path'' = Str target"
  shows "hist w' = hist w \<or> (\<exists>es. hist w' = hist w @ ctr_event (getCTR D) [''images'', ''unmount'', target] # es
    \<and> list_all (\<lambda>ev. query ev \<or> ev = ctr_event (getCTR D) [''snapshot'', ''delete'', target] \<or> ev = EvDriver ''rmSync'' target) es
    \<and> (es \<noteq> [] \<longrightarrow> (\<exists>x w1. imageUnmount (getCTR D) target [] w = (Inr x, w1))))"
proof (cases "truthy (obj_get req ''volume_id'') \<and> truthy (obj_get req ''target_path'')")
  case False
  with assms show ?thesis
    by (auto simp: oci_NodeUnpublishVolume_def required_def bind_def lift_def split: if_splits)
next
  case True
  let ?P = "\<lambda>ev. query ev \<or> ev = ctr_event (getCTR D) [''snapshot'', ''delete'', target] \<or> ev = EvDriver ''rmSync'' target"
  let ?rest = "andthen (catch (bind (snapshot_delete (getCTR D) target) (\<lambda>_. ret ()))
       (\<lambda>e. case err_stderr e of
              None \<Rightarrow> throw (type_error ''includes'')
            | Some s \<Rightarrow> if contains s ''does not exist'' then ret () else throw e))
    (bind (exists_sync D target) (\<lambda>there.
     bind (if there then is_directory (il_node D) target else ret False) (\<lambda>dir.
     andthen (do_when dir (rm_sync D target)) (ret (Obj [])))))"
  have rest: "adds ?P ?rest"
    unfolding snapshot_delete_def exists_sync_def is_directory_def rm_sync_def by (auto intro!: wp_intro)
  have run: "bind (imageUnmount (getCTR D) target []) (\<lambda>_. ?rest) w = (r, w')"
    using assms True by (simp add: oci_NodeUnpublishVolume_def required_def bind_lift_Inr as_string_def)
  obtain u w1 where u: "imageUnmount (getCTR D) target [] w = (u, w1)" by force
  then have h: "hist w1 = hist w @ [ctr_event (getCTR D) [''images'', ''unmount'', target]]"
    by (simp add: imageUnmount_def emits_ctr_exec)
  show ?thesis
  proof (cases u)
    case (Inl e)
    with run u h show ?thesis by (auto simp: bind_def)
  next
    case (Inr x)
    with run u have "?rest w1 = (r, w')" by (simp add: bind_fst_Inr)
    with addsD [OF rest, of w1] h u Inr show ?thesis by auto
  qed
qed

section \<open>Which property wins\<close>

definition protected :: "js \<Rightarrow> bool" where
  "protected c = (case c of Obj m \<Rightarrow> obj_has m ''allowOverride'' \<and> \<not> truthy (obj_get m ''allowOverride'') | _ \<Rightarrow> False)"

lemma configured_property_run:
  "configured_property ob (k, c) = Inr ob'
     \<Longrightarrow> ob' = (if protected c \<or> map_of ob k = None then obj_set k (field c ''value'') ob else ob)"
  by (auto simp: configured_property_def protected_def ebind_def getp_def field_def obj_has_def Let_def
      split: js.splits option.splits if_splits)

lemma configured_properties:
  assumes "efold configured_property ob cfg = Inr ps" and "distinct (map fst cfg)"
  shows "map_of ps k = (case map_of cfg k of
      None \<Rightarrow> map_of ob k
    | Some c \<Rightarrow> if protected c \<or> map_of ob k = None then Some (field c ''value'') else map_of ob k)"
  using assms
proof (induction cfg arbitrary: ob)
  case (Cons kc cfg)
  obtain k0 c0 where kc: "kc = (k0, c0)" by force
  from Cons.prems(1) obtain ob1 where ob1: "configured_property ob (k0, c0) = Inr ob1" "efold configured_property ob1 cfg = Inr ps"
    by (auto simp: kc ebind_eq_Inr)
  from Cons.prems(2) have "map_of cfg k0 = None" by (simp add: kc map_of_eq_None_iff)
  with Cons.IH [OF ob1(2)] Cons.prems(2) configured_property_run [OF ob1(1)] show ?case
    by (auto simp: kc map_of_obj_set split: option.splits if_splits)
qed simp

lemma map_of_rev_distinct:
  assumes "distinct (map fst xs)"
  shows "map_of (rev xs) k = map_of xs k"
proof -
  have "distinct (map fst (rev xs))" using assms by (metis distinct_rev rev_map)
  with assms have "map_of (rev xs) = map_of xs" by (simp add: map_of_inject_set)
  then show ?thesis by simp
qed

lemma standard_distinct: "distinct (map fst (standard_properties D name target_path readonly))"
  by (simp add: standard_properties_def)

text \<open>A driver whose commands succeed, below the dataset tank/inline, with a protected property.\<close>

definition sample_inline :: "nat inline_driver" where
  "sample_inline =
     \<lparr>il_node = sample_node (local_host True)\<lparr>nd_options := [(''zfs'', Obj [(''datasetParentName'', Str ''tank/inline/''),
          (''properties'', Obj [(''readonly'', Obj [(''value'', Str ''off''), (''allowOverride'', Bool False)])])])]\<rparr>,
      il_zb = \<lparr>zb_options = [], zb_spawn = (\<lambda>c args opts n. (Closed (Some 0) [] [] False, n + 1))\<rparr>,
      il_parse = (\<lambda>s. Inr (Str ''tagged'', Str ''1'', s)),
      il_mkdir = (\<lambda>p n. (Inr (), n)), il_rm = (\<lambda>p n. (Inr (), n))\<rparr>"

definition inline_request :: jsobj where
  "inline_request = [(''volume_id'', Str ''csi-1''), (''target_path'', Str ''/t''), (''readonly'', Bool True),
     (''volume_context'', Obj [(''property.atime'', Str ''off'')])]"

lemmas inline_run [code] =
  remove_published_def [THEN fun_cong] inline_NodeUnpublishVolume_def [THEN fun_cong] zfs_destroy_def [THEN fun_cong]

section \<open>Properties\<close>


text \<open>
  the properties of an inline dataset: what the pod asks for is overridden by what the driver sets (the
  name, the marks and the mountpoint among them); a configured property fills in what neither set,
  and overrides both only when it says that it must not be overridden.
\<close>

theorem inline_property_order:
  assumes "inline_properties D req = Inr ps" and "getps (Obj (il_options D)) [''zfs'', ''properties''] = Inr (Obj cfg)"
    and "distinct (map fst cfg)"
  shows "\<exists>pod. pod_properties (obj_get req ''volume_context'') = Inr pod
    \<and> (let own = (case map_of (standard_properties D (obj_get req ''volume_id'') (obj_get req ''target_path'') (obj_get req ''readonly'')) k of
           Some v \<Rightarrow> Some v | None \<Rightarrow> map_of pod k)
       in map_of ps k = (case map_of cfg k of
           None \<Rightarrow> own | Some c \<Rightarrow> if protected c \<or> own = None then Some (field c ''value'') else own))"
proof -
  let ?std = "standard_properties D (obj_get req ''volume_id'') (obj_get req ''target_path'') (obj_get req ''readonly'')"
  from assms(1,2) obtain pod where pod: "pod_properties (obj_get req ''volume_context'') = Inr pod"
    and run: "efold configured_property (obj_assign pod ?std) cfg = Inr ps"
    by (auto simp: inline_properties_def ebind_eq_Inr)
  have own: "map_of (obj_assign pod ?std) k = (case map_of ?std k of Some v \<Rightarrow> Some v | None \<Rightarrow> map_of pod k)"
    by (simp add: map_of_obj_assign map_of_rev_distinct standard_distinct)
  note won = configured_properties [OF run assms(3), of k, unfolded own]
  show ?thesis by (intro exI conjI, rule pod, unfold Let_def, rule won)
qed


lemma inline_property_order_witness:
  "\<exists>pod ps. pod_properties (obj_get inline_request ''volume_context'') = Inr pod
     \<and> inline_properties sample_inline inline_request = Inr ps \<and> map_of ps ''readonly'' = Some (Str ''off'')"
proof -
  have "\<not> isl (inline_properties sample_inline inline_request)" by code_simp
  then obtain ps where ps: "inline_properties sample_inline inline_request = Inr ps" by (auto simp: isl_def split: sum.splits elim: notE) (metis sum.exhaust_sel)
  have cfg: "getps (Obj (il_options sample_inline)) [''zfs'', ''properties'']
    = Inr (Obj [(''readonly'', Obj [(''value'', Str ''off''), (''allowOverride'', Bool False)])])" by code_simp
  have "protected (Obj [(''value'', Str ''off''), (''allowOverride'', Bool False)])" by code_simp
  then show ?thesis using ps inline_property_order [OF ps cfg, of "''readonly''"] by (auto simp: field_def obj_get_def)
qed

end
