(* ===== verification/Freenas_Shares.thy ===== *)
theory Freenas_Shares
  imports Freenas_Http Zfs_Generic
begin

text \<open>
  The shares of \<open>src/driver/freenas/api.js\<close>, the controller for FreeNAS and TrueNAS over the web API:
  \<open>createShare\<close>, \<open>deleteShare\<close> and \<open>expandVolume\<close> for NFS, SMB, iSCSI and NVMe-oF. The driver is the
  record of \<open>Controller_Base\<close> over the world of the web client, for its options and packages; its zfs
  client and its share methods are not used. A search of a listing may run forever, so creating a share
  is a program of \<open>Partial_Effects\<close>. Whether an error of axios carries one of the two codes of a lost
  connection and whether semver reads a version off a text are parameters.
\<close>

section \<open>The driver\<close>

record 'e nas_driver =
  na_base :: "('e \<times> js) driver"
  na_client :: "'e freenas"
  na_csiName :: js
  na_csiVersion :: js
  na_lost :: "exn \<Rightarrow> bool"
  na_coerces :: "js \<Rightarrow> bool"

definition na_options :: "'e nas_driver \<Rightarrow> jsobj" where
  "na_options A = dr_options (na_base A)"

definition na_path :: "'e nas_driver \<Rightarrow> string list \<Rightarrow> exn + js" where
  "na_path A ks = getps (Obj (na_options A)) ks"

definition na_get :: "'e nas_driver \<Rightarrow> string \<Rightarrow> js \<Rightarrow> js" where
  "na_get A path d = opts_get (na_base A) (na_options A) path d"

definition FREENAS_NFS_SHARE_PROPERTY_NAME :: string where
  "FREENAS_NFS_SHARE_PROPERTY_NAME = ''democratic-csi:freenas_nfs_share_id''"

definition FREENAS_SMB_SHARE_PROPERTY_NAME :: string where
  "FREENAS_SMB_SHARE_PROPERTY_NAME = ''democratic-csi:freenas_smb_share_id''"

definition FREENAS_ISCSI_TARGET_ID_PROPERTY_NAME :: string where
  "FREENAS_ISCSI_TARGET_ID_PROPERTY_NAME = ''democratic-csi:freenas_iscsi_target_id''"

definition FREENAS_ISCSI_EXTENT_ID_PROPERTY_NAME :: string where
  "FREENAS_ISCSI_EXTENT_ID_PROPERTY_NAME = ''democratic-csi:freenas_iscsi_extent_id''"

definition FREENAS_ISCSI_TARGETTOEXTENT_ID_PROPERTY_NAME :: string where
  "FREENAS_ISCSI_TARGETTOEXTENT_ID_PROPERTY_NAME = ''democratic-csi:freenas_iscsi_targettoextent_id''"

definition FREENAS_ISCSI_ASSETS_NAME_PROPERTY_NAME :: string where
  "FREENAS_ISCSI_ASSETS_NAME_PROPERTY_NAME = ''democratic-csi:freenas_iscsi_assets_name''"

definition FREENAS_NVMEOF_SUBSYSTEM_ID_PROPERTY_NAME :: string where
  "FREENAS_NVMEOF_SUBSYSTEM_ID_PROPERTY_NAME = ''democratic-csi:freenas_nvmeof_subsystem_id''"

definition FREENAS_NVMEOF_NAMESPACE_ID_PROPERTY_NAME :: string where
  "FREENAS_NVMEOF_NAMESPACE_ID_PROPERTY_NAME = ''democratic-csi:freenas_nvmeof_namespace_id''"

definition FREENAS_NVMEOF_ASSETS_NAME_PROPERTY_NAME :: string where
  "FREENAS_NVMEOF_ASSETS_NAME_PROPERTY_NAME = ''democratic-csi:freenas_nvmeof_assets_name''"

lemmas asset_property_names = FREENAS_ISCSI_TARGET_ID_PROPERTY_NAME_def FREENAS_ISCSI_EXTENT_ID_PROPERTY_NAME_def
  FREENAS_ISCSI_TARGETTOEXTENT_ID_PROPERTY_NAME_def FREENAS_ISCSI_ASSETS_NAME_PROPERTY_NAME_def

definition getDriverShareType_api :: "jsobj \<Rightarrow> exn + string" where
  "getDriverShareType_api options =
     (let d = obj_get options ''driver'' in
      if d \<in> {Str ''freenas-api-nfs'', Str ''truenas-api-nfs''} then Inr ''nfs''
      else if d \<in> {Str ''freenas-api-smb'', Str ''truenas-api-smb''} then Inr ''smb''
      else if d \<in> {Str ''freenas-api-iscsi'', Str ''truenas-api-iscsi''} then Inr ''iscsi''
      else if d \<in> {Str ''freenas-api-nvmeof'', Str ''truenas-api-nvmeof''} then Inr ''nvmeof''
      else Inl (js_error (''unknown driver: '' @ to_str d)))"

definition getDriverZfsResourceType_api :: "jsobj \<Rightarrow> exn + string" where
  "getDriverZfsResourceType_api options =
     (let d = obj_get options ''driver'' in
      if d \<in> {Str ''freenas-api-nfs'', Str ''truenas-api-nfs'', Str ''freenas-api-smb'', Str ''truenas-api-smb''}
      then Inr ''filesystem''
      else if d \<in> {Str ''freenas-api-iscsi'', Str ''truenas-api-iscsi'', Str ''freenas-api-nvmeof'', Str ''truenas-api-nvmeof''}
      then Inr ''volume''
      else Inl (js_error (''unknown driver: '' @ to_str d)))"

section \<open>Answers of the appliance\<close>

definition body_text :: "js \<Rightarrow> string" where
  "body_text body = (case json_stringify body of None \<Rightarrow> ''undefined'' | Some s \<Rightarrow> s)"

definition bad_answer :: "msg \<Rightarrow> int \<times> js \<Rightarrow> exn" where
  "bad_answer m r = grpc UNKNOWN (m @ '' - code: '' @ show_int (fst r) @ '' body: '' @ body_text (snd r))"

definition unknown_version :: "js \<Rightarrow> exn" where
  "unknown_version v = grpc FAILED_PRECONDITION (''invalid configuration: unknown apiVersion '' @ to_str v)"

definition v1 :: js where "v1 = Num (IntN 1)"
definition v2 :: js where "v2 = Num (IntN 2)"

text \<open>
  The words of a regular expression, apart by texts without the end of a line: whether a boundary must
  come before the word, the word, and whether one must come after it. The first word may be anywhere.
\<close>

definition word_char :: "char \<Rightarrow> bool" where
  "word_char c \<longleftrightarrow> is_alnum c \<or> c = CHR ''_''"

fun words_in :: "bool \<Rightarrow> (bool \<times> string \<times> bool) list \<Rightarrow> string \<Rightarrow> bool" where
  "words_in after_word [] s = True"
| "words_in after_word ((before, w, after) # ws) s =
     ((starts_with s w \<and> (before \<longrightarrow> \<not> after_word)
         \<and> (after \<longrightarrow> (case drop (length w) s of [] \<Rightarrow> True | c # _ \<Rightarrow> \<not> word_char c))
         \<and> words_in True ws (drop (length w) s))
      \<or> (case s of [] \<Rightarrow> False
           | c # t \<Rightarrow> (\<not> before \<or> \<not> is_eol c) \<and> words_in (word_char c) ((before, w, after) # ws) t))"

text \<open>The patterns are matched without regard to case.\<close>

definition target_exists_text :: "string \<Rightarrow> bool" where
  "target_exists_text s =
     (let t = to_lower s in
      contains t ''target name already exists'' \<or> contains t ''target with this name already exists''
      \<or> words_in False [(False, ''target'', True), (True, ''already'', True), (True, ''exists'', False)] t)"

definition isTargetAlreadyExistsError :: "js \<Rightarrow> exn + bool" where
  "isTargetAlreadyExistsError body =
     (let told = or_else (field body ''message'') (or_else (field body ''error'') (or_else (field body ''detail'') (Str (body_text body)))) in
      case body of
        Str s \<Rightarrow> Inr (target_exists_text s)
      | Obj _ \<Rightarrow> ebind (as_string told) (\<lambda>s. Inr (target_exists_text s))
      | Arr _ \<Rightarrow> ebind (as_string told) (\<lambda>s. Inr (target_exists_text s))
      | _ \<Rightarrow> Inr False)"

text \<open>Whether the text of a body has one of several parts; the text is only taken for the given statuses.\<close>

definition refused_with :: "int set \<Rightarrow> string list \<Rightarrow> int \<times> js \<Rightarrow> exn + bool" where
  "refused_with codes parts r = (if fst r \<in> codes then eany (body_has (snd r)) parts else Inr False)"

text \<open>The errors after which a request is repeated: a lost connection, or the status 504.\<close>

definition worth_retrying :: "'e nas_driver \<Rightarrow> exn \<Rightarrow> bool" where
  "worth_retrying A e \<longleftrightarrow> na_lost A e \<or> e = JsError ''AxiosError'' ''Request failed with status code 504''"

definition nas_sleep :: "'e nas_driver \<Rightarrow> int \<Rightarrow> ('e, unit) nas" where
  "nas_sleep A ms = fn_sleep (na_client A) ms"

definition retried :: "'e nas_driver \<Rightarrow> ('e, int \<times> js) nas \<Rightarrow> ('e, int \<times> js) nas" where
  "retried A m = retry (nas_sleep A) (ret 0) 3 1000 m (no_retry_options\<lparr>ro_retryCondition := Some (worth_retrying A)\<rparr>)"

section \<open>What every share starts with\<close>

text \<open>The version of the API, the version of the appliance and whether it is TrueNAS SCALE.\<close>

record nas_version =
  nv_api :: js
  nv_text :: js
  nv_scale :: bool

definition nas_versions :: "'e nas_driver \<Rightarrow> ('e, nas_version) nas" where
  "nas_versions A =
     bind getApiVersion (\<lambda>api.
     bind (getSystemVersionMajorMinor (na_client A)) (\<lambda>v.
     andthen (throw_when (\<not> na_coerces A v) (grpc UNKNOWN ''unable to detect TrueNAS version''))
    (bind (getIsScale (na_client A)) (\<lambda>scale. ret \<lparr>nv_api = api, nv_text = v, nv_scale = scale\<rparr>))))"

definition version_sat :: "'e nas_driver \<Rightarrow> nas_version \<Rightarrow> string \<Rightarrow> bool" where
  "version_sat A V r = fn_satisfies (na_client A) (nv_text V) r"

definition pvalue :: "jsobj \<Rightarrow> string \<Rightarrow> js" where
  "pvalue properties p = field (obj_get properties p) ''value''"

definition request_context :: "jsobj \<Rightarrow> jsobj" where
  "request_context req = [(''name'', obj_get req ''name''), (''parameters'', obj_get req ''parameters'')]"

definition comment_context :: "'e nas_driver \<Rightarrow> jsobj \<Rightarrow> string \<Rightarrow> js" where
  "comment_context A req datasetName =
     Obj (request_context req @ [(''csi'', Obj [(''name'', na_csiName A), (''version'', na_csiVersion A)]),
       (''zfs'', Obj [(''datasetName'', Str datasetName)])])"

text \<open>The name of the assets of a share: the template or the leaf of the dataset, decorated, in lower case.\<close>

definition nas_name :: "'e nas_driver \<Rightarrow> string \<Rightarrow> jsobj \<Rightarrow> string \<Rightarrow> exn + string" where
  "nas_name A section req datasetName =
     ebind (na_path A [section, ''nameTemplate'']) (\<lambda>template.
     ebind (if truthy template then dr_template (na_base A) template (Obj (request_context req))
            else Inr (extractLeafName datasetName)) (\<lambda>name.
     ebind (na_path A [section, ''namePrefix'']) (\<lambda>pre. ebind (na_path A [section, ''nameSuffix'']) (\<lambda>suf.
     Inr (to_lower ((if truthy pre then to_str pre else []) @ name @ (if truthy suf then to_str suf else [])))))))"

text \<open>The id of an asset is stored with the dataset.\<close>

definition store :: "'e nas_driver \<Rightarrow> string \<Rightarrow> string \<Rightarrow> js \<Rightarrow> ('e, unit) nas" where
  "store A datasetName p v = DatasetSet (na_client A) datasetName [(p, v)]"

definition store_id :: "'e nas_driver \<Rightarrow> string \<Rightarrow> string \<Rightarrow> js \<Rightarrow> ('e, unit) nas" where
  "store_id A datasetName p asset = bind (lift (getp asset ''id'')) (store A datasetName p)"

definition failed_to_find :: exn where
  "failed_to_find = grpc UNKNOWN ''FreeNAS failed to find matching share''"

definition incorrect_share :: "int \<times> js \<Rightarrow> exn" where
  "incorrect_share r =
     grpc UNKNOWN (''FreeNAS responded with incorrect share data: '' @ show_int (fst r) @ '' body: '' @ body_text (snd r))"

text \<open>A share that is there already is looked up; its id is stored.\<close>

definition adopt_share :: "'e nas_driver \<Rightarrow> string \<Rightarrow> string \<Rightarrow> (js \<Rightarrow> exn + bool) \<Rightarrow> string \<Rightarrow> ('e, unit) pnas" where
  "adopt_share A endpoint p f datasetName =
     pbind (findResourceByProperties (na_client A) endpoint (ByTest f)) (\<lambda>found.
     total (andthen (throw_when (\<not> truthy found) failed_to_find) (store_id A datasetName p found)))"

section \<open>NFS\<close>

definition nfs_comment :: "'e nas_driver \<Rightarrow> jsobj \<Rightarrow> string \<Rightarrow> exn + string" where
  "nfs_comment A req datasetName =
     ebind (na_path A [''nfs'', ''shareCommentTemplate'']) (\<lambda>template.
     if truthy template then dr_template (na_base A) template (comment_context A req datasetName)
     else Inr (''democratic-csi ('' @ to_str (na_csiName A) @ ''): '' @ datasetName))"

definition joined_array :: "js \<Rightarrow> exn + js" where
  "joined_array v = (case v of Arr _ \<Rightarrow> Inr (Str (to_str v)) | _ \<Rightarrow> Inl (type_error ''join''))"

definition nfs_share_v1 :: "js \<Rightarrow> js \<Rightarrow> string \<Rightarrow> exn + jsobj" where
  "nfs_share_v1 nfs mountpoint comment =
     ebind (joined_array (field nfs ''shareAllowedNetworks'')) (\<lambda>networks.
     ebind (joined_array (field nfs ''shareAllowedHosts'')) (\<lambda>hosts.
     Inr [(''nfs_paths'', Arr [mountpoint]), (''nfs_comment'', Str comment), (''nfs_network'', networks), (''nfs_hosts'', hosts),
       (''nfs_alldirs'', field nfs ''shareAlldirs''), (''nfs_ro'', Bool False), (''nfs_quiet'', Bool False),
       (''nfs_maproot_user'', field nfs ''shareMaprootUser''), (''nfs_maproot_group'', field nfs ''shareMaprootGroup''),
       (''nfs_mapall_user'', field nfs ''shareMapallUser''), (''nfs_mapall_group'', field nfs ''shareMapallGroup''),
       (''nfs_security'', Arr [])]))"

definition nfs_share_v2 :: "js \<Rightarrow> js \<Rightarrow> string \<Rightarrow> jsobj" where
  "nfs_share_v2 nfs mountpoint comment =
     [(''paths'', Arr [mountpoint]), (''comment'', Str comment), (''networks'', field nfs ''shareAllowedNetworks''),
      (''hosts'', field nfs ''shareAllowedHosts''), (''alldirs'', field nfs ''shareAlldirs''), (''ro'', Bool False), (''quiet'', Bool False),
      (''maproot_user'', field nfs ''shareMaprootUser''), (''maproot_group'', field nfs ''shareMaprootGroup''),
      (''mapall_user'', field nfs ''shareMapallUser''), (''mapall_group'', field nfs ''shareMapallGroup''), (''security'', Arr [])]"

text \<open>SCALE dropped some of the parameters; one of its versions has a single path.\<close>

definition nfs_share :: "'e nas_driver \<Rightarrow> nas_version \<Rightarrow> js \<Rightarrow> string \<Rightarrow> exn + jsobj" where
  "nfs_share A V mountpoint comment =
     ebind (na_path A [''nfs'']) (\<lambda>nfs.
     ebind (if nv_api V = v1 then nfs_share_v1 nfs mountpoint comment else Inr (nfs_share_v2 nfs mountpoint comment)) (\<lambda>share.
     let a = (if nv_scale V \<and> version_sat A V ''>=23.10'' then obj_delete ''nfs_quiet'' (obj_delete ''quiet'' share) else share) in
     if nv_scale V \<and> version_sat A V ''>=22.12''
     then (case obj_get a ''paths'' of
             Arr (p # _) \<Rightarrow> Inr (obj_delete ''alldirs'' (obj_delete ''paths'' (obj_set ''path'' p a)))
           | _ \<Rightarrow> Inl (type_error ''Cannot read properties: 0''))
     else Inr a))"

definition nfs_paths :: "js \<Rightarrow> js \<Rightarrow> exn + js" where
  "nfs_paths api body =
     (if api = v1 then getp body ''nfs_paths''
      else ebind (getp body ''path'') (\<lambda>p. if truthy p then Inr (Arr [p]) else getp body ''paths''))"

definition nfs_test :: "js \<Rightarrow> js \<Rightarrow> exn + bool" where
  "nfs_test mountpoint i =
     ebind (getp i ''nfs_paths'') (\<lambda>a.
     ebind (if truthy a then js_includes a mountpoint else Inr False) (\<lambda>x.
     if x then Inr True
     else ebind (if truthy (field i ''paths'') then js_includes (field i ''paths'') mountpoint else Inr False) (\<lambda>y.
       Inr (y \<or> truthy (field i ''path'') \<and> loose_eq (field i ''path'') mountpoint))))"

definition nfs_twice :: "string list" where
  "nfs_twice = [''You can'' @ [CHR 0x27] @ ''t share same filesystem with all hosts twice.'',
     ''Another NFS share already exports this dataset for some network'']"

definition store_nfs_share :: "'e nas_driver \<Rightarrow> nas_version \<Rightarrow> string \<Rightarrow> js \<Rightarrow> int \<times> js \<Rightarrow> ('e, unit) pnas" where
  "store_nfs_share A V datasetName mountpoint r =
     (if fst r \<in> {200, 201}
      then total
        (bind (lift (nfs_paths (nv_api V) (snd r))) (\<lambda>ps.
         andthen (throw_when (case ps of Arr xs \<Rightarrow> mountpoint \<notin> set xs | _ \<Rightarrow> True) (incorrect_share r))
           (store_id A datasetName FREENAS_NFS_SHARE_PROPERTY_NAME (snd r))))
      else pbind (total (lift (refused_with {409, 422} nfs_twice r))) (\<lambda>twice.
        if \<not> twice then pthrow (bad_answer ''received error creating nfs share'' r)
        else adopt_share A ''/sharing/nfs'' FREENAS_NFS_SHARE_PROPERTY_NAME (nfs_test mountpoint) datasetName))"

definition nas_share_nfs :: "'e nas_driver \<Rightarrow> nas_version \<Rightarrow> jsobj \<Rightarrow> string \<Rightarrow> ('e, jsobj) pnas" where
  "nas_share_nfs A V req datasetName =
     pbind (total (DatasetGet (na_client A) datasetName [''mountpoint'', FREENAS_NFS_SHARE_PROPERTY_NAME] [])) (\<lambda>properties.
     let mountpoint = pvalue properties ''mountpoint'' in
     pbind (if isPropertyValueSet (pvalue properties FREENAS_NFS_SHARE_PROPERTY_NAME) then pret ()
            else pbind (total (lift (nfs_comment A req datasetName))) (\<lambda>comment.
              if nv_api V \<notin> {v1, v2} then pthrow (unknown_version (nv_api V))
              else pbind (total (lift (nfs_share A V mountpoint comment))) (\<lambda>share.
                pbind (total (retried A (http_post (na_client A) ''/sharing/nfs'' (Obj share))))
                  (store_nfs_share A V datasetName mountpoint)))) (\<lambda>_.
     total (bind (lift (na_path A [''nfs'', ''shareHost''])) (\<lambda>server.
       ret [(''node_attach_driver'', Str ''nfs''), (''server'', server), (''share'', mountpoint)]))))"

section \<open>SMB\<close>

definition smb_parameters :: "(string \<times> string) list" where
  "smb_parameters =
     [(''shareAuxiliaryConfigurationTemplate'', ''auxsmbconf''), (''shareHome'', ''home''), (''shareAllowedHosts'', ''hostsallow''),
      (''shareDeniedHosts'', ''hostsdeny''), (''shareDefaultPermissions'', ''default_permissions''), (''shareGuestOk'', ''guestok''),
      (''shareGuestOnly'', ''guestonly''), (''shareShowHiddenFiles'', ''showhiddenfiles''), (''shareRecycleBin'', ''recyclebin''),
      (''shareBrowsable'', ''browsable''), (''shareAccessBasedEnumeration'', ''abe''), (''shareTimeMachine'', ''timemachine''),
      (''shareStorageTask'', ''storage_task'')]"

text \<open>Only a parameter that is configured is sent; the first one is a template.\<close>

definition smb_parameter :: "'e nas_driver \<Rightarrow> jsobj \<Rightarrow> jsobj \<Rightarrow> jsobj \<Rightarrow> string \<times> string \<Rightarrow> exn + jsobj" where
  "smb_parameter A req smb share kp =
     (case kp of (k, p) \<Rightarrow>
        if \<not> obj_has smb k then Inr share
        else if k = ''shareAuxiliaryConfigurationTemplate''
        then ebind (dr_template (na_base A) (obj_get smb k) (Obj (request_context req))) (\<lambda>v. Inr (obj_set p (Str v) share))
        else Inr (obj_set p (obj_get smb k) share))"

definition smb_top_level :: "string list" where
  "smb_top_level = [''purpose'', ''name'', ''path'', ''enabled'', ''comment'', ''readonly'', ''browsable'',
     ''access_based_share_enumeration'', ''audit'']"

text \<open>From version 25.10 on, most parameters are options of a legacy share.\<close>

definition smb_legacy :: "jsobj \<Rightarrow> jsobj" where
  "smb_legacy share =
     (let s = obj_set ''purpose'' (Str ''LEGACY_SHARE'') share in
      filter (\<lambda>(k, v). k \<in> set smb_top_level) s
        @ [(''options'', Obj (fold (\<lambda>(k, v). obj_set k v)
              (filter (\<lambda>(k, v). k \<notin> set smb_top_level \<and> k \<noteq> ''abe'') s) [(''purpose'', Str ''LEGACY_SHARE'')]))])"

definition join_key :: "string \<Rightarrow> jsobj \<Rightarrow> exn + jsobj" where
  "join_key k share =
     (if truthy (obj_get share k) then ebind (joined_array (obj_get share k)) (\<lambda>v. Inr (obj_set k v share)) else Inr share)"

definition smb_share :: "'e nas_driver \<Rightarrow> nas_version \<Rightarrow> jsobj \<Rightarrow> string \<Rightarrow> js \<Rightarrow> exn + jsobj" where
  "smb_share A V req name mountpoint =
     ebind (na_path A [''smb'']) (\<lambda>smb.
     ebind (efold (smb_parameter A req (inner_obj smb)) [(''name'', Str name), (''path'', mountpoint)] smb_parameters) (\<lambda>share.
     let a = (if nv_scale V \<and> version_sat A V ''>=25.10'' then smb_legacy share else share) in
     if nv_api V = v1
     then ebind (join_key ''cifs_hostsallow'' (map (\<lambda>(k, v). (''cifs_'' @ k, v)) a)) (join_key ''cifs_hostsdeny'')
     else Inr a))"

definition smb_endpoint :: "js \<Rightarrow> string" where
  "smb_endpoint api = (if api = v1 then ''/sharing/cifs'' else ''/sharing/smb'')"

definition smb_test :: "js \<Rightarrow> string \<Rightarrow> js \<Rightarrow> exn + bool" where
  "smb_test mountpoint name i =
     ebind (getp i ''cifs_path'') (\<lambda>_.
     Inr (truthy (field i ''cifs_path'') \<and> loose_eq (field i ''cifs_path'') mountpoint
            \<and> truthy (field i ''cifs_name'') \<and> loose_eq (field i ''cifs_name'') (Str name)
          \<or> truthy (field i ''path'') \<and> loose_eq (field i ''path'') mountpoint
            \<and> truthy (field i ''name'') \<and> loose_eq (field i ''name'') (Str name)))"

definition store_smb_share :: "'e nas_driver \<Rightarrow> nas_version \<Rightarrow> string \<Rightarrow> js \<Rightarrow> string \<Rightarrow> int \<times> js \<Rightarrow> ('e, unit) pnas" where
  "store_smb_share A V datasetName mountpoint name r =
     (let pre = (if nv_api V = v1 then ''cifs_'' else []) in
      if fst r \<in> {200, 201}
      then total
        (bind (lift (getp (snd r) (pre @ ''path''))) (\<lambda>sharePath.
         andthen (throw_when (\<not> loose_eq (field (snd r) (pre @ ''name'')) (Str name)) (incorrect_share r))
        (andthen (throw_when (\<not> loose_eq sharePath mountpoint) (incorrect_share r))
           (store_id A datasetName FREENAS_SMB_SHARE_PROPERTY_NAME (snd r)))))
      else pbind (total (lift (refused_with {409, 422} [''A share with this name already exists.''] r))) (\<lambda>exists.
        if \<not> exists then pthrow (bad_answer ''received error creating smb share'' r)
        else adopt_share A (smb_endpoint (nv_api V)) FREENAS_SMB_SHARE_PROPERTY_NAME (smb_test mountpoint name) datasetName))"

definition nas_share_smb :: "'e nas_driver \<Rightarrow> nas_version \<Rightarrow> jsobj \<Rightarrow> string \<Rightarrow> ('e, jsobj) pnas" where
  "nas_share_smb A V req datasetName =
     pbind (total (DatasetGet (na_client A) datasetName [''mountpoint'', FREENAS_SMB_SHARE_PROPERTY_NAME] [])) (\<lambda>properties.
     let mountpoint = pvalue properties ''mountpoint'' in
     pbind (total (lift (nas_name A ''smb'' req datasetName))) (\<lambda>name.
     pbind (if isPropertyValueSet (pvalue properties FREENAS_SMB_SHARE_PROPERTY_NAME) then pret ()
            else if nv_api V \<notin> {v1, v2} then pthrow (unknown_version (nv_api V))
            else pbind (total (lift (smb_share A V req name mountpoint))) (\<lambda>share.
              pbind (total (retried A (http_post (na_client A) (smb_endpoint (nv_api V)) (Obj share))))
                (store_smb_share A V datasetName mountpoint name))) (\<lambda>_.
     total (bind (lift (na_path A [''smb'', ''shareHost''])) (\<lambda>server.
       ret [(''node_attach_driver'', Str ''smb''), (''server'', server), (''share'', Str name)])))))"

section \<open>iSCSI\<close>

definition getMaxZvolNameLength_api :: "'e nas_driver \<Rightarrow> ('e, int) nas" where
  "getMaxZvolNameLength_api A =
     bind (getIsScale (na_client A)) (\<lambda>scale.
     if scale then ret 255
     else bind (getSystemVersionMajor (na_client A)) (\<lambda>major.
       bind (lift (parse_int (Str major))) (\<lambda>n. ret (if num_le (IntN 13) n then 255 else 63))))"

definition check_disk_name :: "'e nas_driver \<Rightarrow> msg \<Rightarrow> string \<Rightarrow> ('e, unit) nas" where
  "check_disk_name A m diskName =
     bind (getMaxZvolNameLength_api A) (\<lambda>max.
     throw_when (int (length diskName) > max)
       (grpc FAILED_PRECONDITION (m @ '' disk name cannot exceed '' @ show_int max @ '' characters: ''
          @ (if m = ''extent'' then '' '' else []) @ diskName)))"

definition option_or :: "jsobj \<Rightarrow> string \<Rightarrow> js \<Rightarrow> js" where
  "option_or ob k d = (if obj_has ob k then obj_get ob k else d)"

text \<open>A threshold that is no percentage is none.\<close>

definition avail_threshold :: "jsobj \<Rightarrow> js" where
  "avail_threshold iscsi =
     (let n = (if obj_has iscsi ''extentAvailThreshold'' then Num (to_num (obj_get iscsi ''extentAvailThreshold'')) else Null) in
      if js_greater n (Num (IntN 0)) \<and> js_ge (Num (IntN 100)) n then n else Null)"

definition extent_comment :: "'e nas_driver \<Rightarrow> jsobj \<Rightarrow> string \<Rightarrow> exn + string" where
  "extent_comment A req datasetName =
     ebind (na_path A [''iscsi'', ''extentCommentTemplate'']) (\<lambda>template.
     if truthy template then dr_template (na_base A) template (comment_context A req datasetName) else Inr [])"

definition nas_extent :: "jsobj \<Rightarrow> string \<Rightarrow> string \<Rightarrow> string \<Rightarrow> jsobj" where
  "nas_extent iscsi name diskName comment =
     [(''comment'', Str comment), (''type'', Str ''DISK''), (''name'', Str name), (''disk'', Str diskName),
      (''insecure_tpc'', option_or iscsi ''extentInsecureTpc'' (Bool True)), (''xen'', option_or iscsi ''extentXenCompat'' (Bool False)),
      (''avail_threshold'', avail_threshold iscsi),
      (''blocksize'', Num (to_num (option_or iscsi ''extentBlocksize'' (Num (IntN 512))))),
      (''pblocksize'', option_or iscsi ''extentDisablePhysicalBlocksize'' (Bool True)),
      (''rpm'', Str (to_str (option_or iscsi ''extentRpm'' (Str ''SSD'')))), (''ro'', Bool False)]"

text \<open>The prefix of every name of a target.\<close>

definition iscsi_basename :: "'e nas_driver \<Rightarrow> js \<Rightarrow> ('e, js) nas" where
  "iscsi_basename A api =
     (if api \<notin> {v1, v2} then throw (unknown_version api)
      else bind (http_get (na_client A) (if api = v1 then ''/services/iscsi/globalconfiguration'' else ''/iscsi/global'') Undef []) (\<lambda>r.
        if fst r \<noteq> 200 then throw (bad_answer ''error getting iscsi configuration'' r)
        else lift (getp (snd r) (if api = v1 then ''iscsi_basename'' else ''basename''))))"

text \<open>
  A resource is made; one that is there already is looked up by its properties. The status of a success,
  the test for a refusal and the properties depend on the kind.
\<close>

definition made_resource :: "'e nas_driver \<Rightarrow> string \<Rightarrow> string \<Rightarrow> int \<Rightarrow> jsobj \<Rightarrow> (int \<times> js \<Rightarrow> exn + bool) \<Rightarrow> jsobj \<Rightarrow> ('e, js) pnas" where
  "made_resource A kind endpoint success data there match =
     pbind (total (http_post (na_client A) endpoint (Obj data))) (\<lambda>r.
     pbind (if fst r = success then pret (snd r)
            else pbind (total (lift (there r))) (\<lambda>b.
              if \<not> b then pthrow (bad_answer (''received error creating iscsi '' @ kind) r)
              else findResourceByProperties (na_client A) endpoint (ByProperties match))) (\<lambda>resource.
     if \<not> truthy resource then pthrow (grpc UNKNOWN (''unknown error creating iscsi '' @ kind)) else pret resource))"

definition check_name :: "string \<Rightarrow> string \<Rightarrow> string \<Rightarrow> js \<Rightarrow> ('e, unit) nas" where
  "check_name kind k name resource =
     throw_when (\<not> loose_eq (field resource k) (Str name)) (grpc UNKNOWN (''mismatch name error creating iscsi '' @ kind))"

definition target_there :: "int \<Rightarrow> int \<times> js \<Rightarrow> exn + bool" where
  "target_there code r = (if fst r = code then isTargetAlreadyExistsError (snd r) else Inr False)"

text \<open>
  Version 1 of the API. Setting the id of the target through the zfs client, which this driver only
  has for its helpers, throws: the code after it is never reached.
\<close>

definition no_zfs_commands :: exn where
  "no_zfs_commands = js_error ''cannot use the zb implementation to execute zfs commands, must use the http api''"

definition iscsi_assets_v1 :: "'e nas_driver \<Rightarrow> string \<Rightarrow> ('e, unit) pnas" where
  "iscsi_assets_v1 A name =
     pbind (made_resource A ''target'' ''/services/iscsi/target'' 201 [(''iscsi_target_name'', Str name), (''iscsi_target_alias'', Str [])]
       (target_there 409) [(''iscsi_target_name'', Str name)]) (\<lambda>target.
     total (andthen (check_name ''target'' ''iscsi_target_name'' name target) (throw no_zfs_commands)))"

fun js_length :: "js \<Rightarrow> exn + js" where
  "js_length (Arr xs) = Inr (Num (IntN (int (length xs))))"
| "js_length (Str s) = Inr (Num (IntN (int (length s))))"
| "js_length v = getp v ''length''"

definition upper_ch :: "char \<Rightarrow> char" where
  "upper_ch c = (if is_lower_alpha c then char_of ((of_char c :: nat) - 32) else c)"

text \<open>\<open>replace(" ", "_")\<close>: the first space.\<close>

definition space_to_underscore :: "string \<Rightarrow> string" where
  "space_to_underscore s = (case dropWhile (\<lambda>c. c \<noteq> CHR '' '') s of [] \<Rightarrow> s | _ # t \<Rightarrow> takeWhile (\<lambda>c. c \<noteq> CHR '' '') s @ ''_'' @ t)"

definition target_group :: "js \<Rightarrow> exn + js" where
  "target_group cfg =
     ebind (getp cfg ''targetGroupPortalGroup'') (\<lambda>portal.
     let auth = field cfg ''targetGroupAuthGroup''; method = field cfg ''targetGroupAuthType'' in
     ebind (js_length method) (\<lambda>len.
     ebind (if js_greater len (Num (IntN 0)) then ebind (as_string method) (\<lambda>s. Inr (space_to_underscore (map upper_ch s))) else Inr ''NONE'') (\<lambda>authmethod.
     Inr (Obj [(''portal'', portal), (''initiator'', field cfg ''targetGroupInitiatorGroup''),
       (''auth'', if js_greater auth (Num (IntN 0)) then auth else Null), (''authmethod'', Str authmethod)]))))"

definition target_groups :: "'e nas_driver \<Rightarrow> exn + js list" where
  "target_groups A = ebind (na_path A [''iscsi'', ''targetGroups'']) (\<lambda>v. ebind (js_iter v) (emap target_group))"

definition all_groups :: "js list \<Rightarrow> js \<Rightarrow> exn + bool" where
  "all_groups groups target = ebind (getp target ''groups'') (\<lambda>g. ebind (js_length g) (\<lambda>n. Inr (n = Num (IntN (int (length groups))))))"

definition groups_failed :: exn where
  "groups_failed = grpc UNKNOWN ''failed setting target groups''"

text \<open>A target without its groups gets them; what the appliance answers is checked again.\<close>

definition with_groups :: "'e nas_driver \<Rightarrow> js list \<Rightarrow> string \<Rightarrow> js \<Rightarrow> ('e, js) nas" where
  "with_groups A groups name target =
     bind (lift (all_groups groups target)) (\<lambda>complete.
     if complete then ret target
     else bind (http_put (na_client A) (''/iscsi/target/id/'' @ to_str (field target ''id'')) (Obj [(''groups'', Arr groups)])) (\<lambda>r.
       andthen (throw_when (fst r \<noteq> 200) groups_failed)
      (andthen (throw_when (\<not> truthy (snd r)) (grpc UNKNOWN ''unknown error creating iscsi target''))
      (andthen (check_name ''target'' ''name'' name (snd r))
      (bind (lift (all_groups groups (snd r))) (\<lambda>complete.
       andthen (throw_when (\<not> complete) groups_failed) (ret (snd r))))))))"

definition iscsi_target_v2 :: "'e nas_driver \<Rightarrow> string \<Rightarrow> string \<Rightarrow> ('e, js) pnas" where
  "iscsi_target_v2 A name datasetName =
     pbind (total (lift (target_groups A))) (\<lambda>groups.
     pbind (made_resource A ''target'' ''/iscsi/target'' 200
       [(''name'', Str name), (''alias'', Null), (''mode'', Str ''ISCSI''), (''groups'', Arr groups)]
       (target_there 422) [(''name'', Str name)]) (\<lambda>target.
     total (andthen (check_name ''target'' ''name'' name target)
       (bind (with_groups A groups name target) (\<lambda>target.
        andthen (store A datasetName FREENAS_ISCSI_TARGET_ID_PROPERTY_NAME (field target ''id'')) (ret target))))))"

definition iscsi_extent_v2 :: "'e nas_driver \<Rightarrow> string \<Rightarrow> jsobj \<Rightarrow> string \<Rightarrow> ('e, js) pnas" where
  "iscsi_extent_v2 A name extent datasetName =
     pbind (made_resource A ''extent'' ''/iscsi/extent'' 200 extent (refused_with {422} [''Extent name must be unique'']) [(''name'', Str name)]) (\<lambda>extent.
     total (andthen (check_name ''extent'' ''name'' name extent)
       (andthen (store A datasetName FREENAS_ISCSI_EXTENT_ID_PROPERTY_NAME (field extent ''id'')) (ret extent))))"

definition mapping_there :: "string list" where
  "mapping_there = [''Extent is already in this target.'', ''LUN ID is already being used for this target.'']"

definition iscsi_mapping_v2 :: "'e nas_driver \<Rightarrow> js \<Rightarrow> js \<Rightarrow> string \<Rightarrow> ('e, unit) pnas" where
  "iscsi_mapping_v2 A target extent datasetName =
     (let m = [(''target'', field target ''id''), (''extent'', field extent ''id''), (''lunid'', Num (IntN 0))] in
      pbind (made_resource A ''targetextent'' ''/iscsi/targetextent'' 200 m (refused_with {422} mapping_there) m) (\<lambda>mapping.
      total (store A datasetName FREENAS_ISCSI_TARGETTOEXTENT_ID_PROPERTY_NAME (field mapping ''id''))))"

definition iscsi_assets_v2 :: "'e nas_driver \<Rightarrow> string \<Rightarrow> jsobj \<Rightarrow> string \<Rightarrow> ('e, unit) pnas" where
  "iscsi_assets_v2 A name extent datasetName =
     pbind (iscsi_target_v2 A name datasetName) (\<lambda>target.
     pbind (iscsi_extent_v2 A name extent datasetName) (\<lambda>extent.
     iscsi_mapping_v2 A target extent datasetName))"

definition nas_iscsi_context :: "'e nas_driver \<Rightarrow> string \<Rightarrow> exn + jsobj" where
  "nas_iscsi_context A iqn =
     ebind (na_path A [''iscsi'']) (\<lambda>s. ebind (joined (field s ''targetPortals'')) (\<lambda>portals.
     Inr [(''node_attach_driver'', Str ''iscsi''), (''portal'', or_else (field s ''targetPortal'') (Str [])), (''portals'', portals),
       (''interface'', or_else (field s ''interface'') (Str [])), (''iqn'', Str iqn), (''lun'', Num (IntN 0))]))"

definition iscsi_checks :: "'e nas_driver \<Rightarrow> nas_version \<Rightarrow> jsobj \<Rightarrow> string \<Rightarrow> ('e, string \<times> jsobj) nas" where
  "iscsi_checks A V req datasetName =
     bind (lift (nas_name A ''iscsi'' req datasetName)) (\<lambda>name.
     andthen (check_disk_name A ''extent'' (''zvol/'' @ datasetName))
    (andthen (throw_when (nv_scale V \<and> length name > 64) (grpc FAILED_PRECONDITION (''extent name cannot exceed 64 characters:  '' @ name)))
    (bind (lift (extent_comment A req datasetName)) (\<lambda>comment.
     bind (lift (na_path A [''iscsi''])) (\<lambda>iscsi.
     ret (name, nas_extent (inner_obj iscsi) name (''zvol/'' @ datasetName) comment))))))"

definition nas_share_iscsi :: "'e nas_driver \<Rightarrow> nas_version \<Rightarrow> jsobj \<Rightarrow> string \<Rightarrow> ('e, jsobj) pnas" where
  "nas_share_iscsi A V req datasetName =
     pbind (total (DatasetGet (na_client A) datasetName [FREENAS_ISCSI_TARGET_ID_PROPERTY_NAME, FREENAS_ISCSI_EXTENT_ID_PROPERTY_NAME,
       FREENAS_ISCSI_TARGETTOEXTENT_ID_PROPERTY_NAME] [])) (\<lambda>properties.
     pbind (total (iscsi_checks A V req datasetName)) (\<lambda>(name, extent).
     pbind (total (iscsi_basename A (nv_api V))) (\<lambda>basename.
     pbind (if isPropertyValueSet (pvalue properties FREENAS_ISCSI_TARGETTOEXTENT_ID_PROPERTY_NAME) then pret ()
            else if nv_api V = v1 then iscsi_assets_v1 A name
            else iscsi_assets_v2 A name extent datasetName) (\<lambda>_.
     total (andthen (store A datasetName FREENAS_ISCSI_ASSETS_NAME_PROPERTY_NAME (Str name))
       (lift (nas_iscsi_context A (to_str basename @ '':'' @ name))))))))"

section \<open>NVMe-oF\<close>

definition nvmeof_available :: "'e nas_driver \<Rightarrow> nas_version \<Rightarrow> ('e, unit) nas" where
  "nvmeof_available A V =
     andthen (throw_when (nv_api V = v1) (grpc FAILED_PRECONDITION ''nvmeof feature is only available with version 2 of the api''))
       (throw_when (\<not> nv_scale V \<or> version_sat A V ''<25.10'')
          (grpc FAILED_PRECONDITION ''nvmeof feature is only available with TrueNAS version 25.10 and above''))"

definition nvmeof_template :: "'e nas_driver \<Rightarrow> string \<Rightarrow> jsobj" where
  "nvmeof_template A k = inner_obj (or_else (na_get A (''nvmeof.'' @ k) (Obj [])) (Obj []))"

definition nvmeof_subsystem :: "'e nas_driver \<Rightarrow> nas_version \<Rightarrow> string \<Rightarrow> string \<Rightarrow> ('e, js) nas" where
  "nvmeof_subsystem A V name datasetName =
     bind (if nv_api V = v2 then NvmetSubsysCreate (na_client A) name (nvmeof_template A ''subsystemTemplate'') else ret Undef) (\<lambda>subsystem.
     andthen (throw_when (\<not> truthy subsystem) (grpc NOT_FOUND (''unable to find nvmeof subsystem: '' @ name)))
    (andthen (store A datasetName FREENAS_NVMEOF_SUBSYSTEM_ID_PROPERTY_NAME (field subsystem ''id'')) (ret subsystem)))"

definition nvmeof_namespace :: "'e nas_driver \<Rightarrow> nas_version \<Rightarrow> string \<Rightarrow> js \<Rightarrow> string \<Rightarrow> ('e, js) nas" where
  "nvmeof_namespace A V diskName subsystem datasetName =
     bind (if nv_api V = v2
           then NvmetNamespaceCreate (na_client A) diskName (field subsystem ''id'') (nvmeof_template A ''namespaceTemplate'')
           else ret Undef) (\<lambda>ns.
     andthen (throw_when (\<not> truthy ns) (grpc NOT_FOUND (''unable to find nvmeof namespace: '' @ diskName)))
    (andthen (store A datasetName FREENAS_NVMEOF_NAMESPACE_ID_PROPERTY_NAME (field ns ''id'')) (ret ns)))"

definition nas_share_nvmeof :: "'e nas_driver \<Rightarrow> nas_version \<Rightarrow> jsobj \<Rightarrow> string \<Rightarrow> ('e, jsobj) nas" where
  "nas_share_nvmeof A V req datasetName =
     (let diskName = ''zvol/'' @ datasetName in
      andthen (nvmeof_available A V)
     (bind (DatasetGet (na_client A) datasetName [FREENAS_NVMEOF_SUBSYSTEM_ID_PROPERTY_NAME, FREENAS_NVMEOF_NAMESPACE_ID_PROPERTY_NAME,
         FREENAS_NVMEOF_ASSETS_NAME_PROPERTY_NAME] []) (\<lambda>_.
      bind (lift (nas_name A ''nvmeof'' req datasetName)) (\<lambda>name.
      andthen (check_disk_name A ''namespace'' diskName)
     (bind (nvmeof_subsystem A V name datasetName) (\<lambda>subsystem.
      bind (nvmeof_namespace A V diskName subsystem datasetName) (\<lambda>ns.
      bind (lift (js_iter (na_get A ''nvmeof.ports'' (Arr [])))) (\<lambda>ports.
      andthen (for_each ports (\<lambda>port. bind (NvmetPortSubsysCreate (na_client A) port (field subsystem ''id'')) (\<lambda>_. ret ())))
     (andthen (store A datasetName FREENAS_NVMEOF_ASSETS_NAME_PROPERTY_NAME (Str name))
     (bind (lift (na_path A [''nvmeof''])) (\<lambda>s.
      bind (lift (joined (field s ''transports''))) (\<lambda>transports.
      ret [(''node_attach_driver'', Str ''nvmeof''), (''transport'', or_else (field s ''transport'') (Str [])), (''transports'', transports),
        (''nqn'', field subsystem ''subnqn''), (''nsid'', field ns ''nsid'')]))))))))))))"

section \<open>The share methods\<close>

definition nas_createShare :: "'e nas_driver \<Rightarrow> jsobj \<Rightarrow> string \<Rightarrow> ('e, jsobj) pnas" where
  "nas_createShare A req datasetName =
     pbind (total (lift (getDriverShareType_api (na_options A)))) (\<lambda>kind.
     pbind (total (nas_versions A)) (\<lambda>V.
     if kind = ''nfs'' then nas_share_nfs A V req datasetName
     else if kind = ''smb'' then nas_share_smb A V req datasetName
     else if kind = ''iscsi'' then nas_share_iscsi A V req datasetName
     else total (nas_share_nvmeof A V req datasetName)))"

text \<open>The properties of a dataset, none when it is gone.\<close>

definition share_properties :: "'e nas_driver \<Rightarrow> string \<Rightarrow> string list \<Rightarrow> ('e, jsobj option) nas" where
  "share_properties A datasetName ps =
     catch (bind (DatasetGet (na_client A) datasetName ps []) (\<lambda>p. ret (Some p)))
       (\<lambda>err. if err_has err ''dataset does not exist'' then ret None else throw err)"

definition gone :: "int \<times> js \<Rightarrow> bool" where
  "gone r \<longleftrightarrow> fst r \<in> {404, 500}"

definition some_equal :: "js \<Rightarrow> js \<Rightarrow> exn + bool" where
  "some_equal v x = (case v of Arr xs \<Rightarrow> Inr (list_ex (\<lambda>y. loose_eq y x) xs) | _ \<Rightarrow> Inl (type_error ''some''))"

definition bad_delete :: "string \<Rightarrow> string \<Rightarrow> js \<Rightarrow> int \<times> js \<Rightarrow> exn" where
  "bad_delete kind label i r =
     grpc UNKNOWN (''received error deleting '' @ kind @ '' - '' @ label @ '': '' @ to_str i @ '' code: '' @ show_int (fst r)
       @ '' body: '' @ body_text (snd r))"

text \<open>
  A share is deleted when the appliance lists it with the mount point of the dataset; then its id is
  removed from the dataset, so that a share that gets this id later is left alone.
\<close>

definition unshare_nfs :: "'e nas_driver \<Rightarrow> js \<Rightarrow> string \<Rightarrow> js \<Rightarrow> js \<Rightarrow> ('e, unit) nas" where
  "unshare_nfs A api datasetName mountpoint shareId =
     (let endpoint = ''/sharing/nfs/'' @ (if api = v2 then ''id/'' else []) @ to_str shareId in
      bind (http_get (na_client A) endpoint Undef []) (\<lambda>r.
      if gone r then ret ()
      else bind (lift (ebind (nfs_paths api (snd r)) (\<lambda>ps. some_equal ps mountpoint))) (\<lambda>own.
        do_when own
          (bind (retried A (http_delete (na_client A) endpoint Undef)) (\<lambda>r.
           andthen (throw_when (fst r \<notin> {200, 204}) (bad_delete ''nfs share'' ''share'' shareId r))
             (DatasetInherit (na_client A) datasetName FREENAS_NFS_SHARE_PROPERTY_NAME))))))"

definition unshare_smb :: "'e nas_driver \<Rightarrow> js \<Rightarrow> string \<Rightarrow> js \<Rightarrow> js \<Rightarrow> ('e, unit) nas" where
  "unshare_smb A api datasetName mountpoint shareId =
     (let endpoint = (if api = v1 then ''/sharing/cifs/'' else ''/sharing/smb/id/'') @ to_str shareId in
      bind (http_get (na_client A) endpoint Undef []) (\<lambda>r.
      if gone r then ret ()
      else bind (lift (getp (snd r) (if api = v1 then ''cifs_path'' else ''path''))) (\<lambda>path.
        do_when (loose_eq path mountpoint)
          (bind (retried A (http_delete (na_client A) endpoint Undef)) (\<lambda>r.
           bind (if fst r \<in> {200, 204} then ret True else lift (body_has (snd r) ''does not exist'')) (\<lambda>deleted.
           andthen (throw_when (\<not> deleted) (bad_delete ''smb share'' ''share'' shareId r))
             (DatasetInherit (na_client A) datasetName FREENAS_SMB_SHARE_PROPERTY_NAME)))))))"

text \<open>A target that is in use is tried again, five times at most.\<close>

definition target_in_use :: "int \<times> js \<Rightarrow> exn + bool" where
  "target_in_use r =
     (if fst r \<noteq> 422 then Inr False
      else ebind (js_includes (field (snd r) ''message'') (Str ''Target'')) (\<lambda>a.
        if \<not> a then Inr False
        else ebind (js_includes (field (snd r) ''message'') (Str ''is in use'')) (\<lambda>b.
          Inr (b \<and> loose_eq (field (snd r) ''errno'') (Num (IntN 14))))))"

fun delete_unused :: "'e nas_driver \<Rightarrow> string \<Rightarrow> nat \<Rightarrow> int \<times> js \<Rightarrow> ('e, int \<times> js) nas" where
  "delete_unused A endpoint 0 r = ret r"
| "delete_unused A endpoint (Suc n) r =
     bind (lift (target_in_use r)) (\<lambda>in_use.
     if \<not> in_use then ret r
     else andthen (nas_sleep A 1000) (bind (http_delete (na_client A) endpoint Undef) (delete_unused A endpoint n)))"

text \<open>
  An asset of iSCSI is deleted when the appliance lists it with the name that is stored with the dataset:
  another asset may have got its id. Without a stored name it is deleted.
\<close>

definition unshare_asset ::
  "'e nas_driver \<Rightarrow> string \<Rightarrow> string \<Rightarrow> js \<Rightarrow> js \<Rightarrow> string \<Rightarrow> string \<Rightarrow> nat \<Rightarrow> ('e, unit) nas" where
  "unshare_asset A kind endpoint i name key datasetName retries =
     (if \<not> isPropertyValueSet i then ret ()
      else bind (http_get (na_client A) endpoint Undef []) (\<lambda>r.
        if gone r then ret ()
        else bind (if isPropertyValueSet name then lift (getp (snd r) key) else ret name) (\<lambda>assetName.
          do_when (isPropertyValueSet name \<longrightarrow> loose_eq assetName name)
            (bind (bind (http_delete (na_client A) endpoint Undef) (delete_unused A endpoint retries)) (\<lambda>r.
             andthen (throw_when (fst r \<notin> {200, 204, 404}) (bad_delete (''iscsi '' @ kind) kind i r))
               (DatasetInherit (na_client A) datasetName
                 (if kind = ''target'' then FREENAS_ISCSI_TARGET_ID_PROPERTY_NAME else FREENAS_ISCSI_EXTENT_ID_PROPERTY_NAME)))))))"

definition target_endpoint :: "js \<Rightarrow> js \<Rightarrow> string" where
  "target_endpoint api i = (if api = v1 then ''/services/iscsi/target/'' else ''/iscsi/target/id/'') @ to_str i"

definition extent_endpoint :: "js \<Rightarrow> js \<Rightarrow> string" where
  "extent_endpoint api i = (if api = v1 then ''/services/iscsi/extent/'' else ''/iscsi/extent/id/'') @ to_str i"

definition unshare_iscsi_assets :: "'e nas_driver \<Rightarrow> js \<Rightarrow> jsobj \<Rightarrow> string \<Rightarrow> ('e, unit) nas" where
  "unshare_iscsi_assets A api properties datasetName =
     (let targetId = pvalue properties FREENAS_ISCSI_TARGET_ID_PROPERTY_NAME;
          extentId = pvalue properties FREENAS_ISCSI_EXTENT_ID_PROPERTY_NAME;
          name = pvalue properties FREENAS_ISCSI_ASSETS_NAME_PROPERTY_NAME in
      if api \<notin> {v1, v2} then throw (unknown_version api)
      else andthen
        (unshare_asset A ''target'' (target_endpoint api targetId) targetId name
           (if api = v1 then ''iscsi_target_name'' else ''name'') datasetName 5)
        (unshare_asset A ''extent'' (extent_endpoint api extentId) extentId name
           (if api = v1 then ''iscsi_target_extent_name'' else ''name'') datasetName 0))"

definition insistent :: "'e nas_driver \<Rightarrow> ('e, unit) nas \<Rightarrow> ('e, unit) nas" where
  "insistent A m = retry (nas_sleep A) (ret 0) 15 2000 m (no_retry_options\<lparr>ro_retryCondition := Some (\<lambda>_. True)\<rparr>)"

definition unshare_nvmeof_assets :: "'e nas_driver \<Rightarrow> jsobj \<Rightarrow> string \<Rightarrow> ('e, unit) nas" where
  "unshare_nvmeof_assets A properties datasetName =
     (let subsystemId = pvalue properties FREENAS_NVMEOF_SUBSYSTEM_ID_PROPERTY_NAME;
          namespaceId = pvalue properties FREENAS_NVMEOF_NAMESPACE_ID_PROPERTY_NAME in
      andthen
       (do_when (isPropertyValueSet namespaceId)
         (andthen (insistent A (NvmetNamespaceDeleteById (na_client A) namespaceId))
            (DatasetInherit (na_client A) datasetName FREENAS_NVMEOF_NAMESPACE_ID_PROPERTY_NAME)))
       (do_when (isPropertyValueSet subsystemId)
         (andthen (insistent A (NvmetSubsysDeleteById (na_client A) subsystemId [(''force'', Bool True)]))
            (DatasetInherit (na_client A) datasetName FREENAS_NVMEOF_SUBSYSTEM_ID_PROPERTY_NAME))))"

definition nas_deleteShare :: "'e nas_driver \<Rightarrow> string \<Rightarrow> ('e, unit) nas" where
  "nas_deleteShare A datasetName =
     bind (lift (getDriverShareType_api (na_options A))) (\<lambda>kind.
     bind (nas_versions A) (\<lambda>V.
     let api = nv_api V;
         listed = (\<lambda>p unshare. bind (share_properties A datasetName [''mountpoint'', p]) (\<lambda>found.
           case found of None \<Rightarrow> ret ()
           | Some properties \<Rightarrow>
               if \<not> isPropertyValueSet (pvalue properties p) then ret ()
               else if api \<notin> {v1, v2} then throw (unknown_version api)
               else unshare A api datasetName (pvalue properties ''mountpoint'') (pvalue properties p))) in
     if kind = ''nfs'' then listed FREENAS_NFS_SHARE_PROPERTY_NAME unshare_nfs
     else if kind = ''smb'' then listed FREENAS_SMB_SHARE_PROPERTY_NAME unshare_smb
     else if kind = ''iscsi'' then
       bind (share_properties A datasetName [FREENAS_ISCSI_TARGET_ID_PROPERTY_NAME, FREENAS_ISCSI_EXTENT_ID_PROPERTY_NAME,
           FREENAS_ISCSI_TARGETTOEXTENT_ID_PROPERTY_NAME, FREENAS_ISCSI_ASSETS_NAME_PROPERTY_NAME]) (\<lambda>found.
         case found of None \<Rightarrow> ret () | Some properties \<Rightarrow> unshare_iscsi_assets A api properties datasetName)
     else andthen (nvmeof_available A V)
       (bind (share_properties A datasetName [FREENAS_NVMEOF_SUBSYSTEM_ID_PROPERTY_NAME, FREENAS_NVMEOF_NAMESPACE_ID_PROPERTY_NAME,
           FREENAS_NVMEOF_ASSETS_NAME_PROPERTY_NAME]) (\<lambda>found.
         case found of None \<Rightarrow> ret () | Some properties \<Rightarrow> unshare_nvmeof_assets A properties datasetName))))"

text \<open>The code returns before the disabled reload of the iscsi daemon.\<close>

definition nas_expandVolume :: "('e, unit) nas" where
  "nas_expandVolume = ret ()"

definition removeSnapshots_api :: "'e nas_driver \<Rightarrow> string \<Rightarrow> ('e, unit) pnas" where
  "removeSnapshots_api A datasetName =
     pbind (total (DatasetDestroySnapshots (na_client A) datasetName [])) (\<lambda>job_id.
     if truthy job_id then pbind (CoreWaitForJob (na_client A) job_id 30 3000) (\<lambda>_. pret ()) else pret ())"

end
