(* ===== verification/Freenas_Controller.thy ===== *)
theory Freenas_Controller
  imports Freenas_Shares Controller_Snapshots
begin

text \<open>
  The handlers of \<open>src/driver/freenas/api.js\<close>, the controller for FreeNAS and TrueNAS over the web API. They
  repeat those of the ZFS controller (\<open>Controller_Base\<close> to \<open>Controller_Snapshots\<close>) with calls of the API
  instead of zfs commands; where the code is the same, so is the definition. A replication is a job of the
  appliance that the code waits for without a bound. The ids of a request are strings, as its protocol says.
\<close>

section \<open>The base\<close>

definition nas_service_options :: "(string \<Rightarrow> bool) \<Rightarrow> jsobj \<Rightarrow> exn + jsobj" where
  "nas_service_options satisfies options =
     ebind (if obj_has (inner_obj (obj_get (inner_obj (obj_get (inner_obj (obj_get options ''service'')) ''node'')) ''capabilities'')) ''rpc'' then Inr ''volume''
            else getDriverZfsResourceType_api options) (\<lambda>resource.
     Inr (controller_service_options satisfies resource options))"

text \<open>The driver as the code that is the same as that of the ZFS controller sees it.\<close>

definition zfs_view :: "'e nas_driver \<Rightarrow> string \<Rightarrow> ('e \<times> js) driver" where
  "zfs_view A resource = (na_base A)\<lparr>dr_resource := resource\<rparr>"

definition resource_type :: "'e nas_driver \<Rightarrow> exn + string" where
  "resource_type A = getDriverZfsResourceType_api (na_options A)"

definition volume_parent :: "'e nas_driver \<Rightarrow> exn + string" where
  "volume_parent A = getVolumeParentDatasetName (na_base A)"

definition detached_parent :: "'e nas_driver \<Rightarrow> exn + string" where
  "detached_parent A = getDetachedSnapshotParentDatasetName (na_base A)"

definition getMinimumVolumeSize :: "string \<Rightarrow> js" where
  "getMinimumVolumeSize resource = (if resource = ''filesystem'' then Num (IntN 1073741824) else Undef)"

definition nas_getAccessModes :: "'e nas_driver \<Rightarrow> js \<Rightarrow> exn + js" where
  "nas_getAccessModes A capability =
     (if na_get A ''csi.access_modes'' Null \<noteq> Null then Inr (na_get A ''csi.access_modes'' Null)
      else ebind (resource_type A) (\<lambda>resource. getAccessModes (zfs_view A resource) capability))"

definition nas_assertCapabilities :: "'e nas_driver \<Rightarrow> js \<Rightarrow> exn + bool \<times> js" where
  "nas_assertCapabilities A capabilities =
     ebind (resource_type A) (\<lambda>resource. assertCapabilities (zfs_view A resource) capabilities)"

definition nas_getVolumeStatus :: "'e nas_driver \<Rightarrow> js" where
  "nas_getVolumeStatus A =
     (if \<not> dr_satisfies (na_base A) ''>=1.2.0'' then Undef
      else Obj ((if rpc_enabled (na_base A) ''LIST_VOLUMES_PUBLISHED_NODES'' then [(''published_node_ids'', Arr [])] else [])
             @ (if dr_satisfies (na_base A) ''>=1.3.0'' \<and> rpc_enabled (na_base A) ''VOLUME_CONDITION''
                then [(''volume_condition'', Obj [(''abnormal'', Bool False), (''message'', Str ''OK'')])] else [])))"

definition nas_populate :: "'e nas_driver \<Rightarrow> jsobj \<Rightarrow> exn + js" where
  "nas_populate A row =
     ebind (resource_type A) (\<lambda>resource.
     ebind (volume_parent A) (\<lambda>datasetName.
       if \<not> loose_eq (obj_get row MANAGED_PROPERTY_NAME) (Str ''true'') then Inr Undef
       else if \<not> isPropertyValueSet (obj_get row SHARE_VOLUME_CONTEXT_PROPERTY_NAME) then Inr Undef
       else ebind (volume_context_of_row (Obj row)) (\<lambda>volume_context.
         ebind (as_string (obj_get row ''name'')) (\<lambda>name.
         ebind (strip_prefix (datasetName @ ''/'') name) (\<lambda>volume_id.
         Inr (Obj [(''volume_id'', Str volume_id),
            (''capacity_bytes'', obj_get row (if resource = ''filesystem'' then ''refquota'' else ''volsize'')),
            (''content_source'', content_source_of_row (obj_get row VOLUME_CONTENT_SOURCE_TYPE_PROPERTY_NAME)
               (obj_get row VOLUME_CONTENT_SOURCE_ID_PROPERTY_NAME)),
            (''volume_context'', volume_context)]))))))"

definition nas_Probe :: "'e nas_driver \<Rightarrow> ('e, js) nas" where
  "nas_Probe A =
     (let ready = Obj [(''ready'', Obj [(''value'', Bool True)])] in
      if ''controller'' \<notin> set (dr_csiMode (na_base A)) then ret ready
      else bind (lift (volume_parent A)) (\<lambda>v.
        bind (lift (detached_parent A)) (\<lambda>s.
        andthen (throw_when (starts_with (v @ ''/'') (s @ ''/'') \<or> starts_with (s @ ''/'') (v @ ''/''))
          (grpc FAILED_PRECONDITION ''datasetParentName and detachedSnapshotsDatasetParentName must not overlap''))
       (bind (catch (getSystemVersion (na_client A))
          (\<lambda>err. throw (grpc FAILED_PRECONDITION (''TrueNAS api is unavailable: '' @ exn_str err)))) (\<lambda>_.
        bind (getIsScale (na_client A)) (\<lambda>scale.
        andthen (throw_when (\<not> scale) (grpc FAILED_PRECONDITION ''driver is only available with TrueNAS SCALE'')) (ret ready)))))))"

section \<open>CreateVolume: the checks\<close>

text \<open>The dataset of the volume that a request names.\<close>

definition nas_dataset :: "'e nas_driver \<Rightarrow> jsobj \<Rightarrow> exn + string" where
  "nas_dataset A req =
     ebind (volume_parent A) (\<lambda>datasetParentName.
       if datasetParentName = [] then Inl missing_parent
       else if \<not> truthy (obj_get req ''volume_id'') then Inl (invalid_argument ''volume_id is required'')
       else Inr (datasetParentName @ ''/'' @ to_str (obj_get req ''volume_id'')))"

definition nas_check_capabilities :: "'e nas_driver \<Rightarrow> js \<Rightarrow> exn + unit" where
  "nas_check_capabilities A capabilities =
     (case capabilities of
        Arr (c # cs) \<Rightarrow> ebind (nas_assertCapabilities A capabilities) (\<lambda>(valid, m).
            if valid then Inr () else Inl (invalid_argument (to_str m)))
      | _ \<Rightarrow> Inl (invalid_argument ''missing volume_capabilities''))"

text \<open>The capacity of a filesystem is at least the minimum; that of a zvol is a multiple of its blocks.\<close>

definition raised :: "js \<Rightarrow> js \<Rightarrow> js" where
  "raised capacity_bytes minimum =
     (if js_greater capacity_bytes (Num (IntN 0)) \<and> js_greater minimum (Num (IntN 0)) \<and> js_less capacity_bytes minimum
      then minimum else capacity_bytes)"

definition nas_capacity :: "string \<Rightarrow> js \<Rightarrow> js \<Rightarrow> exn + js" where
  "nas_capacity resource r zvolBlocksize =
     (if range_inverted r then Inl (grpc OUT_OF_RANGE ''required_bytes is greather than limit_bytes'')
      else let wanted = or_else (field r ''required_bytes'') (field r ''limit_bytes'') in
        if \<not> truthy wanted then Inl (invalid_argument ''volume capacity is required (either required_bytes or limit_bytes)'')
        else let a = raised wanted (getMinimumVolumeSize resource);
                 capacity_bytes = (if truthy a \<and> resource = ''volume'' then Num (generateZvolSize a zvolBlocksize) else a)
             in if above_limit capacity_bytes r then Inl (grpc OUT_OF_RANGE ''required volume capacity is greater than limit'')
                else Inr capacity_bytes)"

definition rawvalue :: "jsobj \<Rightarrow> string \<Rightarrow> js" where
  "rawvalue properties p = field (obj_get properties p) ''rawvalue''"

definition nas_check_existing :: "'e nas_driver \<Rightarrow> string \<Rightarrow> string \<Rightarrow> js \<Rightarrow> ('e, unit) nas" where
  "nas_check_existing A resource datasetName r =
     catch
       (bind (DatasetGet (na_client A) datasetName [''volsize'', ''refquota''] []) (\<lambda>properties.
        let sz = rawvalue properties (if resource = ''volume'' then ''volsize'' else ''refquota'') in
        throw_when
          ((resource = ''volume'' \<or> resource = ''filesystem'' \<and> truthy (zopt (na_options A) ''datasetEnableQuotas''))
           \<and> (below_required sz r \<or> above_limit sz r))
          (grpc ALREADY_EXISTS
            (''volume has already been created with a different size, existing size: '' @ to_str sz
             @ '', required_bytes: '' @ to_str (field r ''required_bytes'') @ '', limit_bytes: '' @ to_str (field r ''limit_bytes'')))))
       (\<lambda>err. if not_there err then ret () else throw err)"

record nas_plan =
  np_resource :: string
  np_volume_id :: string
  np_blocksize :: js
  np_capacity :: js
  np_dataset :: string
  np_properties :: jsobj

text \<open>Everything before the dataset is made.\<close>

definition nas_create_checks :: "'e nas_driver \<Rightarrow> jsobj \<Rightarrow> ('e, nas_plan) nas" where
  "nas_create_checks A req =
     bind (lift (resource_type A)) (\<lambda>resource.
     bind (lift (volume_parent A)) (\<lambda>datasetParentName.
     bind (lift (detached_parent A)) (\<lambda>_.
     let zvolBlocksize = or_else (zopt (na_options A) ''zvolBlocksize'') (Str ''16K''); r = request_range req in
     bind (lift (getVolumeIdFromCall (na_base A) req)) (\<lambda>volume_id.
     andthen (throw_when (datasetParentName = []) missing_parent)
    (bind (lift (nas_check_capabilities A (obj_get req ''volume_capabilities''))) (\<lambda>_.
     bind (lift (nas_capacity resource r zvolBlocksize)) (\<lambda>capacity_bytes.
     let datasetName = datasetParentName @ ''/'' @ volume_id in
     andthen (nas_check_existing A resource datasetName r)
    (andthen (do_when (resource = ''volume'') (check_disk_name A ''extent'' (''zvol/'' @ datasetName)))
    (bind (lift (volume_properties (zfs_view A resource) (na_options A) req)) (\<lambda>ps.
     ret \<lparr>np_resource = resource, np_volume_id = volume_id, np_blocksize = zvolBlocksize, np_capacity = capacity_bytes,
          np_dataset = datasetName, np_properties = ps\<rparr>))))))))))"

section \<open>Copies\<close>

text \<open>A replication of one snapshot within the appliance.\<close>

definition replication :: "string \<Rightarrow> string \<Rightarrow> js" where
  "replication snapshot target =
     Obj [(''direction'', Str ''PUSH''), (''transport'', Str ''LOCAL''), (''source_datasets'', Arr [Str (extractDatasetName snapshot)]),
       (''target_dataset'', Str target), (''name_regex'', Str (''^'' @ extractSnapshotName snapshot @ ''$'')), (''recursive'', Bool False),
       (''retention_policy'', Str ''NONE''), (''readonly'', Str ''IGNORE''), (''properties'', Bool False), (''only_from_scratch'', Bool True)]"

text \<open>One look at the job; the pause comes after it.\<close>

definition replication_round :: "'e nas_driver \<Rightarrow> js \<Rightarrow> ('e, js \<times> bool) nas" where
  "replication_round A job_id =
     bind (CoreGetJobs (na_client A) [(''id'', job_id)]) (\<lambda>jobs.
     bind (lift (first_job jobs)) (\<lambda>job.
     andthen (nas_sleep A 3000) (ret (job, truthy job \<and> job_finished (field job ''state'')))))"

partial_function (option) replication_rounds ::
  "'e nas_driver \<Rightarrow> js \<Rightarrow> ('e \<times> js) world \<Rightarrow> ((exn + js) \<times> ('e \<times> js) world) option" where
  "replication_rounds A job_id w =
     (case replication_round A job_id w of
        (Inl e, w1) \<Rightarrow> Some (Inl e, w1)
      | (Inr (j, finished), w1) \<Rightarrow> if finished then Some (Inr j, w1) else replication_rounds A job_id w1)"

text \<open>A job that did not succeed counts when its error says that the target is there.\<close>

definition check_job :: "js \<Rightarrow> exn + unit" where
  "check_job job =
     (let error = or_else (field job ''error'') (Str []); state = field job ''state'' in
      if state = Str ''SUCCESS'' then Inr ()
      else ebind (js_includes error (Str ''already exists'')) (\<lambda>there.
        if there then Inr ()
        else Inl (grpc UNKNOWN (''failed to run replication task ('' @ to_str state @ ''): '' @ to_str error))))"

definition replicate_snapshot :: "'e nas_driver \<Rightarrow> string \<Rightarrow> string \<Rightarrow> ('e, unit) pnas" where
  "replicate_snapshot A snapshot target =
     pbind (total (ReplicationRunOnetime (na_client A) (replication snapshot target))) (\<lambda>job_id.
     pbind (replication_rounds A job_id) (\<lambda>job. total (lift (check_job job))))"

definition ignoring_received :: "('e, unit) pnas \<Rightarrow> ('e, unit) pnas" where
  "ignoring_received m = pcatch m (\<lambda>err. if already_received err then pret () else pthrow err)"

definition source_gone :: "exn \<Rightarrow> bool" where
  "source_gone err \<longleftrightarrow> err_has err ''dataset does not exist'' \<or> err_has err ''not found''"

definition gone_as :: "exn \<Rightarrow> exn \<Rightarrow> ('w, 'a) io" where
  "gone_as e err = throw (if source_gone err then e else err)"

definition defer_delete :: jsobj where
  "defer_delete = [(''defer'', Bool True)]"

definition nas_clone :: "'e nas_driver \<Rightarrow> string \<Rightarrow> string \<Rightarrow> jsobj \<Rightarrow> ('e, unit) nas" where
  "nas_clone A snapshot datasetName ps =
     catch (CloneCreate (na_client A) snapshot datasetName [(''dataset_properties'', Obj ps)])
       (gone_as (grpc NOT_FOUND ''dataset does not exists''))"

definition nas_from_snapshot :: "'e nas_driver \<Rightarrow> jsobj \<Rightarrow> nas_plan \<Rightarrow> jsobj \<Rightarrow> js \<Rightarrow> ('e, unit) pnas" where
  "nas_from_snapshot A req pl ps source =
     pbind (total (lift (getps source [''snapshot'', ''snapshot_id'']))) (\<lambda>v.
     pbind (total (lift (as_string v))) (\<lambda>sid.
     pbind (total (lift (if isZfsSnapshot sid then volume_parent A else detached_parent A))) (\<lambda>parent.
     let detachedClone = detached_param (na_base A) req ''detachedVolumesFromSnapshots'';
         ps = obj_set VOLUME_CONTENT_SOURCE_ID_PROPERTY_NAME v ps;
         fullSnapshotName = parent @ ''/'' @ sid
           @ (if isZfsSnapshot sid then [] else ''@'' @ VOLUME_SOURCE_CLONE_SNAPSHOT_PREFIX @ np_volume_id pl);
         no_source = grpc NOT_FOUND (''snapshot source_snapshot_id '' @ sid @ '' does not exist'') in
     pbind (total (do_when (\<not> isZfsSnapshot sid)
       (catch (SnapshotCreate (na_client A) fullSnapshotName []) (gone_as no_source)))) (\<lambda>_.
     pbind (if detachedClone
       then pbind (ignoring_received (pbind (replicate_snapshot A fullSnapshotName (np_dataset pl))
              (\<lambda>_. total (DatasetSet (na_client A) (np_dataset pl) ps))))
            (\<lambda>_. removeSnapshots_api A (np_dataset pl))
       else total (nas_clone A fullSnapshotName (np_dataset pl) ps)) (\<lambda>_.
     total (do_when (\<not> isZfsSnapshot sid)
       (catch (SnapshotDelete (na_client A) fullSnapshotName defer_delete) (gone_as no_source))))))))"

definition nas_from_volume :: "'e nas_driver \<Rightarrow> jsobj \<Rightarrow> nas_plan \<Rightarrow> jsobj \<Rightarrow> js \<Rightarrow> ('e, unit) pnas" where
  "nas_from_volume A req pl ps source =
     pbind (total (lift (getps source [''volume'', ''volume_id'']))) (\<lambda>v.
     pbind (total (lift (volume_parent A))) (\<lambda>parent.
     let detachedClone = detached_param (na_base A) req ''detachedVolumesFromVolumes'';
         ps = obj_set VOLUME_CONTENT_SOURCE_ID_PROPERTY_NAME v ps;
         fullSnapshotName = parent @ ''/'' @ to_str v @ ''@'' @ VOLUME_SOURCE_CLONE_SNAPSHOT_PREFIX @ np_volume_id pl in
     pbind (total (catch (SnapshotCreate (na_client A) fullSnapshotName [])
       (gone_as (grpc NOT_FOUND ''dataset does not exists'')))) (\<lambda>_.
     if detachedClone
     then pbind (ignoring_received (replicate_snapshot A fullSnapshotName (np_dataset pl))) (\<lambda>_.
       pbind (total (DatasetSet (na_client A) (np_dataset pl) ps)) (\<lambda>_.
       pbind (removeSnapshots_api A (np_dataset pl)) (\<lambda>_.
       total (SnapshotDelete (na_client A) fullSnapshotName defer_delete))))
     else total (nas_clone A fullSnapshotName (np_dataset pl) ps))))"

text \<open>A new dataset; what is undefined is not sent.\<close>

definition nas_new_dataset :: "'e nas_driver \<Rightarrow> nas_plan \<Rightarrow> ('e, unit) nas" where
  "nas_new_dataset A pl =
     (let volume = (np_resource pl = ''volume'');
          ps = (if volume then obj_set ''volblocksize'' (np_blocksize pl) (np_properties pl) else np_properties pl) in
      bind (lift (getDriverShareType_api (na_options A))) (\<lambda>kind.
      DatasetCreate (na_client A) (np_dataset pl)
        (obj_assign (getSystemProperties ps)
          ([(''type'', Str (map upper_ch (np_resource pl)))]
           @ (if volume then [(''volsize'', np_capacity pl), (''sparse'', Bool (\<not> truthy (zopt (na_options A) ''zvolEnableReservation'')))] else [])
           @ [(''create_ancestors'', Bool True), (''share_type'', Str (if contains kind ''smb'' then ''SMB'' else ''GENERIC'')),
              (''user_properties'', getPropertiesKeyValueArray (getUserProperties ps))]))))"

definition nas_create_dataset :: "'e nas_driver \<Rightarrow> jsobj \<Rightarrow> nas_plan \<Rightarrow> ('e, unit) pnas" where
  "nas_create_dataset A req pl =
     (let source = obj_get req ''volume_content_source''; t = field source ''type'';
          ps = obj_set VOLUME_CONTENT_SOURCE_TYPE_PROPERTY_NAME t (np_properties pl) in
      if \<not> truthy source then total (nas_new_dataset A pl)
      else if t = Str ''snapshot'' then nas_from_snapshot A req pl ps source
      else if t = Str ''volume'' then nas_from_volume A req pl ps source
      else pthrow (invalid_argument (''invalid volume_content_source type: '' @ to_str t)))"

section \<open>CreateVolume: the setup\<close>

text \<open>The mode and the owner of the mount point; an owner has to be a number.\<close>

definition owner_number :: "jsobj \<Rightarrow> string \<Rightarrow> exn + js option" where
  "owner_number zfs k =
     (if \<not> obj_has zfs k then Inr None
      else if all_digits (to_str (obj_get zfs k)) then Inr (Some (Num (to_num (Str (to_str (obj_get zfs k))))))
      else Inl (grpc FAILED_PRECONDITION (k @ '' must be numeric: '' @ to_str (obj_get zfs k))))"

definition some_field :: "string \<Rightarrow> js option \<Rightarrow> jsobj" where
  "some_field k v = (case v of None \<Rightarrow> [] | Some x \<Rightarrow> [(k, x)])"

definition wait_for_job :: "'e nas_driver \<Rightarrow> js \<Rightarrow> ('e, unit) pnas" where
  "wait_for_job A job_id = pbind (CoreWaitForJob (na_client A) job_id 30 3000) (\<lambda>_. pret ())"

definition set_permissions :: "'e nas_driver \<Rightarrow> js \<Rightarrow> js \<Rightarrow> js option \<Rightarrow> js option \<Rightarrow> ('e, unit) pnas" where
  "set_permissions A path mode uid gid =
     (let owner = some_field ''uid'' uid @ some_field ''gid'' gid;
          perms = [(''path'', path)] @ (if truthy mode then [(''mode'', mode)] else []) @ owner in
      if \<not> truthy mode \<and> uid = None \<and> gid = None then pret ()
      else pbind (total (FilesystemSetperm (na_client A) (Obj perms))) (\<lambda>job.
        pbind (wait_for_job A job) (\<lambda>_.
        if (\<exists>x \<in> set owner. truthy (snd x))
        then pbind (total (FilesystemChown (na_client A) (Obj ((''path'', path) # owner)))) (wait_for_job A)
        else pret ())))"

definition as_number :: "js \<Rightarrow> js" where
  "as_number v = Num (to_num v)"

text \<open>The list of ACLs is walked, but no ACL is set.\<close>

definition nas_setup_filesystem :: "'e nas_driver \<Rightarrow> string \<Rightarrow> js \<Rightarrow> ('e, unit) pnas" where
  "nas_setup_filesystem A datasetName capacity_bytes =
     (let zfs = inner_obj (obj_get (na_options A) ''zfs''); ps = quota_properties (na_options A) (as_number capacity_bytes) in
      pbind (total (do_when (ps \<noteq> []) (DatasetSet (na_client A) datasetName ps))) (\<lambda>_.
      pbind (total (DatasetGet (na_client A) datasetName [''mountpoint'', ''refquota'', ''compression'', VOLUME_CSI_NAME_PROPERTY_NAME,
        VOLUME_CONTENT_SOURCE_TYPE_PROPERTY_NAME, VOLUME_CONTENT_SOURCE_ID_PROPERTY_NAME] [])) (\<lambda>properties.
      pbind (total (lift (owner_number zfs ''datasetPermissionsUser''))) (\<lambda>uid.
      pbind (total (lift (owner_number zfs ''datasetPermissionsGroup''))) (\<lambda>gid.
      pbind (set_permissions A (pvalue properties ''mountpoint'') (obj_get zfs ''datasetPermissionsMode'') uid gid) (\<lambda>_.
      if truthy (obj_get zfs ''datasetPermissionsAcls'')
      then pbind (total (lift (js_iter (obj_get zfs ''datasetPermissionsAcls'')))) (\<lambda>_. pret ())
      else pret ()))))))"

definition nas_setup :: "'e nas_driver \<Rightarrow> nas_plan \<Rightarrow> ('e, unit) pnas" where
  "nas_setup A pl =
     (if np_resource pl = ''filesystem'' then nas_setup_filesystem A (np_dataset pl) (np_capacity pl)
      else total (DatasetSet (na_client A) (np_dataset pl) (zvol_properties (na_options A) (as_number (np_capacity pl)))))"

text \<open>The capacity that is reported: none for a filesystem without a quota.\<close>

definition told_capacity :: "'e nas_driver \<Rightarrow> string \<Rightarrow> js \<Rightarrow> js" where
  "told_capacity A resource capacity_bytes =
     (if truthy (zopt (na_options A) ''datasetEnableQuotas'') \<or> resource = ''volume'' then capacity_bytes else Num (IntN 0))"

definition nas_volume_context :: "'e nas_driver \<Rightarrow> jsobj \<Rightarrow> jsobj" where
  "nas_volume_context A volume_context =
     (let ctx = obj_set ''provisioner_driver'' (obj_get (na_options A) ''driver'') volume_context in
      if truthy (obj_get (na_options A) ''instance_id'')
      then obj_set ''provisioner_driver_instance_id'' (obj_get (na_options A) ''instance_id'') ctx else ctx)"

definition nas_volume :: "'e nas_driver \<Rightarrow> jsobj \<Rightarrow> nas_plan \<Rightarrow> jsobj \<Rightarrow> js" where
  "nas_volume A req pl volume_context =
     Obj [(''volume'', Obj [(''volume_id'', Str (np_volume_id pl)),
       (''capacity_bytes'', told_capacity A (np_resource pl) (np_capacity pl)),
       (''content_source'', obj_get req ''volume_content_source''),
       (''volume_context'', Obj (nas_volume_context A volume_context))])]"

definition nas_finish :: "'e nas_driver \<Rightarrow> jsobj \<Rightarrow> nas_plan \<Rightarrow> jsobj \<Rightarrow> ('e, js) nas" where
  "nas_finish A req pl volume_context =
     andthen (DatasetSet (na_client A) (np_dataset pl) [(SHARE_VOLUME_CONTEXT_PROPERTY_NAME, Str (json_print (Obj volume_context)))])
    (andthen (DatasetSet (na_client A) (np_dataset pl) [(SUCCESS_PROPERTY_NAME, Str ''true'')])
       (ret (nas_volume A req pl volume_context)))"

definition nas_CreateVolume :: "'e nas_driver \<Rightarrow> jsobj \<Rightarrow> ('e, js) pnas" where
  "nas_CreateVolume A req =
     pbind (total (nas_create_checks A req)) (\<lambda>pl.
     pbind (nas_create_dataset A req pl) (\<lambda>_.
     pbind (nas_setup A pl) (\<lambda>_.
     pbind (nas_createShare A req (np_dataset pl)) (\<lambda>volume_context.
     total (nas_finish A req pl volume_context)))))"

section \<open>DeleteVolume\<close>

definition nas_delete_properties :: "'e nas_driver \<Rightarrow> string \<Rightarrow> ('e, jsobj option) nas" where
  "nas_delete_properties A datasetName =
     catch (bind (DatasetGet (na_client A) datasetName
         [''id'', ''mountpoint'', ''origin'', ''refquota'', ''compression'', VOLUME_CSI_NAME_PROPERTY_NAME, ''snapshots'']
         [(''extra.snapshots'', Str ''true''), (''extra.retrieve_children'', Str ''false'')]) (\<lambda>p. ret (Some p)))
       (\<lambda>err. if not_there err then ret None else throw err)"

text \<open>The snapshot that was made for this clone goes with it.\<close>

definition nas_origin :: "jsobj option \<Rightarrow> exn + string option" where
  "nas_origin properties =
     (case properties of None \<Rightarrow> Inr None
      | Some p \<Rightarrow>
          if loose_eq (pvalue p ''origin'') (Str ''-'') then Inr None
          else ebind (as_string (field (obj_get p ''origin'') ''parsed'')) (\<lambda>s.
            Inr (if starts_with (extractSnapshotName s) VOLUME_SOURCE_CLONE_SNAPSHOT_PREFIX then Some s else None)))"

definition nas_remove_origin :: "'e nas_driver \<Rightarrow> jsobj option \<Rightarrow> ('e, unit) nas" where
  "nas_remove_origin A properties =
     bind (lift (nas_origin properties)) (\<lambda>origin.
     case origin of None \<Rightarrow> ret ()
     | Some s \<Rightarrow> catch (SnapshotDelete (na_client A) s defer_delete)
         (rethrow_as ''snapshot has dependent clones'' (grpc FAILED_PRECONDITION ''snapshot has dependent clones'')))"

fun any_managed :: "'e nas_driver \<Rightarrow> js list \<Rightarrow> ('e, bool) nas" where
  "any_managed A [] = ret False"
| "any_managed A (s # ss) =
     bind (lift (getp s ''name'')) (\<lambda>n.
     bind (SnapshotGet (na_client A) (to_str n) [MANAGED_PROPERTY_NAME]) (\<lambda>p.
     bind (lift (as_string (pvalue p MANAGED_PROPERTY_NAME))) (\<lambda>v.
     if to_lower v = ''true'' then ret True else any_managed A ss)))"

definition nas_check_managed :: "'e nas_driver \<Rightarrow> jsobj option \<Rightarrow> ('e, unit) nas" where
  "nas_check_managed A properties =
     bind (catch (bind (lift (case properties of None \<Rightarrow> Inr [] | Some p \<Rightarrow> js_iter (obj_get p ''snapshots''))) (any_managed A))
         (\<lambda>err. if not_there err then ret False else throw (grpc UNKNOWN (''failed to test for snapshots: '' @ exn_str err))))
       (\<lambda>b. throw_when b (grpc FAILED_PRECONDITION ''filesystem has dependent snapshots''))"

definition busy_dataset :: "exn \<Rightarrow> bool" where
  "busy_dataset err \<longleftrightarrow> err_has err ''dataset is busy'' \<or> err_has err ''target is busy''"

definition nas_delete_dataset :: "'e nas_driver \<Rightarrow> string \<Rightarrow> ('e, unit) nas" where
  "nas_delete_dataset A datasetName =
     catch (retry (nas_sleep A) (ret 0) 12 5000
         (DatasetDelete (na_client A) datasetName (Obj [(''recursive'', Bool True), (''force'', Bool True)]))
         (no_retry_options\<lparr>ro_retryCondition := Some busy_dataset\<rparr>))
       (rethrow_as ''filesystem has dependent clones'' (grpc FAILED_PRECONDITION ''filesystem has dependent clones''))"

definition nas_DeleteVolume :: "'e nas_driver \<Rightarrow> jsobj \<Rightarrow> ('e, unit) nas" where
  "nas_DeleteVolume A req =
     bind (lift (nas_dataset A req)) (\<lambda>datasetName.
     bind (nas_delete_properties A datasetName) (\<lambda>properties.
     if loose_eq (na_get A ''_private.csi.volume.deleteStrategy'' (Str [])) (Str ''retain'') then ret ()
     else andthen (nas_deleteShare A datasetName)
         (andthen (nas_remove_origin A properties)
         (andthen (nas_check_managed A properties)
            (nas_delete_dataset A datasetName)))))"

section \<open>ControllerExpandVolume\<close>

definition nas_expanded :: "'e nas_driver \<Rightarrow> string \<Rightarrow> string \<Rightarrow> js \<Rightarrow> ('e, js) nas" where
  "nas_expanded A resource datasetName r =
     (let wanted = or_else (field r ''required_bytes'') (field r ''limit_bytes'') in
      if \<not> truthy wanted then throw (invalid_argument ''volume capacity is required (either required_bytes or limit_bytes)'')
      else bind
        (if resource = ''volume''
         then bind (DatasetGet (na_client A) datasetName [''volblocksize''] []) (\<lambda>p.
           ret (Num (generateZvolSize wanted (rawvalue p ''volblocksize''))))
         else ret wanted) (\<lambda>capacity_bytes.
        andthen (throw_when (range_inverted r) (invalid_argument ''required_bytes is greather than limit_bytes''))
       (andthen (throw_when (above_limit capacity_bytes r) (grpc OUT_OF_RANGE ''required volume capacity is greater than limit''))
          (ret capacity_bytes))))"

definition nas_ControllerExpandVolume :: "'e nas_driver \<Rightarrow> jsobj \<Rightarrow> ('e, js) nas" where
  "nas_ControllerExpandVolume A req =
     bind (lift (resource_type A)) (\<lambda>resource.
     bind (lift (nas_dataset A req)) (\<lambda>datasetName.
     bind (lift (getp (obj_get req ''capacity_range'') ''required_bytes'')) (\<lambda>_.
     bind (nas_expanded A resource datasetName (obj_get req ''capacity_range'')) (\<lambda>capacity_bytes.
     let ps = (if resource = ''filesystem'' then quota_properties (na_options A) (as_number capacity_bytes)
               else [(''volsize'', as_number capacity_bytes)]) in
     andthen (do_when (ps \<noteq> []) (DatasetSet (na_client A) datasetName ps))
    (andthen nas_expandVolume
       (ret (Obj [(''capacity_bytes'', told_capacity A resource capacity_bytes),
          (''node_expansion_required'', Bool (resource = ''volume''))])))))))"

end
