(* ===== verification/Freenas_Snapshots.thy ===== *)
theory Freenas_Snapshots
  imports Freenas_Controller
begin

text \<open>
  The queries and the snapshots of \<open>src/driver/freenas/api.js\<close>: \<open>GetCapacity\<close>, \<open>ControllerGetVolume\<close>,
  \<open>ListVolumes\<close>, \<open>ListSnapshots\<close>, \<open>CreateSnapshot\<close>, \<open>DeleteSnapshot\<close> and
  \<open>ValidateVolumeCapabilities\<close>. The appliance lists a dataset with its children and, on demand, the
  snapshots of each; a detached snapshot is a grandchild of its parent.
\<close>

section \<open>Capacity and volumes\<close>

definition nas_GetCapacity :: "'e nas_driver \<Rightarrow> jsobj \<Rightarrow> ('e, js) nas" where
  "nas_GetCapacity A req =
     bind (lift (volume_parent A)) (\<lambda>datasetName.
     andthen (throw_when (datasetName = []) missing_parent)
    (bind (if truthy (obj_get req ''volume_capabilities'') then lift (nas_assertCapabilities A (obj_get req ''volume_capabilities''))
           else ret (True, Null)) (\<lambda>(valid, _).
     if \<not> valid then ret (Obj [(''available_capacity'', Num (IntN 0))])
     else andthen (DatasetCreate (na_client A) datasetName [(''create_ancestors'', Bool True)])
         (bind (DatasetGet (na_client A) datasetName [''available''] []) (\<lambda>properties.
          bind (lift (resource_type A)) (\<lambda>resource.
          ret (Obj [(''available_capacity'', as_number (rawvalue properties ''available'')),
            (''minimum_volume_size'',
               if js_greater (getMinimumVolumeSize resource) (Num (IntN 0))
               then Obj [(''value'', as_number (getMinimumVolumeSize resource))] else Undef)])))))))"

definition nas_volume_properties :: "string list" where
  "nas_volume_properties = [''name'', ''mountpoint'', ''refquota'', ''available'', ''used'', VOLUME_CSI_NAME_PROPERTY_NAME,
     VOLUME_CONTENT_SOURCE_TYPE_PROPERTY_NAME, VOLUME_CONTENT_SOURCE_ID_PROPERTY_NAME, ''volsize'', MANAGED_PROPERTY_NAME,
     SHARE_VOLUME_CONTEXT_PROPERTY_NAME, SUCCESS_PROPERTY_NAME, VOLUME_CONTEXT_PROVISIONER_INSTANCE_ID_PROPERTY_NAME,
     VOLUME_CONTEXT_PROVISIONER_DRIVER_PROPERTY_NAME]"

text \<open>The raw values of properties.\<close>

definition raw_row :: "js \<Rightarrow> exn + jsobj" where
  "raw_row properties = efold (\<lambda>row (k, v). ebind (getp v ''rawvalue'') (\<lambda>x. Inr (obj_set k x row))) [] (entries properties)"

definition nas_ControllerGetVolume :: "'e nas_driver \<Rightarrow> jsobj \<Rightarrow> ('e, js) nas" where
  "nas_ControllerGetVolume A req =
     bind (lift (resource_type A)) (\<lambda>_.
     bind (lift (nas_dataset A req)) (\<lambda>datasetName.
     bind (catch (DatasetGet (na_client A) datasetName nas_volume_properties [])
        (rethrow_as ''dataset does not exist'' (grpc NOT_FOUND ''volume_id is missing''))) (\<lambda>properties.
     bind (lift (raw_row (Obj properties))) (\<lambda>row.
     bind (lift (nas_populate A row)) (\<lambda>volume.
     let status = nas_getVolumeStatus A in
     ret (Obj ((''volume'', volume) # (if truthy status then [(''status'', status)] else []))))))))"

definition nas_volume_entry :: "'e nas_driver \<Rightarrow> js list \<Rightarrow> jsobj \<Rightarrow> exn + js list" where
  "nas_volume_entry A es row =
     (if \<not> loose_eq (obj_get row MANAGED_PROPERTY_NAME) (Str ''true'') then Inr es
      else ebind (nas_populate A row) (\<lambda>volume.
        Inr (if truthy volume then es @ [Obj [(''volume'', volume), (''status'', nas_getVolumeStatus A)]] else es)))"

definition child_row :: "string list \<Rightarrow> js \<Rightarrow> exn + jsobj" where
  "child_row ps child = ebind (normalizeProperties child ps) (\<lambda>p. raw_row (Obj p))"

definition nas_ListVolumes :: "'e nas_driver \<Rightarrow> jsobj \<Rightarrow> ('e, js) nas" where
  "nas_ListVolumes A req =
     (let max_entries = obj_get req ''max_entries''; starting_token = obj_get req ''starting_token'' in
      bind (lift (resource_type A)) (\<lambda>_.
      bind (lift (volume_parent A)) (\<lambda>datasetName.
      if truthy starting_token then cached_page (na_base A) ''ListVolumes'' max_entries (to_str starting_token)
      else if datasetName = [] then throw missing_parent
      else bind (lift (dataset_endpoint datasetName)) (\<lambda>endpoint.
        bind (http_get (na_client A) endpoint Undef []) (\<lambda>r.
        if fst r = 404 then ret (list_result_js [] Null)
        else bind (lift (if fst r \<noteq> 200 then Inr []
               else ebind (getp (snd r) ''children'') (\<lambda>cs. ebind (js_iter cs) (\<lambda>children.
                 efold (\<lambda>rows c. ebind (child_row nas_volume_properties c) (\<lambda>row. Inr (rows @ [row]))) [] children)))) (\<lambda>rows.
          bind (lift (efold (nas_volume_entry A) [] rows)) (first_page (na_base A) ''ListVolumes'' max_entries)))))))"

section \<open>ListSnapshots\<close>

definition nas_snapshot_properties :: "string list" where
  "nas_snapshot_properties = [''name'', ''creation'', ''mountpoint'', ''refquota'', ''available'', ''used'', ''volsize'', ''referenced'',
     ''logicalreferenced'', VOLUME_CSI_NAME_PROPERTY_NAME, SNAPSHOT_CSI_NAME_PROPERTY_NAME, MANAGED_PROPERTY_NAME]"

text \<open>A dataset as the appliance shows it; only the status 200 is an answer.\<close>

definition shown_dataset :: "'e nas_driver \<Rightarrow> string \<Rightarrow> js \<Rightarrow> ('e, js) nas" where
  "shown_dataset A datasetName query =
     bind (lift (dataset_endpoint datasetName)) (\<lambda>endpoint.
     bind (http_get (na_client A) endpoint query []) (\<lambda>r.
     if fst r = 404 then throw (js_error ''dataset does not exist'')
     else if fst r = 200 then ret (snd r)
     else throw (js_error (''unhandled statusCode: '' @ show_int (fst r)))))"

definition with_snapshots :: js where
  "with_snapshots = Obj [(''extra.snapshots'', Num (IntN 1)),
     (''extra.snapshots_properties'', Str (json_print (Arr (map Str nas_snapshot_properties))))]"

definition iterated :: "js \<Rightarrow> string \<Rightarrow> ('e, js list) nas" where
  "iterated v k = lift (ebind (getp v k) js_iter)"

text \<open>From version 25.10 on the properties of a snapshot are asked for one by one.\<close>

definition add_snapshot :: "'e nas_driver \<Rightarrow> bool \<Rightarrow> jsobj list \<Rightarrow> js \<Rightarrow> ('e, jsobj list) nas" where
  "add_snapshot A one_by_one rows snapshot =
     bind (if one_by_one
           then bind (lift (getp snapshot ''id'')) (\<lambda>i.
             bind (SnapshotGet (na_client A) (to_str i) nas_snapshot_properties) (\<lambda>p. ret (Obj p)))
           else lift (getp snapshot ''properties'')) (\<lambda>properties.
     bind (lift (raw_row properties)) (\<lambda>row. ret (rows @ [row])))"

definition add_child :: "jsobj list \<Rightarrow> js \<Rightarrow> ('e, jsobj list) nas" where
  "add_child rows child = bind (lift (child_row nas_snapshot_properties child)) (\<lambda>row. ret (rows @ [row]))"

datatype asked = One_snapshot | Of_volume | All_snapshots

definition asked_for :: "string \<Rightarrow> string \<Rightarrow> asked" where
  "asked_for snapshot_id source_volume_id =
     (if snapshot_id \<noteq> [] then One_snapshot else if source_volume_id \<noteq> [] then Of_volume else All_snapshots)"

definition snapshots_of_turn :: "'e nas_driver \<Rightarrow> bool \<Rightarrow> bool \<Rightarrow> asked \<Rightarrow> string \<Rightarrow> ('e, jsobj list) nas" where
  "snapshots_of_turn A one_by_one snapshots what fs =
     (case (snapshots, what) of
        (True, One_snapshot) \<Rightarrow> bind (SnapshotGet (na_client A) fs nas_snapshot_properties) (\<lambda>p.
          bind (lift (raw_row (Obj p))) (\<lambda>row. ret [row]))
      | (True, Of_volume) \<Rightarrow> bind (shown_dataset A fs with_snapshots) (\<lambda>d.
          bind (iterated d ''snapshots'') (fold_io (add_snapshot A one_by_one) []))
      | (True, All_snapshots) \<Rightarrow> bind (shown_dataset A fs with_snapshots) (\<lambda>d.
          bind (iterated d ''children'') (fold_io (\<lambda>rows c.
            bind (iterated c ''snapshots'') (fold_io (add_snapshot A one_by_one) rows)) []))
      | (False, One_snapshot) \<Rightarrow> bind (DatasetGet (na_client A) fs nas_snapshot_properties []) (\<lambda>p.
          bind (lift (raw_row (Obj p))) (\<lambda>row. ret [row]))
      | (False, Of_volume) \<Rightarrow> bind (shown_dataset A fs Undef) (\<lambda>d.
          bind (iterated d ''children'') (fold_io add_child []))
      | (False, All_snapshots) \<Rightarrow> bind (shown_dataset A fs Undef) (\<lambda>d.
          bind (iterated d ''children'') (fold_io (\<lambda>rows c.
            bind (iterated c ''children'') (fold_io add_child rows)) [])))"

definition creation_seconds :: "js \<Rightarrow> js" where
  "creation_seconds creation = (if isPropertyValueSet creation then creation else Num (IntN 0))"

definition nas_snapshot_row :: "'e nas_driver \<Rightarrow> string \<Rightarrow> string \<Rightarrow> jsobj \<Rightarrow> exn + js option" where
  "nas_snapshot_row A resource parent row =
     snapshot_row (zfs_view A resource) parent (obj_set ''creation'' (creation_seconds (obj_get row ''creation'')) row)"

definition nas_list_turn ::
  "'e nas_driver \<Rightarrow> string \<Rightarrow> bool \<Rightarrow> string \<Rightarrow> string \<Rightarrow> js list \<Rightarrow> bool \<times> string \<Rightarrow> ('e, js list) nas" where
  "nas_list_turn A resource one_by_one snapshot_id source_volume_id es turn =
     (case operative_filesystem (fst turn) (snd turn) snapshot_id source_volume_id of
        None \<Rightarrow> ret es
      | Some fs \<Rightarrow>
          bind (catch (bind (snapshots_of_turn A one_by_one (fst turn) (asked_for snapshot_id source_volume_id) fs) (\<lambda>rows. ret (Some rows)))
            (\<lambda>err. if not_there err then ret None else throw (grpc FAILED_PRECONDITION (exn_str err)))) (\<lambda>listed.
          case listed of None \<Rightarrow> ret es
          | Some rows \<Rightarrow> lift (efold (\<lambda>es row. ebind (nas_snapshot_row A resource (snd turn) row) (\<lambda>e.
              Inr (case e of None \<Rightarrow> es | Some x \<Rightarrow> es @ [x]))) es rows)))"

definition id_or_none :: "js \<Rightarrow> string" where
  "id_or_none v = (if truthy v then to_str v else [])"

definition nas_ListSnapshots :: "'e nas_driver \<Rightarrow> jsobj \<Rightarrow> ('e, js) nas" where
  "nas_ListSnapshots A req =
     (let max_entries = obj_get req ''max_entries''; starting_token = obj_get req ''starting_token'' in
      bind (lift (resource_type A)) (\<lambda>resource.
      bind (version_in (na_client A) ''>=25.10'') (\<lambda>one_by_one.
      bind (lift (volume_parent A)) (\<lambda>volumeParent.
      bind (lift (detached_parent A)) (\<lambda>snapshotParent.
      if truthy starting_token then cached_page (na_base A) ''ListSnapshots'' max_entries (to_str starting_token)
      else if volumeParent = [] then throw missing_parent
      else bind (fold_io (nas_list_turn A resource one_by_one (id_or_none (obj_get req ''snapshot_id''))
                 (id_or_none (obj_get req ''source_volume_id''))) [] [(True, volumeParent), (False, snapshotParent)])
             (first_page (na_base A) ''ListSnapshots'' max_entries))))))"

section \<open>CreateSnapshot\<close>

text \<open>\<open>concat\<close> of one value.\<close>

definition concat_value :: "js \<Rightarrow> js list" where
  "concat_value v = (case v of Arr xs \<Rightarrow> xs | _ \<Rightarrow> [v])"

definition below_children :: "string \<Rightarrow> js \<Rightarrow> exn + js list" where
  "below_children k body =
     ebind (getp body ''children'') (\<lambda>cs. ebind (js_iter cs) (\<lambda>children.
     efold (\<lambda>xs c. ebind (getp c k) (\<lambda>v. Inr (xs @ concat_value v))) [] children))"

definition nas_check_names :: "(string \<Rightarrow> string list) \<Rightarrow> string \<Rightarrow> string \<Rightarrow> js list \<Rightarrow> exn + unit" where
  "nas_check_names parts name source_volume_id xs =
     efold (\<lambda>_ x. ebind (getp x ''name'') (\<lambda>v. ebind (as_string v) (\<lambda>n.
        if used_elsewhere name source_volume_id (parts n) then Inl (name_taken name source_volume_id) else Inr ()))) () xs"

definition names_below ::
  "'e nas_driver \<Rightarrow> string \<Rightarrow> js \<Rightarrow> string \<Rightarrow> (string \<Rightarrow> string list) \<Rightarrow> string \<Rightarrow> string \<Rightarrow> ('e, unit) nas" where
  "names_below A parent query k parts name source_volume_id =
     bind (lift (dataset_endpoint parent)) (\<lambda>endpoint.
     bind (http_get (na_client A) endpoint query []) (\<lambda>r.
     if fst r = 200 then lift (ebind (below_children k (snd r)) (nas_check_names parts name source_volume_id))
     else if fst r = 404 then ret ()
     else throw (body_error (snd r))))"

text \<open>A name that a snapshot of another volume has is refused.\<close>

definition nas_check_name_free :: "'e nas_driver \<Rightarrow> string \<Rightarrow> string \<Rightarrow> ('e, unit) nas" where
  "nas_check_name_free A name source_volume_id =
     bind (lift (detached_parent A)) (\<lambda>sp.
     andthen (names_below A sp Undef ''children'' detached_parts name source_volume_id)
    (bind (lift (volume_parent A)) (\<lambda>vp.
     names_below A vp (Obj [(''extra.snapshots'', Num (IntN 1))]) ''snapshots'' attached_parts name source_volume_id)))"

definition nas_snapshot_request :: "'e nas_driver \<Rightarrow> string \<Rightarrow> jsobj \<Rightarrow> exn + snapshot_plan" where
  "nas_snapshot_request A resource req =
     (let D = zfs_view A resource; detached = detached_param D req ''detachedSnapshots'';
          source_volume_id = to_str (obj_get req ''source_volume_id'') in
      ebind (volume_parent A) (\<lambda>volumeParent.
      ebind (if detached then detached_parent A else volume_parent A) (\<lambda>datasetParentName.
      if datasetParentName = [] then Inl missing_parent
      else if \<not> truthy (obj_get req ''source_volume_id'') then Inl (invalid_argument ''snapshot source_volume_id is required'')
      else if \<not> truthy (obj_get req ''name'') then Inl (invalid_argument ''snapshot name is required'')
      else ebind (snapshot_properties D (na_options A) req (obj_get req ''name'') source_volume_id) (\<lambda>ps.
        ebind (check_snapshot_name (obj_get req ''name'')) (\<lambda>name.
        Inr \<lparr>sp_detached = detached, sp_types = snapshot_types D detached, sp_volumeParent = volumeParent,
             sp_parent = datasetParentName, sp_source = source_volume_id, sp_name = name, sp_properties = ps\<rparr>)))))"

definition nas_detached_snapshot :: "'e nas_driver \<Rightarrow> snapshot_plan \<Rightarrow> ('e, unit) pnas" where
  "nas_detached_snapshot A pl =
     (let datasetName = sp_parent pl @ ''/'' @ sp_source pl;
          tmpSnapshotName = sp_volumeParent pl @ ''/'' @ sp_source pl @ ''@'' @ VOLUME_SOURCE_DETACHED_SNAPSHOT_PREFIX @ sp_name pl;
          snapshotDatasetName = datasetName @ ''/'' @ sp_name pl in
      pbind (total (DatasetCreate (na_client A) datasetName [(''create_ancestors'', Bool True)])) (\<lambda>_.
      pbind (total (catch (SnapshotCreate (na_client A) tmpSnapshotName [])
        (rethrow_as ''dataset does not exist'' (source_missing (sp_source pl))))) (\<lambda>_.
      pbind (ignoring_received (pbind (replicate_snapshot A tmpSnapshotName snapshotDatasetName)
        (\<lambda>_. total (DatasetSet (na_client A) snapshotDatasetName (sp_properties pl))))) (\<lambda>_.
      total (andthen (SnapshotDelete (na_client A) (snapshotDatasetName @ ''@'' @ extractSnapshotName tmpSnapshotName) defer_delete)
        (SnapshotDelete (na_client A) tmpSnapshotName defer_delete))))))"

definition nas_plan_name :: "snapshot_plan \<Rightarrow> string" where
  "nas_plan_name pl = sp_parent pl @ ''/'' @ sp_source pl @ (if sp_detached pl then ''/'' else ''@'') @ sp_name pl"

definition nas_take_snapshot :: "'e nas_driver \<Rightarrow> snapshot_plan \<Rightarrow> ('e, unit) pnas" where
  "nas_take_snapshot A pl =
     (if sp_detached pl then nas_detached_snapshot A pl
      else total (catch (SnapshotCreate (na_client A) (nas_plan_name pl) [(''properties'', Obj (sp_properties pl))])
        (gone_as (source_missing (sp_source pl)))))"

definition nas_created_properties :: "string list" where
  "nas_created_properties = [''name'', ''creation'', ''mountpoint'', ''refquota'', ''available'', ''used'', ''volsize'', ''referenced'',
     ''refreservation'', ''logicalused'', ''logicalreferenced'', VOLUME_CSI_NAME_PROPERTY_NAME, SNAPSHOT_CSI_NAME_PROPERTY_NAME,
     SNAPSHOT_CSI_SOURCE_VOLUME_ID_PROPERTY_NAME, MANAGED_PROPERTY_NAME]"

definition nas_finish_snapshot :: "'e nas_driver \<Rightarrow> string \<Rightarrow> snapshot_plan \<Rightarrow> ('e, js) nas" where
  "nas_finish_snapshot A resource pl =
     (let success = [(SUCCESS_PROPERTY_NAME, Str ''true'')] in
      bind (if sp_detached pl then DatasetGet (na_client A) (nas_plan_name pl) nas_created_properties []
            else SnapshotGet (na_client A) (nas_plan_name pl) nas_created_properties) (\<lambda>properties.
      andthen (if sp_detached pl then DatasetSet (na_client A) (nas_plan_name pl) success
               else SnapshotSet (na_client A) (nas_plan_name pl) success)
     (bind (lift (ebind (as_string (pvalue properties ''name'')) (strip_prefix (sp_parent pl @ ''/'')))) (\<lambda>snapshot_id.
      ret (snapshot_response
        (snapshot_size (zfs_view A resource) (rawvalue properties ''referenced'') (rawvalue properties ''logicalreferenced'')
           (rawvalue properties ''volsize''))
        snapshot_id (sp_source pl) (creation_seconds (rawvalue properties ''creation'')))))))"

definition nas_CreateSnapshot :: "'e nas_driver \<Rightarrow> jsobj \<Rightarrow> ('e, js) pnas" where
  "nas_CreateSnapshot A req =
     pbind (total (lift (resource_type A))) (\<lambda>resource.
     pbind (total (lift (nas_snapshot_request A resource req))) (\<lambda>pl.
     pbind (total (nas_check_name_free A (sp_name pl) (sp_source pl))) (\<lambda>_.
     pbind (nas_take_snapshot A pl) (\<lambda>_. total (nas_finish_snapshot A resource pl)))))"

section \<open>DeleteSnapshot\<close>

definition nas_cleanup_container :: "'e nas_driver \<Rightarrow> string \<Rightarrow> ('e, unit) pnas" where
  "nas_cleanup_container A containerDataset =
     pcatch (pbind (removeSnapshots_api A containerDataset) (\<lambda>_. total (DatasetDelete (na_client A) containerDataset Undef)))
       (\<lambda>err. if err_has err ''filesystem has children'' then pret () else pthrow err)"

definition nas_DeleteSnapshot :: "'e nas_driver \<Rightarrow> jsobj \<Rightarrow> ('e, unit) pnas" where
  "nas_DeleteSnapshot A req =
     (let snapshot_id = to_str (obj_get req ''snapshot_id''); detached = \<not> isZfsSnapshot snapshot_id in
      if \<not> truthy (obj_get req ''snapshot_id'') then pthrow (invalid_argument ''snapshot_id is required'')
      else pbind (total (lift (if detached then detached_parent A else volume_parent A))) (\<lambda>datasetParentName.
        let fullSnapshotName = datasetParentName @ ''/'' @ snapshot_id in
        if datasetParentName = [] then pthrow missing_parent
        else if detached
        then pbind (total (DatasetDelete (na_client A) fullSnapshotName (Obj [(''recursive'', Bool True), (''force'', Bool True)])))
          (\<lambda>_. nas_cleanup_container A (extractParentDatasetName fullSnapshotName))
        else total (catch (SnapshotDelete (na_client A) fullSnapshotName defer_delete)
          (rethrow_as ''snapshot has dependent clones'' (grpc FAILED_PRECONDITION ''snapshot has dependent clones'')))))"

section \<open>ValidateVolumeCapabilities\<close>

definition nas_ValidateVolumeCapabilities :: "'e nas_driver \<Rightarrow> jsobj \<Rightarrow> ('e, js) nas" where
  "nas_ValidateVolumeCapabilities A req =
     (let volume_id = obj_get req ''volume_id''; capabilities = obj_get req ''volume_capabilities'' in
      andthen (throw_when (\<not> truthy volume_id) (invalid_argument ''missing volume_id''))
     (andthen (throw_when (no_capabilities capabilities) (invalid_argument ''missing capabilities''))
     (bind (lift (volume_parent A)) (\<lambda>datasetParentName.
      andthen (throw_when (datasetParentName = []) missing_parent)
     (andthen (catch (bind (DatasetGet (na_client A) (datasetParentName @ ''/'' @ to_str volume_id) [] []) (\<lambda>_. ret ()))
         (rethrow_as ''dataset does not exist'' (grpc NOT_FOUND (''invalid volume_id: '' @ to_str volume_id))))
     (bind (lift (nas_assertCapabilities A capabilities)) (\<lambda>(valid, m).
      ret (if \<not> valid then Obj [(''message'', m)]
           else Obj [(''confirmed'', Obj [(''volume_context'', obj_get req ''volume_context''),
             (''volume_capabilities'', capabilities), (''parameters'', obj_get req ''parameters'')])]))))))))"

end
