(* ===== verification/Freenas_Deletion.thy ===== *)
theory Freenas_Deletion
  imports Freenas_Snapshots Freenas_Properties
begin

text \<open>
  What the controller for FreeNAS and TrueNAS over the web API guarantees of deletions: which requests of
  \<open>DeleteVolume\<close> change something, and that an asset whose id was given to another object is left alone. It also
  has the rules for the requests a call adds to the history, and when the wait for a replication ends.
\<close>

section \<open>What the requests add to the history\<close>

definition request :: "string \<Rightarrow> string \<Rightarrow> jsobj \<Rightarrow> event" where
  "request verb endpoint data = EvHttp (verb @ '' '' @ endpoint) data"

text \<open>An event that only asks: a GET request, the cache, the clock and a pause.\<close>

definition asks :: "(event \<Rightarrow> bool) \<Rightarrow> bool" where
  "asks P \<longleftrightarrow> (\<forall>t b. P (request ''GET'' t b)) \<and> (\<forall>k. P (EvCache k)) \<and> (\<forall>ms. P (EvSleep ms)) \<and> (\<forall>a b. P (EvHost a b))"

lemma asksD:
  assumes "asks P"
  shows "P (request ''GET'' t b)" "P (EvCache k)" "P (EvSleep ms)" "P (EvHost x y)"
  using assms by (auto simp: asks_def)

text \<open>Version 1 of the API ends a path with a slash.\<close>

definition paths :: "string \<Rightarrow> string set" where
  "paths endpoint = {endpoint, endpoint @ ''/''}"

lemma adds_version [wp_intro]: "adds P getApiVersion" "adds P (setApiVersion v)"
  by (simp_all add: adds_def getApiVersion_def setApiVersion_def)

lemma adds_http_send:
  "(\<And>e. e \<in> paths endpoint \<Longrightarrow> P (request verb e (inner_obj data))) \<Longrightarrow> adds P (http_send C verb endpoint data opts)"
  unfolding http_send_def Let_def paths_def request_def by (auto intro!: wp_intro)

lemma adds_http_get [wp_intro]: "asks P \<Longrightarrow> adds P (http_get C endpoint data opts)"
  unfolding http_get_def by (rule adds_http_send) (rule asksD)

lemma adds_http_post [wp_intro]: "(\<And>t b. P (request ''POST'' t b)) \<Longrightarrow> adds P (http_post C endpoint data)"
  unfolding http_post_def by (rule adds_http_send)

lemma adds_http_put [wp_intro]:
  "(\<And>e. e \<in> paths endpoint \<Longrightarrow> P (request ''PUT'' e (inner_obj data))) \<Longrightarrow> adds P (http_put C endpoint data)"
  unfolding http_put_def by (rule adds_http_send)

lemma adds_http_delete [wp_intro]:
  "(\<And>e. e \<in> paths endpoint \<Longrightarrow> P (request ''DELETE'' e (inner_obj data))) \<Longrightarrow> adds P (http_delete C endpoint data)"
  unfolding http_delete_def by (rule adds_http_send)

lemma adds_answers [wp_intro]: "adds P (ok_body r)" "adds P (ok r)" "adds P (ok_or part r)"
  by (auto simp: ok_body_def ok_def ok_or_def intro!: wp_intro)

lemma adds_fn_sleep [wp_intro]: "asks P \<Longrightarrow> adds P (fn_sleep C ms)" and adds_fn_ms [wp_intro]: "asks P \<Longrightarrow> adds P (fn_ms C)"
  by (auto simp: fn_sleep_def fn_ms_def dest: asksD intro!: wp_intro)

lemma adds_nas_sleep [wp_intro]: "asks P \<Longrightarrow> adds P (nas_sleep A ms)"
  by (auto simp: nas_sleep_def intro!: wp_intro)

lemma adds_getSystemVersion [wp_intro]: "asks P \<Longrightarrow> adds P (getSystemVersion C)"
  by (auto simp: getSystemVersion_def version_cache_get_def setVersionInfoCache_def Let_def dest: asksD intro!: wp_intro)

lemma adds_versions [wp_intro]:
  "asks P \<Longrightarrow> adds P (getSystemVersionMajorMinor C)" "asks P \<Longrightarrow> adds P (getSystemVersionMajor C)"
  "asks P \<Longrightarrow> adds P (getIsScale C)" "asks P \<Longrightarrow> adds P (version_in C r)" "asks P \<Longrightarrow> adds P (nvmet_versions C)"
  "asks P \<Longrightarrow> adds P (nas_versions A)" "asks P \<Longrightarrow> adds P (snapshot_root C)" "asks P \<Longrightarrow> adds P (snapshot_endpoint C s)"
  by (auto simp: getSystemVersionMajorMinor_def getSystemVersionMajor_def getIsScale_def version_in_def nvmet_versions_def
      nas_versions_def snapshot_root_def snapshot_endpoint_def intro!: wp_intro)

lemma adds_gets [wp_intro]:
  "asks P \<Longrightarrow> adds P (DatasetGet C d ps q)" "asks P \<Longrightarrow> adds P (SnapshotGet C s ps)" "asks P \<Longrightarrow> adds P (CoreGetJobs C x)"
  by (auto simp: DatasetGet_def SnapshotGet_def CoreGetJobs_def intro!: wp_intro)

section \<open>The wait for a replication\<close>

text \<open>A look that settles nothing, the world after so many looks, and what a look that settles gives.\<close>

definition still :: "(exn + js \<times> bool) \<times> 'w \<Rightarrow> bool" where
  "still x \<longleftrightarrow> (case fst x of Inl e \<Rightarrow> False | Inr (job, finished) \<Rightarrow> \<not> finished)"

fun looked :: "'e nas_driver \<Rightarrow> js \<Rightarrow> ('e \<times> js) world \<Rightarrow> nat \<Rightarrow> ('e \<times> js) world" where
  "looked A job_id w 0 = w"
| "looked A job_id w (Suc n) = looked A job_id (snd (replication_round A job_id w)) n"

definition look :: "'e nas_driver \<Rightarrow> js \<Rightarrow> ('e \<times> js) world \<Rightarrow> nat \<Rightarrow> (exn + js \<times> bool) \<times> ('e \<times> js) world" where
  "look A job_id w n = replication_round A job_id (looked A job_id w n)"

definition look_result :: "(exn + js \<times> bool) \<times> 'w \<Rightarrow> (exn + js) \<times> 'w" where
  "look_result x = (map_sum (\<lambda>e. e) fst (fst x), snd x)"

lemma look_Suc: "look A i w (Suc n) = look A i (snd (replication_round A i w)) n"
  by (simp add: look_def)

lemma rounds_still:
  "still (replication_round A i w) \<Longrightarrow> replication_rounds A i w = replication_rounds A i (snd (replication_round A i w))"
  by (subst replication_rounds.simps) (auto simp: still_def split: prod.splits sum.splits)

lemma rounds_settled: "\<not> still (replication_round A i w) \<Longrightarrow> replication_rounds A i w = Some (look_result (replication_round A i w))"
  by (subst replication_rounds.simps) (auto simp: still_def look_result_def split: prod.splits sum.splits)

lemma rounds_at: "\<not> still (look A i w n) \<Longrightarrow> \<exists>k \<le> n. \<not> still (look A i w k) \<and> (\<forall>j < k. still (look A i w j))"
  by (induction n rule: less_induct) (meson less_imp_le_nat order_trans le_refl)

lemma rounds_first:
  "\<not> still (look A i w k) \<Longrightarrow> (\<And>j. j < k \<Longrightarrow> still (look A i w j)) \<Longrightarrow> replication_rounds A i w = Some (look_result (look A i w k))"
proof (induction k arbitrary: w)
  case 0
  then show ?case by (simp add: look_def rounds_settled)
next
  case (Suc k)
  have "still (replication_round A i w)" using Suc.prems(2) [of 0] by (simp add: look_def)
  moreover have "replication_rounds A i (snd (replication_round A i w)) = Some (look_result (look A i (snd (replication_round A i w)) k))"
    by (rule Suc.IH) (use Suc.prems(1) Suc.prems(2) [of "Suc _"] in \<open>auto simp: look_Suc\<close>)
  ultimately show ?case by (simp add: rounds_still look_Suc)
qed

lemma rounds_some: "replication_rounds A i w = Some y \<Longrightarrow> \<exists>n. \<not> still (look A i w n)"
proof (induction rule: replication_rounds.raw_induct [rotated 1, consumes 1])
  case (1 rounds A i w y)
  show ?case
  proof (cases "still (replication_round A i w)")
    case True
    with "1.hyps" have "rounds A i (snd (replication_round A i w)) = Some y"
      by (auto simp: still_def split: prod.splits sum.splits)
    from "1.IH" [OF this] obtain n where "\<not> still (look A i (snd (replication_round A i w)) n)" by blast
    then have "\<not> still (look A i w (Suc n))" by (simp add: look_Suc)
    then show ?thesis by blast
  next
    case False
    then have "\<not> still (look A i w 0)" by (simp add: look_def)
    then show ?thesis by blast
  qed
qed


section \<open>What a deletion can change\<close>

definition dataset_request :: "string \<Rightarrow> string \<Rightarrow> bool" where
  "dataset_request d t \<longleftrightarrow> (\<exists>e. dataset_endpoint d = Inr e \<and> t \<in> paths e)"

text \<open>An id that the appliance reports as stored with the dataset under a property.\<close>

definition stored :: "'e nas_driver \<Rightarrow> string \<Rightarrow> string \<Rightarrow> js \<Rightarrow> bool" where
  "stored A d p i \<longleftrightarrow> (\<exists>ps properties. outcome (DatasetGet (na_client A) d ps []) (Inr properties) \<and> pvalue properties p = i)"

text \<open>The paths of the objects of shares, by the property that has the id.\<close>

definition share_roots :: "(string \<times> string) set" where
  "share_roots = {(''/sharing/nfs/'', FREENAS_NFS_SHARE_PROPERTY_NAME), (''/sharing/nfs/id/'', FREENAS_NFS_SHARE_PROPERTY_NAME),
     (''/sharing/cifs/'', FREENAS_SMB_SHARE_PROPERTY_NAME), (''/sharing/smb/id/'', FREENAS_SMB_SHARE_PROPERTY_NAME),
     (''/services/iscsi/target/'', FREENAS_ISCSI_TARGET_ID_PROPERTY_NAME), (''/iscsi/target/id/'', FREENAS_ISCSI_TARGET_ID_PROPERTY_NAME),
     (''/services/iscsi/extent/'', FREENAS_ISCSI_EXTENT_ID_PROPERTY_NAME), (''/iscsi/extent/id/'', FREENAS_ISCSI_EXTENT_ID_PROPERTY_NAME),
     (''/nvmet/subsys/id/'', FREENAS_NVMEOF_SUBSYSTEM_ID_PROPERTY_NAME), (''/nvmet/namespace/id/'', FREENAS_NVMEOF_NAMESPACE_ID_PROPERTY_NAME)}"

definition share_request :: "'e nas_driver \<Rightarrow> string \<Rightarrow> string \<Rightarrow> bool" where
  "share_request A d t \<longleftrightarrow> (\<exists>root p i. (root, p) \<in> share_roots \<and> stored A d p i \<and> t \<in> paths (root @ to_str i))"

text \<open>The snapshot that was made for a clone.\<close>

definition clone_source_request :: "string \<Rightarrow> bool" where
  "clone_source_request t \<longleftrightarrow> (\<exists>root s x. root \<in> {''/pool/snapshot'', ''/zfs/snapshot''}
     \<and> starts_with (extractSnapshotName s) VOLUME_SOURCE_CLONE_SNAPSHOT_PREFIX
     \<and> encodeURIComponent s = Inr x \<and> t \<in> paths (root @ ''/id/'' @ x))"

definition volume_deletion :: "'e nas_driver \<Rightarrow> string \<Rightarrow> event \<Rightarrow> bool" where
  "volume_deletion A d e \<longleftrightarrow>
     (\<exists>t b. e = request ''GET'' t b) \<or> (\<exists>k. e = EvCache k) \<or> (\<exists>ms. e = EvSleep ms) \<or> (\<exists>a b. e = EvHost a b)
     \<or> (\<exists>t b. e = request ''PUT'' t b \<and> dataset_request d t)
     \<or> (\<exists>t b. e = request ''DELETE'' t b \<and> (dataset_request d t \<or> share_request A d t \<or> clone_source_request t))"

lemma asks_volume_deletion [simp, intro]: "asks (volume_deletion A d)"
  unfolding asks_def volume_deletion_def by blast

lemma volume_deletion_put: "dataset_request d t \<Longrightarrow> volume_deletion A d (request ''PUT'' t b)"
  unfolding volume_deletion_def by blast

lemma volume_deletion_delete:
  "dataset_request d t \<or> share_request A d t \<or> clone_source_request t \<Longrightarrow> volume_deletion A d (request ''DELETE'' t b)"
  unfolding volume_deletion_def by blast

lemma deletes_share:
  assumes "\<exists>root. e = root @ to_str i \<and> (root, p) \<in> share_roots" and "stored A d p i"
  shows "adds (volume_deletion A d) (http_delete C e data)"
proof (rule adds_http_delete)
  fix t assume "t \<in> paths e"
  with assms have "share_request A d t" unfolding share_request_def by blast
  then show "volume_deletion A d (request ''DELETE'' t (inner_obj data))" by (intro volume_deletion_delete) simp
qed

lemma share_endpoints:
  "\<exists>root. ''/sharing/nfs/'' @ (if b then ''id/'' else []) @ to_str i = root @ to_str i \<and> (root, FREENAS_NFS_SHARE_PROPERTY_NAME) \<in> share_roots"
  "\<exists>root. (if b then ''/sharing/cifs/'' else ''/sharing/smb/id/'') @ to_str i = root @ to_str i \<and> (root, FREENAS_SMB_SHARE_PROPERTY_NAME) \<in> share_roots"
  "\<exists>root. target_endpoint api i = root @ to_str i \<and> (root, FREENAS_ISCSI_TARGET_ID_PROPERTY_NAME) \<in> share_roots"
  "\<exists>root. extent_endpoint api i = root @ to_str i \<and> (root, FREENAS_ISCSI_EXTENT_ID_PROPERTY_NAME) \<in> share_roots"
  "\<exists>root. ''/nvmet/subsys/id/'' @ to_str i = root @ to_str i \<and> (root, FREENAS_NVMEOF_SUBSYSTEM_ID_PROPERTY_NAME) \<in> share_roots"
  "\<exists>root. ''/nvmet/namespace/id/'' @ to_str i = root @ to_str i \<and> (root, FREENAS_NVMEOF_NAMESPACE_ID_PROPERTY_NAME) \<in> share_roots"
proof -
  show "\<exists>root. ''/sharing/nfs/'' @ (if b then ''id/'' else []) @ to_str i = root @ to_str i \<and> (root, FREENAS_NFS_SHARE_PROPERTY_NAME) \<in> share_roots"
    by (rule exI [of _ "''/sharing/nfs/'' @ (if b then ''id/'' else [])"]) (simp add: share_roots_def)
  show "\<exists>root. (if b then ''/sharing/cifs/'' else ''/sharing/smb/id/'') @ to_str i = root @ to_str i \<and> (root, FREENAS_SMB_SHARE_PROPERTY_NAME) \<in> share_roots"
    by (rule exI [of _ "if b then ''/sharing/cifs/'' else ''/sharing/smb/id/''"]) (simp add: share_roots_def)
  show "\<exists>root. target_endpoint api i = root @ to_str i \<and> (root, FREENAS_ISCSI_TARGET_ID_PROPERTY_NAME) \<in> share_roots"
    by (rule exI [of _ "if api = v1 then ''/services/iscsi/target/'' else ''/iscsi/target/id/''"]) (simp add: share_roots_def target_endpoint_def)
  show "\<exists>root. extent_endpoint api i = root @ to_str i \<and> (root, FREENAS_ISCSI_EXTENT_ID_PROPERTY_NAME) \<in> share_roots"
    by (rule exI [of _ "if api = v1 then ''/services/iscsi/extent/'' else ''/iscsi/extent/id/''"]) (simp add: share_roots_def extent_endpoint_def)
qed (auto simp: share_roots_def)

lemma adds_inherit: "adds (volume_deletion A d) (DatasetInherit C d p)"
  unfolding DatasetInherit_def
proof (rule adds_bind_outcome)
  fix e assume "outcome (lift (dataset_endpoint d) :: ('a \<times> js) world \<Rightarrow> _) (Inr e)"
  then have "dataset_request d t" if "t \<in> paths e" for t using that by (auto simp: outcome_def lift_def dataset_request_def)
  then show "adds (volume_deletion A d) (bind (http_put C e (Obj
      (if getIsUserProperty p then [(''user_properties_update'', Arr [Obj [(''key'', Str p), (''remove'', Bool True)]])]
       else obj_set ''user_properties_update'' (Arr []) [(p, Str ''INHERIT'')]))) ok)"
    by (intro wp_intro volume_deletion_put)
qed (intro wp_intro)

lemma adds_retried: "adds P m \<Longrightarrow> asks P \<Longrightarrow> adds P (retried A m)"
  and adds_insistent: "adds P m' \<Longrightarrow> asks P \<Longrightarrow> adds P (insistent A m')"
  unfolding retried_def insistent_def by (auto intro!: adds_retry wp_intro)

lemma adds_unshare_nfs:
  assumes "stored A d FREENAS_NFS_SHARE_PROPERTY_NAME i"
  shows "adds (volume_deletion A d) (unshare_nfs A api d mp i)"
  unfolding unshare_nfs_def Let_def
  by (intro wp_intro adds_retried adds_inherit deletes_share [OF share_endpoints(1) assms] asks_volume_deletion)

lemma adds_unshare_smb:
  assumes "stored A d FREENAS_SMB_SHARE_PROPERTY_NAME i"
  shows "adds (volume_deletion A d) (unshare_smb A api d mp i)"
  unfolding unshare_smb_def Let_def
  by (intro wp_intro adds_retried adds_inherit deletes_share [OF share_endpoints(2) assms] asks_volume_deletion)

lemma adds_delete_unused:
  "adds P (http_delete (na_client A) endpoint Undef) \<Longrightarrow> asks P \<Longrightarrow> adds P (delete_unused A endpoint n r)"
  by (induction n arbitrary: r) (auto intro!: wp_intro)

lemma adds_unshare_asset:
  assumes "\<exists>root. endpoint = root @ to_str i \<and> (root, p) \<in> share_roots" and "stored A d p i"
  shows "adds (volume_deletion A d) (unshare_asset A kind endpoint i name key d n)"
  unfolding unshare_asset_def
  by (intro wp_intro adds_delete_unused adds_inherit deletes_share [OF assms] asks_volume_deletion)

lemma share_properties_outcome:
  "outcome (share_properties A d ps) (Inr (Some properties)) \<Longrightarrow> stored A d p (pvalue properties p)"
proof -
  assume "outcome (share_properties A d ps) (Inr (Some properties))"
  then have "outcome (DatasetGet (na_client A) d ps []) (Inr properties)"
    by (fastforce simp: outcome_def share_properties_def catch_def bind_def ret_def throw_def split: prod.splits sum.splits if_splits)
  then show "stored A d p (pvalue properties p)" unfolding stored_def by blast
qed

lemma adds_unshare_iscsi:
  assumes "\<And>p. stored A d p (pvalue properties p)"
  shows "adds (volume_deletion A d) (unshare_iscsi_assets A api properties d)"
  unfolding unshare_iscsi_assets_def Let_def
  by (intro wp_intro adds_unshare_asset [OF share_endpoints(3) assms] adds_unshare_asset [OF share_endpoints(4) assms])

lemma adds_unshare_nvmeof:
  assumes "\<And>p. stored A d p (pvalue properties p)"
  shows "adds (volume_deletion A d) (unshare_nvmeof_assets A properties d)"
  unfolding unshare_nvmeof_assets_def Let_def NvmetNamespaceDeleteById_def NvmetSubsysDeleteById_def
  by (intro wp_intro adds_insistent adds_inherit deletes_share [OF share_endpoints(5) assms]
      deletes_share [OF share_endpoints(6) assms] asks_volume_deletion)

lemma adds_share_properties: "asks P \<Longrightarrow> adds P (share_properties A d ps)"
  unfolding share_properties_def by (intro wp_intro)

lemma adds_with_properties:
  assumes "\<And>properties. (\<And>p. stored A d p (pvalue properties p)) \<Longrightarrow> adds (volume_deletion A d) (f properties)"
  shows "adds (volume_deletion A d) (bind (share_properties A d ps) (\<lambda>found. case found of None \<Rightarrow> ret () | Some properties \<Rightarrow> f properties))"
  by (rule adds_bind_outcome)
    (auto intro!: adds_share_properties adds_ret assms dest: share_properties_outcome split: option.split)

lemma adds_nas_deleteShare: "adds (volume_deletion A d) (nas_deleteShare A d)"
  unfolding nas_deleteShare_def Let_def nvmeof_available_def
  by (intro wp_intro adds_with_properties adds_unshare_nfs adds_unshare_smb adds_unshare_iscsi adds_unshare_nvmeof
      asks_volume_deletion; assumption?)

lemma snapshot_endpoint_outcome:
  "outcome (snapshot_endpoint C s) (Inr e) \<Longrightarrow>
   \<exists>root x. root \<in> {''/pool/snapshot'', ''/zfs/snapshot''} \<and> encodeURIComponent s = Inr x \<and> e = root @ ''/id/'' @ x"
  by (auto simp: outcome_def snapshot_endpoint_def snapshot_root_def bind_Inr lift_Inr ret_Inr split: if_splits)

lemma deletes_clone_source:
  assumes "starts_with (extractSnapshotName s) VOLUME_SOURCE_CLONE_SNAPSHOT_PREFIX"
  shows "adds (volume_deletion A d) (SnapshotDelete C s data)"
  unfolding SnapshotDelete_def
proof (rule adds_bind_outcome)
  fix e assume "outcome (snapshot_endpoint C s) (Inr e)"
  from snapshot_endpoint_outcome [OF this] obtain root x where r: "root \<in> {''/pool/snapshot'', ''/zfs/snapshot''}"
    "encodeURIComponent s = Inr x" "e = root @ ''/id/'' @ x" by blast
  have "clone_source_request t" if "t \<in> paths e" for t
    unfolding clone_source_request_def
    by (intro exI [of _ root] exI [of _ s] exI [of _ x] conjI r assms that [unfolded r(3)])
  then show "adds (volume_deletion A d) (bind (http_delete C e (Obj data)) (\<lambda>r. if fst r = 404 then ret () else ok_or ''not found'' r))"
    by (intro wp_intro volume_deletion_delete) simp
qed (intro wp_intro asks_volume_deletion)

lemma nas_origin_prefix:
  "nas_origin properties = Inr (Some s) \<Longrightarrow> starts_with (extractSnapshotName s) VOLUME_SOURCE_CLONE_SNAPSHOT_PREFIX"
  by (auto simp: nas_origin_def ebind_eq_Inr split: option.splits if_splits)

lemma adds_remove_origin_nas: "adds (volume_deletion A d) (nas_remove_origin A properties)"
  unfolding nas_remove_origin_def
proof (rule adds_bind_outcome)
  fix origin assume "outcome (lift (nas_origin properties) :: ('a \<times> js) world \<Rightarrow> _) (Inr origin)"
  then have o': "nas_origin properties = Inr origin" by (simp add: outcome_def lift_def)
  show "adds (volume_deletion A d) (case origin of None \<Rightarrow> ret ()
     | Some s \<Rightarrow> catch (SnapshotDelete (na_client A) s defer_delete)
         (rethrow_as ''snapshot has dependent clones'' (grpc FAILED_PRECONDITION ''snapshot has dependent clones'')))"
  proof (cases origin)
    case (Some s)
    show ?thesis unfolding Some option.case rethrow_as_def
      by (intro wp_intro deletes_clone_source nas_origin_prefix [OF o' [unfolded Some]])
  qed (simp add: adds_ret)
qed (intro wp_intro)

lemma adds_any_managed: "asks P \<Longrightarrow> adds P (any_managed A xs)"
  by (induction xs) (auto intro!: wp_intro)

lemma adds_check_managed_nas: "asks P \<Longrightarrow> adds P (nas_check_managed A properties)"
  unfolding nas_check_managed_def by (intro wp_intro adds_any_managed)

lemma adds_DatasetDelete: "adds (volume_deletion A d) (DatasetDelete C d data)"
  unfolding DatasetDelete_def
proof (rule adds_bind_outcome)
  fix e assume "outcome (lift (dataset_endpoint d) :: ('a \<times> js) world \<Rightarrow> _) (Inr e)"
  then have "dataset_request d t" if "t \<in> paths e" for t using that by (auto simp: outcome_def lift_def dataset_request_def)
  then show "adds (volume_deletion A d) (bind (http_delete C e data) (ok_or ''does not exist''))"
    by (intro wp_intro volume_deletion_delete) simp
qed (intro wp_intro)

lemma adds_delete_dataset_nas: "adds (volume_deletion A d) (nas_delete_dataset A d)"
  unfolding nas_delete_dataset_def rethrow_as_def by (intro wp_intro adds_DatasetDelete asks_volume_deletion)

lemma adds_bind_known: "r = Inr x \<Longrightarrow> adds P (f x) \<Longrightarrow> adds P (bind (lift r) f)"
  by (simp add: bind_lift_Inr)

lemma adds_nas_DeleteVolume:
  assumes "nas_dataset A req = Inr d"
  shows "adds (volume_deletion A d) (nas_DeleteVolume A req)"
  unfolding nas_DeleteVolume_def nas_delete_properties_def
  by (rule adds_bind_known [OF assms])
    (intro wp_intro adds_nas_deleteShare adds_remove_origin_nas adds_check_managed_nas adds_delete_dataset_nas asks_volume_deletion)

text \<open>
  C36: whatever the appliance answers, \<open>DeleteVolume\<close> changes nothing but the dataset of the volume id, share
  objects whose ids the appliance reports as stored with that dataset, and a snapshot whose name has the prefix
  of the snapshots that the driver makes for clones; every other request only asks.
\<close>

theorem nas_deletion_scope:
  assumes "nas_dataset A req = Inr d" and "nas_DeleteVolume A req w = (r, w')"
  shows "\<exists>es. hist w' = hist w @ es \<and> list_all (volume_deletion A d) es"
  using addsD [OF adds_nas_DeleteVolume [OF assms(1)], of w] assms(2) by simp

section \<open>Assets whose ids were given to others\<close>

definition is_delete :: "event \<Rightarrow> bool" where
  "is_delete e \<longleftrightarrow> (\<exists>t b. e = request ''DELETE'' t b)"

text \<open>A program that sends at most so many DELETE requests.\<close>

definition deletes_at_most :: "nat \<Rightarrow> ('e world, 'a) io \<Rightarrow> bool" where
  "deletes_at_most k m \<longleftrightarrow> (\<forall>w. \<exists>es. hist (snd (m w)) = hist w @ es \<and> length (filter is_delete es) \<le> k)"

lemma deletes_none: "adds (\<lambda>e. \<not> is_delete e) m \<Longrightarrow> deletes_at_most 0 m"
  unfolding deletes_at_most_def adds_def by (metis filter_False le_refl list.size(3) list_all_iff)

lemma deletes_bind:
  assumes "deletes_at_most k m" and "\<And>x. deletes_at_most l (f x)"
  shows "deletes_at_most (k + l) (bind m f)"
  unfolding deletes_at_most_def
proof
  fix w
  obtain es where 1: "hist (snd (m w)) = hist w @ es" "length (filter is_delete es) \<le> k"
    using assms(1) unfolding deletes_at_most_def by blast
  show "\<exists>es. hist (snd (bind m f w)) = hist w @ es \<and> length (filter is_delete es) \<le> k + l"
  proof (cases "fst (m w)")
    case (Inl e)
    then have "snd (bind m f w) = snd (m w)" by (simp add: bind_def case_prod_beta)
    with 1 show ?thesis by (intro exI [of _ es]) simp
  next
    case (Inr x)
    then have s: "snd (bind m f w) = snd (f x (snd (m w)))" by (simp add: bind_def case_prod_beta)
    obtain fs where 2: "hist (snd (f x (snd (m w)))) = hist (snd (m w)) @ fs" "length (filter is_delete fs) \<le> l"
      using assms(2) unfolding deletes_at_most_def by blast
    show ?thesis using 1 2 s by (intro exI [of _ "es @ fs"]) simp
  qed
qed

lemma request_verbs: "request ''GET'' t b \<noteq> request ''DELETE'' t' b'" "request ''PUT'' t b \<noteq> request ''DELETE'' t' b'"
  "request ''POST'' t b \<noteq> request ''PUT'' t' b'" "request ''GET'' t b \<noteq> request ''PUT'' t' b'" "request ''DELETE'' t b \<noteq> request ''PUT'' t' b'"
  by (simp_all add: request_def)

lemma asks_no_delete: "asks (\<lambda>e. \<not> is_delete e)"
  unfolding asks_def is_delete_def using request_verbs(1) by (auto simp: request_def)

lemma deletes_ret: "deletes_at_most k (ret y)"
  by (simp add: deletes_at_most_def ret_def)

lemma deletes_http: "deletes_at_most 1 (http_delete C endpoint data)"
  unfolding deletes_at_most_def http_delete_def http_send_def getApiVersion_def Let_def
  by (auto simp: bind_def perform_def case_prod_beta)

lemma deletes_unused: "deletes_at_most n (delete_unused A endpoint n r)"
proof (induction n arbitrary: r)
  case 0
  show ?case by (simp add: deletes_at_most_def ret_def)
next
  case (Suc n)
  have none: "deletes_at_most 0 (lift (target_in_use r) :: ('a \<times> js) world \<Rightarrow> _)" "deletes_at_most 0 (nas_sleep A 1000)"
    "deletes_at_most (Suc n) (ret r :: ('a \<times> js) world \<Rightarrow> _)"
    by (rule deletes_ret deletes_none; intro wp_intro asks_no_delete)+
  have "deletes_at_most (0 + (1 + n)) (bind (nas_sleep A 1000) (\<lambda>_. bind (http_delete (na_client A) endpoint Undef) (delete_unused A endpoint n)))"
    by (intro deletes_bind none deletes_http Suc.IH)
  then have "deletes_at_most (Suc n) (andthen (nas_sleep A 1000) (bind (http_delete (na_client A) endpoint Undef) (delete_unused A endpoint n)))"
    by (simp add: andthen_def)
  then have "deletes_at_most (0 + Suc n) (delete_unused A endpoint (Suc n) r)"
    unfolding delete_unused.simps by (intro deletes_bind none) (simp add: none)
  then show ?case by simp
qed

text \<open>The appliance lists the asset with this name.\<close>

definition lists_name :: "'e nas_driver \<Rightarrow> string \<Rightarrow> string \<Rightarrow> js \<Rightarrow> ('e \<times> js) world \<Rightarrow> bool" where
  "lists_name A endpoint key name w \<longleftrightarrow> (\<exists>c body v w1. http_get (na_client A) endpoint Undef [] w = (Inr (c, body), w1)
     \<and> getp body key = Inr v \<and> loose_eq v name)"

lemma foreign_asset_kept:
  assumes "isPropertyValueSet name" and "\<not> lists_name A endpoint key name w"
  shows "\<exists>es. hist (snd (unshare_asset A kind endpoint i name key d n w)) = hist w @ es \<and> filter is_delete es = []"
proof -
  obtain es where g: "hist (snd (http_get (na_client A) endpoint Undef [] w)) = hist w @ es" "filter is_delete es = []"
    using addsD [OF adds_http_get [OF asks_no_delete], of "na_client A" endpoint Undef "[]" w] by (auto simp: list_all_iff filter_empty_conv)
  have "snd (unshare_asset A kind endpoint i name key d n w) \<in> {w, snd (http_get (na_client A) endpoint Undef [] w)}"
  proof (cases "http_get (na_client A) endpoint Undef [] w")
    case (Pair r w1)
    with assms show ?thesis
      by (cases r) (auto simp: unshare_asset_def bind_def lift_def ret_def do_when_def lists_name_def split: sum.splits)
  qed
  with g show ?thesis by auto
qed

lemma deletes_unshare_asset: "deletes_at_most (Suc n) (unshare_asset A kind endpoint i name key d n)"
proof -
  let ?C = "na_client A"
  have put: "deletes_at_most 0 (DatasetInherit ?C d p)" for p
    unfolding DatasetInherit_def
    by (intro deletes_none wp_intro) (use request_verbs(2) in \<open>auto simp: is_delete_def\<close>)
  have none: "deletes_at_most 0 (http_get ?C endpoint Undef [])" "deletes_at_most 0 (lift x :: ('a \<times> js) world \<Rightarrow> (exn + 'b) \<times> _)"
    "deletes_at_most k (ret y :: ('a \<times> js) world \<Rightarrow> (exn + 'c) \<times> _)" "deletes_at_most 0 (throw_when b e :: ('a \<times> js) world \<Rightarrow> _)" for x y b e k
    by (rule deletes_ret deletes_none; intro wp_intro asks_no_delete)+
  have "deletes_at_most (1 + n + (0 + 0)) (bind (bind (http_delete ?C endpoint Undef) (delete_unused A endpoint n)) (\<lambda>r.
      bind (throw_when (fst r \<notin> {200, 204, 404}) (bad_delete (''iscsi '' @ kind) kind i r)) (\<lambda>_. DatasetInherit ?C d
        (if kind = ''target'' then FREENAS_ISCSI_TARGET_ID_PROPERTY_NAME else FREENAS_ISCSI_EXTENT_ID_PROPERTY_NAME))))" (is "deletes_at_most _ ?m")
    by (intro deletes_bind deletes_http deletes_unused none put)
  then have "deletes_at_most (Suc n) (do_when b ?m)" for b
    by (cases b) (simp_all add: do_when_def none)
  then have "deletes_at_most (0 + (0 + Suc n)) (bind (http_get ?C endpoint Undef []) (\<lambda>r. if gone r then ret ()
      else bind (if isPropertyValueSet name then lift (getp (snd r) key) else ret name) (\<lambda>assetName.
        do_when (isPropertyValueSet name \<longrightarrow> loose_eq assetName name) ?m)))"
    by (intro deletes_bind none) (auto intro: none deletes_bind [of 0 _ "Suc n", simplified] split: if_split)
  then show ?thesis unfolding unshare_asset_def andthen_def by (simp add: none)
qed

text \<open>
  C38: an iSCSI target or extent whose name is stored with the dataset is deleted only if the appliance lists the
  object of the stored id with this name, so one that got the id later is left alone; an asset that stays in use is
  given up after the first DELETE request and as many more as the caller allows, five for a target.
\<close>

theorem nas_asset_reuse:
  assumes "isPropertyValueSet name" and "unshare_asset A kind endpoint i name key d n w = (r, w')"
  shows "\<exists>es. hist w' = hist w @ es \<and> length (filter is_delete es) \<le> Suc n
     \<and> (filter is_delete es = [] \<or> lists_name A endpoint key name w)"
proof -
  obtain es where es: "hist w' = hist w @ es" "length (filter is_delete es) \<le> Suc n"
    using deletes_unshare_asset [of n A kind endpoint i name key d] assms(2) unfolding deletes_at_most_def by (metis snd_conv)
  with foreign_asset_kept [OF assms(1), of A endpoint key w kind i d n] assms(2) show ?thesis by auto
qed

section \<open>Witnesses\<close>

text \<open>An appliance with one share and one target that answers the same at any time, and a driver on it.\<close>

definition nas_web :: "jsobj \<Rightarrow> jsobj \<Rightarrow> http_response" where
  "nas_web extra o' =
     (let url = to_str (obj_get o' ''url'') in
      if contains url ''version'' then Response 200 (Str ''TrueNAS-SCALE-24.04.0'')
      else if contains url ''/sharing/nfs'' then Response 200 (Obj [(''id'', Num (IntN 3)), (''path'', Str ''/mnt/tank/v/pvc-1'')])
      else if contains url ''/iscsi/target'' then Response 200 (Obj [(''id'', Num (IntN 5)), (''name'', Str ''pvc-1'')])
      else if obj_get o' ''method'' = Str ''GET'' then Response 200 (Obj ((''mountpoint'', Str ''/mnt/tank/v/pvc-1'') # (''snapshots'', Arr []) # extra))
      else Response 200 Null)"

definition nas_driver_sample :: "jsobj \<Rightarrow> nat nas_driver" where
  "nas_driver_sample extra =
     \<lparr>na_base = \<lparr>dr_options = [(''driver'', Str ''freenas-api-nfs''), (''nfs'', Obj [(''shareHost'', Str ''nas'')]),
          (''zfs'', Obj [(''datasetParentName'', Str ''tank/v''), (''detachedSnapshotsDatasetParentName'', Str ''tank/s'')])],
        dr_zb = new_zetabyte [(''idempotent'', Bool True)] (\<lambda>c args opts n. (Closed (Some 0) [] [] False, n)),
        dr_csiMode = [''controller''], dr_resource = ''filesystem'', dr_lodash = lodash_std,
        dr_satisfies = (\<lambda>_. True), dr_template = (\<lambda>v ctx. Inr (to_str v)),
        dr_yaml = (\<lambda>_. Inr (Obj [])), dr_hash = (\<lambda>_ s. s),
        dr_exec = (\<lambda>c n. (Inr [], n)), dr_pvc = (\<lambda>_ _ n. (Inr (Obj []), n)), dr_mounts = (\<lambda>_ n. (Inr (Obj []), n)),
        dr_createShare = (\<lambda>_ _ n. (Inr [], n)), dr_deleteShare = (\<lambda>_ _ n. (Inr (), n)), dr_expandVolume = (\<lambda>_ _ n. (Inr (), n)),
        dr_topology = None, dr_cache_get = (\<lambda>_ n. (Undef, n)), dr_cache_set = (\<lambda>_ _ n. n),
        dr_uuid = (\<lambda>n. (''id'', n)), dr_sleep = (\<lambda>_ n. n)\<rparr>,
      na_client = nas_sample (nas_web extra) [],
      na_csiName = Str ''csi'', na_csiVersion = Str ''1'', na_lost = (\<lambda>_. False), na_coerces = (\<lambda>_. True)\<rparr>"

definition deletion_sample :: "nat nas_driver" where
  "deletion_sample = nas_driver_sample [(FREENAS_NFS_SHARE_PROPERTY_NAME, Obj [(''value'', Str ''3'')])]"

definition deletion_request :: jsobj where
  "deletion_request = [(''volume_id'', Str ''pvc-1'')]"

lemma deletion_run: "fst (nas_DeleteVolume deletion_sample deletion_request nas_start) = Inr ()"
  by code_simp

lemma deletion_dataset: "nas_dataset deletion_sample deletion_request = Inr ''tank/v/pvc-1''"
  by code_simp

lemma nas_deletion_scope_witness:
  "\<exists>w'. nas_DeleteVolume deletion_sample deletion_request nas_start = (Inr (), w')
     \<and> list_all (volume_deletion deletion_sample ''tank/v/pvc-1'') (hist w')"
proof -
  obtain w' where run: "nas_DeleteVolume deletion_sample deletion_request nas_start = (Inr (), w')"
    using deletion_run by (metis prod.collapse)
  from nas_deletion_scope [OF deletion_dataset run] run show ?thesis by (auto simp: nas_start_def)
qed

definition reuse_run :: "string \<Rightarrow> (exn + unit) \<times> (nat \<times> js) world" where
  "reuse_run name = unshare_asset (nas_driver_sample []) ''target'' ''/iscsi/target/id/5'' (Str ''5'') (Str name) ''name'' ''tank/v/pvc-1'' 5 nas_start"

lemma nas_asset_reuse_witness:
  "\<exists>w' es. unshare_asset (nas_driver_sample []) ''target'' ''/iscsi/target/id/5'' (Str ''5'') (Str ''pvc-1'') ''name'' ''tank/v/pvc-1'' 5 nas_start
       = (Inr (), w') \<and> hist w' = es \<and> length (filter is_delete es) \<le> 6
     \<and> (filter is_delete es = [] \<or> lists_name (nas_driver_sample []) ''/iscsi/target/id/5'' ''name'' (Str ''pvc-1'') nas_start)"
proof -
  have set: "isPropertyValueSet (Str ''pvc-1'')" by code_simp
  have "fst (reuse_run ''pvc-1'') = Inr ()" by code_simp
  then obtain w' where run: "unshare_asset (nas_driver_sample []) ''target'' ''/iscsi/target/id/5'' (Str ''5'') (Str ''pvc-1'') ''name''
      ''tank/v/pvc-1'' 5 nas_start = (Inr (), w')"
    unfolding reuse_run_def by (metis prod.collapse)
  from nas_asset_reuse [OF set run] run show ?thesis by (auto simp: nas_start_def)
qed

end
