(* ===== verification/Freenas_Creation.thy ===== *)
theory Freenas_Creation
  imports Freenas_Deletion
begin

text \<open>
  When \<open>CreateVolume\<close> of the controller for FreeNAS and TrueNAS over the web API marks a volume as provisioned:
  with the last request of a run that succeeds, and in no other run before its last request.
\<close>

section \<open>The mark of a provisioned volume\<close>

definition set_body :: "jsobj \<Rightarrow> jsobj" where
  "set_body ps = obj_set ''user_properties_update'' (getPropertiesKeyValueArray (getUserProperties ps)) (getSystemProperties ps)"

definition is_mark :: "event \<Rightarrow> bool" where
  "is_mark e \<longleftrightarrow> (\<exists>t. e = request ''PUT'' t (set_body [(SUCCESS_PROPERTY_NAME, Str ''true'')]))"

abbreviation unmarked :: "event \<Rightarrow> bool" where
  "unmarked e \<equiv> \<not> is_mark e"

lemma request_put_inject: "request ''PUT'' t b = request ''PUT'' t' b' \<longleftrightarrow> t = t' \<and> b = b'"
  by (simp add: request_def)

lemma unmarked_verbs: "unmarked (request ''GET'' t b)" "unmarked (request ''POST'' t b)" "unmarked (request ''DELETE'' t b)"
  "unmarked (EvCache k)" "unmarked (EvSleep ms)" "unmarked (EvHost x y)"
  unfolding is_mark_def by (auto simp: request_verbs) (simp_all add: request_def)

lemma asks_unmarked: "asks unmarked"
  by (simp add: asks_def unmarked_verbs)

lemma set_body_update: "obj_get (set_body ps) ''user_properties_update'' = getPropertiesKeyValueArray (getUserProperties ps)"
  by (simp add: set_body_def)

lemma mark_user_property: "getIsUserProperty SUCCESS_PROPERTY_NAME"
  by code_simp

lemma set_body_keys:
  assumes "set_body ps = set_body [(SUCCESS_PROPERTY_NAME, Str ''true'')]"
  shows "fst ` set (getUserProperties ps) = {SUCCESS_PROPERTY_NAME}"
proof -
  let ?f = "\<lambda>(k, v). Obj [(''key'', Str k), (''value'', if getIsUserProperty k \<and> \<not> nullish v then Str (to_str v) else v)]"
  from arg_cong [OF assms, of "\<lambda>b. obj_get b ''user_properties_update''"]
  have "map ?f (getUserProperties ps) = map ?f [(SUCCESS_PROPERTY_NAME, Str ''true'')]"
    by (simp add: set_body_update getPropertiesKeyValueArray_def getUserProperties_def mark_user_property)
  then obtain k v where "getUserProperties ps = [(k, v)]" "k = SUCCESS_PROPERTY_NAME" by (auto simp: map_eq_Cons_conv)
  then show ?thesis by simp
qed

text \<open>A set of properties is not the mark when none or another one of them is a user property.\<close>

definition other_properties :: "jsobj \<Rightarrow> bool" where
  "other_properties ps \<longleftrightarrow> (\<exists>k \<in> fst ` set ps. getIsUserProperty k \<and> k \<noteq> SUCCESS_PROPERTY_NAME)
     \<or> (\<forall>k \<in> fst ` set ps. \<not> getIsUserProperty k)"

lemma user_keys: "fst ` set (getUserProperties ps) = {k \<in> fst ` set ps. getIsUserProperty k}"
  by (force simp: getUserProperties_def)

lemma other_body: "other_properties ps \<Longrightarrow> set_body ps \<noteq> set_body [(SUCCESS_PROPERTY_NAME, Str ''true'')]"
  using set_body_keys [of ps] unfolding user_keys other_properties_def by blast

lemma adds_DatasetSet: "other_properties ps \<Longrightarrow> adds unmarked (DatasetSet C d ps)"
  unfolding DatasetSet_def set_body_def [symmetric]
  by (intro wp_intro) (auto simp: is_mark_def request_put_inject dest: other_body)

lemma other_single: "getIsUserProperty p \<Longrightarrow> p \<noteq> SUCCESS_PROPERTY_NAME \<Longrightarrow> other_properties [(p, v)]"
  by (simp add: other_properties_def)

definition asset_properties :: "string list" where
  "asset_properties = [FREENAS_NFS_SHARE_PROPERTY_NAME, FREENAS_SMB_SHARE_PROPERTY_NAME, FREENAS_ISCSI_TARGET_ID_PROPERTY_NAME,
     FREENAS_ISCSI_EXTENT_ID_PROPERTY_NAME, FREENAS_ISCSI_TARGETTOEXTENT_ID_PROPERTY_NAME, FREENAS_ISCSI_ASSETS_NAME_PROPERTY_NAME,
     FREENAS_NVMEOF_SUBSYSTEM_ID_PROPERTY_NAME, FREENAS_NVMEOF_NAMESPACE_ID_PROPERTY_NAME, FREENAS_NVMEOF_ASSETS_NAME_PROPERTY_NAME,
     SHARE_VOLUME_CONTEXT_PROPERTY_NAME, VOLUME_CSI_NAME_PROPERTY_NAME]"

lemma asset_names: "list_all (\<lambda>k. getIsUserProperty k \<and> k \<noteq> SUCCESS_PROPERTY_NAME) asset_properties"
  "list_all (\<lambda>k. \<not> getIsUserProperty k) [''refquota'', ''refreservation'', ''volsize'', ''dedup'', ''compression'']"
  by code_simp+

lemma other_names: "has_names ps \<Longrightarrow> other_properties ps"
  using asset_names(1) unfolding other_properties_def has_names_def asset_properties_def
  by (intro disjI1 bexI [of _ VOLUME_CSI_NAME_PROPERTY_NAME]) simp_all

lemma other_asset: "p \<in> set asset_properties \<Longrightarrow> other_properties [(p, v)]"
  using asset_names(1) by (auto simp: list_all_iff intro!: other_single)

lemma other_setup: "other_properties (quota_properties o' c)" "other_properties (zvol_properties o' c)"
proof -
  have "fst ` set (quota_properties o' c) \<subseteq> {''refquota'', ''refreservation''}"
    "fst ` set (zvol_properties o' c) \<subseteq> {''volsize'', ''dedup'', ''compression''}"
    by (auto simp: quota_properties_def zvol_properties_def Let_def obj_set_def)
  with asset_names(2) show "other_properties (quota_properties o' c)" "other_properties (zvol_properties o' c)"
    unfolding other_properties_def list_all_iff by fastforce+
qed

section \<open>Loops\<close>

lemma search_pages_adds:
  "search_pages C endpoint f k l t w = Some y \<Longrightarrow> asks P \<Longrightarrow> \<exists>es. hist (snd y) = hist w @ es \<and> list_all P es"
proof (induction rule: search_pages.raw_induct [rotated 1, consumes 1])
  case (1 search C endpoint f k l t w y)
  obtain r1 w1 where g: "http_get C endpoint (page_params k) [] w = (r1, w1)" by force
  have h: "\<exists>es. hist w1 = hist w @ es \<and> list_all P es" using addsD [OF adds_http_get [OF "1.prems"], of C endpoint "page_params k" "[]" w] g by simp
  show ?case
  proof (cases "\<exists>r u. r1 = Inr r \<and> search_page f l t r = Inr (u, False)")
    case True
    with g "1.hyps" obtain r u where "search C endpoint f (k + 1) (Some (snd r)) u w1 = Some y" by auto
    from adds_append [OF h "1.IH" [OF this "1.prems"]] show ?thesis .
  next
    case False
    with g "1.hyps" have "snd y = w1" by (auto split: sum.splits if_splits)
    with h show ?thesis by simp
  qed
qed

lemma job_rounds_adds:
  "job_rounds C i timeout interval start job w = Some y \<Longrightarrow> asks P \<Longrightarrow> \<exists>es. hist (snd y) = hist w @ es \<and> list_all P es"
proof (induction rule: job_rounds.raw_induct [rotated 1, consumes 1])
  case (1 rounds C i timeout interval start job w y)
  obtain r1 w1 where g: "job_round C i timeout interval start job w = (r1, w1)" by force
  have "adds P (job_round C i timeout interval start job)"
    unfolding job_round_def by (intro wp_intro "1.prems")
  from addsD [OF this, of w] g have h: "\<exists>es. hist w1 = hist w @ es \<and> list_all P es" by simp
  show ?case
  proof (cases "\<exists>j. r1 = Inr (j, False)")
    case True
    with g "1.hyps" obtain j where "rounds C i timeout interval start j w1 = Some y" by auto
    from adds_append [OF h "1.IH" [OF this "1.prems"]] show ?thesis .
  next
    case False
    with g "1.hyps" have "snd y = w1" by (auto split: sum.splits if_splits)
    with h show ?thesis by simp
  qed
qed

lemma replication_rounds_adds:
  "replication_rounds A i w = Some y \<Longrightarrow> asks P \<Longrightarrow> \<exists>es. hist (snd y) = hist w @ es \<and> list_all P es"
proof (induction rule: replication_rounds.raw_induct [rotated 1, consumes 1])
  case (1 rounds A i w y)
  obtain r1 w1 where g: "replication_round A i w = (r1, w1)" by force
  have "adds P (replication_round A i)"
    unfolding replication_round_def by (intro wp_intro "1.prems")
  from addsD [OF this, of w] g have h: "\<exists>es. hist w1 = hist w @ es \<and> list_all P es" by simp
  show ?case
  proof (cases "\<exists>j. r1 = Inr (j, False)")
    case True
    with g "1.hyps" have "rounds A i w1 = Some y" by auto
    from adds_append [OF h "1.IH" [OF this "1.prems"]] show ?thesis .
  next
    case False
    with g "1.hyps" have "snd y = w1" by (auto split: sum.splits if_splits)
    with h show ?thesis by simp
  qed
qed

lemma padds_loops [wp_intro]:
  "asks P \<Longrightarrow> padds P (search_pages C endpoint f k l t)" "asks P \<Longrightarrow> padds P (job_rounds C i timeout interval start job)"
  "asks P \<Longrightarrow> padds P (replication_rounds A i)"
  by (auto simp: padds_def dest!: search_pages_adds job_rounds_adds replication_rounds_adds)

lemma padds_find [wp_intro]: "asks P \<Longrightarrow> padds P (findResourceByProperties C endpoint m)"
  and padds_wait [wp_intro]: "asks P \<Longrightarrow> padds P (CoreWaitForJob C i timeout interval)"
  unfolding findResourceByProperties_def CoreWaitForJob_def by (intro wp_intro; assumption)+

section \<open>The shares\<close>

lemma asset_member:
  "FREENAS_NFS_SHARE_PROPERTY_NAME \<in> set asset_properties" "FREENAS_SMB_SHARE_PROPERTY_NAME \<in> set asset_properties"
  "FREENAS_ISCSI_TARGET_ID_PROPERTY_NAME \<in> set asset_properties" "FREENAS_ISCSI_EXTENT_ID_PROPERTY_NAME \<in> set asset_properties"
  "FREENAS_ISCSI_TARGETTOEXTENT_ID_PROPERTY_NAME \<in> set asset_properties" "FREENAS_ISCSI_ASSETS_NAME_PROPERTY_NAME \<in> set asset_properties"
  "FREENAS_NVMEOF_SUBSYSTEM_ID_PROPERTY_NAME \<in> set asset_properties" "FREENAS_NVMEOF_NAMESPACE_ID_PROPERTY_NAME \<in> set asset_properties"
  "FREENAS_NVMEOF_ASSETS_NAME_PROPERTY_NAME \<in> set asset_properties" "SHARE_VOLUME_CONTEXT_PROPERTY_NAME \<in> set asset_properties"
  by (simp_all add: asset_properties_def)

lemma adds_store: "p \<in> set asset_properties \<Longrightarrow> adds unmarked (store A d p v)"
  and adds_store_id: "p \<in> set asset_properties \<Longrightarrow> adds unmarked (store_id A d p asset)"
  unfolding store_id_def store_def by (intro wp_intro adds_DatasetSet other_asset; assumption)+

lemmas unmarked_intro = wp_intro asks_unmarked unmarked_verbs asset_member adds_store adds_store_id adds_retried

lemma adds_adopt: "p \<in> set asset_properties \<Longrightarrow> padds unmarked (adopt_share A endpoint p f d)"
  unfolding adopt_share_def by (intro unmarked_intro; assumption)

lemma padds_share_nfs: "padds unmarked (nas_share_nfs A V req d)"
  unfolding nas_share_nfs_def store_nfs_share_def Let_def
  by (intro unmarked_intro adds_adopt)

lemma padds_share_smb: "padds unmarked (nas_share_smb A V req d)"
  unfolding nas_share_smb_def store_smb_share_def Let_def
  by (intro unmarked_intro adds_adopt)

lemma padds_made: "padds unmarked (made_resource A kind endpoint success data there match)"
  unfolding made_resource_def by (intro unmarked_intro)

lemma adds_with_groups: "adds unmarked (with_groups A groups name target)"
proof -
  have "set_body [(SUCCESS_PROPERTY_NAME, Str ''true'')] \<noteq> [(''groups'', x)]" for x
  proof
    assume "set_body [(SUCCESS_PROPERTY_NAME, Str ''true'')] = [(''groups'', x)]"
    from arg_cong [OF this, of "\<lambda>b. obj_get b ''user_properties_update''"] show False
      unfolding set_body_update by (simp add: getPropertiesKeyValueArray_def obj_get_def)
  qed
  then have "unmarked (request ''PUT'' t (inner_obj (Obj [(''groups'', Arr groups)])))" for t
    by (auto simp: is_mark_def request_put_inject dest: sym)
  then show ?thesis unfolding with_groups_def check_name_def by (intro unmarked_intro)
qed

lemma padds_share_iscsi: "padds unmarked (nas_share_iscsi A V req d)"
  unfolding nas_share_iscsi_def iscsi_checks_def check_disk_name_def getMaxZvolNameLength_api_def iscsi_basename_def iscsi_assets_v1_def
    iscsi_assets_v2_def iscsi_target_v2_def iscsi_extent_v2_def iscsi_mapping_v2_def check_name_def Let_def case_prod_beta
  by (intro unmarked_intro padds_made adds_with_groups)

lemma padds_share_nvmeof: "adds unmarked (nas_share_nvmeof A V req d)"
  unfolding nas_share_nvmeof_def check_disk_name_def getMaxZvolNameLength_api_def nvmeof_available_def nvmeof_subsystem_def nvmeof_namespace_def
    NvmetSubsysCreate_def NvmetSubsysGetByName_def NvmetNamespaceCreate_def NvmetNamespaceGetByDeivcePath_def NvmetPortSubsysCreate_def
    NvmetPortSubsysList_def Let_def case_prod_beta
  by (intro unmarked_intro) (auto intro!: unmarked_intro split: js.split list.split bool.split)

lemma padds_createShare: "padds unmarked (nas_createShare A req d)"
  unfolding nas_createShare_def by (intro unmarked_intro padds_share_nfs padds_share_smb padds_share_iscsi padds_share_nvmeof)

section \<open>The volume\<close>

lemma adds_create_checks_nas: "adds unmarked (nas_create_checks A req)"
  unfolding nas_create_checks_def nas_check_existing_def check_disk_name_def getMaxZvolNameLength_api_def Let_def
  by (intro unmarked_intro)

lemma nas_checks_names: "outcome (nas_create_checks A req) (Inr pl) \<Longrightarrow> has_names (np_properties pl)"
  by (auto simp: outcome_def nas_create_checks_def Let_def run_Inr dest!: volume_properties_names)

lemma adds_requests: "adds unmarked (SnapshotCreate C s data)" "adds unmarked (SnapshotDelete C s data)" "adds unmarked (CloneCreate C s d data)"
  "adds unmarked (ReplicationRunOnetime C x)" "adds unmarked (DatasetCreate C d data)" "adds unmarked (FilesystemSetperm C x)"
  "adds unmarked (FilesystemChown C x)"
  unfolding SnapshotCreate_def SnapshotDelete_def CloneCreate_def ReplicationRunOnetime_def DatasetCreate_def FilesystemSetperm_def
    FilesystemChown_def by (intro unmarked_intro)+

lemma padds_removeSnapshots: "padds unmarked (removeSnapshots_api A d)"
proof -
  have "adds unmarked (destroy_each C d)" for C
    unfolding destroy_each_def by (intro unmarked_intro) (auto intro!: unmarked_intro adds_requests split: js.split)
  then show ?thesis unfolding removeSnapshots_api_def DatasetDestroySnapshots_def by (intro unmarked_intro)
qed

lemma padds_replicate: "padds unmarked (replicate_snapshot A s d)"
  unfolding replicate_snapshot_def by (intro unmarked_intro adds_requests)

lemma padds_ignoring: "padds P m \<Longrightarrow> padds P (ignoring_received m)"
  unfolding ignoring_received_def by (intro wp_intro)

lemma padds_create_dataset:
  assumes "has_names (np_properties pl)"
  shows "padds unmarked (nas_create_dataset A req pl)"
  unfolding nas_create_dataset_def nas_from_snapshot_def nas_from_volume_def nas_new_dataset_def nas_clone_def gone_as_def Let_def
  by (intro unmarked_intro adds_requests padds_removeSnapshots padds_replicate padds_ignoring adds_DatasetSet other_names has_names_set assms)

lemma padds_setup: "padds unmarked (nas_setup A pl)"
  unfolding nas_setup_def nas_setup_filesystem_def set_permissions_def wait_for_job_def Let_def
  by (intro unmarked_intro adds_requests adds_DatasetSet other_setup)

section \<open>The last request\<close>

text \<open>A program whose events are unmarked up to the last one, which is a mark when it succeeds.\<close>

definition mark_ends :: "('e world, 'a) pio \<Rightarrow> bool" where
  "mark_ends m \<longleftrightarrow> (\<forall>w r w'. m w = Some (r, w') \<longrightarrow>
     (\<exists>es. hist w' = hist w @ es \<and> filter is_mark (butlast es) = [] \<and> (isl r \<or> es \<noteq> [] \<and> is_mark (last es))))"

lemma mark_ends_bind:
  assumes "padds unmarked m" and "\<And>x. poutcome m (Inr x) \<Longrightarrow> mark_ends (f x)"
  shows "mark_ends (pbind m f)"
  unfolding mark_ends_def
proof (intro allI impI)
  fix w r w'
  assume run: "pbind m f w = Some (r, w')"
  then obtain r1 w1 where 1: "m w = Some (r1, w1)" by (auto simp: pbind_def split: option.splits)
  obtain es where es: "hist w1 = hist w @ es" "filter is_mark es = []"
    using paddsD [OF assms(1) 1] by (auto simp: list_all_iff filter_empty_conv)
  show "\<exists>es. hist w' = hist w @ es \<and> filter is_mark (butlast es) = [] \<and> (isl r \<or> es \<noteq> [] \<and> is_mark (last es))"
  proof (cases r1)
    case (Inl e)
    have "filter is_mark (butlast es) = []" using es(2) by (auto simp: filter_empty_conv dest: in_set_butlastD)
    with run 1 es Inl show ?thesis by (intro exI [of _ es]) (auto simp: pbind_def)
  next
    case (Inr x)
    with 1 have "poutcome m (Inr x)" by (auto simp: poutcome_def)
    moreover have "f x w1 = Some (r, w')" using run 1 Inr by (simp add: pbind_def)
    ultimately obtain fs where "hist w' = hist w1 @ fs" "filter is_mark (butlast fs) = []" "isl r \<or> fs \<noteq> [] \<and> is_mark (last fs)"
      using assms(2) unfolding mark_ends_def by blast
    with es show ?thesis
      by (intro exI [of _ "es @ fs"]) (auto simp: butlast_append filter_empty_conv dest: in_set_butlastD)
  qed
qed

lemma mark_run:
  assumes "andthen (DatasetSet C d [(SUCCESS_PROPERTY_NAME, Str ''true'')]) (ret x) w = (r, w')"
  shows "\<exists>es. hist w' = hist w @ es \<and> filter is_mark (butlast es) = [] \<and> (isl r \<or> es \<noteq> [] \<and> is_mark (last es))"
proof (cases "dataset_endpoint d")
  case (Inl e)
  with assms show ?thesis by (auto simp: andthen_def DatasetSet_def bind_def lift_def)
next
  case (Inr e)
  obtain r1 w1 where p: "http_put C e (Obj (set_body [(SUCCESS_PROPERTY_NAME, Str ''true'')])) w = (r1, w1)" by force
  then obtain e' where h: "hist w1 = hist w @ [request ''PUT'' e' (set_body [(SUCCESS_PROPERTY_NAME, Str ''true'')])]"
    unfolding http_put_def http_send_def getApiVersion_def Let_def request_def by (auto simp: bind_def perform_def case_prod_beta)
  have "w' = w1"
    using assms Inr p unfolding DatasetSet_def set_body_def [symmetric]
    by (auto simp: andthen_def bind_def lift_def ok_def ok_body_def ret_def throw_def split: prod.splits sum.splits if_splits)
  then show ?thesis using h by (intro exI [of _ "[request ''PUT'' e' (set_body [(SUCCESS_PROPERTY_NAME, Str ''true'')])]"]) (auto simp: is_mark_def)
qed

lemma marked_finish: "mark_ends (total (nas_finish A req pl ctx))"
proof -
  let ?C = "na_client A" and ?d = "np_dataset pl"
  have "mark_ends (total (andthen (DatasetSet ?C ?d [(SUCCESS_PROPERTY_NAME, Str ''true'')]) (ret x)))" for x :: js
    unfolding mark_ends_def using mark_run by (auto simp: total_Some)
  moreover have "padds unmarked (total (DatasetSet ?C ?d [(SHARE_VOLUME_CONTEXT_PROPERTY_NAME, v)]))" for v
    by (intro wp_intro adds_DatasetSet other_asset asset_member)
  ultimately show ?thesis unfolding nas_finish_def andthen_def [of "DatasetSet _ _ [(SHARE_VOLUME_CONTEXT_PROPERTY_NAME, _)]"] total_bind
    by (intro mark_ends_bind)
qed


section \<open>A witness\<close>

declare replication_rounds.simps [code]

lemma search_code [code]:
  "findResourceByProperties C endpoint m w = (case m of NoMatch \<Rightarrow> Some (Inr Undef, w) | ByProperties [] \<Rightarrow> Some (Inr Undef, w)
     | _ \<Rightarrow> search_pages C endpoint (resource_matches m) 0 None Undef w)"
  by (simp add: findResourceByProperties_def total_def ret_def split: resource_match.split list.split)


lemmas creation_run [code] =
  nas_create_checks_def [THEN fun_cong] nas_check_existing_def [THEN fun_cong] nas_new_dataset_def [THEN fun_cong]
  nas_create_dataset_def [THEN fun_cong] nas_setup_def [THEN fun_cong] nas_setup_filesystem_def [THEN fun_cong]
  set_permissions_def [THEN fun_cong] wait_for_job_def [THEN fun_cong] nas_createShare_def [THEN fun_cong] nas_share_nfs_def [THEN fun_cong]
  store_nfs_share_def [THEN fun_cong] nas_finish_def [THEN fun_cong] nas_CreateVolume_def [THEN fun_cong] DatasetGet_def [THEN fun_cong]
  DatasetSet_def [THEN fun_cong] DatasetCreate_def [THEN fun_cong] nas_versions_def [THEN fun_cong] store_def [THEN fun_cong]
  store_id_def [THEN fun_cong] retried_def [THEN fun_cong] adopt_share_def [THEN fun_cong]

definition creation_sample :: "((exn + js) \<times> (nat \<times> js) world) option" where
  "creation_sample = nas_CreateVolume (nas_driver_sample []) (sample_create (Obj [(''required_bytes'', Num (IntN 8))])) nas_start"

lemma creation_returns: "case creation_sample of Some (Inr _, _) \<Rightarrow> True | _ \<Rightarrow> False"
  by code_simp


end
