(* ===== verification/Spec2Isabelle.thy ===== *)
theory Spec2Isabelle
  imports Volume_Lifecycle Snapshot_Lifecycle Volume_Creation Zpool Operation_Lock General
    Reaper_Passes Reaper_Timers Node_Db_Sweeper Node_Expand Stage_Safety Objectivefs_Controller Client_Properties Generic_Properties
    Ssh_Properties Synology_Properties Registry Freenas_Properties Inline_Properties Freenas_Creation
begin

text \<open>
  A verification library for democratic-csi, a driver of the Container Storage Interface (CSI) that
  provides volumes from ZFS hosts, network shares, ObjectiveFS, Synology and TrueNAS appliances. All paths are below \<open>src/\<close>, the
  copy of the repository.

  \<^bold>\<open>The program.\<close> \<open>bin/democratic-csi\<close> serves the CSI calls through a request proxy that serializes
  requests on the same volume with the table of \<open>src/utils/operation_lock.js\<close>. A driver is a class
  derived from \<open>CsiBaseDriver\<close> (\<open>src/driver/index.js\<close>), which holds the node service; the derived
  classes hold the controller service. On the controller side, \<open>src/driver/controller-zfs/index.js\<close>
  talks to ZFS through \<open>src/utils/zfs.js\<close>, and leaves the network share of a dataset to derived
  drivers. On the node side, the service uses \<open>src/utils/iscsi.js\<close>, \<open>nvmeof.js\<close>, \<open>filesystem.js\<close>
  and \<open>mount.js\<close>, and two background tasks clean up after it: a reaper of stale iSCSI sessions
  and a sweep over the records of the iSCSI node database.

  \<^bold>\<open>How it is modelled.\<close> JavaScript values are \<open>js\<close> (\<open>JS_Values\<close>), strings are lists of characters
  (\<open>JS_Strings\<close>), JSON is \<open>Json\<close> and \<open>URLSearchParams\<close> is \<open>Url_Params\<close>. A function without
  effects returns a value, or \<open>exn + 'a\<close> when it can throw. An asynchronous function is a program
  \<open>('e world, 'a) io\<close> (\<open>Effects\<close>): from a world to an outcome and the next world. The world has the
  state of everything outside the repository and the history of the calls made to it, which no program
  reads: it is what the theorems speak of. A loop that may run forever makes a program of
  \<open>Partial_Effects\<close>, whose value None is a run that never settles; there are six such loops: the walk
  over the parents of a block device, the search over the pages of a listing, and the waits for a device node,
  for a device of the storage host, for a job of an appliance and for a replication.
  Code whose callbacks interleave is a step relation: the request proxy, the timers of the reaper, and the
  commands over ssh.
  What the code does not define is a parameter: the child processes, files, clock and names of
  a machine (\<open>Host\<close>, and \<open>zb_spawn\<close> for the ZFS host), the packages lodash, handlebars, js-yaml,
  semver, uri-js, uuid and lru-cache, the Kubernetes API, \<open>fs\<close> in the records of the drivers, and the
  methods of derived drivers. The only laws that theorems assume of a parameter are stated as such: those
  of lodash on JSON values (\<open>Driver_Options\<close>), that the parents of block devices form no cycle, that
  the clock is not set back, and what a single answer of the host was. Every such theorem has a witness with a
  concrete parameter.

  \<^bold>\<open>Requests and options.\<close> \<open>Operation_Lock\<close> models the lock table and the proxy as a step relation
  (begin, refuse, end, clock): running requests that share a key exclude each other unless a
  lock is older than its maximum. The interface of a lock table is the locale \<open>keyed_lock\<close>, interpreted
  on the table of the code; \<open>keyed_table\<close> is that of JavaScript objects. \<open>General\<close> has \<open>src/utils/general.js\<close>
  with its retry loop. \<open>Request_Ids\<close> has the validators of ids, \<open>Driver_Options\<close> the normalized parameters and
  the option overlays: what an overlay can change.

  \<^bold>\<open>ZFS controller.\<close> \<open>Zetabyte_Helpers\<close>, \<open>Zetabyte\<close> and \<open>Zpool\<close> model \<open>src/utils/zfs.js\<close>: quoting, which
  a POSIX shell reads back, parsers, and the argument vector of every sub-command.
  \<open>Controller_Base\<close>, \<open>Clone_Properties\<close>, \<open>Controller_Create\<close>, \<open>Controller_Volumes\<close> and
  \<open>Controller_Snapshots\<close> model \<open>src/driver/controller-zfs/index.js\<close>, one definition per step of a handler.
  \<open>Histories\<close> tells what a call adds to the history. \<open>Volume_Creation\<close>, \<open>Volume_Lifecycle\<close> and
  \<open>Snapshot_Lifecycle\<close> have the properties over whole runs: the order of share and success mark, what a
  deletion may touch, what a clone inherits, and the bounds of a capacity. The client of \<open>zfs.js\<close> for a
  remote host is \<open>Ssh_Client\<close> (\<open>src/utils/zfs_ssh_exec_client.js\<close>): a state machine over a connection that
  may end at any time. \<open>Ssh_Properties\<close> shows its invariant: every command settles once, none hangs, and
  each connection has a client of its own. \<open>Zfs_Generic\<close> models the shares of
  \<open>src/driver/controller-zfs-generic/index.js\<close> (NFS, SMB, and iSCSI and NVMe-oF through the scripts of
  five tools), and \<open>Generic_Properties\<close> shows that an announced target was seen, that a deletion
  finds the target that was created, and that secrets are kept out of the log.

  \<^bold>\<open>Other controllers.\<close> \<open>Objectivefs\<close> and \<open>Objectivefs_Controller\<close> model ObjectiveFS and its controller;
  \<open>Backup_Tools\<close> (restic, kopia), \<open>Client_Common\<close> and \<open>Client_Snapshots\<close> the controllers for shares that
  the controller has mounted (NFS, SMB, Lustre, local paths). \<open>Client_Properties\<close> shows which directories
  they remove, when they copy, and what becomes of the ids they hand out. \<open>Synology_Http\<close> models the web
  client of a Synology appliance with its session, \<open>Synology\<close> the controller over it;
  \<open>Synology_Properties\<close> shows that a deletion is complete, where a LUN is announced, and how a session
  is renewed. \<open>Registry\<close> is the table of shared instances. \<open>Freenas_Http\<close> models the web client of a FreeNAS
  or TrueNAS appliance and the calls of its API (\<open>src/driver/freenas/http\<close>); \<open>Freenas_Properties\<close> shows that a
  search over the pages of a listing is a search, that the wait for a job ends, that a namespace belongs to
  its subsystem, and that no credential is logged. \<open>Freenas_Shares\<close>, \<open>Freenas_Controller\<close> and
  \<open>Freenas_Snapshots\<close> model the controller over this API (\<open>src/driver/freenas/api.js\<close>): the shares for both
  versions of the API, volumes and their copies by clone or replication, queries and snapshots. Where its
  code is that of the ZFS controller, so are the definitions. \<open>Freenas_Deletion\<close> shows what the deletion of
  a volume can change, that an asset whose id was given to another one is left alone, and when the wait for a
  replication ends; \<open>Freenas_Creation\<close> shows when a volume is marked as provisioned.

  \<^bold>\<open>Node service.\<close> \<open>Filesystem\<close>, \<open>Partitions\<close>, \<open>Mount_Points\<close>, \<open>Nvmeof\<close>, \<open>Iscsiadm\<close>, \<open>Iscsi_Details\<close> and
  \<open>Iscsi_Commands\<close> model the utilities. \<open>Session_Reaper\<close> and \<open>Reaper_Timers\<close> model the reaper, with
  \<open>Reaper_Passes\<close> for what a pass may do and how its table refines the specification of a timer;
  \<open>Node_Db_Sweeper\<close> the sweep. \<open>Node_Driver\<close> has the instances and capabilities of the service,
  \<open>Iscsi_Reclaim\<close> the end of sessions, \<open>Stage_Attach\<close> and \<open>Node_Stage\<close> \<open>NodeStageVolume\<close>,
  \<open>Node_Unstage\<close>, \<open>Node_Publish\<close> and \<open>Node_Expand\<close> the other calls. \<open>Node_Commands\<close> says
  which of their commands only read. \<open>Stage_Safety\<close> and \<open>Unstage_Safety\<close> show that a device is only
  formatted when it was found blank, what is mounted or unmounted after a success, when force is
  used, and that the calls return.

  \<^bold>\<open>Drivers without a controller.\<close> \<open>Inline_Drivers\<close> models the drivers that make the volume of a pod when it
  is published, from a dataset or from an image of containerd (with \<open>src/utils/ctr.js\<close>), and the driver that
  only runs the node service. \<open>Inline_Properties\<close> shows what an unpublish removes and when, and which
  of the properties of a dataset wins.

  \<^bold>\<open>Bounds.\<close> Numbers are integers or NaN, exact for the byte counts and ids of the code below \<open>2 ^ 53\<close>.
  Inputs outside the modelled fragment of JavaScript (fractions, text beyond one byte, hexadecimal
  numerals) end a run with the error \<open>Unmodelled\<close>, which no handler of the code catches; no theorem claims a success
  for them. No definition uses fuel except the parser of JSON, which gets the length of its
  input and needs at most one step for each character.

  \<^bold>\<open>Not modelled.\<close> The Windows and csi-proxy branches (\<open>src/utils/windows.js\<close>, PowerShell, the driver for
  virtual disks); the share methods of FreeNAS and TrueNAS over ssh (\<open>src/driver/freenas/ssh.js\<close>), which repeat
  those over the API; logging, gRPC and argument parsing. They are calls of
  a network API or of a package whose answers decide what happens, or pure input and output. Of the web
  clients the agents and mutexes are left out, as is the cache of instances in the drivers.
\<close>

end
